(* ===== verification/Netdisk_Prelude.thy ===== *)
theory Netdisk_Prelude
  imports Main "HOL-Library.Word"
begin

text \<open>
  Shared vocabulary of the development: the machine integer widths, the exceptions a C++ function of
  the program can raise, the replace-or-append loop that every keyed container of the program uses,
  the decimal text of \<open>std::to_string\<close> and \<open>std::stoull\<close>, and the interface \<open>keyed_table\<close> that the
  clients of a keyed container rely on. Everything here is generic; the other theories instantiate it.
\<close>

section \<open>Widths, strings and exceptions\<close>

type_synonym u8 = "8 word"
type_synonym u32 = "32 word"
type_synonym u64 = "64 word"
type_synonym bytes = "8 word list"
type_synonym path = string

text \<open>
  An exception is a value of the sum type: \<open>Inl\<close> for a raised exception, \<open>Inr\<close> for a result.
  \<open>what\<close> is the text handlers read with \<open>ex.what()\<close>. For the exceptions thrown by the standard library
  itself the text is the one the library passes; only its being an exception matters to the callers.
\<close>

datatype exn =
    RuntimeError string
  | InvalidArgument string
  | OutOfRange string
  | FilesystemError string

fun what :: "exn \<Rightarrow> string" where
  "what (RuntimeError m) = m"
| "what (InvalidArgument m) = m"
| "what (OutOfRange m) = m"
| "what (FilesystemError m) = m"

type_synonym 'a result = "exn + 'a"

abbreviation (input) throw :: "exn \<Rightarrow> 'a result" where
  "throw e \<equiv> Inl e"

definition bind_result :: "'a result \<Rightarrow> ('a \<Rightarrow> 'b result) \<Rightarrow> 'b result" where
  "bind_result r k = (case r of Inl e \<Rightarrow> Inl e | Inr x \<Rightarrow> k x)"

lemma bind_result_simps [simp]:
  "bind_result (Inl e) k = Inl e"
  "bind_result (Inr x) k = k x"
  by (simp_all add: bind_result_def)

lemma bind_result_Inr_iff:
  "bind_result r k = Inr y \<longleftrightarrow> (\<exists>x. r = Inr x \<and> k x = Inr y)"
  by (cases r) auto

section \<open>Replace the first match or append\<close>

text \<open>
  The loop shared by every \<open>Upsert...\<close> of the program:
  \<^verbatim>\<open>
    for (auto &current : rows) { if (match(current)) { current = x; return; } }
    rows.push_back(x);
  \<close>
\<close>

fun upsert_by :: "('a \<Rightarrow> bool) \<Rightarrow> 'a \<Rightarrow> 'a list \<Rightarrow> 'a list" where
  "upsert_by match x [] = [x]"
| "upsert_by match x (y # ys) = (if match y then x # ys else y # upsert_by match x ys)"

text \<open>The collection of facts about reading a container after a write.\<close>

named_theorems table_simps

lemma find_upsert_by_key [table_simps]:
  "find (\<lambda>y. key y = k) (upsert_by (\<lambda>y. key y = key x) x ys) =
     (if k = key x then Some x else find (\<lambda>y. key y = k) ys)"
  by (induction ys) auto

lemma set_upsert_by_key:
  "distinct (map key ys) \<Longrightarrow>
     set (upsert_by (\<lambda>y. key y = key x) x ys) = insert x {y \<in> set ys. key y \<noteq> key x}"
  by (induction ys) (auto simp: image_iff)

lemma keys_upsert_by:
  "map key (upsert_by (\<lambda>y. key y = key x) x ys) =
     (if key x \<in> key ` set ys then map key ys else map key ys @ [key x])"
  by (induction ys) auto

lemma distinct_upsert_by_key:
  "distinct (map key ys) \<Longrightarrow> distinct (map key (upsert_by (\<lambda>y. key y = key x) x ys))"
  by (auto simp: keys_upsert_by)

lemma upsert_by_cong: "(\<And>y. y \<in> set ys \<Longrightarrow> P y = Q y) \<Longrightarrow> upsert_by P x ys = upsert_by Q x ys"
  by (induction ys) auto

lemma in_image_drop: "k \<in> f ` set (drop (Suc i) xs) \<longleftrightarrow> (\<exists>j. i < j \<and> j < length xs \<and> f (xs ! j) = k)"
proof
  assume "k \<in> f ` set (drop (Suc i) xs)"
  then obtain d where "d < length xs - Suc i" "k = f (xs ! (Suc i + d))" by (auto simp: in_set_conv_nth)
  then show "\<exists>j. i < j \<and> j < length xs \<and> f (xs ! j) = k" by (intro exI [of _ "Suc i + d"]) auto
next
  assume "\<exists>j. i < j \<and> j < length xs \<and> f (xs ! j) = k"
  then obtain j where j: "i < j" "j < length xs" "f (xs ! j) = k" by blast
  then have "drop (Suc i) xs ! (j - Suc i) = xs ! j" "j - Suc i < length (drop (Suc i) xs)" by simp_all
  then have "xs ! j \<in> set (drop (Suc i) xs)" by (metis nth_mem)
  then show "k \<in> f ` set (drop (Suc i) xs)" using j(3) by blast
qed

lemma length_upsert_by:
  "length (upsert_by match x ys) = (if \<exists>y \<in> set ys. match y then length ys else Suc (length ys))"
  by (induction ys) auto

lemma set_upsert_by_subset: "set (upsert_by match x ys) \<subseteq> insert x (set ys)"
  by (induction ys) auto

lemma upsert_by_in [simp, intro]: "x \<in> set (upsert_by match x ys)"
  by (induction ys) auto

lemma find_key_eq_Some: "find (\<lambda>y. key y = k) ys = Some y \<Longrightarrow> y \<in> set ys \<and> key y = k"
  by (induction ys) (auto split: if_splits)

lemma find_key_unique:
  "distinct (map key ys) \<Longrightarrow> find (\<lambda>y. key y = k) ys = Some y \<longleftrightarrow> y \<in> set ys \<and> key y = k"
  by (induction ys) (auto simp: image_iff)

text \<open>The loop \<open>for (...) if (match(current)) { current.field = ...; return Ok; } return NotFound\<close>.\<close>

fun update_first :: "('a \<Rightarrow> bool) \<Rightarrow> ('a \<Rightarrow> 'a) \<Rightarrow> 'a list \<Rightarrow> 'a list option" where
  "update_first match f [] = None"
| "update_first match f (y # ys) =
     (if match y then Some (f y # ys) else map_option ((#) y) (update_first match f ys))"

lemma update_first_None: "update_first match f ys = None \<longleftrightarrow> (\<forall>y \<in> set ys. \<not> match y)"
  by (induction ys) auto

lemma update_first_find:
  assumes "\<And>y. key (f y) = key y" and "update_first (\<lambda>y. key y = k) f ys = Some zs"
  shows "find (\<lambda>y. key y = j) zs =
     (if j = k then map_option f (find (\<lambda>y. key y = k) ys) else find (\<lambda>y. key y = j) ys)"
  using assms(2) by (induction ys arbitrary: zs) (auto simp: assms(1) split: if_splits)

section \<open>Keyed containers\<close>

text \<open>
  What a client of a keyed container relies on: writing a row makes exactly that row readable under
  its key and leaves every other key alone, and the listing holds one row per key. The in-memory
  tables, the relational tables and the services with private vectors all provide it.
\<close>

locale keyed_table =
  fixes key :: "'r \<Rightarrow> 'k"
    and rows :: "'s \<Rightarrow> 'r list"
    and get :: "'s \<Rightarrow> 'k \<Rightarrow> 'r option"
    and upsert :: "'r \<Rightarrow> 's \<Rightarrow> 's"
    and inv :: "'s \<Rightarrow> bool"
  assumes get_upsert: "inv s \<Longrightarrow> get (upsert r s) k = (if k = key r then Some r else get s k)"
    and get_rows: "inv s \<Longrightarrow> get s k = Some r \<longleftrightarrow> r \<in> set (rows s) \<and> key r = k"
    and distinct_rows: "inv s \<Longrightarrow> distinct (map key (rows s))"
    and inv_upsert: "inv s \<Longrightarrow> inv (upsert r s)"
begin

lemma get_key: "inv s \<Longrightarrow> get s k = Some r \<Longrightarrow> key r = k"
  using get_rows by blast

lemma get_None: "inv s \<Longrightarrow> get s k = None \<longleftrightarrow> k \<notin> key ` set (rows s)"
proof -
  assume "inv s"
  then have "(\<exists>r. get s k = Some r) \<longleftrightarrow> k \<in> key ` set (rows s)"
    by (auto simp: get_rows)
  then show ?thesis by (cases "get s k") auto
qed

lemma set_rows_upsert:
  assumes "inv s"
  shows "set (rows (upsert r s)) = insert r {x \<in> set (rows s). key x \<noteq> key r}"
proof -
  have "x \<in> set (rows (upsert r s)) \<longleftrightarrow> get (upsert r s) (key x) = Some x" for x
    using get_rows [OF inv_upsert [OF assms]] by blast
  then show ?thesis
    using get_rows [OF assms] by (auto simp: get_upsert [OF assms] split: if_splits)
qed

lemma length_rows_upsert:
  assumes "inv s"
  shows "length (rows (upsert r s)) =
    (if get s (key r) = None then Suc (length (rows s)) else length (rows s))"
proof -
  let ?K = "key ` set (rows s)"
  have "length (rows (upsert r s)) = card (key ` set (rows (upsert r s)))"
    using distinct_card [OF distinct_rows [OF inv_upsert [OF assms]]] by simp
  moreover have "key ` set (rows (upsert r s)) = insert (key r) ?K"
    by (auto simp: set_rows_upsert [OF assms])
  moreover have "card ?K = length (rows s)"
    using distinct_card [OF distinct_rows [OF assms]] by simp
  ultimately show ?thesis
    by (simp add: get_None [OF assms] card_insert_if)
qed

lemma upsert_twice:
  "inv s \<Longrightarrow> key r' = key r \<Longrightarrow> get (upsert r' (upsert r s)) k = get (upsert r' s) k"
  by (simp add: get_upsert inv_upsert)

lemma upsert_commute:
  "inv s \<Longrightarrow> key r \<noteq> key r' \<Longrightarrow>
     get (upsert r (upsert r' s)) k = get (upsert r' (upsert r s)) k"
  by (simp add: get_upsert inv_upsert)

text \<open>The read-modify-write of a service: the row is changed, its key is not, no row appears.\<close>

lemma modify_existing:
  assumes "inv s" and "get s k = Some r" and "key r' = key r"
  shows "get (upsert r' s) k = Some r'"
    and "j \<noteq> k \<Longrightarrow> get (upsert r' s) j = get s j"
    and "length (rows (upsert r' s)) = length (rows s)"
    and "inv (upsert r' s)"
  using assms get_key [OF assms(1,2)]
  by (simp_all add: get_upsert inv_upsert length_rows_upsert)

end

end
