(* ===== verification/Std_Text.thy ===== *)
theory Std_Text
  imports Netdisk_Prelude
begin

text \<open>
  What the program uses of the C++ library on text: \<open>std::to_string\<close> on unsigned values,
  \<open>std::stoull\<close> and \<open>std::stoul\<close> (leading blanks, an optional sign, digits, trailing text ignored,
  range check), \<open>std::string::find\<close> of a character, \<open>std::getline\<close> with a delimiter and the blank
  separated extraction of \<open>operator>>\<close>. The lemmas are the round trips the protocols rest on.
\<close>

section \<open>Characters and bytes\<close>

definition byte_of_char :: "char \<Rightarrow> u8" where
  "byte_of_char c = word_of_nat (of_char c)"

definition char_of_byte :: "u8 \<Rightarrow> char" where
  "char_of_byte b = char_of (unat b)"

lemma char_of_byte_inverse [simp]: "char_of_byte (byte_of_char c) = c"
  using of_char_mod_256 [of c, where 'a = nat]
  by (simp add: byte_of_char_def char_of_byte_def unsigned_of_nat take_bit_eq_mod)

lemma byte_of_char_inverse [simp]: "byte_of_char (char_of_byte b) = b"
  using unsigned_less [of b, where 'a = nat] by (simp add: byte_of_char_def char_of_byte_def)

lemma char_byte_inverse [simp]:
  "map char_of_byte (map byte_of_char s) = s"
  "map byte_of_char (map char_of_byte bs) = bs"
  by (simp_all add: comp_def)

section \<open>Decimal numbers\<close>

definition digit_char :: "nat \<Rightarrow> char" where
  "digit_char n = char_of (48 + n)"

definition is_digit :: "char \<Rightarrow> bool" where
  "is_digit c \<longleftrightarrow> 48 \<le> (of_char c :: nat) \<and> (of_char c :: nat) \<le> 57"

definition digit_value :: "char \<Rightarrow> nat" where
  "digit_value c = of_char c - 48"

lemma of_digit_char: "n < 10 \<Longrightarrow> (of_char (digit_char n) :: nat) = 48 + n"
  by (simp add: digit_char_def)

lemma is_digit_digit_char [simp]: "n < 10 \<Longrightarrow> is_digit (digit_char n)"
  by (simp add: is_digit_def of_digit_char)

lemma digit_value_digit_char [simp]: "n < 10 \<Longrightarrow> digit_value (digit_char n) = n"
  by (simp add: digit_value_def of_digit_char)

fun to_string :: "nat \<Rightarrow> string" where
  "to_string n = (if n < 10 then [digit_char n] else to_string (n div 10) @ [digit_char (n mod 10)])"

declare to_string.simps [simp del]

definition to_string_u64 :: "u64 \<Rightarrow> string" where
  "to_string_u64 w = to_string (unat w)"

lemma to_string_digits: "c \<in> set (to_string n) \<Longrightarrow> is_digit c"
proof (induction n rule: to_string.induct)
  case (1 n)
  then show ?case
    by (cases "n < 10") (auto simp: to_string.simps [of n])
qed

lemma to_string_nonempty [simp]: "to_string n \<noteq> []"
  by (subst to_string.simps) simp

fun parse_digits :: "nat \<Rightarrow> string \<Rightarrow> nat" where
  "parse_digits acc [] = acc"
| "parse_digits acc (c # cs) = parse_digits (acc * 10 + digit_value c) cs"

lemma parse_digits_snoc: "parse_digits acc (cs @ [c]) = parse_digits acc cs * 10 + digit_value c"
  by (induction cs arbitrary: acc) auto

lemma parse_digits_to_string: "parse_digits 0 (to_string n) = n"
proof (induction n rule: to_string.induct)
  case (1 n)
  show ?case
  proof (cases "n < 10")
    case True
    then show ?thesis by (simp add: to_string.simps [of n])
  next
    case False
    then have "parse_digits 0 (to_string n) = n div 10 * 10 + n mod 10"
      using 1 by (simp add: to_string.simps [of n] parse_digits_snoc)
    then show ?thesis by simp
  qed
qed

lemma to_string_inject: "to_string m = to_string n \<longleftrightarrow> m = n"
  by (metis parse_digits_to_string)

definition is_space :: "char \<Rightarrow> bool" where
  "is_space c \<longleftrightarrow> c = CHR '' '' \<or> (9 \<le> (of_char c :: nat) \<and> (of_char c :: nat) \<le> 13)"

lemma digit_not_space: "is_digit c \<Longrightarrow> \<not> is_space c"
  by (auto simp: is_digit_def is_space_def)

text \<open>
  \<open>std::stoull(text)\<close> in base 10, on top of \<open>strtoull\<close>: a leading minus sign is accepted and negates
  the value modulo \<open>2^64\<close>, as \<open>strtoull\<close> documents. \<open>std::stoul\<close> is the same function where
  \<open>unsigned long\<close> has 64 bits.
\<close>

definition stoull :: "string \<Rightarrow> u64 result" where
  "stoull text =
     (let body = dropWhile is_space text;
          negative = (case body of c # _ \<Rightarrow> c = CHR ''-'' | [] \<Rightarrow> False);
          rest = (case body of c # cs \<Rightarrow> if c = CHR ''-'' \<or> c = CHR ''+'' then cs else body | [] \<Rightarrow> []);
          digits = takeWhile is_digit rest;
          value = parse_digits 0 digits
      in if digits = [] then throw (InvalidArgument ''stoull'')
         else if 2 ^ 64 \<le> value then throw (OutOfRange ''stoull'')
         else Inr (if negative then - word_of_nat value else word_of_nat value))"

lemma stoull_digits:
  assumes "ds \<noteq> []" and "\<And>c. c \<in> set ds \<Longrightarrow> is_digit c" and "parse_digits 0 ds < 2 ^ 64"
  shows "stoull ds = Inr (word_of_nat (parse_digits 0 ds))"
proof -
  obtain c cs where ds: "ds = c # cs" using assms(1) by (cases ds) auto
  then have "is_digit c" using assms(2) by simp
  then have "c \<noteq> CHR ''-''" "c \<noteq> CHR ''+''" "\<not> is_space c"
    by (auto simp: is_digit_def digit_not_space)
  moreover have "takeWhile is_digit ds = ds"
    using assms(2) by (simp add: takeWhile_eq_all_conv)
  ultimately show ?thesis
    using assms(3) by (simp add: stoull_def ds Let_def)
qed

lemma stoull_to_string: "n < 2 ^ 64 \<Longrightarrow> stoull (to_string n) = Inr (word_of_nat n)"
  using stoull_digits [of "to_string n"] to_string_digits by (simp add: parse_digits_to_string)

lemma stoull_to_string_u64: "stoull (to_string_u64 w) = Inr w"
proof -
  have "unat w < 2 ^ 64" using unsigned_less [of w] by simp
  then show ?thesis by (simp add: to_string_u64_def stoull_to_string)
qed

section \<open>Searching a character\<close>

text \<open>\<open>buffer.find(c, from)\<close>: the least position at or after \<open>from\<close>, \<open>None\<close> for \<open>npos\<close>.\<close>

definition find_char :: "char \<Rightarrow> string \<Rightarrow> nat \<Rightarrow> nat option" where
  "find_char c buffer from =
     (let k = length (takeWhile (\<lambda>x. x \<noteq> c) (drop from buffer))
      in if from + k < length buffer then Some (from + k) else None)"

lemma find_char_append:
  "c \<notin> set mid \<Longrightarrow> find_char c (pre @ mid @ c # post) (length pre) = Some (length pre + length mid)"
proof -
  assume "c \<notin> set mid"
  then have "takeWhile (\<lambda>x. x \<noteq> c) (mid @ c # post) = mid"
    by (induction mid) auto
  then show ?thesis by (simp add: find_char_def)
qed

lemma find_char_None:
  "find_char c buffer from = None \<Longrightarrow> from \<le> i \<Longrightarrow> i < length buffer \<Longrightarrow> buffer ! i \<noteq> c"
proof -
  assume none: "find_char c buffer from = None" and i: "from \<le> i" "i < length buffer"
  then have "length (takeWhile (\<lambda>x. x \<noteq> c) (drop from buffer)) = length (drop from buffer)"
    using length_takeWhile_le [of "\<lambda>x. x \<noteq> c" "drop from buffer"]
    by (auto simp: find_char_def Let_def split: if_splits)
  then have "takeWhile (\<lambda>x. x \<noteq> c) (drop from buffer) = drop from buffer"
    using takeWhile_eq_take [of "\<lambda>x. x \<noteq> c" "drop from buffer"] by simp
  then have "\<forall>x \<in> set (drop from buffer). x \<noteq> c"
    by (simp add: takeWhile_eq_all_conv)
  moreover have "buffer ! i \<in> set (drop from buffer)"
    using i nth_mem [of "i - from" "drop from buffer"] by simp
  ultimately show ?thesis by blast
qed

lemma find_char_Some:
  "find_char c buffer from = Some i \<Longrightarrow> from \<le> i \<and> i < length buffer \<and> buffer ! i = c"
proof -
  assume some: "find_char c buffer from = Some i"
  let ?t = "takeWhile (\<lambda>x. x \<noteq> c) (drop from buffer)"
  have i: "i = from + length ?t" "i < length buffer"
    using some by (auto simp: find_char_def Let_def split: if_splits)
  then have "length ?t < length (drop from buffer)" by simp
  then have "drop from buffer ! length ?t = c"
    using nth_length_takeWhile [of "\<lambda>x. x \<noteq> c" "drop from buffer"] by simp
  then show ?thesis using i by simp
qed

section \<open>Lines and tokens\<close>

text \<open>
  \<open>while (std::getline(stream, part, d)) parts.push_back(part)\<close>: the text between delimiters; a final
  delimiter does not start an empty last part, and empty text has no part.
\<close>

function getlines :: "char \<Rightarrow> string \<Rightarrow> string list" where
  "getlines d s =
     (if s = [] then []
      else takeWhile (\<lambda>c. c \<noteq> d) s # getlines d (drop 1 (dropWhile (\<lambda>c. c \<noteq> d) s)))"
  by pat_completeness auto
termination
proof (relation "measure (\<lambda>(d, s). length s)")
  fix d :: char and s :: string
  assume "s \<noteq> []"
  moreover have "length (dropWhile (\<lambda>c. c \<noteq> d) s) \<le> length s" by (rule length_dropWhile_le)
  ultimately have "length (drop 1 (dropWhile (\<lambda>c. c \<noteq> d) s)) < length s"
    by (simp add: less_eq_Suc_le le_diff_conv flip: length_greater_0_conv)
  then show "((d, drop 1 (dropWhile (\<lambda>c. c \<noteq> d) s)), d, s) \<in> measure (\<lambda>(d, s). length s)"
    by simp
qed simp

declare getlines.simps [simp del]

lemma getlines_Nil [simp]: "getlines d [] = []"
  by (simp add: getlines.simps)

lemma getlines_last: "d \<notin> set p \<Longrightarrow> p \<noteq> [] \<Longrightarrow> getlines d p = [p]"
proof -
  assume p: "d \<notin> set p" "p \<noteq> []"
  then have tw: "takeWhile (\<lambda>c. c \<noteq> d) p = p" and dw: "dropWhile (\<lambda>c. c \<noteq> d) p = []"
    by (auto simp: takeWhile_eq_all_conv dropWhile_eq_Nil_conv)
  show ?thesis using p(2) by (subst getlines.simps) (simp add: tw dw)
qed

lemma takeWhile_until: "d \<notin> set p \<Longrightarrow> takeWhile (\<lambda>c. c \<noteq> d) (p @ d # rest) = p"
  by (induction p) auto

lemma dropWhile_until: "d \<notin> set p \<Longrightarrow> dropWhile (\<lambda>c. c \<noteq> d) (p @ d # rest) = d # rest"
  by (induction p) auto

lemma getlines_part: "d \<notin> set p \<Longrightarrow> getlines d (p @ d # rest) = p # getlines d rest"
  by (subst getlines.simps) (simp add: takeWhile_until dropWhile_until)

fun join_with :: "string \<Rightarrow> string list \<Rightarrow> string" where
  "join_with sep [] = []"
| "join_with sep [p] = p"
| "join_with sep (p # q # ps) = p @ sep @ join_with sep (q # ps)"

text \<open>\<open>while (iss >> token)\<close>: the maximal runs of characters that are not blank.\<close>

function tokens :: "string \<Rightarrow> string list" where
  "tokens s =
     (let body = dropWhile is_space s
      in if body = [] then []
         else takeWhile (\<lambda>c. \<not> is_space c) body # tokens (dropWhile (\<lambda>c. \<not> is_space c) body))"
  by pat_completeness auto
termination
proof (relation "measure length")
  fix s :: string and body
  assume body: "body = dropWhile is_space s" "body \<noteq> []"
  then have "\<not> is_space (hd body)" using hd_dropWhile by metis
  then obtain c cs where "body = c # cs" "\<not> is_space c" using body(2) by (cases body) auto
  then have "length (dropWhile (\<lambda>c. \<not> is_space c) body) < length body"
    using length_dropWhile_le [of "\<lambda>c. \<not> is_space c" cs] by simp
  moreover have "length body \<le> length s" using body(1) by (simp add: length_dropWhile_le)
  ultimately show "(dropWhile (\<lambda>c. \<not> is_space c) body, s) \<in> measure length" by simp
qed simp

declare tokens.simps [simp del]

definition is_word :: "string \<Rightarrow> bool" where
  "is_word t \<longleftrightarrow> t \<noteq> [] \<and> (\<forall>c \<in> set t. \<not> is_space c)"

lemma tokens_Nil [simp]: "tokens [] = []"
  by (simp add: tokens.simps)

lemma tokens_word:
  assumes "is_word t" and "rest = [] \<or> is_space (hd rest)"
  shows "tokens (t @ rest) = t # tokens rest"
proof -
  obtain c cs where t: "t = c # cs" "\<not> is_space c"
    using assms(1) by (cases t) (auto simp: is_word_def)
  have all: "\<forall>x \<in> set t. \<not> is_space x" using assms(1) by (simp add: is_word_def)
  have body: "dropWhile is_space (t @ rest) = t @ rest" using t by simp
  have tw: "takeWhile (\<lambda>c. \<not> is_space c) (t @ rest) = t"
    using all assms(2) by (cases rest) (simp_all add: takeWhile_append2)
  have dw: "dropWhile (\<lambda>c. \<not> is_space c) (t @ rest) = rest"
    using all assms(2) by (cases rest) (simp_all add: dropWhile_append2)
  have ne: "t @ rest \<noteq> []" using t by simp
  show ?thesis by (subst tokens.simps) (simp only: body tw dw Let_def ne if_False)
qed

lemma tokens_space: "is_space c \<Longrightarrow> tokens (c # rest) = tokens rest"
  by (subst (1 2) tokens.simps) simp

lemma is_space_blank [simp]: "is_space CHR '' ''"
  by (simp add: is_space_def)

lemma tokens_join:
  "(\<And>t. t \<in> set ts \<Longrightarrow> is_word t) \<Longrightarrow> tokens (join_with '' '' ts) = ts"
proof (induction "'' ''" ts rule: join_with.induct [case_names Nil single Cons])
  case (single p)
  then show ?case using tokens_word [of p "[]"] by simp
next
  case (Cons p q ps)
  then show ?case
    using tokens_word [of p "'' '' @ join_with '' '' (q # ps)"] by (simp add: tokens_space)
qed simp_all

end
