(* ===== verification/Core_Types.thy ===== *)
theory Core_Types
  imports Std_Text
begin

text \<open>
  The data of \<^verbatim>\<open>include/netdisk/core/types.h\<close>, \<^verbatim>\<open>include/netdisk/network/protocol.h\<close> and
  \<^verbatim>\<open>include/netdisk/common/status.h\<close>: every enum as a datatype with the source's constructors, every
  struct as a record with the source's fields (each with a short prefix, because the structs share
  field names), and for every struct the value its default member initialisers give
  (\<open>..._init\<close>).
\<close>

section \<open>Enumerations\<close>

datatype FileStatus = FilePending | FileReady | FileDeleted | FileCorrupted

datatype ReplicaStatus = ReplicaUnknown | ReplicaAvailable | ReplicaMissing | ReplicaCorrupted

datatype SyncTaskState = SyncQueued | SyncRunning | SyncVerifying | SyncCommitted | SyncFailed

datatype JobDomain = DomainBackup | DomainTransfer | DomainRestore

datatype JobState = JobQueued | JobRunning | JobCompleted | JobFailed

datatype RestoreRequestState = RestoreQueued | RestoreRunning | RestoreCompleted | RestoreFailed

datatype SharedRecipientState = RecipientPending | RecipientDelivered | RecipientFailed

datatype StatusCode =
    kOk | kNotFound | kInvalidArgument | kAlreadyExists | kPermissionDenied | kInternalError

section \<open>Structs of the core\<close>

record NodeInfo =
  node_node_id :: string
  node_device_name :: string
  node_zt_ip :: string
  node_last_seen_epoch :: u64

definition NodeInfo_init :: NodeInfo where
  "NodeInfo_init = \<lparr>
    node_node_id = [], node_device_name = [], node_zt_ip = [], node_last_seen_epoch = 0\<rparr>"

record ChunkRecord =
  chunk_file_id :: string
  chunk_index :: u32
  chunk_offset :: u64
  chunk_size :: u64
  chunk_hash :: string

definition ChunkRecord_init :: ChunkRecord where
  "ChunkRecord_init = \<lparr>
    chunk_file_id = [], chunk_index = 0, chunk_offset = 0, chunk_size = 0, chunk_hash = []\<rparr>"

record FileRecord =
  file_file_id :: string
  file_relative_path :: string
  file_absolute_path :: string
  file_size :: u64
  file_modified_time_epoch :: u64
  file_mode :: u32
  file_root_hash :: string
  file_status :: FileStatus
  file_chunks :: "ChunkRecord list"

definition FileRecord_init :: FileRecord where
  "FileRecord_init = \<lparr>
    file_file_id = [], file_relative_path = [], file_absolute_path = [], file_size = 0,
    file_modified_time_epoch = 0, file_mode = 0, file_root_hash = [],
    file_status = FilePending, file_chunks = []\<rparr>"

record ReplicaRecord =
  replica_chunk_hash :: string
  replica_node_id :: string
  replica_storage_path :: string
  replica_verified_at_epoch :: u64
  replica_status :: ReplicaStatus

definition ReplicaRecord_init :: ReplicaRecord where
  "ReplicaRecord_init = \<lparr>
    replica_chunk_hash = [], replica_node_id = [], replica_storage_path = [],
    replica_verified_at_epoch = 0, replica_status = ReplicaUnknown\<rparr>"

record SyncTask =
  synctask_task_id :: string
  synctask_source_node :: string
  synctask_target_node :: string
  synctask_file_id :: string
  synctask_relative_path :: string
  synctask_expected_root_hash :: string
  synctask_temp_path :: string
  synctask_total_chunks :: u32
  synctask_completed_chunks :: u32
  synctask_state :: SyncTaskState
  synctask_retry_count :: u32
  synctask_error_message :: string

definition SyncTask_init :: SyncTask where
  "SyncTask_init = \<lparr>
    synctask_task_id = [], synctask_source_node = [], synctask_target_node = [],
    synctask_file_id = [], synctask_relative_path = [], synctask_expected_root_hash = [],
    synctask_temp_path = [], synctask_total_chunks = 0, synctask_completed_chunks = 0,
    synctask_state = SyncQueued, synctask_retry_count = 0, synctask_error_message = []\<rparr>"

record SyncTaskChunk =
  taskchunk_task_id :: string
  taskchunk_file_id :: string
  taskchunk_index :: u32
  taskchunk_offset :: u64
  taskchunk_size :: u64
  taskchunk_hash :: string

definition SyncTaskChunk_init :: SyncTaskChunk where
  "SyncTaskChunk_init = \<lparr>
    taskchunk_task_id = [], taskchunk_file_id = [], taskchunk_index = 0,
    taskchunk_offset = 0, taskchunk_size = 0, taskchunk_hash = []\<rparr>"

record StoredObjectRecord =
  stored_file_id :: string
  stored_backend_name :: string
  stored_storage_key :: string
  stored_access_url :: string
  stored_source_path :: string
  stored_stored_at_epoch :: u64

definition StoredObjectRecord_init :: StoredObjectRecord where
  "StoredObjectRecord_init = \<lparr>
    stored_file_id = [], stored_backend_name = [], stored_storage_key = [],
    stored_access_url = [], stored_source_path = [], stored_stored_at_epoch = 0\<rparr>"

record BackupRecord =
  backup_record_id :: string
  backup_job_id :: string
  backup_node_id :: string
  backup_file_id :: string
  backup_relative_path :: string
  backup_source_path :: string
  backup_backend_name :: string
  backup_storage_key :: string
  backup_backed_up_at_epoch :: u64

definition BackupRecord_init :: BackupRecord where
  "BackupRecord_init = \<lparr>
    backup_record_id = [], backup_job_id = [], backup_node_id = [], backup_file_id = [],
    backup_relative_path = [], backup_source_path = [], backup_backend_name = [],
    backup_storage_key = [], backup_backed_up_at_epoch = 0\<rparr>"

record DeviceFileRecord =
  devfile_record_id :: string
  devfile_node_id :: string
  devfile_file_id :: string
  devfile_relative_path :: string
  devfile_absolute_path :: string
  devfile_source_kind :: string
  devfile_source_ref_id :: string
  devfile_updated_at_epoch :: u64

definition DeviceFileRecord_init :: DeviceFileRecord where
  "DeviceFileRecord_init = \<lparr>
    devfile_record_id = [], devfile_node_id = [], devfile_file_id = [],
    devfile_relative_path = [], devfile_absolute_path = [], devfile_source_kind = [],
    devfile_source_ref_id = [], devfile_updated_at_epoch = 0\<rparr>"

record BackupPolicy =
  bpolicy_policy_id :: string
  bpolicy_node_id :: string
  bpolicy_source_path :: string
  bpolicy_recursive :: bool
  bpolicy_enabled :: bool
  bpolicy_schedule_expression :: string
  bpolicy_created_at_epoch :: u64

definition BackupPolicy_init :: BackupPolicy where
  "BackupPolicy_init = \<lparr>
    bpolicy_policy_id = [], bpolicy_node_id = [], bpolicy_source_path = [],
    bpolicy_recursive = True, bpolicy_enabled = True, bpolicy_schedule_expression = [],
    bpolicy_created_at_epoch = 0\<rparr>"

record TransferPolicy =
  tpolicy_policy_id :: string
  tpolicy_retention_seconds :: u64
  tpolicy_auto_cleanup :: bool
  tpolicy_private_library_only :: bool

definition TransferPolicy_init :: TransferPolicy where
  "TransferPolicy_init = \<lparr>
    tpolicy_policy_id = [], tpolicy_retention_seconds = 7 * 24 * 3600,
    tpolicy_auto_cleanup = True, tpolicy_private_library_only = True\<rparr>"

record BackupJob =
  job_job_id :: string
  job_node_id :: string
  job_source_path :: string
  job_destination_label :: string
  job_created_at_epoch :: u64

definition BackupJob_init :: BackupJob where
  "BackupJob_init = \<lparr>
    job_job_id = [], job_node_id = [], job_source_path = [], job_destination_label = [],
    job_created_at_epoch = 0\<rparr>"

record SharedLibraryRecipient =
  recip_entry_id :: string
  recip_node_id :: string
  recip_state :: SharedRecipientState
  recip_received_path :: string
  recip_error_message :: string
  recip_updated_at_epoch :: u64

definition SharedLibraryRecipient_init :: SharedLibraryRecipient where
  "SharedLibraryRecipient_init = \<lparr>
    recip_entry_id = [], recip_node_id = [], recip_state = RecipientPending,
    recip_received_path = [], recip_error_message = [], recip_updated_at_epoch = 0\<rparr>"

record SharedLibraryEntry =
  entry_entry_id :: string
  entry_owner_node_id :: string
  entry_source_path :: string
  entry_file_id :: string
  entry_display_name :: string
  entry_note :: string
  entry_created_at_epoch :: u64
  entry_expires_at_epoch :: u64
  entry_expired :: bool
  entry_delivered :: bool
  entry_recipient_nodes :: "string list"
  entry_recipients :: "SharedLibraryRecipient list"

definition SharedLibraryEntry_init :: SharedLibraryEntry where
  "SharedLibraryEntry_init = \<lparr>
    entry_entry_id = [], entry_owner_node_id = [], entry_source_path = [],
    entry_file_id = [], entry_display_name = [], entry_note = [],
    entry_created_at_epoch = 0, entry_expires_at_epoch = 0, entry_expired = False,
    entry_delivered = False, entry_recipient_nodes = [], entry_recipients = []\<rparr>"

record RestoreRequest =
  restore_request_id :: string
  restore_file_id :: string
  restore_source_node_id :: string
  restore_target_node_id :: string
  restore_destination_path :: string
  restore_created_at_epoch :: u64
  restore_state :: RestoreRequestState
  restore_completed_at_epoch :: u64
  restore_error_message :: string

definition RestoreRequest_init :: RestoreRequest where
  "RestoreRequest_init = \<lparr>
    restore_request_id = [], restore_file_id = [], restore_source_node_id = [],
    restore_target_node_id = [], restore_destination_path = [],
    restore_created_at_epoch = 0, restore_state = RestoreQueued,
    restore_completed_at_epoch = 0, restore_error_message = []\<rparr>"

record ScheduledTaskRecord =
  task_task_id :: string
  task_domain :: JobDomain
  task_related_id :: string
  task_source_node :: string
  task_target_node :: string
  task_state :: JobState
  task_created_at_epoch :: u64
  task_retry_count :: u32
  task_detail :: string

definition ScheduledTaskRecord_init :: ScheduledTaskRecord where
  "ScheduledTaskRecord_init = \<lparr>
    task_task_id = [], task_domain = DomainBackup, task_related_id = [],
    task_source_node = [], task_target_node = [], task_state = JobQueued,
    task_created_at_epoch = 0, task_retry_count = 0, task_detail = []\<rparr>"

record AuthIdentity =
  ident_user_id :: string
  ident_username :: string
  ident_device_id :: string

definition AuthIdentity_init :: AuthIdentity where
  "AuthIdentity_init = \<lparr>
    ident_user_id = [], ident_username = [], ident_device_id = []\<rparr>"

record AuthSession =
  session_session_id :: string
  session_user_id :: string
  session_device_id :: string
  session_access_token :: string
  session_expires_at_epoch :: u64

definition AuthSession_init :: AuthSession where
  "AuthSession_init = \<lparr>
    session_session_id = [], session_user_id = [], session_device_id = [],
    session_access_token = [], session_expires_at_epoch = 0\<rparr>"

record OverlayPeer =
  peer_node_id :: string
  peer_virtual_ip :: string
  peer_online :: bool
  peer_last_seen_epoch :: u64

definition OverlayPeer_init :: OverlayPeer where
  "OverlayPeer_init = \<lparr>
    peer_node_id = [], peer_virtual_ip = [], peer_online = False, peer_last_seen_epoch = 0\<rparr>"

record AuditEvent =
  event_event_id :: string
  event_category :: string
  event_detail :: string
  event_created_at_epoch :: u64

definition AuditEvent_init :: AuditEvent where
  "AuditEvent_init = \<lparr>
    event_event_id = [], event_category = [], event_detail = [], event_created_at_epoch = 0\<rparr>"
section \<open>Structs of the network protocol\<close>

datatype MessageType =
    kHello | kManifestSummary | kMissingChunksRequest | kChunkData | kSyncAck | kError

record HelloMessage =
  hello_node_id :: string
  hello_device_name :: string
  hello_protocol_version :: string

definition HelloMessage_init :: HelloMessage where
  "HelloMessage_init = \<lparr>
    hello_node_id = [], hello_device_name = [], hello_protocol_version = []\<rparr>"

record ManifestEntry =
  mentry_file_id :: string
  mentry_relative_path :: string
  mentry_root_hash :: string
  mentry_size :: u64
  mentry_modified_time_epoch :: u64
  mentry_chunk_count :: u32

definition ManifestEntry_init :: ManifestEntry where
  "ManifestEntry_init = \<lparr>
    mentry_file_id = [], mentry_relative_path = [], mentry_root_hash = [], mentry_size = 0,
    mentry_modified_time_epoch = 0, mentry_chunk_count = 0\<rparr>"

record ChunkManifestEntry =
  mchunk_index :: u32
  mchunk_offset :: u64
  mchunk_size :: u64
  mchunk_hash :: string

definition ChunkManifestEntry_init :: ChunkManifestEntry where
  "ChunkManifestEntry_init = \<lparr>
    mchunk_index = 0, mchunk_offset = 0, mchunk_size = 0, mchunk_hash = []\<rparr>"

record ManifestFile =
  mfile_summary :: ManifestEntry
  mfile_chunks :: "ChunkManifestEntry list"

definition ManifestFile_init :: ManifestFile where
  "ManifestFile_init = \<lparr>
    mfile_summary = ManifestEntry_init, mfile_chunks = []\<rparr>"

record MissingChunksRequest =
  request_file_id :: string
  request_relative_path :: string
  request_expected_root_hash :: string
  request_missing_chunks :: "ChunkManifestEntry list"

definition MissingChunksRequest_init :: MissingChunksRequest where
  "MissingChunksRequest_init = \<lparr>
    request_file_id = [], request_relative_path = [], request_expected_root_hash = [],
    request_missing_chunks = []\<rparr>"

record ChunkPayloadHeader =
  header_file_id :: string
  header_chunk_hash :: string
  header_chunk_index :: u32
  header_offset :: u64
  header_payload_size :: u64

definition ChunkPayloadHeader_init :: ChunkPayloadHeader where
  "ChunkPayloadHeader_init = \<lparr>
    header_file_id = [], header_chunk_hash = [], header_chunk_index = 0, header_offset = 0,
    header_payload_size = 0\<rparr>"

record ChunkDataMessage =
  data_header :: ChunkPayloadHeader
  data_payload_bytes :: string

definition ChunkDataMessage_init :: ChunkDataMessage where
  "ChunkDataMessage_init = \<lparr>
    data_header = ChunkPayloadHeader_init, data_payload_bytes = []\<rparr>"

record SyncAckMessage =
  ack_file_id :: string
  ack_relative_path :: string
  ack_success :: bool
  ack_detail :: string

definition SyncAckMessage_init :: SyncAckMessage where
  "SyncAckMessage_init = \<lparr>
    ack_file_id = [], ack_relative_path = [], ack_success = False, ack_detail = []\<rparr>"

record ErrorMessage =
  err_detail :: string

definition ErrorMessage_init :: ErrorMessage where
  "ErrorMessage_init = \<lparr>
    err_detail = []\<rparr>"
section \<open>Status values\<close>

record Status =
  status_code :: StatusCode
  status_message :: string

definition Status_Ok :: Status where
  "Status_Ok = \<lparr>status_code = kOk, status_message = []\<rparr>"

definition Status_Error :: "StatusCode \<Rightarrow> string \<Rightarrow> Status" where
  "Status_Error c text = \<lparr>status_code = c, status_message = text\<rparr>"

definition status_ok :: "Status \<Rightarrow> bool" where
  "status_ok s \<longleftrightarrow> status_code s = kOk"

lemma status_ok_simps [simp]:
  "status_ok Status_Ok"
  "status_ok (Status_Error c text) \<longleftrightarrow> c = kOk"
  "status_code (Status_Error c text) = c"
  "status_message (Status_Error c text) = text"
  "status_code Status_Ok = kOk"
  by (simp_all add: status_ok_def Status_Ok_def Status_Error_def)

lemma Status_Error_not_Ok [simp]:
  "c \<noteq> kOk \<Longrightarrow> Status_Error c text \<noteq> Status_Ok"
  "c \<noteq> kOk \<Longrightarrow> Status_Ok \<noteq> Status_Error c text"
  by (simp_all add: Status_Ok_def Status_Error_def)

end
