(* ===== verification/Protocol_Codec.thy ===== *)
theory Protocol_Codec
  imports Core_Types
begin

text \<open>
  \<^verbatim>\<open>src/network/protocol_codec.cpp\<close>: the text encoding of the seven protocol messages. The \<open>Append...\<close>
  functions extend a payload buffer, the \<open>Consume...\<close> functions read a buffer at a cursor and either
  throw or return the value with the advanced cursor. The interface \<open>wire_codec\<close> states what a message
  decoder relies on: reading back at the place where a value was appended gives the value and the place
  behind it. It is interpreted for every field format, for the chunk entries and the manifest files.
\<close>

section \<open>Frames\<close>

text \<open>
  \<open>MessageFrame\<close> of \<^verbatim>\<open>network/transport.h\<close>. \<open>MessageType\<close> is an enum over \<open>uint8_t\<close>, and the socket
  transport casts any byte to it, so the type of a frame is kept as its byte.
\<close>

fun message_code :: "MessageType \<Rightarrow> u8" where
  "message_code kHello = 0"
| "message_code kManifestSummary = 1"
| "message_code kMissingChunksRequest = 2"
| "message_code kChunkData = 3"
| "message_code kSyncAck = 4"
| "message_code kError = 5"

lemma message_code_inject [simp]: "message_code a = message_code b \<longleftrightarrow> a = b"
  by (cases a; cases b) simp_all

record MessageFrame =
  frame_type :: u8
  frame_payload :: string

section \<open>Fields\<close>

definition newline :: char where
  "newline = CHR 0x0A"

definition AppendString :: "string \<Rightarrow> string \<Rightarrow> string" where
  "AppendString buffer value =
     (let buffer = buffer @ to_string (length value);
          buffer = buffer @ [newline];
          buffer = buffer @ value
      in buffer @ [newline])"

text \<open>
  \<open>data_begin + length\<close> is a sum of \<open>size_t\<close> values and wraps; \<open>substr\<close> clamps the count to the
  characters that are left.
\<close>

definition ConsumeString :: "string \<Rightarrow> nat \<Rightarrow> (string \<times> nat) result" where
  "ConsumeString buffer cursor =
     (case find_char newline buffer cursor of
        None \<Rightarrow> throw (RuntimeError ''protocol decode error: missing string length delimiter'')
      | Some length_end \<Rightarrow>
          bind_result (stoull (take (length_end - cursor) (drop cursor buffer))) (\<lambda>len.
            let n = unat len;
                data_begin = length_end + 1
            in if (data_begin + n) mod 2 ^ 64 > length buffer then
                 throw (RuntimeError ''protocol decode error: truncated string payload'')
               else
                 let value = take n (drop data_begin buffer);
                     data_end = (data_begin + n) mod 2 ^ 64
                 in if data_end \<ge> length buffer \<or> buffer ! data_end \<noteq> newline then
                      throw (RuntimeError ''protocol decode error: missing string terminator'')
                    else Inr (value, data_end + 1)))"

definition AppendU64 :: "string \<Rightarrow> u64 \<Rightarrow> string" where
  "AppendU64 buffer value = (let buffer = buffer @ to_string_u64 value in buffer @ [newline])"

definition ConsumeU64 :: "string \<Rightarrow> nat \<Rightarrow> (u64 \<times> nat) result" where
  "ConsumeU64 buffer cursor =
     (case find_char newline buffer cursor of
        None \<Rightarrow> throw (RuntimeError ''protocol decode error: missing integer delimiter'')
      | Some end_pos \<Rightarrow>
          bind_result (stoull (take (end_pos - cursor) (drop cursor buffer))) (\<lambda>value.
            Inr (value, end_pos + 1)))"

definition AppendBool :: "string \<Rightarrow> bool \<Rightarrow> string" where
  "AppendBool buffer value = buffer @ (if value then [CHR ''1'', newline] else [CHR ''0'', newline])"

definition ConsumeBool :: "string \<Rightarrow> nat \<Rightarrow> (bool \<times> nat) result" where
  "ConsumeBool buffer cursor =
     bind_result (ConsumeU64 buffer cursor) (\<lambda>(v, cursor). Inr (v \<noteq> 0, cursor))"

definition RequireType :: "MessageFrame \<Rightarrow> MessageType \<Rightarrow> unit result" where
  "RequireType frame expected =
     (if frame_type frame \<noteq> message_code expected then
        throw (RuntimeError ''protocol decode error: unexpected message type'')
      else Inr ())"

section \<open>Encoders\<close>

definition EncodeHello :: "HelloMessage \<Rightarrow> MessageFrame" where
  "EncodeHello m =
     (let payload = [];
          payload = AppendString payload (hello_node_id m);
          payload = AppendString payload (hello_device_name m);
          payload = AppendString payload (hello_protocol_version m)
      in \<lparr>frame_type = message_code kHello, frame_payload = payload\<rparr>)"

text \<open>The loop body over the chunks of a manifest file or of a request.\<close>

definition AppendChunk :: "string \<Rightarrow> ChunkManifestEntry \<Rightarrow> string" where
  "AppendChunk payload chunk =
     (let payload = AppendU64 payload (ucast (mchunk_index chunk));
          payload = AppendU64 payload (mchunk_offset chunk);
          payload = AppendU64 payload (mchunk_size chunk)
      in AppendString payload (mchunk_hash chunk))"

definition AppendManifestFile :: "string \<Rightarrow> ManifestFile \<Rightarrow> string" where
  "AppendManifestFile payload f =
     (let payload = AppendString payload (mentry_file_id (mfile_summary f));
          payload = AppendString payload (mentry_relative_path (mfile_summary f));
          payload = AppendString payload (mentry_root_hash (mfile_summary f));
          payload = AppendU64 payload (mentry_size (mfile_summary f));
          payload = AppendU64 payload (mentry_modified_time_epoch (mfile_summary f));
          payload = AppendU64 payload (word_of_nat (length (mfile_chunks f)))
      in foldl AppendChunk payload (mfile_chunks f))"

definition EncodeManifestSummary :: "ManifestFile list \<Rightarrow> MessageFrame" where
  "EncodeManifestSummary manifest =
     (let payload = AppendU64 [] (word_of_nat (length manifest));
          payload = foldl AppendManifestFile payload manifest
      in \<lparr>frame_type = message_code kManifestSummary, frame_payload = payload\<rparr>)"

definition EncodeMissingChunksRequest :: "MissingChunksRequest \<Rightarrow> MessageFrame" where
  "EncodeMissingChunksRequest r =
     (let payload = AppendString [] (request_file_id r);
          payload = AppendString payload (request_relative_path r);
          payload = AppendString payload (request_expected_root_hash r);
          payload = AppendU64 payload (word_of_nat (length (request_missing_chunks r)));
          payload = foldl AppendChunk payload (request_missing_chunks r)
      in \<lparr>frame_type = message_code kMissingChunksRequest, frame_payload = payload\<rparr>)"

definition EncodeChunkHeader :: "ChunkPayloadHeader \<Rightarrow> MessageFrame" where
  "EncodeChunkHeader h =
     (let payload = AppendString [] (header_file_id h);
          payload = AppendString payload (header_chunk_hash h);
          payload = AppendU64 payload (ucast (header_chunk_index h));
          payload = AppendU64 payload (header_offset h);
          payload = AppendU64 payload (header_payload_size h)
      in \<lparr>frame_type = message_code kChunkData, frame_payload = payload\<rparr>)"

definition EncodeChunkData :: "ChunkDataMessage \<Rightarrow> MessageFrame" where
  "EncodeChunkData m =
     (let frame = EncodeChunkHeader (data_header m)
      in frame\<lparr>frame_payload := AppendString (frame_payload frame) (data_payload_bytes m)\<rparr>)"

definition EncodeSyncAck :: "SyncAckMessage \<Rightarrow> MessageFrame" where
  "EncodeSyncAck m =
     (let payload = AppendString [] (ack_file_id m);
          payload = AppendString payload (ack_relative_path m);
          payload = AppendBool payload (ack_success m);
          payload = AppendString payload (ack_detail m)
      in \<lparr>frame_type = message_code kSyncAck, frame_payload = payload\<rparr>)"

definition EncodeError :: "ErrorMessage \<Rightarrow> MessageFrame" where
  "EncodeError m =
     \<lparr>frame_type = message_code kError, frame_payload = AppendString [] (err_detail m)\<rparr>"

section \<open>Decoders\<close>

text \<open>
  \<open>consume_times n\<close> is a counting loop that reads one element per round. The preallocation
  \<open>reserve(n)\<close>, which only fails when memory runs out, is left out.
\<close>

fun consume_times ::
  "(string \<Rightarrow> nat \<Rightarrow> ('v \<times> nat) result) \<Rightarrow> nat \<Rightarrow> string \<Rightarrow> nat \<Rightarrow> ('v list \<times> nat) result" where
  "consume_times get 0 buffer cursor = Inr ([], cursor)"
| "consume_times get (Suc n) buffer cursor =
     bind_result (get buffer cursor) (\<lambda>(v, cursor).
     bind_result (consume_times get n buffer cursor) (\<lambda>(vs, cursor). Inr (v # vs, cursor)))"

definition ConsumeChunk :: "string \<Rightarrow> nat \<Rightarrow> (ChunkManifestEntry \<times> nat) result" where
  "ConsumeChunk buffer cursor =
     bind_result (ConsumeU64 buffer cursor) (\<lambda>(index, cursor).
     bind_result (ConsumeU64 buffer cursor) (\<lambda>(off, cursor).
     bind_result (ConsumeU64 buffer cursor) (\<lambda>(size, cursor).
     bind_result (ConsumeString buffer cursor) (\<lambda>(hash, cursor).
       Inr (\<lparr>mchunk_index = ucast index, mchunk_offset = off, mchunk_size = size,
             mchunk_hash = hash\<rparr>, cursor)))))"

definition ConsumeManifestFile :: "string \<Rightarrow> nat \<Rightarrow> (ManifestFile \<times> nat) result" where
  "ConsumeManifestFile buffer cursor =
     bind_result (ConsumeString buffer cursor) (\<lambda>(file_id, cursor).
     bind_result (ConsumeString buffer cursor) (\<lambda>(relative_path, cursor).
     bind_result (ConsumeString buffer cursor) (\<lambda>(root_hash, cursor).
     bind_result (ConsumeU64 buffer cursor) (\<lambda>(size, cursor).
     bind_result (ConsumeU64 buffer cursor) (\<lambda>(modified, cursor).
     bind_result (ConsumeU64 buffer cursor) (\<lambda>(count, cursor).
       let chunk_count = ucast count :: u32 in
       bind_result (consume_times ConsumeChunk (unat chunk_count) buffer cursor) (\<lambda>(chunks, cursor).
         Inr (\<lparr>mfile_summary = \<lparr>mentry_file_id = file_id, mentry_relative_path = relative_path,
                 mentry_root_hash = root_hash, mentry_size = size,
                 mentry_modified_time_epoch = modified, mentry_chunk_count = chunk_count\<rparr>,
               mfile_chunks = chunks\<rparr>, cursor))))))))"

definition DecodeHello :: "MessageFrame \<Rightarrow> HelloMessage result" where
  "DecodeHello frame =
     bind_result (RequireType frame kHello) (\<lambda>_.
     bind_result (ConsumeString (frame_payload frame) 0) (\<lambda>(node_id, cursor).
     bind_result (ConsumeString (frame_payload frame) cursor) (\<lambda>(device_name, cursor).
     bind_result (ConsumeString (frame_payload frame) cursor) (\<lambda>(protocol_version, cursor).
       Inr \<lparr>hello_node_id = node_id, hello_device_name = device_name,
            hello_protocol_version = protocol_version\<rparr>))))"

definition DecodeManifestSummary :: "MessageFrame \<Rightarrow> ManifestFile list result" where
  "DecodeManifestSummary frame =
     bind_result (RequireType frame kManifestSummary) (\<lambda>_.
     bind_result (ConsumeU64 (frame_payload frame) 0) (\<lambda>(file_count, cursor).
     bind_result (consume_times ConsumeManifestFile (unat file_count) (frame_payload frame) cursor)
       (\<lambda>(manifest, cursor). Inr manifest)))"

definition DecodeMissingChunksRequest :: "MessageFrame \<Rightarrow> MissingChunksRequest result" where
  "DecodeMissingChunksRequest frame =
     bind_result (RequireType frame kMissingChunksRequest) (\<lambda>_.
     bind_result (ConsumeString (frame_payload frame) 0) (\<lambda>(file_id, cursor).
     bind_result (ConsumeString (frame_payload frame) cursor) (\<lambda>(relative_path, cursor).
     bind_result (ConsumeString (frame_payload frame) cursor) (\<lambda>(root_hash, cursor).
     bind_result (ConsumeU64 (frame_payload frame) cursor) (\<lambda>(chunk_count, cursor).
     bind_result (consume_times ConsumeChunk (unat chunk_count) (frame_payload frame) cursor)
       (\<lambda>(chunks, cursor).
         Inr \<lparr>request_file_id = file_id, request_relative_path = relative_path,
              request_expected_root_hash = root_hash, request_missing_chunks = chunks\<rparr>))))))"

text \<open>The statements that \<open>DecodeChunkHeader\<close> and \<open>DecodeChunkData\<close> repeat word for word.\<close>

definition ConsumeChunkHeader :: "string \<Rightarrow> nat \<Rightarrow> (ChunkPayloadHeader \<times> nat) result" where
  "ConsumeChunkHeader buffer cursor =
     bind_result (ConsumeString buffer cursor) (\<lambda>(file_id, cursor).
     bind_result (ConsumeString buffer cursor) (\<lambda>(hash, cursor).
     bind_result (ConsumeU64 buffer cursor) (\<lambda>(index, cursor).
     bind_result (ConsumeU64 buffer cursor) (\<lambda>(off, cursor).
     bind_result (ConsumeU64 buffer cursor) (\<lambda>(size, cursor).
       Inr (\<lparr>header_file_id = file_id, header_chunk_hash = hash,
             header_chunk_index = ucast index, header_offset = off,
             header_payload_size = size\<rparr>, cursor))))))"

definition DecodeChunkHeader :: "MessageFrame \<Rightarrow> ChunkPayloadHeader result" where
  "DecodeChunkHeader frame =
     bind_result (RequireType frame kChunkData) (\<lambda>_.
     bind_result (ConsumeChunkHeader (frame_payload frame) 0) (\<lambda>(header, cursor). Inr header))"

definition DecodeChunkData :: "MessageFrame \<Rightarrow> ChunkDataMessage result" where
  "DecodeChunkData frame =
     bind_result (RequireType frame kChunkData) (\<lambda>_.
     bind_result (ConsumeChunkHeader (frame_payload frame) 0) (\<lambda>(header, cursor).
     bind_result (ConsumeString (frame_payload frame) cursor) (\<lambda>(payload, cursor).
       if length payload \<noteq> unat (header_payload_size header) then
         throw (RuntimeError ''protocol decode error: chunk payload size mismatch'')
       else Inr \<lparr>data_header = header, data_payload_bytes = payload\<rparr>)))"

definition DecodeSyncAck :: "MessageFrame \<Rightarrow> SyncAckMessage result" where
  "DecodeSyncAck frame =
     bind_result (RequireType frame kSyncAck) (\<lambda>_.
     bind_result (ConsumeString (frame_payload frame) 0) (\<lambda>(file_id, cursor).
     bind_result (ConsumeString (frame_payload frame) cursor) (\<lambda>(relative_path, cursor).
     bind_result (ConsumeBool (frame_payload frame) cursor) (\<lambda>(success, cursor).
     bind_result (ConsumeString (frame_payload frame) cursor) (\<lambda>(detail, cursor).
       Inr \<lparr>ack_file_id = file_id, ack_relative_path = relative_path, ack_success = success,
            ack_detail = detail\<rparr>)))))"

definition DecodeError :: "MessageFrame \<Rightarrow> ErrorMessage result" where
  "DecodeError frame =
     bind_result (RequireType frame kError) (\<lambda>_.
     bind_result (ConsumeString (frame_payload frame) 0) (\<lambda>(detail, cursor).
       Inr \<lparr>err_detail = detail\<rparr>))"

section \<open>The contract of a field format\<close>

text \<open>\<open>unread buffer cursor rest\<close>: what is left of the buffer at the cursor is \<open>rest\<close>.\<close>

definition unread :: "string \<Rightarrow> nat \<Rightarrow> string \<Rightarrow> bool" where
  "unread buffer cursor rest \<longleftrightarrow>
     length buffer < 2 ^ 64 \<and> cursor \<le> length buffer \<and> drop cursor buffer = rest"

lemma unread_start: "length buffer < 2 ^ 64 \<Longrightarrow> unread buffer 0 buffer"
  by (simp add: unread_def)

lemma unread_advance:
  "unread buffer cursor (field @ rest) \<Longrightarrow> unread buffer (cursor + length field) rest"
proof -
  assume u: "unread buffer cursor (field @ rest)"
  then have d: "drop cursor buffer = field @ rest" by (simp add: unread_def)
  have "drop (cursor + length field) buffer = drop (length field) (drop cursor buffer)"
    by (simp add: add.commute)
  moreover have "length buffer - cursor = length field + length rest"
    using arg_cong [OF d, of length] by simp
  moreover from this have "cursor + length field \<le> length buffer"
    using u by (auto simp: unread_def)
  ultimately show ?thesis using u d by (simp add: unread_def)
qed

lemma unread_length: "unread buffer cursor rest \<Longrightarrow> length buffer = cursor + length rest"
  by (auto simp: unread_def)

lemma unread_unique:
  "unread buffer cursor (field @ rest) \<Longrightarrow> unread buffer cursor' rest \<Longrightarrow>
     cursor' = cursor + length field"
  by (drule unread_length)+ simp

lemma unread_split:
  "unread buffer cursor rest \<Longrightarrow>
     \<exists>pre. buffer = pre @ rest \<and> cursor = length pre \<and> length buffer < 2 ^ 64"
  by (rule exI [of _ "take cursor buffer"]) (auto simp: unread_def)

locale wire_codec =
  fixes wire :: "'v \<Rightarrow> string"
    and put :: "string \<Rightarrow> 'v \<Rightarrow> string"
    and get :: "string \<Rightarrow> nat \<Rightarrow> ('v \<times> nat) result"
    and valid :: "'v \<Rightarrow> bool"
  assumes put_wire: "put buffer v = buffer @ wire v"
    and get_wire: "valid v \<Longrightarrow> unread buffer cursor (wire v @ rest) \<Longrightarrow>
      get buffer cursor = Inr (v, cursor + length (wire v))"
begin

text \<open>The step of a decoder proof: the field at the cursor is read and the rest is left unread.\<close>

lemma bind_get:
  assumes "unread buffer cursor (wire v @ rest)" and "valid v"
    and "\<And>cursor'. unread buffer cursor' rest \<Longrightarrow> k v cursor' = r"
  shows "bind_result (get buffer cursor) (\<lambda>(v, c). k v c) = r"
  using assms(3) [OF unread_advance [OF assms(1)]] by (simp add: get_wire [OF assms(2,1)])

lemma put_many: "foldl put buffer vs = buffer @ concat (map wire vs)"
  by (induction vs arbitrary: buffer) (simp_all add: put_wire)

lemma get_many:
  assumes "\<And>v. v \<in> set vs \<Longrightarrow> valid v" and "unread buffer cursor (concat (map wire vs) @ rest)"
  shows "consume_times get (length vs) buffer cursor =
    Inr (vs, cursor + length (concat (map wire vs)))"
  using assms
proof (induction vs arbitrary: cursor)
  case (Cons v vs)
  then have u: "unread buffer cursor (wire v @ concat (map wire vs) @ rest)" by simp
  show ?case
    using Cons.IH [OF _ unread_advance [OF u]] Cons.prems(1) get_wire [OF _ u]
    by (simp add: add.assoc)
qed simp

lemma bind_get_many:
  assumes "unread buffer cursor (concat (map wire vs) @ rest)" and "\<And>v. v \<in> set vs \<Longrightarrow> valid v"
    and "n = length vs"
    and "\<And>cursor'. unread buffer cursor' rest \<Longrightarrow> k vs cursor' = r"
  shows "bind_result (consume_times get n buffer cursor) (\<lambda>(vs, c). k vs c) = r"
  using assms(4) [OF unread_advance [OF assms(1)]] by (simp add: assms(3) get_many [OF assms(2,1)])

end

section \<open>The field formats meet the contract\<close>

definition wire_string :: "string \<Rightarrow> string" where
  "wire_string v = to_string (length v) @ newline # v @ [newline]"

definition wire_u64 :: "u64 \<Rightarrow> string" where
  "wire_u64 v = to_string_u64 v @ [newline]"

lemma newline_not_digit: "\<not> is_digit newline"
  by (simp add: is_digit_def newline_def)

lemma newline_not_in_number [simp]:
  "newline \<notin> set (to_string n)"
  "newline \<notin> set (to_string_u64 w)"
  using to_string_digits newline_not_digit by (auto simp: to_string_u64_def)

lemma find_newline:
  "newline \<notin> set field \<Longrightarrow> buffer = pre @ field @ newline # rest \<Longrightarrow>
     find_char newline buffer (length pre) = Some (length pre + length field)"
  by (simp add: find_char_append)

lemma ConsumeU64_wire:
  assumes "unread buffer cursor (wire_u64 v @ rest)"
  shows "ConsumeU64 buffer cursor = Inr (v, cursor + length (wire_u64 v))"
proof -
  obtain pre where b: "buffer = pre @ wire_u64 v @ rest" "cursor = length pre"
    using unread_split [OF assms] by blast
  then have "buffer = pre @ to_string_u64 v @ newline # rest"
    by (simp add: wire_u64_def)
  then show ?thesis
    using find_newline [of "to_string_u64 v" buffer pre rest] b(2)
    by (simp add: ConsumeU64_def stoull_to_string_u64 wire_u64_def)
qed

lemma ConsumeString_wire:
  assumes "unread buffer cursor (wire_string v @ rest)"
  shows "ConsumeString buffer cursor = Inr (v, cursor + length (wire_string v))"
proof -
  obtain pre where b: "buffer = pre @ wire_string v @ rest" "cursor = length pre"
    and len: "length buffer < 2 ^ 64"
    using unread_split [OF assms] by blast
  define n where "n = to_string (length v)"
  have buf: "buffer = pre @ n @ newline # v @ newline # rest"
    using b by (simp add: wire_string_def n_def)
  have less: "length v < 2 ^ 64" "length pre + length n + 1 + length v < 2 ^ 64"
    using len by (simp_all add: buf)
  have num: "stoull n = Inr (word_of_nat (length v))" "unat (word_of_nat (length v) :: u64) = length v"
    using less(1) by (simp_all add: n_def stoull_to_string unsigned_of_nat take_bit_nat_eq_self)
  have "find_char newline buffer cursor = Some (length pre + length n)"
    using find_newline [of n buffer pre "v @ newline # rest"] b(2) by (simp add: buf n_def)
  moreover have "take (length pre + length n - cursor) (drop cursor buffer) = n"
    by (simp add: buf b(2))
  moreover have "take (length v) (drop (length pre + length n + 1) buffer) = v"
    by (simp add: buf)
  moreover have "buffer ! (length pre + length n + 1 + length v) = newline"
    by (simp add: buf nth_append)
  moreover have "length pre + length n + 1 + length v < length buffer"
    by (simp add: buf)
  ultimately show ?thesis
    using num less(2) b(2) by (simp add: ConsumeString_def Let_def wire_string_def flip: n_def)
qed

lemma ConsumeBool_wire:
  assumes "unread buffer cursor (wire_u64 (if v then 1 else 0) @ rest)"
  shows "ConsumeBool buffer cursor = Inr (v, cursor + length (wire_u64 (if v then 1 else 0)))"
  using ConsumeU64_wire [OF assms] by (simp add: ConsumeBool_def)

lemma wire_u64_bit:
  "wire_u64 0 = [CHR ''0'', newline]"
  "wire_u64 1 = [CHR ''1'', newline]"
  by (simp_all add: wire_u64_def to_string_u64_def to_string.simps digit_char_def char_of_eq_iff take_bit_nat_eq_self)

interpretation str: wire_codec wire_string AppendString ConsumeString "\<lambda>_. True"
  by unfold_locales (simp_all add: AppendString_def wire_string_def Let_def ConsumeString_wire)

interpretation u64: wire_codec wire_u64 AppendU64 ConsumeU64 "\<lambda>_. True"
  by unfold_locales (simp_all add: AppendU64_def wire_u64_def Let_def ConsumeU64_wire)

interpretation bit: wire_codec "\<lambda>v. wire_u64 (if v then 1 else 0)" AppendBool ConsumeBool "\<lambda>_. True"
  by unfold_locales (simp_all add: AppendBool_def wire_u64_bit ConsumeBool_wire del: if_split)

definition wire_chunk :: "ChunkManifestEntry \<Rightarrow> string" where
  "wire_chunk c = wire_u64 (ucast (mchunk_index c)) @ wire_u64 (mchunk_offset c) @
     wire_u64 (mchunk_size c) @ wire_string (mchunk_hash c)"

lemma ucast_u32_u64 [simp]: "ucast (ucast (w :: u32) :: u64) = w"
  by (rule bit_word_eqI) (simp add: bit_simps)

lemma ConsumeChunk_wire:
  assumes u: "unread buffer cursor (wire_chunk c @ rest)"
  shows "ConsumeChunk buffer cursor = Inr (c, cursor + length (wire_chunk c))"
proof -
  have u': "unread buffer cursor (wire_u64 (ucast (mchunk_index c)) @ wire_u64 (mchunk_offset c) @
      wire_u64 (mchunk_size c) @ wire_string (mchunk_hash c) @ rest)"
    using u by (simp add: wire_chunk_def)
  show ?thesis
    unfolding ConsumeChunk_def
    by (rule u64.bind_get, rule u', simp)
      (rule u64.bind_get str.bind_get, assumption, simp | simp, erule unread_unique [OF u])+
qed

interpretation chunk: wire_codec wire_chunk AppendChunk ConsumeChunk "\<lambda>_. True"
  by unfold_locales
    (simp_all add: AppendChunk_def wire_chunk_def Let_def str.put_wire u64.put_wire ConsumeChunk_wire)

definition wire_file :: "ManifestFile \<Rightarrow> string" where
  "wire_file f = wire_string (mentry_file_id (mfile_summary f)) @
     wire_string (mentry_relative_path (mfile_summary f)) @
     wire_string (mentry_root_hash (mfile_summary f)) @
     wire_u64 (mentry_size (mfile_summary f)) @
     wire_u64 (mentry_modified_time_epoch (mfile_summary f)) @
     wire_u64 (word_of_nat (length (mfile_chunks f))) @
     concat (map wire_chunk (mfile_chunks f))"

text \<open>
  The chunk count of a manifest file is sent as the number of chunks and read back into 32 bits; the
  field \<open>chunk_count\<close> itself is not sent.
\<close>

definition valid_file :: "ManifestFile \<Rightarrow> bool" where
  "valid_file f \<longleftrightarrow> length (mfile_chunks f) < 2 ^ 32 \<and>
     mentry_chunk_count (mfile_summary f) = word_of_nat (length (mfile_chunks f))"

lemma chunk_count_u32:
  "n < 2 ^ 32 \<Longrightarrow> unat (ucast (word_of_nat n :: u64) :: u32) = n"
  by (simp add: unsigned_ucast_eq unsigned_of_nat take_bit_nat_eq_self)

lemma chunk_count_word: "n < 2 ^ 32 \<Longrightarrow> (ucast (word_of_nat n :: u64) :: u32) = word_of_nat n"
  by (simp add: word_unat_eq_iff chunk_count_u32 unsigned_of_nat take_bit_nat_eq_self)

lemma ConsumeManifestFile_wire:
  assumes valid: "valid_file f" and u: "unread buffer cursor (wire_file f @ rest)"
  shows "ConsumeManifestFile buffer cursor = Inr (f, cursor + length (wire_file f))"
proof -
  have u': "unread buffer cursor (wire_string (mentry_file_id (mfile_summary f)) @
     wire_string (mentry_relative_path (mfile_summary f)) @
     wire_string (mentry_root_hash (mfile_summary f)) @
     wire_u64 (mentry_size (mfile_summary f)) @
     wire_u64 (mentry_modified_time_epoch (mfile_summary f)) @
     wire_u64 (word_of_nat (length (mfile_chunks f))) @
     concat (map wire_chunk (mfile_chunks f)) @ rest)"
    using u by (simp add: wire_file_def)
  have less: "length (mfile_chunks f) < 2 ^ 32"
    and count: "mentry_chunk_count (mfile_summary f) = word_of_nat (length (mfile_chunks f))"
    using valid by (simp_all add: valid_file_def)
  show ?thesis
    unfolding ConsumeManifestFile_def Let_def
    apply (rule str.bind_get, rule u', simp)
    apply (rule str.bind_get, assumption, simp)
    apply (rule str.bind_get, assumption, simp)
    apply (rule u64.bind_get, assumption, simp)
    apply (rule u64.bind_get, assumption, simp)
    apply (rule u64.bind_get, assumption, simp)
    apply (rule chunk.bind_get_many, assumption, simp, rule chunk_count_u32 [OF less])
    apply (simp add: chunk_count_word [OF less] flip: count)
    apply (erule unread_unique [OF u])
    done
qed

interpretation mfile: wire_codec wire_file AppendManifestFile ConsumeManifestFile valid_file
  by unfold_locales
    (simp_all add: AppendManifestFile_def wire_file_def Let_def str.put_wire u64.put_wire
      chunk.put_many ConsumeManifestFile_wire)

section \<open>The messages\<close>

lemma RequireType_same [simp]: "frame_type frame = message_code t \<Longrightarrow> RequireType frame t = Inr ()"
  by (simp add: RequireType_def)

lemma RequireType_other:
  "frame_type frame \<noteq> message_code t \<Longrightarrow> \<exists>e. RequireType frame t = Inl e"
  by (simp add: RequireType_def)

lemmas put_wires = str.put_wire u64.put_wire bit.put_wire chunk.put_wire mfile.put_wire
  chunk.put_many mfile.put_many

lemma unread_payload:
  "frame_payload frame = p \<Longrightarrow> length p < 2 ^ 64 \<Longrightarrow> unread (frame_payload frame) 0 p"
  by (simp add: unread_start)

definition wire_header :: "ChunkPayloadHeader \<Rightarrow> string" where
  "wire_header h = wire_string (header_file_id h) @ wire_string (header_chunk_hash h) @
     wire_u64 (ucast (header_chunk_index h)) @ wire_u64 (header_offset h) @
     wire_u64 (header_payload_size h)"

lemma EncodeChunkHeader_wire:
  "EncodeChunkHeader h = \<lparr>frame_type = message_code kChunkData, frame_payload = wire_header h\<rparr>"
  by (simp add: EncodeChunkHeader_def wire_header_def Let_def put_wires)

lemma ConsumeChunkHeader_wire:
  assumes u: "unread buffer cursor (wire_header h @ rest)"
  shows "ConsumeChunkHeader buffer cursor = Inr (h, cursor + length (wire_header h))"
proof -
  have u': "unread buffer cursor (wire_string (header_file_id h) @ wire_string (header_chunk_hash h) @
     wire_u64 (ucast (header_chunk_index h)) @ wire_u64 (header_offset h) @
     wire_u64 (header_payload_size h) @ rest)"
    using u by (simp add: wire_header_def)
  show ?thesis
    unfolding ConsumeChunkHeader_def
    by (rule str.bind_get, rule u', simp)
      (rule u64.bind_get str.bind_get, assumption, simp | simp, erule unread_unique [OF u])+
qed

interpretation header: wire_codec wire_header "\<lambda>buffer h. buffer @ wire_header h" ConsumeChunkHeader
    "\<lambda>_. True"
  by unfold_locales (simp_all add: ConsumeChunkHeader_wire)

lemma manifest_decodes:
  assumes "length (frame_payload (EncodeManifestSummary manifest)) < 2 ^ 64"
    and "length manifest < 2 ^ 64"
    and "\<And>f. f \<in> set manifest \<Longrightarrow> length (mfile_chunks f) < 2 ^ 32"
    and "\<And>f. f \<in> set manifest \<Longrightarrow>
      mentry_chunk_count (mfile_summary f) = word_of_nat (length (mfile_chunks f))"
  shows "DecodeManifestSummary (EncodeManifestSummary manifest) = Inr manifest"
proof -
  let ?frame = "EncodeManifestSummary manifest"
  have payload: "frame_payload ?frame =
      wire_u64 (word_of_nat (length manifest)) @ concat (map wire_file manifest) @ []"
    by (simp add: EncodeManifestSummary_def Let_def put_wires)
  have u: "unread (frame_payload ?frame) 0
      (wire_u64 (word_of_nat (length manifest)) @ concat (map wire_file manifest) @ [])"
    using unread_payload [OF payload] assms(1) by (simp add: payload)
  have type: "frame_type ?frame = message_code kManifestSummary"
    by (simp add: EncodeManifestSummary_def Let_def)
  have count: "unat (word_of_nat (length manifest) :: u64) = length manifest"
    using assms(2) by (simp add: unsigned_of_nat take_bit_nat_eq_self)
  have valid: "valid_file f" if "f \<in> set manifest" for f
    using assms(3,4) [OF that] by (simp only: valid_file_def simp_thms)
  show ?thesis
    unfolding DecodeManifestSummary_def RequireType_same [OF type] bind_result_simps
    by (rule u64.bind_get, rule u, simp, rule mfile.bind_get_many, assumption)
      (simp_all add: valid count)
qed

text \<open>
  C13: Every manifest survives the wire. Decoding the frame that \<open>EncodeManifestSummary\<close> builds gives
  back the same files in the same order with every chunk entry, as long as each \<open>chunk_count\<close> is the
  32 bit number of chunks listed and the payload is an addressable string.
\<close>

theorem manifest_roundtrip:
  assumes "length (frame_payload (EncodeManifestSummary manifest)) < 2 ^ 64"
    and "length manifest < 2 ^ 64"
    and "\<And>f. f \<in> set manifest \<Longrightarrow> length (mfile_chunks f) < 2 ^ 32"
    and "\<And>f. f \<in> set manifest \<Longrightarrow>
      mentry_chunk_count (mfile_summary f) = word_of_nat (length (mfile_chunks f))"
  shows "DecodeManifestSummary (EncodeManifestSummary manifest) = Inr manifest"
  using assms by (rule manifest_decodes)

theorem manifest_roundtrip_witness:
  "DecodeManifestSummary (EncodeManifestSummary
     [\<lparr>mfile_summary = \<lparr>mentry_file_id = ''h'', mentry_relative_path = ''a b'', mentry_root_hash = ''h'',
         mentry_size = 3, mentry_modified_time_epoch = 9, mentry_chunk_count = 1\<rparr>,
       mfile_chunks = [\<lparr>mchunk_index = 0, mchunk_offset = 0, mchunk_size = 3, mchunk_hash = ''c''\<rparr>]\<rparr>]) =
   Inr [\<lparr>mfile_summary = \<lparr>mentry_file_id = ''h'', mentry_relative_path = ''a b'', mentry_root_hash = ''h'',
         mentry_size = 3, mentry_modified_time_epoch = 9, mentry_chunk_count = 1\<rparr>,
       mfile_chunks = [\<lparr>mchunk_index = 0, mchunk_offset = 0, mchunk_size = 3, mchunk_hash = ''c''\<rparr>]\<rparr>]"
  by (rule manifest_roundtrip)
    (simp_all add: EncodeManifestSummary_def put_wires wire_file_def wire_chunk_def wire_string_def
      wire_u64_def to_string_u64_def to_string.simps)

lemma missing_request_decodes:
  assumes "length (frame_payload (EncodeMissingChunksRequest r)) < 2 ^ 64"
    and "length (request_missing_chunks r) < 2 ^ 64"
  shows "DecodeMissingChunksRequest (EncodeMissingChunksRequest r) = Inr r"
proof -
  let ?frame = "EncodeMissingChunksRequest r"
  have payload: "frame_payload ?frame = wire_string (request_file_id r) @
      wire_string (request_relative_path r) @ wire_string (request_expected_root_hash r) @
      wire_u64 (word_of_nat (length (request_missing_chunks r))) @
      concat (map wire_chunk (request_missing_chunks r)) @ []"
    by (simp add: EncodeMissingChunksRequest_def Let_def put_wires)
  note u = unread_payload [OF payload assms(1) [unfolded payload]]
  have type: "frame_type ?frame = message_code kMissingChunksRequest"
    by (simp add: EncodeMissingChunksRequest_def Let_def)
  have count: "unat (word_of_nat (length (request_missing_chunks r)) :: u64) =
      length (request_missing_chunks r)"
    using assms(2) by (simp add: unsigned_of_nat take_bit_nat_eq_self)
  show ?thesis
    unfolding DecodeMissingChunksRequest_def RequireType_same [OF type] bind_result_simps
    apply (rule str.bind_get, rule u, simp)
    apply (rule str.bind_get, assumption, simp)
    apply (rule str.bind_get, assumption, simp)
    apply (rule u64.bind_get, assumption, simp)
    apply (rule chunk.bind_get_many, assumption, simp, rule count, simp)
    done
qed

text \<open>
  A request for missing chunks survives the wire: the responder sees the same file, the same
  expected root hash and the same chunks in the same order.
\<close>

lemma missing_request_roundtrip:
  assumes "length (frame_payload (EncodeMissingChunksRequest r)) < 2 ^ 64"
    and "length (request_missing_chunks r) < 2 ^ 64"
  shows "DecodeMissingChunksRequest (EncodeMissingChunksRequest r) = Inr r"
  by (rule missing_request_decodes [OF assms])

lemma missing_request_roundtrip_example:
  "DecodeMissingChunksRequest (EncodeMissingChunksRequest
     \<lparr>request_file_id = ''f'', request_relative_path = ''p'', request_expected_root_hash = ''r'',
      request_missing_chunks =
        [\<lparr>mchunk_index = 2, mchunk_offset = 8, mchunk_size = 4, mchunk_hash = ''h''\<rparr>]\<rparr>) =
   Inr \<lparr>request_file_id = ''f'', request_relative_path = ''p'', request_expected_root_hash = ''r'',
      request_missing_chunks =
        [\<lparr>mchunk_index = 2, mchunk_offset = 8, mchunk_size = 4, mchunk_hash = ''h''\<rparr>]\<rparr>"
  by (rule missing_request_roundtrip)
    (simp_all add: EncodeMissingChunksRequest_def put_wires wire_chunk_def wire_string_def
      wire_u64_def to_string_u64_def to_string.simps)

text \<open>
  A chunk survives the wire with its header when the header announces the length of the payload,
  and a frame whose header announces any other length is refused with an exception.
\<close>

lemma chunk_data_roundtrip:
  assumes "length (frame_payload (EncodeChunkData m)) < 2 ^ 64"
  shows "DecodeChunkData (EncodeChunkData m) =
    (if unat (header_payload_size (data_header m)) = length (data_payload_bytes m) then Inr m
     else throw (RuntimeError ''protocol decode error: chunk payload size mismatch''))"
proof -
  let ?frame = "EncodeChunkData m"
  have payload: "frame_payload ?frame =
      wire_header (data_header m) @ wire_string (data_payload_bytes m) @ []"
    by (simp add: EncodeChunkData_def Let_def EncodeChunkHeader_wire put_wires)
  note u = unread_payload [OF payload assms [unfolded payload]]
  have type: "frame_type ?frame = message_code kChunkData"
    by (simp add: EncodeChunkData_def Let_def EncodeChunkHeader_wire)
  show ?thesis
    unfolding DecodeChunkData_def RequireType_same [OF type] bind_result_simps
    by (rule header.bind_get, rule u, simp, rule str.bind_get, assumption, simp) auto
qed

lemma chunk_data_roundtrip_example:
  "DecodeChunkData (EncodeChunkData
     \<lparr>data_header = \<lparr>header_file_id = ''f'', header_chunk_hash = ''h'', header_chunk_index = 1,
        header_offset = 4, header_payload_size = 2\<rparr>, data_payload_bytes = ''xy''\<rparr>) =
   Inr \<lparr>data_header = \<lparr>header_file_id = ''f'', header_chunk_hash = ''h'', header_chunk_index = 1,
        header_offset = 4, header_payload_size = 2\<rparr>, data_payload_bytes = ''xy''\<rparr>"
  by (subst chunk_data_roundtrip)
    (simp_all add: EncodeChunkData_def EncodeChunkHeader_wire wire_header_def put_wires
      wire_string_def wire_u64_def to_string_u64_def to_string.simps)

lemma hello_roundtrip:
  assumes len: "length (frame_payload (EncodeHello h)) < 2 ^ 64"
  shows "DecodeHello (EncodeHello h) = Inr h"
proof -
  have payload: "frame_payload (EncodeHello h) = wire_string (hello_node_id h) @
      wire_string (hello_device_name h) @ wire_string (hello_protocol_version h) @ []"
    by (simp add: EncodeHello_def Let_def put_wires)
  have type: "frame_type (EncodeHello h) = message_code kHello"
    by (simp add: EncodeHello_def Let_def)
  show ?thesis
    unfolding DecodeHello_def RequireType_same [OF type] bind_result_simps
    by (rule str.bind_get, rule unread_payload [OF payload len [unfolded payload]], simp)
      (rule str.bind_get, assumption, simp | simp)+
qed

lemma sync_ack_roundtrip:
  assumes len: "length (frame_payload (EncodeSyncAck a)) < 2 ^ 64"
  shows "DecodeSyncAck (EncodeSyncAck a) = Inr a"
proof -
  have payload: "frame_payload (EncodeSyncAck a) = wire_string (ack_file_id a) @
      wire_string (ack_relative_path a) @ wire_u64 (if ack_success a then 1 else 0) @
      wire_string (ack_detail a) @ []"
    by (simp add: EncodeSyncAck_def Let_def put_wires)
  have type: "frame_type (EncodeSyncAck a) = message_code kSyncAck"
    by (simp add: EncodeSyncAck_def Let_def)
  show ?thesis
    unfolding DecodeSyncAck_def RequireType_same [OF type] bind_result_simps
    by (rule str.bind_get, rule unread_payload [OF payload len [unfolded payload]], simp)
      (rule str.bind_get bit.bind_get, assumption, simp | simp)+
qed

lemma error_roundtrip:
  assumes len: "length (frame_payload (EncodeError e)) < 2 ^ 64"
  shows "DecodeError (EncodeError e) = Inr e"
proof -
  have payload: "frame_payload (EncodeError e) = wire_string (err_detail e) @ []"
    by (simp add: EncodeError_def put_wires)
  have type: "frame_type (EncodeError e) = message_code kError"
    by (simp add: EncodeError_def)
  show ?thesis
    unfolding DecodeError_def RequireType_same [OF type] bind_result_simps
    by (rule str.bind_get, rule unread_payload [OF payload len [unfolded payload]], simp) simp
qed

lemma chunk_header_roundtrip:
  assumes len: "length (frame_payload (EncodeChunkHeader c)) < 2 ^ 64"
  shows "DecodeChunkHeader (EncodeChunkHeader c) = Inr c"
proof -
  have payload: "frame_payload (EncodeChunkHeader c) = wire_header c @ []"
    by (simp add: EncodeChunkHeader_wire)
  have type: "frame_type (EncodeChunkHeader c) = message_code kChunkData"
    by (simp add: EncodeChunkHeader_wire)
  show ?thesis
    unfolding DecodeChunkHeader_def RequireType_same [OF type] bind_result_simps
    by (rule header.bind_get, rule unread_payload [OF payload len [unfolded payload]], simp) simp
qed

text \<open>
  The greeting, the acknowledgement, the error report and the bare chunk header survive the wire,
  whatever text their fields hold: newlines and digits in a field cannot be confused with the framing.
\<close>

lemma small_message_roundtrip:
  assumes "length (frame_payload (EncodeHello h)) < 2 ^ 64"
    and "length (frame_payload (EncodeSyncAck a)) < 2 ^ 64"
    and "length (frame_payload (EncodeError e)) < 2 ^ 64"
    and "length (frame_payload (EncodeChunkHeader c)) < 2 ^ 64"
  shows "DecodeHello (EncodeHello h) = Inr h \<and> DecodeSyncAck (EncodeSyncAck a) = Inr a \<and>
    DecodeError (EncodeError e) = Inr e \<and> DecodeChunkHeader (EncodeChunkHeader c) = Inr c"
  using assms by (simp add: hello_roundtrip sync_ack_roundtrip error_roundtrip chunk_header_roundtrip)

lemma small_message_roundtrip_example:
  "DecodeHello (EncodeHello \<lparr>hello_node_id = ''3'', hello_device_name = [newline],
     hello_protocol_version = []\<rparr>) =
   Inr \<lparr>hello_node_id = ''3'', hello_device_name = [newline], hello_protocol_version = []\<rparr>"
  by (rule small_message_roundtrip [THEN conjunct1, of _ SyncAckMessage_init ErrorMessage_init
        ChunkPayloadHeader_init])
    (simp_all add: EncodeHello_def EncodeSyncAck_def EncodeError_def EncodeChunkHeader_wire
      wire_header_def put_wires wire_string_def wire_u64_def to_string_u64_def to_string.simps
      SyncAckMessage_init_def ErrorMessage_init_def ChunkPayloadHeader_init_def)

section \<open>What a reader accepts\<close>

lemma ConsumeString_Inr:
  assumes "ConsumeString buffer cursor = Inr (v, cursor')"
  obtains length_end len where
    "find_char newline buffer cursor = Some length_end"
    "stoull (take (length_end - cursor) (drop cursor buffer)) = Inr len"
    "(length_end + 1 + unat len) mod 2 ^ 64 < length buffer"
    "buffer ! ((length_end + 1 + unat len) mod 2 ^ 64) = newline"
    "v = take (unat len) (drop (length_end + 1) buffer)"
    "cursor' = (length_end + 1 + unat len) mod 2 ^ 64 + 1"
  using assms unfolding ConsumeString_def
  by (auto simp: Let_def bind_result_Inr_iff not_le split: option.splits if_splits)

text \<open>
  What \<open>ConsumeString\<close> accepts stays inside the buffer: the new cursor is at most the buffer's
  length, the value is the text behind the length line, and a terminator stands before the new cursor.
  Unless the sum of position and announced length wraps around, the value has exactly the announced
  length and the cursor moves forward past it.
\<close>

lemma consume_string_bounds:
  assumes "ConsumeString buffer cursor = Inr (v, cursor')"
  shows "cursor' \<le> length buffer \<and> buffer ! (cursor' - 1) = newline \<and>
    (\<exists>length_end len. find_char newline buffer cursor = Some length_end \<and>
       stoull (take (length_end - cursor) (drop cursor buffer)) = Inr len \<and>
       v = take (unat len) (drop (length_end + 1) buffer) \<and>
       (length_end + 1 + unat len < 2 ^ 64 \<longrightarrow>
          length v = unat len \<and> cursor' = length_end + 1 + length v + 1 \<and> cursor < cursor'))"
proof -
  obtain length_end len where
    f: "find_char newline buffer cursor = Some length_end" and
    n: "stoull (take (length_end - cursor) (drop cursor buffer)) = Inr len" and
    lt: "(length_end + 1 + unat len) mod 2 ^ 64 < length buffer" and
    at: "buffer ! ((length_end + 1 + unat len) mod 2 ^ 64) = newline" and
    v: "v = take (unat len) (drop (length_end + 1) buffer)" and
    c: "cursor' = (length_end + 1 + unat len) mod 2 ^ 64 + 1"
    using assms by (rule ConsumeString_Inr)
  have "cursor \<le> length_end" using find_char_Some [OF f] by simp
  then have "length v = unat len \<and> cursor' = length_end + 1 + length v + 1 \<and> cursor < cursor'"
    if "length_end + 1 + unat len < 2 ^ 64"
    using lt that by (simp add: v c)
  moreover have "cursor' \<le> length buffer" "buffer ! (cursor' - 1) = newline"
    using lt at c by simp_all
  ultimately show ?thesis using f n v by blast
qed

lemma consume_string_bounds_example:
  "ConsumeString (wire_string ''ab'') 0 = Inr (''ab'', 5) \<and> (5::nat) \<le> length (wire_string ''ab'')"
proof -
  have "unread (wire_string ''ab'') 0 (wire_string ''ab'' @ [])"
    by (simp add: unread_def wire_string_def to_string.simps)
  then have c: "ConsumeString (wire_string ''ab'') 0 = Inr (''ab'', 5)"
    using ConsumeString_wire [of "wire_string ''ab''" 0 "''ab''" "[]"]
    by (simp add: wire_string_def to_string.simps)
  then show ?thesis using consume_string_bounds [OF c] by simp
qed

text \<open>
  The length check of \<open>ConsumeString\<close> can be bypassed. A length line announcing
  \<open>2^64 - 1\<close> characters is accepted although the buffer is shorter: the sum wraps to the length line's
  own newline, the value is the whole rest of the buffer, and the cursor stays behind the length line,
  so the next field reads the same text again.
\<close>

lemma consume_string_wraps:
  assumes "length rest < 2 ^ 64 - 1"
  shows "ConsumeString (''18446744073709551615'' @ newline # rest) 0 = Inr (rest, 21)"
proof -
  let ?n = "''18446744073709551615''"
  have "newline \<notin> set ?n" by (simp add: newline_def)
  then have f: "find_char newline (?n @ newline # rest) 0 = Some 20"
    using find_newline [of ?n "?n @ newline # rest" "[]" rest] by simp
  have "\<forall>c \<in> set ?n. is_digit c" by (simp add: is_digit_def)
  moreover have "parse_digits 0 ?n = 2 ^ 64 - 1" by (simp add: digit_value_def)
  ultimately have "stoull ?n = Inr (word_of_nat (2 ^ 64 - 1))"
    using stoull_digits [of ?n] by (metis diff_less list.distinct(1) zero_less_numeral zero_less_one zero_less_power)
  then have n: "stoull (take (20 - 0) (drop 0 (?n @ newline # rest))) = Inr (- 1)"
    by simp
  have at: "(?n @ newline # rest) ! 20 = newline" by (simp add: nth_append)
  have "unat (- 1 :: u64) = 2 ^ 64 - 1"
    by (simp add: unsigned_minus_1_eq_mask mask_eq_exp_minus_1)
  then show ?thesis
    using assms unfolding ConsumeString_def f option.case n bind_result_simps Let_def
    by (simp add: at)
qed

lemma consume_string_wraps_example:
  "ConsumeString (''18446744073709551615'' @ newline # ''abc'') 0 = Inr (''abc'', 21)"
  by (rule consume_string_wraps) simp

end
