(* ===== verification/Transport.thy ===== *)
theory Transport
  imports Protocol_Codec
begin

text \<open>
  \<^verbatim>\<open>src/network/transport.cpp\<close>: the two transports of the sync protocol. The in-memory endpoints share
  two queues, modelled as cells of a store so that the aliasing is explicit. The socket endpoint writes
  a frame as type, size and payload and reads it back over an operating system that transfers any
  positive number of bytes per call; the listener and the connection set-up only call the system.
\<close>

unbundle bit_operations_syntax

section \<open>In-memory endpoints\<close>

text \<open>A queue is a cell of the store; an endpoint holds the addresses of its two queues, or null.\<close>

type_synonym queues = "nat \<Rightarrow> MessageFrame list"

record InMemoryTransportEndpoint =
  inbox :: "nat option"
  outbox :: "nat option"

definition InMemory_Send :: "InMemoryTransportEndpoint \<Rightarrow> MessageFrame \<Rightarrow> queues \<Rightarrow> queues result" where
  "InMemory_Send ep frame q =
     (case outbox ep of
        None \<Rightarrow> throw (RuntimeError ''transport endpoint has no outbound queue'')
      | Some a \<Rightarrow> Inr (q(a := q a @ [frame])))"

definition InMemory_Receive ::
  "InMemoryTransportEndpoint \<Rightarrow> queues \<Rightarrow> MessageFrame option \<times> queues" where
  "InMemory_Receive ep q =
     (case inbox ep of
        None \<Rightarrow> (None, q)
      | Some a \<Rightarrow> (case q a of [] \<Rightarrow> (None, q) | frame # rest \<Rightarrow> (Some frame, q(a := rest))))"

definition CreateInMemoryTransportPair ::
  "queues \<Rightarrow> nat \<Rightarrow> (InMemoryTransportEndpoint \<times> InMemoryTransportEndpoint) \<times> queues" where
  "CreateInMemoryTransportPair q fresh =
     (let left_inbox = fresh; right_inbox = fresh + 1
      in ((\<lparr>inbox = Some left_inbox, outbox = Some right_inbox\<rparr>,
           \<lparr>inbox = Some right_inbox, outbox = Some left_inbox\<rparr>),
          q(left_inbox := [], right_inbox := [])))"

text \<open>
  A run of a pair: either side sends or receives in any order. The history keeps what each side has
  sent and what it has received.
\<close>

record Link =
  link_queues :: queues
  left_sent :: "MessageFrame list"
  left_received :: "MessageFrame list"
  right_sent :: "MessageFrame list"
  right_received :: "MessageFrame list"

inductive link_reach :: "InMemoryTransportEndpoint \<Rightarrow> InMemoryTransportEndpoint \<Rightarrow> Link \<Rightarrow> bool"
  for left right where
  created: "CreateInMemoryTransportPair q0 fresh = ((left, right), q) \<Longrightarrow>
    link_reach left right \<lparr>link_queues = q, left_sent = [], left_received = [], right_sent = [],
      right_received = []\<rparr>"
| left_send: "link_reach left right s \<Longrightarrow> InMemory_Send left frame (link_queues s) = Inr q \<Longrightarrow>
    link_reach left right (s\<lparr>link_queues := q, left_sent := left_sent s @ [frame]\<rparr>)"
| right_send: "link_reach left right s \<Longrightarrow> InMemory_Send right frame (link_queues s) = Inr q \<Longrightarrow>
    link_reach left right (s\<lparr>link_queues := q, right_sent := right_sent s @ [frame]\<rparr>)"
| left_receive: "link_reach left right s \<Longrightarrow>
    InMemory_Receive left (link_queues s) = (Some frame, q) \<Longrightarrow>
    link_reach left right (s\<lparr>link_queues := q, left_received := left_received s @ [frame]\<rparr>)"
| right_receive: "link_reach left right s \<Longrightarrow>
    InMemory_Receive right (link_queues s) = (Some frame, q) \<Longrightarrow>
    link_reach left right (s\<lparr>link_queues := q, right_received := right_received s @ [frame]\<rparr>)"

definition link_inv :: "InMemoryTransportEndpoint \<Rightarrow> InMemoryTransportEndpoint \<Rightarrow> Link \<Rightarrow> bool" where
  "link_inv left right s \<longleftrightarrow> (\<exists>a b. a \<noteq> b \<and> left = \<lparr>inbox = Some a, outbox = Some b\<rparr> \<and>
     right = \<lparr>inbox = Some b, outbox = Some a\<rparr> \<and>
     left_sent s = right_received s @ link_queues s b \<and>
     right_sent s = left_received s @ link_queues s a)"

lemma link_reach_inv: "link_reach left right s \<Longrightarrow> link_inv left right s"
proof (induction rule: link_reach.induct)
  case (created q0 fresh q)
  then show ?case by (auto simp: CreateInMemoryTransportPair_def Let_def link_inv_def)
next
  case (left_send s frame q)
  then show ?case by (auto simp: link_inv_def InMemory_Send_def)
next
  case (right_send s frame q)
  then show ?case by (auto simp: link_inv_def InMemory_Send_def)
next
  case (left_receive s frame q)
  then show ?case by (auto simp: link_inv_def InMemory_Receive_def split: list.splits)
next
  case (right_receive s frame q)
  then show ?case by (auto simp: link_inv_def InMemory_Receive_def split: list.splits)
qed

text \<open>
  An in-memory link delivers in order and without loss. In every run, however the two sides
  interleave, what one side has received is a prefix of what the other has sent, and a receive that
  finds nothing means that everything sent has been received; sending never fails.
\<close>

lemma in_memory_link_fifo:
  assumes "link_reach left right s"
  shows "(\<exists>pending. left_sent s = right_received s @ pending) \<and>
    (\<exists>pending. right_sent s = left_received s @ pending) \<and>
    (InMemory_Receive right (link_queues s) = (None, link_queues s) \<longleftrightarrow>
       right_received s = left_sent s) \<and>
    (\<exists>q. InMemory_Send left frame (link_queues s) = Inr q) \<and>
    (\<exists>q. InMemory_Send right frame (link_queues s) = Inr q)"
  using link_reach_inv [OF assms]
  by (auto simp: link_inv_def InMemory_Receive_def InMemory_Send_def split: list.splits)

lemma link_reach_greeting:
  fixes frame :: MessageFrame
  defines "left \<equiv> \<lparr>inbox = Some 0, outbox = Some (1::nat)\<rparr>"
    and "right \<equiv> \<lparr>inbox = Some 1, outbox = Some (0::nat)\<rparr>"
  shows "link_reach left right
    \<lparr>link_queues = (\<lambda>_. [])(0 := [], 1 := [frame]), left_sent = [frame], left_received = [],
     right_sent = [], right_received = []\<rparr>"
proof -
  have "CreateInMemoryTransportPair (\<lambda>_. []) 0 = ((left, right), (\<lambda>_. [])(0 := [], 1 := []))"
    by (simp add: CreateInMemoryTransportPair_def left_def right_def Let_def)
  from link_reach.left_send [OF link_reach.created [OF this], of frame "(\<lambda>_. [])(0 := [], 1 := [frame])"]
  show ?thesis by (simp add: InMemory_Send_def left_def)
qed

lemma in_memory_link_fifo_example:
  "\<exists>s. link_reach \<lparr>inbox = Some 0, outbox = Some 1\<rparr> \<lparr>inbox = Some 1, outbox = Some 0\<rparr> s \<and>
     left_sent s = [EncodeError ErrorMessage_init] \<and>
     (\<exists>pending. left_sent s = right_received s @ pending)"
  using in_memory_link_fifo [OF link_reach_greeting [of "EncodeError ErrorMessage_init"],
      THEN conjunct1] link_reach_greeting [of "EncodeError ErrorMessage_init"]
  by (intro exI conjI) auto

section \<open>Socket endpoints\<close>

text \<open>
  The operating system is a parameter: \<open>os k\<close> is what the \<open>k\<close>-th call to \<open>send\<close> or \<open>recv\<close> is willing
  to return. \<open>send\<close> transfers at most what it is given. \<open>recv\<close> returns 0 exactly at the end of the
  stream, otherwise a negative error or between one byte and what was asked for.
\<close>

type_synonym os = "nat \<Rightarrow> int"

function WriteAll :: "os \<Rightarrow> nat \<Rightarrow> bytes \<Rightarrow> bytes \<Rightarrow> (bytes \<times> nat) result" where
  "WriteAll os k remaining stream =
     (if remaining = [] then Inr (stream, k)
      else if os k \<le> 0 then throw (RuntimeError ''socket send failed'')
      else let rc = min (nat (os k)) (length remaining)
           in WriteAll os (k + 1) (drop rc remaining) (stream @ take rc remaining))"
  by pat_completeness auto
termination
  by (relation "measure (\<lambda>(os, k, remaining, stream). length remaining)")
    (auto simp: min_def not_le)

declare WriteAll.simps [simp del]

text \<open>\<open>Inr None\<close> is the result \<open>false\<close>; the bytes read before the end of the stream are gone.\<close>

function ReadExact :: "os \<Rightarrow> nat \<Rightarrow> nat \<Rightarrow> bytes \<Rightarrow> bytes \<Rightarrow> (bytes option \<times> bytes \<times> nat) result" where
  "ReadExact os k count buffer stream =
     (if count \<le> length buffer then Inr (Some buffer, stream, k)
      else if stream = [] then Inr (None, [], k + 1)
      else if os k < 0 then throw (RuntimeError ''socket recv failed'')
      else let rc = min (max 1 (nat (os k))) (min (count - length buffer) (length stream))
           in ReadExact os (k + 1) count (buffer @ take rc stream) (drop rc stream))"
  by pat_completeness auto
termination
  by (relation "measure (\<lambda>(os, k, count, buffer, stream). length stream)") (auto simp: min_def)

declare ReadExact.simps [simp del]

text \<open>A 32 bit value in network byte order, the memory image that \<open>htonl\<close> makes.\<close>

definition HostToNet32 :: "u32 \<Rightarrow> bytes" where
  "HostToNet32 w = [ucast (drop_bit 24 w), ucast (drop_bit 16 w), ucast (drop_bit 8 w), ucast w]"

definition NetToHost32 :: "bytes \<Rightarrow> u32" where
  "NetToHost32 b = push_bit 24 (ucast (b ! 0)) OR push_bit 16 (ucast (b ! 1)) OR
     push_bit 8 (ucast (b ! 2)) OR ucast (b ! 3)"

lemma length_HostToNet32 [simp]: "length (HostToNet32 w) = 4"
  by (simp add: HostToNet32_def)

lemma NetToHost32_inverse: "NetToHost32 (HostToNet32 w) = w"
proof (rule bit_word_eqI)
  fix n assume "n < LENGTH(32)"
  then have "n < 8 \<or> 8 \<le> n \<and> n < 16 \<or> 16 \<le> n \<and> n < 24 \<or> 24 \<le> n \<and> n < 32" by auto
  then show "bit (NetToHost32 (HostToNet32 w)) n \<longleftrightarrow> bit w n"
    by (auto simp: NetToHost32_def HostToNet32_def bit_simps)
qed

definition SocketSend :: "os \<Rightarrow> nat \<Rightarrow> MessageFrame \<Rightarrow> bytes \<Rightarrow> (bytes \<times> nat) result" where
  "SocketSend os k frame stream =
     (let ty = HostToNet32 (ucast (frame_type frame));
          size = HostToNet32 (word_of_nat (length (frame_payload frame)))
      in bind_result (WriteAll os k ty stream) (\<lambda>(stream, k).
         bind_result (WriteAll os k size stream) (\<lambda>(stream, k).
           if frame_payload frame \<noteq> [] then
             WriteAll os k (map byte_of_char (frame_payload frame)) stream
           else Inr (stream, k))))"

text \<open>
  \<open>Inr None\<close> is the result \<open>false\<close>. The cast of the 32 bit type to the 8 bit enum keeps the low byte.
\<close>

definition SocketReceive :: "os \<Rightarrow> nat \<Rightarrow> bytes \<Rightarrow> (MessageFrame option \<times> bytes \<times> nat) result" where
  "SocketReceive os k stream =
     bind_result (ReadExact os k 4 [] stream) (\<lambda>(ty, stream, k).
       case ty of None \<Rightarrow> Inr (None, stream, k) | Some ty \<Rightarrow>
     bind_result (ReadExact os k 4 [] stream) (\<lambda>(sz, stream, k).
       case sz of None \<Rightarrow> Inr (None, stream, k) | Some sz \<Rightarrow>
         let n = unat (NetToHost32 sz);
             frame_ty = ucast (NetToHost32 ty) :: u8
         in if n > 0 then
              bind_result (ReadExact os k n [] stream) (\<lambda>(payload, stream, k).
                case payload of None \<Rightarrow> Inr (None, stream, k)
                | Some b \<Rightarrow> Inr (Some \<lparr>frame_type = frame_ty, frame_payload = map char_of_byte b\<rparr>,
                    stream, k))
            else Inr (Some \<lparr>frame_type = frame_ty, frame_payload = []\<rparr>, stream, k)))"

subsection \<open>Partial transfers do not matter\<close>

definition frame_bytes :: "MessageFrame \<Rightarrow> bytes" where
  "frame_bytes frame = HostToNet32 (ucast (frame_type frame)) @
     HostToNet32 (word_of_nat (length (frame_payload frame))) @
     map byte_of_char (frame_payload frame)"

lemma WriteAll_complete:
  assumes "\<And>j. 0 < os j"
  shows "\<exists>k'. WriteAll os k remaining stream = Inr (stream @ remaining, k')"
proof (induction "length remaining" arbitrary: k remaining stream rule: less_induct)
  case less
  show ?case
  proof (cases "remaining = []")
    case False
    define rc where "rc = min (nat (os k)) (length remaining)"
    have "1 \<le> rc" using False assms [of k] by (auto simp: rc_def Suc_le_eq)
    then have "\<exists>k'. WriteAll os (k + 1) (drop rc remaining) (stream @ take rc remaining) =
        Inr ((stream @ take rc remaining) @ drop rc remaining, k')"
      using False by (intro less.hyps) auto
    then show ?thesis
      using False assms [of k] by (subst WriteAll.simps) (simp add: Let_def not_le flip: rc_def)
  qed (simp add: WriteAll.simps)
qed

lemma ReadExact_complete:
  assumes "\<And>j. 0 \<le> os j"
  shows "count = length buffer + length field \<Longrightarrow>
    \<exists>k'. ReadExact os k count buffer (field @ rest) = Inr (Some (buffer @ field), rest, k')"
proof (induction "length field" arbitrary: k buffer field rule: less_induct)
  case less
  show ?case
  proof (cases "field = []")
    case True
    then show ?thesis using less.prems by (simp add: ReadExact.simps)
  next
    case False
    define rc where "rc = min (max 1 (nat (os k))) (length field)"
    have rc: "1 \<le> rc" "rc \<le> length field"
      using False by (auto simp: rc_def min_def max_def Suc_le_eq)
    have step: "ReadExact os k count buffer (field @ rest) =
        ReadExact os (k + 1) count (buffer @ take rc field) (drop rc field @ rest)"
      using less.prems False assms [of k] rc
      by (subst ReadExact.simps) (simp add: Let_def not_less rc_def)
    have "\<exists>k'. ReadExact os (k + 1) count (buffer @ take rc field) (drop rc field @ rest) =
        Inr (Some ((buffer @ take rc field) @ drop rc field), rest, k')"
      using rc less.prems False by (intro less.hyps) auto
    then show ?thesis by (simp add: step)
  qed
qed

lemma ReadExact_short:
  assumes "\<And>j. 0 \<le> os j"
  shows "length buffer + length stream < count \<Longrightarrow>
    \<exists>k'. ReadExact os k count buffer stream = Inr (None, [], k')"
proof (induction "length stream" arbitrary: k buffer stream rule: less_induct)
  case less
  show ?case
  proof (cases "stream = []")
    case True
    then show ?thesis using less.prems by (simp add: ReadExact.simps)
  next
    case False
    define rc where "rc = min (max 1 (nat (os k))) (min (count - length buffer) (length stream))"
    have rc: "1 \<le> rc" "rc \<le> length stream"
      using False less.prems by (auto simp: rc_def min_def max_def Suc_le_eq)
    have step: "ReadExact os k count buffer stream =
        ReadExact os (k + 1) count (buffer @ take rc stream) (drop rc stream)"
      using less.prems False assms [of k]
      by (subst ReadExact.simps) (simp add: Let_def not_less rc_def)
    have "\<exists>k'. ReadExact os (k + 1) count (buffer @ take rc stream) (drop rc stream) = Inr (None, [], k')"
      using rc less.prems False by (intro less.hyps) auto
    then show ?thesis by (simp add: step)
  qed
qed

lemma SocketSend_complete:
  assumes "\<And>j. 0 < os j"
  shows "\<exists>k'. SocketSend os k frame stream = Inr (stream @ frame_bytes frame, k')"
proof -
  note w = WriteAll_complete [of os, OF assms]
  obtain k1 where 1: "WriteAll os k (HostToNet32 (ucast (frame_type frame))) stream =
      Inr (stream @ HostToNet32 (ucast (frame_type frame)), k1)" using w by blast
  let ?s2 = "(stream @ HostToNet32 (ucast (frame_type frame))) @
      HostToNet32 (word_of_nat (length (frame_payload frame)))"
  obtain k2 where 2: "WriteAll os k1 (HostToNet32 (word_of_nat (length (frame_payload frame))))
      (stream @ HostToNet32 (ucast (frame_type frame))) = Inr (?s2, k2)" using w by blast
  obtain k3 where 3: "WriteAll os k2 (map byte_of_char (frame_payload frame)) ?s2 =
      Inr (?s2 @ map byte_of_char (frame_payload frame), k3)" using w by blast
  show ?thesis
    using 3 by (simp add: SocketSend_def Let_def 1 2 frame_bytes_def)
qed

lemma unat_word32: "n < 2 ^ 32 \<Longrightarrow> unat (word_of_nat n :: u32) = n"
  by (simp add: unsigned_of_nat take_bit_nat_eq_self)

lemma ucast_u8_u32 [simp]: "ucast (ucast (w :: u8) :: u32) = w"
  by (rule bit_word_eqI) (simp add: bit_simps)

lemma SocketReceive_complete:
  assumes os: "\<And>j. 0 \<le> os j" and len: "length (frame_payload frame) < 2 ^ 32"
  shows "\<exists>k'. SocketReceive os k (frame_bytes frame @ rest) = Inr (Some frame, rest, k')"
proof -
  let ?ty = "HostToNet32 (ucast (frame_type frame))"
  let ?sz = "HostToNet32 (word_of_nat (length (frame_payload frame)))"
  let ?pl = "map byte_of_char (frame_payload frame)"
  note r = ReadExact_complete [of os 4 "[]", OF os, simplified]
  obtain k1 where 1: "ReadExact os k 4 [] (?ty @ ?sz @ ?pl @ rest) = Inr (Some ?ty, ?sz @ ?pl @ rest, k1)"
    using r [of ?ty] by auto
  obtain k2 where 2: "ReadExact os k1 4 [] (?sz @ ?pl @ rest) = Inr (Some ?sz, ?pl @ rest, k2)"
    using r [of ?sz] by auto
  obtain k3 where 3: "ReadExact os k2 (length (frame_payload frame)) [] (?pl @ rest) =
      Inr (Some ?pl, rest, k3)"
    using ReadExact_complete [of os "length (frame_payload frame)" "[]" ?pl, OF os] by auto
  show ?thesis
    using 3 by (auto simp: SocketReceive_def frame_bytes_def 1 2 NetToHost32_inverse unat_word32 [OF len]
        Let_def comp_def)
qed

fun SendFrames :: "os \<Rightarrow> nat \<Rightarrow> MessageFrame list \<Rightarrow> bytes \<Rightarrow> (bytes \<times> nat) result" where
  "SendFrames os k [] stream = Inr (stream, k)"
| "SendFrames os k (f # fs) stream =
     bind_result (SocketSend os k f stream) (\<lambda>(stream, k). SendFrames os k fs stream)"

fun ReceiveFrames :: "os \<Rightarrow> nat \<Rightarrow> nat \<Rightarrow> bytes \<Rightarrow> (MessageFrame list \<times> bytes) result" where
  "ReceiveFrames os k 0 stream = Inr ([], stream)"
| "ReceiveFrames os k (Suc n) stream =
     bind_result (SocketReceive os k stream) (\<lambda>(frame, stream, k).
       case frame of None \<Rightarrow> Inr ([], stream)
       | Some f \<Rightarrow> bind_result (ReceiveFrames os k n stream) (\<lambda>(fs, stream). Inr (f # fs, stream)))"

lemma SendFrames_complete:
  assumes "\<And>j. 0 < os j"
  shows "\<exists>k'. SendFrames os k frames stream = Inr (stream @ concat (map frame_bytes frames), k')"
proof (induction frames arbitrary: k stream)
  case (Cons f fs)
  obtain k1 where "SocketSend os k f stream = Inr (stream @ frame_bytes f, k1)"
    using SocketSend_complete [of os, OF assms] by blast
  then show ?case using Cons.IH [of k1 "stream @ frame_bytes f"] by simp
qed simp

lemma ReceiveFrames_complete:
  assumes os: "\<And>j. 0 \<le> os j"
  shows "(\<And>f. f \<in> set frames \<Longrightarrow> length (frame_payload f) < 2 ^ 32) \<Longrightarrow>
    ReceiveFrames os k (length frames) (concat (map frame_bytes frames) @ rest) = Inr (frames, rest)"
proof (induction frames arbitrary: k)
  case (Cons f fs)
  have "length (frame_payload f) < 2 ^ 32" using Cons.prems by simp
  then obtain k1 where
    "SocketReceive os k (frame_bytes f @ concat (map frame_bytes fs) @ rest) =
       Inr (Some f, concat (map frame_bytes fs) @ rest, k1)"
    using SocketReceive_complete [of os f k, OF os] by blast
  then show ?case using Cons.IH [of k1] Cons.prems by simp
qed simp

text \<open>
  C24: Frames cross a socket unchanged. Whatever positive amounts the sender's and the receiver's system
  calls transfer, sending frames one after the other and receiving as many on the other side gives the
  same frames in the same order, with nothing left over; each payload is shorter than \<open>2^32\<close> bytes.
\<close>

theorem socket_frames_roundtrip:
  assumes "\<And>j. 0 < os_send j" and "\<And>j. 0 \<le> os_recv j"
    and "\<And>f. f \<in> set frames \<Longrightarrow> length (frame_payload f) < 2 ^ 32"
  shows "\<exists>stream k'. SendFrames os_send k frames [] = Inr (stream, k') \<and>
    ReceiveFrames os_recv j (length frames) stream = Inr (frames, [])"
  using SendFrames_complete [of os_send k frames "[]", OF assms(1)]
    ReceiveFrames_complete [of os_recv frames j "[]", OF assms(2,3)] by auto

theorem socket_frames_roundtrip_witness:
  "\<exists>stream k'. SendFrames (\<lambda>_. 1) 0 [EncodeError \<lparr>err_detail = ''x''\<rparr>] [] = Inr (stream, k') \<and>
    ReceiveFrames (\<lambda>_. 3) 0 1 stream = Inr ([EncodeError \<lparr>err_detail = ''x''\<rparr>], [])"
  using socket_frames_roundtrip [of "\<lambda>_. 1" "\<lambda>_. 3" "[EncodeError \<lparr>err_detail = ''x''\<rparr>]" 0 0]
  by (simp add: EncodeError_def AppendString_def to_string.simps Let_def)

text \<open>
  C32: A connection that closes inside a frame is reported as closed: from any proper prefix of a frame
  \<open>Receive\<close> returns false and never delivers a truncated message.
\<close>

theorem socket_truncated_frame:
  assumes os: "\<And>j. 0 \<le> os j" and len: "length (frame_payload frame) < 2 ^ 32"
    and cut: "n < length (frame_bytes frame)"
  shows "\<exists>rest k'. SocketReceive os k (take n (frame_bytes frame)) = Inr (None, rest, k')"
proof -
  let ?ty = "HostToNet32 (ucast (frame_type frame))"
  let ?sz = "HostToNet32 (word_of_nat (length (frame_payload frame)))"
  let ?pl = "map byte_of_char (frame_payload frame)"
  have bytes: "frame_bytes frame = ?ty @ ?sz @ ?pl" by (simp add: frame_bytes_def)
  consider "n < 4" | "4 \<le> n" "n < 8" | "8 \<le> n" by linarith
  then show ?thesis
  proof cases
    case 1
    then show ?thesis
      using ReadExact_short [of os "[]" "take n (frame_bytes frame)" 4 k, OF os]
      by (auto simp: SocketReceive_def min_less_iff_disj)
  next
    case 2
    have t: "take n (frame_bytes frame) = ?ty @ take (n - 4) ?sz" using 2 by (simp add: bytes)
    obtain k1 where 1: "ReadExact os k 4 [] (?ty @ take (n - 4) ?sz) = Inr (Some ?ty, take (n - 4) ?sz, k1)"
      using ReadExact_complete [of os 4 "[]" ?ty, OF os] by auto
    moreover have "n - 4 < 4" using 2 by linarith
    ultimately show ?thesis
      using ReadExact_short [of os "[]" "take (n - 4) ?sz" 4 k1, OF os]
      by (auto simp: SocketReceive_def t 1)
  next
    case 3
    let ?cut = "take (n - 8) ?pl"
    have t: "take n (frame_bytes frame) = ?ty @ ?sz @ ?cut" using 3 by (simp add: bytes)
    have short: "n - 8 < length (frame_payload frame)" using 3 cut by (simp add: bytes)
    obtain k1 where 1: "ReadExact os k 4 [] (?ty @ ?sz @ ?cut) = Inr (Some ?ty, ?sz @ ?cut, k1)"
      using ReadExact_complete [of os 4 "[]" ?ty, OF os] by auto
    obtain k2 where 2: "ReadExact os k1 4 [] (?sz @ ?cut) = Inr (Some ?sz, ?cut, k2)"
      using ReadExact_complete [of os 4 "[]" ?sz, OF os] by auto
    show ?thesis
      using ReadExact_short [of os "[]" ?cut "length (frame_payload frame)" k2, OF os] short
      by (auto simp: SocketReceive_def t 1 2 NetToHost32_inverse unat_word32 [OF len] Let_def)
  qed
qed

theorem socket_truncated_frame_witness:
  "\<exists>rest k'. SocketReceive (\<lambda>_. 2) 0 (take 9 (frame_bytes \<lparr>frame_type = 5, frame_payload = ''ab''\<rparr>)) =
     Inr (None, rest, k')"
  by (rule socket_truncated_frame) (simp_all add: frame_bytes_def)

end
