(* ===== verification/Metadata_Store.thy ===== *)
theory Metadata_Store
  imports Core_Types
begin

text \<open>
  \<^verbatim>\<open>InMemoryMetadataStore\<close> of \<^verbatim>\<open>src/metadata/metadata_store.cpp\<close>: fourteen vectors, one record field
  per vector, and every operation of the class. An \<open>Upsert...\<close> replaces the first row that matches or
  appends; a \<open>Get...\<close> returns the first match. Every table with a key provides the interface
  \<open>keyed_table\<close>; the two tables matched by a disjunction (files and device files) have their own
  uniqueness invariants below.
\<close>

section \<open>State\<close>

record MetadataStore =
  db_nodes :: "NodeInfo list"
  db_backup_policies :: "BackupPolicy list"
  db_transfer_policies :: "TransferPolicy list"
  db_scheduled_tasks :: "ScheduledTaskRecord list"
  db_backup_jobs :: "BackupJob list"
  db_restore_requests :: "RestoreRequest list"
  db_shared_library_entries :: "SharedLibraryEntry list"
  db_files :: "FileRecord list"
  db_tasks :: "SyncTask list"
  db_task_chunks :: "SyncTaskChunk list"
  db_stored_objects :: "StoredObjectRecord list"
  db_backup_records :: "BackupRecord list"
  db_device_files :: "DeviceFileRecord list"
  db_audit_events :: "AuditEvent list"

definition MetadataStore_init :: MetadataStore where
  "MetadataStore_init = \<lparr>
    db_nodes = [],
    db_backup_policies = [],
    db_transfer_policies = [],
    db_scheduled_tasks = [],
    db_backup_jobs = [],
    db_restore_requests = [],
    db_shared_library_entries = [],
    db_files = [],
    db_tasks = [],
    db_task_chunks = [],
    db_stored_objects = [],
    db_backup_records = [],
    db_device_files = [],
    db_audit_events = []\<rparr>"

section \<open>Writing\<close>

definition UpsertNode :: "NodeInfo \<Rightarrow> MetadataStore \<Rightarrow> MetadataStore" where
  "UpsertNode r db = db\<lparr>db_nodes :=
     upsert_by (\<lambda>current. node_node_id current = node_node_id r) r (db_nodes db)\<rparr>"

definition UpsertBackupPolicy :: "BackupPolicy \<Rightarrow> MetadataStore \<Rightarrow> MetadataStore" where
  "UpsertBackupPolicy r db = db\<lparr>db_backup_policies :=
     upsert_by (\<lambda>current. bpolicy_policy_id current = bpolicy_policy_id r) r (db_backup_policies db)\<rparr>"

definition UpsertTransferPolicy :: "TransferPolicy \<Rightarrow> MetadataStore \<Rightarrow> MetadataStore" where
  "UpsertTransferPolicy r db = db\<lparr>db_transfer_policies :=
     upsert_by (\<lambda>current. tpolicy_policy_id current = tpolicy_policy_id r) r (db_transfer_policies db)\<rparr>"

definition UpsertScheduledTask :: "ScheduledTaskRecord \<Rightarrow> MetadataStore \<Rightarrow> MetadataStore" where
  "UpsertScheduledTask r db = db\<lparr>db_scheduled_tasks :=
     upsert_by (\<lambda>current. task_task_id current = task_task_id r) r (db_scheduled_tasks db)\<rparr>"

definition UpsertBackupJob :: "BackupJob \<Rightarrow> MetadataStore \<Rightarrow> MetadataStore" where
  "UpsertBackupJob r db = db\<lparr>db_backup_jobs :=
     upsert_by (\<lambda>current. job_job_id current = job_job_id r) r (db_backup_jobs db)\<rparr>"

definition UpsertRestoreRequest :: "RestoreRequest \<Rightarrow> MetadataStore \<Rightarrow> MetadataStore" where
  "UpsertRestoreRequest r db = db\<lparr>db_restore_requests :=
     upsert_by (\<lambda>current. restore_request_id current = restore_request_id r) r (db_restore_requests db)\<rparr>"

definition UpsertSharedLibraryEntry :: "SharedLibraryEntry \<Rightarrow> MetadataStore \<Rightarrow> MetadataStore" where
  "UpsertSharedLibraryEntry r db = db\<lparr>db_shared_library_entries :=
     upsert_by (\<lambda>current. entry_entry_id current = entry_entry_id r) r (db_shared_library_entries db)\<rparr>"

definition UpsertFile :: "FileRecord \<Rightarrow> MetadataStore \<Rightarrow> MetadataStore" where
  "UpsertFile r db = db\<lparr>db_files :=
     upsert_by (\<lambda>current. file_file_id current = file_file_id r \<or>
        file_absolute_path current = file_absolute_path r) r (db_files db)\<rparr>"

definition UpsertTask :: "SyncTask \<Rightarrow> MetadataStore \<Rightarrow> MetadataStore" where
  "UpsertTask r db = db\<lparr>db_tasks :=
     upsert_by (\<lambda>current. synctask_task_id current = synctask_task_id r) r (db_tasks db)\<rparr>"

definition MarkTaskChunkComplete :: "SyncTaskChunk \<Rightarrow> MetadataStore \<Rightarrow> MetadataStore" where
  "MarkTaskChunkComplete r db = db\<lparr>db_task_chunks :=
     upsert_by (\<lambda>current. taskchunk_task_id current = taskchunk_task_id r \<and>
        taskchunk_index current = taskchunk_index r) r (db_task_chunks db)\<rparr>"

definition ClearTaskChunks :: "string \<Rightarrow> MetadataStore \<Rightarrow> MetadataStore" where
  "ClearTaskChunks task_id db = db\<lparr>db_task_chunks :=
     filter (\<lambda>chunk. taskchunk_task_id chunk \<noteq> task_id) (db_task_chunks db)\<rparr>"

definition UpsertStoredObject :: "StoredObjectRecord \<Rightarrow> MetadataStore \<Rightarrow> MetadataStore" where
  "UpsertStoredObject r db = db\<lparr>db_stored_objects :=
     upsert_by (\<lambda>current. stored_file_id current = stored_file_id r) r (db_stored_objects db)\<rparr>"

definition UpsertBackupRecord :: "BackupRecord \<Rightarrow> MetadataStore \<Rightarrow> MetadataStore" where
  "UpsertBackupRecord r db = db\<lparr>db_backup_records :=
     upsert_by (\<lambda>current. backup_record_id current = backup_record_id r) r (db_backup_records db)\<rparr>"

definition UpsertDeviceFile :: "DeviceFileRecord \<Rightarrow> MetadataStore \<Rightarrow> MetadataStore" where
  "UpsertDeviceFile r db = db\<lparr>db_device_files :=
     upsert_by (\<lambda>current. devfile_record_id current = devfile_record_id r \<or>
        (devfile_node_id current = devfile_node_id r \<and>
         devfile_absolute_path current = devfile_absolute_path r)) r (db_device_files db)\<rparr>"

definition AppendAuditEvent :: "AuditEvent \<Rightarrow> MetadataStore \<Rightarrow> MetadataStore" where
  "AppendAuditEvent e db = db\<lparr>db_audit_events := db_audit_events db @ [e]\<rparr>"

section \<open>Reading\<close>

definition GetNode :: "MetadataStore \<Rightarrow> string \<Rightarrow> NodeInfo option" where
  "GetNode db k = find (\<lambda>r. node_node_id r = k) (db_nodes db)"

definition ListNodes :: "MetadataStore \<Rightarrow> NodeInfo list" where
  "ListNodes db = db_nodes db"

definition GetBackupPolicy :: "MetadataStore \<Rightarrow> string \<Rightarrow> BackupPolicy option" where
  "GetBackupPolicy db k = find (\<lambda>r. bpolicy_policy_id r = k) (db_backup_policies db)"

definition ListBackupPolicies :: "MetadataStore \<Rightarrow> BackupPolicy list" where
  "ListBackupPolicies db = db_backup_policies db"

definition GetTransferPolicy :: "MetadataStore \<Rightarrow> string \<Rightarrow> TransferPolicy option" where
  "GetTransferPolicy db k = find (\<lambda>r. tpolicy_policy_id r = k) (db_transfer_policies db)"

definition ListTransferPolicies :: "MetadataStore \<Rightarrow> TransferPolicy list" where
  "ListTransferPolicies db = db_transfer_policies db"

definition GetScheduledTaskRecord :: "MetadataStore \<Rightarrow> string \<Rightarrow> ScheduledTaskRecord option" where
  "GetScheduledTaskRecord db k = find (\<lambda>r. task_task_id r = k) (db_scheduled_tasks db)"

definition ListScheduledTasks :: "MetadataStore \<Rightarrow> ScheduledTaskRecord list" where
  "ListScheduledTasks db = db_scheduled_tasks db"

definition ListScheduledTasksByState :: "MetadataStore \<Rightarrow> JobState \<Rightarrow> ScheduledTaskRecord list" where
  "ListScheduledTasksByState db st = filter (\<lambda>r. task_state r = st) (db_scheduled_tasks db)"

definition GetBackupJob :: "MetadataStore \<Rightarrow> string \<Rightarrow> BackupJob option" where
  "GetBackupJob db k = find (\<lambda>r. job_job_id r = k) (db_backup_jobs db)"

definition ListBackupJobs :: "MetadataStore \<Rightarrow> BackupJob list" where
  "ListBackupJobs db = db_backup_jobs db"

definition GetRestoreRequest :: "MetadataStore \<Rightarrow> string \<Rightarrow> RestoreRequest option" where
  "GetRestoreRequest db k = find (\<lambda>r. restore_request_id r = k) (db_restore_requests db)"

definition ListRestoreRequests :: "MetadataStore \<Rightarrow> RestoreRequest list" where
  "ListRestoreRequests db = db_restore_requests db"

definition GetSharedLibraryEntry :: "MetadataStore \<Rightarrow> string \<Rightarrow> SharedLibraryEntry option" where
  "GetSharedLibraryEntry db k = find (\<lambda>r. entry_entry_id r = k) (db_shared_library_entries db)"

definition ListSharedLibraryEntries :: "MetadataStore \<Rightarrow> SharedLibraryEntry list" where
  "ListSharedLibraryEntries db = db_shared_library_entries db"

definition GetFile :: "MetadataStore \<Rightarrow> string \<Rightarrow> FileRecord option" where
  "GetFile db k = find (\<lambda>r. file_file_id r = k) (db_files db)"

definition GetFileByPath :: "MetadataStore \<Rightarrow> string \<Rightarrow> FileRecord option" where
  "GetFileByPath db p = find (\<lambda>r. file_absolute_path r = p) (db_files db)"

definition ListChunks :: "MetadataStore \<Rightarrow> string \<Rightarrow> ChunkRecord list" where
  "ListChunks db k =
     (case find (\<lambda>r. file_file_id r = k) (db_files db) of Some f \<Rightarrow> file_chunks f | None \<Rightarrow> [])"

definition ListFiles :: "MetadataStore \<Rightarrow> FileRecord list" where
  "ListFiles db = db_files db"

definition GetTask :: "MetadataStore \<Rightarrow> string \<Rightarrow> SyncTask option" where
  "GetTask db k = find (\<lambda>r. synctask_task_id r = k) (db_tasks db)"

definition ListTaskChunks :: "MetadataStore \<Rightarrow> string \<Rightarrow> SyncTaskChunk list" where
  "ListTaskChunks db task_id = filter (\<lambda>c. taskchunk_task_id c = task_id) (db_task_chunks db)"

definition GetStoredObject :: "MetadataStore \<Rightarrow> string \<Rightarrow> StoredObjectRecord option" where
  "GetStoredObject db k = find (\<lambda>r. stored_file_id r = k) (db_stored_objects db)"

definition ListStoredObjects :: "MetadataStore \<Rightarrow> StoredObjectRecord list" where
  "ListStoredObjects db = db_stored_objects db"

definition ListBackupRecords :: "MetadataStore \<Rightarrow> BackupRecord list" where
  "ListBackupRecords db = db_backup_records db"

definition ListDeviceFiles :: "MetadataStore \<Rightarrow> DeviceFileRecord list" where
  "ListDeviceFiles db = db_device_files db"

definition ListAuditEvents :: "MetadataStore \<Rightarrow> AuditEvent list" where
  "ListAuditEvents db = db_audit_events db"

definition ListAuditEventsByCategory :: "MetadataStore \<Rightarrow> string \<Rightarrow> AuditEvent list" where
  "ListAuditEventsByCategory db category = filter (\<lambda>e. event_category e = category) (db_audit_events db)"

text \<open>Frame facts: an operation changes its own table only.\<close>

lemmas store_writes =
  UpsertNode_def UpsertBackupPolicy_def UpsertTransferPolicy_def UpsertScheduledTask_def
  UpsertBackupJob_def UpsertRestoreRequest_def UpsertSharedLibraryEntry_def UpsertTask_def
  UpsertStoredObject_def UpsertBackupRecord_def UpsertFile_def MarkTaskChunkComplete_def
  ClearTaskChunks_def UpsertDeviceFile_def AppendAuditEvent_def

lemmas store_reads =
  GetNode_def ListNodes_def GetBackupPolicy_def ListBackupPolicies_def GetTransferPolicy_def
  ListTransferPolicies_def GetScheduledTaskRecord_def ListScheduledTasks_def GetBackupJob_def
  ListBackupJobs_def GetRestoreRequest_def ListRestoreRequests_def GetSharedLibraryEntry_def
  ListSharedLibraryEntries_def ListFiles_def GetTask_def GetStoredObject_def
  ListStoredObjects_def ListBackupRecords_def ListDeviceFiles_def ListAuditEvents_def
  GetFile_def GetFileByPath_def ListChunks_def ListScheduledTasksByState_def
  ListAuditEventsByCategory_def ListTaskChunks_def

section \<open>Keyed tables\<close>

text \<open>The tables of the store whose rows have one key, each an instance of \<open>keyed_table\<close>.\<close>

definition store_inv :: "MetadataStore \<Rightarrow> bool" where
  "store_inv db \<longleftrightarrow>
     distinct (map node_node_id (db_nodes db)) \<and>
     distinct (map bpolicy_policy_id (db_backup_policies db)) \<and>
     distinct (map tpolicy_policy_id (db_transfer_policies db)) \<and>
     distinct (map task_task_id (db_scheduled_tasks db)) \<and>
     distinct (map job_job_id (db_backup_jobs db)) \<and>
     distinct (map restore_request_id (db_restore_requests db)) \<and>
     distinct (map entry_entry_id (db_shared_library_entries db)) \<and>
     distinct (map synctask_task_id (db_tasks db)) \<and>
     distinct (map stored_file_id (db_stored_objects db)) \<and>
     distinct (map backup_record_id (db_backup_records db)) \<and>
     distinct (map (\<lambda>c. (taskchunk_task_id c, taskchunk_index c)) (db_task_chunks db))"

lemma store_inv_init [simp]: "store_inv MetadataStore_init"
  by (simp add: store_inv_def MetadataStore_init_def)

lemma store_inv_upsert:
  "store_inv db \<Longrightarrow> store_inv (UpsertNode r0 db)"
  "store_inv db \<Longrightarrow> store_inv (UpsertBackupPolicy r1 db)"
  "store_inv db \<Longrightarrow> store_inv (UpsertTransferPolicy r2 db)"
  "store_inv db \<Longrightarrow> store_inv (UpsertScheduledTask r3 db)"
  "store_inv db \<Longrightarrow> store_inv (UpsertBackupJob r4 db)"
  "store_inv db \<Longrightarrow> store_inv (UpsertRestoreRequest r5 db)"
  "store_inv db \<Longrightarrow> store_inv (UpsertSharedLibraryEntry r6 db)"
  "store_inv db \<Longrightarrow> store_inv (UpsertTask r7 db)"
  "store_inv db \<Longrightarrow> store_inv (UpsertStoredObject r8 db)"
  "store_inv db \<Longrightarrow> store_inv (UpsertBackupRecord r9 db)"
  by (simp_all add: store_inv_def store_writes distinct_upsert_by_key)

lemma store_inv_other [simp]:
  "store_inv db \<Longrightarrow> store_inv (UpsertFile f db)"
  "store_inv db \<Longrightarrow> store_inv (UpsertDeviceFile d db)"
  "store_inv db \<Longrightarrow> store_inv (AppendAuditEvent e db)"
  "store_inv db \<Longrightarrow> store_inv (MarkTaskChunkComplete c db)"
  "store_inv db \<Longrightarrow> store_inv (ClearTaskChunks t db)"
  using distinct_upsert_by_key [of "\<lambda>c. (taskchunk_task_id c, taskchunk_index c)" "db_task_chunks db" c]
  by (auto simp: store_inv_def store_writes distinct_map intro: inj_on_subset)

interpretation node_table: keyed_table node_node_id ListNodes GetNode UpsertNode store_inv
  by unfold_locales
    (simp_all add: store_reads store_inv_upsert, simp_all add: store_inv_def UpsertNode_def find_upsert_by_key find_key_unique)

interpretation backup_policies_table: keyed_table bpolicy_policy_id ListBackupPolicies GetBackupPolicy UpsertBackupPolicy store_inv
  by unfold_locales
    (simp_all add: store_reads store_inv_upsert, simp_all add: store_inv_def UpsertBackupPolicy_def find_upsert_by_key find_key_unique)

interpretation transfer_policies_table: keyed_table tpolicy_policy_id ListTransferPolicies GetTransferPolicy UpsertTransferPolicy store_inv
  by unfold_locales
    (simp_all add: store_reads store_inv_upsert, simp_all add: store_inv_def UpsertTransferPolicy_def find_upsert_by_key find_key_unique)

interpretation scheduled_tasks_table: keyed_table task_task_id ListScheduledTasks GetScheduledTaskRecord UpsertScheduledTask store_inv
  by unfold_locales
    (simp_all add: store_reads store_inv_upsert, simp_all add: store_inv_def UpsertScheduledTask_def find_upsert_by_key find_key_unique)

interpretation backup_jobs_table: keyed_table job_job_id ListBackupJobs GetBackupJob UpsertBackupJob store_inv
  by unfold_locales
    (simp_all add: store_reads store_inv_upsert, simp_all add: store_inv_def UpsertBackupJob_def find_upsert_by_key find_key_unique)

interpretation restore_requests_table: keyed_table restore_request_id ListRestoreRequests GetRestoreRequest UpsertRestoreRequest store_inv
  by unfold_locales
    (simp_all add: store_reads store_inv_upsert, simp_all add: store_inv_def UpsertRestoreRequest_def find_upsert_by_key find_key_unique)

interpretation shared_library_entries_table: keyed_table entry_entry_id ListSharedLibraryEntries GetSharedLibraryEntry UpsertSharedLibraryEntry store_inv
  by unfold_locales
    (simp_all add: store_reads store_inv_upsert, simp_all add: store_inv_def UpsertSharedLibraryEntry_def find_upsert_by_key find_key_unique)

interpretation tasks_table: keyed_table synctask_task_id db_tasks GetTask UpsertTask store_inv
  by unfold_locales
    (simp_all add: store_reads store_inv_upsert, simp_all add: store_inv_def UpsertTask_def find_upsert_by_key find_key_unique)

interpretation stored_objects_table: keyed_table stored_file_id ListStoredObjects GetStoredObject UpsertStoredObject store_inv
  by unfold_locales
    (simp_all add: store_reads store_inv_upsert, simp_all add: store_inv_def UpsertStoredObject_def find_upsert_by_key find_key_unique)

interpretation backup_records_table: keyed_table backup_record_id ListBackupRecords "\<lambda>db k. find (\<lambda>r. backup_record_id r = k) (db_backup_records db)" UpsertBackupRecord store_inv
  by unfold_locales
    (simp_all add: store_reads store_inv_upsert, simp_all add: store_inv_def UpsertBackupRecord_def find_upsert_by_key find_key_unique)

section \<open>Reachable stores\<close>

text \<open>One write of any client, and the stores that any sequence of writes leads to.\<close>

inductive store_step :: "MetadataStore \<Rightarrow> MetadataStore \<Rightarrow> bool" where
  node: "store_step db (UpsertNode n db)"
| backup_policy: "store_step db (UpsertBackupPolicy bp db)"
| transfer_policy: "store_step db (UpsertTransferPolicy tp db)"
| scheduled_task: "store_step db (UpsertScheduledTask st db)"
| backup_job: "store_step db (UpsertBackupJob j db)"
| restore_request: "store_step db (UpsertRestoreRequest rr db)"
| shared_entry: "store_step db (UpsertSharedLibraryEntry se db)"
| file_row: "store_step db (UpsertFile f db)"
| sync_task: "store_step db (UpsertTask t db)"
| chunk_done: "store_step db (MarkTaskChunkComplete c db)"
| chunks_cleared: "store_step db (ClearTaskChunks task_id db)"
| stored_object: "store_step db (UpsertStoredObject so db)"
| backup_record: "store_step db (UpsertBackupRecord br db)"
| device_file: "store_step db (UpsertDeviceFile df db)"
| audit: "store_step db (AppendAuditEvent e db)"

inductive store_reach :: "MetadataStore \<Rightarrow> bool" where
  start: "store_reach MetadataStore_init"
| step: "store_reach db \<Longrightarrow> store_step db db' \<Longrightarrow> store_reach db'"

inductive_cases store_stepE: "store_step db db'"

lemma store_inv_step: "store_step db db' \<Longrightarrow> store_inv db \<Longrightarrow> store_inv db'"
  by (erule store_stepE) (simp_all add: store_inv_upsert)

lemma store_reach_inv: "store_reach db \<Longrightarrow> store_inv db"
  by (induction rule: store_reach.induct) (simp_all add: store_inv_step)

text \<open>
  In every store that any sequence of writes produces, the listing of a table and the lookup in it
  agree: a lookup returns exactly the listed row with that key, and no key is listed twice. This holds
  of the nodes, the scheduled tasks, the restore requests, the shared entries and the sync tasks.
\<close>

lemma store_lookup_agrees:
  assumes "store_reach db"
  shows "(GetNode db k = Some n \<longleftrightarrow> n \<in> set (ListNodes db) \<and> node_node_id n = k) \<and>
    (GetScheduledTaskRecord db k = Some st \<longleftrightarrow> st \<in> set (ListScheduledTasks db) \<and> task_task_id st = k) \<and>
    (GetRestoreRequest db k = Some rr \<longleftrightarrow>
       rr \<in> set (ListRestoreRequests db) \<and> restore_request_id rr = k) \<and>
    (GetSharedLibraryEntry db k = Some se \<longleftrightarrow>
       se \<in> set (ListSharedLibraryEntries db) \<and> entry_entry_id se = k) \<and>
    distinct (map node_node_id (ListNodes db)) \<and>
    distinct (map task_task_id (ListScheduledTasks db)) \<and>
    distinct (map restore_request_id (ListRestoreRequests db)) \<and>
    distinct (map entry_entry_id (ListSharedLibraryEntries db)) \<and>
    distinct (map synctask_task_id (db_tasks db))"
  using store_reach_inv [OF assms]
  by (simp add: node_table.get_rows scheduled_tasks_table.get_rows restore_requests_table.get_rows
      shared_library_entries_table.get_rows node_table.distinct_rows
      scheduled_tasks_table.distinct_rows restore_requests_table.distinct_rows
      shared_library_entries_table.distinct_rows tasks_table.distinct_rows)

lemma store_lookup_agrees_example:
  "let n = NodeInfo_init\<lparr>node_node_id := ''n1''\<rparr>;
       db = UpsertNode n (UpsertNode NodeInfo_init (UpsertNode n MetadataStore_init))
   in GetNode db ''n1'' = Some n \<and> length (ListNodes db) = 2"
proof -
  let ?n = "NodeInfo_init\<lparr>node_node_id := ''n1''\<rparr>"
  let ?db = "UpsertNode ?n (UpsertNode NodeInfo_init (UpsertNode ?n MetadataStore_init))"
  have "store_reach ?db"
    by (intro store_reach.step [OF _ store_step.node] store_reach.start)
  from store_lookup_agrees [OF this, of "''n1''" ?n] show ?thesis
    by (simp add: ListNodes_def UpsertNode_def MetadataStore_init_def NodeInfo_init_def)
qed

section \<open>Files and device files\<close>

text \<open>Both tables replace the first row that agrees in either of two keys.\<close>

lemma find_upsert_by_either:
  "(\<And>y. P y \<Longrightarrow> match y) \<Longrightarrow> P x \<Longrightarrow> find P (upsert_by match x ys) = Some x"
  by (induction ys) auto

lemma find_upsert_by_none:
  "\<not> P x \<Longrightarrow> (\<And>y. y \<in> set ys \<Longrightarrow> match y \<Longrightarrow> \<not> P y) \<Longrightarrow>
     find P (upsert_by match x ys) = find P ys"
  by (induction ys) auto

text \<open>
  After \<open>UpsertFile\<close> the written record is found both under its id and under its path, whatever the
  table held before; a file whose id and path both differ from the written record's is found as before.
\<close>

lemma upsert_file_found:
  "GetFile (UpsertFile f db) (file_file_id f) = Some f \<and>
   GetFileByPath (UpsertFile f db) (file_absolute_path f) = Some f \<and>
   (\<forall>g. GetFile db k = Some g \<and> k \<noteq> file_file_id f \<and>
      (\<forall>h \<in> set (ListFiles db). file_file_id h = k \<longrightarrow> file_absolute_path h \<noteq> file_absolute_path f) \<longrightarrow>
      GetFile (UpsertFile f db) k = Some g)"
  by (auto simp: store_reads UpsertFile_def find_upsert_by_either)
    (subst find_upsert_by_none; auto)

lemma upsert_file_found_example:
  "let g = FileRecord_init\<lparr>file_file_id := ''g'', file_absolute_path := ''/g''\<rparr>;
       f = FileRecord_init\<lparr>file_file_id := ''f'', file_absolute_path := ''/f''\<rparr>
   in GetFile (UpsertFile f (UpsertFile g MetadataStore_init)) ''g'' = Some g"
proof -
  let ?g = "FileRecord_init\<lparr>file_file_id := ''g'', file_absolute_path := ''/g''\<rparr>"
  let ?f = "FileRecord_init\<lparr>file_file_id := ''f'', file_absolute_path := ''/f''\<rparr>"
  have "GetFile (UpsertFile ?g MetadataStore_init) ''g'' = Some ?g"
    by (simp add: GetFile_def UpsertFile_def MetadataStore_init_def)
  then show ?thesis
    using upsert_file_found [of ?f "UpsertFile ?g MetadataStore_init" "''g''"]
    by (simp add: ListFiles_def UpsertFile_def MetadataStore_init_def)
qed

text \<open>
  One path can belong to two records. When a known file is written again under the path of another
  known file (it was moved over it), only the first matching row is replaced: the overwritten file stays
  in the table and both rows name the same path. The SQLite store deletes the stale row instead.
\<close>

lemma upsert_file_keeps_stale_path:
  assumes "db_files db = [f, g]" and "file_file_id f \<noteq> file_file_id g"
    and "file_file_id f' = file_file_id f" and "file_absolute_path f' = file_absolute_path g"
  shows "ListFiles (UpsertFile f' db) = [f', g] \<and>
    GetFile (UpsertFile f' db) (file_file_id g) = Some g \<and>
    file_absolute_path g = file_absolute_path f'"
  using assms by (simp add: ListFiles_def UpsertFile_def GetFile_def)

lemma upsert_file_keeps_stale_path_example:
  "let f = FileRecord_init\<lparr>file_file_id := ''f'', file_absolute_path := ''/f''\<rparr>;
       g = FileRecord_init\<lparr>file_file_id := ''g'', file_absolute_path := ''/g''\<rparr>;
       f' = f\<lparr>file_absolute_path := ''/g''\<rparr>
   in ListFiles (UpsertFile f' (MetadataStore_init\<lparr>db_files := [f, g]\<rparr>)) = [f', g]"
proof -
  let ?f = "FileRecord_init\<lparr>file_file_id := ''f'', file_absolute_path := ''/f''\<rparr>"
  let ?g = "FileRecord_init\<lparr>file_file_id := ''g'', file_absolute_path := ''/g''\<rparr>"
  show ?thesis
    using upsert_file_keeps_stale_path [of "MetadataStore_init\<lparr>db_files := [?f, ?g]\<rparr>" ?f ?g
        "?f\<lparr>file_absolute_path := ''/g''\<rparr>"]
    by simp
qed

section \<open>Completed chunks of a task\<close>

lemma set_mark_complete:
  assumes "store_inv db"
  shows "set (db_task_chunks (MarkTaskChunkComplete c db)) =
    insert c {x \<in> set (db_task_chunks db).
      taskchunk_task_id x \<noteq> taskchunk_task_id c \<or> taskchunk_index x \<noteq> taskchunk_index c}"
  using set_upsert_by_key [of "\<lambda>c. (taskchunk_task_id c, taskchunk_index c)" "db_task_chunks db" c] assms
  by (simp add: MarkTaskChunkComplete_def store_inv_def)

text \<open>
  The progress of a task is a set of chunk indexes. Marking a chunk complete adds its index to the
  completed indexes of its own task and to no other's, marking it twice is the same as once, and clearing
  a task forgets all of its chunks and no other task's.
\<close>

lemma task_progress:
  assumes "store_reach db"
  shows "taskchunk_index ` set (ListTaskChunks (MarkTaskChunkComplete c db) t) =
      (if t = taskchunk_task_id c then {taskchunk_index c} else {}) \<union>
      taskchunk_index ` set (ListTaskChunks db t) \<and>
    distinct (map taskchunk_index (ListTaskChunks (MarkTaskChunkComplete c db) t)) \<and>
    MarkTaskChunkComplete c (MarkTaskChunkComplete c db) = MarkTaskChunkComplete c db \<and>
    ListTaskChunks (ClearTaskChunks t' db) t = (if t = t' then [] else ListTaskChunks db t)"
proof -
  have inv: "store_inv db" by (rule store_reach_inv [OF assms])
  have "store_inv (MarkTaskChunkComplete c db)" using inv by simp
  then have "distinct (map taskchunk_index (ListTaskChunks (MarkTaskChunkComplete c db) t))"
    by (auto simp: store_inv_def ListTaskChunks_def distinct_map inj_on_def)
  moreover have "upsert_by match c (upsert_by match c ys) = upsert_by match c ys" if "match c" for match ys
    using that by (induction ys) auto
  then have "MarkTaskChunkComplete c (MarkTaskChunkComplete c db) = MarkTaskChunkComplete c db"
    by (simp add: MarkTaskChunkComplete_def)
  moreover have "ListTaskChunks (ClearTaskChunks t' db) t = (if t = t' then [] else ListTaskChunks db t)"
    by (auto simp: ListTaskChunks_def ClearTaskChunks_def filter_empty_conv intro: filter_cong)
  moreover have "taskchunk_index ` set (ListTaskChunks (MarkTaskChunkComplete c db) t) =
      (if t = taskchunk_task_id c then {taskchunk_index c} else {}) \<union>
      taskchunk_index ` set (ListTaskChunks db t)"
    by (auto simp: ListTaskChunks_def set_mark_complete [OF inv])
  ultimately show ?thesis by blast
qed

lemma task_progress_example:
  "let c = SyncTaskChunk_init\<lparr>taskchunk_task_id := ''t'', taskchunk_index := 3\<rparr>
   in taskchunk_index ` set (ListTaskChunks (MarkTaskChunkComplete c MetadataStore_init) ''t'') = {3}"
  using task_progress [OF store_reach.start,
      of "SyncTaskChunk_init\<lparr>taskchunk_task_id := ''t'', taskchunk_index := 3\<rparr>" "''t''" "''t''"]
  by (simp add: ListTaskChunks_def MetadataStore_init_def)

end
