(* ===== verification/Md5_Hash.thy ===== *)
theory Md5_Hash
  imports Core_Types
begin

unbundle bit_operations_syntax

text \<open>
  \<^verbatim>\<open>src/common/md5.c\<close> (the MD5 context, the compression of one block, the buffered update and the
  finalisation) and \<^verbatim>\<open>src/sync/hash.cpp\<close> (the \<open>Md5Hasher\<close> behind the interface \<open>IHasher\<close>).
  Words are kept at 32 bits. The main result is that the buffered, incremental code computes one
  function of the concatenation of everything it was fed, and that this function is the one the
  definition of MD5 gives: pad, append the bit length, compress block by block. The interface
  locale \<open>hasher\<close> states the law its clients (chunker, reader, writer) rely on.
\<close>

section \<open>The compression function\<close>

type_synonym md5_state = "u32 \<times> u32 \<times> u32 \<times> u32"

record MD5_CTX =
  ctx_count0 :: u32
  ctx_count1 :: u32
  ctx_state :: md5_state
  ctx_buffer :: bytes

definition md5_F :: "u32 \<Rightarrow> u32 \<Rightarrow> u32 \<Rightarrow> u32" where
  "md5_F x y z = (x AND y) OR (NOT x AND z)"

definition md5_G :: "u32 \<Rightarrow> u32 \<Rightarrow> u32 \<Rightarrow> u32" where
  "md5_G x y z = (x AND z) OR (y AND NOT z)"

definition md5_H :: "u32 \<Rightarrow> u32 \<Rightarrow> u32 \<Rightarrow> u32" where
  "md5_H x y z = (x XOR y) XOR z"

definition md5_I :: "u32 \<Rightarrow> u32 \<Rightarrow> u32 \<Rightarrow> u32" where
  "md5_I x y z = y XOR (x OR NOT z)"

definition ROTATE_LEFT :: "u32 \<Rightarrow> nat \<Rightarrow> u32" where
  "ROTATE_LEFT x n = push_bit n x OR drop_bit (32 - n) x"

definition FF :: "u32 \<Rightarrow> u32 \<Rightarrow> u32 \<Rightarrow> u32 \<Rightarrow> u32 \<Rightarrow> nat \<Rightarrow> u32 \<Rightarrow> u32" where
  "FF a b c d x s ac = ROTATE_LEFT (a + (md5_F b c d + x + ac)) s + b"

definition GG :: "u32 \<Rightarrow> u32 \<Rightarrow> u32 \<Rightarrow> u32 \<Rightarrow> u32 \<Rightarrow> nat \<Rightarrow> u32 \<Rightarrow> u32" where
  "GG a b c d x s ac = ROTATE_LEFT (a + (md5_G b c d + x + ac)) s + b"

definition HH :: "u32 \<Rightarrow> u32 \<Rightarrow> u32 \<Rightarrow> u32 \<Rightarrow> u32 \<Rightarrow> nat \<Rightarrow> u32 \<Rightarrow> u32" where
  "HH a b c d x s ac = ROTATE_LEFT (a + (md5_H b c d + x + ac)) s + b"

definition II :: "u32 \<Rightarrow> u32 \<Rightarrow> u32 \<Rightarrow> u32 \<Rightarrow> u32 \<Rightarrow> nat \<Rightarrow> u32 \<Rightarrow> u32" where
  "II a b c d x s ac = ROTATE_LEFT (a + (md5_I b c d + x + ac)) s + b"

fun MD5Decode :: "bytes \<Rightarrow> u32 list" where
  "MD5Decode (b0 # b1 # b2 # b3 # rest) =
     (ucast b0 OR push_bit 8 (ucast b1) OR push_bit 16 (ucast b2) OR push_bit 24 (ucast b3))
       # MD5Decode rest"
| "MD5Decode _ = []"

fun MD5Encode :: "u32 list \<Rightarrow> bytes" where
  "MD5Encode [] = []"
| "MD5Encode (w # ws) =
     ucast (w AND 0xFF) # ucast (drop_bit 8 w AND 0xFF) # ucast (drop_bit 16 w AND 0xFF)
       # ucast (drop_bit 24 w AND 0xFF) # MD5Encode ws"

definition MD5Transform :: "md5_state \<Rightarrow> bytes \<Rightarrow> md5_state" where
  "MD5Transform st block =
     (let (s0, s1, s2, s3) = st;
         a = s0; b = s1; c = s2; d = s3;
         x = MD5Decode block;
         a = FF a b c d (x ! 0) 7 0xd76aa478;
         d = FF d a b c (x ! 1) 12 0xe8c7b756;
         c = FF c d a b (x ! 2) 17 0x242070db;
         b = FF b c d a (x ! 3) 22 0xc1bdceee;
         a = FF a b c d (x ! 4) 7 0xf57c0faf;
         d = FF d a b c (x ! 5) 12 0x4787c62a;
         c = FF c d a b (x ! 6) 17 0xa8304613;
         b = FF b c d a (x ! 7) 22 0xfd469501;
         a = FF a b c d (x ! 8) 7 0x698098d8;
         d = FF d a b c (x ! 9) 12 0x8b44f7af;
         c = FF c d a b (x ! 10) 17 0xffff5bb1;
         b = FF b c d a (x ! 11) 22 0x895cd7be;
         a = FF a b c d (x ! 12) 7 0x6b901122;
         d = FF d a b c (x ! 13) 12 0xfd987193;
         c = FF c d a b (x ! 14) 17 0xa679438e;
         b = FF b c d a (x ! 15) 22 0x49b40821;
         a = GG a b c d (x ! 1) 5 0xf61e2562;
         d = GG d a b c (x ! 6) 9 0xc040b340;
         c = GG c d a b (x ! 11) 14 0x265e5a51;
         b = GG b c d a (x ! 0) 20 0xe9b6c7aa;
         a = GG a b c d (x ! 5) 5 0xd62f105d;
         d = GG d a b c (x ! 10) 9 0x2441453;
         c = GG c d a b (x ! 15) 14 0xd8a1e681;
         b = GG b c d a (x ! 4) 20 0xe7d3fbc8;
         a = GG a b c d (x ! 9) 5 0x21e1cde6;
         d = GG d a b c (x ! 14) 9 0xc33707d6;
         c = GG c d a b (x ! 3) 14 0xf4d50d87;
         b = GG b c d a (x ! 8) 20 0x455a14ed;
         a = GG a b c d (x ! 13) 5 0xa9e3e905;
         d = GG d a b c (x ! 2) 9 0xfcefa3f8;
         c = GG c d a b (x ! 7) 14 0x676f02d9;
         b = GG b c d a (x ! 12) 20 0x8d2a4c8a;
         a = HH a b c d (x ! 5) 4 0xfffa3942;
         d = HH d a b c (x ! 8) 11 0x8771f681;
         c = HH c d a b (x ! 11) 16 0x6d9d6122;
         b = HH b c d a (x ! 14) 23 0xfde5380c;
         a = HH a b c d (x ! 1) 4 0xa4beea44;
         d = HH d a b c (x ! 4) 11 0x4bdecfa9;
         c = HH c d a b (x ! 7) 16 0xf6bb4b60;
         b = HH b c d a (x ! 10) 23 0xbebfbc70;
         a = HH a b c d (x ! 13) 4 0x289b7ec6;
         d = HH d a b c (x ! 0) 11 0xeaa127fa;
         c = HH c d a b (x ! 3) 16 0xd4ef3085;
         b = HH b c d a (x ! 6) 23 0x4881d05;
         a = HH a b c d (x ! 9) 4 0xd9d4d039;
         d = HH d a b c (x ! 12) 11 0xe6db99e5;
         c = HH c d a b (x ! 15) 16 0x1fa27cf8;
         b = HH b c d a (x ! 2) 23 0xc4ac5665;
         a = II a b c d (x ! 0) 6 0xf4292244;
         d = II d a b c (x ! 7) 10 0x432aff97;
         c = II c d a b (x ! 14) 15 0xab9423a7;
         b = II b c d a (x ! 5) 21 0xfc93a039;
         a = II a b c d (x ! 12) 6 0x655b59c3;
         d = II d a b c (x ! 3) 10 0x8f0ccc92;
         c = II c d a b (x ! 10) 15 0xffeff47d;
         b = II b c d a (x ! 1) 21 0x85845dd1;
         a = II a b c d (x ! 8) 6 0x6fa87e4f;
         d = II d a b c (x ! 15) 10 0xfe2ce6e0;
         c = II c d a b (x ! 6) 15 0xa3014314;
         b = II b c d a (x ! 13) 21 0x4e0811a1;
         a = II a b c d (x ! 4) 6 0xf7537e82;
         d = II d a b c (x ! 11) 10 0xbd3af235;
         c = II c d a b (x ! 2) 15 0x2ad7d2bb;
         b = II b c d a (x ! 9) 21 0xeb86d391
     in (s0 + a, s1 + b, s2 + c, s3 + d))"

section \<open>The buffered update and the finalisation\<close>

definition MD5Init_state :: md5_state where
  "MD5Init_state = (0x67452301, 0xEFCDAB89, 0x98BADCFE, 0x10325476)"

definition MD5Init :: "MD5_CTX \<Rightarrow> MD5_CTX" where
  "MD5Init ctx = ctx\<lparr>ctx_count0 := 0, ctx_count1 := 0, ctx_state := MD5Init_state\<rparr>"

definition memcpy_at :: "bytes \<Rightarrow> nat \<Rightarrow> bytes \<Rightarrow> bytes" where
  "memcpy_at dst at src = take at dst @ src @ drop (at + length src) dst"

text \<open>
  The loop \<^verbatim>\<open>for (i = partlen; i + 64 <= inputlen; i += 64)\<close>. The index is a natural number here: for
  \<open>inputlen \<le> 2^32 - 64\<close>, the bound the theorems below state (the program never passes more than the
  4 MiB of a chunk), the unsigned sum of the code does not wrap.
\<close>

function MD5Update_blocks :: "md5_state \<Rightarrow> bytes \<Rightarrow> nat \<Rightarrow> nat \<Rightarrow> md5_state \<times> nat" where
  "MD5Update_blocks st input i inputlen =
     (if i + 64 \<le> inputlen
      then MD5Update_blocks (MD5Transform st (take 64 (drop i input))) input (i + 64) inputlen
      else (st, i))"
  by pat_completeness auto
termination
  by (relation "measure (\<lambda>(st, input, i, inputlen). inputlen - i)") auto

declare MD5Update_blocks.simps [simp del]

definition MD5Update :: "MD5_CTX \<Rightarrow> bytes \<Rightarrow> u32 \<Rightarrow> MD5_CTX" where
  "MD5Update ctx input inputlen =
     (let index = unat (drop_bit 3 (ctx_count0 ctx) AND 0x3F);
          partlen = 64 - index;
          c0 = ctx_count0 ctx + push_bit 3 inputlen;
          c1 = (if c0 < push_bit 3 inputlen then ctx_count1 ctx + 1 else ctx_count1 ctx);
          c1' = c1 + drop_bit 29 inputlen;
          len = unat inputlen
      in if partlen \<le> len then
           let buf = memcpy_at (ctx_buffer ctx) index (take partlen input);
               (st, i) = MD5Update_blocks (MD5Transform (ctx_state ctx) buf) input partlen len
           in ctx\<lparr>ctx_count0 := c0, ctx_count1 := c1', ctx_state := st,
                   ctx_buffer := memcpy_at buf 0 (take (len - i) (drop i input))\<rparr>
         else ctx\<lparr>ctx_count0 := c0, ctx_count1 := c1',
                   ctx_buffer := memcpy_at (ctx_buffer ctx) index (take len input)\<rparr>)"

definition PADDING :: bytes where
  "PADDING = 0x80 # replicate 63 0"

definition MD5Final :: "MD5_CTX \<Rightarrow> bytes" where
  "MD5Final ctx =
     (let index = unat (drop_bit 3 (ctx_count0 ctx) AND 0x3F);
          padlen = (if index < 56 then 56 - index else 120 - index);
          bits = MD5Encode [ctx_count0 ctx, ctx_count1 ctx];
          ctx1 = MD5Update ctx PADDING (word_of_nat padlen);
          ctx2 = MD5Update ctx1 bits 8;
          (a, b, c, d) = ctx_state ctx2
      in MD5Encode [a, b, c, d])"

section \<open>The hasher interface and its MD5 implementation\<close>

text \<open>The virtual functions of \<open>IHasher\<close>, as a record of operations on the object's state.\<close>

record 'h IHasher =
  Clone :: "'h \<Rightarrow> 'h"
  Reset :: "'h \<Rightarrow> 'h"
  Update :: "bytes \<Rightarrow> 'h \<Rightarrow> 'h"
  FinalHex :: "'h \<Rightarrow> string"

definition hex_digit :: "nat \<Rightarrow> char" where
  "hex_digit n = (if n < 10 then char_of (48 + n) else char_of (87 + n))"

text \<open>\<^verbatim>\<open>snprintf(..., "%02x", byte)\<close>.\<close>

definition hex_byte :: "u8 \<Rightarrow> string" where
  "hex_byte b = [hex_digit (unat b div 16), hex_digit (unat b mod 16)]"

definition Md5Hasher_Reset :: "MD5_CTX \<Rightarrow> MD5_CTX" where
  "Md5Hasher_Reset h = MD5Init h"

text \<open>
  The constructor allocates an uninitialised context and resets it. The content of the fresh buffer
  is irrelevant (theorem \<open>md5_repr_reset\<close> holds for any); the model takes zeros.
\<close>

definition Md5Hasher_new :: MD5_CTX where
  "Md5Hasher_new = Md5Hasher_Reset
     \<lparr>ctx_count0 = 0, ctx_count1 = 0, ctx_state = (0, 0, 0, 0), ctx_buffer = replicate 64 0\<rparr>"

definition Md5Hasher_Clone :: "MD5_CTX \<Rightarrow> MD5_CTX" where
  "Md5Hasher_Clone h = Md5Hasher_new"

definition Md5Hasher_Update :: "bytes \<Rightarrow> MD5_CTX \<Rightarrow> MD5_CTX" where
  "Md5Hasher_Update data h = MD5Update h data (word_of_nat (length data))"

definition Md5Hasher_FinalHex :: "MD5_CTX \<Rightarrow> string" where
  "Md5Hasher_FinalHex h = concat (map hex_byte (MD5Final h))"

definition Md5Hasher :: "MD5_CTX IHasher" where
  "Md5Hasher = \<lparr>Clone = Md5Hasher_Clone, Reset = Md5Hasher_Reset,
                 Update = Md5Hasher_Update, FinalHex = Md5Hasher_FinalHex\<rparr>"

text \<open>
  The law of a hasher: \<open>repr h m\<close> says that the object \<open>h\<close> has been fed \<open>m\<close> since its last reset,
  in pieces of at most \<open>limit\<close> bytes; its digest is then a function of \<open>m\<close> alone.
\<close>

locale hasher =
  fixes ops :: "'h IHasher"
    and repr :: "'h \<Rightarrow> bytes \<Rightarrow> bool"
    and digest :: "bytes \<Rightarrow> string"
    and limit :: nat
  assumes repr_clone: "repr (Clone ops h) []"
    and repr_reset: "repr h m \<Longrightarrow> repr (Reset ops h) []"
    and repr_update: "repr h m \<Longrightarrow> length bs \<le> limit \<Longrightarrow> repr (Update ops bs h) (m @ bs)"
    and final_digest: "repr h m \<Longrightarrow> FinalHex ops h = digest m"
begin

lemma repr_fold:
  "repr h m \<Longrightarrow> (\<And>bs. bs \<in> set bss \<Longrightarrow> length bs \<le> limit) \<Longrightarrow>
     repr (fold (Update ops) bss h) (m @ concat bss)"
proof (induction bss arbitrary: h m)
  case (Cons bs bss)
  then have "repr (Update ops bs h) (m @ bs)" by (simp add: repr_update)
  then have "repr (fold (Update ops) bss (Update ops bs h)) ((m @ bs) @ concat bss)"
    using Cons.prems(2) by (intro Cons.IH) auto
  then show ?case by simp
qed simp

lemma digest_fold:
  assumes "repr h m" and "\<And>bs. bs \<in> set bss \<Longrightarrow> length bs \<le> limit"
  shows "FinalHex ops (fold (Update ops) bss h) = digest (m @ concat bss)"
  using repr_fold [OF assms] by (rule final_digest)

lemma digest_buffer:
  "repr h m \<Longrightarrow> length bs \<le> limit \<Longrightarrow> FinalHex ops (Update ops bs (Reset ops h)) = digest bs"
  using repr_update [OF repr_reset, of h m bs] final_digest [of "Update ops bs (Reset ops h)" bs] by simp

end

section \<open>The reference definition of MD5\<close>

text \<open>
  Compression of the complete blocks of a message; padding with the bit \<open>1\<close>, zeros and the bit
  length modulo \<open>2^64\<close>; the digest of a message in one piece.
\<close>

function md5_absorb :: "md5_state \<Rightarrow> bytes \<Rightarrow> md5_state" where
  "md5_absorb st msg =
     (if 64 \<le> length msg then md5_absorb (MD5Transform st (take 64 msg)) (drop 64 msg) else st)"
  by pat_completeness auto
termination
  by (relation "measure (\<lambda>(st, msg). length msg)") auto

declare md5_absorb.simps [simp del]

definition md5_pad_length :: "nat \<Rightarrow> nat" where
  "md5_pad_length n = (let r = n mod 64 in if r < 56 then 56 - r else 120 - r)"

definition md5_length_words :: "nat \<Rightarrow> u32 list" where
  "md5_length_words n = [word_of_nat (8 * n), word_of_nat (8 * n div 2 ^ 32)]"

definition md5_pad :: "bytes \<Rightarrow> bytes" where
  "md5_pad msg = msg @ take (md5_pad_length (length msg)) PADDING @ MD5Encode (md5_length_words (length msg))"

definition md5_reference :: "bytes \<Rightarrow> bytes" where
  "md5_reference msg = (let (a, b, c, d) = md5_absorb MD5Init_state (md5_pad msg) in MD5Encode [a, b, c, d])"

definition md5_hex :: "bytes \<Rightarrow> string" where
  "md5_hex msg = concat (map hex_byte (md5_reference msg))"

section \<open>The buffered code computes the reference function\<close>


lemma length_memcpy_at:
  "at + length src \<le> length dst \<Longrightarrow> length (memcpy_at dst at src) = length dst"
  by (simp add: memcpy_at_def)

lemma absorb_short: "length msg < 64 \<Longrightarrow> md5_absorb st msg = st"
  by (simp add: md5_absorb.simps)

lemma absorb_append:
  "64 dvd length xs \<Longrightarrow> md5_absorb st (xs @ ys) = md5_absorb (md5_absorb st xs) ys"
proof (induction st xs rule: md5_absorb.induct)
  case (1 st xs)
  show ?case
  proof (cases "64 \<le> length xs")
    case True
    then have "64 dvd length (drop 64 xs)" using "1.prems" by (simp add: dvd_diff_nat)
    then show ?thesis using True "1.IH" by (simp add: md5_absorb.simps [of st])
  next
    case False
    then have "xs = []" using "1.prems" by (auto dest: dvd_imp_le)
    then show ?thesis by (simp add: absorb_short)
  qed
qed

lemma absorb_block: "length b = 64 \<Longrightarrow> md5_absorb st b = MD5Transform st b"
  by (simp add: md5_absorb.simps [of st] absorb_short)

lemma absorb_tail:
  assumes "64 dvd length xs" and "length ys < 64"
  shows "md5_absorb st (xs @ ys) = md5_absorb st xs"
  using assms by (simp add: absorb_append absorb_short)

lemma length_whole_blocks: "length (take (64 * (length m div 64)) m) = 64 * (length m div 64)"
  by (simp add: min_def) (metis dual_order.antisym times_div_less_eq_dividend)

lemma absorb_whole:
  "md5_absorb st (take (64 * (length m div 64)) m) = md5_absorb st m"
proof -
  note length_whole_blocks [of m]
  moreover have "length (drop (64 * (length m div 64)) m) < 64"
    using div_mult_mod_eq [of "length m" 64] by simp
  ultimately show ?thesis
    using absorb_tail [of "take (64 * (length m div 64)) m" "drop (64 * (length m div 64)) m" st] by simp
qed

lemma Update_blocks_absorb:
  "i \<le> n \<Longrightarrow> n \<le> length input \<Longrightarrow> MD5Update_blocks st input i n =
     (md5_absorb st (take (n - i) (drop i input)), i + 64 * ((n - i) div 64))"
proof (induction st input i n rule: MD5Update_blocks.induct)
  case (1 st input i n)
  show ?case
  proof (cases "i + 64 \<le> n")
    case True
    let ?m = "take (n - i) (drop i input)"
    have "64 \<le> length ?m" using True "1.prems" by simp
    then have "md5_absorb st ?m = md5_absorb (MD5Transform st (take 64 ?m)) (drop 64 ?m)"
      by (simp add: md5_absorb.simps [of st])
    moreover have "take 64 ?m = take 64 (drop i input)" using True by (simp add: min_def)
    moreover have "drop 64 ?m = take (n - (i + 64)) (drop (i + 64) input)"
      by (simp add: drop_take ac_simps)
    moreover have "64 * ((n - i) div 64) = 64 + 64 * ((n - (i + 64)) div 64)"
      using True by (simp add: le_div_geq)
    ultimately show ?thesis
      using True "1.IH" "1.prems" by (simp add: MD5Update_blocks.simps [of st])
  next
    case False
    then have "length (take (n - i) (drop i input)) < 64" using "1.prems" by simp
    then show ?thesis using False by (simp add: MD5Update_blocks.simps [of st] absorb_short)
  qed
qed

lemma wrap_once:
  "x < m \<Longrightarrow> y < m \<Longrightarrow> m \<le> x + y \<Longrightarrow> (x + y) mod m = x + y - m \<and> (x + y) div m = 1" for x y m :: nat
  by (simp add: le_mod_geq le_div_geq)

lemma div_add_carry:
  fixes a p m :: nat
  assumes "0 < m"
  shows "(a + p) div m = a div m + p div m + (if (a + p) mod m < p mod m then 1 else 0)"
proof -
  have lt: "a mod m < m" "p mod m < m" using assms by simp_all
  have sum: "(a + p) mod m = (a mod m + p mod m) mod m" by (simp add: mod_add_eq)
  show ?thesis
  proof (cases "a mod m + p mod m < m")
    case True
    then show ?thesis using sum by (simp add: div_add1_eq [of a p])
  next
    case False
    then have "(a mod m + p mod m) mod m = a mod m + p mod m - m \<and> (a mod m + p mod m) div m = 1"
      using lt wrap_once [of "a mod m" m "p mod m"] by simp
    moreover have "a mod m + p mod m - m < p mod m" using lt False by linarith
    ultimately show ?thesis using sum by (simp add: div_add1_eq [of a p])
  qed
qed

lemma unat_of_nat_u32: "unat (word_of_nat k :: u32) = k mod 2 ^ 32"
  by (simp add: unat_of_nat)

lemma count_update:
  fixes c0 c1 :: u32
  assumes L: "L < 2 ^ 32" and c0: "c0 = word_of_nat (8 * n)" and c1: "c1 = word_of_nat (8 * n div 2 ^ 32)"
  defines "inc \<equiv> push_bit 3 (word_of_nat L) :: u32"
  shows "c0 + inc = word_of_nat (8 * (n + L))"
    and "(if c0 + inc < inc then c1 + 1 else c1) + drop_bit 29 (word_of_nat L)
           = word_of_nat (8 * (n + L) div 2 ^ 32)"
proof -
  have inc: "inc = word_of_nat (8 * L)" by (simp add: inc_def push_bit_eq_mult)
  show sum: "c0 + inc = word_of_nat (8 * (n + L))" by (simp add: inc c0 algebra_simps)
  have "c0 + inc < inc \<longleftrightarrow> (8 * n + 8 * L) mod 2 ^ 32 < 8 * L mod 2 ^ 32"
    unfolding sum unfolding inc word_less_nat_alt unat_of_nat_u32 distrib_left ..
  moreover have "drop_bit 29 (word_of_nat L :: u32) = word_of_nat (8 * L div 2 ^ 32)"
  proof (rule word_unat_eq_iff [THEN iffD2])
    have "8 * L div 2 ^ 32 = L div 2 ^ 29"
      using div_mult_mult1 [of 8 L "2 ^ 29"] by simp
    moreover have "L div 2 ^ 29 < 2 ^ 32" using L by (simp add: less_mult_imp_div_less)
    ultimately show "unat (drop_bit 29 (word_of_nat L :: u32)) = unat (word_of_nat (8 * L div 2 ^ 32) :: u32)"
      using L unfolding unat_drop_bit_eq unat_of_nat_u32 by (simp add: drop_bit_eq_div)
  qed
  ultimately show "(if c0 + inc < inc then c1 + 1 else c1) + drop_bit 29 (word_of_nat L)
           = word_of_nat (8 * (n + L) div 2 ^ 32)"
    using div_add_carry [of "2 ^ 32" "8 * n" "8 * L"] by (simp add: c1 algebra_simps)
qed

lemma index_of_count: "unat (drop_bit 3 (word_of_nat (8 * n) :: u32) AND 0x3F) = n mod 64"
proof -
  have "(0x3F :: u32) = mask 6" by (simp add: mask_eq_exp_minus_1)
  then have "unat (drop_bit 3 (word_of_nat (8 * n) :: u32) AND 0x3F) =
      take_bit 6 (drop_bit 3 (unat (word_of_nat (8 * n) :: u32)))"
    by (simp only: take_bit_eq_mask [symmetric] unsigned_take_bit_eq unat_drop_bit_eq)
  also have "\<dots> = 8 * n mod 2 ^ 32 div 8 mod 64"
    unfolding unat_of_nat_u32 by (simp add: drop_bit_eq_div take_bit_eq_mod)
  also have "\<dots> = n mod 64"
    using mod_mult_mult1 [of 8 n "2 ^ 29"] by (simp add: mod_mod_cancel)
  finally show ?thesis .
qed

text \<open>The invariant that ties a context to the message it has absorbed.\<close>

definition md5_repr :: "MD5_CTX \<Rightarrow> bytes \<Rightarrow> bool" where
  "md5_repr ctx m \<longleftrightarrow>
     length (ctx_buffer ctx) = 64 \<and>
     ctx_state ctx = md5_absorb MD5Init_state m \<and>
     take (length m mod 64) (ctx_buffer ctx) = drop (64 * (length m div 64)) m \<and>
     ctx_count0 ctx = word_of_nat (8 * length m) \<and>
     ctx_count1 ctx = word_of_nat (8 * length m div 2 ^ 32)"

lemma md5_repr_init: "length (ctx_buffer ctx) = 64 \<Longrightarrow> md5_repr (MD5Init ctx) []"
  by (simp add: md5_repr_def MD5Init_def absorb_short)

text \<open>Splitting the absorbed message: complete blocks and the open block, then the new input.\<close>

lemma absorb_step:
  assumes "n = length m mod 64" and "tail = drop (64 * (length m div 64)) m"
    and "64 - n \<le> length input"
  shows "md5_absorb st (m @ input) =
     md5_absorb (MD5Transform (md5_absorb st m) (tail @ take (64 - n) input)) (drop (64 - n) input)"
proof -
  let ?w = "take (64 * (length m div 64)) m"
  have tail: "length tail = n"
    using assms(1,2) minus_mult_div_eq_mod [of "length m" 64] by simp
  have n: "n < 64" using assms(1) by simp
  have w: "64 dvd length ?w"
    unfolding length_whole_blocks by simp
  have block: "length (tail @ take (64 - n) input) = 64" using tail n assms(3) by simp
  have m: "m @ input = ?w @ ((tail @ take (64 - n) input) @ drop (64 - n) input)"
    using assms(2) by simp
  have "md5_absorb st (m @ input) =
      md5_absorb (md5_absorb st ?w) ((tail @ take (64 - n) input) @ drop (64 - n) input)"
    unfolding m by (rule absorb_append [OF w])
  also have "\<dots> = md5_absorb (md5_absorb (md5_absorb st ?w) (tail @ take (64 - n) input)) (drop (64 - n) input)"
    by (rule absorb_append) (simp only: block dvd_refl)
  finally show ?thesis by (simp only: absorb_block [OF block] absorb_whole)
qed

lemma take_memcpy_at:
  "at + length src \<le> length dst \<Longrightarrow> take (at + length src) (memcpy_at dst at src) = take at dst @ src"
  by (simp add: memcpy_at_def)

lemma tail_short:
  fixes a b :: nat
  assumes "a mod 64 + b < 64"
  shows "(a + b) div 64 = a div 64" and "(a + b) mod 64 = a mod 64 + b"
proof -
  have "a + b = 64 * (a div 64) + (a mod 64 + b)" by simp
  then show "(a + b) div 64 = a div 64" "(a + b) mod 64 = a mod 64 + b"
    using assms by (metis div_mult_self4 div_less add.right_neutral zero_neq_numeral,
      metis mod_mult_self4 mod_less)
qed

lemma block_split:
  fixes a b :: nat
  defines "p \<equiv> 64 - a mod 64"
  defines "k \<equiv> (b - p) div 64"
  assumes "p \<le> b"
  shows "(a + b) div 64 = a div 64 + 1 + k" and "(a + b) mod 64 = (b - p) mod 64"
    and "64 * ((a + b) div 64) = a + (p + 64 * k)" and "b - (p + 64 * k) = (b - p) mod 64"
proof -
  obtain q n where a: "a = 64 * q + n" "n < 64"
    by (rule that [of "a div 64" "a mod 64"]) simp_all
  obtain r where r: "b - p = 64 * k + r" "r < 64"
    by (rule that [of "(b - p) mod 64"]) (simp_all add: k_def)
  have p: "p = 64 - n" using a by (simp add: p_def)
  have b: "b + n = 64 + 64 * k + r" using r assms(3) p a(2) by linarith
  have sum: "a + b = 64 * (q + 1 + k) + r" using a(1) b by (simp add: algebra_simps)
  have q: "a div 64 = q" using a by simp
  show div: "(a + b) div 64 = a div 64 + 1 + k" unfolding sum q using r(2) by simp
  show "(a + b) mod 64 = (b - p) mod 64" unfolding sum r(1) mod_mult_self4 ..
  show "64 * ((a + b) div 64) = a + (p + 64 * k)" unfolding div q using a p by simp
  show "b - (p + 64 * k) = (b - p) mod 64" unfolding r(1) mod_mult_self4 using r assms(3) by simp
qed

lemma update_full:
  assumes "unat w = length input" and "unat (drop_bit 3 (ctx_count0 ctx) AND 0x3F) = n"
    and "p = 64 - n" and "p \<le> length input" and "memcpy_at (ctx_buffer ctx) n (take p input) = blk"
    and "MD5Update_blocks (MD5Transform (ctx_state ctx) blk) input p (length input) = (st, i)"
  shows "MD5Update ctx input w = ctx\<lparr>
     ctx_count0 := ctx_count0 ctx + push_bit 3 w,
     ctx_count1 := (if ctx_count0 ctx + push_bit 3 w < push_bit 3 w then ctx_count1 ctx + 1
                    else ctx_count1 ctx) + drop_bit 29 w,
     ctx_state := st, ctx_buffer := memcpy_at blk 0 (drop i input)\<rparr>"
  unfolding MD5Update_def Let_def assms(1,2) assms(3) [symmetric]
  by (simp only: assms(4-6) if_True prod.case) simp

lemma update_partial:
  assumes "unat w = length input" and "unat (drop_bit 3 (ctx_count0 ctx) AND 0x3F) = n"
    and "\<not> 64 - n \<le> length input"
  shows "MD5Update ctx input w = ctx\<lparr>
     ctx_count0 := ctx_count0 ctx + push_bit 3 w,
     ctx_count1 := (if ctx_count0 ctx + push_bit 3 w < push_bit 3 w then ctx_count1 ctx + 1
                    else ctx_count1 ctx) + drop_bit 29 w,
     ctx_buffer := memcpy_at (ctx_buffer ctx) n input\<rparr>"
  unfolding MD5Update_def Let_def assms(1,2)
  by (simp only: assms(3) if_False) simp

lemma md5_repr_full:
  assumes r: "md5_repr ctx m" and len: "length input < 2 ^ 32"
    and True: "64 - length m mod 64 \<le> length input"
  shows "md5_repr (Md5Hasher_Update input ctx) (m @ input)"
proof -
  let ?L = "length input" and ?w = "word_of_nat (length input) :: u32"
  define n where "n = length m mod 64"
  define p where "p = 64 - n"
  define k where "k = (?L - p) div 64"
  define tail where "tail = drop (64 * (length m div 64)) m"
  have r': "length (ctx_buffer ctx) = 64" "take n (ctx_buffer ctx) = tail"
      "ctx_count0 ctx = word_of_nat (8 * length m)"
      "ctx_count1 ctx = word_of_nat (8 * length m div 2 ^ 32)"
      "ctx_state ctx = md5_absorb MD5Init_state m"
    using r by (simp_all add: md5_repr_def n_def tail_def)
  have n: "n < 64" and p: "p \<le> ?L" "n + p = 64"
    using True by (simp_all add: n_def p_def)
  have tl: "length tail = n"
    using minus_mult_div_eq_mod [of "length m" 64] by (simp add: n_def tail_def)
  have idx: "unat (drop_bit 3 (ctx_count0 ctx) AND 0x3F) = n"
    unfolding r'(3) n_def by (rule index_of_count)
  have blk: "memcpy_at (ctx_buffer ctx) n (take p input) = tail @ take p input"
    using p r'(1,2) by (simp add: memcpy_at_def min_def)
  have blocks: "MD5Update_blocks s input p ?L = (md5_absorb s (drop p input), p + 64 * k)" for s
    using Update_blocks_absorb [of p ?L input s] p(1) by (simp add: k_def)
  note split = block_split [OF True, folded n_def, folded p_def, folded k_def]
  have upd: "Md5Hasher_Update input ctx = ctx\<lparr>
     ctx_count0 := word_of_nat (8 * (length m + ?L)),
     ctx_count1 := word_of_nat (8 * (length m + ?L) div 2 ^ 32),
     ctx_state := md5_absorb MD5Init_state (m @ input),
     ctx_buffer := memcpy_at (tail @ take p input) 0 (drop (p + 64 * k) input)\<rparr>"
  proof -
    have w: "unat ?w = ?L" using len by (simp add: unat_of_nat_u32)
    have "md5_absorb (MD5Transform (ctx_state ctx) (tail @ take p input)) (drop p input)
        = md5_absorb MD5Init_state (m @ input)"
      unfolding r'(5) p_def using absorb_step [of n m tail input] True by (simp add: n_def tail_def)
    then show ?thesis
      unfolding Md5Hasher_Update_def update_full [OF w idx p_def p(1) blk blocks]
        count_update(2) [OF len r'(3,4)] unfolding count_update(1) [OF len r'(3,4)] by simp
  qed
  have drop_len: "length (drop (p + 64 * k) input) = (?L - p) mod 64"
    unfolding length_drop by (rule split(4))
  have "length (memcpy_at (tail @ take p input) 0 (drop (p + 64 * k) input)) = 64"
    using drop_len tl p by (subst length_memcpy_at) (simp_all add: min_def)
  moreover have "take (length (m @ input) mod 64) (memcpy_at (tail @ take p input) 0 (drop (p + 64 * k) input))
      = drop (64 * (length (m @ input) div 64)) (m @ input)"
    unfolding length_append split(2,3) drop_len [symmetric] by (simp add: memcpy_at_def)
  ultimately show ?thesis
    unfolding md5_repr_def upd by (simp del: length_memcpy_at)
qed

lemma md5_repr_partial:
  assumes r: "md5_repr ctx m" and len: "length input < 2 ^ 32"
    and False: "\<not> 64 - length m mod 64 \<le> length input"
  shows "md5_repr (Md5Hasher_Update input ctx) (m @ input)"
proof -
  let ?L = "length input" and ?w = "word_of_nat (length input) :: u32"
  define n where "n = length m mod 64"
  define tail where "tail = drop (64 * (length m div 64)) m"
  have r': "length (ctx_buffer ctx) = 64" "take n (ctx_buffer ctx) = tail"
      "ctx_count0 ctx = word_of_nat (8 * length m)"
      "ctx_count1 ctx = word_of_nat (8 * length m div 2 ^ 32)"
      "ctx_state ctx = md5_absorb MD5Init_state m"
    using r by (simp_all add: md5_repr_def n_def tail_def)
  have short: "n + ?L < 64" using False by (simp add: n_def)
  have idx: "unat (drop_bit 3 (ctx_count0 ctx) AND 0x3F) = n"
    unfolding r'(3) n_def by (rule index_of_count)
  have w: "unat ?w = ?L" using len by (simp add: unat_of_nat_u32)
  note t = tail_short [OF short [unfolded n_def], folded n_def]
  have tail_input: "drop (64 * (length m div 64)) (m @ input) = tail @ input"
    using times_div_less_eq_dividend [of 64 "length m"] by (simp add: tail_def)
  have "md5_absorb MD5Init_state (m @ input) = md5_absorb MD5Init_state m"
    using absorb_whole [of MD5Init_state "m @ input"] absorb_whole [of MD5Init_state m] t(1)
      times_div_less_eq_dividend [of 64 "length m"] by simp
  moreover have "take (n + ?L) (memcpy_at (ctx_buffer ctx) n input) = tail @ input"
    using short r'(1,2) by (subst take_memcpy_at) simp_all
  moreover have "length (memcpy_at (ctx_buffer ctx) n input) = 64"
    using short r'(1) by (subst length_memcpy_at) simp_all
  ultimately show ?thesis
    unfolding md5_repr_def Md5Hasher_Update_def length_append t tail_input
      update_partial [OF w idx False [folded n_def]] count_update(2) [OF len r'(3,4)]
    unfolding count_update(1) [OF len r'(3,4)]
    using r'(5) by simp
qed

text \<open>Feeding any input of at most \<open>2^32 - 1\<close> bytes appends it to the absorbed message.\<close>

lemma md5_repr_update:
  "md5_repr ctx m \<Longrightarrow> length input < 2 ^ 32 \<Longrightarrow> md5_repr (Md5Hasher_Update input ctx) (m @ input)"
  using md5_repr_full md5_repr_partial by blast

lemma Update_blocks_take:
  "i \<le> n \<Longrightarrow> n \<le> length input \<Longrightarrow>
     MD5Update_blocks st (take n input) i n = MD5Update_blocks st input i n"
  using Update_blocks_absorb [of i n "take n input" st] Update_blocks_absorb [of i n input st]
  by (simp add: drop_take)

text \<open>Only the first \<open>inputlen\<close> bytes of the input are read.\<close>

lemma MD5Update_take:
  assumes "unat w \<le> length input"
  shows "MD5Update ctx input w = MD5Update ctx (take (unat w) input) w"
proof -
  let ?n = "unat (drop_bit 3 (ctx_count0 ctx) AND 0x3F)"
  show ?thesis
  proof (cases "64 - ?n \<le> unat w")
    case True
    then show ?thesis
      unfolding MD5Update_def Let_def using Update_blocks_take [OF True assms]
      by (simp add: min_absorb1 drop_take del: take_take split: prod.splits)
         (simp add: min_def)
  next
    case False
    then show ?thesis unfolding MD5Update_def Let_def by simp
  qed
qed

lemma length_MD5Encode [simp]: "length (MD5Encode ws) = 4 * length ws"
  by (induction ws) auto

lemma length_md5_pad: "64 dvd length (md5_pad m)"
proof -
  have "56 + 8 = (64::nat)" by simp
  have "(length m + md5_pad_length (length m) + 8) mod 64 = 0"
    unfolding md5_pad_length_def Let_def by presburger
  moreover have "md5_pad_length (length m) \<le> 64"
    unfolding md5_pad_length_def Let_def by auto
  ultimately show ?thesis
    by (simp add: md5_pad_def md5_length_words_def PADDING_def dvd_eq_mod_eq_0 ac_simps)
qed

lemma md5_repr_final:
  assumes r: "md5_repr ctx m"
  shows "MD5Final ctx = md5_reference m"
proof -
  let ?n = "length m mod 64"
  let ?pad = "md5_pad_length (length m)"
  have c: "ctx_count0 ctx = word_of_nat (8 * length m)"
      "ctx_count1 ctx = word_of_nat (8 * length m div 2 ^ 32)"
    using r by (simp_all add: md5_repr_def)
  have idx: "unat (drop_bit 3 (ctx_count0 ctx) AND 0x3F) = ?n"
    unfolding c by (rule index_of_count)
  have pad: "(if ?n < 56 then 56 - ?n else 120 - ?n) = ?pad"
    by (simp add: md5_pad_length_def Let_def)
  have pad_le: "?pad \<le> 64" by (auto simp: md5_pad_length_def Let_def)
  have lenP: "length PADDING = 64" by (simp add: PADDING_def)
  have wpad: "unat (word_of_nat ?pad :: u32) = ?pad"
    using pad_le by (simp add: unat_of_nat_u32)
  have bits: "MD5Encode [ctx_count0 ctx, ctx_count1 ctx] = MD5Encode (md5_length_words (length m))"
    unfolding c md5_length_words_def by simp
  define c1 where "c1 = MD5Update ctx PADDING (word_of_nat ?pad)"
  have "c1 = Md5Hasher_Update (take ?pad PADDING) ctx"
    unfolding c1_def Md5Hasher_Update_def
    using pad_le lenP MD5Update_take [of "word_of_nat ?pad" PADDING ctx] wpad by (simp add: min_def)
  then have r1: "md5_repr c1 (m @ take ?pad PADDING)"
    using md5_repr_update [OF r, of "take ?pad PADDING"] pad_le lenP by simp
  define c2 where "c2 = MD5Update c1 (MD5Encode (md5_length_words (length m))) 8"
  have "c2 = Md5Hasher_Update (MD5Encode (md5_length_words (length m))) c1"
    unfolding c2_def Md5Hasher_Update_def by (simp add: md5_length_words_def)
  then have r2: "md5_repr c2 (md5_pad m)"
    using md5_repr_update [OF r1, of "MD5Encode (md5_length_words (length m))"]
    by (simp add: md5_pad_def md5_length_words_def)
  then have "ctx_state c2 = md5_absorb MD5Init_state (md5_pad m)"
    by (simp add: md5_repr_def)
  then show ?thesis
    unfolding MD5Final_def md5_reference_def Let_def idx pad bits c1_def [symmetric]
    by (simp add: c2_def)
qed

lemma md5_repr_new: "md5_repr Md5Hasher_new []"
  by (simp add: Md5Hasher_new_def Md5Hasher_Reset_def md5_repr_init)

lemma md5_repr_reset: "length (ctx_buffer h) = 64 \<Longrightarrow> md5_repr (Md5Hasher_Reset h) []"
  by (simp add: Md5Hasher_Reset_def md5_repr_init)

interpretation md5: hasher Md5Hasher md5_repr md5_hex "2 ^ 32 - 64"
proof unfold_locales
  fix h m and bs :: bytes
  show "md5_repr (Clone Md5Hasher h) []"
    by (simp add: Md5Hasher_def Md5Hasher_Clone_def md5_repr_new)
  assume r: "md5_repr h m"
  show "md5_repr (Reset Md5Hasher h) []"
    using r md5_repr_reset [of h] by (simp only: Md5Hasher_def md5_repr_def IHasher.simps)
  show "FinalHex Md5Hasher h = md5_hex m"
    using md5_repr_final [OF r] by (simp add: Md5Hasher_def Md5Hasher_FinalHex_def md5_hex_def)
  assume "length bs \<le> 2 ^ 32 - 64"
  then show "md5_repr (Update Md5Hasher bs h) (m @ bs)"
    using md5_repr_update [OF r, of bs] by (simp add: Md5Hasher_def)
qed

section \<open>Properties\<close>

text \<open>C6: an \<open>Md5Hasher\<close>, whatever it was used for before, that is reset and then fed any sequence of
  pieces returns the MD5 digest, by the reference definition, of the concatenation of the pieces: the
  64-byte buffering, the two-word bit counter with its carry and the two-step padding are exact for
  every way of cutting the input.\<close>

theorem md5_incremental_is_reference:
  assumes "length (ctx_buffer h) = 64"
    and "\<And>p. p \<in> set pieces \<Longrightarrow> length p \<le> 2 ^ 32 - 64"
  shows "FinalHex Md5Hasher (fold (Update Md5Hasher) pieces (Reset Md5Hasher h)) = md5_hex (concat pieces)"
proof -
  have "md5_repr (Reset Md5Hasher h) []"
    using assms(1) by (simp add: Md5Hasher_def md5_repr_reset)
  from md5.digest_fold [OF this assms(2)] show ?thesis by simp
qed

theorem md5_incremental_is_reference_witness:
  "FinalHex Md5Hasher (fold (Update Md5Hasher) [[97], [98, 99]] (Reset Md5Hasher Md5Hasher_new))
     = md5_hex [97, 98, 99]"
proof -
  have "length (ctx_buffer Md5Hasher_new) = 64"
    by (simp add: Md5Hasher_new_def Md5Hasher_Reset_def MD5Init_def)
  moreover have "length p \<le> 2 ^ 32 - 64" if "p \<in> set [[97], [98, 99 :: u8]]" for p
    using that by auto
  ultimately show ?thesis
    using md5_incremental_is_reference [of Md5Hasher_new "[[97], [98, 99]]"] by simp
qed

end
