(* ===== verification/File_System.thy ===== *)
theory File_System
  imports Core_Types "HOL-Library.AList"
begin

text \<open>
  What the program uses of \<^verbatim>\<open>std::filesystem\<close> and of the file streams: path algebra on path texts
  (\<open>lexically_normal\<close>, \<open>parent_path\<close>, \<open>filename\<close>, \<open>extension\<close>, \<open>operator/\<close>, \<open>relative\<close>) and a tree of regular
  files and directories. A path names the entry of its normal form; symbolic links are not modelled.
  Whether an entry may be read or written is decided by the system: two predicates of the state that no
  operation changes, so every open, copy and rename has its failing branch, and a bound on the size of a
  file makes writes fail. \<open>fs_now\<close> is the
  modification time that a write leaves behind, in Unix seconds.
\<close>

section \<open>Paths\<close>

fun split_on :: "char \<Rightarrow> string \<Rightarrow> string list" where
  "split_on d [] = [[]]"
| "split_on d (c # cs) =
     (if c = d then [] # split_on d cs
      else (case split_on d cs of [] \<Rightarrow> [[c]] | p # ps \<Rightarrow> (c # p) # ps))"

definition is_absolute :: "path \<Rightarrow> bool" where
  "is_absolute p \<longleftrightarrow> (case p of [] \<Rightarrow> False | c # _ \<Rightarrow> c = CHR ''/'')"

text \<open>
  The names of the normal form, innermost first: empty names and dots are dropped, a dot-dot removes the
  name before it, stays when there is none, and vanishes at the root.
\<close>

definition normal_step :: "bool \<Rightarrow> string \<Rightarrow> string list \<Rightarrow> string list" where
  "normal_step absolute name stack =
     (if name = [] \<or> name = ''.'' then stack
      else if name = ''..'' then
        (case stack of
           [] \<Rightarrow> (if absolute then [] else [''..''])
         | upper # rest \<Rightarrow> if upper = ''..'' then ''..'' # stack else rest)
      else name # stack)"

definition normal_names :: "path \<Rightarrow> string list" where
  "normal_names p = rev (fold (normal_step (is_absolute p)) (split_on CHR ''/'' p) [])"

definition normal_text :: "bool \<Rightarrow> string list \<Rightarrow> bool \<Rightarrow> path" where
  "normal_text absolute names slash =
     (if names = [] then (if absolute then ''/'' else ''.'')
      else (if absolute then ''/'' else []) @ join_with ''/'' names @
        (if slash \<and> last names \<noteq> ''..'' then ''/'' else []))"

definition lexically_normal :: "path \<Rightarrow> path" where
  "lexically_normal p =
     (if p = [] then []
      else normal_text (is_absolute p) (normal_names p)
        (last (split_on CHR ''/'' p) \<in> {[], ''.'', ''..''}))"

text \<open>The identity of the entry a path names: the normal form without a trailing separator.\<close>

definition entry_key :: "path \<Rightarrow> bool \<times> string list" where
  "entry_key p = (is_absolute p, normal_names p)"

definition strip_slashes :: "path \<Rightarrow> path" where
  "strip_slashes p = rev (dropWhile (\<lambda>c. c = CHR ''/'') (rev p))"

definition path_filename :: "path \<Rightarrow> path" where
  "path_filename p = last (split_on CHR ''/'' p)"

definition parent_path :: "path \<Rightarrow> path" where
  "parent_path p =
     (let dir = take (length p - length (path_filename p)) p
      in if dir = [] then [] else if strip_slashes dir = [] then ''/'' else strip_slashes dir)"

text \<open>The suffix of the file name from its last dot, unless the name starts with that dot.\<close>

definition path_extension :: "path \<Rightarrow> path" where
  "path_extension p =
     (let name = path_filename p;
          suffix = rev (takeWhile (\<lambda>c. c \<noteq> CHR ''.'') (rev name))
      in if length name \<le> length suffix + 1 \<or> name = ''..'' then [] else CHR ''.'' # suffix)"

definition path_append :: "path \<Rightarrow> path \<Rightarrow> path" where
  "path_append a b =
     (if is_absolute b then b
      else if a = [] \<or> last a = CHR ''/'' then a @ b
      else a @ ''/'' @ b)"

fun drop_common :: "string list \<Rightarrow> string list \<Rightarrow> string list \<times> string list" where
  "drop_common (x # xs) (y # ys) = (if x = y then drop_common xs ys else (x # xs, y # ys))"
| "drop_common xs ys = (xs, ys)"

text \<open>\<open>std::filesystem::relative\<close> for paths that are both absolute or both relative.\<close>

definition path_relative :: "path \<Rightarrow> path \<Rightarrow> path" where
  "path_relative p base =
     (if is_absolute p \<noteq> is_absolute base then []
      else let (rest, up) = drop_common (normal_names p) (normal_names base)
           in normal_text False (replicate (length up) ''..'' @ rest) False)"

section \<open>Files\<close>

datatype fnode = RegularFile bytes u64 | Directory

record FileSystem =
  fs_nodes :: "((bool \<times> string list) \<times> fnode) list"
  fs_readable :: "path \<Rightarrow> bool"
  fs_writable :: "path \<Rightarrow> bool"
  fs_capacity :: nat
  fs_now :: u64

definition entry_at :: "FileSystem \<Rightarrow> path \<Rightarrow> fnode option" where
  "entry_at fs p =
     (if p = [] then None
      else if snd (entry_key p) = [] then Some Directory
      else map_of (fs_nodes fs) (entry_key p))"

definition set_entry :: "path \<Rightarrow> fnode \<Rightarrow> FileSystem \<Rightarrow> FileSystem" where
  "set_entry p n fs = fs\<lparr>fs_nodes := AList.update (entry_key p) n (fs_nodes fs)\<rparr>"

definition fs_exists :: "FileSystem \<Rightarrow> path \<Rightarrow> bool" where
  "fs_exists fs p \<longleftrightarrow> entry_at fs p \<noteq> None"

definition is_regular_file :: "FileSystem \<Rightarrow> path \<Rightarrow> bool" where
  "is_regular_file fs p \<longleftrightarrow> (case entry_at fs p of Some (RegularFile _ _) \<Rightarrow> True | _ \<Rightarrow> False)"

definition file_size_of :: "FileSystem \<Rightarrow> path \<Rightarrow> u64 result" where
  "file_size_of fs p =
     (case entry_at fs p of
        Some (RegularFile b _) \<Rightarrow> Inr (word_of_nat (length b))
      | _ \<Rightarrow> throw (FilesystemError ''cannot get file size''))"

definition last_write_time :: "FileSystem \<Rightarrow> path \<Rightarrow> u64 result" where
  "last_write_time fs p =
     (case entry_at fs p of
        Some (RegularFile _ t) \<Rightarrow> Inr t
      | Some Directory \<Rightarrow> Inr (fs_now fs)
      | None \<Rightarrow> throw (FilesystemError ''cannot get file time''))"

text \<open>Opening a stream: \<open>None\<close> when the stream is not usable.\<close>

definition open_read :: "FileSystem \<Rightarrow> path \<Rightarrow> bytes option" where
  "open_read fs p =
     (case entry_at fs p of Some (RegularFile b _) \<Rightarrow> if fs_readable fs p then Some b else None | _ \<Rightarrow> None)"

definition parent_exists :: "FileSystem \<Rightarrow> path \<Rightarrow> bool" where
  "parent_exists fs p \<longleftrightarrow> parent_path p = [] \<or> entry_at fs (parent_path p) = Some Directory"

definition open_trunc :: "path \<Rightarrow> FileSystem \<Rightarrow> FileSystem option" where
  "open_trunc p fs =
     (if p = [] \<or> entry_at fs p = Some Directory \<or> \<not> fs_writable fs p \<or> \<not> parent_exists fs p then None
      else Some (set_entry p (RegularFile [] (fs_now fs)) fs))"

text \<open>
  Opening for append creates a missing file. A write that would make the file larger than the system
  allows stores what fits and leaves the stream in a failed state (\<open>False\<close>); the stream's own buffering,
  which can delay the failure to the close, is not modelled.
\<close>

definition open_append :: "path \<Rightarrow> FileSystem \<Rightarrow> FileSystem option" where
  "open_append p fs =
     (if \<not> fs_writable fs p then None
      else case entry_at fs p of
        Some (RegularFile _ _) \<Rightarrow> Some fs
      | Some Directory \<Rightarrow> None
      | None \<Rightarrow>
          if p = [] \<or> \<not> parent_exists fs p then None
          else Some (set_entry p (RegularFile [] (fs_now fs)) fs))"

definition write_end :: "path \<Rightarrow> bytes \<Rightarrow> FileSystem \<Rightarrow> bool \<times> FileSystem" where
  "write_end p b fs =
     (case entry_at fs p of
        Some (RegularFile old _) \<Rightarrow>
          (length (old @ b) \<le> fs_capacity fs,
           set_entry p (RegularFile (take (fs_capacity fs) (old @ b)) (fs_now fs)) fs)
      | _ \<Rightarrow> (False, fs))"

definition remove_file :: "path \<Rightarrow> FileSystem \<Rightarrow> FileSystem" where
  "remove_file p fs =
     (if is_regular_file fs p \<and> fs_writable fs p
      then fs\<lparr>fs_nodes := AList.delete (entry_key p) (fs_nodes fs)\<rparr> else fs)"

text \<open>\<open>None\<close> is a set error code; the target of a rename is replaced.\<close>

definition rename_file :: "path \<Rightarrow> path \<Rightarrow> FileSystem \<Rightarrow> FileSystem option" where
  "rename_file a b fs =
     (case entry_at fs a of
        Some (RegularFile c t) \<Rightarrow>
          if b = [] \<or> entry_at fs b = Some Directory \<or> \<not> parent_exists fs b \<or>
             \<not> fs_writable fs a \<or> \<not> fs_writable fs b then None
          else Some (set_entry b (RegularFile c t)
                 (fs\<lparr>fs_nodes := AList.delete (entry_key a) (fs_nodes fs)\<rparr>))
      | _ \<Rightarrow> None)"

definition directory_keys :: "path \<Rightarrow> (bool \<times> string list) list" where
  "directory_keys p =
     (let (absolute, names) = entry_key p in map (\<lambda>n. (absolute, take n names)) [1..<Suc (length names)])"

definition make_directories ::
  "(bool \<times> string list) list \<Rightarrow> ((bool \<times> string list) \<times> fnode) list \<Rightarrow>
   ((bool \<times> string list) \<times> fnode) list" where
  "make_directories ks nodes =
     fold (\<lambda>k nodes. if map_of nodes k = None then AList.update k Directory nodes else nodes) ks nodes"

definition create_directories :: "path \<Rightarrow> FileSystem \<Rightarrow> FileSystem result" where
  "create_directories p fs =
     (let keys = directory_keys p;
          is_file = (\<lambda>k. case map_of (fs_nodes fs) k of Some (RegularFile _ _) \<Rightarrow> True | _ \<Rightarrow> False);
          is_missing = (\<lambda>k. map_of (fs_nodes fs) k = None)
      in if p = [] \<or> list_ex is_file keys \<or> (list_ex is_missing keys \<and> \<not> fs_writable fs p)
         then throw (FilesystemError ''cannot create directories'')
         else Inr (fs\<lparr>fs_nodes := make_directories keys (fs_nodes fs)\<rparr>))"

text \<open>\<open>copy_file\<close> with \<open>overwrite_existing\<close>; copying a file onto itself is an error.\<close>

definition copy_file :: "path \<Rightarrow> path \<Rightarrow> FileSystem \<Rightarrow> FileSystem result" where
  "copy_file a b fs =
     (case open_read fs a of
        None \<Rightarrow> throw (FilesystemError ''cannot copy file'')
      | Some c \<Rightarrow>
          if b = [] \<or> entry_key a = entry_key b \<or> entry_at fs b = Some Directory \<or>
             \<not> parent_exists fs b \<or> \<not> fs_writable fs b
             \<or> fs_capacity fs < length c
          then throw (FilesystemError ''cannot copy file'')
          else Inr (set_entry b (RegularFile c (fs_now fs)) fs))"

section \<open>Facts about paths\<close>

lemma split_on_nonempty [simp]: "split_on d s \<noteq> []"
  by (cases s) (auto split: list.splits)

lemma split_on_append: "split_on d (a @ d # b) = split_on d a @ split_on d b"
  by (induction a) (auto split: list.splits)

lemma split_on_single: "d \<notin> set a \<Longrightarrow> split_on d a = [a]"
  by (induction a) auto

text \<open>A name that a directory entry can have.\<close>

definition plain_name :: "string \<Rightarrow> bool" where
  "plain_name n \<longleftrightarrow> n \<noteq> [] \<and> n \<noteq> ''.'' \<and> n \<noteq> ''..'' \<and> CHR ''/'' \<notin> set n"

lemma split_join:
  "ns \<noteq> [] \<Longrightarrow> (\<And>n. n \<in> set ns \<Longrightarrow> CHR ''/'' \<notin> set n) \<Longrightarrow>
     split_on CHR ''/'' (join_with ''/'' ns) = ns"
proof (induction ns rule: induct_list012)
  case (3 x y zs)
  have "split_on CHR ''/'' (join_with ''/'' (x # y # zs)) =
      split_on CHR ''/'' x @ split_on CHR ''/'' (join_with ''/'' (y # zs))"
    using split_on_append [of "CHR ''/''" x "join_with ''/'' (y # zs)"] by simp
  moreover have "split_on CHR ''/'' (join_with ''/'' (y # zs)) = y # zs"
    using 3 by simp
  moreover have "split_on CHR ''/'' x = [x]" using 3 by (simp add: split_on_single)
  ultimately show ?case by simp
qed (simp_all add: split_on_single)

lemma normal_steps_plain:
  "(\<And>n. n \<in> set ns \<Longrightarrow> plain_name n) \<Longrightarrow> fold (normal_step a) ns stack = rev ns @ stack"
  by (induction ns arbitrary: stack) (simp_all add: normal_step_def plain_name_def)

lemma is_absolute_append: "a \<noteq> [] \<Longrightarrow> is_absolute (a @ b) = is_absolute a"
  by (cases a) (auto simp: is_absolute_def)

lemma normal_names_append:
  assumes "root \<noteq> []" and "\<And>n. n \<in> set ns \<Longrightarrow> plain_name n"
  shows "normal_names (root @ ''/'' @ join_with ''/'' ns) = normal_names root @ ns"
proof (cases "ns = []")
  case True
  then show ?thesis
    using assms(1) split_on_append [of "CHR ''/''" root "[]"]
    by (simp add: normal_names_def is_absolute_append normal_step_def)
next
  case False
  then have "split_on CHR ''/'' (join_with ''/'' ns) = ns"
    using assms(2) by (intro split_join) (auto simp: plain_name_def)
  then show ?thesis
    using assms split_on_append [of "CHR ''/''" root "join_with ''/'' ns"]
    by (simp add: normal_names_def is_absolute_append normal_steps_plain)
qed

lemma split_on_extend:
  "d \<notin> set x \<Longrightarrow> split_on d (p @ x) = butlast (split_on d p) @ [last (split_on d p) @ x]"
proof (induction p)
  case Nil
  then show ?case by (simp add: split_on_single)
next
  case (Cons c p)
  obtain q qs where "split_on d p = q # qs" by (cases "split_on d p") auto
  then show ?case using Cons by auto
qed

lemma normal_names_last:
  "normal_names p = rev (normal_step (is_absolute p) (last (split_on CHR ''/'' p))
     (fold (normal_step (is_absolute p)) (butlast (split_on CHR ''/'' p)) []))"
proof -
  have "fold f xs z = f (last xs) (fold f (butlast xs) z)" if "xs \<noteq> []"
    for f :: "string \<Rightarrow> string list \<Rightarrow> string list" and xs z
    using that by (induction xs arbitrary: z) auto
  then show ?thesis unfolding normal_names_def by simp
qed

text \<open>Appending a suffix such as \<^verbatim>\<open>.part\<close> to a path always names another entry.\<close>

lemma entry_key_suffix:
  assumes "x \<noteq> []" "CHR ''/'' \<notin> set x" "x \<noteq> ''.''" "x \<noteq> ''..''" "length x > 2"
  shows "entry_key (p @ x) \<noteq> entry_key p" and "snd (entry_key (p @ x)) \<noteq> []"
proof -
  define stack where "stack = fold (normal_step (is_absolute p)) (butlast (split_on CHR ''/'' p)) []"
  define name where "name = last (split_on CHR ''/'' p)"
  have abs: "is_absolute (p @ x) = is_absolute p"
    using assms by (cases p) (auto simp: is_absolute_def split: list.splits)
  have px: "normal_names (p @ x) = rev ((name @ x) # stack)"
    unfolding normal_names_last [of "p @ x"] split_on_extend [OF assms(2)] abs
    using assms by (auto simp: normal_step_def stack_def name_def append_eq_Cons_conv Cons_eq_append_conv)
  have "normal_names p = rev (normal_step (is_absolute p) name stack)"
    unfolding normal_names_last [of p] stack_def name_def ..
  moreover have "normal_step (is_absolute p) name stack \<noteq> (name @ x) # stack"
    using assms(1,5) by (auto simp: normal_step_def split: list.splits dest: arg_cong [where f = length])
  ultimately have "normal_names (p @ x) \<noteq> normal_names p" unfolding px by (metis rev_rev_ident)
  then show "entry_key (p @ x) \<noteq> entry_key p" "snd (entry_key (p @ x)) \<noteq> []"
    by (simp_all add: entry_key_def px)
qed

lemma entry_key_part:
  "entry_key (p @ ''.part'') \<noteq> entry_key p" "snd (entry_key (p @ ''.part'')) \<noteq> []"
  using entry_key_suffix [of "''.part''" p] by simp_all

lemma drop_common_prefix: "drop_common (xs @ ys) xs = (ys, [])"
  by (induction xs) (cases ys, auto)

text \<open>The path of a file below a root, relative to the root, is the path by which it was reached.\<close>

lemma path_relative_below:
  assumes "root \<noteq> []" and "ns \<noteq> []" and "\<And>n. n \<in> set ns \<Longrightarrow> plain_name n"
  shows "path_relative (root @ ''/'' @ join_with ''/'' ns) root = join_with ''/'' ns"
  using assms normal_names_append [OF assms(1,3)]
  by (simp add: path_relative_def is_absolute_append drop_common_prefix normal_text_def)

text \<open>
  The names of a normal form are dot-dots, none for an absolute path, followed by plain names, so a
  normal form is its own normal form and names the same entry.
\<close>

definition normal_shape :: "bool \<Rightarrow> string list \<Rightarrow> bool" where
  "normal_shape absolute names \<longleftrightarrow> (\<exists>k ns. names = replicate k ''..'' @ ns \<and>
     (\<forall>n \<in> set ns. plain_name n) \<and> (absolute \<longrightarrow> k = 0))"

lemma normal_step_shape:
  assumes "normal_shape a (rev stack)" and "CHR ''/'' \<notin> set name"
  shows "normal_shape a (rev (normal_step a name stack))"
proof -
  obtain k ns where s: "rev stack = replicate k ''..'' @ ns" and ns: "\<forall>n \<in> set ns. plain_name n"
    and k: "a \<longrightarrow> k = 0" using assms(1) by (auto simp: normal_shape_def)
  from s have stack: "stack = rev ns @ replicate k ''..''"
    by (metis rev_rev_ident rev_append rev_replicate)
  consider "name = [] \<or> name = ''.''" | "name = ''..''" | "plain_name name"
    using assms(2) by (auto simp: plain_name_def)
  then show ?thesis
  proof cases
    case 1
    then show ?thesis using assms(1) by (auto simp: normal_step_def)
  next
    case 2
    show ?thesis
    proof (cases ns rule: rev_cases)
      case Nil
      have "normal_shape False (replicate j ''..'')" for j
        unfolding normal_shape_def by (rule exI [of _ j]) auto
      from this [of "Suc k"] this [of "Suc 0"] show ?thesis
        using 2 k by (cases k) (auto simp: normal_step_def stack Nil normal_shape_def replicate_append_same)
    next
      case (snoc ms m)
      then have "m \<noteq> ''..''" using ns by (auto simp: plain_name_def)
      then show ?thesis
        using 2 k ns snoc unfolding normal_shape_def
        by (intro exI [of _ k] exI [of _ ms]) (simp add: normal_step_def stack)
    qed
  next
    case 3
    then show ?thesis
      using ns k unfolding normal_shape_def
      by (intro exI [of _ k] exI [of _ "ns @ [name]"])
        (auto simp: normal_step_def stack plain_name_def)
  qed
qed

lemma split_on_no_sep: "n \<in> set (split_on d s) \<Longrightarrow> d \<notin> set n"
proof (induction s arbitrary: n)
  case (Cons c s)
  obtain q qs where "split_on d s = q # qs" by (cases "split_on d s") auto
  then show ?case using Cons by (auto split: if_splits)
qed simp

lemma normal_names_shape: "normal_shape (is_absolute p) (normal_names p)"
proof -
  have "normal_shape a (rev (fold (normal_step a) ns stack))"
    if "normal_shape a (rev stack)" and "\<And>n. n \<in> set ns \<Longrightarrow> CHR ''/'' \<notin> set n" for a ns stack
    using that by (induction ns arbitrary: stack) (simp_all add: normal_step_shape)
  moreover have "normal_shape (is_absolute p) (rev [])"
    unfolding normal_shape_def by (intro exI [of _ 0] exI [of _ "[]"]) simp
  ultimately show ?thesis unfolding normal_names_def using split_on_no_sep by blast
qed

lemma fold_normal_shape:
  assumes "normal_shape a names"
  shows "fold (normal_step a) names [] = rev names"
proof -
  obtain k ns where s: "names = replicate k ''..'' @ ns" and ns: "\<forall>n \<in> set ns. plain_name n"
    and k: "a \<longrightarrow> k = 0" using assms by (auto simp: normal_shape_def)
  have "fold (normal_step False) (replicate j ''..'') (replicate i ''..'') = replicate (j + i) ''..''" for i j
  proof (induction j arbitrary: i)
    case (Suc j)
    have "normal_step False ''..'' (replicate i ''..'') = replicate (Suc i) ''..''"
      by (cases i) (simp_all add: normal_step_def)
    then show ?case using Suc [of "Suc i"] by simp
  qed simp
  from this [of k 0] have "fold (normal_step a) (replicate k ''..'') [] = replicate k ''..''"
    using k by (cases a) simp_all
  then show ?thesis using ns normal_steps_plain [of ns a] by (simp add: s)
qed

lemma normal_shape_no_sep: "normal_shape a names \<Longrightarrow> n \<in> set names \<Longrightarrow> n \<noteq> [] \<and> CHR ''/'' \<notin> set n"
proof -
  assume shape: "normal_shape a names" and n: "n \<in> set names"
  obtain k ns where "set names \<subseteq> insert ''..'' (set ns)" "\<forall>n \<in> set ns. plain_name n"
    using shape by (fastforce simp: normal_shape_def)
  then have "n = ''..'' \<or> plain_name n" using n by blast
  then show ?thesis by (elim disjE) (simp_all add: plain_name_def)
qed

lemma split_normal_text:
  assumes "normal_shape a names" and "names \<noteq> []"
  shows "\<exists>pre post. split_on CHR ''/'' (normal_text a names slash) = pre @ names @ post \<and>
    set pre \<subseteq> {[]} \<and> set post \<subseteq> {[]} \<and> is_absolute (normal_text a names slash) = a"
proof -
  have j: "split_on CHR ''/'' (join_with ''/'' names) = names"
    using normal_shape_no_sep [OF assms(1)] by (intro split_join [OF assms(2)]) simp
  have js: "split_on CHR ''/'' (join_with ''/'' names @ ''/'') = names @ [[]]"
    using split_on_append [of "CHR ''/''" "join_with ''/'' names" "[]"] by (simp add: j)
  obtain n ms where n: "names = n # ms" using assms(2) by (cases names) auto
  then obtain c cs where c: "n = c # cs" "c \<noteq> CHR ''/''"
    using normal_shape_no_sep [OF assms(1), of n] by (cases n) auto
  have "\<exists>cs'. join_with ''/'' names = c # cs'" using n c by (cases ms) auto
  then obtain cs' where head: "join_with ''/'' names = c # cs'" ..
  let ?slash = "slash \<and> last names \<noteq> ''..''"
  show ?thesis
    using assms(2) j js head c(2)
    by (intro exI [of _ "if a then [[]] else []"] exI [of _ "if ?slash then [[]] else []"])
      (auto simp: normal_text_def is_absolute_def)
qed

lemma normal_names_text:
  assumes "normal_shape a names"
  shows "normal_names (normal_text a names slash) = names" and "is_absolute (normal_text a names slash) = a"
proof -
  have skip: "fold (normal_step a) xs stack = stack" if "set xs \<subseteq> {[]}" for xs stack
    using that by (induction xs) (auto simp: normal_step_def)
  have "normal_names (normal_text a names slash) = names \<and> is_absolute (normal_text a names slash) = a"
  proof (cases "names = []")
    case True
    then show ?thesis by (simp add: normal_text_def normal_names_def is_absolute_def normal_step_def)
  next
    case False
    obtain pre post where "split_on CHR ''/'' (normal_text a names slash) = pre @ names @ post"
      "set pre \<subseteq> {[]}" "set post \<subseteq> {[]}" "is_absolute (normal_text a names slash) = a"
      using split_normal_text [OF assms False] by blast
    then show ?thesis by (simp add: normal_names_def skip fold_normal_shape [OF assms])
  qed
  then show "normal_names (normal_text a names slash) = names" "is_absolute (normal_text a names slash) = a"
    by simp_all
qed

lemma entry_key_normal [simp]: "entry_key (lexically_normal p) = entry_key p"
  by (simp add: entry_key_def lexically_normal_def normal_names_text [OF normal_names_shape])

lemma lexically_normal_Nil [simp]: "lexically_normal p = [] \<longleftrightarrow> p = []"
proof -
  have "normal_text a names slash \<noteq> []" if "normal_shape a names" for a names slash
  proof (cases names)
    case (Cons n ms)
    then have "n \<noteq> []" using normal_shape_no_sep [OF that, of n] by simp
    then show ?thesis using Cons by (cases ms) (simp_all add: normal_text_def)
  qed (simp add: normal_text_def)
  then show ?thesis using normal_names_shape by (simp add: lexically_normal_def)
qed

section \<open>Facts about files\<close>

lemma entry_at_set_entry [simp]:
  "p \<noteq> [] \<Longrightarrow> snd (entry_key p) \<noteq> [] \<Longrightarrow> entry_at (set_entry p n fs) p = Some n"
  by (simp add: entry_at_def set_entry_def update_conv')

lemma entry_at_set_other:
  "entry_key q \<noteq> entry_key p \<Longrightarrow> entry_at (set_entry p n fs) q = entry_at fs q"
  by (simp add: entry_at_def set_entry_def update_conv')

lemma fs_frame [simp]:
  "fs_readable (set_entry p n fs) = fs_readable fs"
  "fs_writable (set_entry p n fs) = fs_writable fs"
  "fs_now (set_entry p n fs) = fs_now fs"
  "fs_capacity (set_entry p n fs) = fs_capacity fs"
  "fs_capacity (remove_file p fs) = fs_capacity fs"
  "fs_readable (remove_file p fs) = fs_readable fs"
  "fs_writable (remove_file p fs) = fs_writable fs"
  by (simp_all add: set_entry_def remove_file_def)

lemma entry_at_file_key: "entry_at fs p = Some (RegularFile c t) \<Longrightarrow> p \<noteq> [] \<and> snd (entry_key p) \<noteq> []"
  by (auto simp: entry_at_def split: if_splits)

lemma entry_at_same_key:
  "p \<noteq> [] \<Longrightarrow> q \<noteq> [] \<Longrightarrow> entry_key p = entry_key q \<Longrightarrow> entry_at fs p = entry_at fs q"
  by (simp add: entry_at_def)

lemma entry_at_remove:
  "is_regular_file fs p \<Longrightarrow> fs_writable fs p \<Longrightarrow> entry_at (remove_file p fs) p = None"
  by (auto simp: remove_file_def is_regular_file_def entry_at_def delete_conv' split: option.splits fnode.splits if_splits)

lemma entry_at_remove_other:
  "entry_key q \<noteq> entry_key p \<Longrightarrow> entry_at (remove_file p fs) q = entry_at fs q"
  by (auto simp: remove_file_def entry_at_def delete_conv')

lemma entry_at_normal [simp]: "entry_at fs (lexically_normal p) = entry_at fs p"
  by (simp add: entry_at_def)

lemma open_read_eq:
  "open_read fs p = Some b \<longleftrightarrow> (\<exists>t. entry_at fs p = Some (RegularFile b t)) \<and> fs_readable fs p"
  by (auto simp: open_read_def split: option.splits fnode.splits)

lemma map_of_make_directories:
  "map_of (make_directories ks nodes) k =
     (if map_of nodes k \<noteq> None then map_of nodes k else if k \<in> set ks then Some Directory else None)"
proof (induction ks arbitrary: nodes)
  case Nil
  then show ?case by (simp add: make_directories_def)
next
  case (Cons x ks)
  have step: "make_directories (x # ks) nodes =
      make_directories ks (if map_of nodes x = None then AList.update x Directory nodes else nodes)"
    by (simp add: make_directories_def)
  show ?case unfolding step Cons.IH by (cases "map_of nodes x") (auto simp: update_conv')
qed

lemma create_directories_Inr:
  assumes "create_directories p fs = Inr fs'"
  shows "p \<noteq> []" and "fs' = fs\<lparr>fs_nodes := make_directories (directory_keys p) (fs_nodes fs)\<rparr>"
  using assms by (auto simp: create_directories_def Let_def split: if_splits)

lemma create_directories_frame:
  assumes "create_directories p fs = Inr fs'"
  shows "fs_readable fs' = fs_readable fs" "fs_writable fs' = fs_writable fs" "fs_now fs' = fs_now fs"
    "fs_capacity fs' = fs_capacity fs"
  by (simp_all add: create_directories_Inr(2) [OF assms])

lemma create_directories_keeps:
  "create_directories p fs = Inr fs' \<Longrightarrow> entry_at fs q = Some n \<Longrightarrow> entry_at fs' q = Some n"
  by (drule create_directories_Inr(2)) (auto simp: entry_at_def map_of_make_directories split: if_splits)

lemma create_directories_keeps_file:
  "create_directories p fs = Inr fs' \<Longrightarrow>
     entry_at fs' q = Some (RegularFile c t) \<longleftrightarrow> entry_at fs q = Some (RegularFile c t)"
  by (drule create_directories_Inr(2)) (auto simp: entry_at_def map_of_make_directories split: if_splits)

lemma open_read_create_directories:
  assumes "create_directories p fs = Inr fs'"
  shows "open_read fs' q = open_read fs q"
proof -
  have "open_read fs' q = Some b \<longleftrightarrow> open_read fs q = Some b" for b
    by (simp add: open_read_eq create_directories_keeps_file [OF assms] create_directories_frame [OF assms])
  then show ?thesis by (metis option.exhaust)
qed

lemma create_directories_makes:
  assumes "create_directories p fs = Inr fs'"
  shows "entry_at fs' p = Some Directory"
proof (cases "snd (entry_key p) = []")
  case True
  then show ?thesis using create_directories_Inr(1) [OF assms] by (simp add: entry_at_def)
next
  case False
  obtain absolute names where k: "entry_key p = (absolute, names)" by (cases "entry_key p")
  then have "names \<noteq> []" using False by simp
  then have "length names \<in> set [1..<Suc (length names)]" by (auto simp: Suc_le_eq)
  then have "(absolute, take (length names) names) \<in> set (directory_keys p)"
    unfolding directory_keys_def k Let_def prod.case set_map by (rule imageI)
  then have key: "entry_key p \<in> set (directory_keys p)" by (simp add: k)
  have "\<not> (\<exists>c t. map_of (fs_nodes fs) (entry_key p) = Some (RegularFile c t))"
    using assms key by (auto simp: create_directories_def Let_def list_ex_iff split: if_splits option.splits fnode.splits)
  then have "map_of (fs_nodes fs) (entry_key p) \<in> {None, Some Directory}"
    by (cases "map_of (fs_nodes fs) (entry_key p)") (auto, metis fnode.exhaust)
  then show ?thesis
    using key False create_directories_Inr(1) [OF assms]
    by (auto simp: create_directories_Inr(2) [OF assms] entry_at_def map_of_make_directories)
qed

section \<open>A concrete tree for the examples\<close>

text \<open>The equations that evaluate the path operations on concrete texts.\<close>

lemmas path_eval = normal_names_def is_absolute_def normal_step_def entry_key_def lexically_normal_def
  normal_text_def path_append_def parent_path_def path_filename_def strip_slashes_def path_extension_def
  Let_def

definition sample_fs :: FileSystem where
  "sample_fs = \<lparr>fs_nodes =
     [((False, [''d'']), Directory), ((False, [''d'', ''f'']), RegularFile [1, 2, 3] 7),
      ((False, [''d'', ''f.part'']), RegularFile [9] 7)],
     fs_readable = (\<lambda>_. True), fs_writable = (\<lambda>_. True), fs_capacity = 1000, fs_now = 11\<rparr>"

lemma sample_fs_read [simp]:
  "open_read sample_fs ''d/f'' = Some [1, 2, 3]"
  "entry_at sample_fs ''d'' = Some Directory"
  "entry_at sample_fs ''d/f'' = Some (RegularFile [1, 2, 3] 7)"
  "fs_readable sample_fs p" "fs_writable sample_fs p" "fs_capacity sample_fs = 1000" "fs_now sample_fs = 11"
  by (simp_all add: open_read_def entry_at_def entry_key_def sample_fs_def normal_names_def
      is_absolute_def normal_step_def)

end
