(* ===== verification/Sync_Chunks.thy ===== *)
theory Sync_Chunks
  imports Md5_Hash Protocol_Codec File_System
begin

text \<open>
  \<^verbatim>\<open>src/sync/chunker.cpp\<close> and \<^verbatim>\<open>src/sync/chunk_reader.cpp\<close>: a file is cut into chunks of a fixed size,
  every chunk and the whole file are hashed, and a chunk named by a manifest entry is read back and
  verified. The code is generic in \<open>IHasher\<close>; the lemmas are proved from the laws of the locale
  \<open>hasher\<close>, and the properties are stated of the MD5 hasher that the programs install.
\<close>

section \<open>Chunker\<close>

record 'h Chunker =
  chunker_chunk_size :: nat
  chunker_hasher :: 'h

definition default_chunk_size :: nat where
  "default_chunk_size = 4 * 1024 * 1024"

definition HashBuffer :: "'h IHasher \<Rightarrow> bytes \<Rightarrow> 'h \<Rightarrow> string \<times> 'h" where
  "HashBuffer ops data h = (let h = Update ops data (Reset ops h) in (FinalHex ops h, h))"

text \<open>
  The read loop. \<open>input.read\<close> takes as many bytes as are left, up to the buffer's size; a short read
  sets the stream's end flag, so the loop condition fails after the round that processed it.
\<close>

function ReadChunks ::
  "'h IHasher \<Rightarrow> nat \<Rightarrow> bytes \<Rightarrow> 'h \<Rightarrow> 'h \<Rightarrow> u64 \<Rightarrow> u32 \<Rightarrow> ChunkRecord list \<Rightarrow> ChunkRecord list \<times> 'h \<times> 'h"
where
  "ReadChunks ops csize input h file_hasher offset index chunks =
     (let data = take csize input
      in if data = [] then (chunks, h, file_hasher)
         else
           let (hash, h) = HashBuffer ops data h;
               chunk = ChunkRecord_init\<lparr>chunk_offset := offset, chunk_size := word_of_nat (length data),
                 chunk_index := index, chunk_hash := hash\<rparr>;
               chunks = chunks @ [chunk];
               file_hasher = Update ops data file_hasher
           in if length data < csize then (chunks, h, file_hasher)
              else ReadChunks ops csize (drop csize input) h file_hasher
                     (offset + word_of_nat (length data)) (index + 1) chunks)"
  by pat_completeness auto
termination
  by (relation "measure (\<lambda>(ops, csize, input, h, fh, offset, index, chunks). length input)") auto

declare ReadChunks.simps [simp del]

definition BuildFileRecord ::
  "'h IHasher \<Rightarrow> 'h Chunker \<Rightarrow> FileSystem \<Rightarrow> path \<Rightarrow> path \<Rightarrow> (FileRecord \<times> 'h Chunker) result" where
  "BuildFileRecord ops chunker fs file_path root_path =
     (let absolute_path = lexically_normal file_path;
          relative_path = lexically_normal (path_relative file_path root_path)
      in bind_result (file_size_of fs file_path) (\<lambda>size.
         bind_result (last_write_time fs file_path) (\<lambda>modified.
           case open_read fs file_path of
             None \<Rightarrow> throw (RuntimeError (''failed to open file for chunking: '' @ absolute_path))
           | Some input \<Rightarrow>
               let file_hasher = Reset ops (Clone ops (chunker_hasher chunker));
                   (chunks, h, file_hasher) =
                     ReadChunks ops (chunker_chunk_size chunker) input (chunker_hasher chunker)
                       file_hasher 0 0 [];
                   root_hash = FinalHex ops file_hasher
               in Inr (\<lparr>file_file_id = root_hash, file_relative_path = relative_path,
                        file_absolute_path = absolute_path, file_size = size,
                        file_modified_time_epoch = modified, file_mode = 0,
                        file_root_hash = root_hash, file_status = FileReady,
                        file_chunks = map (\<lambda>c. c\<lparr>chunk_file_id := root_hash\<rparr>) chunks\<rparr>,
                       chunker\<lparr>chunker_hasher := h\<rparr>))))"

section \<open>Reading a chunk back\<close>

text \<open>A negative file offset, which a value from \<open>2^63\<close> on becomes, makes the seek fail.\<close>

definition ReadAndVerify ::
  "'h IHasher \<Rightarrow> 'h \<Rightarrow> FileSystem \<Rightarrow> path \<Rightarrow> ChunkManifestEntry \<Rightarrow> bytes result" where
  "ReadAndVerify ops h fs file_path chunk =
     (case open_read fs file_path of
        None \<Rightarrow> throw (RuntimeError (''failed to open file for chunk read: '' @ file_path))
      | Some content \<Rightarrow>
          if 2 ^ 63 \<le> unat (mchunk_offset chunk) then
            throw (RuntimeError (''failed to seek file for chunk read: '' @ file_path))
          else
            let data = take (unat (mchunk_size chunk)) (drop (unat (mchunk_offset chunk)) content)
            in if length data \<noteq> unat (mchunk_size chunk) then
                 throw (RuntimeError (''short read while loading chunk from: '' @ file_path))
               else
                 let hasher = Reset ops (Clone ops h);
                     hasher = (if data \<noteq> [] then Update ops data hasher else hasher)
                 in if FinalHex ops hasher \<noteq> mchunk_hash chunk then
                      throw (RuntimeError (''chunk hash mismatch while reading: '' @ file_path))
                    else Inr data)"

section \<open>The cut of a file\<close>

function slices :: "nat \<Rightarrow> bytes \<Rightarrow> bytes list" where
  "slices c data = (if c = 0 \<or> data = [] then [] else take c data # slices c (drop c data))"
  by pat_completeness auto
termination by (relation "measure (length \<circ> snd)") auto

declare slices.simps [simp del]

lemma slices_Nil [simp]: "slices c [] = []"
  by (simp add: slices.simps)

lemma slices_step: "0 < c \<Longrightarrow> data \<noteq> [] \<Longrightarrow> slices c data = take c data # slices c (drop c data)"
  by (subst slices.simps) simp

lemma concat_slices: "0 < c \<Longrightarrow> concat (slices c data) = data"
proof (induction c data rule: slices.induct)
  case (1 c data)
  then show ?case by (cases "data = []") (simp_all add: slices_step)
qed

lemma length_in_slices: "bs \<in> set (slices c data) \<Longrightarrow> bs \<noteq> [] \<and> length bs \<le> c"
proof (induction c data rule: slices.induct)
  case (1 c data)
  then show ?case by (cases "c = 0 \<or> data = []") (auto simp: slices.simps [of c data])
qed

lemma slices_nth:
  "0 < c \<Longrightarrow> i < length (slices c data) \<Longrightarrow> slices c data ! i = take c (drop (i * c) data)"
proof (induction c data arbitrary: i rule: slices.induct)
  case (1 c data)
  then have ne: "data \<noteq> []" by auto
  show ?case
  proof (cases i)
    case 0
    then show ?thesis using 1 ne by (simp add: slices_step)
  next
    case (Suc j)
    then show ?thesis using 1 ne by (simp add: slices_step add.commute)
  qed
qed

lemma slices_offset: "0 < c \<Longrightarrow> i < length (slices c data) \<Longrightarrow> i * c < length data"
proof (induction c data arbitrary: i rule: slices.induct)
  case (1 c data)
  then have ne: "data \<noteq> []" by auto
  show ?case
  proof (cases i)
    case (Suc j)
    then have "j * c < length (drop c data)" using 1 ne by (simp add: slices_step)
    then show ?thesis using Suc by simp
  qed (use ne in simp)
qed

lemma length_slices_le: "length (slices c data) \<le> length data"
proof (induction c data rule: slices.induct)
  case (1 c data)
  then show ?case by (cases "c = 0 \<or> data = []") (auto simp: slices.simps [of c data] neq_Nil_conv)
qed

text \<open>The chunk records the cut should have: the \<open>i\<close>-th piece at offset \<open>i * c\<close>.\<close>

definition cut_chunk :: "(bytes \<Rightarrow> string) \<Rightarrow> string \<Rightarrow> nat \<Rightarrow> nat \<Rightarrow> bytes \<Rightarrow> ChunkRecord" where
  "cut_chunk digest file_id c i piece = \<lparr>chunk_file_id = file_id, chunk_index = word_of_nat i,
     chunk_offset = word_of_nat (i * c), chunk_size = word_of_nat (length piece),
     chunk_hash = digest piece\<rparr>"

fun cut_chunks :: "(bytes \<Rightarrow> string) \<Rightarrow> string \<Rightarrow> nat \<Rightarrow> nat \<Rightarrow> bytes list \<Rightarrow> ChunkRecord list" where
  "cut_chunks digest file_id c i [] = []"
| "cut_chunks digest file_id c i (s # ss) =
     cut_chunk digest file_id c i s # cut_chunks digest file_id c (Suc i) ss"

lemma length_cut_chunks [simp]: "length (cut_chunks d f c i ss) = length ss"
  by (induction ss arbitrary: i) simp_all

lemma nth_cut_chunks: "j < length ss \<Longrightarrow> cut_chunks d f c i ss ! j = cut_chunk d f c (i + j) (ss ! j)"
  by (induction ss arbitrary: i j) (auto simp: nth_Cons split: nat.splits)

lemma cut_chunks_file_id:
  "map (\<lambda>k. k\<lparr>chunk_file_id := f\<rparr>) (cut_chunks d g c i ss) = cut_chunks d f c i ss"
  by (induction ss arbitrary: i) (simp_all add: cut_chunk_def)

context hasher
begin

lemma HashBuffer_digest:
  assumes "repr h m" and "length data \<le> limit"
  shows "fst (HashBuffer ops data h) = digest data" and "repr (snd (HashBuffer ops data h)) data"
proof -
  have "repr (Update ops data (Reset ops h)) ([] @ data)"
    by (rule repr_update [OF repr_reset [OF assms(1)] assms(2)])
  then show "fst (HashBuffer ops data h) = digest data" "repr (snd (HashBuffer ops data h)) data"
    by (simp_all add: HashBuffer_def Let_def final_digest)
qed

lemma ReadChunks_cut:
  assumes "0 < c" and "c \<le> limit"
  shows "repr h m \<Longrightarrow> repr fh n \<Longrightarrow> \<exists>h' m' fh'.
    ReadChunks ops c input h fh (word_of_nat (i * c)) (word_of_nat i) chunks =
      (chunks @ cut_chunks digest [] c i (slices c input), h', fh') \<and> repr h' m' \<and> repr fh' (n @ input)"
proof (induction "length input" arbitrary: input h m fh n i chunks rule: less_induct)
  case less
  show ?case
  proof (cases "input = []")
    case True
    then show ?thesis using less.prems by (auto simp: ReadChunks.simps)
  next
    case False
    let ?data = "take c input"
    have ne: "?data \<noteq> []" and lim: "length ?data \<le> limit" using False assms by auto
    obtain hash h1 where hb: "HashBuffer ops ?data h = (hash, h1)" by (cases "HashBuffer ops ?data h")
    then have hash: "hash = digest ?data" and h1: "repr h1 ?data"
      using HashBuffer_digest [OF less.prems(1) lim] by simp_all
    have fh1: "repr (Update ops ?data fh) (n @ ?data)" by (rule repr_update [OF less.prems(2) lim])
    let ?chunk = "cut_chunk digest [] c i ?data"
    have chunk: "ChunkRecord_init\<lparr>chunk_offset := word_of_nat (i * c), chunk_size := word_of_nat (length ?data),
        chunk_index := word_of_nat i, chunk_hash := hash\<rparr> = ?chunk"
      by (simp add: ChunkRecord_init_def cut_chunk_def hash)
    show ?thesis
    proof (cases "length ?data < c")
      case True
      then have all: "?data = input" "drop c input = []" by auto
      then have "ReadChunks ops c input h fh (word_of_nat (i * c)) (word_of_nat i) chunks =
          (chunks @ [?chunk], h1, Update ops ?data fh)"
        using True ne by (subst ReadChunks.simps) (simp add: Let_def hb [unfolded all(1)] all(1) cut_chunk_def ChunkRecord_init_def hash [unfolded all(1)])
      then show ?thesis
        using h1 fh1 all False assms(1) by (auto simp: slices_step)
    next
      case full: False
      then have len: "length ?data = c" by simp
      have "(word_of_nat (i * c) :: u64) + word_of_nat (length ?data) = word_of_nat (Suc i * c)"
        by (simp only: len) (simp add: algebra_simps)
      then have step: "ReadChunks ops c input h fh (word_of_nat (i * c)) (word_of_nat i) chunks =
          ReadChunks ops c (drop c input) h1 (Update ops ?data fh) (word_of_nat (Suc i * c))
            (word_of_nat (Suc i)) (chunks @ [?chunk])"
        using full ne chunk
        by (subst ReadChunks.simps) (simp add: Let_def hb add.commute del: take_eq_Nil)
      have "length (drop c input) < length input" using False assms(1) by simp
      from less.hyps [OF this h1 fh1, of "Suc i" "chunks @ [?chunk]"]
      show ?thesis
        unfolding step using False assms(1) by (auto simp: slices_step)
    qed
  qed
qed

definition cut_file :: "path \<Rightarrow> path \<Rightarrow> nat \<Rightarrow> bytes \<Rightarrow> u64 \<Rightarrow> FileRecord" where
  "cut_file file_path root_path c data modified =
     \<lparr>file_file_id = digest data,
      file_relative_path = lexically_normal (path_relative file_path root_path),
      file_absolute_path = lexically_normal file_path,
      file_size = word_of_nat (length data), file_modified_time_epoch = modified, file_mode = 0,
      file_root_hash = digest data, file_status = FileReady,
      file_chunks = cut_chunks digest (digest data) c 0 (slices c data)\<rparr>"

lemma BuildFileRecord_cut:
  assumes h: "repr (chunker_hasher chunker) m" and c: "c = chunker_chunk_size chunker" "0 < c" "c \<le> limit"
    and opened: "open_read fs p = Some data"
  shows "\<exists>t h' m'. entry_at fs p = Some (RegularFile data t) \<and> repr h' m' \<and>
    BuildFileRecord ops chunker fs p root =
      Inr (cut_file p root c data t, chunker\<lparr>chunker_hasher := h'\<rparr>)"
proof -
  obtain t where e: "entry_at fs p = Some (RegularFile data t)"
    using opened by (auto simp: open_read_eq)
  have fresh: "repr (Reset ops (Clone ops (chunker_hasher chunker))) []"
    by (rule repr_reset [OF repr_clone])
  obtain h' m' fh' where r: "ReadChunks ops c data (chunker_hasher chunker)
      (Reset ops (Clone ops (chunker_hasher chunker))) 0 0 [] =
        (cut_chunks digest [] c 0 (slices c data), h', fh')" and h': "repr h' m'" and fh': "repr fh' data"
    using ReadChunks_cut [OF c(2,3) h fresh, of data 0 "[]"] by auto
  have "BuildFileRecord ops chunker fs p root =
      Inr (cut_file p root c data t, chunker\<lparr>chunker_hasher := h'\<rparr>)"
    using r by (simp add: BuildFileRecord_def Let_def file_size_of_def last_write_time_def e opened cut_file_def
        final_digest [OF fh'] cut_chunks_file_id flip: c(1))
  then show ?thesis using e h' by blast
qed

lemma ReadAndVerify_Inr:
  assumes "ReadAndVerify ops h fs p chunk = Inr data"
  shows "\<exists>content. open_read fs p = Some content \<and>
      unat (mchunk_offset chunk) + length data \<le> length content + (if data = [] then unat (mchunk_offset chunk) else 0) \<and>
      data = take (unat (mchunk_size chunk)) (drop (unat (mchunk_offset chunk)) content) \<and>
      length data = unat (mchunk_size chunk) \<and>
      (length data \<le> limit \<longrightarrow> digest data = mchunk_hash chunk)"
proof -
  obtain content where content: "open_read fs p = Some content"
    and data: "data = take (unat (mchunk_size chunk)) (drop (unat (mchunk_offset chunk)) content)"
    and len: "length data = unat (mchunk_size chunk)"
    and hash: "FinalHex ops (if data \<noteq> [] then Update ops data (Reset ops (Clone ops h))
       else Reset ops (Clone ops h)) = mchunk_hash chunk"
    using assms unfolding ReadAndVerify_def by (auto simp: Let_def split: option.splits if_splits)
  have "digest data = mchunk_hash chunk" if "length data \<le> limit"
  proof -
    have fresh: "repr (Reset ops (Clone ops h)) []" by (rule repr_reset [OF repr_clone])
    then show ?thesis
      using hash final_digest [OF fresh] final_digest [OF repr_update [OF fresh that]]
      by (simp split: if_splits)
  qed
  moreover have "unat (mchunk_offset chunk) + length data \<le> length content" if "data \<noteq> []"
    using that unfolding data by auto
  ultimately show ?thesis using content data len by auto
qed

lemma ReadAndVerify_ok:
  assumes "open_read fs p = Some content" and "unat (mchunk_offset chunk) < 2 ^ 63"
    and "data = take (unat (mchunk_size chunk)) (drop (unat (mchunk_offset chunk)) content)"
    and "length data = unat (mchunk_size chunk)" and "length data \<le> limit"
    and "digest data = mchunk_hash chunk"
  shows "ReadAndVerify ops h fs p chunk = Inr data"
proof -
  have fresh: "repr (Reset ops (Clone ops h)) []" by (rule repr_reset [OF repr_clone])
  have "FinalHex ops (if data \<noteq> [] then Update ops data (Reset ops (Clone ops h))
       else Reset ops (Clone ops h)) = mchunk_hash chunk"
    using final_digest [OF fresh] final_digest [OF repr_update [OF fresh assms(5)]] assms(6) by auto
  then show ?thesis
    using assms(1,2,4) unfolding ReadAndVerify_def
    by (simp add: Let_def not_le flip: assms(3))
qed

end

section \<open>Properties of the MD5 instance\<close>

text \<open>
  The chunk size of every program is at most 4 MiB; the law of the MD5 hasher allows pieces of up to
  \<open>2^32 - 64\<close> bytes.
\<close>

text \<open>
  C33: Chunking describes the file exactly. For a readable file, \<open>BuildFileRecord\<close> returns a record whose
  chunks are the consecutive pieces of the file, numbered from 0 and placed at multiples of the chunk
  size, each with its own length and MD5; the pieces put together are the file; the root hash and the
  file id are the MD5 of the whole file and so do not depend on the chunk size.
\<close>

theorem chunker_describes_file:
  assumes "open_read fs p = Some data" and "md5_repr (chunker_hasher chunker) m"
    and "0 < chunker_chunk_size chunker" and "chunker_chunk_size chunker \<le> 2 ^ 32 - 64"
  shows "\<exists>f h'. BuildFileRecord Md5Hasher chunker fs p root = Inr (f, chunker\<lparr>chunker_hasher := h'\<rparr>) \<and>
    file_root_hash f = md5_hex data \<and> file_file_id f = md5_hex data \<and>
    file_size f = word_of_nat (length data) \<and>
    (let c = chunker_chunk_size chunker; ss = slices c data
     in concat ss = data \<and> length (file_chunks f) = length ss \<and>
       (\<forall>i < length ss. ss ! i = take c (drop (i * c) data) \<and> ss ! i \<noteq> [] \<and>
          file_chunks f ! i = \<lparr>chunk_file_id = md5_hex data, chunk_index = word_of_nat i,
            chunk_offset = word_of_nat (i * c), chunk_size = word_of_nat (length (ss ! i)),
            chunk_hash = md5_hex (ss ! i)\<rparr>))"
proof -
  let ?c = "chunker_chunk_size chunker"
  let ?ss = "slices ?c data"
  obtain t h' where build: "BuildFileRecord Md5Hasher chunker fs p root =
      Inr (md5.cut_file p root ?c data t, chunker\<lparr>chunker_hasher := h'\<rparr>)"
    using md5.BuildFileRecord_cut [OF assms(2) refl assms(3,4,1)] by blast
  have ne: "?ss ! i \<noteq> []" if "i < length ?ss" for i
    using length_in_slices [OF nth_mem [OF that]] by simp
  show ?thesis
    unfolding build Let_def
    by (rule exI [of _ "md5.cut_file p root ?c data t"], rule exI [of _ h'])
      (auto simp: md5.cut_file_def concat_slices [OF assms(3)] nth_cut_chunks cut_chunk_def
        simp flip: slices_nth [OF assms(3)] dest: ne)
qed

theorem chunker_describes_file_witness:
  "\<exists>f h'. BuildFileRecord Md5Hasher \<lparr>chunker_chunk_size = 2, chunker_hasher = Md5Hasher_new\<rparr>
       sample_fs ''d/f'' ''d'' = Inr (f, \<lparr>chunker_chunk_size = 2, chunker_hasher = h'\<rparr>) \<and>
     file_root_hash f = md5_hex [1, 2, 3]"
  using chunker_describes_file [OF sample_fs_read(1),
      of "\<lparr>chunker_chunk_size = 2, chunker_hasher = Md5Hasher_new\<rparr>" "[]" "''d''"] md5_repr_new
  by (auto simp: Let_def)

end
