(* ===== verification/Sync_Diff.thy ===== *)
theory Sync_Diff
  imports Metadata_Store Sync_Chunks
begin

text \<open>
  \<^verbatim>\<open>src/sync/diff_engine.cpp\<close>: the manifest of a list of files, and the comparison of a remote manifest
  with the local metadata that decides which chunks to request.
\<close>

section \<open>Manifests\<close>

definition ToManifestEntry :: "FileRecord \<Rightarrow> ManifestEntry" where
  "ToManifestEntry f =
     \<lparr>mentry_file_id = file_file_id f, mentry_relative_path = file_relative_path f,
      mentry_root_hash = file_root_hash f, mentry_size = file_size f,
      mentry_modified_time_epoch = file_modified_time_epoch f,
      mentry_chunk_count = word_of_nat (length (file_chunks f))\<rparr>"

definition ToChunkManifestEntry :: "ChunkRecord \<Rightarrow> ChunkManifestEntry" where
  "ToChunkManifestEntry c =
     \<lparr>mchunk_index = chunk_index c, mchunk_offset = chunk_offset c, mchunk_size = chunk_size c,
      mchunk_hash = chunk_hash c\<rparr>"

text \<open>\<open>emplace\<close> into an unordered map keeps the first chunk of an index.\<close>

definition BuildChunkIndex :: "FileRecord \<Rightarrow> u32 \<rightharpoonup> ChunkRecord" where
  "BuildChunkIndex f =
     foldl (\<lambda>m c. if m (chunk_index c) = None then m(chunk_index c \<mapsto> c) else m) Map.empty (file_chunks f)"

definition BuildManifest :: "FileRecord list \<Rightarrow> ManifestFile list" where
  "BuildManifest files =
     foldl (\<lambda>manifest f. manifest @
       [\<lparr>mfile_summary = ToManifestEntry f,
         mfile_chunks = foldl (\<lambda>cs c. cs @ [ToChunkManifestEntry c]) [] (file_chunks f)\<rparr>]) [] files"

section \<open>Comparison\<close>

record DiffResult =
  identical_files :: "ManifestEntry list"
  missing_files :: "ManifestEntry list"
  chunk_requests :: "MissingChunksRequest list"

definition request_for :: "ManifestFile \<Rightarrow> ChunkManifestEntry list \<Rightarrow> MissingChunksRequest" where
  "request_for remote chunks =
     \<lparr>request_file_id = mentry_file_id (mfile_summary remote),
      request_relative_path = mentry_relative_path (mfile_summary remote),
      request_expected_root_hash = mentry_root_hash (mfile_summary remote),
      request_missing_chunks = chunks\<rparr>"

definition chunk_differs :: "(u32 \<rightharpoonup> ChunkRecord) \<Rightarrow> ChunkManifestEntry \<Rightarrow> bool" where
  "chunk_differs local_chunks remote_chunk \<longleftrightarrow>
     (case local_chunks (mchunk_index remote_chunk) of
        None \<Rightarrow> True
      | Some c \<Rightarrow> chunk_hash c \<noteq> mchunk_hash remote_chunk \<or> chunk_size c \<noteq> mchunk_size remote_chunk)"

text \<open>The body of the loop over the remote manifest.\<close>

definition CompareFile :: "(string \<rightharpoonup> FileRecord) \<Rightarrow> DiffResult \<Rightarrow> ManifestFile \<Rightarrow> DiffResult" where
  "CompareFile local_by_relative_path result remote =
     (case local_by_relative_path (mentry_relative_path (mfile_summary remote)) of
        None \<Rightarrow>
          result\<lparr>missing_files := missing_files result @ [mfile_summary remote],
                 chunk_requests := chunk_requests result @ [request_for remote (mfile_chunks remote)]\<rparr>
      | Some local_file \<Rightarrow>
          if file_root_hash local_file = mentry_root_hash (mfile_summary remote) then
            result\<lparr>identical_files := identical_files result @ [mfile_summary remote]\<rparr>
          else
            let local_chunks = BuildChunkIndex local_file;
                missing = filter (chunk_differs local_chunks) (mfile_chunks remote)
            in if missing \<noteq> [] then
                 result\<lparr>chunk_requests := chunk_requests result @ [request_for remote missing]\<rparr>
               else
                 result\<lparr>chunk_requests := chunk_requests result @
                   [request_for remote (mfile_chunks remote)]\<rparr>)"

definition local_by_relative_path :: "MetadataStore \<Rightarrow> string \<rightharpoonup> FileRecord" where
  "local_by_relative_path local_store =
     foldl (\<lambda>m f. if m (file_relative_path f) = None then m(file_relative_path f \<mapsto> f) else m)
       Map.empty (ListFiles local_store)"

definition Compare :: "MetadataStore \<Rightarrow> ManifestFile list \<Rightarrow> DiffResult" where
  "Compare local_store remote_manifest =
     foldl (CompareFile (local_by_relative_path local_store))
       \<lparr>identical_files = [], missing_files = [], chunk_requests = []\<rparr> remote_manifest"

section \<open>Lemmas\<close>

lemma foldl_snoc: "foldl (\<lambda>ys x. ys @ [f x]) acc xs = acc @ map f xs"
  by (induction xs arbitrary: acc) simp_all

lemma BuildManifest_map:
  "BuildManifest files =
     map (\<lambda>f. \<lparr>mfile_summary = ToManifestEntry f, mfile_chunks = map ToChunkManifestEntry (file_chunks f)\<rparr>) files"
  by (simp add: BuildManifest_def foldl_snoc)

lemma emplace_find:
  "foldl (\<lambda>m x. if m (key x) = None then m(key x \<mapsto> x) else m) m0 xs k =
     (case m0 k of Some y \<Rightarrow> Some y | None \<Rightarrow> find (\<lambda>x. key x = k) xs)"
  by (induction xs arbitrary: m0) (auto split: option.splits)

lemma BuildChunkIndex_find: "BuildChunkIndex f k = find (\<lambda>c. chunk_index c = k) (file_chunks f)"
  by (simp add: BuildChunkIndex_def emplace_find)

lemma local_by_relative_path_find:
  "local_by_relative_path db p = find (\<lambda>f. file_relative_path f = p) (ListFiles db)"
  by (simp add: local_by_relative_path_def emplace_find)

text \<open>What the comparison decides for one remote file.\<close>

definition local_of :: "MetadataStore \<Rightarrow> ManifestFile \<Rightarrow> FileRecord option" where
  "local_of db r = find (\<lambda>f. file_relative_path f = mentry_relative_path (mfile_summary r)) (ListFiles db)"

definition is_identical :: "MetadataStore \<Rightarrow> ManifestFile \<Rightarrow> bool" where
  "is_identical db r \<longleftrightarrow>
     (case local_of db r of None \<Rightarrow> False | Some f \<Rightarrow> file_root_hash f = mentry_root_hash (mfile_summary r))"

definition needed_chunks :: "MetadataStore \<Rightarrow> ManifestFile \<Rightarrow> ChunkManifestEntry list" where
  "needed_chunks db r =
     (case local_of db r of
        None \<Rightarrow> mfile_chunks r
      | Some f \<Rightarrow>
          (let missing = filter (chunk_differs (BuildChunkIndex f)) (mfile_chunks r)
           in if missing = [] then mfile_chunks r else missing))"

lemma CompareFile_decides:
  "CompareFile (local_by_relative_path db) d r =
     (if is_identical db r then d\<lparr>identical_files := identical_files d @ [mfile_summary r]\<rparr>
      else d\<lparr>missing_files := missing_files d @ (if local_of db r = None then [mfile_summary r] else []),
             chunk_requests := chunk_requests d @ [request_for r (needed_chunks db r)]\<rparr>)"
  by (cases "local_of db r")
    (simp_all add: CompareFile_def is_identical_def needed_chunks_def Let_def
      local_by_relative_path_find flip: local_of_def)

lemma foldl_CompareFile:
  "foldl (CompareFile (local_by_relative_path db)) d rs =
     \<lparr>identical_files = identical_files d @ map mfile_summary (filter (is_identical db) rs),
      missing_files = missing_files d @ map mfile_summary (filter (\<lambda>r. local_of db r = None) rs),
      chunk_requests = chunk_requests d @
        map (\<lambda>r. request_for r (needed_chunks db r)) (filter (\<lambda>r. \<not> is_identical db r) rs)\<rparr>"
proof (induction rs arbitrary: d)
  case (Cons r rs)
  have "is_identical db r \<Longrightarrow> local_of db r \<noteq> None" by (auto simp: is_identical_def split: option.splits)
  then show ?case
    unfolding foldl_Cons Cons.IH by (auto simp: CompareFile_decides)
qed simp

lemma Compare_decides:
  "Compare db rs =
     \<lparr>identical_files = map mfile_summary (filter (is_identical db) rs),
      missing_files = map mfile_summary (filter (\<lambda>r. local_of db r = None) rs),
      chunk_requests =
        map (\<lambda>r. request_for r (needed_chunks db r)) (filter (\<lambda>r. \<not> is_identical db r) rs)\<rparr>"
  by (simp add: Compare_def foldl_CompareFile)

lemma needed_subset: "set (needed_chunks db r) \<subseteq> set (mfile_chunks r)"
  by (auto simp: needed_chunks_def Let_def split: option.splits if_splits)

lemma needed_nonempty: "mfile_chunks r \<noteq> [] \<Longrightarrow> needed_chunks db r \<noteq> []"
  by (auto simp: needed_chunks_def Let_def split: option.splits)

lemma not_needed_present:
  assumes "c \<in> set (mfile_chunks r)" and "c \<notin> set (needed_chunks db r)"
  shows "\<exists>f lc. local_of db r = Some f \<and> BuildChunkIndex f (mchunk_index c) = Some lc \<and>
    chunk_hash lc = mchunk_hash c \<and> chunk_size lc = mchunk_size c"
  using assms by (auto simp: needed_chunks_def Let_def chunk_differs_def split: option.splits if_splits)

section \<open>Properties\<close>

text \<open>
  Every remote file gets exactly one verdict. The files reported identical are, in manifest order,
  those whose path is known locally with the same root hash; those reported missing are the ones whose
  path is unknown; and there is one chunk request, in manifest order, for every file that is not
  identical, naming its id, path and expected root hash.
\<close>

lemma compare_verdicts:
  "let d = Compare db manifest;
       known = (\<lambda>r. find (\<lambda>f. file_relative_path f = mentry_relative_path (mfile_summary r)) (ListFiles db));
       same = (\<lambda>r. map_option file_root_hash (known r) = Some (mentry_root_hash (mfile_summary r)))
   in identical_files d = map mfile_summary (filter same manifest) \<and>
      missing_files d = map mfile_summary (filter (\<lambda>r. known r = None) manifest) \<and>
      map (\<lambda>q. (request_file_id q, request_relative_path q, request_expected_root_hash q)) (chunk_requests d) =
        map (\<lambda>r. (mentry_file_id (mfile_summary r), mentry_relative_path (mfile_summary r),
               mentry_root_hash (mfile_summary r))) (filter (\<lambda>r. \<not> same r) manifest) \<and>
      length (identical_files d) + length (chunk_requests d) = length manifest"
proof -
  have "map_option file_root_hash (local_of db r) = Some (mentry_root_hash (mfile_summary r)) \<longleftrightarrow>
      is_identical db r" for r
    by (cases "local_of db r") (simp_all add: is_identical_def)
  moreover have "length (filter P xs) + length (filter (\<lambda>x. \<not> P x) xs) = length xs"
    for P and xs :: "ManifestFile list"
    by (induction xs) auto
  ultimately show ?thesis
    by (simp add: Compare_decides Let_def request_for_def comp_def del: map_option_eq_Some
        flip: local_of_def)
qed



section \<open>Reading the chunks of a manifest back\<close>

context hasher
begin

lemma read_back_cut:
  assumes opened: "open_read fs p = Some data" and c: "0 < c" "c \<le> limit" "limit < 2 ^ 64"
    and size: "length data < 2 ^ 63" and i: "i < length (slices c data)"
  shows "ReadAndVerify ops h fs p (ToChunkManifestEntry (cut_chunk digest f c i (slices c data ! i))) =
    Inr (slices c data ! i)"
proof -
  let ?s = "slices c data ! i"
  have len: "length ?s \<le> c" using length_in_slices [OF nth_mem [OF i]] by simp
  have off: "i * c < 2 ^ 63" using slices_offset [OF c(1) i] size by linarith
  then have off': "unat (word_of_nat (i * c) :: u64) = i * c"
    by (simp add: unsigned_of_nat take_bit_nat_eq_self del: of_nat_mult)
  have size': "unat (word_of_nat (length ?s) :: u64) = length ?s"
    using len c(2,3) by (simp add: unsigned_of_nat take_bit_nat_eq_self)
  have "?s = take (length ?s) (drop (i * c) data)"
    by (simp add: slices_nth [OF c(1) i] min_def)
  then show ?thesis
    using opened off len c(2) off' size'
    by (intro ReadAndVerify_ok) (simp_all add: ToChunkManifestEntry_def cut_chunk_def del: of_nat_mult)
qed

end

text \<open>
  The chunks of a manifest can be served. For every chunk that \<open>BuildFileRecord\<close> recorded for a file
  and \<open>BuildManifest\<close> announced, reading it back from the unchanged file passes the hash check, and the
  pieces read in order are the file.
\<close>

lemma manifest_chunks_read_back:
  assumes "open_read fs p = Some data" and "length data < 2 ^ 63" and "md5_repr (chunker_hasher chunker) m"
    and "0 < chunker_chunk_size chunker" and "chunker_chunk_size chunker \<le> 2 ^ 32 - 64"
    and "BuildFileRecord Md5Hasher chunker fs p root = Inr (f, chunker')"
  shows "\<exists>pieces. concat pieces = data \<and>
    map (ReadAndVerify Md5Hasher h fs p) (mfile_chunks (hd (BuildManifest [f]))) = map Inr pieces"
proof -
  let ?c = "chunker_chunk_size chunker"
  let ?ss = "slices ?c data"
  obtain t where f: "f = md5.cut_file p root ?c data t"
    using md5.BuildFileRecord_cut [OF assms(3) refl assms(4,5,1), of root] assms(6) by auto
  have chunks: "mfile_chunks (hd (BuildManifest [f])) =
      map ToChunkManifestEntry (cut_chunks md5_hex (md5_hex data) ?c 0 ?ss)"
    by (simp add: BuildManifest_map f md5.cut_file_def)
  have "map (ReadAndVerify Md5Hasher h fs p) (mfile_chunks (hd (BuildManifest [f]))) = map Inr ?ss"
    unfolding chunks
    by (rule nth_equalityI)
      (simp_all add: nth_cut_chunks md5.read_back_cut [OF assms(1,4,5) _ assms(2)])
  then show ?thesis using concat_slices [OF assms(4), of data] by blast
qed

lemma manifest_chunks_read_back_example:
  "\<exists>f chunker' pieces. BuildFileRecord Md5Hasher \<lparr>chunker_chunk_size = 2, chunker_hasher = Md5Hasher_new\<rparr>
       sample_fs ''d/f'' ''d'' = Inr (f, chunker') \<and> concat pieces = [1, 2, 3] \<and>
     map (ReadAndVerify Md5Hasher Md5Hasher_new sample_fs ''d/f'') (mfile_chunks (hd (BuildManifest [f]))) =
       map Inr pieces"
proof -
  let ?ck = "\<lparr>chunker_chunk_size = 2, chunker_hasher = Md5Hasher_new\<rparr>"
  have h: "md5_repr (chunker_hasher ?ck) []" by (simp add: md5_repr_new)
  obtain f ck' where b: "BuildFileRecord Md5Hasher ?ck sample_fs ''d/f'' ''d'' = Inr (f, ck')"
    using md5.BuildFileRecord_cut [OF h refl _ _ sample_fs_read(1), of "''d''"] by auto
  from manifest_chunks_read_back [OF sample_fs_read(1) _ h _ _ b, of Md5Hasher_new] b
  show ?thesis by auto
qed

end
