(* ===== verification/Sync_Writer.thy ===== *)
theory Sync_Writer
  imports Md5_Hash File_System
begin

text \<open>
  \<^verbatim>\<open>src/sync/sync_writer.cpp\<close>: a file is received into \<^verbatim>\<open><final>.part\<close> and renamed to its final name only
  after the hash of everything written equals the expected root hash. Every operation returns its
  result, the writer and the file system, also when it throws, because the caller keeps using both.
\<close>

record 'h SyncWriter =
  writer_hasher :: 'h
  writer_final_path :: path
  writer_temp_path :: path
  writer_active :: bool
  writer_bytes_written :: u64

definition SyncWriter_new :: "'h \<Rightarrow> 'h SyncWriter" where
  "SyncWriter_new h = \<lparr>writer_hasher = h, writer_final_path = [], writer_temp_path = [],
     writer_active = False, writer_bytes_written = 0\<rparr>"

type_synonym ('a, 'h) writer_result = "'a result \<times> 'h SyncWriter \<times> FileSystem"

definition Writer_Begin ::
  "'h IHasher \<Rightarrow> path \<Rightarrow> 'h SyncWriter \<Rightarrow> FileSystem \<Rightarrow> (path, 'h) writer_result" where
  "Writer_Begin ops final_path w fs =
     (let w = w\<lparr>writer_final_path := final_path, writer_temp_path := final_path @ ''.part''\<rparr>
      in case create_directories (parent_path final_path) fs of
           Inl e \<Rightarrow> (Inl e, w, fs)
         | Inr fs \<Rightarrow>
             (case open_trunc (writer_temp_path w) fs of
                None \<Rightarrow>
                  (throw (RuntimeError (''failed to create temp sync file: '' @ writer_temp_path w)), w, fs)
              | Some fs \<Rightarrow>
                  let w = w\<lparr>writer_hasher := Reset ops (writer_hasher w), writer_active := True,
                    writer_bytes_written := 0\<rparr>
                  in (Inr (writer_temp_path w), w, fs)))"

text \<open>The loop that feeds the kept part file to the hasher, one buffer of 1 MiB per round.\<close>

function ReadBack :: "'h IHasher \<Rightarrow> bytes \<Rightarrow> 'h SyncWriter \<Rightarrow> 'h SyncWriter" where
  "ReadBack ops input w =
     (let buffer = take (1024 * 1024) input
      in if buffer = [] then w
         else
           let w = w\<lparr>writer_hasher := Update ops buffer (writer_hasher w),
             writer_bytes_written := writer_bytes_written w + word_of_nat (length buffer)\<rparr>
           in if length buffer < 1024 * 1024 then w else ReadBack ops (drop (1024 * 1024) input) w)"
  by pat_completeness auto
termination by (relation "measure (\<lambda>(ops, input, w). length input)") auto

declare ReadBack.simps [simp del]

definition Writer_Resume ::
  "'h IHasher \<Rightarrow> path \<Rightarrow> 'h SyncWriter \<Rightarrow> FileSystem \<Rightarrow> (path, 'h) writer_result" where
  "Writer_Resume ops final_path w fs =
     (let w = w\<lparr>writer_final_path := final_path, writer_temp_path := final_path @ ''.part''\<rparr>
      in case create_directories (parent_path final_path) fs of
           Inl e \<Rightarrow> (Inl e, w, fs)
         | Inr fs \<Rightarrow>
             let w = w\<lparr>writer_hasher := Reset ops (writer_hasher w), writer_bytes_written := 0\<rparr>
             in if \<not> fs_exists fs (writer_temp_path w) then Writer_Begin ops (writer_final_path w) w fs
                else (case open_read fs (writer_temp_path w) of
                  None \<Rightarrow>
                    (throw (RuntimeError (''failed to resume temp sync file: '' @ writer_temp_path w)), w, fs)
                | Some input \<Rightarrow>
                    let w = (ReadBack ops input w)\<lparr>writer_active := True\<rparr>
                    in (Inr (writer_temp_path w), w, fs)))"

definition Writer_Append ::
  "'h IHasher \<Rightarrow> bytes \<Rightarrow> 'h SyncWriter \<Rightarrow> FileSystem \<Rightarrow> (unit, 'h) writer_result" where
  "Writer_Append ops data w fs =
     (if \<not> writer_active w then (throw (RuntimeError ''sync writer not active''), w, fs)
      else case open_append (writer_temp_path w) fs of
        None \<Rightarrow> (throw (RuntimeError (''failed to append temp sync file: '' @ writer_temp_path w)), w, fs)
      | Some fs \<Rightarrow>
          let (good, fs) = write_end (writer_temp_path w) data fs
          in if \<not> good then
               (throw (RuntimeError (''failed to write temp sync file: '' @ writer_temp_path w)), w, fs)
             else if data \<noteq> [] then
               (Inr (), w\<lparr>writer_hasher := Update ops data (writer_hasher w),
                  writer_bytes_written := writer_bytes_written w + word_of_nat (length data)\<rparr>, fs)
             else (Inr (), w, fs))"

definition Writer_Abort :: "'h SyncWriter \<Rightarrow> FileSystem \<Rightarrow> 'h SyncWriter \<times> FileSystem" where
  "Writer_Abort w fs =
     (let fs = (if writer_temp_path w \<noteq> [] then remove_file (writer_temp_path w) fs else fs)
      in (w\<lparr>writer_active := False, writer_temp_path := [], writer_bytes_written := 0\<rparr>, fs))"

definition VerifyAndCommit ::
  "'h IHasher \<Rightarrow> string \<Rightarrow> 'h SyncWriter \<Rightarrow> FileSystem \<Rightarrow> bool \<times> 'h SyncWriter \<times> FileSystem" where
  "VerifyAndCommit ops expected_root_hash w fs =
     (if \<not> writer_active w then (False, w, fs)
      else if FinalHex ops (writer_hasher w) \<noteq> expected_root_hash then (False, Writer_Abort w fs)
      else case rename_file (writer_temp_path w) (writer_final_path w) fs of
        None \<Rightarrow> (False, Writer_Abort w fs)
      | Some fs \<Rightarrow>
          (True, w\<lparr>writer_active := False, writer_temp_path := [], writer_bytes_written := 0\<rparr>, fs))"

definition BytesWritten :: "'h SyncWriter \<Rightarrow> u64" where
  "BytesWritten w = writer_bytes_written w"

text \<open>Several appends in a row; the first failure stops.\<close>

fun append_all ::
  "'h IHasher \<Rightarrow> bytes list \<Rightarrow> 'h SyncWriter \<Rightarrow> FileSystem \<Rightarrow> (unit, 'h) writer_result" where
  "append_all ops [] w fs = (Inr (), w, fs)"
| "append_all ops (b # bs) w fs =
     (case Writer_Append ops b w fs of
        (Inl e, w, fs) \<Rightarrow> (Inl e, w, fs)
      | (Inr _, w, fs) \<Rightarrow> append_all ops bs w fs)"

section \<open>The invariant of an active writer\<close>

lemma entry_at_open_trunc:
  "open_trunc p fs = Some fs' \<Longrightarrow> snd (entry_key p) \<noteq> [] \<Longrightarrow>
     entry_at fs' p = Some (RegularFile [] (fs_now fs))"
  by (auto simp: open_trunc_def split: if_splits)

lemma open_trunc_other:
  "open_trunc p fs = Some fs' \<Longrightarrow> entry_key q \<noteq> entry_key p \<Longrightarrow> entry_at fs' q = entry_at fs q"
  by (auto simp: open_trunc_def entry_at_set_other split: if_splits)

context hasher
begin

text \<open>
  \<open>writing w fs p content\<close>: the writer is receiving the file \<open>p\<close>; the part file holds \<open>content\<close>, which is
  also what the hasher has seen and what the byte counter counts.
\<close>

definition writing :: "'h SyncWriter \<Rightarrow> FileSystem \<Rightarrow> path \<Rightarrow> bytes \<Rightarrow> bool" where
  "writing w fs p content \<longleftrightarrow>
     writer_active w \<and> writer_final_path w = p \<and> writer_temp_path w = p @ ''.part'' \<and>
     (\<exists>t. entry_at fs (p @ ''.part'') = Some (RegularFile content t)) \<and>
     repr (writer_hasher w) content \<and> writer_bytes_written w = word_of_nat (length content)"

lemma Begin_writing:
  assumes "repr (writer_hasher w) m" and "Writer_Begin ops p w fs = (Inr tmp, w', fs')"
  shows "writing w' fs' p []" and "tmp = p @ ''.part''"
    and "entry_at fs' p = Some (RegularFile c t) \<longleftrightarrow> entry_at fs p = Some (RegularFile c t)"
proof -
  obtain fs1 where d: "create_directories (parent_path p) fs = Inr fs1"
    using assms(2) by (cases "create_directories (parent_path p) fs") (simp_all add: Writer_Begin_def Let_def)
  obtain fs2 where o': "open_trunc (p @ ''.part'') fs1 = Some fs2"
    using assms(2) d by (cases "open_trunc (p @ ''.part'') fs1") (simp_all add: Writer_Begin_def Let_def)
  have w': "w' = w\<lparr>writer_final_path := p, writer_temp_path := p @ ''.part'',
      writer_hasher := Reset ops (writer_hasher w), writer_active := True, writer_bytes_written := 0\<rparr>"
    and tmp: "tmp = p @ ''.part''" and o: "open_trunc (p @ ''.part'') fs1 = Some fs'"
    using assms(2) d o' by (auto simp: Writer_Begin_def Let_def)
  show "tmp = p @ ''.part''" by (rule tmp)
  show "writing w' fs' p []"
    using entry_at_open_trunc [OF o entry_key_part(2)] repr_reset [OF assms(1)]
    by (simp add: writing_def w')
  show "entry_at fs' p = Some (RegularFile c t) \<longleftrightarrow> entry_at fs p = Some (RegularFile c t)"
    using open_trunc_other [OF o entry_key_part(1) [symmetric]] create_directories_keeps_file [OF d] by simp
qed

lemma Append_writing:
  assumes "writing w fs p content" and "length data \<le> limit"
    and "Writer_Append ops data w fs = (Inr u, w', fs')"
  shows "writing w' fs' p (content @ data)" and "entry_at fs' p = entry_at fs p"
proof -
  from assms(1) obtain t where a: "writer_active w" "writer_final_path w = p" "writer_temp_path w = p @ ''.part''"
    "entry_at fs (p @ ''.part'') = Some (RegularFile content t)" "repr (writer_hasher w) content"
    "writer_bytes_written w = word_of_nat (length content)"
    by (auto simp: writing_def)
  have o: "open_append (p @ ''.part'') fs = Some fs"
    using assms(3) a by (auto simp: Writer_Append_def open_append_def split: if_splits)
  have cap: "length (content @ data) \<le> fs_capacity fs"
    and fs': "fs' = set_entry (p @ ''.part'') (RegularFile (content @ data) (fs_now fs)) fs"
    and w': "w' = (if data \<noteq> [] then w\<lparr>writer_hasher := Update ops data (writer_hasher w),
        writer_bytes_written := writer_bytes_written w + word_of_nat (length data)\<rparr> else w)"
    using assms(3) a o by (auto simp: Writer_Append_def Let_def write_end_def split: if_splits)
  have "entry_at fs' (p @ ''.part'') = Some (RegularFile (content @ data) (fs_now fs))"
    unfolding fs' by (rule entry_at_set_entry) (simp_all add: entry_key_part(2))
  moreover have "repr (writer_hasher w') (content @ data)"
    using a(5) repr_update [OF a(5) assms(2)] by (simp add: w')
  ultimately show "writing w' fs' p (content @ data)"
    using a by (simp add: writing_def w')
  show "entry_at fs' p = entry_at fs p"
    unfolding fs' by (rule entry_at_set_other [OF entry_key_part(1) [symmetric]])
qed

lemma append_all_writing:
  "writing w fs p content \<Longrightarrow> (\<And>b. b \<in> set bs \<Longrightarrow> length b \<le> limit) \<Longrightarrow>
     append_all ops bs w fs = (Inr u, w', fs') \<Longrightarrow>
     writing w' fs' p (content @ concat bs) \<and> entry_at fs' p = entry_at fs p"
proof (induction bs arbitrary: w fs content)
  case (Cons b bs)
  obtain r w1 fs1 where s: "Writer_Append ops b w fs = (r, w1, fs1)" by (cases "Writer_Append ops b w fs")
  obtain v where r: "r = Inr v" and rest: "append_all ops bs w1 fs1 = (Inr u, w', fs')"
    using Cons.prems(3) s by (cases r) auto
  note step = Append_writing [OF Cons.prems(1) _ s [unfolded r]]
  show ?case
    using Cons.IH [OF step(1) _ rest] Cons.prems(2) step(2) by simp
qed simp

lemma VerifyAndCommit_writing:
  assumes "writing w fs p content" and "VerifyAndCommit ops expected w fs = (ok, w', fs')"
  shows "ok \<Longrightarrow> digest content = expected \<and> (\<exists>t. entry_at fs' p = Some (RegularFile content t)) \<and>
      entry_at fs' (p @ ''.part'') = None"
    and "\<not> ok \<Longrightarrow> entry_at fs' p = entry_at fs p \<and>
      (fs_writable fs (p @ ''.part'') \<longrightarrow> entry_at fs' (p @ ''.part'') = None)"
    and "\<not> writer_active w'"
proof -
  from assms(1) obtain t where a: "writer_active w" "writer_final_path w = p" "writer_temp_path w = p @ ''.part''"
    "entry_at fs (p @ ''.part'') = Some (RegularFile content t)" "repr (writer_hasher w) content"
    by (auto simp: writing_def)
  have hash: "FinalHex ops (writer_hasher w) = digest content" by (rule final_digest [OF a(5)])
  have reg: "is_regular_file fs (p @ ''.part'')" using a(4) by (simp add: is_regular_file_def)
  note key = entry_key_part [of p]
  show "\<not> writer_active w'"
    using assms(2) a by (auto simp: VerifyAndCommit_def Writer_Abort_def Let_def split: if_splits option.splits)
  show "entry_at fs' p = entry_at fs p \<and>
      (fs_writable fs (p @ ''.part'') \<longrightarrow> entry_at fs' (p @ ''.part'') = None)" if "\<not> ok"
  proof -
    have "fs' = remove_file (p @ ''.part'') fs"
      using assms(2) a that
      by (auto simp: VerifyAndCommit_def Writer_Abort_def Let_def split: if_splits option.splits)
    then show ?thesis
      using entry_at_remove [OF reg] entry_at_remove_other [of p "p @ ''.part''" fs] key(1) by auto
  qed
  show "digest content = expected \<and> (\<exists>t. entry_at fs' p = Some (RegularFile content t)) \<and>
      entry_at fs' (p @ ''.part'') = None" if "ok"
  proof -
    have eq: "digest content = expected" and ren: "rename_file (p @ ''.part'') p fs = Some fs'"
      using assms(2) a that hash
      by (auto simp: VerifyAndCommit_def Writer_Abort_def Let_def split: if_splits option.splits)
    have p: "p \<noteq> []" "snd (entry_key p) \<noteq> []"
      using ren a(4) by (auto simp: rename_file_def entry_at_def split: if_splits)
    have fs': "fs' = set_entry p (RegularFile content t)
        (fs\<lparr>fs_nodes := AList.delete (entry_key (p @ ''.part'')) (fs_nodes fs)\<rparr>)"
      using ren a(4) by (auto simp: rename_file_def split: if_splits)
    have "entry_at fs' (p @ ''.part'') = None"
      unfolding fs' using key by (subst entry_at_set_other) (simp_all add: entry_at_def delete_conv')
    moreover have "entry_at fs' p = Some (RegularFile content t)"
      unfolding fs' by (rule entry_at_set_entry [OF p])
    ultimately show ?thesis using eq by blast
  qed
qed

text \<open>Resuming a part file puts the writer where the earlier appends had left it.\<close>

lemma ReadBack_repr:
  assumes "1024 * 1024 \<le> limit"
  shows "repr (writer_hasher w) m \<Longrightarrow>
    repr (writer_hasher (ReadBack ops input w)) (m @ input) \<and>
    writer_bytes_written (ReadBack ops input w) = writer_bytes_written w + word_of_nat (length input) \<and>
    writer_final_path (ReadBack ops input w) = writer_final_path w \<and>
    writer_temp_path (ReadBack ops input w) = writer_temp_path w"
proof (induction "length input" arbitrary: input w m rule: less_induct)
  case less
  let ?b = "take (1024 * 1024) input"
  let ?w = "w\<lparr>writer_hasher := Update ops ?b (writer_hasher w),
      writer_bytes_written := writer_bytes_written w + word_of_nat (length ?b)\<rparr>"
  show ?case
  proof (cases "input = []")
    case True
    then show ?thesis using less.prems by (simp add: ReadBack.simps)
  next
    case False
    have r: "repr (Update ops ?b (writer_hasher w)) (m @ ?b)"
      using assms by (intro repr_update [OF less.prems]) simp
    show ?thesis
    proof (cases "length ?b < 1024 * 1024")
      case True
      then have "?b = input" by simp
      moreover from True False have "ReadBack ops input w = ?w"
        by (subst ReadBack.simps) (simp add: Let_def)
      ultimately show ?thesis using r by simp
    next
      case full: False
      have step: "ReadBack ops input w = ReadBack ops (drop (1024 * 1024) input) ?w"
        using False full by (subst ReadBack.simps) (simp add: Let_def)
      have "length (drop (1024 * 1024) input) < length input" using False by simp
      note ih = less.hyps [OF this, of ?w "m @ ?b"]
      have "(m @ ?b) @ drop (1024 * 1024) input = m @ input" by simp
      moreover have "word_of_nat (length ?b) + word_of_nat (length (drop (1024 * 1024) input)) =
          (word_of_nat (length input) :: u64)"
        by (metis append_take_drop_id length_append of_nat_add)
      ultimately show ?thesis using ih r unfolding step by (simp add: add.assoc)
    qed
  qed
qed

lemma Resume_writing:
  assumes "1024 * 1024 \<le> limit" and "repr (writer_hasher w) m"
    and "Writer_Resume ops p w fs = (Inr tmp, w', fs')"
  shows "writing w' fs' p (case open_read fs (p @ ''.part'') of Some kept \<Rightarrow> kept | None \<Rightarrow> [])"
    and "entry_at fs' p = Some (RegularFile c t) \<longleftrightarrow> entry_at fs p = Some (RegularFile c t)"
proof -
  define w1 where "w1 = w\<lparr>writer_final_path := p, writer_temp_path := p @ ''.part'',
      writer_hasher := Reset ops (writer_hasher w), writer_bytes_written := 0\<rparr>"
  obtain fs1 where d: "create_directories (parent_path p) fs = Inr fs1"
    using assms(3) by (cases "create_directories (parent_path p) fs") (simp_all add: Writer_Resume_def Let_def)
  have w1r: "repr (writer_hasher w1) []" by (simp add: w1_def repr_reset [OF assms(2)])
  have keep: "open_read fs1 (p @ ''.part'') = open_read fs (p @ ''.part'')"
    by (rule open_read_create_directories [OF d])
  have res: "(if \<not> fs_exists fs1 (p @ ''.part'') then Writer_Begin ops p w1 fs1
     else case open_read fs1 (p @ ''.part'') of
       None \<Rightarrow> (throw (RuntimeError (''failed to resume temp sync file: '' @ p @ ''.part'')), w1, fs1)
     | Some input \<Rightarrow> (Inr (writer_temp_path (ReadBack ops input w1)),
         (ReadBack ops input w1)\<lparr>writer_active := True\<rparr>, fs1)) = (Inr tmp, w', fs')"
    using assms(3) unfolding Writer_Resume_def Let_def d w1_def
    by (cases "fs_exists fs1 (p @ ''.part'')"; cases "open_read fs1 (p @ ''.part'')") simp_all
  show "writing w' fs' p (case open_read fs (p @ ''.part'') of Some kept \<Rightarrow> kept | None \<Rightarrow> [])"
  proof (cases "fs_exists fs1 (p @ ''.part'')")
    case False
    then have "open_read fs (p @ ''.part'') = None"
      unfolding keep [symmetric] by (simp add: fs_exists_def open_read_def)
    then show ?thesis using res False Begin_writing(1) [OF w1r] by simp
  next
    case True
    then obtain kept where k: "open_read fs1 (p @ ''.part'') = Some kept"
      using res by (cases "open_read fs1 (p @ ''.part'')") simp_all
    then have w': "w' = (ReadBack ops kept w1)\<lparr>writer_active := True\<rparr>" "fs' = fs1"
      using res True by auto
    obtain t where "entry_at fs1 (p @ ''.part'') = Some (RegularFile kept t)"
      using k by (auto simp: open_read_eq)
    then show ?thesis
      using ReadBack_repr [OF assms(1) w1r, of kept] k keep
      by (simp add: writing_def w') (simp add: w1_def)
  qed
  show "entry_at fs' p = Some (RegularFile c t) \<longleftrightarrow> entry_at fs p = Some (RegularFile c t)"
  proof (cases "fs_exists fs1 (p @ ''.part'')")
    case False
    then show ?thesis
      using res Begin_writing(3) [OF w1r] create_directories_keeps_file [OF d] by simp
  next
    case True
    then have "fs' = fs1" using res by (cases "open_read fs1 (p @ ''.part'')") simp_all
    then show ?thesis using create_directories_keeps_file [OF d] by simp
  qed
qed

end

section \<open>When a transfer goes through\<close>

text \<open>
  The conditions on the file system under which no step of a transfer of \<open>p\<close> fails: both names may be
  written, the final name is not a directory and its directory exists.
\<close>

definition receivable :: "FileSystem \<Rightarrow> path \<Rightarrow> bool" where
  "receivable fs p \<longleftrightarrow> p \<noteq> [] \<and> fs_writable fs p \<and> fs_writable fs (p @ ''.part'') \<and>
     parent_exists fs p \<and> entry_at fs p \<noteq> Some Directory"

lemma receivable_set_part:
  assumes "receivable fs p" and "entry_at fs (p @ ''.part'') \<noteq> Some Directory"
  shows "receivable (set_entry (p @ ''.part'') n fs) p"
proof -
  have "entry_at (set_entry (p @ ''.part'') n fs) q = Some Directory"
    if "entry_at fs q = Some Directory" for q
  proof (cases "entry_key q = entry_key (p @ ''.part'')")
    case True
    moreover have "q \<noteq> []" using that by (auto simp: entry_at_def)
    ultimately show ?thesis using that assms(2) entry_at_same_key [of q "p @ ''.part''" fs] by simp
  qed (simp add: entry_at_set_other that)
  then show ?thesis
    using assms(1) entry_key_part(1) [of p] unfolding receivable_def parent_exists_def
    by (auto simp: entry_at_set_other)
qed

lemma parent_exists_part: "parent_path (p @ ''.part'') = parent_path p"
proof -
  have "path_filename (p @ ''.part'') = path_filename p @ ''.part''"
    by (simp add: path_filename_def split_on_extend)
  moreover have "length (path_filename p) \<le> length p"
  proof (induction p)
    case (Cons c p)
    obtain q qs where "split_on CHR ''/'' p = q # qs" by (cases "split_on CHR ''/'' p") auto
    then show ?case using Cons by (auto simp: path_filename_def)
  qed (simp add: path_filename_def)
  ultimately show ?thesis by (simp add: parent_path_def Let_def)
qed

context hasher
begin

lemma Begin_ok:
  assumes dirs: "create_directories (parent_path p) fs = Inr fs1"
    and "p \<noteq> []" and "fs_writable fs p" and "fs_writable fs (p @ ''.part'')"
    and "entry_at fs1 p \<noteq> Some Directory" and "entry_at fs1 (p @ ''.part'') \<noteq> Some Directory"
  shows "\<exists>w' fs'. Writer_Begin ops p w fs = (Inr (p @ ''.part''), w', fs') \<and> receivable fs' p \<and>
    fs_capacity fs' = fs_capacity fs \<and> fs_readable fs' = fs_readable fs"
proof -
  let ?fs' = "set_entry (p @ ''.part'') (RegularFile [] (fs_now fs1)) fs1"
  note frame = create_directories_frame [OF dirs]
  have parent: "parent_exists fs1 q" if "parent_path q = parent_path p" for q
    using create_directories_makes [OF dirs] that by (simp add: parent_exists_def)
  have "open_trunc (p @ ''.part'') fs1 = Some ?fs'"
    using assms(4,6) parent [OF parent_exists_part] frame by (simp add: open_trunc_def)
  then have "Writer_Begin ops p w fs = (Inr (p @ ''.part''), w\<lparr>writer_final_path := p,
      writer_temp_path := p @ ''.part'', writer_hasher := Reset ops (writer_hasher w),
      writer_active := True, writer_bytes_written := 0\<rparr>, ?fs')"
    by (simp add: Writer_Begin_def Let_def dirs)
  moreover have "receivable fs1 p"
    using assms(2-5) parent [of p] frame by (simp add: receivable_def)
  ultimately show ?thesis
    using receivable_set_part [OF _ assms(6)] frame by simp
qed

lemma Append_ok:
  assumes "writing w fs p content" and "receivable fs p"
    and "length content + length data \<le> fs_capacity fs"
  shows "\<exists>w' fs'. Writer_Append ops data w fs = (Inr (), w', fs') \<and> receivable fs' p \<and>
    fs_capacity fs' = fs_capacity fs \<and> fs_readable fs' = fs_readable fs"
proof -
  from assms(1) obtain t where a: "writer_active w" "writer_temp_path w = p @ ''.part''"
    "entry_at fs (p @ ''.part'') = Some (RegularFile content t)" by (auto simp: writing_def)
  have "open_append (p @ ''.part'') fs = Some fs"
    using a(3) assms(2) by (simp add: open_append_def receivable_def)
  moreover have "write_end (p @ ''.part'') data fs =
      (True, set_entry (p @ ''.part'') (RegularFile (content @ data) (fs_now fs)) fs)"
    using a(3) assms(3) by (simp add: write_end_def)
  moreover have "receivable (set_entry (p @ ''.part'') n fs) p" for n
    by (rule receivable_set_part [OF assms(2)]) (simp add: a(3))
  ultimately show ?thesis using a(1,2) by (simp add: Writer_Append_def)
qed

lemma append_all_ok:
  "writing w fs p content \<Longrightarrow> receivable fs p \<Longrightarrow> (\<And>b. b \<in> set bs \<Longrightarrow> length b \<le> limit) \<Longrightarrow>
     length content + length (concat bs) \<le> fs_capacity fs \<Longrightarrow>
     \<exists>w' fs'. append_all ops bs w fs = (Inr (), w', fs') \<and> receivable fs' p"
proof (induction bs arbitrary: w fs content)
  case (Cons b bs)
  obtain w1 fs1 where s: "Writer_Append ops b w fs = (Inr (), w1, fs1)" and r: "receivable fs1 p"
    and c: "fs_capacity fs1 = fs_capacity fs"
    using Append_ok [OF Cons.prems(1,2), of b] Cons.prems(4) by auto
  have "writing w1 fs1 p (content @ b)"
    using Append_writing(1) [OF Cons.prems(1) _ s] Cons.prems(3) by simp
  from Cons.IH [OF this r] Cons.prems(3,4) c s show ?case by simp
qed simp

lemma commit_ok:
  assumes "writing w fs p content" and "receivable fs p" and "digest content = expected"
  shows "fst (VerifyAndCommit ops expected w fs)"
  using assms by (auto simp: VerifyAndCommit_def writing_def rename_file_def receivable_def final_digest)

end

lemma sample_dirs: "create_directories (parent_path ''d/g'') sample_fs = Inr sample_fs"
  by (simp add: create_directories_def directory_keys_def make_directories_def path_eval sample_fs_def)

lemma sample_begin:
  fixes w :: "'h SyncWriter"
  shows "\<exists>w' fs'. Writer_Begin ops ''d/g'' w sample_fs = (Inr ''d/g.part'', w', fs') \<and> receivable fs' ''d/g'' \<and>
    fs_capacity fs' = 1000 \<and> fs_readable fs' = fs_readable sample_fs \<and>
    create_directories (parent_path ''d/g'') fs' = Inr fs'"
proof -
  have names: "normal_names ''d/g'' = [''d'', ''g'']" "normal_names ''d/g.part'' = [''d'', ''g.part'']"
    "normal_names ''d'' = [''d'']" "parent_path ''d/g'' = ''d''" "parent_path ''d/g.part'' = ''d''"
    by (simp_all add: normal_names_def is_absolute_def normal_step_def parent_path_def path_filename_def
        strip_slashes_def)
  have nodes: "fs_nodes sample_fs = [((False, [''d'']), Directory), ((False, [''d'', ''f'']), RegularFile [1, 2, 3] 7),
      ((False, [''d'', ''f.part'']), RegularFile [9] 7)]"
    by (simp add: sample_fs_def)
  have dirs: "create_directories ''d'' sample_fs = Inr sample_fs"
    by (simp add: create_directories_def directory_keys_def entry_key_def names is_absolute_def
        make_directories_def nodes Let_def)
  have none: "entry_at sample_fs ''d/g'' = None" "entry_at sample_fs ''d/g.part'' = None"
    by (simp_all add: entry_at_def entry_key_def names is_absolute_def nodes)
  have trunc: "open_trunc ''d/g.part'' sample_fs =
      Some (set_entry ''d/g.part'' (RegularFile [] 11) sample_fs)"
    by (simp add: open_trunc_def none parent_exists_def names)
  have "receivable sample_fs ''d/g''"
    by (simp add: receivable_def parent_exists_def names none)
  then have "receivable (set_entry ''d/g.part'' (RegularFile [] 11) sample_fs) ''d/g''"
    using receivable_set_part [of sample_fs "''d/g''"] by (simp add: none)
  moreover have "create_directories ''d'' (set_entry ''d/g.part'' (RegularFile [] 11) sample_fs) =
      Inr (set_entry ''d/g.part'' (RegularFile [] 11) sample_fs)"
    by (simp add: create_directories_def directory_keys_def entry_key_def names is_absolute_def
        make_directories_def nodes Let_def set_entry_def)
  ultimately show ?thesis
    by (simp add: Writer_Begin_def names dirs trunc Let_def)
qed

section \<open>Properties of the MD5 instance\<close>

lemma md5_limit [simp]: "(1024 * 1024 :: nat) \<le> 2 ^ 32 - 64"
  by simp



text \<open>
  Resuming equals never stopping. If a transfer appended some pieces and was interrupted before the
  commit, a new writer that resumes the same file and appends the remaining pieces counts and has hashed
  exactly what one writer appending all pieces would have: its commit succeeds only if the MD5 of all
  pieces together is the expected one, and then that concatenation is the file.
\<close>

lemma resume_continues:
  assumes "md5_repr (writer_hasher w) m" and "md5_repr (writer_hasher w') m'"
    and "Writer_Begin Md5Hasher p w fs = (Inr tmp, w1, fs1)"
    and "append_all Md5Hasher pieces w1 fs1 = (Inr u, w2, fs2)"
    and "Writer_Resume Md5Hasher p w' fs2 = (Inr tmp', w3, fs3)"
    and "append_all Md5Hasher pieces' w3 fs3 = (Inr u', w4, fs4)"
    and "\<And>b. b \<in> set (pieces @ pieces') \<Longrightarrow> length b \<le> 2 ^ 32 - 64"
    and "fs_readable fs2 (p @ ''.part'')"
    and "VerifyAndCommit Md5Hasher expected w4 fs4 = (ok, w5, fs5)"
  shows "BytesWritten w3 = word_of_nat (length (concat pieces)) \<and>
    BytesWritten w4 = word_of_nat (length (concat (pieces @ pieces'))) \<and>
    (ok \<longrightarrow> md5_hex (concat (pieces @ pieces')) = expected \<and>
       (\<exists>t. entry_at fs5 p = Some (RegularFile (concat (pieces @ pieces')) t)))"
proof -
  note b = md5.Begin_writing [OF assms(1,3)]
  have l1: "\<And>b. b \<in> set pieces \<Longrightarrow> length b \<le> 2 ^ 32 - 64"
    and l2: "\<And>b. b \<in> set pieces' \<Longrightarrow> length b \<le> 2 ^ 32 - 64"
    using assms(7) by auto
  have w2: "md5.writing w2 fs2 p (concat pieces)"
    using md5.append_all_writing [OF b(1) l1 assms(4)] by simp
  then have kept: "open_read fs2 (p @ ''.part'') = Some (concat pieces)"
    using assms(8) by (auto simp: md5.writing_def open_read_eq)
  have w3: "md5.writing w3 fs3 p (concat pieces)"
    using md5.Resume_writing(1) [OF md5_limit assms(2,5)] by (simp add: kept)
  have w4: "md5.writing w4 fs4 p (concat pieces @ concat pieces')"
    using md5.append_all_writing [OF w3 l2 assms(6)] by simp
  show ?thesis
    using w3 w4 md5.VerifyAndCommit_writing(1) [OF w4 assms(9)]
    by (auto simp: md5.writing_def BytesWritten_def)
qed

lemma resume_continues_example:
  "\<exists>w1 fs1 w3 fs3. Writer_Begin Md5Hasher ''d/g'' (SyncWriter_new Md5Hasher_new) sample_fs =
       (Inr ''d/g.part'', w1, fs1) \<and>
     Writer_Resume Md5Hasher ''d/g'' (SyncWriter_new Md5Hasher_new) fs1 = (Inr ''d/g.part'', w3, fs3) \<and>
     BytesWritten w3 = 0"
proof -
  let ?w = "SyncWriter_new Md5Hasher_new"
  have h: "md5_repr (writer_hasher ?w) []" by (simp add: SyncWriter_new_def md5_repr_new)
  obtain w1 fs1 where b: "Writer_Begin Md5Hasher ''d/g'' ?w sample_fs = (Inr ''d/g.part'', w1, fs1)"
    and rd: "fs_readable fs1 = fs_readable sample_fs"
    and dir: "create_directories (parent_path ''d/g'') fs1 = Inr fs1"
    using sample_begin [of Md5Hasher ?w] by auto
  note w1 = md5.Begin_writing(1) [OF h b]
  have part: "open_read fs1 ''d/g.part'' = Some []"
    using w1 rd by (auto simp: md5.writing_def open_read_eq)
  then have "fs_exists fs1 ''d/g.part''" by (auto simp: fs_exists_def open_read_eq)
  then obtain w3 where res: "Writer_Resume Md5Hasher ''d/g'' ?w fs1 = (Inr ''d/g.part'', w3, fs1)"
    using dir part md5.ReadBack_repr [OF md5_limit h, of "[]"]
    by (simp add: Writer_Resume_def Let_def ReadBack.simps)
  obtain ok w5 fs5 where v: "VerifyAndCommit Md5Hasher ''x'' w3 fs1 = (ok, w5, fs5)"
    by (cases "VerifyAndCommit Md5Hasher ''x'' w3 fs1") auto
  have "append_all Md5Hasher [] w1 fs1 = (Inr (), w1, fs1)" "append_all Md5Hasher [] w3 fs1 = (Inr (), w3, fs1)"
    by simp_all
  from resume_continues [OF h h b this(1) res this(2) _ _ v] show ?thesis
    using b res rd by auto
qed

end
