(* ===== verification/Sync_Scanner.thy ===== *)
theory Sync_Scanner
  imports Metadata_Store Sync_Chunks
begin

text \<open>
  \<^verbatim>\<open>src/sync/scanner.cpp\<close>: every regular file below a root, except part files and excluded paths, is
  chunked and its record stored. The order in which the directory iterator visits entries is
  unspecified; here it is the order of the tree's entry list, which is arbitrary.
\<close>

text \<open>The entries strictly below a directory, each with the path the iterator reports for it.\<close>

definition directory_entries :: "FileSystem \<Rightarrow> path \<Rightarrow> path list" where
  "directory_entries fs root =
     map (\<lambda>(k, n). path_append root (join_with ''/'' (drop (length (normal_names root)) (snd k))))
       (filter (\<lambda>(k, n). fst k = is_absolute root \<and>
          take (length (normal_names root)) (snd k) = normal_names root \<and> snd k \<noteq> normal_names root)
        (fs_nodes fs))"

definition IsExcludedPath :: "path \<Rightarrow> path list \<Rightarrow> bool" where
  "IsExcludedPath candidate excluded_paths =
     list_ex (\<lambda>excluded. excluded \<noteq> [] \<and> lexically_normal candidate = lexically_normal excluded) excluded_paths"

definition scan_skips :: "FileSystem \<Rightarrow> path list \<Rightarrow> path \<Rightarrow> bool" where
  "scan_skips fs excluded_paths entry \<longleftrightarrow>
     \<not> is_regular_file fs entry \<or> path_extension entry = ''.part'' \<or> IsExcludedPath entry excluded_paths"

text \<open>The loop; the store keeps the files upserted before an exception.\<close>

fun ScanEntries ::
  "'h IHasher \<Rightarrow> FileSystem \<Rightarrow> path \<Rightarrow> path list \<Rightarrow> path list \<Rightarrow> 'h Chunker \<Rightarrow> MetadataStore \<Rightarrow>
   FileRecord list \<Rightarrow> FileRecord list result \<times> 'h Chunker \<times> MetadataStore"
where
  "ScanEntries ops fs root excluded_paths [] chunker store files = (Inr files, chunker, store)"
| "ScanEntries ops fs root excluded_paths (entry # entries) chunker store files =
     (if scan_skips fs excluded_paths entry then
        ScanEntries ops fs root excluded_paths entries chunker store files
      else
        case BuildFileRecord ops chunker fs entry root of
          Inl e \<Rightarrow> (Inl e, chunker, store)
        | Inr (f, chunker) \<Rightarrow>
            ScanEntries ops fs root excluded_paths entries chunker (UpsertFile f store) (files @ [f]))"

definition ScanDirectory ::
  "'h IHasher \<Rightarrow> FileSystem \<Rightarrow> path \<Rightarrow> path list \<Rightarrow> 'h Chunker \<Rightarrow> MetadataStore \<Rightarrow>
   FileRecord list result \<times> 'h Chunker \<times> MetadataStore"
where
  "ScanDirectory ops fs root excluded_paths chunker store =
     (if \<not> fs_exists fs root then (Inr [], chunker, store)
      else if entry_at fs root \<noteq> Some Directory then
        (throw (FilesystemError ''recursive directory iterator cannot open directory''), chunker, store)
      else ScanEntries ops fs root excluded_paths (directory_entries fs root) chunker store [])"

context hasher
begin

text \<open>The record a scan stores for one path.\<close>

definition scanned :: "FileSystem \<Rightarrow> path \<Rightarrow> nat \<Rightarrow> path \<Rightarrow> FileRecord" where
  "scanned fs root c p =
     (case entry_at fs p of Some (RegularFile data t) \<Rightarrow> cut_file p root c data t | _ \<Rightarrow> FileRecord_init)"

lemma ScanEntries_scanned:
  assumes c: "0 < c" "c \<le> limit"
    and readable: "\<And>p. p \<in> set entries \<Longrightarrow> \<not> scan_skips fs excluded p \<Longrightarrow> fs_readable fs p"
  shows "repr (chunker_hasher chunker) m \<Longrightarrow> c = chunker_chunk_size chunker \<Longrightarrow>
    \<exists>chunker' m'. repr (chunker_hasher chunker') m' \<and> chunker_chunk_size chunker' = c \<and>
      ScanEntries ops fs root excluded entries chunker store files =
        (let new = map (scanned fs root c) (filter (\<lambda>p. \<not> scan_skips fs excluded p) entries)
         in (Inr (files @ new), chunker', fold UpsertFile new store))"
  using readable
proof (induction entries arbitrary: chunker m store files)
  case (Cons p entries)
  show ?case
  proof (cases "scan_skips fs excluded p")
    case True
    then show ?thesis using Cons.IH [OF Cons.prems(1,2)] Cons.prems(3) by simp
  next
    case False
    then have "is_regular_file fs p" "fs_readable fs p"
      using Cons.prems(3) by (auto simp: scan_skips_def)
    then obtain data where "open_read fs p = Some data"
      by (auto simp: is_regular_file_def open_read_eq split: option.splits fnode.splits)
    from BuildFileRecord_cut [OF Cons.prems(1,2) c this, of root]
    obtain t h' m' where e: "entry_at fs p = Some (RegularFile data t)" and r: "repr h' m'"
      and b: "BuildFileRecord ops chunker fs p root =
        Inr (cut_file p root c data t, chunker\<lparr>chunker_hasher := h'\<rparr>)" by blast
    have s: "scanned fs root c p = cut_file p root c data t" by (simp add: scanned_def e)
    from Cons.IH [of "chunker\<lparr>chunker_hasher := h'\<rparr>" m' "UpsertFile (cut_file p root c data t) store"
        "files @ [cut_file p root c data t]"] r Cons.prems(2,3)
    show ?thesis by (simp add: False b s [unfolded Cons.prems(2)] Let_def)
  qed
qed auto

lemma BuildFileRecord_opened: "BuildFileRecord ops chunker fs p root = Inr x \<Longrightarrow> open_read fs p \<noteq> None"
  by (cases "open_read fs p") (simp_all add: BuildFileRecord_def Let_def bind_result_Inr_iff)

text \<open>A scan that ends well leaves a usable chunker.\<close>

lemma ScanEntries_chunker:
  assumes "0 < chunker_chunk_size chunker" "chunker_chunk_size chunker \<le> limit" "repr (chunker_hasher chunker) m"
    and "ScanEntries ops fs root excluded entries chunker store files = (Inr found, chunker', store')"
  shows "(\<exists>m'. repr (chunker_hasher chunker') m') \<and> chunker_chunk_size chunker' = chunker_chunk_size chunker"
  using assms
proof (induction entries arbitrary: chunker m store files)
  case (Cons p entries)
  show ?case
  proof (cases "scan_skips fs excluded p")
    case True
    then show ?thesis using Cons.IH [OF Cons.prems(1-3)] Cons.prems(4) by simp
  next
    case False
    then obtain f ck where b: "BuildFileRecord ops chunker fs p root = Inr (f, ck)"
        and rest: "ScanEntries ops fs root excluded entries ck (UpsertFile f store) (files @ [f]) = (Inr found, chunker', store')"
      using Cons.prems(4) by (auto split: sum.splits)
    obtain data where "open_read fs p = Some data" using BuildFileRecord_opened [OF b] by blast
    from BuildFileRecord_cut [OF Cons.prems(3) refl Cons.prems(1,2) this, of root] b
    obtain h' m' where ck: "ck = chunker\<lparr>chunker_hasher := h'\<rparr>" and h': "repr h' m'" by auto
    then show ?thesis using Cons.IH [of ck m', OF _ _ _ rest] Cons.prems(1,2) by simp
  qed
qed auto

lemma ScanDirectory_chunker:
  assumes "0 < chunker_chunk_size chunker" "chunker_chunk_size chunker \<le> limit" "repr (chunker_hasher chunker) m"
    and "ScanDirectory ops fs root excluded chunker store = (Inr found, chunker', store')"
  shows "(\<exists>m'. repr (chunker_hasher chunker') m') \<and> chunker_chunk_size chunker' = chunker_chunk_size chunker"
  using assms(4) ScanEntries_chunker [OF assms(1-3)] assms(3) by (auto simp: ScanDirectory_def split: if_splits)

end

text \<open>
  A scan records every file it should and nothing else. Over a readable tree it returns one record
  per regular file below the root, in iteration order, leaving out exactly the part files and the
  excluded paths; each record carries the MD5 and the size of that file's content and its path; and the
  store is the old store with these records upserted in that order.
\<close>

lemma scan_records_tree:
  assumes "entry_at fs root = Some Directory" and "md5_repr (chunker_hasher chunker) m"
    and "0 < chunker_chunk_size chunker" and "chunker_chunk_size chunker \<le> 2 ^ 32 - 64"
    and "\<And>p. p \<in> set (directory_entries fs root) \<Longrightarrow> fs_readable fs p"
  shows "\<exists>files chunker'. ScanDirectory Md5Hasher fs root excluded chunker store =
      (Inr files, chunker', fold UpsertFile files store) \<and>
    (let visited = filter (\<lambda>p. is_regular_file fs p \<and> path_extension p \<noteq> ''.part'' \<and>
           \<not> IsExcludedPath p excluded) (directory_entries fs root)
     in length files = length visited \<and>
        (\<forall>i < length files. \<exists>data t. entry_at fs (visited ! i) = Some (RegularFile data t) \<and>
           file_root_hash (files ! i) = md5_hex data \<and> file_size (files ! i) = word_of_nat (length data) \<and>
           file_absolute_path (files ! i) = lexically_normal (visited ! i) \<and>
           file_modified_time_epoch (files ! i) = t))"
proof -
  let ?c = "chunker_chunk_size chunker"
  let ?visited = "filter (\<lambda>p. \<not> scan_skips fs excluded p) (directory_entries fs root)"
  let ?files = "map (md5.scanned fs root ?c) ?visited"
  obtain chunker' where run: "ScanDirectory Md5Hasher fs root excluded chunker store =
      (Inr ?files, chunker', fold UpsertFile ?files store)"
    using md5.ScanEntries_scanned [OF assms(3,4) _ assms(2) refl,
        of "directory_entries fs root" fs excluded root store "[]"] assms(1,5)
    by (auto simp: ScanDirectory_def fs_exists_def Let_def)
  have visited: "?visited = filter (\<lambda>p. is_regular_file fs p \<and> path_extension p \<noteq> ''.part'' \<and>
       \<not> IsExcludedPath p excluded) (directory_entries fs root)"
    by (simp add: scan_skips_def)
  have "\<exists>data t. entry_at fs (?visited ! i) = Some (RegularFile data t) \<and>
      file_root_hash (?files ! i) = md5_hex data \<and> file_size (?files ! i) = word_of_nat (length data) \<and>
      file_absolute_path (?files ! i) = lexically_normal (?visited ! i) \<and>
      file_modified_time_epoch (?files ! i) = t" if i: "i < length ?files" for i
  proof -
    have "?visited ! i \<in> set ?visited" using i by (intro nth_mem) simp
    then have "is_regular_file fs (?visited ! i)" by (auto simp: scan_skips_def)
    then obtain data t where "entry_at fs (?visited ! i) = Some (RegularFile data t)"
      by (auto simp: is_regular_file_def split: option.splits fnode.splits)
    then show ?thesis using i by (simp add: md5.scanned_def md5.cut_file_def)
  qed
  then show ?thesis using run unfolding visited Let_def
    by (intro exI [of _ ?files] exI [of _ chunker']) (simp add: visited)
qed

lemma sample_entries: "directory_entries sample_fs ''d'' = [''d/f'', ''d/f.part'']"
  by (simp add: directory_entries_def sample_fs_def normal_names_def is_absolute_def normal_step_def
      path_append_def)

lemma scan_records_tree_example:
  "\<exists>f chunker' store'. ScanDirectory Md5Hasher sample_fs ''d'' []
       \<lparr>chunker_chunk_size = 2, chunker_hasher = Md5Hasher_new\<rparr> MetadataStore_init =
       (Inr [f], chunker', store') \<and> file_root_hash f = md5_hex [1, 2, 3] \<and> ListFiles store' = [f]"
proof -
  let ?ck = "\<lparr>chunker_chunk_size = 2, chunker_hasher = Md5Hasher_new\<rparr>"
  have h: "md5_repr (chunker_hasher ?ck) []" by (simp add: md5_repr_new)
  have visited: "filter (\<lambda>p. is_regular_file sample_fs p \<and> path_extension p \<noteq> ''.part'' \<and>
      \<not> IsExcludedPath p []) (directory_entries sample_fs ''d'') = [''d/f'']"
    by (simp add: sample_entries is_regular_file_def path_extension_def path_filename_def
        IsExcludedPath_def Let_def)
  obtain files ck' where run: "ScanDirectory Md5Hasher sample_fs ''d'' [] ?ck MetadataStore_init =
      (Inr files, ck', fold UpsertFile files MetadataStore_init)" and len: "length files = 1"
    and hash: "file_root_hash (files ! 0) = md5_hex [1, 2, 3]"
    using scan_records_tree [OF sample_fs_read(2) h, of "[]" MetadataStore_init]
    unfolding visited by (auto simp: Let_def)
  obtain f where f: "files = [f]" using len by (cases files) auto
  then show ?thesis
    using run hash by (simp add: UpsertFile_def ListFiles_def MetadataStore_init_def)
qed

section \<open>Files with the same content\<close>

text \<open>With distinct paths, upserting by id or path is upserting by id.\<close>

definition last_of_each :: "FileRecord list \<Rightarrow> FileRecord set" where
  "last_of_each xs = {x. \<exists>ys zs. xs = ys @ x # zs \<and> file_file_id x \<notin> file_file_id ` set zs}"

lemma last_of_each_snoc:
  "last_of_each (xs @ [x]) = insert x {y \<in> last_of_each xs. file_file_id y \<noteq> file_file_id x}"
proof (intro set_eqI iffI)
  fix y assume "y \<in> last_of_each (xs @ [x])"
  then obtain ys zs where y: "xs @ [x] = ys @ y # zs" "file_file_id y \<notin> file_file_id ` set zs"
    by (auto simp: last_of_each_def)
  show "y \<in> insert x {y \<in> last_of_each xs. file_file_id y \<noteq> file_file_id x}"
    using y by (cases zs rule: rev_cases) (auto simp: last_of_each_def)
next
  fix y assume "y \<in> insert x {y \<in> last_of_each xs. file_file_id y \<noteq> file_file_id x}"
  then consider "y = x" | ys zs where "xs = ys @ y # zs" "file_file_id y \<notin> file_file_id ` set (zs @ [x])"
    by (auto simp: last_of_each_def)
  then show "y \<in> last_of_each (xs @ [x])"
    by cases (fastforce simp: last_of_each_def)+
qed

lemma last_of_each_subset: "last_of_each xs \<subseteq> set xs"
  by (auto simp: last_of_each_def)

lemma upsert_files:
  assumes "distinct (map file_absolute_path xs)"
  shows "distinct (map file_file_id (db_files (fold UpsertFile xs MetadataStore_init))) \<and>
    set (db_files (fold UpsertFile xs MetadataStore_init)) = last_of_each xs"
  using assms
proof (induction xs rule: rev_induct)
  case Nil
  then show ?case by (simp add: last_of_each_def MetadataStore_init_def)
next
  case (snoc x xs)
  let ?rows = "db_files (fold UpsertFile xs MetadataStore_init)"
  have rows: "distinct (map file_file_id ?rows)" "set ?rows = last_of_each xs" using snoc by simp_all
  have "file_absolute_path y \<noteq> file_absolute_path x" if "y \<in> set ?rows" for y
  proof -
    have "y \<in> set xs" using that rows(2) last_of_each_subset by blast
    then show ?thesis using snoc.prems by (auto simp: image_iff)
  qed
  then have "upsert_by (\<lambda>c. file_file_id c = file_file_id x \<or> file_absolute_path c = file_absolute_path x) x ?rows =
      upsert_by (\<lambda>c. file_file_id c = file_file_id x) x ?rows"
    by (intro upsert_by_cong) simp
  then have "db_files (fold UpsertFile (xs @ [x]) MetadataStore_init) = upsert_by (\<lambda>c. file_file_id c = file_file_id x) x ?rows"
    by (simp add: UpsertFile_def)
  then show ?case
    using rows set_upsert_by_key [OF rows(1), of x] distinct_upsert_by_key [OF rows(1), of x]
    by (simp add: last_of_each_snoc)
qed

lemma find_in_set:
  assumes "inj_on k (set rows)" and "y \<in> set rows"
  shows "find (\<lambda>r. k r = k y) rows = Some y"
  using assms by (induction rows) (auto simp: inj_on_def)

text \<open>What is found under the path of one of the files.\<close>

lemma found_by_path:
  assumes "distinct (map file_absolute_path xs)" and i: "i < length xs"
  shows "GetFileByPath (fold UpsertFile xs MetadataStore_init) (file_absolute_path (xs ! i)) =
    (if file_file_id (xs ! i) \<in> file_file_id ` set (drop (Suc i) xs) then None else Some (xs ! i))"
proof -
  let ?rows = "db_files (fold UpsertFile xs MetadataStore_init)"
  have rows: "set ?rows = last_of_each xs" using upsert_files [OF assms(1)] by simp
  have inj: "inj_on file_absolute_path (set xs)" using assms(1) by (simp add: distinct_map)
  have mem: "xs ! i \<in> set ?rows \<longleftrightarrow> file_file_id (xs ! i) \<notin> file_file_id ` set (drop (Suc i) xs)"
  proof
    assume "xs ! i \<in> set ?rows"
    then obtain ys zs where s: "xs = ys @ (xs ! i) # zs" "file_file_id (xs ! i) \<notin> file_file_id ` set zs"
      unfolding rows last_of_each_def by blast
    have "(ys @ (xs ! i) # zs) ! length ys = xs ! i" by simp
    moreover have "length ys < length (ys @ (xs ! i) # zs)" by simp
    ultimately have "xs ! length ys = xs ! i" "length ys < length xs" by (simp_all flip: s(1))
    then have "length ys = i" using assms i by (metis distinct_map nth_eq_iff_index_eq)
    then have "drop (Suc i) xs = zs" by (subst s(1)) simp
    then show "file_file_id (xs ! i) \<notin> file_file_id ` set (drop (Suc i) xs)" using s(2) by simp
  next
    assume "file_file_id (xs ! i) \<notin> file_file_id ` set (drop (Suc i) xs)"
    then show "xs ! i \<in> set ?rows"
      unfolding rows last_of_each_def using id_take_nth_drop [OF i] by blast
  qed
  have inj_rows: "inj_on file_absolute_path (set ?rows)"
    using inj rows last_of_each_subset by (auto intro: inj_on_subset)
  show ?thesis
  proof (cases "xs ! i \<in> set ?rows")
    case True
    then show ?thesis using find_in_set [OF inj_rows True] mem by (simp add: GetFileByPath_def)
  next
    case False
    have "file_absolute_path r \<noteq> file_absolute_path (xs ! i)" if "r \<in> set ?rows" for r
      using that False inj rows last_of_each_subset [of xs] i by (metis inj_onD nth_mem subsetD)
    then show ?thesis using mem False by (auto simp: GetFileByPath_def find_None_iff)
  qed
qed

text \<open>
  C20: After a scan into an empty store, a file is found under its path exactly when no file visited later
  has the same MD5: of several files with the same content only the last one is known, and the others,
  though they are on the disk and among the records the scan returns, are not.
\<close>

theorem scan_keeps_last_of_each_content:
  assumes "entry_at fs root = Some Directory" and "md5_repr (chunker_hasher chunker) m"
    and "0 < chunker_chunk_size chunker" and "chunker_chunk_size chunker \<le> 2 ^ 32 - 64"
    and "\<And>p. p \<in> set (directory_entries fs root) \<Longrightarrow> fs_readable fs p"
    and "visited = filter (\<lambda>p. \<not> scan_skips fs excluded p) (directory_entries fs root)"
    and "distinct (map lexically_normal visited)"
  shows "\<exists>files chunker' store. ScanDirectory Md5Hasher fs root excluded chunker MetadataStore_init =
      (Inr files, chunker', store) \<and> length files = length visited \<and>
    (\<forall>i < length visited. \<exists>data t. entry_at fs (visited ! i) = Some (RegularFile data t) \<and>
       GetFileByPath store (lexically_normal (visited ! i)) =
         (if \<exists>j. i < j \<and> j < length visited \<and>
             (\<exists>later u. entry_at fs (visited ! j) = Some (RegularFile later u) \<and> md5_hex later = md5_hex data)
          then None else Some (files ! i)))"
proof -
  let ?c = "chunker_chunk_size chunker"
  let ?files = "map (md5.scanned fs root ?c) visited"
  obtain chunker' where run: "ScanDirectory Md5Hasher fs root excluded chunker MetadataStore_init =
      (Inr ?files, chunker', fold UpsertFile ?files MetadataStore_init)"
    using md5.ScanEntries_scanned [OF assms(3,4) _ assms(2) refl,
        of "directory_entries fs root" fs excluded root MetadataStore_init "[]"] assms(1,5,6)
    by (auto simp: ScanDirectory_def fs_exists_def Let_def)
  have visit: "\<exists>data t. entry_at fs (visited ! i) = Some (RegularFile data t) \<and>
      file_file_id (?files ! i) = md5_hex data \<and> file_absolute_path (?files ! i) = lexically_normal (visited ! i)"
    if i: "i < length visited" for i
  proof -
    have "visited ! i \<in> set visited" using i by simp
    then have "is_regular_file fs (visited ! i)" unfolding assms(6) by (auto simp: scan_skips_def)
    then obtain data t where "entry_at fs (visited ! i) = Some (RegularFile data t)"
      by (auto simp: is_regular_file_def split: option.splits fnode.splits)
    then show ?thesis using i by (simp add: md5.scanned_def md5.cut_file_def)
  qed
  have "map file_absolute_path ?files = map lexically_normal visited"
    by (rule nth_equalityI) (use visit in fastforce)+
  then have paths: "distinct (map file_absolute_path ?files)" using assms(7) by (simp only:)
  have later: "file_file_id (?files ! i) \<in> file_file_id ` set (drop (Suc i) ?files) \<longleftrightarrow>
      (\<exists>j. i < j \<and> j < length visited \<and> file_file_id (?files ! j) = file_file_id (?files ! i))" for i
    using in_image_drop [of "file_file_id (?files ! i)" file_file_id i ?files] by simp
  have "\<exists>data t. entry_at fs (visited ! i) = Some (RegularFile data t) \<and>
      GetFileByPath (fold UpsertFile ?files MetadataStore_init) (lexically_normal (visited ! i)) =
        (if \<exists>j. i < j \<and> j < length visited \<and>
            (\<exists>later u. entry_at fs (visited ! j) = Some (RegularFile later u) \<and> md5_hex later = md5_hex data)
         then None else Some (?files ! i))" if i: "i < length visited" for i
  proof -
    obtain data t where d: "entry_at fs (visited ! i) = Some (RegularFile data t)"
        "file_file_id (?files ! i) = md5_hex data" "file_absolute_path (?files ! i) = lexically_normal (visited ! i)"
      using visit [OF i] by blast
    have "(\<exists>j. i < j \<and> j < length visited \<and> file_file_id (?files ! j) = file_file_id (?files ! i)) \<longleftrightarrow>
      (\<exists>j. i < j \<and> j < length visited \<and>
        (\<exists>later u. entry_at fs (visited ! j) = Some (RegularFile later u) \<and> md5_hex later = md5_hex data))"
      using visit d(2) by (metis fnode.inject(1) option.inject)
    then show ?thesis using found_by_path [OF paths, of i] i d(1,3) later [of i] by (simp del: nth_map)
  qed
  then show ?thesis using run by (intro exI [of _ ?files] exI [of _ chunker']) simp
qed

definition twin_fs :: FileSystem where
  "twin_fs = sample_fs\<lparr>fs_nodes := [((False, [''d'']), Directory), ((False, [''d'', ''f'']), RegularFile [1, 2, 3] 7),
     ((False, [''d'', ''g'']), RegularFile [1, 2, 3] 8)]\<rparr>"

lemma twin_visited:
  "filter (\<lambda>p. \<not> scan_skips twin_fs [] p) (directory_entries twin_fs ''d'') = [''d/f'', ''d/g'']"
  by (simp add: directory_entries_def scan_skips_def is_regular_file_def entry_at_def twin_fs_def sample_fs_def
      path_extension_def path_filename_def IsExcludedPath_def path_eval)

theorem scan_keeps_last_of_each_content_witness:
  "\<exists>f g chunker' store. ScanDirectory Md5Hasher twin_fs ''d'' []
       \<lparr>chunker_chunk_size = 2, chunker_hasher = Md5Hasher_new\<rparr> MetadataStore_init = (Inr [f, g], chunker', store) \<and>
     GetFileByPath store ''d/f'' = None \<and> GetFileByPath store ''d/g'' = Some g"
proof -
  let ?ck = "\<lparr>chunker_chunk_size = 2, chunker_hasher = Md5Hasher_new\<rparr>"
  have h: "md5_repr (chunker_hasher ?ck) []" by (simp add: md5_repr_new)
  have root: "entry_at twin_fs ''d'' = Some Directory" and readable: "fs_readable twin_fs p" for p
    by (simp_all add: twin_fs_def entry_at_def path_eval sample_fs_def)
  have normal: "lexically_normal ''d/f'' = ''d/f''" "lexically_normal ''d/g'' = ''d/g''" by (simp_all add: path_eval)
  have entries: "entry_at twin_fs ''d/f'' = Some (RegularFile [1, 2, 3] 7)"
    "entry_at twin_fs ''d/g'' = Some (RegularFile [1, 2, 3] 8)"
    by (simp_all add: twin_fs_def entry_at_def path_eval sample_fs_def)
  have c: "0 < chunker_chunk_size ?ck" "chunker_chunk_size ?ck \<le> 2 ^ 32 - 64" by simp_all
  have paths: "distinct (map lexically_normal [''d/f'', ''d/g''])" by (simp add: normal)
  have len2: "length [''d/f'', ''d/g''] = 2" by simp
  obtain files ck' store where run: "ScanDirectory Md5Hasher twin_fs ''d'' [] ?ck MetadataStore_init =
      (Inr files, ck', store)" and len: "length files = 2"
    and found: "\<forall>i < 2. \<exists>data t. entry_at twin_fs ([''d/f'', ''d/g''] ! i) = Some (RegularFile data t) \<and>
       GetFileByPath store (lexically_normal ([''d/f'', ''d/g''] ! i)) =
         (if \<exists>j. i < j \<and> j < 2 \<and> (\<exists>later u. entry_at twin_fs ([''d/f'', ''d/g''] ! j) =
             Some (RegularFile later u) \<and> md5_hex later = md5_hex data)
          then None else Some (files ! i))"
    using scan_keeps_last_of_each_content [OF root h c readable twin_visited [symmetric] paths] unfolding len2 by blast
  obtain f g where f: "files = [f, g]" using len by (auto simp: numeral_2_eq_2 length_Suc_conv)
  have "\<exists>j. 0 < j \<and> j < 2 \<and> (\<exists>later u. entry_at twin_fs ([''d/f'', ''d/g''] ! j) = Some (RegularFile later u) \<and>
      md5_hex later = md5_hex [1, 2, 3])"
    by (rule exI [of _ 1]) (simp add: entries)
  then have "GetFileByPath store ''d/f'' = None" using found [rule_format, of 0] entries normal by auto
  moreover have "GetFileByPath store ''d/g'' = Some g"
    using found [rule_format, of 1] normal f by (auto split: if_splits)
  ultimately show ?thesis using run f by blast
qed

end
