(* ===== verification/Storage.thy ===== *)
theory Storage
  imports Sync_Chunks
begin

text \<open>
  \<^verbatim>\<open>src/storage\<close>: the storage backends (none, mirror, FastDFS), the integrity checker and the replica
  manager. FastDFS is reached through a C interface that talks to its servers; its three functions are
  parameters.
\<close>

section \<open>Backends\<close>

datatype StorageBackend = NullStorageBackend | MirrorStorageBackend path | LegacyFastDfsStorageBackend

text \<open>The functions of \<^verbatim>\<open>fdfs_api.h\<close>; \<open>None\<close> is a non-zero return code.\<close>

record FdfsApi =
  fdfs_upload_file :: "FileSystem \<Rightarrow> path \<Rightarrow> string option"
  fdfs_make_file_url :: "string \<Rightarrow> string option"
  fdfs_download_file :: "string \<Rightarrow> path \<Rightarrow> FileSystem \<Rightarrow> FileSystem option"

text \<open>A concrete client whose server is never reachable.\<close>

definition offline_api :: FdfsApi where
  "offline_api = \<lparr>fdfs_upload_file = (\<lambda>_ _. None), fdfs_make_file_url = (\<lambda>_. None),
     fdfs_download_file = (\<lambda>_ _ _. None)\<rparr>"

fun backend_Name :: "StorageBackend \<Rightarrow> string" where
  "backend_Name NullStorageBackend = ''none''"
| "backend_Name (MirrorStorageBackend root) = ''mirror''"
| "backend_Name LegacyFastDfsStorageBackend = ''fastdfs''"

definition Null_StoreFile ::
  "u64 \<Rightarrow> FileRecord \<Rightarrow> path \<Rightarrow> FileSystem \<Rightarrow> StoredObjectRecord result \<times> FileSystem" where
  "Null_StoreFile now f local_path fs =
     (Inr (StoredObjectRecord_init\<lparr>stored_file_id := file_file_id f, stored_backend_name := ''none'',
        stored_storage_key := file_file_id f, stored_source_path := lexically_normal local_path,
        stored_stored_at_epoch := now\<rparr>), fs)"

definition restore_copy :: "path \<Rightarrow> path \<Rightarrow> FileSystem \<Rightarrow> unit result \<times> FileSystem" where
  "restore_copy source target_path fs =
     (case create_directories (parent_path target_path) fs of
        Inl e \<Rightarrow> (Inl e, fs)
      | Inr fs \<Rightarrow> (case copy_file source target_path fs of Inl e \<Rightarrow> (Inl e, fs) | Inr fs \<Rightarrow> (Inr (), fs)))"

definition Null_RestoreFile ::
  "StoredObjectRecord \<Rightarrow> path \<Rightarrow> FileSystem \<Rightarrow> unit result \<times> FileSystem" where
  "Null_RestoreFile r target_path fs =
     (if stored_source_path r = [] then
        (throw (RuntimeError ''none backend cannot restore without source path''), fs)
      else restore_copy (stored_source_path r) target_path fs)"

definition Mirror_StoreFile ::
  "path \<Rightarrow> u64 \<Rightarrow> FileRecord \<Rightarrow> path \<Rightarrow> FileSystem \<Rightarrow> StoredObjectRecord result \<times> FileSystem" where
  "Mirror_StoreFile root now f local_path fs =
     (if root = [] then (throw (RuntimeError ''mirror backend requires a destination root''), fs)
      else
        let target_dir = path_append root (take 2 (file_file_id f))
        in case create_directories target_dir fs of
             Inl e \<Rightarrow> (Inl e, fs)
           | Inr fs \<Rightarrow>
               let target_path = path_append target_dir (file_file_id f);
                   ext = path_extension local_path;
                   target_path = (if ext \<noteq> [] then target_path @ ext else target_path)
               in case copy_file local_path target_path fs of
                    Inl e \<Rightarrow> (Inl e, fs)
                  | Inr fs \<Rightarrow>
                      (Inr \<lparr>stored_file_id = file_file_id f, stored_backend_name = ''mirror'',
                         stored_storage_key = lexically_normal target_path,
                         stored_access_url = lexically_normal target_path,
                         stored_source_path = lexically_normal local_path,
                         stored_stored_at_epoch = now\<rparr>, fs))"

definition Mirror_RestoreFile ::
  "StoredObjectRecord \<Rightarrow> path \<Rightarrow> FileSystem \<Rightarrow> unit result \<times> FileSystem" where
  "Mirror_RestoreFile r target_path fs =
     (if stored_storage_key r = [] then
        (throw (RuntimeError ''mirror backend restore requires storage key''), fs)
      else restore_copy (stored_storage_key r) target_path fs)"

definition FastDfs_StoreFile ::
  "FdfsApi \<Rightarrow> u64 \<Rightarrow> FileRecord \<Rightarrow> path \<Rightarrow> FileSystem \<Rightarrow> StoredObjectRecord result \<times> FileSystem" where
  "FastDfs_StoreFile api now f local_path fs =
     (case fdfs_upload_file api fs local_path of
        None \<Rightarrow> (throw (RuntimeError (''failed to upload file into FastDFS: '' @ local_path)), fs)
      | Some fileid \<Rightarrow>
          (case fdfs_make_file_url api fileid of
             None \<Rightarrow> (throw (RuntimeError (''failed to build FastDFS file url for: '' @ fileid)), fs)
           | Some file_url \<Rightarrow>
               (Inr \<lparr>stored_file_id = file_file_id f, stored_backend_name = ''fastdfs'',
                  stored_storage_key = fileid, stored_access_url = file_url,
                  stored_source_path = lexically_normal local_path, stored_stored_at_epoch = now\<rparr>, fs)))"

definition FastDfs_RestoreFile ::
  "FdfsApi \<Rightarrow> StoredObjectRecord \<Rightarrow> path \<Rightarrow> FileSystem \<Rightarrow> unit result \<times> FileSystem" where
  "FastDfs_RestoreFile api r target_path fs =
     (if stored_storage_key r = [] then
        (throw (RuntimeError ''fastdfs restore requires storage key''), fs)
      else case create_directories (parent_path target_path) fs of
        Inl e \<Rightarrow> (Inl e, fs)
      | Inr fs \<Rightarrow>
          (case fdfs_download_file api (stored_storage_key r) (lexically_normal target_path) fs of
             None \<Rightarrow>
               (throw (RuntimeError (''failed to restore file from FastDFS: '' @ stored_storage_key r)), fs)
           | Some fs \<Rightarrow> (Inr (), fs)))"

fun StoreFile ::
  "FdfsApi \<Rightarrow> StorageBackend \<Rightarrow> u64 \<Rightarrow> FileRecord \<Rightarrow> path \<Rightarrow> FileSystem \<Rightarrow>
   StoredObjectRecord result \<times> FileSystem"
where
  "StoreFile api NullStorageBackend now f p fs = Null_StoreFile now f p fs"
| "StoreFile api (MirrorStorageBackend root) now f p fs = Mirror_StoreFile root now f p fs"
| "StoreFile api LegacyFastDfsStorageBackend now f p fs = FastDfs_StoreFile api now f p fs"

fun RestoreFile ::
  "FdfsApi \<Rightarrow> StorageBackend \<Rightarrow> StoredObjectRecord \<Rightarrow> path \<Rightarrow> FileSystem \<Rightarrow> unit result \<times> FileSystem"
where
  "RestoreFile api NullStorageBackend r p fs = Null_RestoreFile r p fs"
| "RestoreFile api (MirrorStorageBackend root) r p fs = Mirror_RestoreFile r p fs"
| "RestoreFile api LegacyFastDfsStorageBackend r p fs = FastDfs_RestoreFile api r p fs"

definition CreateStorageBackend :: "string \<Rightarrow> string \<Rightarrow> StorageBackend result" where
  "CreateStorageBackend backend_name backend_arg =
     (if backend_name = [] \<or> backend_name = ''none'' then Inr NullStorageBackend
      else if backend_name = ''mirror'' then Inr (MirrorStorageBackend backend_arg)
      else if backend_name = ''fastdfs'' then Inr LegacyFastDfsStorageBackend
      else throw (RuntimeError (''unknown storage backend: '' @ backend_name)))"

lemma copy_file_Inr:
  assumes "copy_file a b fs = Inr fs'" and "open_read fs a = Some data"
  shows "b \<noteq> []" and "entry_key a \<noteq> entry_key b" and "entry_at fs' b = Some (RegularFile data (fs_now fs))"
    and "entry_key q \<noteq> entry_key b \<Longrightarrow> entry_at fs' q = entry_at fs q"
    and "fs_readable fs' = fs_readable fs"
proof -
  have c: "b \<noteq> []" "entry_key a \<noteq> entry_key b" "entry_at fs b \<noteq> Some Directory"
    and fs': "fs' = set_entry b (RegularFile data (fs_now fs)) fs"
    using assms by (auto simp: copy_file_def split: if_splits)
  show "b \<noteq> []" "entry_key a \<noteq> entry_key b" by (rule c)+
  have "snd (entry_key b) \<noteq> []" using c by (auto simp: entry_at_def split: if_splits)
  then show "entry_at fs' b = Some (RegularFile data (fs_now fs))" using c(1) by (simp add: fs')
  show "entry_key q \<noteq> entry_key b \<Longrightarrow> entry_at fs' q = entry_at fs q"
    by (simp add: fs' entry_at_set_other)
  show "fs_readable fs' = fs_readable fs" by (simp add: fs')
qed

lemma copy_file_source: "copy_file a b fs = Inr fs' \<Longrightarrow> \<exists>data. open_read fs a = Some data"
  by (auto simp: copy_file_def split: option.splits)

lemma restore_copy_content:
  assumes "restore_copy source target fs = (Inr (), fs')" and "open_read fs source = Some data"
  shows "\<exists>t. entry_at fs' target = Some (RegularFile data t)"
proof -
  obtain fs1 where d: "create_directories (parent_path target) fs = Inr fs1"
    and c: "copy_file source target fs1 = Inr fs'"
    using assms(1) by (auto simp: restore_copy_def split: sum.splits)
  have "open_read fs1 source = Some data"
    using open_read_create_directories [OF d] assms(2) by simp
  then show ?thesis using copy_file_Inr(3) [OF c] by blast
qed

text \<open>
  What the mirror backend stores it can restore. After a successful store of a readable file, the
  copy is named after the file id under the first two characters of it, the original is unchanged, and
  restoring the returned record to another place, if it succeeds, puts exactly the stored bytes there.
\<close>

lemma mirror_store_restore:
  assumes "Mirror_StoreFile root now f p fs = (Inr r, fs1)"
    and "fs_readable fs1 (stored_storage_key r)"
    and "RestoreFile api (MirrorStorageBackend root') r target fs1 = (Inr (), fs2)"
  shows "\<exists>data t. open_read fs p = Some data \<and> open_read fs1 (stored_storage_key r) = Some data \<and>
    entry_at fs2 target = Some (RegularFile data t) \<and> stored_file_id r = file_file_id f \<and>
    stored_storage_key r = lexically_normal (path_append (path_append root (take 2 (file_file_id f)))
      (file_file_id f) @ path_extension p)"
proof -
  define target_path where
    "target_path = path_append (path_append root (take 2 (file_file_id f))) (file_file_id f) @ path_extension p"
  obtain fs0 where d: "create_directories (path_append root (take 2 (file_file_id f))) fs = Inr fs0"
    and c: "copy_file p target_path fs0 = Inr fs1" and r: "stored_file_id r = file_file_id f"
      "stored_storage_key r = lexically_normal target_path"
    using assms(1)
    by (auto simp: Mirror_StoreFile_def Let_def target_path_def split: if_splits sum.splits)
  obtain data where data: "open_read fs0 p = Some data" using copy_file_source [OF c] by blast
  have "entry_at fs1 (stored_storage_key r) = Some (RegularFile data (fs_now fs0))"
    using copy_file_Inr(1,3) [OF c data] by (simp add: r)
  then have stored: "open_read fs1 (stored_storage_key r) = Some data"
    using assms(2) by (simp add: open_read_eq)
  have "restore_copy (stored_storage_key r) target fs1 = (Inr (), fs2)"
    using assms(3) by (simp add: Mirror_RestoreFile_def split: if_splits)
  from restore_copy_content [OF this stored] show ?thesis
    using stored data r open_read_create_directories [OF d] by (auto simp: target_path_def)
qed

lemma mirror_store_restore_example:
  "\<exists>r fs1 fs2 t. Mirror_StoreFile ''m'' 5 (FileRecord_init\<lparr>file_file_id := ''abc''\<rparr>) ''d/f'' sample_fs = (Inr r, fs1) \<and>
     RestoreFile offline_api (MirrorStorageBackend ''m'') r ''d/g'' fs1 = (Inr (), fs2) \<and>
     entry_at fs2 ''d/g'' = Some (RegularFile [1, 2, 3] t)"
proof -
  let ?f = "FileRecord_init\<lparr>file_file_id := ''abc''\<rparr>"
  let ?fs0 = "sample_fs\<lparr>fs_nodes := fs_nodes sample_fs @ [((False, [''m'']), Directory), ((False, [''m'', ''ab'']), Directory)]\<rparr>"
  have dirs: "create_directories ''m/ab'' sample_fs = Inr ?fs0"
    by (simp add: create_directories_def directory_keys_def make_directories_def path_eval sample_fs_def)
  obtain fs1 where copy: "copy_file ''d/f'' ''m/ab/abc'' ?fs0 = Inr fs1"
    and read: "fs_readable fs1 = (\<lambda>_. True)"
    and dirs': "create_directories ''d'' fs1 = Inr fs1"
    and copy': "\<exists>fs2. copy_file ''m/ab/abc'' ''d/g'' fs1 = Inr fs2"
    by (simp add: copy_file_def open_read_def entry_at_def set_entry_def parent_exists_def
        create_directories_def directory_keys_def make_directories_def path_eval sample_fs_def)
  obtain r where store: "Mirror_StoreFile ''m'' 5 ?f ''d/f'' sample_fs = (Inr r, fs1)"
    and key: "stored_storage_key r = ''m/ab/abc''"
    using dirs copy by (simp add: Mirror_StoreFile_def path_eval Let_def)
  obtain fs2 where restore: "RestoreFile offline_api (MirrorStorageBackend ''m'') r ''d/g'' fs1 = (Inr (), fs2)"
    using copy' dirs' by (auto simp: Mirror_RestoreFile_def restore_copy_def key path_eval)
  have "\<exists>t. entry_at fs2 ''d/g'' = Some (RegularFile [1, 2, 3] t)"
    using mirror_store_restore [OF store _ restore] by (simp add: read)
  then show ?thesis using store restore by blast
qed

section \<open>Integrity checker\<close>

definition VerifyFile :: "FileRecord \<Rightarrow> path \<Rightarrow> FileSystem \<Rightarrow> Status result" where
  "VerifyFile f p fs =
     (if \<not> fs_exists fs p then Inr (Status_Error kNotFound ''file path does not exist'')
      else case file_size_of fs p of
        Inl _ \<Rightarrow> Inr (Status_Error kInternalError ''failed to stat file'')
      | Inr n \<Rightarrow>
          if n \<noteq> file_size f then
            Inr (Status_Error kInvalidArgument ''file size does not match metadata'')
          else
            let chunker = \<lparr>chunker_chunk_size = default_chunk_size, chunker_hasher = Md5Hasher_new\<rparr>
            in bind_result (BuildFileRecord Md5Hasher chunker fs p (parent_path p)) (\<lambda>(rebuilt, _).
                 if file_root_hash rebuilt \<noteq> file_root_hash f then
                   Inr (Status_Error kInvalidArgument ''file hash does not match metadata'')
                 else Inr Status_Ok))"

lemma BuildFileRecord_default:
  assumes "open_read fs p = Some data"
  shows "\<exists>t chunker'. entry_at fs p = Some (RegularFile data t) \<and>
    BuildFileRecord Md5Hasher \<lparr>chunker_chunk_size = default_chunk_size, chunker_hasher = Md5Hasher_new\<rparr> fs p root =
      Inr (md5.cut_file p root default_chunk_size data t, chunker')"
  using md5.BuildFileRecord_cut [of "\<lparr>chunker_chunk_size = default_chunk_size, chunker_hasher = Md5Hasher_new\<rparr>"
      "[]" default_chunk_size fs p data root] assms md5_repr_new
  by (auto simp: default_chunk_size_def)

text \<open>
  The integrity check accepts a file exactly when it is the recorded one: for a readable file the
  answer is Ok if and only if size and MD5 of its content are those of the record; a missing path is
  reported as not found and a directory as an internal error.
\<close>

lemma verify_file_exact:
  "(entry_at fs p = None \<longrightarrow> VerifyFile f p fs = Inr (Status_Error kNotFound ''file path does not exist'')) \<and>
   (entry_at fs p = Some Directory \<longrightarrow>
      VerifyFile f p fs = Inr (Status_Error kInternalError ''failed to stat file'')) \<and>
   (\<forall>data. open_read fs p = Some data \<longrightarrow>
      (VerifyFile f p fs = Inr Status_Ok \<longleftrightarrow>
         word_of_nat (length data) = file_size f \<and> md5_hex data = file_root_hash f))"
proof (intro conjI allI impI)
  fix data
  assume data: "open_read fs p = Some data"
  obtain t ck where e: "entry_at fs p = Some (RegularFile data t)" and
    b: "BuildFileRecord Md5Hasher \<lparr>chunker_chunk_size = default_chunk_size, chunker_hasher = Md5Hasher_new\<rparr> fs p
      (parent_path p) = Inr (md5.cut_file p (parent_path p) default_chunk_size data t, ck)"
    using BuildFileRecord_default [OF data] by blast
  show "VerifyFile f p fs = Inr Status_Ok \<longleftrightarrow>
      word_of_nat (length data) = file_size f \<and> md5_hex data = file_root_hash f"
    by (simp add: VerifyFile_def fs_exists_def file_size_of_def e b Let_def md5.cut_file_def)
qed (simp_all add: VerifyFile_def fs_exists_def file_size_of_def)

lemma verify_file_exact_example:
  "VerifyFile (FileRecord_init\<lparr>file_size := 3, file_root_hash := md5_hex [1, 2, 3]\<rparr>) ''d/f'' sample_fs =
     Inr Status_Ok"
  using verify_file_exact [of sample_fs "''d/f''"
      "FileRecord_init\<lparr>file_size := 3, file_root_hash := md5_hex [1, 2, 3]\<rparr>"] by simp

section \<open>Replica manager\<close>

type_synonym ReplicaManager = "ReplicaRecord list"

definition replica_key :: "ReplicaRecord \<Rightarrow> string \<times> string" where
  "replica_key r = (replica_chunk_hash r, replica_node_id r)"

definition RecordReplica :: "ReplicaRecord \<Rightarrow> ReplicaManager \<Rightarrow> Status \<times> ReplicaManager" where
  "RecordReplica r rs =
     (Status_Ok, upsert_by (\<lambda>current. replica_chunk_hash current = replica_chunk_hash r \<and>
        replica_node_id current = replica_node_id r) r rs)"

definition UpdateReplicaState ::
  "string \<Rightarrow> string \<Rightarrow> ReplicaStatus \<Rightarrow> ReplicaManager \<Rightarrow> Status \<times> ReplicaManager" where
  "UpdateReplicaState hash node_id status rs =
     (case update_first (\<lambda>r. replica_chunk_hash r = hash \<and> replica_node_id r = node_id)
             (\<lambda>r. r\<lparr>replica_status := status\<rparr>) rs of
        Some rs' \<Rightarrow> (Status_Ok, rs')
      | None \<Rightarrow> (Status_Error kNotFound ''replica not found'', rs))"

definition ListReplicasForChunk :: "ReplicaManager \<Rightarrow> string \<Rightarrow> ReplicaRecord list" where
  "ListReplicasForChunk rs hash = filter (\<lambda>r. replica_chunk_hash r = hash) rs"

definition find_replica :: "ReplicaManager \<Rightarrow> string \<times> string \<Rightarrow> ReplicaRecord option" where
  "find_replica rs k = find (\<lambda>r. replica_key r = k) rs"

lemma RecordReplica_key:
  "RecordReplica r rs = (Status_Ok, upsert_by (\<lambda>y. replica_key y = replica_key r) r rs)"
  by (simp add: RecordReplica_def replica_key_def)

interpretation replicas: keyed_table replica_key "\<lambda>rs. rs" find_replica
    "\<lambda>r rs. snd (RecordReplica r rs)" "\<lambda>rs. distinct (map replica_key rs)"
  by unfold_locales
    (simp_all add: RecordReplica_key find_replica_def find_upsert_by_key find_key_unique distinct_upsert_by_key)

inductive replica_reach :: "ReplicaManager \<Rightarrow> bool" where
  empty_manager: "replica_reach []"
| recorded: "replica_reach rs \<Longrightarrow> RecordReplica r rs = (s, rs') \<Longrightarrow> replica_reach rs'"
| update: "replica_reach rs \<Longrightarrow> UpdateReplicaState h n st rs = (s, rs') \<Longrightarrow> replica_reach rs'"

lemma update_first_keys:
  "update_first m f rs = Some rs' \<Longrightarrow> (\<And>r. key (f r) = key r) \<Longrightarrow> map key rs' = map key rs"
  by (induction rs arbitrary: rs') (auto split: if_splits)

lemma replica_reach_distinct: "replica_reach rs \<Longrightarrow> distinct (map replica_key rs)"
proof (induction rule: replica_reach.induct)
  case (recorded rs r s rs')
  then show ?case using replicas.inv_upsert [of rs r] by simp
next
  case (update rs h n st s rs')
  have "replica_key (r\<lparr>replica_status := st\<rparr>) = replica_key r" for r by (simp add: replica_key_def)
  with update show ?case
    using update_first_keys [of _ "\<lambda>r. r\<lparr>replica_status := st\<rparr>" rs rs' replica_key]
    by (auto simp: UpdateReplicaState_def split: option.splits)
qed simp

text \<open>
  A chunk has at most one replica record per node, whatever was recorded and updated before; a state
  update succeeds exactly for a recorded replica, and then changes the state of that replica alone.
\<close>

lemma replica_manager_consistent:
  assumes "replica_reach rs"
  shows "distinct (map replica_node_id (ListReplicasForChunk rs h)) \<and>
    (status_ok (fst (UpdateReplicaState h n st rs)) \<longleftrightarrow>
       (\<exists>r \<in> set (ListReplicasForChunk rs h). replica_node_id r = n)) \<and>
    find_replica (snd (UpdateReplicaState h n st rs)) k =
      (if k = (h, n) then map_option (\<lambda>r. r\<lparr>replica_status := st\<rparr>) (find_replica rs k)
       else find_replica rs k)"
proof -
  have d: "distinct (map replica_key rs)" by (rule replica_reach_distinct [OF assms])
  then have "distinct (map replica_node_id (ListReplicasForChunk rs h))"
    by (auto simp: ListReplicasForChunk_def distinct_map replica_key_def inj_on_def)
  moreover have m: "(\<lambda>r. replica_chunk_hash r = h \<and> replica_node_id r = n) = (\<lambda>r. replica_key r = (h, n))"
    by (auto simp: replica_key_def)
  have "status_ok (fst (UpdateReplicaState h n st rs)) \<longleftrightarrow>
       (\<exists>r \<in> set (ListReplicasForChunk rs h). replica_node_id r = n)"
    using update_first_None [of "\<lambda>r. replica_chunk_hash r = h \<and> replica_node_id r = n"
        "\<lambda>r. r\<lparr>replica_status := st\<rparr>" rs]
    by (cases "update_first (\<lambda>r. replica_chunk_hash r = h \<and> replica_node_id r = n)
          (\<lambda>r. r\<lparr>replica_status := st\<rparr>) rs")
      (auto simp: UpdateReplicaState_def ListReplicasForChunk_def)
  moreover have "find_replica (snd (UpdateReplicaState h n st rs)) k =
      (if k = (h, n) then map_option (\<lambda>r. r\<lparr>replica_status := st\<rparr>) (find_replica rs k)
       else find_replica rs k)"
  proof (cases "update_first (\<lambda>r. replica_key r = (h, n)) (\<lambda>r. r\<lparr>replica_status := st\<rparr>) rs")
    case None
    then have "find (\<lambda>r. replica_key r = (h, n)) rs = None" by (auto simp: update_first_None find_None_iff)
    then show ?thesis using None by (simp add: UpdateReplicaState_def m find_replica_def)
  next
    case (Some rs')
    moreover have "replica_key (r\<lparr>replica_status := st\<rparr>) = replica_key r" for r
      by (simp add: replica_key_def)
    ultimately show ?thesis
      using update_first_find [where key = replica_key and f = "\<lambda>r. r\<lparr>replica_status := st\<rparr>"
          and k = "(h, n)" and ys = rs and zs = rs' and j = k]
      by (simp add: UpdateReplicaState_def m find_replica_def)
  qed
  ultimately show ?thesis by blast
qed

lemma replica_manager_consistent_example:
  "let r = ReplicaRecord_init\<lparr>replica_chunk_hash := ''h'', replica_node_id := ''n''\<rparr>;
       rs = snd (RecordReplica r [])
   in find_replica (snd (UpdateReplicaState ''h'' ''n'' ReplicaMissing rs)) (''h'', ''n'') =
        Some (r\<lparr>replica_status := ReplicaMissing\<rparr>)"
proof -
  let ?r = "ReplicaRecord_init\<lparr>replica_chunk_hash := ''h'', replica_node_id := ''n''\<rparr>"
  have "replica_reach [?r]"
    by (rule replica_reach.recorded [OF replica_reach.empty_manager, of ?r]) (simp add: RecordReplica_def)
  from replica_manager_consistent [OF this, of "''h''" "''n''" ReplicaMissing "(''h'', ''n'')"]
  show ?thesis by (simp add: RecordReplica_def find_replica_def replica_key_def)
qed

end
