(* ===== verification/Sync_Session.thy ===== *)
theory Sync_Session
  imports Sync_Diff Sync_Writer Sync_Scanner Storage
begin

text \<open>
  The sync program \<^verbatim>\<open>apps/sync_v1/main.cpp\<close>: the serving side answers requests for chunks from its files;
  the receiving side plans every file of the comparison (resuming an interrupted transfer when its
  recorded chunks are a prefix), rebuilds the file from received and local chunks, verifies, commits and
  records it. A frame sent and a frame received are lists; the connection is the subject of \<open>Transport\<close>.
\<close>

section \<open>Helpers\<close>

definition BuildLocalChunkMap :: "FileRecord option \<Rightarrow> u32 \<rightharpoonup> ChunkRecord" where
  "BuildLocalChunkMap f =
     (case f of None \<Rightarrow> Map.empty
      | Some f \<Rightarrow>
          foldl (\<lambda>m c. if m (chunk_index c) = None then m(chunk_index c \<mapsto> c) else m) Map.empty (file_chunks f))"

definition MakeTaskId :: "MissingChunksRequest \<Rightarrow> string" where
  "MakeTaskId r = request_file_id r @ ''|'' @ request_relative_path r"

definition ToTaskChunk :: "string \<Rightarrow> string \<Rightarrow> ChunkManifestEntry \<Rightarrow> SyncTaskChunk" where
  "ToTaskChunk task_id file_id c =
     \<lparr>taskchunk_task_id = task_id, taskchunk_file_id = file_id, taskchunk_index = mchunk_index c,
      taskchunk_offset = mchunk_offset c, taskchunk_size = mchunk_size c, taskchunk_hash = mchunk_hash c\<rparr>"

definition chunk_completed :: "(u32 \<rightharpoonup> SyncTaskChunk) \<Rightarrow> ChunkManifestEntry \<Rightarrow> bool" where
  "chunk_completed by_index c \<longleftrightarrow>
     (case by_index (mchunk_index c) of
        None \<Rightarrow> False
      | Some t \<Rightarrow> taskchunk_hash t = mchunk_hash c \<and> taskchunk_size t = mchunk_size c \<and>
          taskchunk_offset t = mchunk_offset c)"

fun count_prefix :: "(u32 \<rightharpoonup> SyncTaskChunk) \<Rightarrow> ChunkManifestEntry list \<Rightarrow> u32 \<Rightarrow> u32" where
  "count_prefix by_index [] prefix = prefix"
| "count_prefix by_index (c # cs) prefix =
     (if chunk_completed by_index c then count_prefix by_index cs (prefix + 1) else prefix)"

definition ComputeResumePrefixCount :: "SyncTaskChunk list \<Rightarrow> ChunkManifestEntry list \<Rightarrow> u32" where
  "ComputeResumePrefixCount completed_chunks remote_chunks =
     count_prefix
       (foldl (\<lambda>m c. if m (taskchunk_index c) = None then m(taskchunk_index c \<mapsto> c) else m)
         Map.empty completed_chunks)
       remote_chunks 0"

fun prefix_bytes :: "u32 \<Rightarrow> ChunkManifestEntry list \<Rightarrow> u64 \<Rightarrow> u64" where
  "prefix_bytes prefix_count [] acc = acc"
| "prefix_bytes prefix_count (c # cs) acc =
     (if prefix_count \<le> mchunk_index c then acc else prefix_bytes prefix_count cs (acc + mchunk_size c))"

definition ComputePrefixBytes :: "ChunkManifestEntry list \<Rightarrow> u32 \<Rightarrow> u64" where
  "ComputePrefixBytes remote_chunks prefix_count = prefix_bytes prefix_count remote_chunks 0"

definition TrimCompletedChunks :: "MissingChunksRequest \<Rightarrow> u32 \<Rightarrow> MissingChunksRequest" where
  "TrimCompletedChunks r resume_prefix_count =
     r\<lparr>request_missing_chunks := filter (\<lambda>c. resume_prefix_count \<le> mchunk_index c) (request_missing_chunks r)\<rparr>"

definition FindRemoteFile :: "ManifestFile list \<Rightarrow> string \<Rightarrow> string \<Rightarrow> ManifestFile option" where
  "FindRemoteFile manifest file_id relative_path =
     find (\<lambda>f. mentry_file_id (mfile_summary f) = file_id \<and>
       mentry_relative_path (mfile_summary f) = relative_path) manifest"

text \<open>
  \<open>connect k\<close> is the outcome of the \<open>k\<close>-th attempt. Only runtime errors are caught; the delay between
  attempts has no effect on the result.
\<close>

fun connect_loop :: "(nat \<Rightarrow> 'e result) \<Rightarrow> nat \<Rightarrow> nat \<Rightarrow> exn \<Rightarrow> 'e result" where
  "connect_loop connect attempt 0 last_error = throw last_error"
| "connect_loop connect attempt (Suc left) last_error =
     (case connect attempt of
        Inr e \<Rightarrow> Inr e
      | Inl (RuntimeError m) \<Rightarrow> connect_loop connect (attempt + 1) left (RuntimeError m)
      | Inl e \<Rightarrow> Inl e)"

definition ConnectWithRetry :: "(nat \<Rightarrow> 'e result) \<Rightarrow> int \<Rightarrow> 'e result" where
  "ConnectWithRetry connect attempts =
     connect_loop connect 0 (nat attempts) (RuntimeError ''connect retry exhausted'')"

section \<open>Server\<close>

fun ServeChunks ::
  "'h IHasher \<Rightarrow> 'h \<Rightarrow> FileSystem \<Rightarrow> path \<Rightarrow> string \<Rightarrow> ChunkManifestEntry list \<Rightarrow>
   MessageFrame list \<times> unit result"
where
  "ServeChunks ops h fs p file_id [] = ([], Inr ())"
| "ServeChunks ops h fs p file_id (c # cs) =
     (case ReadAndVerify ops h fs p c of
        Inl e \<Rightarrow> ([], Inl e)
      | Inr data \<Rightarrow>
          let response = \<lparr>data_header = \<lparr>header_file_id = file_id, header_chunk_hash = mchunk_hash c,
                header_chunk_index = mchunk_index c, header_offset = mchunk_offset c,
                header_payload_size = word_of_nat (length data)\<rparr>,
                data_payload_bytes = map char_of_byte data\<rparr>;
              (frames, r) = ServeChunks ops h fs p file_id cs
          in (EncodeChunkData response # frames, r))"

definition source_paths :: "FileRecord list \<Rightarrow> string \<rightharpoonup> path" where
  "source_paths remote_files =
     foldl (\<lambda>m f. m(file_file_id f \<mapsto> file_absolute_path f)) Map.empty remote_files"

text \<open>The answer to a request frame: the frames sent, and the exception that ends the server, if any.\<close>

definition ServeRequest ::
  "'h IHasher \<Rightarrow> 'h \<Rightarrow> FileSystem \<Rightarrow> ManifestFile list \<Rightarrow> (string \<rightharpoonup> path) \<Rightarrow> MessageFrame \<Rightarrow>
   MessageFrame list \<times> unit result"
where
  "ServeRequest ops h fs manifest paths frame =
     (case DecodeMissingChunksRequest frame of
        Inl e \<Rightarrow> ([], Inl e)
      | Inr r \<Rightarrow>
          (case FindRemoteFile manifest (request_file_id r) (request_relative_path r) of
             None \<Rightarrow> ([EncodeError \<lparr>err_detail = ''unknown file in missing chunk request''\<rparr>], Inr ())
           | Some _ \<Rightarrow>
               (case paths (request_file_id r) of
                  None \<Rightarrow> ([EncodeError \<lparr>err_detail = ''missing source path for file request''\<rparr>], Inr ())
                | Some p \<Rightarrow> ServeChunks ops h fs p (request_file_id r) (request_missing_chunks r))))"

text \<open>The receive loop: it ends with an acknowledgement, with the connection, or with an exception.\<close>

fun ServeLoop ::
  "'h IHasher \<Rightarrow> 'h \<Rightarrow> FileSystem \<Rightarrow> ManifestFile list \<Rightarrow> (string \<rightharpoonup> path) \<Rightarrow> MessageFrame list \<Rightarrow>
   MessageFrame list \<times> unit result"
where
  "ServeLoop ops h fs manifest paths [] = ([], Inr ())"
| "ServeLoop ops h fs manifest paths (frame # frames) =
     (if frame_type frame = message_code kMissingChunksRequest then
        (case ServeRequest ops h fs manifest paths frame of
           (sent, Inl e) \<Rightarrow> (sent, Inl e)
         | (sent, Inr _) \<Rightarrow>
             let (sent', r) = ServeLoop ops h fs manifest paths frames in (sent @ sent', r))
      else if frame_type frame = message_code kSyncAck then
        (case DecodeSyncAck frame of Inl e \<Rightarrow> ([], Inl e) | Inr _ \<Rightarrow> ([], Inr ()))
      else ServeLoop ops h fs manifest paths frames)"

definition RunServer ::
  "'h IHasher \<Rightarrow> 'h \<Rightarrow> FileSystem \<Rightarrow> path \<Rightarrow> MetadataStore \<Rightarrow> MessageFrame list \<Rightarrow>
   MessageFrame list \<times> unit result \<times> MetadataStore"
where
  "RunServer ops h fs remote_root remote_store inbox =
     (case ScanDirectory ops fs remote_root []
             \<lparr>chunker_chunk_size = 4 * 1024 * 1024, chunker_hasher = h\<rparr> remote_store of
        (Inl e, _, remote_store) \<Rightarrow> ([], Inl e, remote_store)
      | (Inr _, _, remote_store) \<Rightarrow>
          let remote_files = ListFiles remote_store;
              manifest = BuildManifest remote_files;
              hello = EncodeHello \<lparr>hello_node_id = ''remote-node'',
                hello_device_name = ''yun-cunchu-v1-server'', hello_protocol_version = ''1.0''\<rparr>;
              (sent, r) = ServeLoop ops h fs manifest (source_paths remote_files) inbox
          in (hello # EncodeManifestSummary manifest # sent, r, remote_store))"

section \<open>Client\<close>

text \<open>The first part of the work on a request: the task record, the resume prefix, what is asked for.\<close>

definition PlanFile ::
  "path \<Rightarrow> ManifestFile \<Rightarrow> MissingChunksRequest \<Rightarrow> MetadataStore \<Rightarrow>
   SyncTask \<times> u32 \<times> u64 \<times> MissingChunksRequest \<times> MetadataStore"
where
  "PlanFile final_path remote_file r store =
     (let task_id = MakeTaskId r;
          task = (case GetTask store task_id of Some t \<Rightarrow> t | None \<Rightarrow> SyncTask_init);
          task = task\<lparr>synctask_task_id := task_id, synctask_source_node := ''remote-node'',
            synctask_target_node := ''local-node'', synctask_file_id := request_file_id r,
            synctask_relative_path := request_relative_path r,
            synctask_expected_root_hash := request_expected_root_hash r,
            synctask_temp_path := final_path @ ''.part'',
            synctask_total_chunks := word_of_nat (length (mfile_chunks remote_file)),
            synctask_state := SyncRunning, synctask_error_message := []\<rparr>;
          store = UpsertTask task store;
          completed_chunks = ListTaskChunks store task_id;
          resume_prefix_count = ComputeResumePrefixCount completed_chunks (mfile_chunks remote_file);
          expected_prefix_bytes = ComputePrefixBytes (mfile_chunks remote_file) resume_prefix_count
      in (task, resume_prefix_count, expected_prefix_bytes, TrimCompletedChunks r resume_prefix_count, store))"

text \<open>Receiving as many chunk messages as were asked for; \<open>emplace\<close> keeps the first of an index.\<close>

fun ReceiveChunks ::
  "nat \<Rightarrow> MessageFrame list \<Rightarrow> (u32 \<rightharpoonup> bytes) \<Rightarrow> (u32 \<rightharpoonup> bytes) result \<times> MessageFrame list"
where
  "ReceiveChunks 0 inbox received = (Inr received, inbox)"
| "ReceiveChunks (Suc n) [] received = (throw (RuntimeError ''client failed to receive chunk data''), [])"
| "ReceiveChunks (Suc n) (frame # inbox) received =
     (if frame_type frame = message_code kError then
        (bind_result (DecodeError frame) (\<lambda>m. throw (RuntimeError (err_detail m))), inbox)
      else case DecodeChunkData frame of
        Inl e \<Rightarrow> (Inl e, inbox)
      | Inr m \<Rightarrow>
          let index = header_chunk_index (data_header m)
          in ReceiveChunks n inbox
               (if received index = None
                then received(index \<mapsto> map byte_of_char (data_payload_bytes m)) else received))"

text \<open>Opening the part file: resumed when its length fits the recorded prefix, otherwise started over.\<close>

definition OpenPart ::
  "'h IHasher \<Rightarrow> 'h \<Rightarrow> path \<Rightarrow> SyncTask \<Rightarrow> u32 \<Rightarrow> u64 \<Rightarrow> FileSystem \<Rightarrow> MetadataStore \<Rightarrow>
   u32 result \<times> 'h SyncWriter \<times> FileSystem \<times> MetadataStore \<times> SyncTask"
where
  "OpenPart ops h final_path task resume_prefix_count expected_prefix_bytes fs store =
     (let w = SyncWriter_new h; task_id = synctask_task_id task;
          start_over = (\<lambda>w fs.
            let store = ClearTaskChunks task_id store;
                task = task\<lparr>synctask_completed_chunks := 0\<rparr>;
                store = UpsertTask task store
            in case Writer_Begin ops final_path w fs of
                 (Inl e, w, fs) \<Rightarrow> (Inl e, w, fs, store, task)
               | (Inr _, w, fs) \<Rightarrow> (Inr 0, w, fs, store, task))
      in if resume_prefix_count > 0 then
           (case Writer_Resume ops final_path w fs of
              (Inl e, w, fs) \<Rightarrow> (Inl e, w, fs, store, task)
            | (Inr _, w, fs) \<Rightarrow>
                if BytesWritten w \<noteq> expected_prefix_bytes then
                  let (w, fs) = Writer_Abort w fs in start_over w fs
                else
                  let task = task\<lparr>synctask_completed_chunks := resume_prefix_count\<rparr>
                  in (Inr resume_prefix_count, w, fs, UpsertTask task store, task))
         else start_over w fs)"

definition ChunkBytes ::
  "'h IHasher \<Rightarrow> 'h \<Rightarrow> FileSystem \<Rightarrow> u32 set \<Rightarrow> (u32 \<rightharpoonup> bytes) \<Rightarrow> FileRecord option \<Rightarrow>
   ChunkManifestEntry \<Rightarrow> bytes result"
where
  "ChunkBytes ops h fs missing_indexes received local_file c =
     (if mchunk_index c \<in> missing_indexes then
        (case received (mchunk_index c) of
           None \<Rightarrow> throw (RuntimeError ''missing received chunk during reconstruction'')
         | Some data \<Rightarrow> Inr data)
      else
        case (BuildLocalChunkMap local_file (mchunk_index c), local_file) of
          (Some lc, Some f) \<Rightarrow>
            if chunk_hash lc \<noteq> mchunk_hash c \<or> chunk_size lc \<noteq> mchunk_size c then
              throw (RuntimeError ''local reusable chunk missing during reconstruction'')
            else ReadAndVerify ops h fs (file_absolute_path f) c
        | _ \<Rightarrow> throw (RuntimeError ''local reusable chunk missing during reconstruction''))"

text \<open>The loop over the chunks of the remote file.\<close>

fun Reconstruct ::
  "'h IHasher \<Rightarrow> 'h \<Rightarrow> u32 \<Rightarrow> u32 set \<Rightarrow> (u32 \<rightharpoonup> bytes) \<Rightarrow> FileRecord option \<Rightarrow> ChunkManifestEntry list \<Rightarrow>
   'h SyncWriter \<Rightarrow> FileSystem \<Rightarrow> MetadataStore \<Rightarrow> SyncTask \<Rightarrow>
   unit result \<times> 'h SyncWriter \<times> FileSystem \<times> MetadataStore \<times> SyncTask"
where
  "Reconstruct ops h resume missing received local_file [] w fs store task = (Inr (), w, fs, store, task)"
| "Reconstruct ops h resume missing received local_file (c # cs) w fs store task =
     (if mchunk_index c < resume then
        Reconstruct ops h resume missing received local_file cs w fs store task
      else case ChunkBytes ops h fs missing received local_file c of
        Inl e \<Rightarrow> (Inl e, w, fs, store, task)
      | Inr data \<Rightarrow>
          (case Writer_Append ops data w fs of
             (Inl e, w, fs) \<Rightarrow> (Inl e, w, fs, store, task)
           | (Inr _, w, fs) \<Rightarrow>
               let store = MarkTaskChunkComplete
                     (ToTaskChunk (synctask_task_id task) (synctask_file_id task) c) store;
                   task = task\<lparr>synctask_completed_chunks := mchunk_index c + 1\<rparr>;
                   store = UpsertTask task store
               in Reconstruct ops h resume missing received local_file cs w fs store task))"

text \<open>The body of the \<open>try\<close> block; the exception is the one thrown inside it.\<close>

definition RebuildAndCommit ::
  "'h IHasher \<Rightarrow> 'h \<Rightarrow> ManifestFile \<Rightarrow> u32 \<Rightarrow> u32 set \<Rightarrow> (u32 \<rightharpoonup> bytes) \<Rightarrow> FileRecord option \<Rightarrow>
   'h SyncWriter \<Rightarrow> FileSystem \<Rightarrow> MetadataStore \<Rightarrow> SyncTask \<Rightarrow>
   unit result \<times> FileSystem \<times> MetadataStore \<times> SyncTask"
where
  "RebuildAndCommit ops h remote_file resume missing received local_file w fs store task =
     (case Reconstruct ops h resume missing received local_file (mfile_chunks remote_file) w fs store task of
        (Inl e, w, fs, store, task) \<Rightarrow> (Inl e, fs, store, task)
      | (Inr _, w, fs, store, task) \<Rightarrow>
          let task = task\<lparr>synctask_state := SyncVerifying\<rparr>;
              store = UpsertTask task store
          in case VerifyAndCommit ops (mentry_root_hash (mfile_summary remote_file)) w fs of
               (False, w, fs) \<Rightarrow> (throw (RuntimeError ''client verify/commit failed''), fs, store, task)
             | (True, w, fs) \<Rightarrow>
                 let store = ClearTaskChunks (synctask_task_id task) store;
                     task = task\<lparr>synctask_completed_chunks := synctask_total_chunks task,
                       synctask_state := SyncCommitted\<rparr>
                 in (Inr (), fs, UpsertTask task store, task))"

text \<open>The \<open>catch\<close> block records the failure and rethrows.\<close>

definition RecordFailure :: "exn \<Rightarrow> MetadataStore \<Rightarrow> SyncTask \<Rightarrow> MetadataStore \<times> SyncTask" where
  "RecordFailure e store task =
     (let task = task\<lparr>synctask_state := SyncFailed, synctask_retry_count := synctask_retry_count task + 1,
            synctask_error_message := what e\<rparr>
      in (UpsertTask task store, task))"

text \<open>
  The rest of the work on a request, from the frames received on. The tail after the commit refreshes
  the file record and stores the object in the backend.
\<close>

definition ApplyFile ::
  "'h IHasher \<Rightarrow> 'h \<Rightarrow> FdfsApi \<Rightarrow> StorageBackend \<Rightarrow> u64 \<Rightarrow> path \<Rightarrow> 'h Chunker \<Rightarrow> path \<Rightarrow> ManifestFile \<Rightarrow>
   SyncTask \<times> u32 \<times> u64 \<times> MissingChunksRequest \<times> MetadataStore \<Rightarrow> FileSystem \<Rightarrow> MessageFrame list \<Rightarrow>
   unit result \<times> FileSystem \<times> MetadataStore \<times> 'h Chunker \<times> MessageFrame list"
where
  "ApplyFile ops h api backend now local_root chunker final_path remote_file plan fs inbox =
     (case plan of (task, resume, expected_prefix_bytes, trimmed, store) \<Rightarrow>
      case ReceiveChunks (length (request_missing_chunks trimmed)) inbox Map.empty of
        (Inl e, inbox) \<Rightarrow> (Inl e, fs, store, chunker, inbox)
      | (Inr received, inbox) \<Rightarrow>
          let local_file = GetFileByPath store (lexically_normal final_path);
              missing = set (map mchunk_index (request_missing_chunks trimmed))
          in case OpenPart ops h final_path task resume expected_prefix_bytes fs store of
               (Inl e, w, fs, store, task) \<Rightarrow> (Inl e, fs, store, chunker, inbox)
             | (Inr resume, w, fs, store, task) \<Rightarrow>
                 (case RebuildAndCommit ops h remote_file resume missing received local_file w fs store task of
                    (Inl e, fs, store, task) \<Rightarrow> (Inl e, fs, fst (RecordFailure e store task), chunker, inbox)
                  | (Inr _, fs, store, task) \<Rightarrow>
                      (case BuildFileRecord ops chunker fs final_path local_root of
                         Inl e \<Rightarrow> (Inl e, fs, store, chunker, inbox)
                       | Inr (refreshed, chunker) \<Rightarrow>
                           let store = UpsertFile refreshed store
                           in case StoreFile api backend now refreshed final_path fs of
                                (Inl e, fs) \<Rightarrow> (Inl e, fs, store, chunker, inbox)
                              | (Inr stored_object, fs) \<Rightarrow>
                                  (Inr (), fs, UpsertStoredObject stored_object store, chunker, inbox))))"

definition client_final_path :: "path \<Rightarrow> MissingChunksRequest \<Rightarrow> path" where
  "client_final_path local_root r = path_append local_root (request_relative_path r)"

section \<open>The resume prefix\<close>

lemma count_prefix_spec:
  "\<exists>n \<le> length cs. count_prefix m cs k = k + word_of_nat n \<and> (\<forall>i < n. chunk_completed m (cs ! i)) \<and>
     (n < length cs \<longrightarrow> \<not> chunk_completed m (cs ! n))"
proof (induction cs arbitrary: k)
  case (Cons c cs)
  show ?case
  proof (cases "chunk_completed m c")
    case True
    obtain n where n: "n \<le> length cs" "count_prefix m cs (k + 1) = k + 1 + word_of_nat n"
      "\<forall>i < n. chunk_completed m (cs ! i)" "n < length cs \<longrightarrow> \<not> chunk_completed m (cs ! n)"
      using Cons.IH [of "k + 1"] by blast
    then show ?thesis using True
      by (intro exI [of _ "Suc n"]) (auto simp: nth_Cons add.assoc split: nat.splits)
  qed (intro exI [of _ 0], simp)
qed simp

lemma chunk_index_u32: "i < 2 ^ 32 \<Longrightarrow> unat (word_of_nat i :: u32) = i"
  by (simp add: unsigned_of_nat take_bit_nat_eq_self)

lemma prefix_bytes_spec:
  "(\<And>j. j < length cs \<Longrightarrow> mchunk_index (cs ! j) = word_of_nat (i + j)) \<Longrightarrow> i + length cs < 2 ^ 32 \<Longrightarrow>
     i + n \<le> i + length cs \<Longrightarrow>
     prefix_bytes (word_of_nat (i + n)) cs acc = acc + sum_list (map mchunk_size (take n cs))"
proof (induction cs arbitrary: i n acc)
  case (Cons c cs)
  have idx: "mchunk_index c = word_of_nat i" using Cons.prems(1) [of 0] by simp
  have le: "(word_of_nat (i + n) :: u32) \<le> mchunk_index c \<longleftrightarrow> n = 0"
    using Cons.prems(2,3) by (simp add: idx word_le_nat_alt chunk_index_u32 del: of_nat_add)
  show ?case
  proof (cases n)
    case (Suc m)
    have "prefix_bytes (word_of_nat (Suc i + m)) cs (acc + mchunk_size c) =
        acc + mchunk_size c + sum_list (map mchunk_size (take m cs))"
    proof (rule Cons.IH)
      show "mchunk_index (cs ! j) = word_of_nat (Suc i + j)" if "j < length cs" for j
        using Cons.prems(1) [of "Suc j"] that by simp
    qed (use Cons.prems Suc in simp_all)
    moreover have "Suc i + m = i + n" using Suc by simp
    ultimately show ?thesis using le Suc by (simp add: add.assoc del: of_nat_add of_nat_Suc)
  qed (use le in simp)
qed simp

lemma find_task_chunk:
  "foldl (\<lambda>m c. if m (taskchunk_index c) = None then m(taskchunk_index c \<mapsto> c) else m) Map.empty cs k =
     find (\<lambda>c. taskchunk_index c = k) cs"
  by (simp add: emplace_find)

text \<open>
  C25: The resume prefix is the longest prefix of the file that is recorded as done. When the remote file
  numbers its chunks from 0, the count \<open>n\<close> is such that the first \<open>n\<close> chunks are recorded with the same
  hash, size and offset and chunk \<open>n\<close> is not; the expected length of the part file is the sum of the
  first \<open>n\<close> sizes; and trimming drops exactly the requested chunks with an index below \<open>n\<close>.
\<close>

theorem resume_prefix_exact:
  assumes "\<And>j. j < length remote \<Longrightarrow> mchunk_index (remote ! j) = word_of_nat j"
    and "length remote < 2 ^ 32"
    and "prefix = ComputeResumePrefixCount completed remote"
  shows "unat prefix \<le> length remote \<and>
    (\<forall>j < unat prefix. \<exists>t \<in> set completed. taskchunk_index t = mchunk_index (remote ! j) \<and>
       taskchunk_hash t = mchunk_hash (remote ! j) \<and> taskchunk_size t = mchunk_size (remote ! j) \<and>
       taskchunk_offset t = mchunk_offset (remote ! j)) \<and>
    (unat prefix < length remote \<and> distinct (map taskchunk_index completed) \<longrightarrow>
       \<not> (\<exists>t \<in> set completed. taskchunk_index t = mchunk_index (remote ! unat prefix) \<and>
         taskchunk_hash t = mchunk_hash (remote ! unat prefix) \<and>
         taskchunk_size t = mchunk_size (remote ! unat prefix) \<and>
         taskchunk_offset t = mchunk_offset (remote ! unat prefix))) \<and>
    ComputePrefixBytes remote prefix = sum_list (map mchunk_size (take (unat prefix) remote)) \<and>
    (\<forall>q. set (request_missing_chunks (TrimCompletedChunks q prefix)) =
       {c \<in> set (request_missing_chunks q). unat prefix \<le> unat (mchunk_index c)})"
proof -
  let ?m = "foldl (\<lambda>m c. if m (taskchunk_index c) = None then m(taskchunk_index c \<mapsto> c) else m)
    Map.empty completed"
  obtain n where n: "n \<le> length remote" "prefix = word_of_nat n"
    "\<forall>i < n. chunk_completed ?m (remote ! i)" "n < length remote \<longrightarrow> \<not> chunk_completed ?m (remote ! n)"
    using count_prefix_spec [of remote ?m 0] assms(3) by (auto simp: ComputeResumePrefixCount_def)
  have un: "unat prefix = n" using n(1,2) assms(2) by (simp add: chunk_index_u32)
  have recd: "\<exists>t \<in> set completed. taskchunk_index t = mchunk_index c \<and> taskchunk_hash t = mchunk_hash c \<and>
      taskchunk_size t = mchunk_size c \<and> taskchunk_offset t = mchunk_offset c"
    if "chunk_completed ?m c" for c
    using that find_key_eq_Some [of taskchunk_index "mchunk_index c" completed]
    by (auto simp: chunk_completed_def find_task_chunk split: option.splits)
  have undone: "chunk_completed ?m c"
    if "distinct (map taskchunk_index completed)" "t \<in> set completed" "taskchunk_index t = mchunk_index c"
      "taskchunk_hash t = mchunk_hash c" "taskchunk_size t = mchunk_size c"
      "taskchunk_offset t = mchunk_offset c" for c t
    using that find_key_unique [of taskchunk_index completed "mchunk_index c" t]
    by (simp add: chunk_completed_def find_task_chunk)
  have "ComputePrefixBytes remote prefix = sum_list (map mchunk_size (take n remote))"
    using prefix_bytes_spec [of remote 0 n 0] assms(1,2) n(1) by (simp add: ComputePrefixBytes_def n(2))
  then show ?thesis
    using n(1,3,4) recd undone unfolding un
    by (auto simp: TrimCompletedChunks_def word_le_nat_alt un)
qed

theorem resume_prefix_exact_witness:
  "unat (ComputeResumePrefixCount
     [SyncTaskChunk_init\<lparr>taskchunk_size := 4, taskchunk_hash := ''h''\<rparr>]
     [ChunkManifestEntry_init\<lparr>mchunk_size := 4, mchunk_hash := ''h''\<rparr>]) \<le> 1"
  using resume_prefix_exact [of "[ChunkManifestEntry_init\<lparr>mchunk_size := 4, mchunk_hash := ''h''\<rparr>]"
      "ComputeResumePrefixCount [SyncTaskChunk_init\<lparr>taskchunk_size := 4, taskchunk_hash := ''h''\<rparr>]
         [ChunkManifestEntry_init\<lparr>mchunk_size := 4, mchunk_hash := ''h''\<rparr>]"
      "[SyncTaskChunk_init\<lparr>taskchunk_size := 4, taskchunk_hash := ''h''\<rparr>]"]
  by (simp add: ChunkManifestEntry_init_def)

section \<open>What a transfer leaves behind\<close>

lemma DecodeChunkData_length:
  "DecodeChunkData frame = Inr m \<Longrightarrow> length (data_payload_bytes m) \<le> length (frame_payload frame)"
  unfolding DecodeChunkData_def
  by (auto simp: bind_result_Inr_iff split: if_splits elim!: ConsumeString_Inr)

lemma ReceiveChunks_length:
  "ReceiveChunks n inbox received = (Inr received', inbox') \<Longrightarrow>
     (\<And>f. f \<in> set inbox \<Longrightarrow> length (frame_payload f) \<le> limit) \<Longrightarrow>
     (\<And>k b. received k = Some b \<Longrightarrow> length b \<le> limit) \<Longrightarrow> received' k = Some b \<Longrightarrow> length b \<le> limit"
proof (induction n inbox received arbitrary: b rule: ReceiveChunks.induct)
  case (3 n frame inbox received)
  obtain m where ty: "frame_type frame \<noteq> message_code kError" and m: "DecodeChunkData frame = Inr m"
    using "3.prems"(1) by (auto simp: bind_result_def split: if_splits sum.splits)
  have "length (data_payload_bytes m) \<le> limit"
    using DecodeChunkData_length [OF m] "3.prems"(2) [of frame] by simp
  then have "length b \<le> limit"
    if "(if received i = None then received(i \<mapsto> map byte_of_char (data_payload_bytes m)) else received) k = Some b"
    for i k b
    using that "3.prems"(3) by (auto split: if_splits)
  then show ?case
    using "3.IH" [OF ty m refl] "3.prems" ty m by (simp add: Let_def)
qed auto

lemma StoreFile_keeps:
  assumes "StoreFile api backend now f p fs = (r, fs')" and "entry_at fs p = Some (RegularFile c t)"
  shows "entry_at fs' p = Some (RegularFile c t)"
proof (cases backend)
  case (MirrorStorageBackend root)
  let ?dir = "path_append root (take 2 (file_file_id f))"
  show ?thesis
  proof (cases "root = [] \<or> (\<exists>e. create_directories ?dir fs = Inl e)")
    case False
    then obtain fs1 where d: "create_directories ?dir fs = Inr fs1"
      by (cases "create_directories ?dir fs") auto
    have e: "entry_at fs1 p = Some (RegularFile c t)" by (rule create_directories_keeps [OF d assms(2)])
    have "fs' = fs1 \<or> (\<exists>q. copy_file p q fs1 = Inr fs')"
      using assms(1) False d
      by (auto simp: MirrorStorageBackend Mirror_StoreFile_def Let_def split: sum.splits)
    then show ?thesis
    proof
      assume "\<exists>q. copy_file p q fs1 = Inr fs'"
      then obtain q where c: "copy_file p q fs1 = Inr fs'" ..
      then obtain data where "open_read fs1 p = Some data" using copy_file_source by blast
      from copy_file_Inr(2,4) [OF c this] show ?thesis using e by simp
    qed (simp add: e)
  qed (use assms in \<open>auto simp: MirrorStorageBackend Mirror_StoreFile_def Let_def split: if_splits\<close>)
qed (use assms in \<open>auto simp: Null_StoreFile_def FastDfs_StoreFile_def split: option.splits\<close>)

context hasher
begin

lemma Append_final:
  assumes "writer_temp_path w = p @ ''.part''" and "Writer_Append ops data w fs = (r, w', fs')"
  shows "entry_at fs' p = entry_at fs p" and "writer_temp_path w' = p @ ''.part''"
proof -
  note key = entry_key_part(1) [of p, symmetric]
  have o: "entry_at fs1 p = entry_at fs p" if "open_append (p @ ''.part'') fs = Some fs1" for fs1
    using that entry_at_set_other [OF key]
    by (auto simp: open_append_def split: if_splits option.splits fnode.splits)
  have w: "entry_at (snd (write_end (p @ ''.part'') data fs1)) p = entry_at fs1 p" for fs1
    using entry_at_set_other [OF key] by (auto simp: write_end_def split: option.splits fnode.splits)
  show "entry_at fs' p = entry_at fs p"
    using assms o w by (auto simp: Writer_Append_def Let_def split: if_splits option.splits prod.splits)
      (metis snd_conv)+
  show "writer_temp_path w' = p @ ''.part''"
    using assms by (auto simp: Writer_Append_def Let_def split: if_splits option.splits prod.splits)
qed

lemma ReadAndVerify_length: "ReadAndVerify ops h fs q c = Inr data \<Longrightarrow> length data = unat (mchunk_size c)"
  using ReadAndVerify_Inr by blast

lemma Reconstruct_writing:
  assumes lens: "\<And>k b. received k = Some b \<Longrightarrow> length b \<le> limit"
  shows "Reconstruct ops h resume missing received local_file cs w fs store task = (r, w', fs', store', task') \<Longrightarrow>
    (\<And>c. c \<in> set cs \<Longrightarrow> unat (mchunk_size c) \<le> limit) \<Longrightarrow> writer_temp_path w = p @ ''.part'' \<Longrightarrow>
    entry_at fs' p = entry_at fs p \<and>
    (\<forall>content. writing w fs p content \<longrightarrow> r = Inr () \<longrightarrow> (\<exists>content'. writing w' fs' p content'))"
proof (induction cs arbitrary: w fs store task)
  case (Cons c cs)
  show ?case
  proof (cases "mchunk_index c < resume")
    case True
    then show ?thesis using Cons.IH [of w fs store task] Cons.prems by simp
  next
    case False
    show ?thesis
    proof (cases "ChunkBytes ops h fs missing received local_file c")
      case (Inl e)
      then show ?thesis using Cons.prems(1) False by auto
    next
      case (Inr data)
      have len: "length data \<le> limit"
        using Inr lens Cons.prems(2) [of c]
        by (auto simp: ChunkBytes_def split: if_splits option.splits dest: ReadAndVerify_length)
      obtain ra wa fsa where a: "Writer_Append ops data w fs = (ra, wa, fsa)"
        by (cases "Writer_Append ops data w fs")
      note f = Append_final [OF Cons.prems(3) a]
      show ?thesis
      proof (cases ra)
        case (Inl e)
        then show ?thesis using Cons.prems(1) False Inr a f by auto
      next
        case okay: (Inr u)
        then obtain store1 task1 where rest: "Reconstruct ops h resume missing received local_file cs wa fsa
            store1 task1 = (r, w', fs', store', task')"
          using Cons.prems(1) False Inr a by (simp add: Let_def)
        have "writing wa fsa p (content @ data)" if "writing w fs p content" for content
          using Append_writing(1) [OF that len a [unfolded okay]] .
        then show ?thesis
          using Cons.IH [OF rest _ f(2)] Cons.prems(2) f(1) by fastforce
      qed
    qed
  qed
qed auto

lemma Abort_final:
  assumes "writer_temp_path w = p @ ''.part''"
  shows "entry_at (snd (Writer_Abort w fs)) p = entry_at fs p" and "writer_hasher (fst (Writer_Abort w fs)) = writer_hasher w"
  using assms entry_at_remove_other [OF entry_key_part(1) [of p, symmetric], of fs]
  by (simp_all add: Writer_Abort_def Let_def)

text \<open>Opening never touches a regular file of the final name, whatever its outcome.\<close>

definition same_final :: "path \<Rightarrow> FileSystem \<Rightarrow> FileSystem \<Rightarrow> bool" where
  "same_final p fs fs' \<longleftrightarrow> (\<forall>c t. entry_at fs' p = Some (RegularFile c t) \<longleftrightarrow> entry_at fs p = Some (RegularFile c t))"

lemma same_final_trans [trans]: "same_final p a b \<Longrightarrow> same_final p b c \<Longrightarrow> same_final p a c"
  by (simp add: same_final_def)

lemma same_final_eq: "entry_at fs' p = entry_at fs p \<Longrightarrow> same_final p fs fs'"
  by (simp add: same_final_def)

lemma Begin_final:
  assumes "Writer_Begin ops p w fs = (r, w', fs')"
  shows "same_final p fs fs'"
proof (cases "create_directories (parent_path p) fs")
  case (Inl e)
  then show ?thesis using assms by (simp add: Writer_Begin_def Let_def same_final_def)
next
  case (Inr fs1)
  have "same_final p fs fs1" using create_directories_keeps_file [OF Inr] by (simp add: same_final_def)
  moreover have "same_final p fs1 fs'"
  proof (cases "open_trunc (p @ ''.part'') fs1")
    case None
    then show ?thesis using assms Inr by (simp add: Writer_Begin_def Let_def same_final_def)
  next
    case (Some fs2)
    then have "fs' = fs2" using assms Inr by (simp add: Writer_Begin_def Let_def)
    then show ?thesis
      using open_trunc_other [OF Some entry_key_part(1) [symmetric]] by (simp add: same_final_def)
  qed
  ultimately show ?thesis by (rule same_final_trans)
qed

lemma Resume_final:
  assumes "Writer_Resume ops p w fs = (r, w', fs')"
  shows "same_final p fs fs'"
proof (cases "create_directories (parent_path p) fs")
  case (Inl e)
  then show ?thesis using assms by (simp add: Writer_Resume_def Let_def same_final_def)
next
  case (Inr fs1)
  have d: "same_final p fs fs1" using create_directories_keeps_file [OF Inr] by (simp add: same_final_def)
  show ?thesis
  proof (cases "fs_exists fs1 (p @ ''.part'')")
    case True
    then have "fs' = fs1"
      using assms Inr by (auto simp: Writer_Resume_def Let_def split: option.splits)
    then show ?thesis using d by simp
  next
    case False
    then have "same_final p fs1 fs'"
      using assms Inr Begin_final [of p _ fs1 r w' fs'] by (simp add: Writer_Resume_def Let_def)
    then show ?thesis using d same_final_trans by blast
  qed
qed

lemma OpenPart_writing:
  assumes lim: "1024 * 1024 \<le> limit" and h: "repr h m"
    and "OpenPart ops h p task resume expected fs store = (r, w', fs', store', task')"
  shows "same_final p fs fs'" and "r = Inr resume' \<Longrightarrow> \<exists>content. writing w' fs' p content"
proof -
  have new: "repr (writer_hasher (SyncWriter_new h)) m" using h by (simp add: SyncWriter_new_def)
  have begin_case: "same_final p fx fs' \<and> (\<forall>resume'. r = Inr resume' \<longrightarrow> (\<exists>content. writing w' fs' p content))"
    if "(case Writer_Begin ops p wx fx of (Inl e, w, fs) \<Rightarrow> (Inl e, w, fs, s1, t1)
         | (Inr _, w, fs) \<Rightarrow> (Inr 0, w, fs, s1, t1)) = (r, w', fs', store', task')"
      and "repr (writer_hasher wx) m0" for wx fx s1 t1 m0
  proof -
    obtain rb wb fsb where b: "Writer_Begin ops p wx fx = (rb, wb, fsb)"
      by (cases "Writer_Begin ops p wx fx")
    show ?thesis
      using that(1) b Begin_final [OF b] Begin_writing(1) [OF that(2), of p fx _ wb fsb]
      by (cases rb) auto
  qed
  have "same_final p fs fs' \<and> (\<forall>resume'. r = Inr resume' \<longrightarrow> (\<exists>content. writing w' fs' p content))"
  proof (cases "resume > 0")
    case False
    then show ?thesis using assms(3) begin_case [OF _ new] by (simp add: OpenPart_def Let_def)
  next
    case True
    obtain rr w1 fs1 where res: "Writer_Resume ops p (SyncWriter_new h) fs = (rr, w1, fs1)"
      by (cases "Writer_Resume ops p (SyncWriter_new h) fs")
    note f = Resume_final [OF res]
    show ?thesis
    proof (cases rr)
      case (Inl e)
      then show ?thesis using assms(3) True res f by (auto simp: OpenPart_def Let_def)
    next
      case (Inr tmp)
      note w1 = Resume_writing(1) [OF lim new res [unfolded Inr]]
      show ?thesis
      proof (cases "BytesWritten w1 = expected")
        case True': True
        then show ?thesis using assms(3) True res f Inr w1 by (auto simp: OpenPart_def Let_def)
      next
        case False
        have temp: "writer_temp_path w1 = p @ ''.part''" using w1 by (simp add: writing_def)
        obtain w2 fs2 where ab: "Writer_Abort w1 fs1 = (w2, fs2)" by (cases "Writer_Abort w1 fs1")
        have "repr (writer_hasher w2) (case open_read fs (p @ ''.part'') of Some kept \<Rightarrow> kept | None \<Rightarrow> [])"
          using w1 Abort_final(2) [OF temp, of fs1] ab by (simp add: writing_def)
        then have "same_final p fs2 fs' \<and> (\<forall>resume'. r = Inr resume' \<longrightarrow> (\<exists>content. writing w' fs' p content))"
          using assms(3) True res Inr False ab begin_case [where wx = w2 and fx = fs2] by (auto simp: OpenPart_def Let_def)
        moreover have "same_final p fs1 fs2"
          using Abort_final(1) [OF temp, of fs1] ab by (intro same_final_eq) simp
        ultimately show ?thesis using f same_final_trans by blast
      qed
    qed
  qed
  then show "same_final p fs fs'" "r = Inr resume' \<Longrightarrow> \<exists>content. writing w' fs' p content" by simp_all
qed

definition holds_verified :: "path \<Rightarrow> FileSystem \<Rightarrow> string \<Rightarrow> bool" where
  "holds_verified p fs hash \<longleftrightarrow> (\<exists>c t. entry_at fs p = Some (RegularFile c t) \<and> digest c = hash)"

lemma RebuildAndCommit_outcome:
  assumes "writing w fs p content" and "\<And>k b. received k = Some b \<Longrightarrow> length b \<le> limit"
    and "\<And>c. c \<in> set (mfile_chunks remote) \<Longrightarrow> unat (mchunk_size c) \<le> limit"
    and "RebuildAndCommit ops h remote resume missing received local_file w fs store task = (r, fs', store', task')"
  shows "r \<noteq> Inr () \<and> same_final p fs fs' \<or>
    r = Inr () \<and> holds_verified p fs' (mentry_root_hash (mfile_summary remote))"
proof -
  have temp: "writer_temp_path w = p @ ''.part''" using assms(1) by (simp add: writing_def)
  obtain r1 w1 fs1 store1 task1 where rec:
    "Reconstruct ops h resume missing received local_file (mfile_chunks remote) w fs store task =
       (r1, w1, fs1, store1, task1)"
    by (cases "Reconstruct ops h resume missing received local_file (mfile_chunks remote) w fs store task")
  have "entry_at fs1 p = entry_at fs p \<and>
      (\<forall>content. writing w fs p content \<longrightarrow> r1 = Inr () \<longrightarrow> (\<exists>content'. writing w1 fs1 p content'))"
    by (rule Reconstruct_writing [OF _ rec _ temp]) (use assms(2,3) in blast)+
  then have same: "same_final p fs fs1"
    and writing1: "r1 = Inr () \<Longrightarrow> \<exists>content'. writing w1 fs1 p content'"
    using assms(1) by (auto intro: same_final_eq)
  show ?thesis
  proof (cases r1)
    case (Inl e)
    then show ?thesis using assms(4) rec same by (auto simp: RebuildAndCommit_def)
  next
    case (Inr u)
    then obtain content' where w1: "writing w1 fs1 p content'" using writing1 by auto
    obtain ok w2 fs2 where v: "VerifyAndCommit ops (mentry_root_hash (mfile_summary remote)) w1 fs1 = (ok, w2, fs2)"
      by (cases "VerifyAndCommit ops (mentry_root_hash (mfile_summary remote)) w1 fs1")
    note out = VerifyAndCommit_writing(1,2) [OF w1 v]
    show ?thesis
    proof (cases ok)
      case True
      then show ?thesis
        using assms(4) rec Inr v out(1) by (auto simp: RebuildAndCommit_def Let_def holds_verified_def)
    next
      case False
      then have "same_final p fs1 fs2" using out(2) by (simp add: same_final_eq)
      then have "same_final p fs fs2" using same same_final_trans by blast
      moreover have "fs' = fs2" "r \<noteq> Inr ()"
        using assms(4) rec Inr v False by (auto simp: RebuildAndCommit_def Let_def)
      ultimately show ?thesis by simp
    qed
  qed
qed

lemma ApplyFile_outcome:
  assumes lim: "1024 * 1024 \<le> limit" and h: "repr h m"
    and frames: "\<And>f. f \<in> set inbox \<Longrightarrow> length (frame_payload f) \<le> limit"
    and sizes: "\<And>c. c \<in> set (mfile_chunks remote) \<Longrightarrow> unat (mchunk_size c) \<le> limit"
    and run: "ApplyFile ops h api backend now local_root chunker p remote plan fs inbox =
      (r, fs', store', chunker', inbox')"
  shows "r \<noteq> Inr () \<and> same_final p fs fs' \<or> holds_verified p fs' (mentry_root_hash (mfile_summary remote))"
proof -
  obtain task resume expected trimmed store where plan: "plan = (task, resume, expected, trimmed, store)"
    by (cases plan)
  obtain rr inbox1 where recv: "ReceiveChunks (length (request_missing_chunks trimmed)) inbox Map.empty = (rr, inbox1)"
    by (cases "ReceiveChunks (length (request_missing_chunks trimmed)) inbox Map.empty")
  show ?thesis
  proof (cases rr)
    case (Inl e)
    then show ?thesis using run recv by (auto simp: ApplyFile_def plan same_final_def)
  next
    case (Inr received)
    have lens: "length b \<le> limit" if "received k = Some b" for k b
      using ReceiveChunks_length [OF recv [unfolded Inr], of limit k b, OF frames _ that] by simp
    obtain ro w1 fs1 store1 task1 where open_part:
      "OpenPart ops h p task resume expected fs store = (ro, w1, fs1, store1, task1)"
      by (cases "OpenPart ops h p task resume expected fs store")
    note opened = OpenPart_writing [OF lim h open_part]
    show ?thesis
    proof (cases ro)
      case (Inl e)
      then show ?thesis using run recv Inr open_part opened(1) by (auto simp: ApplyFile_def plan Let_def)
    next
      case res: (Inr resume1)
      then obtain content where w1: "writing w1 fs1 p content" using opened(2) by blast
      let ?local = "GetFileByPath store (lexically_normal p)"
      let ?missing = "set (map mchunk_index (request_missing_chunks trimmed))"
      obtain rb fs2 store2 task2 where reb:
        "RebuildAndCommit ops h remote resume1 ?missing received ?local w1 fs1 store1 task1 =
           (rb, fs2, store2, task2)"
        by (cases "RebuildAndCommit ops h remote resume1 ?missing received ?local w1 fs1 store1 task1")
      have out: "rb \<noteq> Inr () \<and> same_final p fs1 fs2 \<or>
          rb = Inr () \<and> holds_verified p fs2 (mentry_root_hash (mfile_summary remote))"
        by (rule RebuildAndCommit_outcome [OF w1 _ _ reb]) (use lens sizes in blast)+
      show ?thesis
      proof (cases rb)
        case (Inl e)
        then have "same_final p fs fs2" using out opened(1) same_final_trans by blast
        moreover have "r = Inl e" "fs' = fs2"
          using run recv Inr open_part res reb Inl by (simp_all add: ApplyFile_def plan Let_def)
        ultimately show ?thesis by simp
      next
        case committed: (Inr u)
        then obtain c t where e: "entry_at fs2 p = Some (RegularFile c t)"
          and d: "digest c = mentry_root_hash (mfile_summary remote)"
          using out by (auto simp: holds_verified_def)
        have "entry_at fs' p = Some (RegularFile c t)"
        proof (cases "BuildFileRecord ops chunker fs2 p local_root")
          case (Inl x)
          then show ?thesis
            using run recv Inr open_part res reb committed e by (simp add: ApplyFile_def plan Let_def)
        next
          case built: (Inr x)
          obtain refreshed chunker2 where x: "x = (refreshed, chunker2)" by (cases x)
          obtain rs fs3 where st: "StoreFile api backend now refreshed p fs2 = (rs, fs3)"
            by (cases "StoreFile api backend now refreshed p fs2")
          have "fs' = fs3"
            using run recv Inr open_part res reb committed built x st
            by (cases rs) (simp_all add: ApplyFile_def plan Let_def)
          then show ?thesis using StoreFile_keeps [OF st e] by simp
        qed
        then show ?thesis using d by (auto simp: holds_verified_def)
      qed
    qed
  qed
qed

end



end
