(* ===== verification/Sync_Delivery.thy ===== *)
theory Sync_Delivery
  imports Sync_Session
begin

text \<open>
  The two sides of the sync program together: a file the client does not have arrives, and an
  interrupted transfer whose part file does not fit its recorded chunks fails.
\<close>

section \<open>Served frames are received\<close>

definition chunk_reply :: "string \<Rightarrow> ChunkManifestEntry \<Rightarrow> bytes \<Rightarrow> ChunkDataMessage" where
  "chunk_reply file_id c data =
     \<lparr>data_header = \<lparr>header_file_id = file_id, header_chunk_hash = mchunk_hash c,
        header_chunk_index = mchunk_index c, header_offset = mchunk_offset c,
        header_payload_size = word_of_nat (length data)\<rparr>,
      data_payload_bytes = map char_of_byte data\<rparr>"

lemma ServeChunks_replies:
  "list_all2 (\<lambda>c d. ReadAndVerify ops h fs p c = Inr d) cs ds \<Longrightarrow>
     ServeChunks ops h fs p file_id cs =
       (map (\<lambda>(c, d). EncodeChunkData (chunk_reply file_id c d)) (zip cs ds), Inr ())"
  by (induction cs ds rule: list_all2_induct) (simp_all add: chunk_reply_def Let_def)

lemma EncodeChunkData_type [simp]: "frame_type (EncodeChunkData m) = message_code kChunkData"
  by (simp add: EncodeChunkData_def EncodeChunkHeader_def Let_def)

lemma DecodeChunkData_reply:
  assumes "length data < 2 ^ 64" and "length (frame_payload (EncodeChunkData (chunk_reply file_id c data))) < 2 ^ 64"
  shows "DecodeChunkData (EncodeChunkData (chunk_reply file_id c data)) = Inr (chunk_reply file_id c data)"
proof -
  let ?m = "chunk_reply file_id c data"
  let ?frame = "EncodeChunkData ?m"
  have payload: "frame_payload ?frame = wire_header (data_header ?m) @ wire_string (data_payload_bytes ?m) @ []"
    by (simp add: EncodeChunkData_def Let_def EncodeChunkHeader_wire put_wires)
  have len: "length (data_payload_bytes ?m) = unat (header_payload_size (data_header ?m))"
    using assms(1) by (simp add: chunk_reply_def unsigned_of_nat take_bit_nat_eq_self)
  show ?thesis
    unfolding DecodeChunkData_def RequireType_same [OF EncodeChunkData_type] bind_result_simps
    by (rule header.bind_get, rule unread_payload [OF payload assms(2) [unfolded payload]], simp,
        rule str.bind_get, assumption, simp) (simp add: len)
qed

lemma ReceiveChunks_replies:
  "list_all2 (\<lambda>c d. length d < 2 ^ 64 \<and>
     length (frame_payload (EncodeChunkData (chunk_reply file_id c d))) < 2 ^ 64) cs ds \<Longrightarrow>
   ReceiveChunks (length cs)
       (map (\<lambda>(c, d). EncodeChunkData (chunk_reply file_id c d)) (zip cs ds) @ rest) received =
     (Inr (map_of (zip (map mchunk_index cs) ds) ++ received), rest)"
proof (induction cs ds arbitrary: received rule: list_all2_induct)
  case (Cons c cs d ds)
  have dec: "DecodeChunkData (EncodeChunkData (chunk_reply file_id c d)) = Inr (chunk_reply file_id c d)"
    using Cons.hyps by (intro DecodeChunkData_reply) simp_all
  have data: "map byte_of_char (data_payload_bytes (chunk_reply file_id c d)) = d"
    "header_chunk_index (data_header (chunk_reply file_id c d)) = mchunk_index c"
    by (simp_all add: chunk_reply_def comp_def)
  show ?case
    by (auto simp: dec data Let_def Cons.IH map_add_def fun_eq_iff split: option.splits)
qed simp

section \<open>Rebuilding from received chunks\<close>

context hasher
begin

lemma Reconstruct_received:
  "list_all2 (\<lambda>c d. mchunk_index c \<in> missing \<and> received (mchunk_index c) = Some d \<and> length d \<le> limit) cs ds \<Longrightarrow>
   writing w fs p content \<Longrightarrow> receivable fs p \<Longrightarrow> length content + length (concat ds) \<le> fs_capacity fs \<Longrightarrow>
   \<exists>w' fs' store' task'. Reconstruct ops h 0 missing received local_file cs w fs store task =
       (Inr (), w', fs', store', task') \<and> writing w' fs' p (content @ concat ds) \<and> receivable fs' p \<and>
     fs_readable fs' = fs_readable fs"
proof (induction cs ds arbitrary: w fs content store task rule: list_all2_induct)
  case (Cons c cs d ds)
  have bytes: "ChunkBytes ops h fs missing received local_file c = Inr d"
    using Cons.hyps by (simp add: ChunkBytes_def)
  obtain w1 fs1 where a: "Writer_Append ops d w fs = (Inr (), w1, fs1)" and r: "receivable fs1 p"
    and c: "fs_capacity fs1 = fs_capacity fs" "fs_readable fs1 = fs_readable fs"
    using Append_ok [OF Cons.prems(1,2), of d] Cons.prems(3) by auto
  have "writing w1 fs1 p (content @ d)"
    using Cons.hyps by (intro Append_writing(1) [OF Cons.prems(1) _ a]) simp
  from Cons.IH [OF this r] Cons.prems(3) c bytes a show ?case by (simp add: Let_def)
qed simp

lemma commit_frame:
  assumes "VerifyAndCommit ops expected w fs = (True, w', fs')"
  shows "fs_readable fs' = fs_readable fs"
  using assms
  by (auto simp: VerifyAndCommit_def rename_file_def split: if_splits option.splits fnode.splits)

lemma RebuildAndCommit_received:
  assumes "list_all2 (\<lambda>c d. mchunk_index c \<in> missing \<and> received (mchunk_index c) = Some d \<and> length d \<le> limit)
      (mfile_chunks remote) ds"
    and "writing w fs p []" and "receivable fs p" and "length (concat ds) \<le> fs_capacity fs"
    and "digest (concat ds) = mentry_root_hash (mfile_summary remote)"
  shows "\<exists>fs' store' task' t. RebuildAndCommit ops h remote 0 missing received local_file w fs store task =
      (Inr (), fs', store', task') \<and> entry_at fs' p = Some (RegularFile (concat ds) t) \<and>
    fs_readable fs' = fs_readable fs"
proof -
  obtain w1 fs1 store1 task1 where rec:
    "Reconstruct ops h 0 missing received local_file (mfile_chunks remote) w fs store task =
       (Inr (), w1, fs1, store1, task1)" and w1: "writing w1 fs1 p (concat ds)" and r1: "receivable fs1 p"
    and rd: "fs_readable fs1 = fs_readable fs"
    using Reconstruct_received [OF assms(1-3)] assms(4) by fastforce
  obtain ok w2 fs2 where v: "VerifyAndCommit ops (mentry_root_hash (mfile_summary remote)) w1 fs1 = (ok, w2, fs2)"
    by (cases "VerifyAndCommit ops (mentry_root_hash (mfile_summary remote)) w1 fs1")
  have ok: ok using commit_ok [OF w1 r1 assms(5)] v by simp
  then obtain t where "entry_at fs2 p = Some (RegularFile (concat ds) t)"
    using VerifyAndCommit_writing(1) [OF w1 v] by blast
  then show ?thesis
    using rec v ok rd commit_frame [of _ w1 fs1 w2 fs2] by (simp add: RebuildAndCommit_def Let_def)
qed

end

section \<open>A missing file arrives\<close>

lemma PlanFile_fresh:
  assumes "ListTaskChunks store (MakeTaskId q) = []"
  shows "\<exists>task store'. PlanFile p remote q store = (task, 0, 0, q, store') \<and>
    synctask_task_id task = MakeTaskId q"
proof -
  have upsert: "ListTaskChunks (UpsertTask t store) k = ListTaskChunks store k" for t k
    by (simp add: ListTaskChunks_def UpsertTask_def)
  have "count_prefix Map.empty cs 0 = 0" for cs
    by (cases cs) (simp_all add: chunk_completed_def)
  moreover have "prefix_bytes 0 cs 0 = 0" for cs by (cases cs) simp_all
  ultimately show ?thesis
    by (simp add: PlanFile_def Let_def upsert assms ComputeResumePrefixCount_def ComputePrefixBytes_def
        TrimCompletedChunks_def)
qed

lemma cut_indexes:
  assumes "length ss < 2 ^ 32"
  shows "distinct (map (\<lambda>c. mchunk_index (ToChunkManifestEntry c)) (cut_chunks dig f c 0 ss))"
proof (rule iffD2 [OF distinct_conv_nth], intro allI impI)
  fix i j
  assume "i < length (map (\<lambda>c. mchunk_index (ToChunkManifestEntry c)) (cut_chunks dig f c 0 ss))"
    and "j < length (map (\<lambda>c. mchunk_index (ToChunkManifestEntry c)) (cut_chunks dig f c 0 ss))" and "i \<noteq> j"
  then have "i < length ss" "j < length ss" "(word_of_nat i :: u32) \<noteq> word_of_nat j"
    using assms chunk_index_u32 [of i] chunk_index_u32 [of j] by auto
  then show "map (\<lambda>c. mchunk_index (ToChunkManifestEntry c)) (cut_chunks dig f c 0 ss) ! i \<noteq>
      map (\<lambda>c. mchunk_index (ToChunkManifestEntry c)) (cut_chunks dig f c 0 ss) ! j"
    by (simp add: nth_cut_chunks cut_chunk_def ToChunkManifestEntry_def)
qed

lemma OpenPart_fresh:
  assumes "create_directories (parent_path p) fs = Inr fs1" and "p \<noteq> []"
    and "fs_writable fs p" and "fs_writable fs (p @ ''.part'')"
    and "entry_at fs1 p \<noteq> Some Directory" and "entry_at fs1 (p @ ''.part'') \<noteq> Some Directory"
  shows "\<exists>w fs' store' task'. OpenPart Md5Hasher Md5Hasher_new p task 0 b fs store =
      (Inr 0, w, fs', store', task') \<and> md5.writing w fs' p [] \<and> receivable fs' p \<and>
    fs_capacity fs' = fs_capacity fs \<and> fs_readable fs' = fs_readable fs"
proof -
  let ?w = "SyncWriter_new Md5Hasher_new"
  have h: "md5_repr (writer_hasher ?w) []" by (simp add: SyncWriter_new_def md5_repr_new)
  obtain w fs' where b: "Writer_Begin Md5Hasher p ?w fs = (Inr (p @ ''.part''), w, fs')"
    and r: "receivable fs' p" "fs_capacity fs' = fs_capacity fs" "fs_readable fs' = fs_readable fs"
    using md5.Begin_ok [OF assms] by blast
  then show ?thesis using md5.Begin_writing(1) [OF h b] by (simp add: OpenPart_def Let_def)
qed

text \<open>The server's frames for all chunks of a file, received by a client that asked for them.\<close>

lemma served_and_received:
  assumes opened: "open_read fsR pR = Some data" and len: "length data < 2 ^ 63"
    and c: "0 < c" "c \<le> 2 ^ 32 - 64" and count: "length (slices c data) < 2 ^ 32"
    and chunks: "chunks = map ToChunkManifestEntry (cut_chunks md5_hex fid c 0 (slices c data))"
    and small: "\<And>k d. k \<in> set chunks \<Longrightarrow> length d \<le> c \<Longrightarrow>
      length (frame_payload (EncodeChunkData (chunk_reply file_id k d))) < 2 ^ 64"
  obtains frames received where
    "ServeChunks Md5Hasher h fsR pR file_id chunks = (frames, Inr ())"
    "ReceiveChunks (length chunks) frames Map.empty = (Inr received, [])"
    "list_all2 (\<lambda>k d. mchunk_index k \<in> set (map mchunk_index chunks) \<and>
       received (mchunk_index k) = Some d \<and> length d \<le> 2 ^ 32 - 64) chunks (slices c data)"
proof -
  let ?ss = "slices c data"
  have n: "length chunks = length ?ss" by (simp add: chunks)
  have piece: "length d \<le> c" if "d \<in> set ?ss" for d using length_in_slices [OF that] by simp
  have served: "list_all2 (\<lambda>k d. ReadAndVerify Md5Hasher h fsR pR k = Inr d) chunks ?ss"
    unfolding list_all2_conv_all_nth
    using md5.read_back_cut [OF opened c _ len] by (simp add: chunks nth_cut_chunks)
  have fits: "list_all2 (\<lambda>k d. length d < 2 ^ 64 \<and>
      length (frame_payload (EncodeChunkData (chunk_reply file_id k d))) < 2 ^ 64) chunks ?ss"
    unfolding list_all2_conv_all_nth
  proof (intro conjI allI impI)
    fix i assume i: "i < length chunks"
    then have d: "length (?ss ! i) \<le> c" using piece [of "?ss ! i"] by (simp add: n)
    then show "length (?ss ! i) < 2 ^ 64" using c(2) by simp
    show "length (frame_payload (EncodeChunkData (chunk_reply file_id (chunks ! i) (?ss ! i)))) < 2 ^ 64"
      using small [OF nth_mem [OF i] d] .
  qed (simp add: n)
  let ?recv = "map_of (zip (map mchunk_index chunks) ?ss)"
  have recv: "ReceiveChunks (length chunks)
      (map (\<lambda>(c, d). EncodeChunkData (chunk_reply file_id c d)) (zip chunks ?ss)) Map.empty = (Inr ?recv, [])"
    using ReceiveChunks_replies [OF fits, of "[]" Map.empty] by simp
  have "distinct (map mchunk_index chunks)"
    using cut_indexes [OF count, of md5_hex fid c] by (simp add: chunks comp_def)
  then have found: "?recv (mchunk_index (chunks ! i)) = Some (?ss ! i)" if "i < length chunks" for i
    using map_of_zip_nth [of "map mchunk_index chunks" ?ss i] that by (simp add: n)
  have "list_all2 (\<lambda>k d. mchunk_index k \<in> set (map mchunk_index chunks) \<and>
       ?recv (mchunk_index k) = Some d \<and> length d \<le> 2 ^ 32 - 64) chunks ?ss"
    unfolding list_all2_conv_all_nth
  proof (intro conjI allI impI)
    fix i assume i: "i < length chunks"
    show "mchunk_index (chunks ! i) \<in> set (map mchunk_index chunks)" using i by simp
    show "?recv (mchunk_index (chunks ! i)) = Some (?ss ! i)" by (rule found [OF i])
    show "length (?ss ! i) \<le> 2 ^ 32 - 64" using piece [of "?ss ! i"] i c(2) by (simp add: n)
  qed (simp add: n)
  then show thesis using that [OF ServeChunks_replies [OF served] recv] by blast
qed

text \<open>
  A file the client lacks arrives. Let the server's record of a file be the chunker's, and let the
  client ask for all chunks of it with no earlier progress recorded. Then the frames with which the
  server answers the request make the client's transfer succeed: the final name holds exactly the
  server's bytes, and the metadata store knows the file under its MD5. The final name must be writable
  and not a directory, large enough files allowed and readable afterwards; the backend stores nothing.
\<close>

lemma missing_file_arrives:
  assumes "open_read fsR pR = Some data" and "length data < 2 ^ 63"
    and "md5_repr (chunker_hasher chunkerR) m" and "0 < chunker_chunk_size chunkerR"
    and "chunker_chunk_size chunkerR \<le> 2 ^ 32 - 64"
    and "length (slices (chunker_chunk_size chunkerR) data) < 2 ^ 32"
    and "BuildFileRecord Md5Hasher chunkerR fsR pR rootR = Inr (f, chunkerR')"
    and "remote = hd (BuildManifest [f])" and "q = request_for remote (mfile_chunks remote)"
    and "FindRemoteFile manifest (request_file_id q) (request_relative_path q) = Some remote"
    and "paths (request_file_id q) = Some pR"
    and "length (frame_payload (EncodeMissingChunksRequest q)) < 2 ^ 64"
    and "\<And>k d. k \<in> set (mfile_chunks remote) \<Longrightarrow> length d \<le> chunker_chunk_size chunkerR \<Longrightarrow>
      length (frame_payload (EncodeChunkData (chunk_reply (file_file_id f) k d))) < 2 ^ 64"
    and "ListTaskChunks store (MakeTaskId q) = []"
    and "create_directories (parent_path p) fs = Inr fs1" and "p \<noteq> []" and "fs_writable fs p"
    and "fs_writable fs (p @ ''.part'')" and "entry_at fs1 p \<noteq> Some Directory"
    and "entry_at fs1 (p @ ''.part'') \<noteq> Some Directory" and "fs_readable fs p"
    and "length data \<le> fs_capacity fs" and "md5_repr (chunker_hasher chunker) m'"
    and "0 < chunker_chunk_size chunker" and "chunker_chunk_size chunker \<le> 2 ^ 32 - 64"
  shows "\<exists>frames fs' store' chunker' t.
    ServeRequest Md5Hasher h fsR manifest paths (EncodeMissingChunksRequest q) = (frames, Inr ()) \<and>
    ApplyFile Md5Hasher Md5Hasher_new api NullStorageBackend now local_root chunker p remote
      (PlanFile p remote q store) fs frames = (Inr (), fs', store', chunker', []) \<and>
    entry_at fs' p = Some (RegularFile data t) \<and>
    map_option file_root_hash (GetFile store' (md5_hex data)) = Some (md5_hex data)"
proof -
  let ?c = "chunker_chunk_size chunkerR" and ?ss = "slices (chunker_chunk_size chunkerR) data"
  obtain tR where f: "f = md5.cut_file pR rootR ?c data tR"
    using md5.BuildFileRecord_cut [OF assms(3) refl assms(4,5,1), of rootR] assms(7) by auto
  have chunks: "mfile_chunks remote = map ToChunkManifestEntry (cut_chunks md5_hex (md5_hex data) ?c 0 ?ss)"
    and root: "mentry_root_hash (mfile_summary remote) = md5_hex data"
    by (simp_all add: assms(8) BuildManifest_map f md5.cut_file_def ToManifestEntry_def)
  have q: "request_missing_chunks q = mfile_chunks remote" "request_file_id q = file_file_id f"
    by (simp_all add: assms(8,9) request_for_def BuildManifest_map ToManifestEntry_def)
  obtain frames received where
    serve: "ServeChunks Md5Hasher h fsR pR (file_file_id f) (mfile_chunks remote) = (frames, Inr ())" and
    recv: "ReceiveChunks (length (mfile_chunks remote)) frames Map.empty = (Inr received, [])" and
    all: "list_all2 (\<lambda>k d. mchunk_index k \<in> set (map mchunk_index (mfile_chunks remote)) \<and>
       received (mchunk_index k) = Some d \<and> length d \<le> 2 ^ 32 - 64) (mfile_chunks remote) ?ss"
    using served_and_received [OF assms(1,2,4,5,6) chunks assms(13)] by blast
  have count: "length (request_missing_chunks q) < 2 ^ 64"
    using assms(6) by (simp add: q chunks)
  have served: "ServeRequest Md5Hasher h fsR manifest paths (EncodeMissingChunksRequest q) = (frames, Inr ())"
    using serve assms(10,11) q
    by (simp add: ServeRequest_def missing_request_decodes [OF assms(12) count])
  obtain task store1 where plan: "PlanFile p remote q store = (task, 0, 0, q, store1)"
    using PlanFile_fresh [OF assms(14)] by blast
  obtain w fs2 store2 task2 where op: "OpenPart Md5Hasher Md5Hasher_new p task 0 0 fs store1 =
      (Inr 0, w, fs2, store2, task2)" and w: "md5.writing w fs2 p []" "receivable fs2 p"
    and cap: "fs_capacity fs2 = fs_capacity fs" and rd: "fs_readable fs2 = fs_readable fs"
    using OpenPart_fresh [OF assms(15-20)] by blast
  have concat: "concat ?ss = data" by (rule concat_slices [OF assms(4)])
  obtain fs3 store3 task3 t where
    reb: "RebuildAndCommit Md5Hasher Md5Hasher_new remote 0 (set (map mchunk_index (mfile_chunks remote)))
      received (GetFileByPath store1 (lexically_normal p)) w fs2 store2 task2 = (Inr (), fs3, store3, task3)"
    and e: "entry_at fs3 p = Some (RegularFile data t)" and rd3: "fs_readable fs3 = fs_readable fs2"
    using md5.RebuildAndCommit_received [OF all w, of Md5Hasher_new
        "GetFileByPath store1 (lexically_normal p)" store2 task2] assms(22)
    by (auto simp: concat cap root)
  have "open_read fs3 p = Some data" using e rd rd3 assms(21) by (simp add: open_read_eq)
  from md5.BuildFileRecord_cut [OF assms(23) refl assms(24,25) this, of local_root]
  obtain t' h' where b: "BuildFileRecord Md5Hasher chunker fs3 p local_root =
      Inr (md5.cut_file p local_root (chunker_chunk_size chunker) data t', chunker\<lparr>chunker_hasher := h'\<rparr>)"
    by blast
  let ?r = "md5.cut_file p local_root (chunker_chunk_size chunker) data t'"
  have get: "GetFile (UpsertStoredObject so (UpsertFile ?r store3)) (md5_hex data) = Some ?r" for so
    using find_upsert_by_either [of "\<lambda>x. file_file_id x = md5_hex data" _ ?r]
    by (simp add: GetFile_def UpsertFile_def UpsertStoredObject_def md5.cut_file_def)
  have "ApplyFile Md5Hasher Md5Hasher_new api NullStorageBackend now local_root chunker p remote
      (PlanFile p remote q store) fs frames =
    (Inr (), fs3, UpsertStoredObject (StoredObjectRecord_init\<lparr>stored_file_id := file_file_id ?r,
        stored_backend_name := ''none'', stored_storage_key := file_file_id ?r,
        stored_source_path := lexically_normal p, stored_stored_at_epoch := now\<rparr>)
      (UpsertFile ?r store3), chunker\<lparr>chunker_hasher := h'\<rparr>, [])"
    using recv op reb b by (simp add: ApplyFile_def plan q(1) Let_def Null_StoreFile_def)
  then show ?thesis
    using served e get by (intro exI conjI) (auto simp: md5.cut_file_def)
qed

lemma length_md5_hex: "length (md5_hex m) = 32"
proof -
  obtain a b c d where "md5_absorb MD5Init_state (md5_pad m) = (a, b, c, d)" by (cases "md5_absorb MD5Init_state (md5_pad m)")
  then show ?thesis by (simp add: md5_hex_def md5_reference_def hex_byte_def)
qed

text \<open>How long the fields on the wire are.\<close>

lemma length_to_string: "n < 10 ^ k \<Longrightarrow> 0 < k \<Longrightarrow> length (to_string n) \<le> k"
proof (induction k arbitrary: n)
  case (Suc k)
  show ?case
  proof (cases "n < 10")
    case False
    then have "0 < k" using Suc.prems by (cases k) auto
    moreover have "n div 10 < 10 ^ k" using Suc.prems(1) by (simp add: less_mult_imp_div_less mult.commute)
    ultimately show ?thesis using Suc.IH [of "n div 10"] False by (simp add: to_string.simps [of n])
  qed (simp add: to_string.simps [of n])
qed simp

lemma length_wire:
  "length s < 2 ^ 64 \<Longrightarrow> length (wire_string s) \<le> length s + 22"
  "length (wire_u64 w) \<le> 21"
proof -
  have "length (to_string n) \<le> 20" if "n < 2 ^ 64" for n :: nat
    using that by (intro length_to_string) simp_all
  from this [of "length s"] this [of "unat w"]
  show "length s < 2 ^ 64 \<Longrightarrow> length (wire_string s) \<le> length s + 22" "length (wire_u64 w) \<le> 21"
    using unsigned_less [of w, where 'a = nat] by (simp_all add: wire_string_def wire_u64_def to_string_u64_def)
qed

lemma length_wire_chunk: "length (mchunk_hash c) < 2 ^ 64 \<Longrightarrow> length (wire_chunk c) \<le> length (mchunk_hash c) + 85"
  using length_wire(1) [of "mchunk_hash c"] length_wire(2) [of "ucast (mchunk_index c)"]
    length_wire(2) [of "mchunk_offset c"] length_wire(2) [of "mchunk_size c"]
  by (simp add: wire_chunk_def)

lemma length_wire_chunks:
  "(\<And>c. c \<in> set cs \<Longrightarrow> length (mchunk_hash c) = 32) \<Longrightarrow> length (concat (map wire_chunk cs)) \<le> 117 * length cs"
proof (induction cs)
  case (Cons c cs)
  have "length (mchunk_hash c) = 32" using Cons.prems by simp
  then have "length (wire_chunk c) \<le> 117" using length_wire_chunk [of c] by simp
  then show ?case using Cons.IH Cons.prems by fastforce
qed simp

lemma reply_payload_length:
  assumes "length file_id < 2 ^ 64" and "length (mchunk_hash c) < 2 ^ 64" and "length d < 2 ^ 64"
  shows "length (frame_payload (EncodeChunkData (chunk_reply file_id c d))) \<le>
    length file_id + length (mchunk_hash c) + length d + 129"
  using length_wire(1) [OF assms(1)] length_wire(1) [OF assms(2)]
    length_wire(1) [of "map char_of_byte d"] length_wire(2) [of "ucast (mchunk_index c)"]
    length_wire(2) [of "mchunk_offset c"] length_wire(2) [of "word_of_nat (length d)"] assms(3)
  by (simp add: EncodeChunkData_def Let_def EncodeChunkHeader_wire put_wires wire_header_def chunk_reply_def)

lemma request_payload_length:
  assumes "length (request_file_id q) < 2 ^ 64" and "length (request_relative_path q) < 2 ^ 64"
    and "length (request_expected_root_hash q) < 2 ^ 64"
  shows "length (frame_payload (EncodeMissingChunksRequest q)) \<le>
    length (request_file_id q) + length (request_relative_path q) + length (request_expected_root_hash q) + 87 +
    length (concat (map wire_chunk (request_missing_chunks q)))"
  using length_wire(1) [OF assms(1)] length_wire(1) [OF assms(2)] length_wire(1) [OF assms(3)]
    length_wire(2) [of "word_of_nat (length (request_missing_chunks q))"]
  by (simp add: EncodeMissingChunksRequest_def Let_def put_wires)

lemma manifest_payload_length:
  assumes "length (mentry_file_id (mfile_summary f)) < 2 ^ 64" and "length (mentry_relative_path (mfile_summary f)) < 2 ^ 64"
    and "length (mentry_root_hash (mfile_summary f)) < 2 ^ 64"
  shows "length (frame_payload (EncodeManifestSummary [f])) \<le>
    length (mentry_file_id (mfile_summary f)) + length (mentry_relative_path (mfile_summary f)) +
    length (mentry_root_hash (mfile_summary f)) + 150 + length (concat (map wire_chunk (mfile_chunks f)))"
  using length_wire(1) [OF assms(1)] length_wire(1) [OF assms(2)] length_wire(1) [OF assms(3)]
    length_wire(2) [of 1] length_wire(2) [of "mentry_size (mfile_summary f)"]
    length_wire(2) [of "mentry_modified_time_epoch (mfile_summary f)"]
    length_wire(2) [of "word_of_nat (length (mfile_chunks f))"]
  by (simp add: EncodeManifestSummary_def Let_def put_wires wire_file_def)

lemma cut_chunk_hashes: "k \<in> set (cut_chunks d f c i ss) \<Longrightarrow> \<exists>piece. chunk_hash k = d piece"
  by (induction ss arbitrary: i) (auto simp: cut_chunk_def)

text \<open>The messages about a file of moderate size fit the 64 bits of the positions.\<close>

lemma file_messages_fit:
  assumes "f = md5.cut_file p root c data t" and "length data < 2 ^ 32" and "c < 2 ^ 32"
    and "length (file_relative_path f) < 2 ^ 32" and "remote = hd (BuildManifest [f])"
  shows "length (frame_payload (EncodeManifestSummary [remote])) < 2 ^ 64"
    and "length (frame_payload (EncodeMissingChunksRequest (request_for remote (mfile_chunks remote)))) < 2 ^ 64"
    and "k \<in> set (mfile_chunks remote) \<Longrightarrow> length d \<le> c \<Longrightarrow>
      length (frame_payload (EncodeChunkData (chunk_reply (file_file_id f) k d))) < 2 ^ 64"
proof -
  have remote: "mfile_summary remote = ToManifestEntry f" "mfile_chunks remote = map ToChunkManifestEntry (file_chunks f)"
    by (simp_all add: assms(5) BuildManifest_map)
  have ids: "length (file_file_id f) = 32" "length (file_root_hash f) = 32"
    by (simp_all add: assms(1) md5.cut_file_def length_md5_hex)
  have hashes: "length (mchunk_hash k) = 32" if "k \<in> set (mfile_chunks remote)" for k
    using that by (auto simp: remote assms(1) md5.cut_file_def length_md5_hex ToChunkManifestEntry_def dest!: cut_chunk_hashes)
  have "length (mfile_chunks remote) \<le> length data"
    using length_slices_le [of c data] by (simp add: remote assms(1) md5.cut_file_def)
  then have chunks: "length (concat (map wire_chunk (mfile_chunks remote))) < 117 * 2 ^ 32"
    using length_wire_chunks [of "mfile_chunks remote"] hashes assms(2) by fastforce
  show "length (frame_payload (EncodeManifestSummary [remote])) < 2 ^ 64"
    using manifest_payload_length [of remote] chunks assms(4) by (simp add: remote(1) ToManifestEntry_def ids)
  show "length (frame_payload (EncodeMissingChunksRequest (request_for remote (mfile_chunks remote)))) < 2 ^ 64"
    using request_payload_length [of "request_for remote (mfile_chunks remote)"] chunks assms(4)
    by (simp add: request_for_def remote(1) ToManifestEntry_def ids)
  show "k \<in> set (mfile_chunks remote) \<Longrightarrow> length d \<le> c \<Longrightarrow>
      length (frame_payload (EncodeChunkData (chunk_reply (file_file_id f) k d))) < 2 ^ 64"
    using reply_payload_length [of "file_file_id f" k d] hashes [of k] assms(3) by (simp add: ids)
qed

text \<open>The sample tree on both sides: \<^verbatim>\<open>d/f\<close> of the server becomes \<^verbatim>\<open>d/g\<close> of the client.\<close>

lemma sample_slices: "slices 2 [1, 2, 3 :: u8] = [[1, 2], [3]]"
  by (simp add: slices.simps)

lemma missing_file_arrives_example:
  "\<exists>f ck remote q frames fs' store' chunker' t.
     BuildFileRecord Md5Hasher \<lparr>chunker_chunk_size = 2, chunker_hasher = Md5Hasher_new\<rparr> sample_fs ''d/f'' ''d'' =
       Inr (f, ck) \<and> remote = hd (BuildManifest [f]) \<and> q = request_for remote (mfile_chunks remote) \<and>
     ServeRequest Md5Hasher Md5Hasher_new sample_fs [remote] [file_file_id f \<mapsto> ''d/f'']
       (EncodeMissingChunksRequest q) = (frames, Inr ()) \<and>
     ApplyFile Md5Hasher Md5Hasher_new offline_api NullStorageBackend 0 ''d''
       \<lparr>chunker_chunk_size = 2, chunker_hasher = Md5Hasher_new\<rparr> ''d/g'' remote
       (PlanFile ''d/g'' remote q MetadataStore_init) sample_fs frames = (Inr (), fs', store', chunker', []) \<and>
     entry_at fs' ''d/g'' = Some (RegularFile [1, 2, 3] t)"
proof -
  let ?ck = "\<lparr>chunker_chunk_size = 2, chunker_hasher = Md5Hasher_new\<rparr>"
  have h: "md5_repr (chunker_hasher ?ck) []" by (simp add: md5_repr_new)
  obtain ck' t0 where b: "BuildFileRecord Md5Hasher ?ck sample_fs ''d/f'' ''d'' =
      Inr (md5.cut_file ''d/f'' ''d'' 2 [1, 2, 3] t0, ck')"
    using md5.BuildFileRecord_cut [OF h refl _ _ sample_fs_read(1), of "''d''"] by auto
  let ?f = "md5.cut_file ''d/f'' ''d'' 2 [1, 2, 3] t0"
  obtain remote where remote: "remote = hd (BuildManifest [?f])" by blast
  obtain q where q: "q = request_for remote (mfile_chunks remote)" by blast
  have id: "file_file_id ?f = md5_hex [1, 2, 3]" "request_file_id q = md5_hex [1, 2, 3]"
    "request_relative_path q = ''f''" "request_expected_root_hash q = md5_hex [1, 2, 3]"
    by (simp_all add: q remote md5.cut_file_def request_for_def BuildManifest_map ToManifestEntry_def
        path_relative_def path_eval)
  have chunks: "mfile_chunks remote =
      [\<lparr>mchunk_index = 0, mchunk_offset = 0, mchunk_size = 2, mchunk_hash = md5_hex [1, 2]\<rparr>,
       \<lparr>mchunk_index = 1, mchunk_offset = 2, mchunk_size = 1, mchunk_hash = md5_hex [3]\<rparr>]"
    by (simp add: remote md5.cut_file_def BuildManifest_map sample_slices cut_chunk_def ToChunkManifestEntry_def)
  have missing: "request_missing_chunks q = mfile_chunks remote" by (simp add: q request_for_def)
  have find: "FindRemoteFile [remote] (request_file_id q) (request_relative_path q) = Some remote"
    by (simp add: q FindRemoteFile_def request_for_def)
  have short: "length (file_relative_path ?f) < 2 ^ 32" by (simp add: md5.cut_file_def path_relative_def path_eval)
  note fit = file_messages_fit [OF refl _ _ short remote, unfolded q [symmetric]]
  have small: "length (frame_payload (EncodeMissingChunksRequest q)) < 2 ^ 64" by (rule fit(2)) simp_all
  have replies: "length (frame_payload (EncodeChunkData (chunk_reply (file_file_id ?f) k d))) < 2 ^ 64"
    if "k \<in> set (mfile_chunks remote)" "length d \<le> chunker_chunk_size ?ck" for k d
    using that by (intro fit(3)) simp_all
  have e: "entry_at sample_fs ''d/g'' \<noteq> Some Directory" "entry_at sample_fs (''d/g'' @ ''.part'') \<noteq> Some Directory"
    by (simp_all add: entry_at_def path_eval sample_fs_def)
  have "\<exists>frames fs' store' chunker' t.
    ServeRequest Md5Hasher Md5Hasher_new sample_fs [remote] [file_file_id ?f \<mapsto> ''d/f'']
      (EncodeMissingChunksRequest q) = (frames, Inr ()) \<and>
    ApplyFile Md5Hasher Md5Hasher_new offline_api NullStorageBackend 0 ''d'' ?ck ''d/g'' remote
      (PlanFile ''d/g'' remote q MetadataStore_init) sample_fs frames = (Inr (), fs', store', chunker', []) \<and>
    entry_at fs' ''d/g'' = Some (RegularFile [1, 2, 3] t) \<and>
    map_option file_root_hash (GetFile store' (md5_hex [1, 2, 3])) = Some (md5_hex [1, 2, 3])"
    by (rule missing_file_arrives [OF sample_fs_read(1) _ h _ _ _ b remote q find _ small replies _ sample_dirs _ _ _ e _ _ h])
      (simp_all only: id fun_upd_same, simp_all add: sample_slices ListTaskChunks_def MetadataStore_init_def)
  then show ?thesis using b remote q by blast
qed

lemma begin_empty: "Writer_Begin ops p w fs = (Inr tmp, w', fs') \<Longrightarrow> BytesWritten w' = 0"
  by (auto simp: Writer_Begin_def Let_def BytesWritten_def split: sum.splits option.splits)

section \<open>An unusable part file\<close>

text \<open>
  C34: An interrupted transfer whose part file has the wrong length is not repaired in the run that
  detects it. The recorded prefix has already been cut from the request when the part file's length is
  compared; the code then starts the file over, but the chunks of the prefix were neither requested nor,
  for a file unknown locally, present, so the transfer fails and reports failure.
\<close>

theorem resume_mismatch_fails:
  assumes "PlanFile p remote q store = (task, resume, expected, trimmed, store1)" and "resume \<noteq> 0"
    and "mfile_chunks remote = c # cs" and "mchunk_index c = 0"
    and "GetFileByPath store1 (lexically_normal p) = None"
    and "Writer_Resume Md5Hasher p (SyncWriter_new Md5Hasher_new) fs = (Inr tmp, w, fs1)"
    and "BytesWritten w \<noteq> expected"
  shows "fst (ApplyFile Md5Hasher Md5Hasher_new api backend now local_root chunker p remote
      (PlanFile p remote q store) fs inbox) \<noteq> Inr ()"
proof -
  have trimmed: "trimmed = TrimCompletedChunks q resume"
    using assms(1) by (auto simp: PlanFile_def Let_def)
  have "0 \<notin> set (map mchunk_index (request_missing_chunks trimmed))"
    using assms(2) by (auto simp: trimmed TrimCompletedChunks_def)
  then have bytes: "ChunkBytes Md5Hasher Md5Hasher_new fs' (set (map mchunk_index (request_missing_chunks trimmed)))
      received None c = throw (RuntimeError ''local reusable chunk missing during reconstruction'')" for fs' received
    using assms(4) by (simp add: ChunkBytes_def BuildLocalChunkMap_def)
  have rebuild: "fst (RebuildAndCommit Md5Hasher Md5Hasher_new remote 0
      (set (map mchunk_index (request_missing_chunks trimmed))) received None w' fs' store' task') \<noteq> Inr ()"
    for received w' fs' store' task'
    using bytes by (simp add: RebuildAndCommit_def assms(3))
  have opened: "fst (OpenPart Md5Hasher Md5Hasher_new p task resume expected fs store1) = Inr 0 \<or>
      (\<exists>e. fst (OpenPart Md5Hasher Md5Hasher_new p task resume expected fs store1) = Inl e)"
    using assms(2,6,7)
    by (auto simp: OpenPart_def Let_def word_gt_0 split: prod.splits sum.splits)
  obtain rr inbox1 where recv: "ReceiveChunks (length (request_missing_chunks trimmed)) inbox Map.empty = (rr, inbox1)"
    by (cases "ReceiveChunks (length (request_missing_chunks trimmed)) inbox Map.empty")
  obtain ro w1 fs2 store2 task2 where op:
    "OpenPart Md5Hasher Md5Hasher_new p task resume expected fs store1 = (ro, w1, fs2, store2, task2)"
    by (cases "OpenPart Md5Hasher Md5Hasher_new p task resume expected fs store1")
  show ?thesis
  proof (cases rr)
    case (Inl e)
    then show ?thesis by (simp add: ApplyFile_def assms(1) recv)
  next
    case (Inr received)
    obtain rb fs3 store3 task3 where reb: "RebuildAndCommit Md5Hasher Md5Hasher_new remote 0
      (set (map mchunk_index (request_missing_chunks trimmed))) received None w1 fs2 store2 task2 =
        (rb, fs3, store3, task3)"
      by (cases "RebuildAndCommit Md5Hasher Md5Hasher_new remote 0
        (set (map mchunk_index (request_missing_chunks trimmed))) received None w1 fs2 store2 task2")
    have "\<exists>e. rb = Inl e" using rebuild [of received w1 fs2 store2 task2] reb by (cases rb) auto
    then show ?thesis
      using opened op reb by (auto simp: ApplyFile_def assms(1,5) recv Inr Let_def)
  qed
qed

theorem resume_mismatch_fails_witness:
  "let c = ChunkManifestEntry_init\<lparr>mchunk_size := 5\<rparr>;
       remote = \<lparr>mfile_summary = ManifestEntry_init, mfile_chunks = [c]\<rparr>;
       q = request_for remote [c];
       store = MarkTaskChunkComplete (ToTaskChunk (MakeTaskId q) [] c) MetadataStore_init
   in fst (ApplyFile Md5Hasher Md5Hasher_new offline_api NullStorageBackend 0 ''d''
        \<lparr>chunker_chunk_size = 2, chunker_hasher = Md5Hasher_new\<rparr> ''d/g'' remote
        (PlanFile ''d/g'' remote q store) sample_fs []) \<noteq> Inr ()"
proof -
  let ?c = "ChunkManifestEntry_init\<lparr>mchunk_size := 5\<rparr>"
  let ?remote = "\<lparr>mfile_summary = ManifestEntry_init, mfile_chunks = [?c]\<rparr>"
  let ?q = "request_for ?remote [?c]"
  let ?store = "MarkTaskChunkComplete (ToTaskChunk (MakeTaskId ?q) [] ?c) MetadataStore_init"
  obtain task resume expected trimmed store1 where plan:
    "PlanFile ''d/g'' ?remote ?q ?store = (task, resume, expected, trimmed, store1)"
    by (cases "PlanFile ''d/g'' ?remote ?q ?store")
  have p: "resume = 1" "expected = 5" "GetFileByPath store1 (lexically_normal ''d/g'') = None"
    using plan by (auto simp: PlanFile_def Let_def ComputeResumePrefixCount_def ComputePrefixBytes_def
        ListTaskChunks_def UpsertTask_def MarkTaskChunkComplete_def ToTaskChunk_def MetadataStore_init_def
        chunk_completed_def ChunkManifestEntry_init_def GetFileByPath_def)
  have none: "\<not> fs_exists sample_fs ''d/g.part''"
    by (simp add: fs_exists_def entry_at_def path_eval sample_fs_def)
  obtain w fs1 where res: "Writer_Resume Md5Hasher ''d/g'' (SyncWriter_new Md5Hasher_new) sample_fs =
      (Inr ''d/g.part'', w, fs1)" and bytes: "BytesWritten w = 0"
  proof -
    let ?w = "SyncWriter_new Md5Hasher_new\<lparr>writer_final_path := ''d/g'', writer_temp_path := ''d/g.part'',
        writer_hasher := Reset Md5Hasher Md5Hasher_new, writer_bytes_written := 0\<rparr>"
    obtain w fs1 where begin_: "Writer_Begin Md5Hasher ''d/g'' ?w sample_fs = (Inr ''d/g.part'', w, fs1)"
      using sample_begin [of Md5Hasher ?w] by blast
    then have "BytesWritten w = 0" by (rule begin_empty)
    moreover have "Writer_Resume Md5Hasher ''d/g'' (SyncWriter_new Md5Hasher_new) sample_fs = (Inr ''d/g.part'', w, fs1)"
      using begin_ none by (simp add: Writer_Resume_def Let_def sample_dirs SyncWriter_new_def)
    ultimately show thesis by (rule that [rotated])
  qed
  show ?thesis
    unfolding Let_def
    by (rule resume_mismatch_fails [where c = ?c and cs = "[]", OF plan _ _ _ p(3) res])
      (simp_all add: p bytes ChunkManifestEntry_init_def)
qed

end
