(* ===== verification/Sync_Run.thy ===== *)
theory Sync_Run
  imports Sync_Delivery
begin

text \<open>
  The whole run of \<^verbatim>\<open>apps/sync_v1/main.cpp\<close>: \<open>RunClient\<close> around the per-file work of \<open>Sync_Session\<close>, and the
  exit code of \<open>main\<close>. The peer of the client is a parameter: what it sends in answer to a frame.
  \<open>server_peer\<close> is the serving loop seen this way, one frame at a time.
\<close>

section \<open>The connection as the client sees it\<close>

text \<open>
  \<open>conn_inbox\<close> holds the frames received and not yet read; when it is empty the connection is closed
  or the peer has nothing to say, and \<open>Receive\<close> returns false.
\<close>

type_synonym 'p peer = "MessageFrame \<Rightarrow> 'p \<Rightarrow> MessageFrame list \<times> 'p"

definition receive_frame :: "string \<Rightarrow> MessageFrame list \<Rightarrow> MessageFrame result \<times> MessageFrame list" where
  "receive_frame failure inbox =
     (case inbox of
        [] \<Rightarrow> (throw (RuntimeError failure), [])
      | frame # inbox \<Rightarrow> (Inr frame, inbox))"

text \<open>The disk, the local store, the local chunker, the unread frames and the state of the peer.\<close>

record ('h, 'p) client_state =
  client_fs :: FileSystem
  client_store :: MetadataStore
  client_chunker :: "'h Chunker"
  client_inbox :: "MessageFrame list"
  client_peer :: 'p

text \<open>One round of the loop over the requests.\<close>

definition SyncFile ::
  "'h IHasher \<Rightarrow> 'h \<Rightarrow> FdfsApi \<Rightarrow> StorageBackend \<Rightarrow> u64 \<Rightarrow> path \<Rightarrow> 'p peer \<Rightarrow> ManifestFile list \<Rightarrow>
     MissingChunksRequest \<Rightarrow> ('h, 'p) client_state \<Rightarrow> unit result \<times> ('h, 'p) client_state" where
  "SyncFile ops h api backend now local_root peer manifest q st =
     (case FindRemoteFile manifest (request_file_id q) (request_relative_path q) of
        None \<Rightarrow> (throw (RuntimeError ''client missing remote manifest file''), st)
      | Some remote_file \<Rightarrow>
          let final_path = client_final_path local_root q;
              plan = PlanFile final_path remote_file q (client_store st);
              (task, resume, expected_prefix_bytes, trimmed, store) = plan;
              (frames, peer_state) =
                (if request_missing_chunks trimmed \<noteq> [] then peer (EncodeMissingChunksRequest trimmed) (client_peer st)
                 else ([], client_peer st));
              (r, fs, store, chunker, inbox) =
                ApplyFile ops h api backend now local_root (client_chunker st) final_path remote_file plan
                  (client_fs st) (client_inbox st @ frames)
          in (r, \<lparr>client_fs = fs, client_store = store, client_chunker = chunker, client_inbox = inbox,
                  client_peer = peer_state\<rparr>))"

fun SyncFiles ::
  "(MissingChunksRequest \<Rightarrow> ('h, 'p) client_state \<Rightarrow> unit result \<times> ('h, 'p) client_state) \<Rightarrow>
     MissingChunksRequest list \<Rightarrow> ('h, 'p) client_state \<Rightarrow> unit result \<times> ('h, 'p) client_state"
where
  "SyncFiles sync_file [] st = (Inr (), st)"
| "SyncFiles sync_file (q # qs) st =
     (case sync_file q st of
        (Inl e, st) \<Rightarrow> (Inl e, st)
      | (Inr _, st) \<Rightarrow> SyncFiles sync_file qs st)"

text \<open>
  \<open>connect\<close> gives the outcome of the attempts to connect: the frames the peer sends at once and its
  state. The delays between the attempts are left out.
\<close>

definition RunClient ::
  "'h IHasher \<Rightarrow> 'h \<Rightarrow> FdfsApi \<Rightarrow> StorageBackend \<Rightarrow> u64 \<Rightarrow> path \<Rightarrow> MetadataStore \<Rightarrow>
     (nat \<Rightarrow> (MessageFrame list \<times> 'p) result) \<Rightarrow> 'p peer \<Rightarrow> FileSystem \<Rightarrow>
     unit result \<times> FileSystem \<times> MetadataStore \<times> 'p option" where
  "RunClient ops h api backend now local_root local_store connect peer fs =
     (case ScanDirectory ops fs local_root [] \<lparr>chunker_chunk_size = 4 * 1024 * 1024, chunker_hasher = h\<rparr> local_store of
        (Inl e, chunker, local_store) \<Rightarrow> (Inl e, fs, local_store, None)
      | (Inr _, chunker, local_store) \<Rightarrow>
          (case ConnectWithRetry connect 20 of
             Inl e \<Rightarrow> (Inl e, fs, local_store, None)
           | Inr (inbox, p) \<Rightarrow>
               (case receive_frame ''client failed to receive hello'' inbox of
                  (Inl e, inbox) \<Rightarrow> (Inl e, fs, local_store, Some p)
                | (Inr hello, inbox) \<Rightarrow>
                    (case DecodeHello hello of
                       Inl e \<Rightarrow> (Inl e, fs, local_store, Some p)
                     | Inr _ \<Rightarrow>
                         (case receive_frame ''client failed to receive manifest'' inbox of
                            (Inl e, inbox) \<Rightarrow> (Inl e, fs, local_store, Some p)
                          | (Inr frame, inbox) \<Rightarrow>
                              (case DecodeManifestSummary frame of
                                 Inl e \<Rightarrow> (Inl e, fs, local_store, Some p)
                               | Inr remote_manifest \<Rightarrow>
                                   let diff = Compare local_store remote_manifest;
                                       (r, st) = SyncFiles (SyncFile ops h api backend now local_root peer remote_manifest)
                                         (chunk_requests diff)
                                         \<lparr>client_fs = fs, client_store = local_store, client_chunker = chunker,
                                          client_inbox = inbox, client_peer = p\<rparr>
                                   in (case r of
                                         Inl e \<Rightarrow> (Inl e, client_fs st, client_store st, Some (client_peer st))
                                       | Inr _ \<Rightarrow>
                                           let (_, p) = peer (EncodeSyncAck \<lparr>ack_file_id = [], ack_relative_path = [],
                                                 ack_success = True, ack_detail = ''sync_v1 completed''\<rparr>) (client_peer st)
                                           in (Inr (), client_fs st, client_store st, Some p))))))))"

text \<open>The exit code of \<open>main\<close> from the outcomes of its two threads.\<close>

definition exit_code :: "unit result \<Rightarrow> unit result \<Rightarrow> nat" where
  "exit_code client server =
     (let rc = (case client of Inl _ \<Rightarrow> 1 | Inr _ \<Rightarrow> 0);
          server_rc = (case server of Inl _ \<Rightarrow> 1 | Inr _ \<Rightarrow> 0)
      in if rc \<noteq> 0 then rc else server_rc)"

section \<open>The serving loop as a peer\<close>

text \<open>The state is how the loop has ended, or \<open>None\<close> while it runs.\<close>

definition server_peer ::
  "'h IHasher \<Rightarrow> 'h \<Rightarrow> FileSystem \<Rightarrow> ManifestFile list \<Rightarrow> (string \<rightharpoonup> path) \<Rightarrow> unit result option peer" where
  "server_peer ops h fs manifest paths frame ended =
     (case ended of
        Some r \<Rightarrow> ([], Some r)
      | None \<Rightarrow>
          (case ServeLoop ops h fs manifest paths [frame] of
             (sent, r) \<Rightarrow>
               (sent, if r = Inr () \<and> frame_type frame \<noteq> message_code kSyncAck then None else Some r)))"

fun peer_answers :: "'p peer \<Rightarrow> MessageFrame list \<Rightarrow> 'p \<Rightarrow> MessageFrame list \<times> 'p" where
  "peer_answers peer [] p = ([], p)"
| "peer_answers peer (frame # frames) p =
     (let (sent, p) = peer frame p;
          (rest, p) = peer_answers peer frames p
      in (sent @ rest, p))"

lemma stopped_peer: "server_peer ops h fs manifest paths frame (Some r) = ([], Some r)"
  by (simp add: server_peer_def)

lemma ended_peer: "peer_answers (server_peer ops h fs manifest paths) frames (Some r) = ([], Some r)"
  by (induction frames) (simp_all add: stopped_peer)

lemma running_peer:
  "server_peer ops h fs manifest paths frame None =
     (let (sent, r) = ServeLoop ops h fs manifest paths [frame]
      in (sent, if r = Inr () \<and> frame_type frame \<noteq> message_code kSyncAck then None else Some r))"
  by (simp add: server_peer_def)

text \<open>Answering frame by frame is the serving loop over the frames; a connection that closes ends it well.\<close>

lemma server_peer_loop:
  "ServeLoop ops h fs manifest paths frames =
     (let (sent, ended) = peer_answers (server_peer ops h fs manifest paths) frames None
      in (sent, case ended of None \<Rightarrow> Inr () | Some r \<Rightarrow> r))"
  by (induction frames) (auto simp: running_peer ended_peer split_beta Let_def split: sum.splits prod.splits)

section \<open>What a run leaves in the store\<close>

lemma GetTask_writes [simp]:
  "GetTask (ClearTaskChunks j db) k = GetTask db k" "GetTask (MarkTaskChunkComplete c db) k = GetTask db k"
  "GetTask (UpsertFile f db) k = GetTask db k" "GetTask (UpsertStoredObject ob db) k = GetTask db k"
  by (simp_all add: GetTask_def ClearTaskChunks_def MarkTaskChunkComplete_def UpsertFile_def UpsertStoredObject_def)

lemma GetTask_upsert: "GetTask (UpsertTask t db) k = (if k = synctask_task_id t then Some t else GetTask db k)"
  unfolding GetTask_def UpsertTask_def by (simp add: table_simps)

lemma chunk_rows:
  "ListTaskChunks (UpsertTask t db) k = ListTaskChunks db k" "ListTaskChunks (ClearTaskChunks k db) k = []"
  by (simp_all add: ListTaskChunks_def UpsertTask_def ClearTaskChunks_def)

text \<open>A step of the work on one file writes no sync task but its own, whose id it keeps.\<close>

lemma filter_upsert_by:
  "\<not> P x \<Longrightarrow> (\<And>y. match y \<Longrightarrow> \<not> P y) \<Longrightarrow> filter P (upsert_by match x ys) = filter P ys"
  by (induction ys) auto

lemma mark_rows:
  "k \<noteq> taskchunk_task_id c \<Longrightarrow> ListTaskChunks (MarkTaskChunkComplete c db) k = ListTaskChunks db k"
  "k \<noteq> j \<Longrightarrow> ListTaskChunks (ClearTaskChunks j db) k = ListTaskChunks db k"
proof -
  show "k \<noteq> taskchunk_task_id c \<Longrightarrow> ListTaskChunks (MarkTaskChunkComplete c db) k = ListTaskChunks db k"
    unfolding ListTaskChunks_def MarkTaskChunkComplete_def by simp (rule filter_upsert_by, auto)
  show "k \<noteq> j \<Longrightarrow> ListTaskChunks (ClearTaskChunks j db) k = ListTaskChunks db k"
    by (auto simp: ListTaskChunks_def ClearTaskChunks_def intro!: filter_cong)
qed

definition own_task :: "MetadataStore \<Rightarrow> SyncTask \<Rightarrow> MetadataStore \<Rightarrow> SyncTask \<Rightarrow> bool" where
  "own_task store task store' task' \<longleftrightarrow> synctask_task_id task' = synctask_task_id task \<and>
     (\<forall>k. k \<noteq> synctask_task_id task \<longrightarrow> GetTask store' k = GetTask store k \<and> ListTaskChunks store' k = ListTaskChunks store k)"

lemma own_task_refl [simp]: "own_task store task store task"
  by (simp add: own_task_def)

lemma own_task_trans: "own_task a t b u \<Longrightarrow> own_task b u c v \<Longrightarrow> own_task a t c v"
  by (simp add: own_task_def)

lemma OpenPart_own:
  "OpenPart ops h p task resume n fs store = (r, w, fs', store', task') \<Longrightarrow> own_task store task store' task'"
  by (auto simp: OpenPart_def own_task_def GetTask_upsert chunk_rows mark_rows ToTaskChunk_def Let_def split: if_splits sum.splits prod.splits)

lemma Reconstruct_own:
  "Reconstruct ops h resume missing received lf cs w fs store task = (r, w', fs', store', task') \<Longrightarrow>
     own_task store task store' task'"
proof (induction cs arbitrary: w fs store task)
  case (Cons c cs)
  let ?task = "task\<lparr>synctask_completed_chunks := mchunk_index c + 1\<rparr>"
  have "own_task (UpsertTask ?task (MarkTaskChunkComplete (ToTaskChunk (synctask_task_id task) i c) store)) ?task store' task' \<Longrightarrow>
      own_task store task store' task'" for i
    by (auto simp: own_task_def GetTask_upsert chunk_rows mark_rows ToTaskChunk_def)
  then show ?case
    using Cons.prems by (auto simp: Let_def split: if_splits sum.splits prod.splits dest!: Cons.IH)
qed simp

lemma RebuildAndCommit_own:
  assumes "RebuildAndCommit ops h remote resume missing received lf w fs store task = (r, fs', store', task')"
  shows "own_task store task store' task' \<and> (r = Inr () \<longrightarrow> GetTask store' (synctask_task_id task) = Some task' \<and>
    synctask_state task' = SyncCommitted \<and> ListTaskChunks store' (synctask_task_id task) = [])"
proof -
  obtain r1 w1 fs1 store1 task1 where rec:
    "Reconstruct ops h resume missing received lf (mfile_chunks remote) w fs store task = (r1, w1, fs1, store1, task1)"
    by (metis prod_cases5)
  have "own_task store1 task1 store' task' \<and> (r = Inr () \<longrightarrow> GetTask store' (synctask_task_id task1) = Some task' \<and>
      synctask_state task' = SyncCommitted \<and> ListTaskChunks store' (synctask_task_id task1) = [])"
    using assms
    by (auto simp: RebuildAndCommit_def rec own_task_def GetTask_upsert chunk_rows mark_rows ToTaskChunk_def Let_def chunk_rows
        split: sum.splits prod.splits bool.splits)
  then show ?thesis using Reconstruct_own [OF rec] by (simp add: own_task_def)
qed

lemma PlanFile_own:
  assumes "PlanFile p remote q store = (task, resume, n, trimmed, store')"
  shows "synctask_task_id task = MakeTaskId q"
    and "k \<noteq> MakeTaskId q \<Longrightarrow> GetTask store' k = GetTask store k \<and> ListTaskChunks store' k = ListTaskChunks store k"
  using assms by (auto simp: PlanFile_def Let_def GetTask_upsert chunk_rows)

definition task_done :: "MetadataStore \<Rightarrow> string \<Rightarrow> bool" where
  "task_done store k \<longleftrightarrow> map_option synctask_state (GetTask store k) = Some SyncCommitted \<and> ListTaskChunks store k = []"

lemma ApplyFile_own:
  assumes "ApplyFile ops h api backend now root chunker p remote (task, resume, n, trimmed, store) fs inbox =
    (r, fs', store', chunker', inbox')"
  shows "(k \<noteq> synctask_task_id task \<longrightarrow> GetTask store' k = GetTask store k \<and> ListTaskChunks store' k = ListTaskChunks store k) \<and>
    (r = Inr () \<longrightarrow> task_done store' (synctask_task_id task))"
proof -
  have rows: "ListTaskChunks (UpsertStoredObject ob (UpsertFile f db)) j = ListTaskChunks db j"
    "ListTaskChunks (UpsertFile f db) j = ListTaskChunks db j" for ob f db j
    by (simp_all add: ListTaskChunks_def UpsertFile_def UpsertStoredObject_def)
  show ?thesis
    using assms unfolding ApplyFile_def prod.case Let_def
    by (auto dest!: OpenPart_own RebuildAndCommit_own simp: rows own_task_def RecordFailure_def GetTask_upsert chunk_rows
        task_done_def Let_def split: sum.splits prod.splits)
qed

lemma SyncFile_own:
  assumes "SyncFile ops h api backend now root peer manifest q st = (r, st')"
  shows "(k \<noteq> MakeTaskId q \<longrightarrow> GetTask (client_store st') k = GetTask (client_store st) k \<and>
      ListTaskChunks (client_store st') k = ListTaskChunks (client_store st) k) \<and>
    (r = Inr () \<longrightarrow> task_done (client_store st') (MakeTaskId q))"
proof (cases "FindRemoteFile manifest (request_file_id q) (request_relative_path q)")
  case None
  then show ?thesis using assms by (auto simp: SyncFile_def)
next
  case (Some remote)
  obtain task resume n trimmed store where plan:
    "PlanFile (client_final_path root q) remote q (client_store st) = (task, resume, n, trimmed, store)"
    by (metis prod_cases5)
  obtain frames p where peer: "(if request_missing_chunks trimmed \<noteq> [] then peer (EncodeMissingChunksRequest trimmed) (client_peer st)
      else ([], client_peer st)) = (frames, p)"
    by (metis surj_pair)
  obtain r' fs' store' chunker' inbox' where app: "ApplyFile ops h api backend now root (client_chunker st)
      (client_final_path root q) remote (task, resume, n, trimmed, store) (client_fs st) (client_inbox st @ frames) =
      (r', fs', store', chunker', inbox')"
    by (metis prod_cases5)
  have "r' = r" "client_store st' = store'"
    using assms by (auto simp: SyncFile_def Some plan peer app Let_def split: if_splits)
  then show ?thesis using ApplyFile_own [OF app, of k] PlanFile_own(1) [OF plan] PlanFile_own(2) [OF plan, of k] by auto
qed

lemma SyncFiles_done:
  "SyncFiles (SyncFile ops h api backend now root peer manifest) qs st = (Inr (), st') \<Longrightarrow>
     (\<forall>q \<in> set qs. task_done (client_store st') (MakeTaskId q)) \<and>
     (\<forall>k. k \<notin> MakeTaskId ` set qs \<longrightarrow> task_done (client_store st') k = task_done (client_store st) k)"
proof (induction qs arbitrary: st)
  case (Cons q qs)
  obtain st1 where q: "SyncFile ops h api backend now root peer manifest q st = (Inr (), st1)"
    and qs: "SyncFiles (SyncFile ops h api backend now root peer manifest) qs st1 = (Inr (), st')"
    using Cons.prems by (auto split: sum.splits prod.splits)
  have one: "task_done (client_store st1) (MakeTaskId q)"
    "k \<noteq> MakeTaskId q \<Longrightarrow> task_done (client_store st1) k = task_done (client_store st) k" for k
    using SyncFile_own [OF q, of k] by (simp_all add: task_done_def)
  note rest = Cons.IH [OF qs]
  have "task_done (client_store st') (MakeTaskId q)"
    using rest one(1) by (cases "MakeTaskId q \<in> MakeTaskId ` set qs") auto
  then show ?case using rest one(2) by auto
qed simp

text \<open>
  A run of the client that ends normally has transferred every file it asked for: after the scan, the hello
  and the manifest of the peer, each request of the comparison has a committed task, with no recorded
  chunks left over for a later resume.
\<close>

lemma run_client_commits:
  assumes "RunClient ops h api backend now local_root store connect peer fs = (Inr (), fs', store', p)"
  shows "\<exists>files chunker scanned hello frame inbox p0 manifest.
    ScanDirectory ops fs local_root [] \<lparr>chunker_chunk_size = 4 * 1024 * 1024, chunker_hasher = h\<rparr> store =
      (Inr files, chunker, scanned) \<and>
    ConnectWithRetry connect 20 = Inr (hello # frame # inbox, p0) \<and> DecodeManifestSummary frame = Inr manifest \<and>
    (\<forall>q \<in> set (chunk_requests (Compare scanned manifest)).
       map_option synctask_state (GetTask store' (MakeTaskId q)) = Some SyncCommitted \<and>
       ListTaskChunks store' (MakeTaskId q) = [])"
  using assms
  by (auto simp: RunClient_def receive_frame_def Let_def task_done_def
      split: sum.splits prod.splits list.splits dest!: SyncFiles_done)

section \<open>A file arrives in a run\<close>

lemma EncodeMissingChunksRequest_type: "frame_type (EncodeMissingChunksRequest q) = message_code kMissingChunksRequest"
  by (simp add: EncodeMissingChunksRequest_def Let_def)

lemma EncodeSyncAck_type: "frame_type (EncodeSyncAck a) = message_code kSyncAck"
  by (simp add: EncodeSyncAck_def Let_def)

lemma peer_serves:
  assumes "ServeRequest ops h fs manifest paths (EncodeMissingChunksRequest q) = (frames, Inr ())"
  shows "server_peer ops h fs manifest paths (EncodeMissingChunksRequest q) None = (frames, None)"
  using assms by (simp add: running_peer EncodeMissingChunksRequest_type Let_def)

lemma serves_nothing:
  assumes "ServeRequest ops h fs manifest paths (EncodeMissingChunksRequest q) = (frames, Inr ())"
    and "FindRemoteFile manifest (request_file_id q) (request_relative_path q) = Some remote"
    and "paths (request_file_id q) = Some p" and "request_missing_chunks q = []"
    and "length (frame_payload (EncodeMissingChunksRequest q)) < 2 ^ 64"
  shows "frames = []"
  using assms missing_request_decodes [OF assms(5)] by (simp add: ServeRequest_def)

lemma SyncFile_delivers:
  assumes "FindRemoteFile manifest (request_file_id q) (request_relative_path q) = Some remote"
    and "paths (request_file_id q) = Some pR" and "length (frame_payload (EncodeMissingChunksRequest q)) < 2 ^ 64"
    and "ListTaskChunks store (MakeTaskId q) = []"
    and "ServeRequest Md5Hasher h fsR manifest paths (EncodeMissingChunksRequest q) = (frames, Inr ())"
    and "ApplyFile ops h' api backend now root chunker (client_final_path root q) remote
      (PlanFile (client_final_path root q) remote q store) fs frames = (Inr (), fs', store', chunker', [])"
  shows "SyncFile ops h' api backend now root (server_peer Md5Hasher h fsR manifest paths) manifest q
      \<lparr>client_fs = fs, client_store = store, client_chunker = chunker, client_inbox = [], client_peer = None\<rparr> =
    (Inr (), \<lparr>client_fs = fs', client_store = store', client_chunker = chunker', client_inbox = [], client_peer = None\<rparr>)"
proof -
  obtain task store1 where plan: "PlanFile (client_final_path root q) remote q store = (task, 0, 0, q, store1)"
    using PlanFile_fresh [OF assms(4)] by blast
  have "(if request_missing_chunks q \<noteq> [] then server_peer Md5Hasher h fsR manifest paths (EncodeMissingChunksRequest q) None
      else ([], None)) = (frames, None)"
    using peer_serves [OF assms(5)] serves_nothing [OF assms(5,1,2) _ assms(3)] by auto
  then show ?thesis
    using assms(6) by (cases "request_missing_chunks q = []") (simp_all add: SyncFile_def assms(1) plan Let_def)
qed

text \<open>
  A missing file comes from the server's tree into the client's. When the manifest of the server is the
  chunker's record of one file, the client knows no file of that relative path and has no earlier
  progress, and the file's place is free and writable, the run of the client against the serving loop
  ends without an error, the file lies under the client's root with exactly the server's bytes, the
  store knows it under its MD5, and the serving loop has ended without an error.
\<close>

lemma run_delivers:
  assumes "open_read fsR pR = Some data" and "length data < 2 ^ 63"
    and "md5_repr (chunker_hasher chunkerR) m" and "0 < chunker_chunk_size chunkerR"
    and "chunker_chunk_size chunkerR \<le> 2 ^ 32 - 64"
    and "length (slices (chunker_chunk_size chunkerR) data) < 2 ^ 32"
    and "BuildFileRecord Md5Hasher chunkerR fsR pR rootR = Inr (f, chunkerR')"
    and "remote = hd (BuildManifest [f])" and "q = request_for remote (mfile_chunks remote)"
    and "paths (file_file_id f) = Some pR"
    and "length (frame_payload (EncodeHello hello)) < 2 ^ 64"
    and "length (frame_payload (EncodeManifestSummary [remote])) < 2 ^ 64"
    and "length (frame_payload (EncodeMissingChunksRequest q)) < 2 ^ 64"
    and "\<And>k d. k \<in> set (mfile_chunks remote) \<Longrightarrow> length d \<le> chunker_chunk_size chunkerR \<Longrightarrow>
      length (frame_payload (EncodeChunkData (chunk_reply (file_file_id f) k d))) < 2 ^ 64"
    and "ScanDirectory Md5Hasher fs local_root [] \<lparr>chunker_chunk_size = 4 * 1024 * 1024, chunker_hasher = Md5Hasher_new\<rparr>
      local_store = (Inr files, chunker, store)"
    and "md5_repr (chunker_hasher chunker) m'" and "chunker_chunk_size chunker = 4 * 1024 * 1024"
    and "local_by_relative_path store (file_relative_path f) = None" and "ListTaskChunks store (MakeTaskId q) = []"
    and "ConnectWithRetry connect 20 = Inr ([EncodeHello hello, EncodeManifestSummary [remote]], None)"
    and "p = path_append local_root (file_relative_path f)"
    and "create_directories (parent_path p) fs = Inr fs1" and "p \<noteq> []" and "fs_writable fs p"
    and "fs_writable fs (p @ ''.part'')" and "entry_at fs1 p \<noteq> Some Directory"
    and "entry_at fs1 (p @ ''.part'') \<noteq> Some Directory" and "fs_readable fs p" and "length data \<le> fs_capacity fs"
  shows "\<exists>fs' store' t. RunClient Md5Hasher Md5Hasher_new api NullStorageBackend now local_root local_store connect
      (server_peer Md5Hasher h fsR [remote] paths) fs = (Inr (), fs', store', Some (Some (Inr ()))) \<and>
    entry_at fs' p = Some (RegularFile data t) \<and>
    map_option file_root_hash (GetFile store' (md5_hex data)) = Some (md5_hex data)"
proof -
  have remote: "mfile_summary remote = ToManifestEntry f" "mfile_chunks remote = map ToChunkManifestEntry (file_chunks f)"
    by (simp_all add: assms(8) BuildManifest_map)
  have q: "request_file_id q = file_file_id f" "request_relative_path q = file_relative_path f"
    by (simp_all add: assms(9) request_for_def remote ToManifestEntry_def)
  have find: "FindRemoteFile [remote] (request_file_id q) (request_relative_path q) = Some remote"
    by (simp add: assms(9) FindRemoteFile_def request_for_def)
  have final: "client_final_path local_root q = p" by (simp add: client_final_path_def q assms(21))
  have path: "paths (request_file_id q) = Some pR" by (simp add: q assms(10))
  have size: "0 < chunker_chunk_size chunker" "chunker_chunk_size chunker \<le> 2 ^ 32 - 64" by (simp_all add: assms(17))
  have "\<exists>frames fs' store' chunker' t.
    ServeRequest Md5Hasher h fsR [remote] paths (EncodeMissingChunksRequest q) = (frames, Inr ()) \<and>
    ApplyFile Md5Hasher Md5Hasher_new api NullStorageBackend now local_root chunker p remote
      (PlanFile p remote q store) fs frames = (Inr (), fs', store', chunker', []) \<and>
    entry_at fs' p = Some (RegularFile data t) \<and>
    map_option file_root_hash (GetFile store' (md5_hex data)) = Some (md5_hex data)"
    by (rule missing_file_arrives, (fact assms(1-9) | fact find | fact path | fact assms(13,19,22-29,16) | fact size |
        (rule assms(14), assumption, assumption))+)
  then obtain frames fs' store' chunker' t where
    serve: "ServeRequest Md5Hasher h fsR [remote] paths (EncodeMissingChunksRequest q) = (frames, Inr ())" and
    app: "ApplyFile Md5Hasher Md5Hasher_new api NullStorageBackend now local_root chunker p remote
      (PlanFile p remote q store) fs frames = (Inr (), fs', store', chunker', [])" and
    e: "entry_at fs' p = Some (RegularFile data t)"
      "map_option file_root_hash (GetFile store' (md5_hex data)) = Some (md5_hex data)"
    by blast
  have sync: "SyncFile Md5Hasher Md5Hasher_new api NullStorageBackend now local_root
      (server_peer Md5Hasher h fsR [remote] paths) [remote] q
      \<lparr>client_fs = fs, client_store = store, client_chunker = chunker, client_inbox = [], client_peer = None\<rparr> =
    (Inr (), \<lparr>client_fs = fs', client_store = store', client_chunker = chunker', client_inbox = [], client_peer = None\<rparr>)"
    by (rule SyncFile_delivers [OF find path assms(13,19) serve]) (simp only: final app)
  have "length (file_chunks f) < 2 ^ 32 \<and> mentry_chunk_count (mfile_summary remote) = word_of_nat (length (mfile_chunks remote))"
    using md5.BuildFileRecord_cut [OF assms(3) refl assms(4,5,1), of rootR] assms(6,7)
    by (auto simp: remote ToManifestEntry_def md5.cut_file_def)
  then have dec: "DecodeManifestSummary (EncodeManifestSummary [remote]) = Inr [remote]"
    using assms(12) by (intro manifest_decodes) (auto simp: remote)
  have diff: "chunk_requests (Compare store [remote]) = [q]"
    using assms(18) by (simp add: Compare_def CompareFile_def remote(1) ToManifestEntry_def assms(9))
  have ack: "snd (server_peer Md5Hasher h fsR [remote] paths (EncodeSyncAck a) None) = Some (Inr ())"
    if "length (frame_payload (EncodeSyncAck a)) < 2 ^ 64" for a
    using sync_ack_roundtrip [OF that] by (simp add: running_peer EncodeSyncAck_type message_code_inject split_beta Let_def)
  let ?ack = "\<lparr>ack_file_id = [], ack_relative_path = [], ack_success = True, ack_detail = ''sync_v1 completed''\<rparr>"
  have "length (frame_payload (EncodeSyncAck ?ack)) < 2 ^ 64"
    by (simp add: EncodeSyncAck_def put_wires wire_string_def wire_u64_def to_string_u64_def to_string.simps Let_def)
  note ack = ack [OF this]
  have "RunClient Md5Hasher Md5Hasher_new api NullStorageBackend now local_root local_store connect
      (server_peer Md5Hasher h fsR [remote] paths) fs = (Inr (), fs', store', Some (Some (Inr ())))"
    unfolding RunClient_def assms(15) by (simp add: assms(20) receive_frame_def hello_roundtrip [OF assms(11)]
        dec diff sync ack split_beta Let_def)
  then show ?thesis using e by blast
qed

end
