(* ===== verification/Control_Plane.thy ===== *)
theory Control_Plane
  imports Metadata_Store Storage
begin

text \<open>
  The small services of the control plane over the metadata store: the task scheduler
  (\<^verbatim>\<open>src/control_plane/task_scheduler.cpp\<close>), the device manager (\<^verbatim>\<open>device_manager.cpp\<close>), the policy
  manager (\<^verbatim>\<open>policy_manager.cpp\<close>), the overlay peers (\<^verbatim>\<open>src/security/node_network_service.cpp\<close>), the
  identities and sessions (\<^verbatim>\<open>auth_service.cpp\<close>), the audit logger (\<^verbatim>\<open>audit_logger.cpp\<close>), and the
  \<^verbatim>\<open>SystemRuntime\<close> that owns one of each around one store.

  A service that only forwards to the store is a function of the store; the services with state of
  their own work on their vector. The services are built over the abstract \<^verbatim>\<open>MetadataStore\<close>; here they
  run on the in-memory one. The clock is a field of the runtime: an operation that reads it more than
  once reads one value.
\<close>

section \<open>Task scheduler\<close>

definition ScheduleTask :: "ScheduledTaskRecord \<Rightarrow> MetadataStore \<Rightarrow> Status \<times> MetadataStore" where
  "ScheduleTask task db = (Status_Ok, UpsertScheduledTask task db)"

definition UpdateTaskState ::
  "string \<Rightarrow> JobState \<Rightarrow> string \<Rightarrow> MetadataStore \<Rightarrow> Status \<times> MetadataStore" where
  "UpdateTaskState task_id state detail db =
     (case GetScheduledTaskRecord db task_id of
        None \<Rightarrow> (Status_Error kNotFound ''task not found'', db)
      | Some task \<Rightarrow>
          let task = task\<lparr>task_state := state, task_detail := detail\<rparr>
          in (Status_Ok, UpsertScheduledTask task db))"

definition RetryTask :: "string \<Rightarrow> string \<Rightarrow> MetadataStore \<Rightarrow> Status \<times> MetadataStore" where
  "RetryTask task_id detail db =
     (case GetScheduledTaskRecord db task_id of
        None \<Rightarrow> (Status_Error kNotFound ''task not found'', db)
      | Some task \<Rightarrow>
          let task = task\<lparr>task_state := JobQueued, task_retry_count := task_retry_count task + 1,
                task_detail := detail\<rparr>
          in (Status_Ok, UpsertScheduledTask task db))"

definition FindTask :: "MetadataStore \<Rightarrow> string \<Rightarrow> ScheduledTaskRecord option" where
  "FindTask db task_id = GetScheduledTaskRecord db task_id"

definition ListTasks :: "MetadataStore \<Rightarrow> ScheduledTaskRecord list" where
  "ListTasks db = ListScheduledTasks db"

definition ListTasksByDomain :: "MetadataStore \<Rightarrow> JobDomain \<Rightarrow> ScheduledTaskRecord list" where
  "ListTasksByDomain db domain = filter (\<lambda>t. task_domain t = domain) (ListScheduledTasks db)"

definition ListTasksForNode :: "MetadataStore \<Rightarrow> string \<Rightarrow> ScheduledTaskRecord list" where
  "ListTasksForNode db node_id =
     filter (\<lambda>t. task_source_node t = node_id \<or> task_target_node t = node_id) (ListScheduledTasks db)"

definition ListTasksByState :: "MetadataStore \<Rightarrow> JobState \<Rightarrow> ScheduledTaskRecord list" where
  "ListTasksByState db state = ListScheduledTasksByState db state"

definition ListRetryableTasks :: "MetadataStore \<Rightarrow> ScheduledTaskRecord list" where
  "ListRetryableTasks db = ListScheduledTasksByState db JobFailed"

section \<open>Device manager\<close>

definition RegisterDevice :: "NodeInfo \<Rightarrow> MetadataStore \<Rightarrow> Status \<times> MetadataStore" where
  "RegisterDevice node db = (Status_Ok, UpsertNode node db)"

definition RecordHeartbeat :: "string \<Rightarrow> u64 \<Rightarrow> MetadataStore \<Rightarrow> Status \<times> MetadataStore" where
  "RecordHeartbeat node_id epoch_seconds db =
     (case GetNode db node_id of
        None \<Rightarrow> (Status_Error kNotFound ''device not found'', db)
      | Some node \<Rightarrow> (Status_Ok, UpsertNode (node\<lparr>node_last_seen_epoch := epoch_seconds\<rparr>) db))"

definition FindDevice :: "MetadataStore \<Rightarrow> string \<Rightarrow> NodeInfo option" where
  "FindDevice db node_id = GetNode db node_id"

definition ListDevices :: "MetadataStore \<Rightarrow> NodeInfo list" where
  "ListDevices db = ListNodes db"

definition ListOnlineDevices :: "MetadataStore \<Rightarrow> u64 \<Rightarrow> u64 \<Rightarrow> NodeInfo list" where
  "ListOnlineDevices db now_epoch offline_after_seconds =
     filter (\<lambda>node. node_last_seen_epoch node \<noteq> 0 \<and> now_epoch \<ge> node_last_seen_epoch node \<and>
       now_epoch - node_last_seen_epoch node \<le> offline_after_seconds) (ListNodes db)"

definition IsDeviceOnline :: "MetadataStore \<Rightarrow> string \<Rightarrow> u64 \<Rightarrow> u64 \<Rightarrow> bool" where
  "IsDeviceOnline db node_id now_epoch offline_after_seconds =
     (case GetNode db node_id of
        None \<Rightarrow> False
      | Some node \<Rightarrow>
          if node_last_seen_epoch node = 0 \<or> now_epoch < node_last_seen_epoch node then False
          else now_epoch - node_last_seen_epoch node \<le> offline_after_seconds)"

section \<open>Policy manager\<close>

definition Policies_UpsertBackupPolicy :: "BackupPolicy \<Rightarrow> MetadataStore \<Rightarrow> Status \<times> MetadataStore" where
  "Policies_UpsertBackupPolicy policy db = (Status_Ok, UpsertBackupPolicy policy db)"

definition Policies_UpsertTransferPolicy :: "TransferPolicy \<Rightarrow> MetadataStore \<Rightarrow> Status \<times> MetadataStore" where
  "Policies_UpsertTransferPolicy policy db = (Status_Ok, UpsertTransferPolicy policy db)"

definition FindBackupPolicy :: "MetadataStore \<Rightarrow> string \<Rightarrow> BackupPolicy option" where
  "FindBackupPolicy db policy_id = GetBackupPolicy db policy_id"

definition FindTransferPolicy :: "MetadataStore \<Rightarrow> string \<Rightarrow> TransferPolicy option" where
  "FindTransferPolicy db policy_id = GetTransferPolicy db policy_id"

definition ListBackupPoliciesForNode :: "MetadataStore \<Rightarrow> string \<Rightarrow> BackupPolicy list" where
  "ListBackupPoliciesForNode db node_id =
     filter (\<lambda>policy. bpolicy_node_id policy = node_id) (ListBackupPolicies db)"

section \<open>Overlay peers\<close>

type_synonym peers = "OverlayPeer list"

definition UpsertPeer :: "OverlayPeer \<Rightarrow> peers \<Rightarrow> Status \<times> peers" where
  "UpsertPeer peer peers =
     (Status_Ok, upsert_by (\<lambda>current. peer_node_id current = peer_node_id peer) peer peers)"

definition peer_of_device :: "u64 \<Rightarrow> u64 \<Rightarrow> NodeInfo \<Rightarrow> OverlayPeer" where
  "peer_of_device now_epoch offline_after_seconds device =
     \<lparr>peer_node_id = node_node_id device, peer_virtual_ip = node_zt_ip device,
      peer_online = (node_last_seen_epoch device \<noteq> 0 \<and> now_epoch \<ge> node_last_seen_epoch device \<and>
        now_epoch - node_last_seen_epoch device \<le> offline_after_seconds),
      peer_last_seen_epoch = node_last_seen_epoch device\<rparr>"

fun RefreshPeersFromDevices :: "NodeInfo list \<Rightarrow> u64 \<Rightarrow> u64 \<Rightarrow> peers \<Rightarrow> peers" where
  "RefreshPeersFromDevices [] now_epoch offline_after_seconds peers = peers"
| "RefreshPeersFromDevices (device # devices) now_epoch offline_after_seconds peers =
     (let (_, peers) = UpsertPeer (peer_of_device now_epoch offline_after_seconds device) peers
      in RefreshPeersFromDevices devices now_epoch offline_after_seconds peers)"

definition MarkPeerOffline :: "string \<Rightarrow> peers \<Rightarrow> Status \<times> peers" where
  "MarkPeerOffline node_id peers =
     (case update_first (\<lambda>peer. peer_node_id peer = node_id) (\<lambda>peer. peer\<lparr>peer_online := False\<rparr>) peers of
        Some peers' \<Rightarrow> (Status_Ok, peers')
      | None \<Rightarrow> (Status_Error kNotFound ''peer not found'', peers))"

definition FindPeer :: "peers \<Rightarrow> string \<Rightarrow> OverlayPeer option" where
  "FindPeer peers node_id = find (\<lambda>peer. peer_node_id peer = node_id) peers"

definition ListPeers :: "peers \<Rightarrow> OverlayPeer list" where
  "ListPeers peers = peers"

definition ListOnlinePeers :: "peers \<Rightarrow> OverlayPeer list" where
  "ListOnlinePeers peers = filter peer_online peers"

section \<open>Identities and sessions\<close>

record AuthService =
  auth_identities :: "AuthIdentity list"
  auth_sessions :: "AuthSession list"

definition RegisterIdentity :: "AuthIdentity \<Rightarrow> AuthService \<Rightarrow> Status \<times> AuthService" where
  "RegisterIdentity identity auth =
     (if ident_user_id identity = [] \<or> ident_username identity = [] \<or> ident_device_id identity = [] then
        (Status_Error kInvalidArgument ''identity is missing required fields'', auth)
      else (Status_Ok, auth\<lparr>auth_identities :=
        upsert_by (\<lambda>current. ident_user_id current = ident_user_id identity) identity (auth_identities auth)\<rparr>))"

definition UpsertSession :: "AuthSession \<Rightarrow> AuthService \<Rightarrow> Status \<times> AuthService" where
  "UpsertSession session auth =
     (if session_session_id session = [] \<or> session_user_id session = [] \<or> session_device_id session = [] \<or>
         session_access_token session = [] then
        (Status_Error kInvalidArgument ''session is missing required fields'', auth)
      else (Status_Ok, auth\<lparr>auth_sessions :=
        upsert_by (\<lambda>current. session_session_id current = session_session_id session) session
          (auth_sessions auth)\<rparr>))"

definition FindIdentityByUser :: "AuthService \<Rightarrow> string \<Rightarrow> AuthIdentity option" where
  "FindIdentityByUser auth user_id = find (\<lambda>identity. ident_user_id identity = user_id) (auth_identities auth)"

definition FindIdentityByDevice :: "AuthService \<Rightarrow> string \<Rightarrow> AuthIdentity option" where
  "FindIdentityByDevice auth device_id =
     find (\<lambda>identity. ident_device_id identity = device_id) (auth_identities auth)"

definition ValidateToken :: "u64 \<Rightarrow> AuthService \<Rightarrow> string \<Rightarrow> AuthSession option" where
  "ValidateToken now auth access_token =
     find (\<lambda>session. session_access_token session = access_token \<and>
       (session_expires_at_epoch session = 0 \<or> session_expires_at_epoch session \<ge> now)) (auth_sessions auth)"

fun erase_first :: "('a \<Rightarrow> bool) \<Rightarrow> 'a list \<Rightarrow> 'a list option" where
  "erase_first match [] = None"
| "erase_first match (y # ys) = (if match y then Some ys else map_option ((#) y) (erase_first match ys))"

definition RevokeSession :: "string \<Rightarrow> AuthService \<Rightarrow> Status \<times> AuthService" where
  "RevokeSession session_id auth =
     (case erase_first (\<lambda>session. session_session_id session = session_id) (auth_sessions auth) of
        Some sessions \<Rightarrow> (Status_Ok, auth\<lparr>auth_sessions := sessions\<rparr>)
      | None \<Rightarrow> (Status_Error kNotFound ''session not found'', auth))"

section \<open>The runtime and the audit log\<close>

text \<open>
  One store with the services around it. \<open>rt_now\<close> and \<open>rt_now_ns\<close> are the system clock in seconds and
  nanoseconds, \<open>rt_counter\<close> the static counter of \<^verbatim>\<open>MakeFallbackEventId\<close>, \<open>rt_metadata_path\<close> what the
  store answers to \<^verbatim>\<open>GetLocalMetadataPath\<close> and \<open>rt_transfer_policy\<close> the member of the shared library
  service.
\<close>

record SystemRuntime =
  rt_store :: MetadataStore
  rt_auth :: AuthService
  rt_peers :: peers
  rt_replicas :: ReplicaManager
  rt_transfer_policy :: TransferPolicy
  rt_metadata_path :: "path option"
  rt_fs :: FileSystem
  rt_now :: u64
  rt_now_ns :: u64
  rt_counter :: u64

definition SystemRuntime_new :: "MetadataStore \<Rightarrow> path option \<Rightarrow> FileSystem \<Rightarrow> u64 \<Rightarrow> u64 \<Rightarrow> SystemRuntime" where
  "SystemRuntime_new store metadata_path fs now now_ns =
     \<lparr>rt_store = store, rt_auth = \<lparr>auth_identities = [], auth_sessions = []\<rparr>, rt_peers = [], rt_replicas = [],
      rt_transfer_policy = TransferPolicy_init, rt_metadata_path = metadata_path, rt_fs = fs,
      rt_now = now, rt_now_ns = now_ns, rt_counter = 0\<rparr>"

text \<open>Running an operation of a service on the store of the runtime.\<close>

definition on_store :: "(MetadataStore \<Rightarrow> 'a \<times> MetadataStore) \<Rightarrow> SystemRuntime \<Rightarrow> 'a \<times> SystemRuntime" where
  "on_store f rt = (let (x, db) = f (rt_store rt) in (x, rt\<lparr>rt_store := db\<rparr>))"

definition write_store :: "(MetadataStore \<Rightarrow> MetadataStore) \<Rightarrow> SystemRuntime \<Rightarrow> SystemRuntime" where
  "write_store f rt = rt\<lparr>rt_store := f (rt_store rt)\<rparr>"

text \<open>A call of \<open>UpdateTaskState\<close> whose status is ignored.\<close>

definition set_task_state :: "string \<Rightarrow> JobState \<Rightarrow> string \<Rightarrow> SystemRuntime \<Rightarrow> SystemRuntime" where
  "set_task_state task_id state detail rt =
     snd (on_store (UpdateTaskState task_id state detail) rt)"

definition MakeFallbackEventId :: "u64 \<Rightarrow> SystemRuntime \<Rightarrow> string \<times> SystemRuntime" where
  "MakeFallbackEventId created_at_epoch rt =
     (let counter = rt_counter rt + 1
      in (''audit-'' @ to_string_u64 created_at_epoch @ ''-'' @ to_string_u64 (rt_now_ns rt) @ ''-'' @
            to_string_u64 counter,
          rt\<lparr>rt_counter := counter\<rparr>))"

definition Audit_Append :: "AuditEvent \<Rightarrow> SystemRuntime \<Rightarrow> SystemRuntime" where
  "Audit_Append event rt =
     (let stored = (if event_created_at_epoch event = 0 then event\<lparr>event_created_at_epoch := rt_now rt\<rparr>
            else event);
          (stored, rt) =
            (if event_event_id stored = [] then
               let (event_id, rt) = MakeFallbackEventId (event_created_at_epoch stored) rt
               in (stored\<lparr>event_event_id := event_id\<rparr>, rt)
             else (stored, rt))
      in rt\<lparr>rt_store := AppendAuditEvent stored (rt_store rt)\<rparr>)"

definition Audit_ListEvents :: "SystemRuntime \<Rightarrow> AuditEvent list" where
  "Audit_ListEvents rt = ListAuditEvents (rt_store rt)"

definition Audit_ListEventsByCategory :: "SystemRuntime \<Rightarrow> string \<Rightarrow> AuditEvent list" where
  "Audit_ListEventsByCategory rt category = ListAuditEventsByCategory (rt_store rt) category"

section \<open>Facts the services rest on\<close>

named_theorems rt_simps

lemma write_store_simps [rt_simps, simp]:
  "rt_store (write_store f rt) = f (rt_store rt)"
  "rt_fs (write_store f rt) = rt_fs rt"
  "rt_now (write_store f rt) = rt_now rt"
  "rt_metadata_path (write_store f rt) = rt_metadata_path rt"
  by (simp_all add: write_store_def)

lemma set_task_state_simps [rt_simps, simp]:
  "rt_store (set_task_state k st d rt) = snd (UpdateTaskState k st d (rt_store rt))"
  "rt_fs (set_task_state k st d rt) = rt_fs rt"
  "rt_now (set_task_state k st d rt) = rt_now rt"
  "rt_metadata_path (set_task_state k st d rt) = rt_metadata_path rt"
  by (simp_all add: set_task_state_def on_store_def split_beta Let_def)

lemma Audit_Append_store:
  "\<exists>e. rt_store (Audit_Append event rt) = AppendAuditEvent e (rt_store rt) \<and> event_category e = event_category event \<and>
     event_detail e = event_detail event"
  by (auto simp: Audit_Append_def MakeFallbackEventId_def Let_def)

lemma Audit_Append_frame [simp]:
  "rt_fs (Audit_Append event rt) = rt_fs rt"
  "rt_now (Audit_Append event rt) = rt_now rt"
  "rt_metadata_path (Audit_Append event rt) = rt_metadata_path rt"
  by (auto simp: Audit_Append_def MakeFallbackEventId_def Let_def)

text \<open>An audit event touches no other table.\<close>

lemma audit_reads [simp]:
  "GetScheduledTaskRecord (rt_store (Audit_Append event rt)) k = GetScheduledTaskRecord (rt_store rt) k"
  "ListScheduledTasks (rt_store (Audit_Append event rt)) = ListScheduledTasks (rt_store rt)"
  "GetRestoreRequest (rt_store (Audit_Append event rt)) k = GetRestoreRequest (rt_store rt) k"
  "ListRestoreRequests (rt_store (Audit_Append event rt)) = ListRestoreRequests (rt_store rt)"
  "GetSharedLibraryEntry (rt_store (Audit_Append event rt)) k = GetSharedLibraryEntry (rt_store rt) k"
  "ListSharedLibraryEntries (rt_store (Audit_Append event rt)) = ListSharedLibraryEntries (rt_store rt)"
  "GetStoredObject (rt_store (Audit_Append event rt)) k = GetStoredObject (rt_store rt) k"
  "GetFile (rt_store (Audit_Append event rt)) k = GetFile (rt_store rt) k"
  "ListFiles (rt_store (Audit_Append event rt)) = ListFiles (rt_store rt)"
  "ListBackupRecords (rt_store (Audit_Append event rt)) = ListBackupRecords (rt_store rt)"
  "ListDeviceFiles (rt_store (Audit_Append event rt)) = ListDeviceFiles (rt_store rt)"
  "GetBackupJob (rt_store (Audit_Append event rt)) k = GetBackupJob (rt_store rt) k"
  "ListBackupJobs (rt_store (Audit_Append event rt)) = ListBackupJobs (rt_store rt)"
  "ListBackupPolicies (rt_store (Audit_Append event rt)) = ListBackupPolicies (rt_store rt)"
  "ListNodes (rt_store (Audit_Append event rt)) = ListNodes (rt_store rt)"
  using Audit_Append_store [of event rt] by (auto simp: store_reads AppendAuditEvent_def)

lemma store_inv_audit [simp]: "store_inv (rt_store rt) \<Longrightarrow> store_inv (rt_store (Audit_Append event rt))"
  using Audit_Append_store [of event rt] by auto

text \<open>Writing one table is not seen in another.\<close>

lemma task_write_frame [simp]:
  "GetRestoreRequest (UpsertScheduledTask t db) k = GetRestoreRequest db k"
  "GetSharedLibraryEntry (UpsertScheduledTask t db) k = GetSharedLibraryEntry db k"
  "ListSharedLibraryEntries (UpsertScheduledTask t db) = ListSharedLibraryEntries db"
  "GetStoredObject (UpsertScheduledTask t db) k = GetStoredObject db k"
  "GetFile (UpsertScheduledTask t db) k = GetFile db k"
  "ListBackupRecords (UpsertScheduledTask t db) = ListBackupRecords db"
  "ListRestoreRequests (UpsertScheduledTask t db) = ListRestoreRequests db"
  by (simp_all add: store_reads UpsertScheduledTask_def)

lemma UpdateTaskState_frame [simp]:
  "GetRestoreRequest (snd (UpdateTaskState t st d db)) k = GetRestoreRequest db k"
  "GetSharedLibraryEntry (snd (UpdateTaskState t st d db)) k = GetSharedLibraryEntry db k"
  "GetStoredObject (snd (UpdateTaskState t st d db)) k = GetStoredObject db k"
  "GetFile (snd (UpdateTaskState t st d db)) k = GetFile db k"
  "ListBackupRecords (snd (UpdateTaskState t st d db)) = ListBackupRecords db"
  "ListRestoreRequests (snd (UpdateTaskState t st d db)) = ListRestoreRequests db"
  "ListSharedLibraryEntries (snd (UpdateTaskState t st d db)) = ListSharedLibraryEntries db"
  by (simp_all add: UpdateTaskState_def Let_def split: option.splits)

lemma UpdateTaskState_inv [simp]: "store_inv db \<Longrightarrow> store_inv (snd (UpdateTaskState t st d db))"
  by (simp add: UpdateTaskState_def Let_def store_inv_upsert split: option.splits)

lemma RetryTask_inv [simp]: "store_inv db \<Longrightarrow> store_inv (snd (RetryTask t d db))"
  by (simp add: RetryTask_def Let_def store_inv_upsert split: option.splits)

lemma UpdateTaskState_find:
  assumes "store_inv db"
  shows "GetScheduledTaskRecord (snd (UpdateTaskState t st d db)) j =
    (if j = t then map_option (\<lambda>x. x\<lparr>task_state := st, task_detail := d\<rparr>) (GetScheduledTaskRecord db t)
     else GetScheduledTaskRecord db j)"
  using scheduled_tasks_table.get_key [OF assms]
  by (auto simp: UpdateTaskState_def Let_def scheduled_tasks_table.get_upsert [OF assms] split: option.splits)

lemma RetryTask_find:
  assumes "store_inv db"
  shows "GetScheduledTaskRecord (snd (RetryTask t d db)) j =
    (if j = t then map_option (\<lambda>x. x\<lparr>task_state := JobQueued, task_retry_count := task_retry_count x + 1,
       task_detail := d\<rparr>) (GetScheduledTaskRecord db t)
     else GetScheduledTaskRecord db j)"
  using scheduled_tasks_table.get_key [OF assms]
  by (auto simp: RetryTask_def Let_def scheduled_tasks_table.get_upsert [OF assms] split: option.splits)

section \<open>Properties\<close>

text \<open>
  Updating or retrying a task answers Ok exactly when the task exists; an unknown task changes
  nothing. An update changes state and detail of that task only; a retry queues it again, counts one more
  retry and changes nothing else. No operation adds or removes a task, and no other task is touched.
\<close>

lemma task_updates:
  assumes "store_reach db"
  shows "status_ok (fst (UpdateTaskState t st d db)) = (FindTask db t \<noteq> None) \<and>
    status_ok (fst (RetryTask t d db)) = (FindTask db t \<noteq> None) \<and>
    (FindTask db t = None \<longrightarrow> snd (UpdateTaskState t st d db) = db \<and> snd (RetryTask t d db) = db) \<and>
    FindTask (snd (UpdateTaskState t st d db)) j =
      (if j = t then map_option (\<lambda>x. x\<lparr>task_state := st, task_detail := d\<rparr>) (FindTask db t) else FindTask db j) \<and>
    FindTask (snd (RetryTask t d db)) j =
      (if j = t then map_option (\<lambda>x. x\<lparr>task_state := JobQueued, task_retry_count := task_retry_count x + 1,
         task_detail := d\<rparr>) (FindTask db t) else FindTask db j) \<and>
    map task_task_id (ListTasks (snd (UpdateTaskState t st d db))) = map task_task_id (ListTasks db) \<and>
    map task_task_id (ListTasks (snd (RetryTask t d db))) = map task_task_id (ListTasks db)"
proof -
  have inv: "store_inv db" by (rule store_reach_inv [OF assms])
  have ids: "map task_task_id (ListTasks (UpsertScheduledTask r db)) = map task_task_id (ListTasks db)"
    if "GetScheduledTaskRecord db t = Some x" "task_task_id r = task_task_id x" for r x
  proof -
    have "x \<in> set (db_scheduled_tasks db)"
      using that(1) scheduled_tasks_table.get_rows [OF inv, of t x] by (simp add: ListScheduledTasks_def)
    then have "task_task_id r \<in> task_task_id ` set (db_scheduled_tasks db)"
      unfolding that(2) by (rule imageI)
    then show ?thesis
      by (simp add: ListTasks_def ListScheduledTasks_def UpsertScheduledTask_def keys_upsert_by)
  qed
  have "map task_task_id (ListTasks (snd (UpdateTaskState t st d db))) = map task_task_id (ListTasks db)"
    "map task_task_id (ListTasks (snd (RetryTask t d db))) = map task_task_id (ListTasks db)"
    by (auto simp: UpdateTaskState_def RetryTask_def Let_def intro!: ids split: option.splits)
  moreover have "status_ok (fst (UpdateTaskState t st d db)) = (FindTask db t \<noteq> None)"
    "status_ok (fst (RetryTask t d db)) = (FindTask db t \<noteq> None)"
    "FindTask db t = None \<longrightarrow> snd (UpdateTaskState t st d db) = db \<and> snd (RetryTask t d db) = db"
    by (auto simp: UpdateTaskState_def RetryTask_def FindTask_def Let_def split: option.splits)
  ultimately show ?thesis
    using UpdateTaskState_find [OF inv, of t st d j] RetryTask_find [OF inv, of t d j]
    by (simp add: FindTask_def)
qed

lemma task_updates_example:
  "let t = ScheduledTaskRecord_init\<lparr>task_task_id := ''t'', task_state := JobFailed\<rparr>
   in FindTask (snd (RetryTask ''t'' ''again'' (UpsertScheduledTask t MetadataStore_init))) ''t'' =
        Some (t\<lparr>task_state := JobQueued, task_retry_count := 1, task_detail := ''again''\<rparr>)"
proof -
  let ?t = "ScheduledTaskRecord_init\<lparr>task_task_id := ''t'', task_state := JobFailed\<rparr>"
  let ?db = "UpsertScheduledTask ?t MetadataStore_init"
  have "store_reach ?db" by (intro store_reach.step [OF _ store_step.scheduled_task] store_reach.start)
  moreover have "FindTask ?db ''t'' = Some ?t"
    by (simp add: FindTask_def GetScheduledTaskRecord_def UpsertScheduledTask_def MetadataStore_init_def)
  ultimately show ?thesis
    using task_updates [of ?db "''t''" JobQueued "''again''" "''t''"]
    by (simp add: ScheduledTaskRecord_init_def)
qed

text \<open>Refreshing writes the view of each listed device and leaves the other peers alone.\<close>

lemma refresh_find:
  "distinct (map node_node_id devices) \<Longrightarrow>
   FindPeer (RefreshPeersFromDevices devices now offline_after peers) k =
     (case find (\<lambda>d. node_node_id d = k) devices of
        Some d \<Rightarrow> Some (peer_of_device now offline_after d)
      | None \<Rightarrow> FindPeer peers k)"
proof (induction devices arbitrary: peers)
  case (Cons d devices)
  have upsert: "FindPeer (snd (UpsertPeer (peer_of_device now offline_after d) peers)) k =
      (if k = node_node_id d then Some (peer_of_device now offline_after d) else FindPeer peers k)" for peers
    using find_upsert_by_key [of peer_node_id k "peer_of_device now offline_after d" peers]
    by (simp add: UpsertPeer_def FindPeer_def peer_of_device_def)
  have "find (\<lambda>d. node_node_id d = k) devices = None" if "node_node_id d = k"
    using Cons.prems that by (auto simp: find_None_iff image_iff)
  then show ?case
    using Cons upsert [of peers] by (auto simp: split_beta Let_def split: option.splits)
qed simp

text \<open>
  After the network view is refreshed from the registered devices, the overlay agrees with the device
  registry: a registered device has a peer with its address that is online exactly when the device manager
  considers the device online, which in turn is what its list of online devices says; peers that are not
  registered devices keep their state.
\<close>

lemma network_view_agrees:
  assumes "store_reach db"
  shows "(\<forall>d. FindDevice db k = Some d \<longrightarrow>
      (\<exists>p. FindPeer (RefreshPeersFromDevices (ListDevices db) now offline_after peers) k = Some p \<and>
         peer_virtual_ip p = node_zt_ip d \<and> peer_online p = IsDeviceOnline db k now offline_after)) \<and>
    (FindDevice db k = None \<longrightarrow>
      FindPeer (RefreshPeersFromDevices (ListDevices db) now offline_after peers) k = FindPeer peers k) \<and>
    IsDeviceOnline db k now offline_after = (k \<in> node_node_id ` set (ListOnlineDevices db now offline_after))"
proof -
  have inv: "store_inv db" by (rule store_reach_inv [OF assms])
  then have "distinct (map node_node_id (ListDevices db))"
    by (simp add: ListDevices_def node_table.distinct_rows)
  note refresh = refresh_find [OF this, of now offline_after peers k]
  have get: "find (\<lambda>d. node_node_id d = k) (ListDevices db) = FindDevice db k"
    by (simp add: FindDevice_def GetNode_def ListDevices_def ListNodes_def)
  have listed: "IsDeviceOnline db k now offline_after = (k \<in> node_node_id ` set (ListOnlineDevices db now offline_after))"
  proof (cases "GetNode db k")
    case None
    then show ?thesis
      using node_table.get_None [OF inv, of k] None by (auto simp: IsDeviceOnline_def ListOnlineDevices_def)
  next
    case (Some d)
    have eq: "{x \<in> set (ListNodes db). node_node_id x = k} = {d}"
    proof -
      have "r \<in> set (ListNodes db) \<and> node_node_id r = k \<longleftrightarrow> r = d" for r
        using node_table.get_rows [OF inv, of k r] Some by auto
      then show ?thesis by blast
    qed
    have "k \<in> node_node_id ` set (filter Q (ListNodes db)) \<longleftrightarrow>
        (\<exists>x \<in> {x \<in> set (ListNodes db). node_node_id x = k}. Q x)" for Q
      by auto
    then have "k \<in> node_node_id ` set (filter Q (ListNodes db)) \<longleftrightarrow> Q d" for Q
      unfolding eq by simp
    note chosen = this
    show ?thesis
      unfolding ListOnlineDevices_def chosen by (auto simp: IsDeviceOnline_def Some)
  qed
  have online: "peer_online (peer_of_device now offline_after d) = IsDeviceOnline db k now offline_after"
    if "FindDevice db k = Some d" for d
    using that by (auto simp: peer_of_device_def IsDeviceOnline_def FindDevice_def not_less)
  show ?thesis
  proof (intro conjI allI impI)
    fix d
    assume d: "FindDevice db k = Some d"
    have "peer_virtual_ip (peer_of_device now offline_after d) = node_zt_ip d"
      by (simp add: peer_of_device_def)
    then show "\<exists>p. FindPeer (RefreshPeersFromDevices (ListDevices db) now offline_after peers) k = Some p \<and>
         peer_virtual_ip p = node_zt_ip d \<and> peer_online p = IsDeviceOnline db k now offline_after"
      unfolding refresh get d using online [OF d] by simp
  qed (simp add: refresh get, rule listed)
qed

lemma network_view_agrees_example:
  "let d = NodeInfo_init\<lparr>node_node_id := ''n'', node_zt_ip := ''ip'', node_last_seen_epoch := 90\<rparr>;
       db = UpsertNode d MetadataStore_init
   in (\<exists>p. FindPeer (RefreshPeersFromDevices (ListDevices db) 100 30 []) ''n'' = Some p \<and> peer_online p) \<and>
      \<not> IsDeviceOnline db ''n'' 200 30"
proof -
  let ?d = "NodeInfo_init\<lparr>node_node_id := ''n'', node_zt_ip := ''ip'', node_last_seen_epoch := 90\<rparr>"
  let ?db = "UpsertNode ?d MetadataStore_init"
  have "store_reach ?db" by (intro store_reach.step [OF _ store_step.node] store_reach.start)
  moreover have "FindDevice ?db ''n'' = Some ?d"
    by (simp add: FindDevice_def GetNode_def UpsertNode_def MetadataStore_init_def NodeInfo_init_def)
  moreover have "IsDeviceOnline ?db ''n'' 100 30" "\<not> IsDeviceOnline ?db ''n'' 200 30"
    by (simp_all add: IsDeviceOnline_def GetNode_def UpsertNode_def MetadataStore_init_def NodeInfo_init_def)
  ultimately show ?thesis
    using network_view_agrees [of ?db "''n''" 100 30 "[]"] by (auto simp: Let_def)
qed

section \<open>Sessions\<close>

text \<open>The states of the authentication service under any sequence of calls.\<close>

inductive auth_reach :: "AuthService \<Rightarrow> bool" where
  auth_empty: "auth_reach \<lparr>auth_identities = [], auth_sessions = []\<rparr>"
| auth_identity: "auth_reach auth \<Longrightarrow> auth_reach (snd (RegisterIdentity i auth))"
| auth_session: "auth_reach auth \<Longrightarrow> auth_reach (snd (UpsertSession s auth))"
| auth_revoke: "auth_reach auth \<Longrightarrow> auth_reach (snd (RevokeSession k auth))"

definition auth_inv :: "AuthService \<Rightarrow> bool" where
  "auth_inv auth \<longleftrightarrow> distinct (map session_session_id (auth_sessions auth)) \<and>
     distinct (map ident_user_id (auth_identities auth)) \<and>
     (\<forall>s \<in> set (auth_sessions auth). session_session_id s \<noteq> [] \<and> session_user_id s \<noteq> [] \<and>
        session_device_id s \<noteq> [] \<and> session_access_token s \<noteq> [])"

lemma erase_first_filter:
  "distinct (map key ys) \<Longrightarrow>
     erase_first (\<lambda>y. key y = k) ys =
       (if k \<in> key ` set ys then Some (filter (\<lambda>y. key y \<noteq> k) ys) else None)"
proof (induction ys)
  case (Cons y ys)
  have "filter (\<lambda>y. key y \<noteq> k) ys = ys" if "key y = k"
    using Cons.prems that by (auto simp: filter_id_conv image_iff)
  then show ?case using Cons by auto
qed simp

lemma auth_reach_inv: "auth_reach auth \<Longrightarrow> auth_inv auth"
proof (induction rule: auth_reach.induct)
  case (auth_session auth s)
  then show ?case
    using set_upsert_by_subset [of "\<lambda>c. session_session_id c = session_session_id s" s "auth_sessions auth"]
    by (auto simp: auth_inv_def UpsertSession_def distinct_upsert_by_key)
next
  case (auth_revoke auth k)
  then show ?case
    by (auto simp: auth_inv_def RevokeSession_def erase_first_filter distinct_map intro: inj_on_subset)
qed (auto simp: auth_inv_def RegisterIdentity_def distinct_upsert_by_key)

text \<open>
  C29: A token opens a session only while it should. In every reachable state a token validates exactly
  when some stored session carries it and has not expired (an expiry of 0 never expires), the empty token
  never validates, and revoking a session answers Ok exactly when it existed and afterwards no validation
  returns it, while every other session is kept.
\<close>

theorem token_validation_exact:
  assumes "auth_reach auth"
  shows "((\<exists>s. ValidateToken now auth token = Some s) \<longleftrightarrow>
       (\<exists>s \<in> set (auth_sessions auth). session_access_token s = token \<and>
          (session_expires_at_epoch s = 0 \<or> now \<le> session_expires_at_epoch s))) \<and>
    (ValidateToken now auth token = Some s \<longrightarrow> s \<in> set (auth_sessions auth) \<and>
       session_access_token s = token \<and> session_user_id s \<noteq> [] \<and>
       (session_expires_at_epoch s = 0 \<or> now \<le> session_expires_at_epoch s)) \<and>
    ValidateToken now auth [] = None \<and>
    status_ok (fst (RevokeSession k auth)) = (k \<in> session_session_id ` set (auth_sessions auth)) \<and>
    set (auth_sessions (snd (RevokeSession k auth))) =
      {s \<in> set (auth_sessions auth). session_session_id s \<noteq> k} \<and>
    (ValidateToken now (snd (RevokeSession k auth)) token = Some s \<longrightarrow> session_session_id s \<noteq> k)"
proof -
  have inv: "auth_inv auth" by (rule auth_reach_inv [OF assms])
  have revoke: "auth_sessions (snd (RevokeSession k auth)) =
      filter (\<lambda>s. session_session_id s \<noteq> k) (auth_sessions auth)"
    "status_ok (fst (RevokeSession k auth)) = (k \<in> session_session_id ` set (auth_sessions auth))"
    using inv filter_id_conv [of "\<lambda>s. session_session_id s \<noteq> k" "auth_sessions auth"]
    by (auto simp: RevokeSession_def auth_inv_def erase_first_filter image_iff)
  have found: "ValidateToken now a t = Some s \<Longrightarrow> s \<in> set (auth_sessions a) \<and> session_access_token s = t \<and>
      (session_expires_at_epoch s = 0 \<or> now \<le> session_expires_at_epoch s)" for a t s
    by (auto simp: ValidateToken_def find_Some_iff)
  have "ValidateToken now auth [] = None"
    using inv by (auto simp: ValidateToken_def find_None_iff auth_inv_def)
  moreover have "(\<exists>s. ValidateToken now auth token = Some s) \<longleftrightarrow>
       (\<exists>s \<in> set (auth_sessions auth). session_access_token s = token \<and>
          (session_expires_at_epoch s = 0 \<or> now \<le> session_expires_at_epoch s))"
    using find_None_iff [of "\<lambda>s. session_access_token s = token \<and>
       (session_expires_at_epoch s = 0 \<or> session_expires_at_epoch s \<ge> now)" "auth_sessions auth"]
    by (cases "ValidateToken now auth token") (auto simp: ValidateToken_def)
  ultimately show ?thesis
    using inv found [of auth token s] found [of "snd (RevokeSession k auth)" token s]
    by (auto simp: revoke auth_inv_def)
qed

theorem token_validation_exact_witness:
  "let s = \<lparr>session_session_id = ''s'', session_user_id = ''u'', session_device_id = ''d'',
             session_access_token = ''tok'', session_expires_at_epoch = 50\<rparr>;
       auth = snd (UpsertSession s \<lparr>auth_identities = [], auth_sessions = []\<rparr>)
   in (\<exists>r. ValidateToken 50 auth ''tok'' = Some r) \<and> \<not> (\<exists>r. ValidateToken 51 auth ''tok'' = Some r)"
proof -
  let ?s = "\<lparr>session_session_id = ''s'', session_user_id = ''u'', session_device_id = ''d'',
             session_access_token = ''tok'', session_expires_at_epoch = 50\<rparr> :: AuthSession"
  let ?auth = "snd (UpsertSession ?s \<lparr>auth_identities = [], auth_sessions = []\<rparr>)"
  have "auth_reach ?auth" by (intro auth_session auth_empty)
  then have "(\<exists>r. ValidateToken now ?auth ''tok'' = Some r) \<longleftrightarrow> now \<le> 50" for now
    using token_validation_exact [of ?auth now "''tok''" ?s "''s''", THEN conjunct1]
    by (simp add: UpsertSession_def)
  from this [of 50] this [of 51] show ?thesis unfolding Let_def by simp
qed

section \<open>The invariant of the services\<close>

text \<open>
  What every service keeps true of the store, beyond the keys of the tables: a restore request that is
  queued or running has neither a completion time nor an error message, a completed one has no error
  message; a shared entry has at most one row per recipient node, and a delivered recipient has no error
  message.
\<close>

definition request_ok :: "RestoreRequest \<Rightarrow> bool" where
  "request_ok r \<longleftrightarrow>
     (restore_state r \<in> {RestoreQueued, RestoreRunning} \<longrightarrow>
        restore_completed_at_epoch r = 0 \<and> restore_error_message r = []) \<and>
     (restore_state r = RestoreCompleted \<longrightarrow> restore_error_message r = [])"

definition entry_ok :: "SharedLibraryEntry \<Rightarrow> bool" where
  "entry_ok e \<longleftrightarrow> distinct (map recip_node_id (entry_recipients e)) \<and>
     (\<forall>r \<in> set (entry_recipients e). recip_state r = RecipientDelivered \<longrightarrow> recip_error_message r = [])"

definition system_inv :: "MetadataStore \<Rightarrow> bool" where
  "system_inv db \<longleftrightarrow> store_inv db \<and> (\<forall>r \<in> set (ListRestoreRequests db). request_ok r) \<and>
     (\<forall>e \<in> set (ListSharedLibraryEntries db). entry_ok e)"

lemma system_inv_init [simp]: "system_inv MetadataStore_init"
  by (simp add: system_inv_def ListRestoreRequests_def ListSharedLibraryEntries_def MetadataStore_init_def
      store_inv_def)

lemma system_inv_store [dest]: "system_inv db \<Longrightarrow> store_inv db"
  by (simp add: system_inv_def)

lemma system_inv_entry: "system_inv db \<Longrightarrow> GetSharedLibraryEntry db k = Some e \<Longrightarrow> entry_ok e"
  using find_key_eq_Some [of entry_entry_id k "db_shared_library_entries db" e]
  by (auto simp: system_inv_def GetSharedLibraryEntry_def ListSharedLibraryEntries_def)

lemma system_inv_writes [simp]:
  assumes "system_inv db"
  shows "system_inv (UpsertNode n db)" "system_inv (UpsertBackupPolicy bp db)" "system_inv (UpsertTransferPolicy tp db)"
    "system_inv (UpsertScheduledTask t db)" "system_inv (UpsertBackupJob j db)" "system_inv (UpsertFile f db)"
    "system_inv (UpsertStoredObject so db)" "system_inv (UpsertBackupRecord b db)" "system_inv (UpsertDeviceFile d db)"
    "system_inv (UpsertTask st db)" "system_inv (AppendAuditEvent ev db)"
    "request_ok r \<Longrightarrow> system_inv (UpsertRestoreRequest r db)"
    "entry_ok e \<Longrightarrow> system_inv (UpsertSharedLibraryEntry e db)"
  using assms set_upsert_by_subset [of "\<lambda>c. restore_request_id c = restore_request_id r" r "db_restore_requests db"]
    set_upsert_by_subset [of "\<lambda>c. entry_entry_id c = entry_entry_id e" e "db_shared_library_entries db"]
  by (auto simp: system_inv_def store_inv_upsert)
    (auto simp: ListRestoreRequests_def ListSharedLibraryEntries_def store_writes)

lemma system_inv_services [simp]:
  assumes "system_inv db"
  shows "system_inv (snd (UpdateTaskState k st d db))" "system_inv (snd (RetryTask k d db))"
    "system_inv (snd (RecordHeartbeat k w db))"
  using assms by (simp_all add: UpdateTaskState_def RetryTask_def RecordHeartbeat_def Let_def split: option.splits)

lemma system_inv_audit [simp]: "system_inv (rt_store rt) \<Longrightarrow> system_inv (rt_store (Audit_Append e rt))"
  using Audit_Append_store [of e rt] by auto

end
