(* ===== verification/Backup.thy ===== *)
theory Backup
  imports Control_Plane Sync_Scanner
begin

text \<open>
  \<^verbatim>\<open>src/backup/backup_service.cpp\<close> and \<^verbatim>\<open>src/backup/file_index_service.cpp\<close>: configuring a backup policy,
  scheduling and executing a backup job (scan, verify, store, record), the backup history, and the
  read-only index of files, device files and stored objects. The lemmas follow one execution through its
  loop; the property says what the status of an execution guarantees.
\<close>

section \<open>Backup service\<close>

definition MakeAuditEvent :: "string \<Rightarrow> string \<Rightarrow> AuditEvent" where
  "MakeAuditEvent category detail = AuditEvent_init\<lparr>event_category := category, event_detail := detail\<rparr>"

definition default_chunker :: "MD5_CTX Chunker" where
  "default_chunker = \<lparr>chunker_chunk_size = 4 * 1024 * 1024, chunker_hasher = Md5Hasher_new\<rparr>"

definition BuildBackupFiles :: "path \<Rightarrow> SystemRuntime \<Rightarrow> FileRecord list result \<times> SystemRuntime" where
  "BuildBackupFiles source_path rt =
     (if is_regular_file (rt_fs rt) source_path then
        (case BuildFileRecord Md5Hasher default_chunker (rt_fs rt) source_path (parent_path source_path) of
           Inl e \<Rightarrow> (Inl e, rt)
         | Inr (f, _) \<Rightarrow> (Inr [f], write_store (UpsertFile f) rt))
      else
        let excluded_paths = (case rt_metadata_path rt of Some p \<Rightarrow> [lexically_normal p] | None \<Rightarrow> []);
            (files, _, db) =
              ScanDirectory Md5Hasher (rt_fs rt) source_path excluded_paths default_chunker (rt_store rt)
        in (files, rt\<lparr>rt_store := db\<rparr>))"

definition MakeBackupRecord :: "BackupJob \<Rightarrow> FileRecord \<Rightarrow> StoredObjectRecord \<Rightarrow> BackupRecord" where
  "MakeBackupRecord job f stored = BackupRecord_init\<lparr>
     backup_record_id := job_node_id job @ ''|'' @ file_absolute_path f @ ''|'' @ file_file_id f,
     backup_job_id := job_job_id job, backup_node_id := job_node_id job,
     backup_file_id := file_file_id f, backup_relative_path := file_relative_path f,
     backup_source_path := file_absolute_path f, backup_backend_name := stored_backend_name stored,
     backup_storage_key := stored_storage_key stored,
     backup_backed_up_at_epoch := stored_stored_at_epoch stored\<rparr>"

definition MakeBackupDeviceFileRecord :: "BackupJob \<Rightarrow> FileRecord \<Rightarrow> BackupRecord \<Rightarrow> DeviceFileRecord" where
  "MakeBackupDeviceFileRecord job f backup_record = DeviceFileRecord_init\<lparr>
     devfile_record_id := job_node_id job @ ''|'' @ file_absolute_path f,
     devfile_node_id := job_node_id job, devfile_file_id := file_file_id f,
     devfile_relative_path := file_relative_path f, devfile_absolute_path := file_absolute_path f,
     devfile_source_kind := ''backup'', devfile_source_ref_id := backup_record_id backup_record,
     devfile_updated_at_epoch := backup_backed_up_at_epoch backup_record\<rparr>"

definition Backup_ConfigurePolicy :: "BackupPolicy \<Rightarrow> SystemRuntime \<Rightarrow> Status \<times> SystemRuntime" where
  "Backup_ConfigurePolicy policy rt =
     (if bpolicy_policy_id policy = [] \<or> bpolicy_node_id policy = [] \<or> bpolicy_source_path policy = [] then
        (Status_Error kInvalidArgument ''backup policy is missing required fields'', rt)
      else
        let (status, rt) = on_store (Policies_UpsertBackupPolicy policy) rt
        in if status_ok status then
             (status, Audit_Append (MakeAuditEvent ''backup.policy''
                (''configured backup policy: '' @ bpolicy_policy_id policy)) rt)
           else (status, rt))"

definition StartBackup :: "BackupJob \<Rightarrow> SystemRuntime \<Rightarrow> Status \<times> SystemRuntime" where
  "StartBackup job rt =
     (if job_job_id job = [] \<or> job_node_id job = [] \<or> job_source_path job = [] then
        (Status_Error kInvalidArgument ''backup job is missing required fields'', rt)
      else if ListBackupPoliciesForNode (rt_store rt) (job_node_id job) = [] then
        (Status_Error kNotFound ''no backup policy configured for node'', rt)
      else
        let task = ScheduledTaskRecord_init\<lparr>
              task_task_id := job_job_id job, task_domain := DomainBackup, task_related_id := job_job_id job,
              task_source_node := job_node_id job, task_target_node := job_node_id job,
              task_created_at_epoch := job_created_at_epoch job, task_detail := job_source_path job\<rparr>;
            (status, rt) = on_store (ScheduleTask task) rt
        in if status_ok status then
             let rt = write_store (UpsertBackupJob job) rt
             in (status, Audit_Append (MakeAuditEvent ''backup.job''
                  (''scheduled backup job: '' @ job_job_id job)) rt)
           else (status, rt))"

text \<open>The loop over the discovered files; \<open>Inr Status_Ok\<close> when every file is stored.\<close>

fun backup_files ::
  "FdfsApi \<Rightarrow> StorageBackend \<Rightarrow> BackupJob \<Rightarrow> FileRecord list \<Rightarrow> SystemRuntime \<Rightarrow>
   Status result \<times> SystemRuntime"
where
  "backup_files api backend job [] rt = (Inr Status_Ok, rt)"
| "backup_files api backend job (f # files) rt =
     (case VerifyFile f (file_absolute_path f) (rt_fs rt) of
        Inl e \<Rightarrow> (Inl e, rt)
      | Inr verify_status \<Rightarrow>
          if \<not> status_ok verify_status then
            (Inr verify_status,
             set_task_state (job_job_id job) JobFailed (status_message verify_status) rt)
          else
            (case StoreFile api backend (rt_now rt) f (file_absolute_path f) (rt_fs rt) of
               (Inl ex, fs) \<Rightarrow>
                 (Inr (Status_Error kInternalError (what ex)),
                  set_task_state (job_job_id job) JobFailed (what ex) (rt\<lparr>rt_fs := fs\<rparr>))
             | (Inr stored, fs) \<Rightarrow>
                 let backup_record = MakeBackupRecord job f stored;
                     rt = write_store (UpsertStoredObject stored) (rt\<lparr>rt_fs := fs\<rparr>);
                     rt = write_store (UpsertBackupRecord backup_record) rt;
                     rt = write_store (UpsertDeviceFile (MakeBackupDeviceFileRecord job f backup_record)) rt
                 in backup_files api backend job files rt))"

definition ExecuteBackup ::
  "FdfsApi \<Rightarrow> BackupJob \<Rightarrow> StorageBackend \<Rightarrow> SystemRuntime \<Rightarrow> Status result \<times> SystemRuntime" where
  "ExecuteBackup api job backend rt =
     (let (scheduled, rt) = StartBackup job rt;
          fail = (\<lambda>code text rt. (Inr (Status_Error code text),
            set_task_state (job_job_id job) JobFailed text rt))
      in if \<not> status_ok scheduled \<and> status_code scheduled \<noteq> kAlreadyExists then (Inr scheduled, rt)
         else if \<not> fs_exists (rt_fs rt) (job_source_path job) then
           fail kNotFound ''backup source path does not exist'' rt
         else
           let rt = set_task_state (job_job_id job) JobRunning ''backup execution started'' rt
           in case BuildBackupFiles (job_source_path job) rt of
                (Inl ex, rt) \<Rightarrow> fail kInternalError (what ex) rt
              | (Inr files, rt) \<Rightarrow>
                  if files = [] then fail kNotFound ''no files discovered for backup'' rt
                  else
                    (case backup_files api backend job files rt of
                       (Inl e, rt) \<Rightarrow> (Inl e, rt)
                     | (Inr status, rt) \<Rightarrow>
                         if \<not> status_ok status then (Inr status, rt)
                         else
                           let rt = set_task_state (job_job_id job) JobCompleted
                                 (''backed up '' @ to_string (length files) @ '' file(s) via '' @
                                  backend_Name backend) rt;
                               rt = Audit_Append (MakeAuditEvent ''backup.execute''
                                 (''completed backup job: '' @ job_job_id job @ '' file_count='' @
                                  to_string (length files))) rt
                           in (Inr Status_Ok, rt)))"

definition FindJob :: "SystemRuntime \<Rightarrow> string \<Rightarrow> BackupJob option" where
  "FindJob rt job_id = GetBackupJob (rt_store rt) job_id"

definition ListJobs :: "SystemRuntime \<Rightarrow> BackupJob list" where
  "ListJobs rt = ListBackupJobs (rt_store rt)"

definition ListJobsForNode :: "SystemRuntime \<Rightarrow> string \<Rightarrow> BackupJob list" where
  "ListJobsForNode rt node_id = filter (\<lambda>job. job_node_id job = node_id) (ListBackupJobs (rt_store rt))"

text \<open>
  \<open>std::sort\<close> leaves the order of records with equal times open; here they keep the order of the table,
  and no lemma depends on it.
\<close>

definition latest_first :: "BackupRecord list \<Rightarrow> BackupRecord list" where
  "latest_first records = sort_key (\<lambda>r. - uint (backup_backed_up_at_epoch r)) records"

definition ListBackupHistory :: "SystemRuntime \<Rightarrow> string \<Rightarrow> string \<Rightarrow> BackupRecord list" where
  "ListBackupHistory rt node_id relative_path =
     latest_first (filter (\<lambda>r. backup_node_id r = node_id \<and> backup_relative_path r = relative_path)
       (ListBackupRecords (rt_store rt)))"

definition FindLatestBackup :: "SystemRuntime \<Rightarrow> string \<Rightarrow> string \<Rightarrow> BackupRecord option" where
  "FindLatestBackup rt node_id relative_path =
     (case ListBackupHistory rt node_id relative_path of [] \<Rightarrow> None | r # _ \<Rightarrow> Some r)"

section \<open>File index service\<close>

definition Index_ListIndexedFiles :: "MetadataStore \<Rightarrow> FileRecord list" where
  "Index_ListIndexedFiles db = ListFiles db"

definition Index_ListBackupRecords :: "MetadataStore \<Rightarrow> BackupRecord list" where
  "Index_ListBackupRecords db = ListBackupRecords db"

definition Index_ListDeviceFiles :: "MetadataStore \<Rightarrow> DeviceFileRecord list" where
  "Index_ListDeviceFiles db = ListDeviceFiles db"

definition ListDeviceFilesForNode :: "MetadataStore \<Rightarrow> string \<Rightarrow> DeviceFileRecord list" where
  "ListDeviceFilesForNode db node_id = filter (\<lambda>r. devfile_node_id r = node_id) (ListDeviceFiles db)"

definition ListBackupRecordsForNode :: "MetadataStore \<Rightarrow> string \<Rightarrow> BackupRecord list" where
  "ListBackupRecordsForNode db node_id = filter (\<lambda>r. backup_node_id r = node_id) (ListBackupRecords db)"

definition Index_ListBackupHistory :: "MetadataStore \<Rightarrow> string \<Rightarrow> string \<Rightarrow> BackupRecord list" where
  "Index_ListBackupHistory db node_id relative_path =
     latest_first (filter (\<lambda>r. backup_node_id r = node_id \<and> backup_relative_path r = relative_path)
       (ListBackupRecords db))"

definition ListFilesByPrefix :: "MetadataStore \<Rightarrow> string \<Rightarrow> FileRecord list" where
  "ListFilesByPrefix db prefix =
     filter (\<lambda>f. take (length prefix) (file_relative_path f) = prefix) (ListFiles db)"

definition Index_FindFile :: "MetadataStore \<Rightarrow> string \<Rightarrow> FileRecord option" where
  "Index_FindFile db file_id = GetFile db file_id"

definition FindByRelativePath :: "MetadataStore \<Rightarrow> string \<Rightarrow> FileRecord option" where
  "FindByRelativePath db relative_path = find (\<lambda>f. file_relative_path f = relative_path) (ListFiles db)"

definition FindStoredObject :: "MetadataStore \<Rightarrow> string \<Rightarrow> StoredObjectRecord option" where
  "FindStoredObject db file_id = GetStoredObject db file_id"

definition Index_FindLatestBackup :: "MetadataStore \<Rightarrow> string \<Rightarrow> string \<Rightarrow> BackupRecord option" where
  "Index_FindLatestBackup db node_id relative_path =
     (case Index_ListBackupHistory db node_id relative_path of [] \<Rightarrow> None | r # _ \<Rightarrow> Some r)"

section \<open>Following one execution\<close>

text \<open>A scan returns the same records whatever the store holds, and writes the file table only.\<close>

lemma ScanEntries_files_only:
  "\<exists>files. snd (snd (ScanEntries ops fs root ex es ck db acc)) = db\<lparr>db_files := files\<rparr>"
proof (induction es arbitrary: ck db acc)
  case Nil
  then show ?case by (auto intro: exI [of _ "db_files db"])
next
  case (Cons e es)
  show ?case
  proof (cases "scan_skips fs ex e \<or> (\<exists>x. BuildFileRecord ops ck fs e root = Inl x)")
    case True
    then show ?thesis using Cons.IH by (auto intro: exI [of _ "db_files db"])
  next
    case False
    then obtain f ck' where b: "BuildFileRecord ops ck fs e root = Inr (f, ck')"
      by (cases "BuildFileRecord ops ck fs e root") auto
    show ?thesis
      using False Cons.IH [of ck' "UpsertFile f db" "acc @ [f]"] by (auto simp: b UpsertFile_def)
  qed
qed

lemma ScanEntries_any_store:
  "fst (ScanEntries ops fs root ex es ck db acc) = fst (ScanEntries ops fs root ex es ck db' acc)"
  by (induction es arbitrary: ck db db' acc) (auto split: sum.splits)

lemma ScanDirectory_files_only:
  "\<exists>files. snd (snd (ScanDirectory ops fs root ex ck db)) = db\<lparr>db_files := files\<rparr>"
  using ScanEntries_files_only by (auto simp: ScanDirectory_def intro: exI [of _ "db_files db"])

lemma BuildBackupFiles_store:
  "\<exists>files. snd (BuildBackupFiles p rt) = rt\<lparr>rt_store := (rt_store rt)\<lparr>db_files := files\<rparr>\<rparr>"
proof -
  have "\<exists>files. rt = rt\<lparr>rt_store := (rt_store rt)\<lparr>db_files := files\<rparr>\<rparr>"
    by (auto intro: exI [of _ "db_files (rt_store rt)"])
  moreover obtain files where
    "snd (snd (ScanDirectory Md5Hasher (rt_fs rt) p
       (case rt_metadata_path rt of Some p \<Rightarrow> [lexically_normal p] | None \<Rightarrow> []) default_chunker (rt_store rt))) =
     (rt_store rt)\<lparr>db_files := files\<rparr>"
    using ScanDirectory_files_only by blast
  ultimately show ?thesis
    by (auto simp: BuildBackupFiles_def Let_def split_beta write_store_def UpsertFile_def split: sum.splits)
qed

lemma BuildBackupFiles_any_store:
  "rt_fs rt' = rt_fs rt \<Longrightarrow> rt_metadata_path rt' = rt_metadata_path rt \<Longrightarrow>
     fst (BuildBackupFiles p rt') = fst (BuildBackupFiles p rt)"
  using ScanEntries_any_store [of Md5Hasher "rt_fs rt" p _ "directory_entries (rt_fs rt) p" default_chunker
      "rt_store rt'" "[]" "rt_store rt"]
  by (auto simp: BuildBackupFiles_def ScanDirectory_def Let_def split_beta split: sum.splits)

lemma StoreFile_identifies:
  "StoreFile api backend now f p fs = (Inr r, fs') \<Longrightarrow>
     stored_file_id r = file_file_id f \<and> stored_backend_name r = backend_Name backend"
  by (cases backend)
    (auto simp: Null_StoreFile_def Mirror_StoreFile_def FastDfs_StoreFile_def Let_def
      split: if_splits sum.splits option.splits)

text \<open>What the store holds for a file that was backed up.\<close>

definition backed_up :: "BackupJob \<Rightarrow> StorageBackend \<Rightarrow> FileRecord \<Rightarrow> MetadataStore \<Rightarrow> bool" where
  "backed_up job backend f db \<longleftrightarrow>
     (\<exists>so. GetStoredObject db (file_file_id f) = Some so \<and> stored_backend_name so = backend_Name backend) \<and>
     (\<exists>r \<in> set (ListBackupRecords db).
        backup_record_id r = job_node_id job @ ''|'' @ file_absolute_path f @ ''|'' @ file_file_id f \<and>
        backup_job_id r = job_job_id job \<and> backup_node_id r = job_node_id job)"

lemma backed_up_tasks [simp]:
  "backed_up job backend f (UpsertScheduledTask t db) = backed_up job backend f db"
  "backed_up job backend f (snd (UpdateTaskState k st d db)) = backed_up job backend f db"
  "backed_up job backend f (rt_store (Audit_Append e rt)) = backed_up job backend f (rt_store rt)"
  by (simp_all add: backed_up_def)

text \<open>The writes of one iteration record their own file and keep what is recorded.\<close>

lemma record_backup:
  fixes d :: DeviceFileRecord and job :: BackupJob
  assumes inv: "store_inv db" and so: "stored_file_id so = file_file_id f" "stored_backend_name so = backend_Name backend"
  defines "db' \<equiv> UpsertDeviceFile d (UpsertBackupRecord (MakeBackupRecord job f so) (UpsertStoredObject so db))"
  shows "store_inv db'" and "backed_up job backend f db'" and "backed_up job backend g db \<Longrightarrow> backed_up job backend g db'"
    and "GetScheduledTaskRecord db' k = GetScheduledTaskRecord db k"
proof -
  let ?db1 = "UpsertStoredObject so db"
  have inv1: "store_inv ?db1" by (simp add: inv store_inv_upsert)
  show "store_inv db'" by (simp add: db'_def inv1 store_inv_upsert)
  have so': "GetStoredObject db' k = (if k = file_file_id f then Some so else GetStoredObject db k)" for k
    using stored_objects_table.get_upsert [OF inv, of so k] so(1)
    by (simp add: db'_def GetStoredObject_def UpsertDeviceFile_def UpsertBackupRecord_def)
  have records: "set (ListBackupRecords db') = insert (MakeBackupRecord job f so)
      {x \<in> set (ListBackupRecords db). backup_record_id x \<noteq> backup_record_id (MakeBackupRecord job f so)}"
    using backup_records_table.set_rows_upsert [OF inv1, of "MakeBackupRecord job f so"]
    by (simp add: db'_def ListBackupRecords_def UpsertDeviceFile_def UpsertStoredObject_def)
  show "backed_up job backend f db'"
    by (simp add: backed_up_def so' so(2) records MakeBackupRecord_def BackupRecord_init_def)
  show "backed_up job backend g db'" if "backed_up job backend g db"
    using that unfolding backed_up_def so' records
    by (auto simp: so(2) MakeBackupRecord_def BackupRecord_init_def)
  show "GetScheduledTaskRecord db' k = GetScheduledTaskRecord db k"
    by (simp add: db'_def GetScheduledTaskRecord_def UpsertDeviceFile_def UpsertBackupRecord_def UpsertStoredObject_def)
qed

definition task_failed :: "string \<Rightarrow> Status \<Rightarrow> SystemRuntime \<Rightarrow> bool" where
  "task_failed task_id s rt \<longleftrightarrow> (\<exists>t. FindTask (rt_store rt) task_id = Some t \<and> task_state t = JobFailed \<and>
     task_detail t = status_message s)"

lemma task_failed_update:
  assumes "store_inv (rt_store rt)" and "GetScheduledTaskRecord (rt_store rt) k \<noteq> None"
  shows "task_failed k (Status_Error c msg) (set_task_state k JobFailed msg rt)"
  using assms(2) UpdateTaskState_find [OF assms(1), of k JobFailed msg k]
  by (auto simp: task_failed_def FindTask_def)

lemma backup_files_outcome:
  assumes "backup_files api backend job files rt = (Inr s, rt')" and "store_inv (rt_store rt)"
    and "GetScheduledTaskRecord (rt_store rt) (job_job_id job) \<noteq> None"
  shows "store_inv (rt_store rt') \<and>
    (if status_ok s then (\<forall>f. f \<in> set files \<or> backed_up job backend f (rt_store rt) \<longrightarrow> backed_up job backend f (rt_store rt')) \<and>
       GetScheduledTaskRecord (rt_store rt') (job_job_id job) = GetScheduledTaskRecord (rt_store rt) (job_job_id job)
     else task_failed (job_job_id job) s rt')"
  using assms
proof (induction files arbitrary: rt)
  case (Cons f files)
  obtain v where v: "VerifyFile f (file_absolute_path f) (rt_fs rt) = Inr v"
    using Cons.prems(1) by (auto split: sum.splits)
  show ?case
  proof (cases "status_ok v")
    case False
    then have "s = v" "rt' = set_task_state (job_job_id job) JobFailed (status_message v) rt"
      using Cons.prems(1) v by auto
    then show ?thesis
      using False Cons.prems(2) task_failed_update [OF Cons.prems(2,3), of "status_code v" "status_message v"]
      by (simp add: task_failed_def)
  next
    case True
    obtain r fs where st: "StoreFile api backend (rt_now rt) f (file_absolute_path f) (rt_fs rt) = (r, fs)"
      by (cases "StoreFile api backend (rt_now rt) f (file_absolute_path f) (rt_fs rt)")
    show ?thesis
    proof (cases r)
      case (Inl ex)
      then have "s = Status_Error kInternalError (what ex)"
        "rt' = set_task_state (job_job_id job) JobFailed (what ex) (rt\<lparr>rt_fs := fs\<rparr>)"
        using Cons.prems(1) v True st by auto
      then show ?thesis
        using Cons.prems(2,3) task_failed_update [of "rt\<lparr>rt_fs := fs\<rparr>" "job_job_id job" kInternalError "what ex"]
        by simp
    next
      case (Inr so)
      let ?rec = "MakeBackupRecord job f so"
      let ?db = "UpsertDeviceFile (MakeBackupDeviceFileRecord job f ?rec) (UpsertBackupRecord ?rec (UpsertStoredObject so (rt_store rt)))"
      have so: "stored_file_id so = file_file_id f" "stored_backend_name so = backend_Name backend"
        using StoreFile_identifies st Inr by simp_all
      note step = record_backup [OF Cons.prems(2) so, where d = "MakeBackupDeviceFileRecord job f ?rec" and job = job]
      have "backup_files api backend job files (rt\<lparr>rt_fs := fs, rt_store := ?db\<rparr>) = (Inr s, rt')"
        using Cons.prems(1) v True st Inr by (simp add: Let_def write_store_def)
      from Cons.IH [OF this] show ?thesis
        using step Cons.prems(3) by auto
    qed
  qed
qed simp

section \<open>Property\<close>

lemma StartBackup_scheduled:
  assumes "StartBackup job rt = (s, rt1)" and "store_inv (rt_store rt)"
  shows "if status_ok s then store_inv (rt_store rt1) \<and> GetScheduledTaskRecord (rt_store rt1) (job_job_id job) \<noteq> None \<and>
      rt_fs rt1 = rt_fs rt \<and> rt_metadata_path rt1 = rt_metadata_path rt
    else rt1 = rt \<and> status_code s \<noteq> kAlreadyExists"
proof -
  have "GetScheduledTaskRecord (UpsertBackupJob j (UpsertScheduledTask t (rt_store rt))) (task_task_id t) = Some t" for j t
    using scheduled_tasks_table.get_upsert [OF assms(2), of t "task_task_id t"]
    by (simp add: GetScheduledTaskRecord_def UpsertBackupJob_def)
  from this [of job "ScheduledTaskRecord_init\<lparr>task_task_id := job_job_id job, task_domain := DomainBackup,
      task_related_id := job_job_id job, task_source_node := job_node_id job, task_target_node := job_node_id job,
      task_created_at_epoch := job_created_at_epoch job, task_detail := job_source_path job\<rparr>"]
  show ?thesis
    using assms by (auto simp: StartBackup_def ScheduleTask_def on_store_def Let_def store_inv_upsert split: if_splits)
qed

text \<open>
  C8: The status of a backup execution tells what happened. If it is Ok, the source was scanned to at least
  one file, every scanned file has a stored object of the backend used and a backup record of this job, and
  the task of the job is completed. If it is an error, then either the job was refused before anything
  changed, or the task of the job is failed and carries the message of the status.
\<close>

theorem execute_backup_outcome:
  assumes "store_reach (rt_store rt)" and "ExecuteBackup api job backend rt = (Inr s, rt')"
  shows "if status_ok s then
      (\<exists>files. fst (BuildBackupFiles (job_source_path job) rt) = Inr files \<and> files \<noteq> [] \<and>
         (\<forall>f \<in> set files. backed_up job backend f (rt_store rt'))) \<and>
      map_option task_state (FindTask (rt_store rt') (job_job_id job)) = Some JobCompleted
    else rt' = rt \<or> task_failed (job_job_id job) s rt'"
proof -
  let ?id = "job_job_id job" and ?p = "job_source_path job"
  have inv: "store_inv (rt_store rt)" by (rule store_reach_inv [OF assms(1)])
  obtain s1 rt1 where start: "StartBackup job rt = (s1, rt1)" by (cases "StartBackup job rt")
  note sb = StartBackup_scheduled [OF start inv]
  show ?thesis
  proof (cases "status_ok s1")
    case False
    then have "rt' = rt" "s = s1" using assms(2) sb by (auto simp: ExecuteBackup_def start Let_def)
    then show ?thesis using False by simp
  next
    case True
    then have rt1: "store_inv (rt_store rt1)" "GetScheduledTaskRecord (rt_store rt1) ?id \<noteq> None"
      "rt_fs rt1 = rt_fs rt" "rt_metadata_path rt1 = rt_metadata_path rt"
      using sb by simp_all
    show ?thesis
    proof (cases "fs_exists (rt_fs rt1) ?p")
      case False
      then show ?thesis
        using assms(2) True task_failed_update [OF rt1(1,2)] by (auto simp: ExecuteBackup_def start Let_def)
    next
      case exists: True
      obtain rt2 where running: "rt2 = set_task_state ?id JobRunning ''backup execution started'' rt1" by blast
      have rt2: "store_inv (rt_store rt2)" "GetScheduledTaskRecord (rt_store rt2) ?id \<noteq> None"
        "rt_fs rt2 = rt_fs rt" "rt_metadata_path rt2 = rt_metadata_path rt"
        using rt1 by (simp_all add: running UpdateTaskState_find)
      obtain r rt3 where build: "BuildBackupFiles ?p rt2 = (r, rt3)" by (cases "BuildBackupFiles ?p rt2")
      have r: "fst (BuildBackupFiles ?p rt) = r"
        using BuildBackupFiles_any_store [OF rt2(3,4), of ?p, symmetric] build by simp
      have rt3: "store_inv (rt_store rt3)" "GetScheduledTaskRecord (rt_store rt3) ?id \<noteq> None"
        using BuildBackupFiles_store [of ?p rt2] build rt2(1,2)
        by (auto simp: store_inv_def GetScheduledTaskRecord_def)
      have run: "ExecuteBackup api job backend rt =
        (case BuildBackupFiles ?p rt2 of
          (Inl ex, rt) \<Rightarrow> (Inr (Status_Error kInternalError (what ex)),
             set_task_state ?id JobFailed (what ex) rt)
        | (Inr files, rt) \<Rightarrow>
            if files = [] then (Inr (Status_Error kNotFound ''no files discovered for backup''),
              (set_task_state ?id JobFailed ''no files discovered for backup'' rt))
            else (case backup_files api backend job files rt of
                (Inl e, rt) \<Rightarrow> (Inl e, rt)
              | (Inr status, rt) \<Rightarrow> if \<not> status_ok status then (Inr status, rt)
                  else (Inr Status_Ok, Audit_Append (MakeAuditEvent ''backup.execute''
                     (''completed backup job: '' @ ?id @ '' file_count='' @ to_string (length files)))
                     ((set_task_state ?id JobCompleted (''backed up '' @ to_string (length files) @
                       '' file(s) via '' @ backend_Name backend) rt)))))"
        unfolding ExecuteBackup_def start running Let_def using True exists by simp
      show ?thesis
      proof (cases r)
        case (Inl ex)
        then show ?thesis
          using assms(2) task_failed_update [OF rt3] by (auto simp: run build)
      next
        case (Inr files)
        show ?thesis
        proof (cases "files = []")
          case True
          then show ?thesis
            using assms(2) task_failed_update [OF rt3] by (auto simp: run build Inr)
        next
          case False
          then obtain s4 rt4 where loop: "backup_files api backend job files rt3 = (Inr s4, rt4)"
            using assms(2) by (auto simp: run build Inr split: prod.splits sum.splits)
          note o = backup_files_outcome [OF loop rt3]
          show ?thesis
          proof (cases "status_ok s4")
            case False
            then show ?thesis using assms(2) \<open>files \<noteq> []\<close> o by (auto simp: run build Inr loop)
          next
            case ok: True
            have inv4: "store_inv (rt_store rt4)" using o by simp
            show ?thesis
              using assms(2) \<open>files \<noteq> []\<close> o ok rt3(2) UpdateTaskState_find [OF inv4]
              by (auto simp: run build Inr loop r FindTask_def)
          qed
        qed
      qed
    qed
  qed
qed

lemma BuildFileRecord_default_chunker:
  assumes "open_read fs p = Some data"
  shows "\<exists>t chunker'. BuildFileRecord Md5Hasher default_chunker fs p root =
    Inr (md5.cut_file p root default_chunk_size data t, chunker')"
  using BuildFileRecord_default [OF assms, of root] by (auto simp: default_chunker_def default_chunk_size_def)

text \<open>A record cut from a file verifies against that file.\<close>

lemma VerifyFile_cut:
  assumes "open_read fs p = Some data"
  shows "VerifyFile (md5.cut_file q root c data t) p fs = Inr Status_Ok"
proof -
  obtain t' ck where e: "entry_at fs p = Some (RegularFile data t')" and
    b: "BuildFileRecord Md5Hasher \<lparr>chunker_chunk_size = default_chunk_size, chunker_hasher = Md5Hasher_new\<rparr> fs p
      (parent_path p) = Inr (md5.cut_file p (parent_path p) default_chunk_size data t', ck)"
    using BuildFileRecord_default [OF assms] by blast
  show ?thesis
    by (simp add: VerifyFile_def fs_exists_def file_size_of_def e b Let_def md5.cut_file_def)
qed

theorem execute_backup_outcome_witness:
  "let policy = BackupPolicy_init\<lparr>bpolicy_policy_id := ''p'', bpolicy_node_id := ''n''\<rparr>;
       job = BackupJob_init\<lparr>job_job_id := ''j'', job_node_id := ''n'', job_source_path := ''d/f''\<rparr>;
       rt = SystemRuntime_new (UpsertBackupPolicy policy MetadataStore_init) None sample_fs 5 6
   in \<exists>rt'. ExecuteBackup offline_api job NullStorageBackend rt = (Inr Status_Ok, rt') \<and>
      map_option task_state (FindTask (rt_store rt') ''j'') = Some JobCompleted"
proof -
  let ?policy = "BackupPolicy_init\<lparr>bpolicy_policy_id := ''p'', bpolicy_node_id := ''n''\<rparr>"
  let ?job = "BackupJob_init\<lparr>job_job_id := ''j'', job_node_id := ''n'', job_source_path := ''d/f''\<rparr>"
  let ?rt = "SystemRuntime_new (UpsertBackupPolicy ?policy MetadataStore_init) None sample_fs 5 6"
  have reach: "store_reach (rt_store ?rt)"
    unfolding SystemRuntime_new_def by simp (intro store_reach.step [OF _ store_step.backup_policy] store_reach.start)
  obtain rt1 where start: "StartBackup ?job ?rt = (Status_Ok, rt1)" and fs: "rt_fs rt1 = sample_fs"
    by (simp add: StartBackup_def ScheduleTask_def on_store_def Let_def ListBackupPoliciesForNode_def
        ListBackupPolicies_def UpsertBackupPolicy_def MetadataStore_init_def BackupJob_init_def SystemRuntime_new_def)
  obtain t ck where b: "BuildFileRecord Md5Hasher default_chunker sample_fs ''d/f'' (parent_path ''d/f'') =
      Inr (md5.cut_file ''d/f'' (parent_path ''d/f'') default_chunk_size [1, 2, 3] t, ck)"
    using BuildFileRecord_default_chunker [OF sample_fs_read(1)] by blast
  have p: "file_absolute_path (md5.cut_file ''d/f'' root c data t) = ''d/f''" for root c data
    by (simp add: md5.cut_file_def lexically_normal_def normal_text_def path_eval)
  have ex: "fs_exists sample_fs ''d/f''" "is_regular_file sample_fs ''d/f''"
    by (simp_all add: fs_exists_def is_regular_file_def)
  let ?f = "md5.cut_file ''d/f'' (parent_path ''d/f'') default_chunk_size [1, 2, 3] t"
  obtain rt2 where build: "BuildBackupFiles ''d/f'' (set_task_state ''j'' JobRunning ''backup execution started'' rt1) =
      (Inr [?f], rt2)" and fs2: "rt_fs rt2 = sample_fs"
    using ex by (simp add: BuildBackupFiles_def fs b)
  obtain rt3 where loop: "backup_files offline_api NullStorageBackend ?job [?f] rt2 = (Inr Status_Ok, rt3)"
    by (simp add: p fs2 VerifyFile_cut [OF sample_fs_read(1)] Null_StoreFile_def Let_def)
  have id: "job_job_id ?job = ''j''" "job_source_path ?job = ''d/f''" by (simp_all add: BackupJob_init_def)
  have "\<exists>rt'. ExecuteBackup offline_api ?job NullStorageBackend ?rt = (Inr Status_Ok, rt')"
    unfolding ExecuteBackup_def start Let_def id using ex by (simp add: fs build loop del: backup_files.simps)
  then show ?thesis
    using execute_backup_outcome [OF reach] by (fastforce simp: Let_def BackupJob_init_def)
qed

end
