(* ===== verification/Recovery.thy ===== *)
theory Recovery
  imports Backup
begin

text \<open>
  \<^verbatim>\<open>src/backup/recovery_service.cpp\<close>: submitting, executing and retrying a restore request. A request and
  the task that carries it out are kept in step: the lemmas follow both through an execution, and the
  properties say what a finished execution leaves on the disk, in the request and in the task, which
  backup record a restore of the latest version takes, and which field values a request can have in each
  of its states.
\<close>

section \<open>Recovery service\<close>

definition MakeRecoveryAuditEvent :: "string \<Rightarrow> AuditEvent" where
  "MakeRecoveryAuditEvent detail =
     AuditEvent_init\<lparr>event_category := ''restore.request'', event_detail := detail\<rparr>"

fun latest_record :: "string \<Rightarrow> string \<Rightarrow> BackupRecord list \<Rightarrow> BackupRecord option \<Rightarrow> BackupRecord option" where
  "latest_record source_node_id relative_path [] latest = latest"
| "latest_record source_node_id relative_path (r # rs) latest =
     (if backup_node_id r \<noteq> source_node_id \<or> backup_relative_path r \<noteq> relative_path then
        latest_record source_node_id relative_path rs latest
      else case latest of
        None \<Rightarrow> latest_record source_node_id relative_path rs (Some r)
      | Some l \<Rightarrow>
          latest_record source_node_id relative_path rs
            (if backup_backed_up_at_epoch r > backup_backed_up_at_epoch l then Some r else Some l))"

definition FindLatestBackupRecord :: "MetadataStore \<Rightarrow> string \<Rightarrow> string \<Rightarrow> BackupRecord option" where
  "FindLatestBackupRecord db source_node_id relative_path =
     latest_record source_node_id relative_path (ListBackupRecords db) None"

text \<open>The output parameter \<open>restored_out\<close> is the second component; it is set on success only.\<close>

definition VerifyRestoredFile ::
  "MetadataStore \<Rightarrow> StoredObjectRecord \<Rightarrow> path \<Rightarrow> FileSystem \<Rightarrow> (Status \<times> FileRecord option) result" where
  "VerifyRestoredFile db stored target_path fs =
     (case GetFile db (stored_file_id stored) of
        None \<Rightarrow> Inr (Status_Error kNotFound ''file metadata not found for restore'', None)
      | Some f \<Rightarrow>
          bind_result (BuildFileRecord Md5Hasher default_chunker fs target_path (parent_path target_path))
            (\<lambda>(restored, _).
               if file_root_hash restored \<noteq> file_root_hash f then
                 Inr (Status_Error kInternalError ''restored file hash does not match metadata'', None)
               else Inr (Status_Ok, Some restored)))"

definition MakeDeviceRelativePath :: "path \<Rightarrow> string" where
  "MakeDeviceRelativePath target_path =
     (let normalized = lexically_normal target_path
      in if is_absolute normalized then path_filename normalized else normalized)"

definition MakeRestoredDeviceFileRecord :: "u64 \<Rightarrow> RestoreRequest \<Rightarrow> FileRecord \<Rightarrow> DeviceFileRecord" where
  "MakeRestoredDeviceFileRecord now request restored_file = DeviceFileRecord_init\<lparr>
     devfile_record_id := restore_target_node_id request @ ''|'' @ file_absolute_path restored_file,
     devfile_node_id := restore_target_node_id request, devfile_file_id := restore_file_id request,
     devfile_relative_path := MakeDeviceRelativePath (file_absolute_path restored_file),
     devfile_absolute_path := file_absolute_path restored_file, devfile_source_kind := ''restore'',
     devfile_source_ref_id := restore_request_id request, devfile_updated_at_epoch := now\<rparr>"

definition SubmitRestore :: "RestoreRequest \<Rightarrow> SystemRuntime \<Rightarrow> Status \<times> SystemRuntime" where
  "SubmitRestore request rt =
     (if restore_request_id request = [] \<or> restore_file_id request = [] \<or>
         restore_target_node_id request = [] \<or> restore_destination_path request = [] then
        (Status_Error kInvalidArgument ''restore request is missing required fields'', rt)
      else
        let task = ScheduledTaskRecord_init\<lparr>
              task_task_id := restore_request_id request, task_domain := DomainRestore,
              task_related_id := restore_file_id request, task_source_node := restore_source_node_id request,
              task_target_node := restore_target_node_id request,
              task_created_at_epoch := restore_created_at_epoch request,
              task_detail := restore_destination_path request\<rparr>;
            stored_request = request\<lparr>restore_state := RestoreQueued, restore_completed_at_epoch := 0,
              restore_error_message := []\<rparr>;
            (status, rt) = on_store (ScheduleTask task) rt
        in if status_ok status then
             let rt = write_store (UpsertRestoreRequest stored_request) rt
             in (status, Audit_Append (MakeRecoveryAuditEvent
                  (''scheduled restore request: '' @ restore_request_id stored_request)) rt)
           else (status, rt))"

text \<open>The failure bookkeeping shared by the verification branch and the handler of \<open>ExecuteRestore\<close>.\<close>

definition restore_failed :: "string \<Rightarrow> RestoreRequest \<Rightarrow> string \<Rightarrow> SystemRuntime \<Rightarrow> SystemRuntime" where
  "restore_failed request_id request msg rt =
     (let request = request\<lparr>restore_state := RestoreFailed, restore_error_message := msg,
            restore_completed_at_epoch := rt_now rt\<rparr>;
          rt = write_store (UpsertRestoreRequest request) rt
      in set_task_state request_id JobFailed msg rt)"

text \<open>The body of the \<open>try\<close> block: an exception, or the status it returns.\<close>

definition restore_body ::
  "FdfsApi \<Rightarrow> string \<Rightarrow> RestoreRequest \<Rightarrow> StoredObjectRecord \<Rightarrow> SystemRuntime \<Rightarrow> Status result \<times> SystemRuntime" where
  "restore_body api request_id request stored rt =
     (case CreateStorageBackend (stored_backend_name stored) [] of
        Inl e \<Rightarrow> (Inl e, rt)
      | Inr backend \<Rightarrow>
          let target_path = restore_destination_path request
          in case RestoreFile api backend stored target_path (rt_fs rt) of
               (Inl e, fs) \<Rightarrow> (Inl e, rt\<lparr>rt_fs := fs\<rparr>)
             | (Inr _, fs) \<Rightarrow>
                 let rt = rt\<lparr>rt_fs := fs\<rparr>
                 in case VerifyRestoredFile (rt_store rt) stored target_path (rt_fs rt) of
                      Inl e \<Rightarrow> (Inl e, rt)
                    | Inr (verify_status, restored_out) \<Rightarrow>
                        if \<not> status_ok verify_status then
                          (Inr verify_status,
                           restore_failed request_id request (status_message verify_status) rt)
                        else
                          let restored_file = (case restored_out of Some f \<Rightarrow> f | None \<Rightarrow> FileRecord_init);
                              rt = write_store (UpsertDeviceFile
                                (MakeRestoredDeviceFileRecord (rt_now rt) request restored_file)) rt;
                              request = request\<lparr>restore_state := RestoreCompleted,
                                restore_error_message := [], restore_completed_at_epoch := rt_now rt\<rparr>;
                              rt = write_store (UpsertRestoreRequest request) rt;
                              rt = set_task_state request_id JobCompleted (lexically_normal target_path) rt;
                              rt = Audit_Append (MakeRecoveryAuditEvent
                                (''completed restore request: '' @ request_id)) rt
                          in (Inr Status_Ok, rt))"

definition ExecuteRestore :: "FdfsApi \<Rightarrow> string \<Rightarrow> SystemRuntime \<Rightarrow> Status \<times> SystemRuntime" where
  "ExecuteRestore api request_id rt =
     (case GetRestoreRequest (rt_store rt) request_id of
        None \<Rightarrow> (Status_Error kNotFound ''restore request not found'', rt)
      | Some request \<Rightarrow>
          (case GetStoredObject (rt_store rt) (restore_file_id request) of
             None \<Rightarrow> (Status_Error kNotFound ''stored object not found'',
                      set_task_state request_id JobFailed ''stored object not found'' rt)
           | Some stored \<Rightarrow>
               (case GetFile (rt_store rt) (restore_file_id request) of
                  None \<Rightarrow> (Status_Error kNotFound ''file metadata not found'',
                           set_task_state request_id JobFailed ''file metadata not found'' rt)
                | Some _ \<Rightarrow>
                    let request = request\<lparr>restore_state := RestoreRunning, restore_error_message := [],
                          restore_completed_at_epoch := 0\<rparr>;
                        rt = write_store (UpsertRestoreRequest request) rt;
                        rt = set_task_state request_id JobRunning (restore_destination_path request) rt
                    in case restore_body api request_id request stored rt of
                         (Inr status, rt) \<Rightarrow> (status, rt)
                       | (Inl ex, rt) \<Rightarrow>
                           (Status_Error kInternalError (what ex),
                            restore_failed request_id request (what ex) rt))))"

definition ExecuteLatestRestore ::
  "FdfsApi \<Rightarrow> string \<Rightarrow> string \<Rightarrow> string \<Rightarrow> string \<Rightarrow> SystemRuntime \<Rightarrow> Status \<times> SystemRuntime" where
  "ExecuteLatestRestore api source_node_id relative_path target_node_id destination_path rt =
     (case FindLatestBackupRecord (rt_store rt) source_node_id relative_path of
        None \<Rightarrow> (Status_Error kNotFound ''latest backup record not found'', rt)
      | Some latest \<Rightarrow>
          let request = RestoreRequest_init\<lparr>
                restore_request_id := ''restore-'' @ source_node_id @ ''-'' @ backup_file_id latest,
                restore_file_id := backup_file_id latest, restore_source_node_id := source_node_id,
                restore_target_node_id := target_node_id, restore_destination_path := destination_path,
                restore_created_at_epoch := backup_backed_up_at_epoch latest\<rparr>;
              (submit_status, rt) = SubmitRestore request rt
          in if \<not> status_ok submit_status then (submit_status, rt)
             else ExecuteRestore api (restore_request_id request) rt)"

definition RetryRestore :: "FdfsApi \<Rightarrow> string \<Rightarrow> SystemRuntime \<Rightarrow> Status \<times> SystemRuntime" where
  "RetryRestore api request_id rt =
     (case GetRestoreRequest (rt_store rt) request_id of
        None \<Rightarrow> (Status_Error kNotFound ''restore request not found'', rt)
      | Some request \<Rightarrow>
          let (retry_status, rt) = on_store (RetryTask request_id ''manual restore retry requested'') rt
          in if \<not> status_ok retry_status then (retry_status, rt)
             else
               let request = request\<lparr>restore_state := RestoreQueued, restore_completed_at_epoch := 0,
                     restore_error_message := []\<rparr>;
                   rt = write_store (UpsertRestoreRequest request) rt;
                   rt = Audit_Append (MakeRecoveryAuditEvent (''retry restore request: '' @ request_id)) rt
               in ExecuteRestore api request_id rt)"

definition FindRestoreRequest :: "SystemRuntime \<Rightarrow> string \<Rightarrow> RestoreRequest option" where
  "FindRestoreRequest rt request_id = GetRestoreRequest (rt_store rt) request_id"

definition Recovery_ListRestoreRequests :: "SystemRuntime \<Rightarrow> RestoreRequest list" where
  "Recovery_ListRestoreRequests rt = ListRestoreRequests (rt_store rt)"

section \<open>The latest backup\<close>

lemma latest_record_spec:
  "latest_record n p rs l = Some r \<Longrightarrow>
     (r \<in> set rs \<and> backup_node_id r = n \<and> backup_relative_path r = p \<or> l = Some r) \<and>
     (\<forall>x. (x \<in> set rs \<and> backup_node_id x = n \<and> backup_relative_path x = p \<or> l = Some x) \<longrightarrow>
        backup_backed_up_at_epoch x \<le> backup_backed_up_at_epoch r)"
proof (induction rs arbitrary: l)
  case (Cons y rs)
  let ?m = "backup_node_id y = n \<and> backup_relative_path y = p"
  let ?l = "if \<not> ?m then l else (case l of None \<Rightarrow> Some y
    | Some x \<Rightarrow> if backup_backed_up_at_epoch y > backup_backed_up_at_epoch x then Some y else Some x)"
  have "latest_record n p rs ?l = Some r" using Cons.prems by (auto split: option.splits if_splits)
  note ih = Cons.IH [OF this]
  show ?case
  proof (cases l)
    case None
    then show ?thesis using ih by (cases ?m) auto
  next
    case (Some x)
    have "backup_backed_up_at_epoch z \<le> backup_backed_up_at_epoch r"
      if "z \<in> set (y # rs) \<and> backup_node_id z = n \<and> backup_relative_path z = p \<or> l = Some z" for z
    proof (cases "z \<in> set rs")
      case True
      then show ?thesis using that ih Some
        by (cases ?m; cases "backup_backed_up_at_epoch y > backup_backed_up_at_epoch x") auto
    next
      case False
      then show ?thesis using that ih Some
        by (cases ?m; cases "backup_backed_up_at_epoch y > backup_backed_up_at_epoch x")
          (auto intro: order_trans less_imp_le)
    qed
    then show ?thesis
      using ih Some by (cases ?m; cases "backup_backed_up_at_epoch y > backup_backed_up_at_epoch x") auto
  qed
qed simp

lemma latest_record_None:
  "latest_record n p rs l = None \<longleftrightarrow>
     l = None \<and> (\<forall>r \<in> set rs. backup_node_id r \<noteq> n \<or> backup_relative_path r \<noteq> p)"
  by (induction rs arbitrary: l) (auto split: option.splits)

lemma sort_key_empty: "sort_key f xs = [] \<longleftrightarrow> xs = []"
  using length_sort [of f xs] length_0_conv [of "sort_key f xs"] length_0_conv [of xs] by argo

text \<open>
  C30: The three services that look for the latest backup of a file agree. The recovery service finds a
  record exactly when the backup service and the file index do; it is a record of that node and path, no
  record of that node and path is newer, and its time is that of the record the other two return.
\<close>

theorem latest_backup_agrees:
  "FindLatestBackup rt n p = Index_FindLatestBackup (rt_store rt) n p \<and>
   (FindLatestBackupRecord (rt_store rt) n p = None \<longleftrightarrow> FindLatestBackup rt n p = None) \<and>
   (\<forall>r l. FindLatestBackupRecord (rt_store rt) n p = Some r \<and> FindLatestBackup rt n p = Some l \<longrightarrow>
      r \<in> set (ListBackupRecords (rt_store rt)) \<and> backup_node_id r = n \<and> backup_relative_path r = p \<and>
      backup_backed_up_at_epoch r = backup_backed_up_at_epoch l \<and>
      (\<forall>x \<in> set (ListBackupRecords (rt_store rt)). backup_node_id x = n \<and> backup_relative_path x = p \<longrightarrow>
         backup_backed_up_at_epoch x \<le> backup_backed_up_at_epoch r))"
proof -
  let ?rs = "filter (\<lambda>r. backup_node_id r = n \<and> backup_relative_path r = p) (ListBackupRecords (rt_store rt))"
  have none: "FindLatestBackup rt n p = None \<longleftrightarrow> ?rs = []"
    using sort_key_empty [of "\<lambda>r. - uint (backup_backed_up_at_epoch r)" ?rs]
    by (auto simp: FindLatestBackup_def ListBackupHistory_def latest_first_def split: list.splits)
  have first: "l \<in> set ?rs \<and> (\<forall>x \<in> set ?rs. backup_backed_up_at_epoch x \<le> backup_backed_up_at_epoch l)"
    if l: "FindLatestBackup rt n p = Some l" for l
  proof -
    obtain ls where s: "sort_key (\<lambda>r. - uint (backup_backed_up_at_epoch r)) ?rs = l # ls"
      using l by (auto simp: FindLatestBackup_def ListBackupHistory_def latest_first_def split: list.splits)
    have "sorted (map (\<lambda>r. - uint (backup_backed_up_at_epoch r)) (l # ls))"
      using sorted_sort_key [of "\<lambda>r. - uint (backup_backed_up_at_epoch r)" ?rs] unfolding s .
    moreover have "set ?rs = set (l # ls)"
      using set_sort [of "\<lambda>r. - uint (backup_backed_up_at_epoch r)" ?rs] unfolding s by simp
    ultimately show ?thesis by (auto simp: word_le_def)
  qed
  have both: "FindLatestBackupRecord (rt_store rt) n p = None \<longleftrightarrow> FindLatestBackup rt n p = None"
    unfolding none FindLatestBackupRecord_def latest_record_None by (auto simp: filter_empty_conv)
  have index: "FindLatestBackup rt n p = Index_FindLatestBackup (rt_store rt) n p"
    by (simp add: FindLatestBackup_def Index_FindLatestBackup_def ListBackupHistory_def Index_ListBackupHistory_def)
  have best: "r \<in> set ?rs \<and> (\<forall>x \<in> set ?rs. backup_backed_up_at_epoch x \<le> backup_backed_up_at_epoch r)"
    if "FindLatestBackupRecord (rt_store rt) n p = Some r" for r
    using latest_record_spec [OF that [unfolded FindLatestBackupRecord_def]] by auto
  have "r \<in> set (ListBackupRecords (rt_store rt)) \<and> backup_node_id r = n \<and> backup_relative_path r = p \<and>
      backup_backed_up_at_epoch r = backup_backed_up_at_epoch l \<and>
      (\<forall>x \<in> set (ListBackupRecords (rt_store rt)). backup_node_id x = n \<and> backup_relative_path x = p \<longrightarrow>
         backup_backed_up_at_epoch x \<le> backup_backed_up_at_epoch r)"
    if "FindLatestBackupRecord (rt_store rt) n p = Some r \<and> FindLatestBackup rt n p = Some l" for r l
  proof -
    have r: "r \<in> set ?rs" "\<forall>x \<in> set ?rs. backup_backed_up_at_epoch x \<le> backup_backed_up_at_epoch r"
      using best that by blast+
    have l: "l \<in> set ?rs" "\<forall>x \<in> set ?rs. backup_backed_up_at_epoch x \<le> backup_backed_up_at_epoch l"
      using first that by blast+
    have "backup_backed_up_at_epoch r = backup_backed_up_at_epoch l"
      by (rule order.antisym) (use r l in blast)+
    then show ?thesis using r by simp
  qed
  then show ?thesis using both index by blast
qed

theorem latest_backup_agrees_witness:
  "let r = (\<lambda>k t. BackupRecord_init\<lparr>backup_record_id := k, backup_node_id := ''n'', backup_relative_path := ''p'',
             backup_backed_up_at_epoch := t\<rparr>);
       rt = SystemRuntime_new (MetadataStore_init\<lparr>db_backup_records := [r ''a'' 3, r ''b'' 8, r ''c'' 5]\<rparr>) None
              sample_fs 0 0
   in FindLatestBackupRecord (rt_store rt) ''n'' ''p'' = Some (r ''b'' 8) \<and>
      map_option backup_backed_up_at_epoch (FindLatestBackup rt ''n'' ''p'') = Some 8"
proof -
  let ?r = "\<lambda>k t. BackupRecord_init\<lparr>backup_record_id := k, backup_node_id := ''n'', backup_relative_path := ''p'',
             backup_backed_up_at_epoch := t\<rparr>"
  let ?rt = "SystemRuntime_new (MetadataStore_init\<lparr>db_backup_records := [?r ''a'' 3, ?r ''b'' 8, ?r ''c'' 5]\<rparr>) None
              sample_fs 0 0"
  have found: "FindLatestBackupRecord (rt_store ?rt) ''n'' ''p'' = Some (?r ''b'' 8)"
    by (simp add: FindLatestBackupRecord_def ListBackupRecords_def SystemRuntime_new_def)
  then obtain l where "FindLatestBackup ?rt ''n'' ''p'' = Some l"
    using latest_backup_agrees [of ?rt "''n''" "''p''"] by fastforce
  then have "map_option backup_backed_up_at_epoch (FindLatestBackup ?rt ''n'' ''p'') = Some 8"
    using latest_backup_agrees [of ?rt "''n''" "''p''"] found by auto
  then show ?thesis using found by simp
qed

section \<open>Following one restore\<close>

lemma restore_write_reads [simp]:
  "GetScheduledTaskRecord (UpsertRestoreRequest r db) k = GetScheduledTaskRecord db k"
  "GetFile (UpsertRestoreRequest r db) k = GetFile db k"
  "GetStoredObject (UpsertRestoreRequest r db) k = GetStoredObject db k"
  "GetRestoreRequest (UpsertDeviceFile d db) k = GetRestoreRequest db k"
  "GetScheduledTaskRecord (UpsertDeviceFile d db) k = GetScheduledTaskRecord db k"
  by (simp_all add: store_reads UpsertRestoreRequest_def UpsertDeviceFile_def)

text \<open>A file record can only be built from a readable file.\<close>

lemma BuildFileRecord_readable:
  assumes "BuildFileRecord Md5Hasher default_chunker fs p root = Inr (f, ck)"
  shows "\<exists>data t. entry_at fs p = Some (RegularFile data t) \<and> open_read fs p = Some data \<and>
    f = md5.cut_file p root default_chunk_size data t"
proof -
  obtain data where d: "open_read fs p = Some data"
    using assms by (auto simp: BuildFileRecord_def bind_result_Inr_iff Let_def split: option.splits sum.splits)
  then show ?thesis
    using BuildFileRecord_default [OF d, of root] assms
    by (auto simp: default_chunker_def default_chunk_size_def)
qed

lemma VerifyRestoredFile_Ok:
  assumes "VerifyRestoredFile db stored p fs = Inr (s, r)" and "status_ok s"
  shows "\<exists>f data t. GetFile db (stored_file_id stored) = Some f \<and> entry_at fs p = Some (RegularFile data t) \<and>
    md5_hex data = file_root_hash f"
  using assms BuildFileRecord_readable [of fs p "parent_path p"]
  by (fastforce simp: VerifyRestoredFile_def bind_result_Inr_iff md5.cut_file_def split: option.splits if_splits)

text \<open>A request and its task agree.\<close>

definition restore_row :: "SystemRuntime \<Rightarrow> string \<Rightarrow> RestoreRequest \<Rightarrow> JobState \<Rightarrow> string \<Rightarrow> bool" where
  "restore_row rt request_id request st detail \<longleftrightarrow>
     GetRestoreRequest (rt_store rt) request_id = Some request \<and>
     (\<forall>t. FindTask (rt_store rt) request_id = Some t \<longrightarrow> task_state t = st \<and> task_detail t = detail)"

lemma restore_written:
  assumes "store_inv (rt_store rt)" and "restore_request_id request = request_id"
  shows "store_inv (rt_store (set_task_state request_id st detail (write_store (UpsertRestoreRequest request) rt)))"
    and "restore_row (set_task_state request_id st detail (write_store (UpsertRestoreRequest request) rt))
      request_id request st detail"
proof -
  have inv: "store_inv (UpsertRestoreRequest request (rt_store rt))" using assms by (simp add: store_inv_upsert)
  then show "store_inv (rt_store (set_task_state request_id st detail (write_store (UpsertRestoreRequest request) rt)))"
    by simp
  show "restore_row (set_task_state request_id st detail (write_store (UpsertRestoreRequest request) rt))
      request_id request st detail"
    using assms(2) restore_requests_table.get_upsert [OF assms(1), of request request_id]
      UpdateTaskState_find [OF inv, of request_id st detail request_id]
    by (auto simp: restore_row_def FindTask_def)
qed

lemma restore_row_audit [simp]:
  "restore_row (Audit_Append e rt) k r st d = restore_row rt k r st d"
  by (simp add: restore_row_def FindTask_def)

definition failed_request :: "u64 \<Rightarrow> string \<Rightarrow> RestoreRequest \<Rightarrow> RestoreRequest" where
  "failed_request now msg request = request\<lparr>restore_state := RestoreFailed, restore_error_message := msg,
     restore_completed_at_epoch := now\<rparr>"

definition completed_request :: "u64 \<Rightarrow> RestoreRequest \<Rightarrow> RestoreRequest" where
  "completed_request now request = request\<lparr>restore_state := RestoreCompleted, restore_error_message := [],
     restore_completed_at_epoch := now\<rparr>"

lemma restore_failed_row:
  assumes "store_inv (rt_store rt)" and "restore_request_id request = request_id"
  shows "store_inv (rt_store (restore_failed request_id request msg rt))"
    and "restore_row (restore_failed request_id request msg rt) request_id
      (failed_request (rt_now rt) msg request) JobFailed msg"
  using restore_written [OF assms(1), of "failed_request (rt_now rt) msg request" request_id JobFailed msg] assms(2)
  by (simp_all add: restore_failed_def failed_request_def Let_def)

text \<open>The destination holds the recorded content.\<close>

definition restored :: "MetadataStore \<Rightarrow> FileSystem \<Rightarrow> string \<Rightarrow> path \<Rightarrow> bool" where
  "restored db fs file_id p \<longleftrightarrow>
     (\<exists>f data t. GetFile db file_id = Some f \<and> entry_at fs p = Some (RegularFile data t) \<and>
        md5_hex data = file_root_hash f)"

lemma restore_body_outcome:
  assumes "restore_body api request_id request stored rt = (r, rt')" and "store_inv (rt_store rt)"
    and "restore_request_id request = request_id"
  shows "case r of
      Inl ex \<Rightarrow> rt_store rt' = rt_store rt \<and> rt_now rt' = rt_now rt
    | Inr s \<Rightarrow> store_inv (rt_store rt') \<and>
        (if status_ok s then
           restore_row rt' request_id (completed_request (rt_now rt) request) JobCompleted
             (lexically_normal (restore_destination_path request)) \<and>
           restored (rt_store rt) (rt_fs rt') (stored_file_id stored) (restore_destination_path request)
         else restore_row rt' request_id (failed_request (rt_now rt) (status_message s) request) JobFailed
             (status_message s))"
proof -
  let ?p = "restore_destination_path request"
  show ?thesis
  proof (cases "CreateStorageBackend (stored_backend_name stored) []")
    case (Inl e)
    then show ?thesis using assms(1) by (auto simp: restore_body_def)
  next
    case (Inr backend)
    obtain x fs where copy: "RestoreFile api backend stored ?p (rt_fs rt) = (x, fs)"
      by (cases "RestoreFile api backend stored ?p (rt_fs rt)")
    show ?thesis
    proof (cases "\<exists>e. x = Inl e \<or> VerifyRestoredFile (rt_store rt) stored ?p fs = Inl e")
      case True
      then show ?thesis using assms(1) Inr copy by (cases x) (auto simp: restore_body_def Let_def)
    next
      case False
      then obtain v out where v: "x = Inr ()" "VerifyRestoredFile (rt_store rt) stored ?p fs = Inr (v, out)"
        by (cases x; cases "VerifyRestoredFile (rt_store rt) stored ?p fs") auto
      show ?thesis
      proof (cases "status_ok v")
        case False
        then have "r = Inr v" "rt' = restore_failed request_id request (status_message v) (rt\<lparr>rt_fs := fs\<rparr>)"
          using assms(1) Inr copy v by (auto simp: restore_body_def Let_def)
        then show ?thesis
          using False restore_failed_row [of "rt\<lparr>rt_fs := fs\<rparr>" request request_id "status_message v"] assms(2,3)
          by simp
      next
        case True
        obtain d where run: "r = Inr Status_Ok" "rt' = Audit_Append (MakeRecoveryAuditEvent
              (''completed restore request: '' @ request_id))
            (set_task_state request_id JobCompleted (lexically_normal ?p)
              (write_store (UpsertRestoreRequest (completed_request (rt_now rt) request))
                (write_store (UpsertDeviceFile d) (rt\<lparr>rt_fs := fs\<rparr>))))"
          using assms(1) Inr copy v True by (auto simp: restore_body_def completed_request_def Let_def)
        show ?thesis
          using run assms(2,3) VerifyRestoredFile_Ok [OF v(2) True]
            restore_written [of "write_store (UpsertDeviceFile d) (rt\<lparr>rt_fs := fs\<rparr>)"
              "completed_request (rt_now rt) request" request_id JobCompleted "lexically_normal ?p"]
          by (simp add: restored_def completed_request_def)
      qed
    qed
  qed
qed

section \<open>Properties of a restore\<close>

text \<open>
  C3: Executing a restore tells the truth. On Ok the destination holds a file whose MD5 is the recorded
  root hash of the requested file, the request is completed at the current time without an error message
  and its task is completed. On an error of a known request the task is failed with the message of the
  status; the request is failed with the same message, unless the stored object or the file record was
  missing, in which case the request itself is left as it was. An unknown request changes nothing.
\<close>

theorem execute_restore_outcome:
  assumes "store_reach (rt_store rt)" and "ExecuteRestore api request_id rt = (s, rt')"
  shows "case GetRestoreRequest (rt_store rt) request_id of
      None \<Rightarrow> rt' = rt \<and> s = Status_Error kNotFound ''restore request not found''
    | Some request \<Rightarrow>
        if status_ok s then
          restored (rt_store rt) (rt_fs rt') (restore_file_id request) (restore_destination_path request) \<and>
          restore_row rt' request_id (completed_request (rt_now rt) request) JobCompleted
            (lexically_normal (restore_destination_path request))
        else if GetStoredObject (rt_store rt) (restore_file_id request) = None \<or>
            GetFile (rt_store rt) (restore_file_id request) = None then
          restore_row rt' request_id request JobFailed (status_message s)
        else restore_row rt' request_id (failed_request (rt_now rt) (status_message s) request) JobFailed
            (status_message s)"
proof (cases "GetRestoreRequest (rt_store rt) request_id")
  case None
  then show ?thesis using assms(2) by (simp add: ExecuteRestore_def)
next
  case (Some request)
  have inv: "store_inv (rt_store rt)" by (rule store_reach_inv [OF assms(1)])
  have id: "restore_request_id request = request_id"
    using restore_requests_table.get_key [OF inv Some] .
  have failed: "restore_row (set_task_state request_id JobFailed msg rt) request_id request JobFailed msg" for msg
    using Some UpdateTaskState_find [OF inv, of request_id JobFailed msg request_id]
    by (auto simp: restore_row_def FindTask_def)
  show ?thesis
  proof (cases "GetStoredObject (rt_store rt) (restore_file_id request) = None \<or>
      GetFile (rt_store rt) (restore_file_id request) = None")
    case True
    then show ?thesis
      using assms(2) Some failed by (auto simp: ExecuteRestore_def split: option.splits)
  next
    case False
    then obtain so f where so: "GetStoredObject (rt_store rt) (restore_file_id request) = Some so"
      and f: "GetFile (rt_store rt) (restore_file_id request) = Some f" by auto
    have so_id: "stored_file_id so = restore_file_id request"
      using stored_objects_table.get_key [OF inv so] .
    let ?q = "request\<lparr>restore_state := RestoreRunning, restore_error_message := [], restore_completed_at_epoch := 0\<rparr>"
    let ?rt = "set_task_state request_id JobRunning (restore_destination_path request) (write_store (UpsertRestoreRequest ?q) rt)"
    have q: "failed_request t m ?q = failed_request t m request" "completed_request t ?q = completed_request t request"
      for t m by (simp_all add: failed_request_def completed_request_def)
    have inv': "store_inv (rt_store ?rt)" using inv by (simp add: store_inv_upsert)
    obtain r rt2 where body: "restore_body api request_id ?q so ?rt = (r, rt2)"
      by (cases "restore_body api request_id ?q so ?rt")
    have id': "restore_request_id ?q = request_id" by (simp add: id)
    note o = restore_body_outcome [OF body inv' id']
    show ?thesis
    proof (cases r)
      case (Inl ex)
      then have "s = Status_Error kInternalError (what ex)" "rt' = restore_failed request_id ?q (what ex) rt2"
        using assms(2) Some so f body by (auto simp: ExecuteRestore_def Let_def)
      then show ?thesis
        using Inl o Some so f id inv' restore_failed_row [of rt2 ?q request_id "what ex"] by (simp add: q)
    next
      case (Inr s')
      then have "s = s'" "rt' = rt2"
        using assms(2) Some so f body by (auto simp: ExecuteRestore_def Let_def)
      then show ?thesis using Inr o Some so f so_id by (cases "status_ok s'") (simp_all add: restored_def q)
    qed
  qed
qed

lemma sample_dirs_g: "create_directories (parent_path ''d/g'') sample_fs = Inr sample_fs"
  by (simp add: create_directories_def directory_keys_def make_directories_def path_eval sample_fs_def)

lemma sample_copy:
  "\<exists>fs. copy_file ''d/f'' ''d/g'' sample_fs = Inr fs \<and> open_read fs ''d/g'' = Some [1, 2, 3]"
  by (simp add: copy_file_def open_read_def entry_at_def set_entry_def parent_exists_def path_eval sample_fs_def)

theorem execute_restore_outcome_witness:
  "let f = FileRecord_init\<lparr>file_file_id := ''x'', file_root_hash := md5_hex [1, 2, 3]\<rparr>;
       so = StoredObjectRecord_init\<lparr>stored_file_id := ''x'', stored_backend_name := ''none'', stored_source_path := ''d/f''\<rparr>;
       request = RestoreRequest_init\<lparr>restore_request_id := ''r'', restore_file_id := ''x'',
         restore_destination_path := ''d/g''\<rparr>;
       store = UpsertRestoreRequest request (UpsertStoredObject so (UpsertFile f MetadataStore_init));
       (s, rt') = ExecuteRestore offline_api ''r'' (SystemRuntime_new store None sample_fs 9 9)
   in status_ok s \<and> restored store (rt_fs rt') ''x'' ''d/g'' \<and>
      map_option restore_state (GetRestoreRequest (rt_store rt') ''r'') = Some RestoreCompleted"
proof -
  let ?f = "FileRecord_init\<lparr>file_file_id := ''x'', file_root_hash := md5_hex [1, 2, 3]\<rparr>"
  let ?so = "StoredObjectRecord_init\<lparr>stored_file_id := ''x'', stored_backend_name := ''none'', stored_source_path := ''d/f''\<rparr>"
  let ?request = "RestoreRequest_init\<lparr>restore_request_id := ''r'', restore_file_id := ''x'',
      restore_destination_path := ''d/g''\<rparr>"
  let ?store = "UpsertRestoreRequest ?request (UpsertStoredObject ?so (UpsertFile ?f MetadataStore_init))"
  let ?rt = "SystemRuntime_new ?store None sample_fs 9 9"
  let ?q = "?request\<lparr>restore_state := RestoreRunning, restore_error_message := [], restore_completed_at_epoch := 0\<rparr>"
  let ?rt1 = "set_task_state ''r'' JobRunning ''d/g'' (write_store (UpsertRestoreRequest ?q) ?rt)"
  have reach: "store_reach (rt_store ?rt)"
    unfolding SystemRuntime_new_def by simp
      (intro store_reach.step [OF _ store_step.restore_request] store_reach.step [OF _ store_step.stored_object]
        store_reach.step [OF _ store_step.file_row] store_reach.start)
  have get: "GetRestoreRequest ?store ''r'' = Some ?request" "GetStoredObject ?store ''x'' = Some ?so"
    "GetFile ?store ''x'' = Some ?f"
    by (simp_all add: store_reads store_writes MetadataStore_init_def RestoreRequest_init_def
        StoredObjectRecord_init_def FileRecord_init_def)
  have fields: "restore_file_id ?request = ''x''" "restore_destination_path ?request = ''d/g''"
    "stored_backend_name ?so = ''none''" "stored_file_id ?so = ''x''" by simp_all
  obtain fs where copy: "copy_file ''d/f'' ''d/g'' sample_fs = Inr fs" and read: "open_read fs ''d/g'' = Some [1, 2, 3]"
    using sample_copy by blast
  have restore: "RestoreFile offline_api NullStorageBackend ?so ''d/g'' sample_fs = (Inr (), fs)"
    using copy by (simp add: Null_RestoreFile_def restore_copy_def sample_dirs_g StoredObjectRecord_init_def)
  obtain t ck where b: "BuildFileRecord Md5Hasher default_chunker fs ''d/g'' (parent_path ''d/g'') =
      Inr (md5.cut_file ''d/g'' (parent_path ''d/g'') default_chunk_size [1, 2, 3] t, ck)"
    using BuildFileRecord_default_chunker [OF read] by blast
  have "GetFile (rt_store ?rt1) ''x'' = Some ?f" using get(3) by (simp add: SystemRuntime_new_def)
  then have verify: "\<exists>out. VerifyRestoredFile (rt_store ?rt1) ?so ''d/g'' fs = Inr (Status_Ok, out)"
    by (simp add: VerifyRestoredFile_def b md5.cut_file_def)
  have body: "\<exists>rt'. restore_body offline_api ''r'' ?q ?so ?rt1 = (Inr Status_Ok, rt')"
    using verify restore by (auto simp: restore_body_def CreateStorageBackend_def SystemRuntime_new_def Let_def)
  have "\<exists>rt'. ExecuteRestore offline_api ''r'' ?rt = (Status_Ok, rt')"
    using body get by (auto simp: ExecuteRestore_def SystemRuntime_new_def Let_def)
  then obtain rt' where run: "ExecuteRestore offline_api ''r'' ?rt = (Status_Ok, rt')" by blast
  have store: "rt_store ?rt = ?store" by (simp add: SystemRuntime_new_def)
  show ?thesis
    unfolding Let_def run using execute_restore_outcome [OF reach run]
    unfolding store get by (simp add: restore_row_def completed_request_def)
qed

section \<open>The invariant\<close>

lemma SubmitRestore_inv [simp]:
  "system_inv (rt_store rt) \<Longrightarrow> system_inv (rt_store (snd (SubmitRestore r rt)))"
  by (simp add: SubmitRestore_def ScheduleTask_def on_store_def Let_def request_ok_def)

lemma restore_failed_inv [simp]:
  "system_inv (rt_store rt) \<Longrightarrow> system_inv (rt_store (restore_failed k r msg rt))"
  by (simp add: restore_failed_def Let_def request_ok_def)

lemma restore_body_inv:
  assumes "restore_body api k r so rt = (x, rt')" and "system_inv (rt_store rt)"
  shows "system_inv (rt_store rt')"
  using assms by (auto simp: restore_body_def Let_def request_ok_def split: sum.splits prod.splits if_splits)

lemma ExecuteRestore_inv [simp]:
  assumes "system_inv (rt_store rt)"
  shows "system_inv (rt_store (snd (ExecuteRestore api k rt)))"
proof (cases "GetRestoreRequest (rt_store rt) k")
  case None
  then show ?thesis using assms by (simp add: ExecuteRestore_def)
next
  case (Some request)
  let ?q = "request\<lparr>restore_state := RestoreRunning, restore_error_message := [], restore_completed_at_epoch := 0\<rparr>"
  let ?rt = "set_task_state k JobRunning (restore_destination_path request) (write_store (UpsertRestoreRequest ?q) rt)"
  have "system_inv (rt_store ?rt)" using assms by (simp add: request_ok_def)
  then have "system_inv (rt_store rt')" if "restore_body api k ?q so ?rt = (x, rt')" for so x rt'
    using restore_body_inv that by blast
  then show ?thesis
    using Some assms by (auto simp: ExecuteRestore_def Let_def split: option.splits sum.splits prod.splits)
qed

lemma RetryRestore_inv [simp]:
  "system_inv (rt_store rt) \<Longrightarrow> system_inv (rt_store (snd (RetryRestore api k rt)))"
  by (auto simp: RetryRestore_def on_store_def split_beta Let_def request_ok_def split: option.splits)

end
