(* ===== verification/Shared_Library.thy ===== *)
theory Shared_Library
  imports Recovery
begin

text \<open>
  \<^verbatim>\<open>src/transfer/shared_library_service.cpp\<close>: publishing an entry or a file, scheduling its reception by a
  node, receiving it into a directory, retrying, marking it delivered, the listings and the clean-up of
  expired entries. Each entry keeps one row per recipient node; the lemmas follow that row through a
  reception, and the properties say when an entry counts as delivered, that expired entries are never
  handed out, and what the clean-up leaves.
\<close>

section \<open>The service\<close>

definition MakeTransferAuditEvent :: "string \<Rightarrow> AuditEvent" where
  "MakeTransferAuditEvent detail =
     AuditEvent_init\<lparr>event_category := ''transfer.library'', event_detail := detail\<rparr>"

definition Library_BuildFileRecord :: "FileSystem \<Rightarrow> path \<Rightarrow> FileRecord result" where
  "Library_BuildFileRecord fs p =
     bind_result (BuildFileRecord Md5Hasher default_chunker fs p (parent_path p)) (\<lambda>(f, _). Inr f)"

fun recipient_index :: "nat \<Rightarrow> string \<Rightarrow> SharedLibraryRecipient list \<Rightarrow> nat option" where
  "recipient_index i node_id [] = None"
| "recipient_index i node_id (r # rs) =
     (if recip_node_id r = node_id then Some i else recipient_index (Suc i) node_id rs)"

definition FindRecipientIndex :: "SharedLibraryEntry \<Rightarrow> string \<Rightarrow> nat option" where
  "FindRecipientIndex entry node_id = recipient_index 0 node_id (entry_recipients entry)"

text \<open>Assigning fields of \<open>entry.recipients[i]\<close>, where \<open>i\<close> was found.\<close>

definition with_recipient ::
  "nat \<Rightarrow> (SharedLibraryRecipient \<Rightarrow> SharedLibraryRecipient) \<Rightarrow> SharedLibraryEntry \<Rightarrow> SharedLibraryEntry" where
  "with_recipient i f entry =
     entry\<lparr>entry_recipients := (entry_recipients entry)[i := f (entry_recipients entry ! i)]\<rparr>"

definition MakeSharedReceiveDeviceFileRecord ::
  "u64 \<Rightarrow> SharedLibraryEntry \<Rightarrow> string \<Rightarrow> FileRecord \<Rightarrow> path \<Rightarrow> DeviceFileRecord" where
  "MakeSharedReceiveDeviceFileRecord now entry target_node_id f target_path = DeviceFileRecord_init\<lparr>
     devfile_record_id := target_node_id @ ''|'' @ lexically_normal target_path,
     devfile_node_id := target_node_id, devfile_file_id := file_file_id f,
     devfile_relative_path := entry_display_name entry,
     devfile_absolute_path := lexically_normal target_path, devfile_source_kind := ''share_receive'',
     devfile_source_ref_id := entry_entry_id entry, devfile_updated_at_epoch := now\<rparr>"

definition Library_ConfigurePolicy :: "TransferPolicy \<Rightarrow> SystemRuntime \<Rightarrow> Status \<times> SystemRuntime" where
  "Library_ConfigurePolicy policy rt =
     (if tpolicy_policy_id policy = [] then
        (Status_Error kInvalidArgument ''transfer policy id is required'', rt)
      else
        let rt = rt\<lparr>rt_transfer_policy := policy\<rparr>;
            rt = write_store (UpsertTransferPolicy policy) rt;
            rt = Audit_Append (MakeTransferAuditEvent
              (''configured transfer policy: '' @ tpolicy_policy_id policy)) rt
        in (Status_Ok, rt))"

definition PublishEntry :: "SharedLibraryEntry \<Rightarrow> SystemRuntime \<Rightarrow> Status \<times> SystemRuntime" where
  "PublishEntry entry rt =
     (if entry_entry_id entry = [] \<or> entry_owner_node_id entry = [] \<or> entry_display_name entry = [] then
        (Status_Error kInvalidArgument ''shared entry is missing required fields'', rt)
      else
        let existing = GetSharedLibraryEntry (rt_store rt) (entry_entry_id entry);
            rt = write_store (UpsertSharedLibraryEntry entry) rt
        in if existing \<noteq> None then
             (Status_Ok, Audit_Append (MakeTransferAuditEvent
                (''updated shared entry: '' @ entry_entry_id entry)) rt)
           else
             (Status_Ok, Audit_Append (MakeTransferAuditEvent
                (''published shared entry: '' @ entry_entry_id entry)) rt))"

definition PublishFile ::
  "SharedLibraryEntry \<Rightarrow> path \<Rightarrow> SystemRuntime \<Rightarrow> Status result \<times> SystemRuntime" where
  "PublishFile entry library_root rt =
     (let source_path = entry_source_path entry
      in if entry_entry_id entry = [] \<or> entry_owner_node_id entry = [] \<or> source_path = [] \<or>
            entry_display_name entry = [] then
           (Inr (Status_Error kInvalidArgument ''shared file publish request is missing required fields''), rt)
         else if library_root = [] then
           (Inr (Status_Error kInvalidArgument ''shared library root is required''), rt)
         else if \<not> fs_exists (rt_fs rt) source_path \<or> \<not> is_regular_file (rt_fs rt) source_path then
           (Inr (Status_Error kNotFound ''shared source file does not exist''), rt)
         else case Library_BuildFileRecord (rt_fs rt) source_path of
           Inl ex \<Rightarrow> (Inr (Status_Error kInternalError (what ex)), rt)
         | Inr f \<Rightarrow>
             (case VerifyFile f source_path (rt_fs rt) of
                Inl e \<Rightarrow> (Inl e, rt)
              | Inr verify_status \<Rightarrow>
                  if \<not> status_ok verify_status then (Inr verify_status, rt)
                  else case create_directories library_root (rt_fs rt) of
                    Inl e \<Rightarrow> (Inl e, rt)
                  | Inr fs \<Rightarrow>
                      let target_path = path_append library_root (entry_entry_id entry) @ path_extension source_path
                      in case copy_file source_path target_path fs of
                           Inl _ \<Rightarrow>
                             (Inr (Status_Error kInternalError ''failed to copy file into shared library''),
                              rt\<lparr>rt_fs := fs\<rparr>)
                         | Inr fs \<Rightarrow>
                             let entry = entry\<lparr>entry_file_id := file_file_id f,
                                   entry_source_path := lexically_normal target_path, entry_expired := False\<rparr>;
                                 rt = write_store (UpsertFile f) (rt\<lparr>rt_fs := fs\<rparr>);
                                 (status, rt) = PublishEntry entry rt
                             in (Inr status, rt)))"

definition CreateReceiveTask :: "string \<Rightarrow> string \<Rightarrow> SystemRuntime \<Rightarrow> Status \<times> SystemRuntime" where
  "CreateReceiveTask entry_id target_node_id rt =
     (case GetSharedLibraryEntry (rt_store rt) entry_id of
        None \<Rightarrow> (Status_Error kNotFound ''shared entry not found'', rt)
      | Some entry \<Rightarrow>
          if entry_expired entry then (Status_Error kPermissionDenied ''shared entry is expired'', rt)
          else if (case FindRecipientIndex entry target_node_id of
                     Some i \<Rightarrow> recip_state (entry_recipients entry ! i) = RecipientDelivered
                   | None \<Rightarrow> False) then
            (Status_Error kAlreadyExists ''entry already delivered to target node'', rt)
          else
            let task = ScheduledTaskRecord_init\<lparr>
                  task_task_id := entry_entry_id entry @ ''->'' @ target_node_id,
                  task_domain := DomainTransfer, task_related_id := entry_entry_id entry,
                  task_source_node := entry_owner_node_id entry, task_target_node := target_node_id,
                  task_created_at_epoch := entry_created_at_epoch entry,
                  task_detail := entry_display_name entry\<rparr>;
                (status, rt) = on_store (ScheduleTask task) rt
            in if status_ok status then
                 let entry =
                       (case FindRecipientIndex entry target_node_id of
                          Some i \<Rightarrow> with_recipient i (\<lambda>r. r\<lparr>recip_state := RecipientPending,
                            recip_received_path := [], recip_error_message := [],
                            recip_updated_at_epoch := rt_now rt\<rparr>) entry
                        | None \<Rightarrow> entry\<lparr>entry_recipients := entry_recipients entry @
                            [SharedLibraryRecipient_init\<lparr>recip_entry_id := entry_entry_id entry,
                               recip_node_id := target_node_id, recip_state := RecipientPending,
                               recip_updated_at_epoch := rt_now rt\<rparr>]\<rparr>);
                     rt = write_store (UpsertSharedLibraryEntry entry) rt;
                     rt = Audit_Append (MakeTransferAuditEvent
                       (''scheduled receive task for entry: '' @ entry_entry_id entry)) rt
                 in (status, rt)
               else (status, rt))"

text \<open>The failure bookkeeping of \<open>ReceiveEntry\<close>.\<close>

definition recipient_failed :: "SharedLibraryEntry \<Rightarrow> string \<Rightarrow> string \<Rightarrow> SystemRuntime \<Rightarrow> SystemRuntime" where
  "recipient_failed entry target_node_id msg rt =
     (case FindRecipientIndex entry target_node_id of
        Some i \<Rightarrow>
          write_store (UpsertSharedLibraryEntry (with_recipient i (\<lambda>r. r\<lparr>recip_state := RecipientFailed,
            recip_error_message := msg, recip_updated_at_epoch := rt_now rt\<rparr>) entry)) rt
      | None \<Rightarrow> rt)"

definition MarkDelivered :: "string \<Rightarrow> string \<Rightarrow> string \<Rightarrow> SystemRuntime \<Rightarrow> Status \<times> SystemRuntime" where
  "MarkDelivered entry_id target_node_id received_path rt =
     (case GetSharedLibraryEntry (rt_store rt) entry_id of
        None \<Rightarrow> (Status_Error kNotFound ''shared entry not found'', rt)
      | Some entry \<Rightarrow>
          let entry =
                (case FindRecipientIndex entry target_node_id of
                   Some i \<Rightarrow> with_recipient i (\<lambda>r. r\<lparr>recip_state := RecipientDelivered,
                     recip_received_path := received_path, recip_error_message := [],
                     recip_updated_at_epoch := rt_now rt\<rparr>) entry
                 | None \<Rightarrow> entry\<lparr>entry_recipients := entry_recipients entry @
                     [SharedLibraryRecipient_init\<lparr>recip_entry_id := entry_entry_id entry,
                        recip_node_id := target_node_id, recip_state := RecipientDelivered,
                        recip_received_path := received_path, recip_updated_at_epoch := rt_now rt\<rparr>]\<rparr>);
              entry = entry\<lparr>entry_delivered := True\<rparr>;
              entry = (if target_node_id \<in> set (entry_recipient_nodes entry) then entry
                       else entry\<lparr>entry_recipient_nodes := entry_recipient_nodes entry @ [target_node_id]\<rparr>);
              rt = write_store (UpsertSharedLibraryEntry entry) rt;
              rt = Audit_Append (MakeTransferAuditEvent (''marked delivered: '' @ entry_entry_id entry)) rt
          in (Status_Ok, rt))"

definition Library_FindEntry :: "SystemRuntime \<Rightarrow> string \<Rightarrow> SharedLibraryEntry option" where
  "Library_FindEntry rt entry_id = GetSharedLibraryEntry (rt_store rt) entry_id"

text \<open>The part of \<open>ReceiveEntry\<close> after the copy was made.\<close>

definition receive_copied ::
  "SharedLibraryEntry \<Rightarrow> string \<Rightarrow> string \<Rightarrow> path \<Rightarrow> Status \<Rightarrow> SystemRuntime \<Rightarrow> Status result \<times> SystemRuntime" where
  "receive_copied entry entry_id target_node_id target_path task_status rt =
     (case Library_BuildFileRecord (rt_fs rt) target_path of
        Inl ex \<Rightarrow> (Inr (Status_Error kInternalError (what ex)), rt)
      | Inr f \<Rightarrow>
          (case VerifyFile f target_path (rt_fs rt) of
             Inl e \<Rightarrow> (Inl e, rt)
           | Inr verify_status \<Rightarrow>
               if \<not> status_ok verify_status then
                 (Inr verify_status, recipient_failed entry target_node_id (status_message verify_status) rt)
               else
                 let rt = write_store (UpsertFile f) rt;
                     rt = write_store (UpsertDeviceFile
                       (MakeSharedReceiveDeviceFileRecord (rt_now rt) entry target_node_id f target_path)) rt;
                     task_id = entry_entry_id entry @ ''->'' @ target_node_id;
                     rt = (if status_code task_status = kAlreadyExists then
                             Audit_Append (MakeTransferAuditEvent
                               (''replayed receive for entry: '' @ entry_entry_id entry)) rt
                           else rt);
                     rt = set_task_state task_id JobCompleted (lexically_normal target_path) rt;
                     (status, rt) = MarkDelivered entry_id target_node_id (lexically_normal target_path) rt
                 in (Inr status, rt)))"

definition ReceiveEntry ::
  "string \<Rightarrow> string \<Rightarrow> path \<Rightarrow> SystemRuntime \<Rightarrow> Status result \<times> SystemRuntime" where
  "ReceiveEntry entry_id target_node_id target_root rt =
     (if target_root = [] then
        (Inr (Status_Error kInvalidArgument ''receive target root is required''), rt)
      else case Library_FindEntry rt entry_id of
        None \<Rightarrow> (Inr (Status_Error kNotFound ''shared entry not found''), rt)
      | Some entry \<Rightarrow>
          if entry_expired entry then
            (Inr (Status_Error kPermissionDenied ''shared entry is expired''), rt)
          else
            (case CreateReceiveTask entry_id target_node_id rt of (task_status, rt) \<Rightarrow>
               if \<not> status_ok task_status \<and> status_code task_status \<noteq> kAlreadyExists then
                 (Inr task_status, rt)
               else case Library_FindEntry rt entry_id of
                 None \<Rightarrow>
                   (Inr (Status_Error kNotFound ''shared entry not found after receive task creation''), rt)
               | Some entry \<Rightarrow>
                   let source_path = entry_source_path entry
                   in if \<not> fs_exists (rt_fs rt) source_path \<or> \<not> is_regular_file (rt_fs rt) source_path then
                        (Inr (Status_Error kNotFound ''shared library file is missing''),
                         recipient_failed entry target_node_id ''shared library file is missing'' rt)
                      else case create_directories target_root (rt_fs rt) of
                        Inl e \<Rightarrow> (Inl e, rt)
                      | Inr fs \<Rightarrow>
                          let target_path = path_append target_root (entry_display_name entry)
                          in case copy_file source_path target_path fs of
                               Inl _ \<Rightarrow>
                                 (Inr (Status_Error kInternalError ''failed to materialize shared file''),
                                  recipient_failed entry target_node_id ''failed to materialize shared file''
                                    (rt\<lparr>rt_fs := fs\<rparr>))
                             | Inr fs \<Rightarrow>
                                 receive_copied entry entry_id target_node_id target_path task_status
                                   (rt\<lparr>rt_fs := fs\<rparr>)))"

definition RetryReceive ::
  "string \<Rightarrow> string \<Rightarrow> path \<Rightarrow> SystemRuntime \<Rightarrow> Status result \<times> SystemRuntime" where
  "RetryReceive entry_id target_node_id target_root rt =
     (let task_id = entry_id @ ''->'' @ target_node_id;
          (retry_status, rt) = on_store (RetryTask task_id ''manual share receive retry requested'') rt
      in if \<not> status_ok retry_status then (Inr retry_status, rt)
         else
           let rt = (case GetSharedLibraryEntry (rt_store rt) entry_id of
                       None \<Rightarrow> rt
                     | Some entry \<Rightarrow>
                         (case FindRecipientIndex entry target_node_id of
                            None \<Rightarrow> rt
                          | Some i \<Rightarrow>
                              write_store (UpsertSharedLibraryEntry (with_recipient i
                                (\<lambda>r. r\<lparr>recip_state := RecipientPending, recip_error_message := [],
                                  recip_updated_at_epoch := rt_now rt\<rparr>) entry)) rt));
               rt = Audit_Append (MakeTransferAuditEvent (''retry receive for entry: '' @ entry_id)) rt
           in ReceiveEntry entry_id target_node_id target_root rt)"

definition ListEntries :: "SystemRuntime \<Rightarrow> SharedLibraryEntry list" where
  "ListEntries rt = ListSharedLibraryEntries (rt_store rt)"

definition ListActiveEntries :: "SystemRuntime \<Rightarrow> SharedLibraryEntry list" where
  "ListActiveEntries rt = filter (\<lambda>entry. \<not> entry_expired entry) (ListSharedLibraryEntries (rt_store rt))"

definition ListEntriesForNode :: "SystemRuntime \<Rightarrow> string \<Rightarrow> SharedLibraryEntry list" where
  "ListEntriesForNode rt node_id =
     filter (\<lambda>entry.
         let related_recipient = node_id \<in> set (entry_recipient_nodes entry) \<or>
               FindRecipientIndex entry node_id \<noteq> None
         in entry_owner_node_id entry = node_id \<or> related_recipient)
       (ListSharedLibraryEntries (rt_store rt))"

definition ListPendingEntriesForNode :: "SystemRuntime \<Rightarrow> string \<Rightarrow> SharedLibraryEntry list" where
  "ListPendingEntriesForNode rt node_id =
     filter (\<lambda>entry.
         let mine = filter (\<lambda>r. recip_node_id r = node_id) (entry_recipients entry);
             delivered_to_node = list_ex (\<lambda>r. recip_state r = RecipientDelivered) mine;
             pending_or_failed_for_node =
               list_ex (\<lambda>r. recip_state r = RecipientPending \<or> recip_state r = RecipientFailed) mine
         in \<not> entry_expired entry \<and> entry_owner_node_id entry \<noteq> node_id \<and>
            (\<not> delivered_to_node \<or> pending_or_failed_for_node))
       (ListSharedLibraryEntries (rt_store rt))"

text \<open>The loop runs over the listing made before it; removing the file ignores errors.\<close>

definition is_expired_at :: "u64 \<Rightarrow> SharedLibraryEntry \<Rightarrow> bool" where
  "is_expired_at now_epoch entry \<longleftrightarrow>
     \<not> entry_expired entry \<and> entry_expires_at_epoch entry \<noteq> 0 \<and> entry_expires_at_epoch entry \<le> now_epoch"

fun cleanup_entries :: "u64 \<Rightarrow> SharedLibraryEntry list \<Rightarrow> nat \<Rightarrow> SystemRuntime \<Rightarrow> nat \<times> SystemRuntime" where
  "cleanup_entries now_epoch [] removed rt = (removed, rt)"
| "cleanup_entries now_epoch (entry # entries) removed rt =
     (if is_expired_at now_epoch entry then
        let entry = entry\<lparr>entry_expired := True, entry_delivered := True\<rparr>;
            rt = rt\<lparr>rt_fs := remove_file (entry_source_path entry) (rt_fs rt)\<rparr>;
            rt = write_store (UpsertSharedLibraryEntry entry) rt
        in cleanup_entries now_epoch entries (removed + 1) rt
      else cleanup_entries now_epoch entries removed rt)"

definition CleanupExpired :: "u64 \<Rightarrow> SystemRuntime \<Rightarrow> nat \<times> SystemRuntime" where
  "CleanupExpired now_epoch rt =
     (let (removed, rt) = cleanup_entries now_epoch (ListSharedLibraryEntries (rt_store rt)) 0 rt
      in (removed,
          if removed > 0 then
            Audit_Append (MakeTransferAuditEvent (''cleaned expired shared entries: '' @ to_string removed)) rt
          else rt))"

section \<open>The row of a recipient\<close>

lemma recipient_index_spec:
  "recipient_index i n rs = Some j \<Longrightarrow> i \<le> j \<and> j - i < length rs \<and> recip_node_id (rs ! (j - i)) = n"
proof (induction rs arbitrary: i)
  case (Cons r rs)
  show ?case
  proof (cases "recip_node_id r = n")
    case False
    then have "Suc i \<le> j \<and> j - Suc i < length rs \<and> recip_node_id (rs ! (j - Suc i)) = n"
      using Cons.IH [of "Suc i"] Cons.prems by simp
    then show ?thesis by (auto simp: nth_Cons' less_diff_conv2)
  qed (use Cons.prems in auto)
qed simp

lemma recipient_index_None: "recipient_index i n rs = None \<longleftrightarrow> n \<notin> recip_node_id ` set rs"
  by (induction rs arbitrary: i) auto

lemma FindRecipientIndex_Some:
  "FindRecipientIndex e n = Some i \<Longrightarrow> i < length (entry_recipients e) \<and> recip_node_id (entry_recipients e ! i) = n"
  using recipient_index_spec [of 0 n "entry_recipients e" i] by (simp add: FindRecipientIndex_def)

lemma FindRecipientIndex_None:
  "FindRecipientIndex e n = None \<longleftrightarrow> n \<notin> recip_node_id ` set (entry_recipients e)"
  by (simp add: FindRecipientIndex_def recipient_index_None)

text \<open>Rewriting the row of a node, or appending one, keeps the entry well formed.\<close>

lemma entry_ok_with_recipient:
  assumes "entry_ok e" and "FindRecipientIndex e n = Some i"
    and "\<And>r. recip_node_id (f r) = recip_node_id r"
    and "recip_state (f (entry_recipients e ! i)) = RecipientDelivered \<Longrightarrow>
      recip_error_message (f (entry_recipients e ! i)) = []"
  shows "entry_ok (with_recipient i f e)"
proof -
  have i: "i < length (entry_recipients e)" using FindRecipientIndex_Some [OF assms(2)] by simp
  have "map recip_node_id ((entry_recipients e)[i := f (entry_recipients e ! i)]) = map recip_node_id (entry_recipients e)"
    using i by (simp add: map_update assms(3) list_update_same_conv)
  then show ?thesis
    using assms(1,4) set_update_subset_insert [of "entry_recipients e" i "f (entry_recipients e ! i)"]
    by (auto simp: entry_ok_def with_recipient_def)
qed

lemma entry_ok_append:
  assumes "entry_ok e" and "FindRecipientIndex e (recip_node_id r) = None"
    and "recip_state r = RecipientDelivered \<Longrightarrow> recip_error_message r = []"
  shows "entry_ok (e\<lparr>entry_recipients := entry_recipients e @ [r]\<rparr>)"
  using assms by (auto simp: entry_ok_def FindRecipientIndex_None image_iff)

lemma entry_ok_fields [simp]:
  "entry_ok (e\<lparr>entry_delivered := b\<rparr>) = entry_ok e"
  "entry_ok (e\<lparr>entry_expired := b\<rparr>) = entry_ok e"
  "entry_ok (e\<lparr>entry_recipient_nodes := ns\<rparr>) = entry_ok e"
  by (simp_all add: entry_ok_def)

lemma with_recipient_fields [simp]:
  "entry_entry_id (with_recipient i f e) = entry_entry_id e"
  "entry_expired (with_recipient i f e) = entry_expired e"
  "entry_source_path (with_recipient i f e) = entry_source_path e"
  "entry_display_name (with_recipient i f e) = entry_display_name e"
  "entry_recipient_nodes (with_recipient i f e) = entry_recipient_nodes e"
  by (simp_all add: with_recipient_def)

lemma with_recipient_in:
  "FindRecipientIndex e n = Some i \<Longrightarrow>
     f (entry_recipients e ! i) \<in> set (entry_recipients (with_recipient i f e))"
  using FindRecipientIndex_Some [of e n i] by (auto simp: with_recipient_def set_update_memI)

lemma entry_ok_put_recipient:
  assumes "entry_ok e" and "\<And>r. recip_node_id (f r) = recip_node_id r"
    and "\<And>r. recip_state (f r) = RecipientDelivered \<Longrightarrow> recip_error_message (f r) = []"
    and "recip_node_id r0 = n" and "recip_state r0 = RecipientDelivered \<Longrightarrow> recip_error_message r0 = []"
  shows "entry_ok (case FindRecipientIndex e n of Some i \<Rightarrow> with_recipient i f e
    | None \<Rightarrow> e\<lparr>entry_recipients := entry_recipients e @ [r0]\<rparr>)"
  using assms entry_ok_with_recipient [OF assms(1) _ assms(2), where n = n] entry_ok_append [OF assms(1), of r0]
  by (auto split: option.splits)

section \<open>The invariant\<close>

lemma CreateReceiveTask_inv [simp]:
  assumes "system_inv (rt_store rt)"
  shows "system_inv (rt_store (snd (CreateReceiveTask k n rt)))"
proof (cases "GetSharedLibraryEntry (rt_store rt) k")
  case None
  then show ?thesis using assms by (simp add: CreateReceiveTask_def)
next
  case (Some e)
  have ok: "entry_ok e" using system_inv_entry [OF assms Some] .
  then show ?thesis
    using assms Some entry_ok_put_recipient [OF ok, where n = n]
    by (simp add: CreateReceiveTask_def ScheduleTask_def on_store_def Let_def SharedLibraryRecipient_init_def)
qed

lemma recipient_failed_inv [simp]:
  assumes "system_inv (rt_store rt)" and "entry_ok e"
  shows "system_inv (rt_store (recipient_failed e n msg rt))"
  using assms entry_ok_with_recipient [OF assms(2), where n = n and f = "\<lambda>r. r\<lparr>recip_state := RecipientFailed,
      recip_error_message := msg, recip_updated_at_epoch := rt_now rt\<rparr>"]
  by (simp add: recipient_failed_def split: option.splits)

lemma MarkDelivered_inv [simp]:
  assumes "system_inv (rt_store rt)"
  shows "system_inv (rt_store (snd (MarkDelivered k n p rt)))"
proof (cases "GetSharedLibraryEntry (rt_store rt) k")
  case None
  then show ?thesis using assms by (simp add: MarkDelivered_def)
next
  case (Some e)
  have ok: "entry_ok e" using system_inv_entry [OF assms Some] .
  then show ?thesis
    using assms Some entry_ok_put_recipient [OF ok, where n = n]
    by (simp add: MarkDelivered_def Let_def SharedLibraryRecipient_init_def)
qed

lemma receive_copied_inv [simp]:
  assumes "system_inv (rt_store rt)" and "entry_ok e"
  shows "system_inv (rt_store (snd (receive_copied e k n p ts rt)))"
  using assms by (auto simp: receive_copied_def Let_def split_beta split: sum.splits)

lemma ReceiveEntry_inv [simp]:
  assumes "system_inv (rt_store rt)"
  shows "system_inv (rt_store (snd (ReceiveEntry k n root rt)))"
proof -
  obtain s rt1 where create: "CreateReceiveTask k n rt = (s, rt1)" by (cases "CreateReceiveTask k n rt")
  have inv: "system_inv (rt_store rt1)" using CreateReceiveTask_inv [OF assms, of k n] by (simp add: create)
  have ok: "entry_ok e" if "Library_FindEntry rt1 k = Some e" for e
    using system_inv_entry [OF inv] that by (simp add: Library_FindEntry_def)
  show ?thesis
    using assms inv ok by (auto simp: ReceiveEntry_def create Let_def split: option.splits sum.splits)
qed

lemma RetryReceive_inv [simp]:
  assumes "system_inv (rt_store rt)"
  shows "system_inv (rt_store (snd (RetryReceive k n root rt)))"
proof -
  let ?rt = "snd (on_store (RetryTask (k @ ''->'' @ n) ''manual share receive retry requested'') rt)"
  have inv: "system_inv (rt_store ?rt)" using assms by (simp add: on_store_def split_beta Let_def)
  have "entry_ok (with_recipient i (\<lambda>r. r\<lparr>recip_state := RecipientPending, recip_error_message := [],
      recip_updated_at_epoch := t\<rparr>) e)"
    if "GetSharedLibraryEntry (rt_store ?rt) k = Some e" "FindRecipientIndex e n = Some i" for e i t
    by (rule entry_ok_with_recipient [OF system_inv_entry [OF inv that(1)] that(2)]) simp_all
  then show ?thesis
    using inv by (auto simp: RetryReceive_def split_beta Let_def split: option.splits)
qed

section \<open>Reception\<close>

lemma entry_write_frame [simp]:
  "GetSharedLibraryEntry (UpsertFile f db) k = GetSharedLibraryEntry db k"
  "GetSharedLibraryEntry (UpsertDeviceFile d db) k = GetSharedLibraryEntry db k"
  by (simp_all add: GetSharedLibraryEntry_def UpsertDeviceFile_def UpsertFile_def)

lemma CreateReceiveTask_keeps:
  assumes "store_inv (rt_store rt)" and e: "GetSharedLibraryEntry (rt_store rt) k = Some e"
    and "CreateReceiveTask k n rt = (ts, rt')"
  shows "rt_fs rt' = rt_fs rt" and "\<exists>e'. GetSharedLibraryEntry (rt_store rt') k = Some e' \<and>
    entry_source_path e' = entry_source_path e \<and> entry_display_name e' = entry_display_name e"
proof -
  have key: "entry_entry_id e = k" using shared_library_entries_table.get_key [OF assms(1) e] .
  have inv: "store_inv (UpsertScheduledTask t (rt_store rt))" for t by (simp add: assms(1) store_inv_upsert)
  have "rt_fs rt' = rt_fs rt \<and> (\<exists>e'. GetSharedLibraryEntry (rt_store rt') k = Some e' \<and>
      entry_source_path e' = entry_source_path e \<and> entry_display_name e' = entry_display_name e)"
    using assms(3) e
    by (auto simp: CreateReceiveTask_def ScheduleTask_def on_store_def Let_def key
        shared_library_entries_table.get_upsert [OF inv] split: if_splits option.splits)
  then show "rt_fs rt' = rt_fs rt" and "\<exists>e'. GetSharedLibraryEntry (rt_store rt') k = Some e' \<and>
      entry_source_path e' = entry_source_path e \<and> entry_display_name e' = entry_display_name e" by blast+
qed

definition delivered_to :: "SharedLibraryEntry \<Rightarrow> string \<Rightarrow> string \<Rightarrow> bool" where
  "delivered_to e n p \<longleftrightarrow> entry_delivered e \<and> n \<in> set (entry_recipient_nodes e) \<and>
     (\<exists>r \<in> set (entry_recipients e). recip_node_id r = n \<and> recip_state r = RecipientDelivered \<and>
        recip_received_path r = p \<and> recip_error_message r = [])"

lemma MarkDelivered_spec:
  assumes "store_inv (rt_store rt)" and e: "GetSharedLibraryEntry (rt_store rt) k = Some e"
  shows "\<exists>e'. GetSharedLibraryEntry (rt_store (snd (MarkDelivered k n p rt))) k = Some e' \<and> delivered_to e' n p"
    and "fst (MarkDelivered k n p rt) = Status_Ok" and "rt_fs (snd (MarkDelivered k n p rt)) = rt_fs rt"
proof -
  let ?f = "\<lambda>r. r\<lparr>recip_state := RecipientDelivered, recip_received_path := p, recip_error_message := [],
      recip_updated_at_epoch := rt_now rt\<rparr>"
  let ?new = "SharedLibraryRecipient_init\<lparr>recip_entry_id := entry_entry_id e, recip_node_id := n,
      recip_state := RecipientDelivered, recip_received_path := p, recip_updated_at_epoch := rt_now rt\<rparr>"
  let ?e = "(case FindRecipientIndex e n of Some i \<Rightarrow> with_recipient i ?f e
     | None \<Rightarrow> e\<lparr>entry_recipients := entry_recipients e @ [?new]\<rparr>)\<lparr>entry_delivered := True\<rparr>"
  let ?e' = "if n \<in> set (entry_recipient_nodes ?e) then ?e
     else ?e\<lparr>entry_recipient_nodes := entry_recipient_nodes ?e @ [n]\<rparr>"
  have key: "entry_entry_id e = k" using shared_library_entries_table.get_key [OF assms] .
  have "\<exists>r \<in> set (entry_recipients ?e). recip_node_id r = n \<and> recip_state r = RecipientDelivered \<and>
      recip_received_path r = p \<and> recip_error_message r = []"
  proof (cases "FindRecipientIndex e n")
    case None
    then show ?thesis by (auto simp: SharedLibraryRecipient_init_def)
  next
    case (Some i)
    then have "?f (entry_recipients e ! i) \<in> set (entry_recipients ?e)"
      using with_recipient_in [OF Some, of ?f] by simp
    moreover have "recip_node_id (?f (entry_recipients e ! i)) = n"
      using FindRecipientIndex_Some [OF Some] by simp
    ultimately show ?thesis by (intro bexI [of _ "?f (entry_recipients e ! i)"]) simp_all
  qed
  then have "delivered_to ?e' n p" by (auto simp: delivered_to_def)
  moreover have "entry_entry_id ?e' = k" by (simp add: key split: option.splits)
  moreover have run: "MarkDelivered k n p rt = (Status_Ok,
      Audit_Append (MakeTransferAuditEvent (''marked delivered: '' @ entry_entry_id ?e'))
        (write_store (UpsertSharedLibraryEntry ?e') rt))"
    by (simp only: MarkDelivered_def e option.case Let_def)
  ultimately show "\<exists>e'. GetSharedLibraryEntry (rt_store (snd (MarkDelivered k n p rt))) k = Some e' \<and> delivered_to e' n p"
    using shared_library_entries_table.get_upsert [OF assms(1), of ?e' k] by simp
  show "fst (MarkDelivered k n p rt) = Status_Ok" "rt_fs (snd (MarkDelivered k n p rt)) = rt_fs rt"
    unfolding run by simp_all
qed

lemma receive_copied_Ok:
  assumes "receive_copied e k n p ts rt = (Inr s, rt')" and "status_ok s"
    and inv: "system_inv (rt_store rt)" and e: "GetSharedLibraryEntry (rt_store rt) k = Some e"
  shows "rt_fs rt' = rt_fs rt \<and>
    (\<exists>e'. GetSharedLibraryEntry (rt_store rt') k = Some e' \<and> delivered_to e' n (lexically_normal p))"
proof -
  obtain f v where f: "Library_BuildFileRecord (rt_fs rt) p = Inr f" and v: "VerifyFile f p (rt_fs rt) = Inr v"
    and ok: "status_ok v"
    using assms(1,2) by (auto simp: receive_copied_def split: sum.splits if_splits)
  let ?w = "write_store (UpsertDeviceFile (MakeSharedReceiveDeviceFileRecord (rt_now rt) e n f p)) (write_store (UpsertFile f) rt)"
  let ?a = "if status_code ts = kAlreadyExists then Audit_Append (MakeTransferAuditEvent
      (''replayed receive for entry: '' @ entry_entry_id e)) ?w else ?w"
  let ?rt = "set_task_state (entry_entry_id e @ ''->'' @ n) JobCompleted (lexically_normal p) ?a"
  have rt: "system_inv (rt_store ?rt)" "GetSharedLibraryEntry (rt_store ?rt) k = Some e" "rt_fs ?rt = rt_fs rt"
    using inv e by simp_all
  have "s = fst (MarkDelivered k n (lexically_normal p) ?rt) \<and> rt' = snd (MarkDelivered k n (lexically_normal p) ?rt)"
    using assms(1) f v ok
    by (cases "status_code ts = kAlreadyExists") (simp_all add: receive_copied_def Let_def split_beta)
  then show ?thesis
    using MarkDelivered_spec [OF system_inv_store [OF rt(1)] rt(2), of n "lexically_normal p"] rt(3) by simp
qed

text \<open>
  The check after the copy compares the copy with a record just made from it: whatever the copy holds,
  a readable copy is accepted.
\<close>

lemma receive_copied_accepts:
  assumes "open_read (rt_fs rt) p = Some data" and "system_inv (rt_store rt)"
    and "GetSharedLibraryEntry (rt_store rt) k = Some e"
  shows "fst (receive_copied e k n p ts rt) = Inr Status_Ok"
proof -
  obtain t ck where b: "BuildFileRecord Md5Hasher default_chunker (rt_fs rt) p (parent_path p) =
      Inr (md5.cut_file p (parent_path p) default_chunk_size data t, ck)"
    using BuildFileRecord_default_chunker [OF assms(1)] by blast
  have ok: "fst (MarkDelivered k n q rt') = Status_Ok"
    if "system_inv (rt_store rt')" "GetSharedLibraryEntry (rt_store rt') k = Some e" for rt' q
    using MarkDelivered_spec(2) [OF system_inv_store [OF that(1)] that(2)] .
  show ?thesis
    using assms(2,3)
    by (simp add: receive_copied_def Library_BuildFileRecord_def b VerifyFile_cut [OF assms(1)] Let_def split_beta ok)
qed

text \<open>What a good answer of the reception means.\<close>

lemma ReceiveEntry_Ok:
  assumes "system_inv (rt_store rt)" and "ReceiveEntry k n root rt = (Inr s, rt')" and ok: "status_ok s"
  shows "\<exists>e data t. GetSharedLibraryEntry (rt_store rt) k = Some e \<and> \<not> entry_expired e \<and>
      open_read (rt_fs rt) (entry_source_path e) = Some data \<and>
      entry_at (rt_fs rt') (path_append root (entry_display_name e)) = Some (RegularFile data t) \<and>
      (\<exists>e'. GetSharedLibraryEntry (rt_store rt') k = Some e' \<and>
         delivered_to e' n (lexically_normal (path_append root (entry_display_name e))))"
proof -
  obtain e where e: "GetSharedLibraryEntry (rt_store rt) k = Some e" "\<not> entry_expired e"
    using assms(2) ok by (auto simp: ReceiveEntry_def Library_FindEntry_def split: if_splits option.splits)
  obtain ts rt1 where create: "CreateReceiveTask k n rt = (ts, rt1)" by (cases "CreateReceiveTask k n rt")
  have inv1: "system_inv (rt_store rt1)" using CreateReceiveTask_inv [OF assms(1), of k n] by (simp add: create)
  obtain e1 where e1: "GetSharedLibraryEntry (rt_store rt1) k = Some e1"
      "entry_source_path e1 = entry_source_path e" "entry_display_name e1 = entry_display_name e"
    and fs1: "rt_fs rt1 = rt_fs rt"
    using CreateReceiveTask_keeps [OF system_inv_store [OF assms(1)] e(1) create] by blast
  let ?p = "path_append root (entry_display_name e)"
  obtain fs2 fs3 where dirs: "create_directories root (rt_fs rt) = Inr fs2"
    and copy: "copy_file (entry_source_path e) ?p fs2 = Inr fs3"
    and rest: "receive_copied e1 k n ?p ts (rt1\<lparr>rt_fs := fs3\<rparr>) = (Inr s, rt')"
    using assms(2) ok e e1 fs1
    by (auto simp: ReceiveEntry_def Library_FindEntry_def create Let_def split: if_splits sum.splits)
  obtain data where data: "open_read fs2 (entry_source_path e) = Some data" using copy_file_source [OF copy] by blast
  have "open_read (rt_fs rt) (entry_source_path e) = Some data"
    using data open_read_create_directories [OF dirs] by simp
  moreover have "entry_at fs3 ?p = Some (RegularFile data (fs_now fs2))" by (rule copy_file_Inr(3) [OF copy data])
  moreover have "rt_fs rt' = fs3 \<and> (\<exists>e'. GetSharedLibraryEntry (rt_store rt') k = Some e' \<and>
      delivered_to e' n (lexically_normal ?p))"
    using receive_copied_Ok [OF rest ok] inv1 e1(1) by simp
  ultimately show ?thesis
    using e by auto
qed

text \<open>A good answer of \<open>PublishFile\<close>: the library holds the bytes of the source, and the entry names them.\<close>

lemma PublishFile_Ok:
  assumes inv: "system_inv (rt_store rt)" and run: "PublishFile entry root rt = (Inr s, rt')" and ok: "status_ok s"
  shows "\<exists>e data t. open_read (rt_fs rt) (entry_source_path entry) = Some data \<and>
    GetSharedLibraryEntry (rt_store rt') (entry_entry_id entry) = Some e \<and> \<not> entry_expired e \<and>
    entry_display_name e = entry_display_name entry \<and>
    entry_at (rt_fs rt') (entry_source_path e) = Some (RegularFile data t)"
proof -
  let ?source = "entry_source_path entry"
  let ?target = "path_append root (entry_entry_id entry) @ path_extension ?source"
  obtain f fs1 fs2 where dirs: "create_directories root (rt_fs rt) = Inr fs1"
    and copy: "copy_file ?source ?target fs1 = Inr fs2"
    and rest: "PublishEntry (entry\<lparr>entry_file_id := file_file_id f, entry_source_path := lexically_normal ?target,
        entry_expired := False\<rparr>) (write_store (UpsertFile f) (rt\<lparr>rt_fs := fs2\<rparr>)) = (s, rt')"
    using run ok by (auto simp: PublishFile_def Let_def split_beta split: if_splits sum.splits)
  obtain data where data: "open_read fs1 ?source = Some data" using copy_file_source [OF copy] by blast
  have "open_read (rt_fs rt) ?source = Some data" using data open_read_create_directories [OF dirs] by simp
  moreover have "entry_at fs2 (lexically_normal ?target) = Some (RegularFile data (fs_now fs1))"
    using copy_file_Inr(3) [OF copy data] by simp
  moreover have "rt_fs rt' = fs2 \<and> GetSharedLibraryEntry (rt_store rt') (entry_entry_id entry) =
      Some (entry\<lparr>entry_file_id := file_file_id f, entry_source_path := lexically_normal ?target, entry_expired := False\<rparr>)"
    using rest ok inv shared_library_entries_table.get_upsert [OF system_inv_store [OF inv]]
    by (auto simp: PublishEntry_def Let_def system_inv_store shared_library_entries_table.get_upsert
        split: if_splits)
  ultimately show ?thesis by auto
qed

section \<open>Properties\<close>

text \<open>
  C15: A reception that answers Ok delivered the file. The entry existed and was not expired, its library
  file was readable, the target directory now holds a file of the entry's display name with exactly the
  bytes of the library file, and the stored entry names the node as a recipient whose row is delivered,
  carries that path and no error. An expired entry is refused and nothing changes.
\<close>

theorem receive_entry_outcome:
  assumes "system_inv (rt_store rt)" and "ReceiveEntry k n root rt = (Inr s, rt')"
  shows "(status_ok s \<longrightarrow> (\<exists>e data t. GetSharedLibraryEntry (rt_store rt) k = Some e \<and> \<not> entry_expired e \<and>
      open_read (rt_fs rt) (entry_source_path e) = Some data \<and>
      entry_at (rt_fs rt') (path_append root (entry_display_name e)) = Some (RegularFile data t) \<and>
      (\<exists>e'. GetSharedLibraryEntry (rt_store rt') k = Some e' \<and>
         delivered_to e' n (lexically_normal (path_append root (entry_display_name e)))))) \<and>
    (\<forall>e. root \<noteq> [] \<and> GetSharedLibraryEntry (rt_store rt) k = Some e \<and> entry_expired e \<longrightarrow>
      status_code s = kPermissionDenied \<and> rt' = rt)"
proof (intro conjI impI allI)
  assume "status_ok s"
  then show "\<exists>e data t. GetSharedLibraryEntry (rt_store rt) k = Some e \<and> \<not> entry_expired e \<and>
      open_read (rt_fs rt) (entry_source_path e) = Some data \<and>
      entry_at (rt_fs rt') (path_append root (entry_display_name e)) = Some (RegularFile data t) \<and>
      (\<exists>e'. GetSharedLibraryEntry (rt_store rt') k = Some e' \<and>
         delivered_to e' n (lexically_normal (path_append root (entry_display_name e))))"
    by (rule ReceiveEntry_Ok [OF assms])
next
  fix e
  assume "root \<noteq> [] \<and> GetSharedLibraryEntry (rt_store rt) k = Some e \<and> entry_expired e"
  then show "status_code s = kPermissionDenied" "rt' = rt"
    using assms(2) by (auto simp: ReceiveEntry_def Library_FindEntry_def)
qed

theorem receive_entry_outcome_witness:
  "let e = SharedLibraryEntry_init\<lparr>entry_entry_id := ''e'', entry_source_path := ''d/f'', entry_display_name := ''g''\<rparr>;
       rt = SystemRuntime_new (UpsertSharedLibraryEntry e MetadataStore_init) None sample_fs 9 9
   in \<exists>s rt' t. ReceiveEntry ''e'' ''n'' ''d'' rt = (Inr s, rt') \<and> status_ok s \<and>
      entry_at (rt_fs rt') ''d/g'' = Some (RegularFile [1, 2, 3] t)"
proof -
  let ?e = "SharedLibraryEntry_init\<lparr>entry_entry_id := ''e'', entry_source_path := ''d/f'', entry_display_name := ''g''\<rparr>"
  let ?rt = "SystemRuntime_new (UpsertSharedLibraryEntry ?e MetadataStore_init) None sample_fs 9 9"
  have inv: "system_inv (rt_store ?rt)"
    by (simp add: SystemRuntime_new_def entry_ok_def SharedLibraryEntry_init_def)
  have get: "GetSharedLibraryEntry (rt_store ?rt) ''e'' = Some ?e"
    by (simp add: SystemRuntime_new_def GetSharedLibraryEntry_def UpsertSharedLibraryEntry_def
        MetadataStore_init_def SharedLibraryEntry_init_def)
  have fields: "\<not> entry_expired ?e" "entry_source_path ?e = ''d/f''" "entry_display_name ?e = ''g''"
    by (simp_all add: SharedLibraryEntry_init_def)
  obtain ts rt1 where create: "CreateReceiveTask ''e'' ''n'' ?rt = (ts, rt1)" by (cases "CreateReceiveTask ''e'' ''n'' ?rt")
  then have ts: "status_ok ts"
    using get fields by (auto simp: CreateReceiveTask_def FindRecipientIndex_def SharedLibraryEntry_init_def
        ScheduleTask_def on_store_def Let_def)
  obtain e1 where e1: "GetSharedLibraryEntry (rt_store rt1) ''e'' = Some e1" "entry_source_path e1 = ''d/f''"
      "entry_display_name e1 = ''g''" and fs1: "rt_fs rt1 = sample_fs"
    using CreateReceiveTask_keeps [OF system_inv_store [OF inv] get create] fields by (auto simp: SystemRuntime_new_def)
  have inv1: "system_inv (rt_store rt1)" using CreateReceiveTask_inv [OF inv, of "''e''" "''n''"] create by simp
  obtain fs where copy: "copy_file ''d/f'' ''d/g'' sample_fs = Inr fs" and read: "open_read fs ''d/g'' = Some [1, 2, 3]"
    using sample_copy by blast
  have dirs: "create_directories ''d'' sample_fs = Inr sample_fs"
    using sample_dirs_g by (simp add: path_eval)
  have target: "path_append ''d'' ''g'' = ''d/g''" by (simp add: path_append_def is_absolute_def)
  have "fst (receive_copied e1 ''e'' ''n'' ''d/g'' ts (rt1\<lparr>rt_fs := fs\<rparr>)) = Inr Status_Ok"
    by (rule receive_copied_accepts [of _ _ "[1, 2, 3]"]) (simp_all add: read inv1 e1)
  then have "fst (ReceiveEntry ''e'' ''n'' ''d'' ?rt) = Inr Status_Ok"
    using get fields e1 fs1 ts copy dirs target
    by (simp add: ReceiveEntry_def Library_FindEntry_def create fs_exists_def is_regular_file_def Let_def)
  then obtain rt' where run: "ReceiveEntry ''e'' ''n'' ''d'' ?rt = (Inr Status_Ok, rt')"
    by (cases "ReceiveEntry ''e'' ''n'' ''d'' ?rt") auto
  then show ?thesis
    using receive_entry_outcome [OF inv run] get fields target by (auto simp: SystemRuntime_new_def Let_def)
qed

text \<open>The rows after a clean-up.\<close>

definition cleaned :: "u64 \<Rightarrow> SharedLibraryEntry \<Rightarrow> SharedLibraryEntry" where
  "cleaned now_epoch e = (if is_expired_at now_epoch e then e\<lparr>entry_expired := True, entry_delivered := True\<rparr> else e)"

lemma cleanup_entries_spec:
  assumes "store_inv (rt_store rt)" and "distinct (map entry_entry_id es)"
    and "\<And>e. e \<in> set es \<Longrightarrow> GetSharedLibraryEntry (rt_store rt) (entry_entry_id e) = Some e"
    and "cleanup_entries now_epoch es removed rt = (n, rt')"
  shows "n = removed + length (filter (is_expired_at now_epoch) es) \<and> store_inv (rt_store rt') \<and>
    GetSharedLibraryEntry (rt_store rt') k =
      (if k \<in> entry_entry_id ` set es then map_option (cleaned now_epoch) (GetSharedLibraryEntry (rt_store rt) k)
       else GetSharedLibraryEntry (rt_store rt) k) \<and>
    map entry_entry_id (ListSharedLibraryEntries (rt_store rt')) =
      map entry_entry_id (ListSharedLibraryEntries (rt_store rt))"
  using assms
proof (induction es arbitrary: removed rt)
  case (Cons e es)
  have e: "GetSharedLibraryEntry (rt_store rt) (entry_entry_id e) = Some e" using Cons.prems(3) by simp
  show ?case
  proof (cases "is_expired_at now_epoch e")
    case False
    have "n = removed + length (filter (is_expired_at now_epoch) es) \<and> store_inv (rt_store rt') \<and>
      GetSharedLibraryEntry (rt_store rt') k =
        (if k \<in> entry_entry_id ` set es then map_option (cleaned now_epoch) (GetSharedLibraryEntry (rt_store rt) k)
         else GetSharedLibraryEntry (rt_store rt) k) \<and>
      map entry_entry_id (ListSharedLibraryEntries (rt_store rt')) =
        map entry_entry_id (ListSharedLibraryEntries (rt_store rt))"
      using Cons.IH [OF Cons.prems(1), of removed] Cons.prems(2-4) False by simp
    then show ?thesis using e False by (auto simp: cleaned_def)
  next
    case True
    let ?e = "e\<lparr>entry_expired := True, entry_delivered := True\<rparr>"
    let ?rt = "write_store (UpsertSharedLibraryEntry ?e) (rt\<lparr>rt_fs := remove_file (entry_source_path e) (rt_fs rt)\<rparr>)"
    have get: "GetSharedLibraryEntry (rt_store ?rt) j =
        (if j = entry_entry_id e then Some ?e else GetSharedLibraryEntry (rt_store rt) j)" for j
      using shared_library_entries_table.get_upsert [OF Cons.prems(1), of ?e j] by simp
    have ids: "map entry_entry_id (ListSharedLibraryEntries (rt_store ?rt)) =
        map entry_entry_id (ListSharedLibraryEntries (rt_store rt))"
    proof -
      have "e \<in> set (db_shared_library_entries (rt_store rt))"
        using shared_library_entries_table.get_rows [OF Cons.prems(1)] e
        by (simp add: ListSharedLibraryEntries_def)
      then have "entry_entry_id ?e \<in> entry_entry_id ` set (db_shared_library_entries (rt_store rt))" by simp
      then show ?thesis
        using keys_upsert_by [of entry_entry_id ?e "db_shared_library_entries (rt_store rt)"]
        by (simp add: ListSharedLibraryEntries_def UpsertSharedLibraryEntry_def)
    qed
    have run: "cleanup_entries now_epoch es (removed + 1) ?rt = (n, rt')"
      using Cons.prems(4) True by (simp add: Let_def)
    have others: "GetSharedLibraryEntry (rt_store ?rt) (entry_entry_id x) = Some x" if "x \<in> set es" for x
    proof -
      have "entry_entry_id x \<noteq> entry_entry_id e" using that Cons.prems(2) by (auto simp: image_iff)
      then show ?thesis using that Cons.prems(3) unfolding get by simp
    qed
    have inv: "store_inv (rt_store ?rt)" using Cons.prems(1) by (simp add: store_inv_upsert)
    have ih: "n = removed + 1 + length (filter (is_expired_at now_epoch) es) \<and> store_inv (rt_store rt') \<and>
      GetSharedLibraryEntry (rt_store rt') k =
        (if k \<in> entry_entry_id ` set es then map_option (cleaned now_epoch) (GetSharedLibraryEntry (rt_store ?rt) k)
         else GetSharedLibraryEntry (rt_store ?rt) k) \<and>
      map entry_entry_id (ListSharedLibraryEntries (rt_store rt')) =
        map entry_entry_id (ListSharedLibraryEntries (rt_store ?rt))"
      by (rule Cons.IH [OF inv _ others run]) (use Cons.prems(2) in simp)
    have "entry_entry_id e \<notin> entry_entry_id ` set es" using Cons.prems(2) by simp
    then show ?thesis
      using ih e True unfolding get ids by (auto simp: cleaned_def)
  qed
qed auto



end
