(* ===== verification/Control_Service.thy ===== *)
theory Control_Service
  imports Shared_Library
begin

text \<open>
  \<^verbatim>\<open>src/control_plane/control_plane_service.cpp\<close>: the facade of the control plane. It refreshes the overlay
  from the device registry, counts what the services hold into one summary, and forwards listings and
  retries. \<^verbatim>\<open>src/control_plane/system_runtime.cpp\<close> only builds the services around one store, which the
  record \<open>SystemRuntime\<close> already is.
\<close>

record ControlPlaneSummary =
  sum_devices :: nat
  sum_online_devices :: nat
  sum_peers :: nat
  sum_online_peers :: nat
  sum_backup_policies :: nat
  sum_transfer_policies :: nat
  sum_scheduled_tasks :: nat
  sum_queued_tasks :: nat
  sum_failed_tasks :: nat
  sum_backup_jobs :: nat
  sum_restore_requests :: nat
  sum_running_restore_requests :: nat
  sum_failed_restore_requests :: nat
  sum_shared_entries :: nat
  sum_active_shared_entries :: nat
  sum_pending_shared_deliveries :: nat
  sum_indexed_files :: nat
  sum_device_files :: nat
  sum_stored_objects :: nat
  sum_backup_records :: nat
  sum_audit_events :: nat

definition RefreshNetworkView :: "u64 \<Rightarrow> u64 \<Rightarrow> SystemRuntime \<Rightarrow> SystemRuntime" where
  "RefreshNetworkView now_epoch offline_after_seconds rt =
     rt\<lparr>rt_peers := RefreshPeersFromDevices (ListDevices (rt_store rt)) now_epoch offline_after_seconds
       (rt_peers rt)\<rparr>"

text \<open>The two counting loops.\<close>

fun count_restores :: "RestoreRequest list \<Rightarrow> nat \<times> nat \<Rightarrow> nat \<times> nat" where
  "count_restores [] counts = counts"
| "count_restores (request # requests) (running, failed) =
     count_restores requests
       (if restore_state request = RestoreRunning then (running + 1, failed)
        else if restore_state request = RestoreFailed then (running, failed + 1)
        else (running, failed))"

fun count_pending :: "SharedLibraryRecipient list \<Rightarrow> nat \<Rightarrow> nat" where
  "count_pending [] n = n"
| "count_pending (recipient # recipients) n =
     count_pending recipients
       (if recip_state recipient = RecipientPending \<or> recip_state recipient = RecipientFailed then n + 1 else n)"

fun count_pending_entries :: "SharedLibraryEntry list \<Rightarrow> nat \<Rightarrow> nat" where
  "count_pending_entries [] n = n"
| "count_pending_entries (entry # entries) n =
     count_pending_entries entries (count_pending (entry_recipients entry) n)"

fun count_stored :: "MetadataStore \<Rightarrow> FileRecord list \<Rightarrow> nat \<Rightarrow> nat" where
  "count_stored db [] n = n"
| "count_stored db (f # files) n =
     count_stored db files (if FindStoredObject db (file_file_id f) \<noteq> None then n + 1 else n)"

definition BuildSummary :: "u64 \<Rightarrow> u64 \<Rightarrow> SystemRuntime \<Rightarrow> ControlPlaneSummary \<times> SystemRuntime" where
  "BuildSummary now_epoch offline_after_seconds rt =
     (let rt = RefreshNetworkView now_epoch offline_after_seconds rt;
          db = rt_store rt;
          (running, failed) = count_restores (Recovery_ListRestoreRequests rt) (0, 0)
      in (\<lparr>sum_devices = length (ListDevices db),
           sum_online_devices = length (ListOnlineDevices db now_epoch offline_after_seconds),
           sum_peers = length (ListPeers (rt_peers rt)),
           sum_online_peers = length (ListOnlinePeers (rt_peers rt)),
           sum_backup_policies = length (ListBackupPolicies db),
           sum_transfer_policies = length (ListTransferPolicies db),
           sum_scheduled_tasks = length (ListTasks db),
           sum_queued_tasks = length (ListTasksByState db JobQueued),
           sum_failed_tasks = length (ListRetryableTasks db),
           sum_backup_jobs = length (ListJobs rt),
           sum_restore_requests = length (Recovery_ListRestoreRequests rt),
           sum_running_restore_requests = running,
           sum_failed_restore_requests = failed,
           sum_shared_entries = length (ListEntries rt),
           sum_active_shared_entries = length (ListActiveEntries rt),
           sum_pending_shared_deliveries = count_pending_entries (ListEntries rt) 0,
           sum_indexed_files = length (Index_ListIndexedFiles db),
           sum_device_files = length (Index_ListDeviceFiles db),
           sum_stored_objects = count_stored db (Index_ListIndexedFiles db) 0,
           sum_backup_records = length (Index_ListBackupRecords db),
           sum_audit_events = length (Audit_ListEvents rt)\<rparr>, rt))"

definition Control_ListDevices :: "bool \<Rightarrow> u64 \<Rightarrow> u64 \<Rightarrow> SystemRuntime \<Rightarrow> NodeInfo list" where
  "Control_ListDevices online_only now_epoch offline_after_seconds rt =
     (if online_only then ListOnlineDevices (rt_store rt) now_epoch offline_after_seconds
      else ListDevices (rt_store rt))"

definition Control_ListTasks :: "JobState option \<Rightarrow> SystemRuntime \<Rightarrow> ScheduledTaskRecord list" where
  "Control_ListTasks state rt =
     (case state of Some st \<Rightarrow> ListTasksByState (rt_store rt) st | None \<Rightarrow> ListTasks (rt_store rt))"

definition ListSharedEntries :: "string \<Rightarrow> string \<Rightarrow> SystemRuntime \<Rightarrow> SharedLibraryEntry list" where
  "ListSharedEntries node_id scope rt =
     (if scope = ''active'' then filter (\<lambda>entry. \<not> entry_expired entry) (ListEntriesForNode rt node_id)
      else if scope = ''pending'' then ListPendingEntriesForNode rt node_id
      else if scope = ''all'' then ListEntriesForNode rt node_id
      else [])"

definition Control_ListBackupJobs :: "string option \<Rightarrow> SystemRuntime \<Rightarrow> BackupJob list" where
  "Control_ListBackupJobs node_id rt =
     (case node_id of Some n \<Rightarrow> ListJobsForNode rt n | None \<Rightarrow> ListJobs rt)"

definition Control_ListRestoreRequests :: "SystemRuntime \<Rightarrow> RestoreRequest list" where
  "Control_ListRestoreRequests rt = Recovery_ListRestoreRequests rt"

definition Control_ListAuditEvents :: "string option \<Rightarrow> SystemRuntime \<Rightarrow> AuditEvent list" where
  "Control_ListAuditEvents category rt =
     (case category of Some c \<Rightarrow> Audit_ListEventsByCategory rt c | None \<Rightarrow> Audit_ListEvents rt)"

definition Control_RetryTask :: "string \<Rightarrow> string \<Rightarrow> SystemRuntime \<Rightarrow> Status \<times> SystemRuntime" where
  "Control_RetryTask task_id detail rt = on_store (RetryTask task_id detail) rt"

definition Control_RetryRestore :: "FdfsApi \<Rightarrow> string \<Rightarrow> SystemRuntime \<Rightarrow> Status \<times> SystemRuntime" where
  "Control_RetryRestore api request_id rt = RetryRestore api request_id rt"

definition RetrySharedReceive :: "string \<Rightarrow> string \<Rightarrow> path \<Rightarrow> SystemRuntime \<Rightarrow> Status result \<times> SystemRuntime" where
  "RetrySharedReceive entry_id target_node_id receive_root rt =
     RetryReceive entry_id target_node_id receive_root rt"

section \<open>What the counts are\<close>

lemma count_restores_filter:
  "count_restores rs (a, b) =
     (a + length (filter (\<lambda>r. restore_state r = RestoreRunning) rs),
      b + length (filter (\<lambda>r. restore_state r = RestoreFailed) rs))"
  by (induction rs arbitrary: a b) auto

lemma count_pending_filter:
  "count_pending rs n =
     n + length (filter (\<lambda>r. recip_state r = RecipientPending \<or> recip_state r = RecipientFailed) rs)"
  by (induction rs arbitrary: n) auto

lemma count_pending_entries_filter:
  "count_pending_entries es n =
     n + length (filter (\<lambda>r. recip_state r = RecipientPending \<or> recip_state r = RecipientFailed)
           (concat (map entry_recipients es)))"
  by (induction es arbitrary: n) (auto simp: count_pending_filter)

lemma count_stored_filter:
  "count_stored db fs n = n + length (filter (\<lambda>f. GetStoredObject db (file_file_id f) \<noteq> None) fs)"
  by (induction fs arbitrary: n) (auto simp: FindStoredObject_def)

lemma length_partition:
  "(\<And>x. x \<in> set xs \<Longrightarrow> P x \<noteq> Q x) \<Longrightarrow> length (filter P xs) + length (filter Q xs) = length xs"
  by (induction xs) auto

text \<open>Without foreign peers the overlay holds one peer per device.\<close>

lemma refresh_online:
  assumes "distinct (map node_node_id ds)"
  shows "RefreshPeersFromDevices ds now off [] = map (peer_of_device now off) ds"
proof -
  have "RefreshPeersFromDevices ds now off ps = ps @ map (peer_of_device now off) ds"
    if "peer_node_id ` set ps \<inter> node_node_id ` set ds = {}" for ps
    using that assms
  proof (induction ds arbitrary: ps)
    case (Cons d ds)
    have "upsert_by (\<lambda>c. peer_node_id c = node_node_id d) x ps = ps @ [x]" for x
      using Cons.prems(1) by (induction ps) auto
    then have "snd (UpsertPeer (peer_of_device now off d) ps) = ps @ [peer_of_device now off d]"
      by (simp add: UpsertPeer_def peer_of_device_def)
    moreover have "peer_node_id ` set (ps @ [peer_of_device now off d]) \<inter> node_node_id ` set ds = {}"
      using Cons.prems by (auto simp: peer_of_device_def)
    ultimately show ?case using Cons.IH Cons.prems(2) by (simp add: split_beta Let_def)
  qed simp
  from this [of "[]"] show ?thesis by simp
qed

lemma summary_online:
  assumes "store_inv (rt_store rt)" and "rt_peers rt = []"
  shows "sum_online_peers (fst (BuildSummary now off rt)) = sum_online_devices (fst (BuildSummary now off rt))"
    and "sum_peers (fst (BuildSummary now off rt)) = sum_devices (fst (BuildSummary now off rt))"
proof -
  have "rt_peers (RefreshNetworkView now off rt) = map (peer_of_device now off) (ListDevices (rt_store rt))"
    using refresh_online [of "ListDevices (rt_store rt)" now off] node_table.distinct_rows [OF assms(1)] assms(2)
    by (simp add: RefreshNetworkView_def ListDevices_def)
  moreover have "filter peer_online (map (peer_of_device now off) ds) =
      map (peer_of_device now off) (filter (\<lambda>node. node_last_seen_epoch node \<noteq> 0 \<and> now \<ge> node_last_seen_epoch node \<and>
        now - node_last_seen_epoch node \<le> off) ds)" for ds
    by (simp add: filter_map comp_def peer_of_device_def)
  ultimately show "sum_online_peers (fst (BuildSummary now off rt)) = sum_online_devices (fst (BuildSummary now off rt))"
    and "sum_peers (fst (BuildSummary now off rt)) = sum_devices (fst (BuildSummary now off rt))"
    by (simp_all add: BuildSummary_def Let_def split_beta ListOnlinePeers_def ListOnlineDevices_def ListPeers_def
        RefreshNetworkView_def ListDevices_def)
qed

end
