(* ===== verification/Control_Server.thy ===== *)
theory Control_Server
  imports Control_Service
begin

text \<open>
  The server half of \<^verbatim>\<open>src/control_plane/control_node_server.cpp\<close>: reading one line per connection,
  splitting it into a command and arguments, executing the command on the runtime and answering with
  text. A handler can raise: \<open>std::stoull\<close> on an argument that is no number. Nothing on the way to
  \<^verbatim>\<open>main\<close> catches it.
\<close>

section \<open>Text\<close>

definition TrimCarriageReturn :: "string \<Rightarrow> string" where
  "TrimCarriageReturn t = (if t \<noteq> [] \<and> last t = CHR 0x0D then butlast t else t)"

definition JoinArgs :: "string list \<Rightarrow> nat \<Rightarrow> string" where
  "JoinArgs args start_index = join_with '' '' (drop start_index args)"

fun JobDomainName :: "JobDomain \<Rightarrow> string" where
  "JobDomainName DomainBackup = ''backup''"
| "JobDomainName DomainTransfer = ''transfer''"
| "JobDomainName DomainRestore = ''restore''"

fun JobStateName :: "JobState \<Rightarrow> string" where
  "JobStateName JobQueued = ''queued''"
| "JobStateName JobRunning = ''running''"
| "JobStateName JobCompleted = ''completed''"
| "JobStateName JobFailed = ''failed''"

fun RestoreStateName :: "RestoreRequestState \<Rightarrow> string" where
  "RestoreStateName RestoreQueued = ''queued''"
| "RestoreStateName RestoreRunning = ''running''"
| "RestoreStateName RestoreCompleted = ''completed''"
| "RestoreStateName RestoreFailed = ''failed''"

definition ParseRestoreState :: "string \<Rightarrow> RestoreRequestState" where
  "ParseRestoreState t =
     (if t = ''running'' then RestoreRunning
      else if t = ''completed'' then RestoreCompleted
      else if t = ''failed'' then RestoreFailed
      else RestoreQueued)"

definition ParseSharedRecipientState :: "string \<Rightarrow> SharedRecipientState" where
  "ParseSharedRecipientState t =
     (if t = ''delivered'' then RecipientDelivered
      else if t = ''failed'' then RecipientFailed
      else RecipientPending)"

definition tab :: char where "tab = CHR 0x09"

definition SplitByTab :: "string \<Rightarrow> string list" where
  "SplitByTab line = getlines tab line"

section \<open>Commands\<close>

record ParsedRequest =
  req_command :: string
  req_args :: "string list"

definition ParseRequest :: "string \<Rightarrow> ParsedRequest" where
  "ParseRequest line =
     (case tokens line of
        [] \<Rightarrow> \<lparr>req_command = [], req_args = []\<rparr>
      | c # args \<Rightarrow> \<lparr>req_command = c, req_args = args\<rparr>)"

text \<open>\<open>status.ok() ? text : "ERR " + status.message\<close>\<close>

definition answer :: "Status \<Rightarrow> string \<Rightarrow> string" where
  "answer status t = (if status_ok status then t else ''ERR '' @ status_message status)"

definition HandleRegister :: "string list \<Rightarrow> SystemRuntime \<Rightarrow> string result \<times> SystemRuntime" where
  "HandleRegister args rt =
     (if length args < 4 then (Inr ''ERR register requires node_id device_name zt_ip epoch'', rt)
      else case stoull (args ! 3) of
        Inl e \<Rightarrow> (Inl e, rt)
      | Inr epoch \<Rightarrow>
          let node = \<lparr>node_node_id = args ! 0, node_device_name = args ! 1, node_zt_ip = args ! 2,
                node_last_seen_epoch = epoch\<rparr>;
              (status, rt) = on_store (RegisterDevice node) rt
          in (Inr (answer status ''OK REGISTERED''), rt))"

definition HandleHeartbeat :: "string list \<Rightarrow> SystemRuntime \<Rightarrow> string result \<times> SystemRuntime" where
  "HandleHeartbeat args rt =
     (if length args < 2 then (Inr ''ERR heartbeat requires node_id epoch'', rt)
      else case stoull (args ! 1) of
        Inl e \<Rightarrow> (Inl e, rt)
      | Inr epoch \<Rightarrow>
          let (status, rt) = on_store (RecordHeartbeat (args ! 0) epoch) rt
          in (Inr (answer status ''OK HEARTBEAT''), rt))"

definition HandleSummary :: "u64 \<Rightarrow> SystemRuntime \<Rightarrow> string \<times> SystemRuntime" where
  "HandleSummary offline_after_seconds rt =
     (let (summary, rt') = BuildSummary (rt_now rt) offline_after_seconds rt
      in (''OK SUMMARY '' @
          ''devices='' @ to_string (sum_devices summary) @ '' '' @
          ''online_devices='' @ to_string (sum_online_devices summary) @ '' '' @
          ''queued_tasks='' @ to_string (sum_queued_tasks summary) @ '' '' @
          ''failed_tasks='' @ to_string (sum_failed_tasks summary) @ '' '' @
          ''shared_entries='' @ to_string (sum_shared_entries summary) @ '' '' @
          ''restore_requests='' @ to_string (sum_restore_requests summary) @ '' '' @
          ''audit_events='' @ to_string (sum_audit_events summary), rt'))"

definition blank_controls :: "string \<Rightarrow> string" where
  "blank_controls detail =
     map (\<lambda>ch. if ch = tab \<or> ch = CHR 0x0A \<or> ch = CHR 0x0D then CHR '' '' else ch) detail"

definition task_line :: "ScheduledTaskRecord \<Rightarrow> string" where
  "task_line task =
     ''TASK'' @ [tab] @ task_task_id task @ [tab] @ JobDomainName (task_domain task) @ [tab] @
     JobStateName (task_state task) @ [tab] @ task_related_id task @ [tab] @ task_source_node task @ [tab] @
     task_target_node task @ [tab] @ to_string_u64 (task_created_at_epoch task) @ [tab] @
     to_string (unat (task_retry_count task)) @ [tab] @ blank_controls (task_detail task)"

definition HandlePullTasks :: "string list \<Rightarrow> SystemRuntime \<Rightarrow> string" where
  "HandlePullTasks args rt =
     (if args = [] then ''ERR pull_tasks requires node_id''
      else
        let queued = filter (\<lambda>task. task_state task = JobQueued) (ListTasksForNode (rt_store rt) (args ! 0))
        in ''OK TASKS '' @ to_string (length queued) @
           concat (map (\<lambda>task. newline # task_line task) queued) @ newline # ''END'')"

definition HandleSubmitBackup :: "string list \<Rightarrow> SystemRuntime \<Rightarrow> string \<times> SystemRuntime" where
  "HandleSubmitBackup args rt =
     (if length args < 3 then (''ERR submit_backup requires job_id node_id source_path'', rt)
      else
        let node = \<lparr>node_node_id = args ! 1, node_device_name = args ! 1, node_zt_ip = ''pending'',
              node_last_seen_epoch = rt_now rt\<rparr>;
            (_, rt) = on_store (RegisterDevice node) rt;
            policy = BackupPolicy_init\<lparr>bpolicy_policy_id := ''remote-policy-'' @ args ! 1,
              bpolicy_node_id := args ! 1, bpolicy_source_path := JoinArgs args 2,
              bpolicy_schedule_expression := ''remote-submit'', bpolicy_created_at_epoch := rt_now rt\<rparr>;
            (_, rt) = Backup_ConfigurePolicy policy rt;
            job = \<lparr>job_job_id = args ! 0, job_node_id = args ! 1, job_source_path = JoinArgs args 2,
              job_destination_label = ''remote-submitted'', job_created_at_epoch = rt_now rt\<rparr>;
            (status, rt) = StartBackup job rt
        in (answer status ''OK BACKUP_SUBMITTED'', rt))"

definition HandleSubmitRestore :: "string list \<Rightarrow> SystemRuntime \<Rightarrow> string \<times> SystemRuntime" where
  "HandleSubmitRestore args rt =
     (if length args < 5 then
        (''ERR submit_restore requires request_id file_id source_node target_node destination_path'', rt)
      else
        let restore = RestoreRequest_init\<lparr>restore_request_id := args ! 0, restore_file_id := args ! 1,
              restore_source_node_id := args ! 2, restore_target_node_id := args ! 3,
              restore_destination_path := JoinArgs args 4, restore_created_at_epoch := rt_now rt\<rparr>;
            (status, rt) = SubmitRestore restore rt
        in (answer status ''OK RESTORE_SUBMITTED'', rt))"

definition HandleSubmitShareReceive :: "string list \<Rightarrow> SystemRuntime \<Rightarrow> string \<times> SystemRuntime" where
  "HandleSubmitShareReceive args rt =
     (if length args < 2 then (''ERR submit_share_receive requires entry_id target_node_id'', rt)
      else
        let (status, rt) = CreateReceiveTask (args ! 0) (args ! 1) rt
        in (answer status ''OK SHARE_SUBMITTED'', rt))"

definition HandleAckTask :: "string list \<Rightarrow> SystemRuntime \<Rightarrow> string \<times> SystemRuntime" where
  "HandleAckTask args rt =
     (if args = [] then (''ERR ack_task requires task_id'', rt)
      else
        let detail = (if length args \<ge> 2 then JoinArgs args 1 else ''task acknowledged by agent'');
            (status, rt) = on_store (UpdateTaskState (args ! 0) JobRunning detail) rt
        in (answer status ''OK ACKED'', rt))"

definition HandleRetryTask :: "string list \<Rightarrow> SystemRuntime \<Rightarrow> string \<times> SystemRuntime" where
  "HandleRetryTask args rt =
     (if args = [] then (''ERR retry_task requires task_id'', rt)
      else
        let detail = (if length args \<ge> 2 then JoinArgs args 1 else ''task requeued via control service'');
            (status, rt) = on_store (RetryTask (args ! 0) detail) rt
        in (answer status ''OK TASK_RETRIED'', rt))"

definition HandleRetryRestore :: "FdfsApi \<Rightarrow> string list \<Rightarrow> SystemRuntime \<Rightarrow> string \<times> SystemRuntime" where
  "HandleRetryRestore api args rt =
     (if args = [] then (''ERR retry_restore requires request_id'', rt)
      else
        let (status, rt) = RetryRestore api (args ! 0) rt
        in (answer status ''OK RESTORE_RETRIED'', rt))"

definition HandleRetryShare :: "string list \<Rightarrow> SystemRuntime \<Rightarrow> string \<times> SystemRuntime" where
  "HandleRetryShare args rt =
     (if length args < 2 then (''ERR retry_share requires entry_id target_node_id'', rt)
      else case Library_FindEntry rt (args ! 0) of
        None \<Rightarrow> (''ERR shared entry not found'', rt)
      | Some entry \<Rightarrow>
          let (status, rt) = CreateReceiveTask (entry_entry_id entry) (args ! 1) rt
          in (answer status ''OK SHARE_RETRIED'', rt))"

text \<open>What \<^verbatim>\<open>REPORT_TASK\<close> does to the restore request of a restore task.\<close>

definition reported_state :: "string \<Rightarrow> JobState" where
  "reported_state t =
     (if t = ''running'' then JobRunning
      else if t = ''completed'' then JobCompleted
      else if t = ''queued'' then JobQueued
      else JobFailed)"

definition report_restore :: "JobState \<Rightarrow> string \<Rightarrow> string \<Rightarrow> SystemRuntime \<Rightarrow> SystemRuntime" where
  "report_restore state detail request_id rt =
     (case GetRestoreRequest (rt_store rt) request_id of
        None \<Rightarrow> rt
      | Some restore \<Rightarrow>
          let restore = restore\<lparr>
                restore_state := (if state = JobCompleted then RestoreCompleted
                  else if state = JobRunning then RestoreRunning else RestoreFailed),
                restore_completed_at_epoch :=
                  (if state = JobCompleted \<or> state = JobFailed then rt_now rt else 0),
                restore_error_message := (if state = JobFailed then detail else [])\<rparr>
          in write_store (UpsertRestoreRequest restore) rt)"

text \<open>
  What it does to the entry of a transfer task: the row of the target node is rewritten, or one is
  appended, and the entry is delivered when all its rows are.
\<close>

definition reported_recipient ::
  "u64 \<Rightarrow> JobState \<Rightarrow> string \<Rightarrow> SharedLibraryRecipient \<Rightarrow> SharedLibraryRecipient" where
  "reported_recipient now state detail recipient =
     (let recipient = recipient\<lparr>
            recip_state := (if state = JobCompleted then RecipientDelivered
              else if state = JobRunning then RecipientPending else RecipientFailed),
            recip_updated_at_epoch := now\<rparr>
      in if state = JobCompleted then
           recipient\<lparr>recip_received_path := detail, recip_error_message := []\<rparr>
         else if state = JobFailed then recipient\<lparr>recip_error_message := detail\<rparr>
         else recipient)"

definition appended_recipient ::
  "u64 \<Rightarrow> JobState \<Rightarrow> string \<Rightarrow> string \<Rightarrow> string \<Rightarrow> SharedLibraryRecipient" where
  "appended_recipient now state detail entry_id node_id =
     (let recipient = SharedLibraryRecipient_init\<lparr>
            recip_entry_id := entry_id, recip_node_id := node_id,
            recip_state := ParseSharedRecipientState
              (if state = JobCompleted then ''delivered'' else if state = JobFailed then ''failed'' else ''pending''),
            recip_updated_at_epoch := now\<rparr>
      in if state = JobCompleted then recipient\<lparr>recip_received_path := detail\<rparr>
         else if state = JobFailed then recipient\<lparr>recip_error_message := detail\<rparr>
         else recipient)"

definition report_transfer ::
  "JobState \<Rightarrow> string \<Rightarrow> string \<Rightarrow> string \<Rightarrow> SystemRuntime \<Rightarrow> SystemRuntime" where
  "report_transfer state detail entry_id target_node rt =
     (case GetSharedLibraryEntry (rt_store rt) entry_id of
        None \<Rightarrow> rt
      | Some entry \<Rightarrow>
          let entry =
                (case update_first (\<lambda>r. recip_node_id r = target_node) (reported_recipient (rt_now rt) state detail)
                        (entry_recipients entry) of
                   Some recipients \<Rightarrow> entry\<lparr>entry_recipients := recipients\<rparr>
                 | None \<Rightarrow> entry\<lparr>entry_recipients := entry_recipients entry @
                     [appended_recipient (rt_now rt) state detail (entry_entry_id entry) target_node]\<rparr>);
              entry = entry\<lparr>entry_delivered :=
                list_all (\<lambda>r. recip_state r = RecipientDelivered) (entry_recipients entry)\<rparr>
          in write_store (UpsertSharedLibraryEntry entry) rt)"

definition HandleReportTask :: "string list \<Rightarrow> SystemRuntime \<Rightarrow> string \<times> SystemRuntime" where
  "HandleReportTask args rt =
     (if length args < 2 then (''ERR report_task requires task_id state [detail]'', rt)
      else
        let state = reported_state (args ! 1);
            detail = (if length args \<ge> 3 then JoinArgs args 2 else ''task result reported'');
            existing_task = FindTask (rt_store rt) (args ! 0);
            (status, rt) = on_store (UpdateTaskState (args ! 0) state detail) rt
        in if \<not> status_ok status then (''ERR '' @ status_message status, rt)
           else
             (''OK REPORTED'',
              case existing_task of
                None \<Rightarrow> rt
              | Some task \<Rightarrow>
                  if task_domain task = DomainRestore then report_restore state detail (task_task_id task) rt
                  else if task_domain task = DomainTransfer then
                    report_transfer state detail (task_related_id task) (task_target_node task) rt
                  else rt))"

definition HandleGetRestore :: "string list \<Rightarrow> SystemRuntime \<Rightarrow> string" where
  "HandleGetRestore args rt =
     (if args = [] then ''ERR get_restore requires request_id''
      else case FindRestoreRequest rt (args ! 0) of
        None \<Rightarrow> ''ERR restore request not found''
      | Some restore \<Rightarrow>
          (case FindStoredObject (rt_store rt) (restore_file_id restore) of
             None \<Rightarrow> ''ERR stored object not found''
           | Some stored \<Rightarrow>
               (case Index_FindFile (rt_store rt) (restore_file_id restore) of
                  None \<Rightarrow> ''ERR file metadata not found''
                | Some f \<Rightarrow> join_with [tab]
                    [''OK RESTORE'', restore_request_id restore, restore_file_id restore,
                     restore_source_node_id restore, restore_target_node_id restore,
                     restore_destination_path restore, RestoreStateName (restore_state restore),
                     to_string_u64 (restore_completed_at_epoch restore), restore_error_message restore,
                     stored_backend_name stored, stored_storage_key stored, stored_access_url stored,
                     stored_source_path stored, to_string_u64 (stored_stored_at_epoch stored),
                     file_relative_path f, file_absolute_path f, to_string_u64 (file_size f),
                     to_string_u64 (file_modified_time_epoch f), to_string (unat (file_mode f)),
                     file_root_hash f])))"

definition HandleGetSharedEntry :: "string list \<Rightarrow> SystemRuntime \<Rightarrow> string" where
  "HandleGetSharedEntry args rt =
     (if args = [] then ''ERR get_shared_entry requires entry_id''
      else case Library_FindEntry rt (args ! 0) of
        None \<Rightarrow> ''ERR shared entry not found''
      | Some entry \<Rightarrow> join_with [tab]
          [''OK SHARED'', entry_entry_id entry, entry_owner_node_id entry, entry_source_path entry,
           entry_file_id entry, entry_display_name entry, entry_note entry,
           to_string_u64 (entry_created_at_epoch entry), to_string_u64 (entry_expires_at_epoch entry),
           (if entry_expired entry then ''1'' else ''0'')])"

definition HandleCommand ::
  "FdfsApi \<Rightarrow> u64 \<Rightarrow> ParsedRequest \<Rightarrow> SystemRuntime \<Rightarrow> string result \<times> SystemRuntime" where
  "HandleCommand api offline_after_seconds request rt =
     (let command = req_command request; args = req_args request;
          reply = (\<lambda>(t, rt). (Inr t, rt))
      in if command = ''PING'' then (Inr ''OK PONG'', rt)
         else if command = ''REGISTER'' then HandleRegister args rt
         else if command = ''HEARTBEAT'' then HandleHeartbeat args rt
         else if command = ''SUMMARY'' then reply (HandleSummary offline_after_seconds rt)
         else if command = ''PULL_TASKS'' then (Inr (HandlePullTasks args rt), rt)
         else if command = ''SUBMIT_BACKUP'' then reply (HandleSubmitBackup args rt)
         else if command = ''SUBMIT_RESTORE'' then reply (HandleSubmitRestore args rt)
         else if command = ''SUBMIT_SHARE_RECEIVE'' then reply (HandleSubmitShareReceive args rt)
         else if command = ''ACK_TASK'' then reply (HandleAckTask args rt)
         else if command = ''RETRY_TASK'' then reply (HandleRetryTask args rt)
         else if command = ''RETRY_RESTORE'' then reply (HandleRetryRestore api args rt)
         else if command = ''RETRY_SHARE'' then reply (HandleRetryShare args rt)
         else if command = ''REPORT_TASK'' then reply (HandleReportTask args rt)
         else if command = ''GET_RESTORE'' then (Inr (HandleGetRestore args rt), rt)
         else if command = ''GET_SHARED_ENTRY'' then (Inr (HandleGetSharedEntry args rt), rt)
         else (Inr ''ERR unsupported command'', rt))"

section \<open>Connections\<close>

text \<open>
  What the system calls give for one client: the bytes \<open>recv\<close> delivers, whether it then reports the end
  of the stream or an error, and whether \<open>send\<close> succeeds. Splitting the answer over several \<open>send\<close>
  calls is not visible to the peer.
\<close>

record Connection =
  conn_received :: string
  conn_recv_ends :: bool
  conn_send_works :: bool

fun read_line :: "string \<Rightarrow> bool \<Rightarrow> string \<Rightarrow> string option" where
  "read_line [] recv_ends line = (if recv_ends then Some line else None)"
| "read_line (ch # rest) recv_ends line =
     (if ch = newline then Some line else read_line rest recv_ends (line @ [ch]))"

definition ReadLine :: "Connection \<Rightarrow> Status \<times> string" where
  "ReadLine conn =
     (case read_line (conn_received conn) (conn_recv_ends conn) [] of
        None \<Rightarrow> (Status_Error kInternalError ''socket recv failed'', [])
      | Some line \<Rightarrow> (Status_Ok, TrimCarriageReturn line))"

definition WriteLine :: "Connection \<Rightarrow> string \<Rightarrow> Status \<times> string" where
  "WriteLine conn line =
     (let payload = (if line = [] \<or> last line \<noteq> newline then line @ [newline] else line)
      in if conn_send_works conn then (Status_Ok, payload)
         else (Status_Error kInternalError ''socket send failed'', []))"

text \<open>One client: the status, or the exception of the handler, and the bytes sent.\<close>

definition HandleClient ::
  "FdfsApi \<Rightarrow> u64 \<Rightarrow> Connection \<Rightarrow> SystemRuntime \<Rightarrow> (Status \<times> string) result \<times> SystemRuntime" where
  "HandleClient api offline_after_seconds conn rt =
     (let (read_status, line) = ReadLine conn
      in if \<not> status_ok read_status then (Inr (read_status, []), rt)
         else case HandleCommand api offline_after_seconds (ParseRequest line) rt of
           (Inl e, rt) \<Rightarrow> (Inl e, rt)
         | (Inr response, rt) \<Rightarrow> (Inr (WriteLine conn response), rt))"

datatype accept_result = AcceptInterrupted | AcceptFailed string | Accepted Connection

text \<open>
  The accept loop over the results of \<open>accept\<close>; \<open>None\<close> when the loop is still waiting after the last
  of them. Between two clients the clock and the disk may change: \<open>env\<close>.
\<close>

fun ServeLoop_control ::
  "FdfsApi \<Rightarrow> u64 \<Rightarrow> (nat \<Rightarrow> SystemRuntime \<Rightarrow> SystemRuntime) \<Rightarrow> accept_result list \<Rightarrow> SystemRuntime \<Rightarrow>
   Status result option \<times> SystemRuntime"
where
  "ServeLoop_control api off env [] rt = (None, rt)"
| "ServeLoop_control api off env (AcceptInterrupted # rs) rt = ServeLoop_control api off env rs rt"
| "ServeLoop_control api off env (AcceptFailed reason # rs) rt =
     (Some (Inr (Status_Error kInternalError (''accept failed: '' @ reason))), rt)"
| "ServeLoop_control api off env (Accepted conn # rs) rt =
     (case HandleClient api off conn (env (length rs) rt) of
        (Inl e, rt) \<Rightarrow> (Some (Inl e), rt)
      | (Inr (status, sent), rt) \<Rightarrow>
          if \<not> status_ok status then (Some (Inr status), rt) else ServeLoop_control api off env rs rt)"

section \<open>The invariant of the control node\<close>

lemma map_update_first: "(\<And>r. k (f r) = k r) \<Longrightarrow> update_first P f rs = Some rs' \<Longrightarrow> map k rs' = map k rs"
  by (induction rs arbitrary: rs') (auto split: if_splits)

lemma set_update_first: "update_first P f rs = Some rs' \<Longrightarrow> r \<in> set rs' \<Longrightarrow> r \<in> set rs \<or> (\<exists>r0 \<in> set rs. r = f r0)"
  by (induction rs arbitrary: rs') (auto split: if_splits)

lemma reported_recipient_simps:
  "recip_node_id (reported_recipient now st d r) = recip_node_id r"
  "recip_state (reported_recipient now st d r) = RecipientDelivered \<longleftrightarrow> st = JobCompleted"
  "st = JobCompleted \<Longrightarrow> recip_error_message (reported_recipient now st d r) = []"
  by (simp_all add: reported_recipient_def Let_def)

lemma appended_recipient_simps:
  "recip_node_id (appended_recipient now st d k n) = n"
  "recip_state (appended_recipient now st d k n) = RecipientDelivered \<Longrightarrow>
     recip_error_message (appended_recipient now st d k n) = []"
  by (cases st; simp add: appended_recipient_def ParseSharedRecipientState_def SharedLibraryRecipient_init_def Let_def)+

lemma report_restore_inv [simp]:
  "system_inv (rt_store rt) \<Longrightarrow> system_inv (rt_store (report_restore st d k rt))"
  by (cases st) (simp_all add: report_restore_def Let_def request_ok_def split: option.splits)

lemma report_transfer_inv [simp]:
  assumes "system_inv (rt_store rt)"
  shows "system_inv (rt_store (report_transfer st d k n rt))"
proof (cases "GetSharedLibraryEntry (rt_store rt) k")
  case None
  then show ?thesis using assms by (simp add: report_transfer_def)
next
  case (Some e)
  let ?f = "reported_recipient (rt_now rt) st d"
  have ok: "entry_ok e" using system_inv_entry [OF assms Some] .
  show ?thesis
  proof (cases "update_first (\<lambda>r. recip_node_id r = n) ?f (entry_recipients e)")
    case None
    then have "n \<notin> recip_node_id ` set (entry_recipients e)" by (auto simp: update_first_None)
    then have "entry_ok (e\<lparr>entry_recipients := entry_recipients e @
        [appended_recipient (rt_now rt) st d (entry_entry_id e) n]\<rparr>)"
      using ok entry_ok_append [of e "appended_recipient (rt_now rt) st d (entry_entry_id e) n"]
      by (simp add: appended_recipient_simps FindRecipientIndex_None)
    then show ?thesis using assms Some None by (simp add: report_transfer_def Let_def)
  next
    case (Some rs)
    have "entry_ok (e\<lparr>entry_recipients := rs\<rparr>)"
      using ok map_update_first [OF _ Some, of recip_node_id] set_update_first [OF Some]
      by (fastforce simp: entry_ok_def reported_recipient_simps)
    then show ?thesis
      using assms Some \<open>GetSharedLibraryEntry (rt_store rt) k = Some e\<close> by (simp add: report_transfer_def Let_def)
  qed
qed

lemma StartBackup_inv [simp]:
  "system_inv (rt_store rt) \<Longrightarrow> system_inv (rt_store (snd (StartBackup j rt)))"
  by (simp add: StartBackup_def ScheduleTask_def on_store_def Let_def)

lemma Backup_ConfigurePolicy_inv [simp]:
  "system_inv (rt_store rt) \<Longrightarrow> system_inv (rt_store (snd (Backup_ConfigurePolicy p rt)))"
  by (simp add: Backup_ConfigurePolicy_def Policies_UpsertBackupPolicy_def on_store_def Let_def)

lemma on_store_services [simp]:
  assumes "system_inv (rt_store rt)"
  shows "system_inv (rt_store (snd (on_store (UpdateTaskState k st d) rt)))"
    "system_inv (rt_store (snd (on_store (RetryTask k d) rt)))"
    "system_inv (rt_store (snd (on_store (RecordHeartbeat k w) rt)))"
    "system_inv (rt_store (snd (on_store (RegisterDevice n) rt)))"
  using assms by (simp_all add: on_store_def split_beta Let_def RegisterDevice_def)

lemma HandleCommand_inv:
  assumes "system_inv (rt_store rt)"
  shows "system_inv (rt_store (snd (HandleCommand api off request rt)))"
proof -
  have "system_inv (rt_store (snd (HandleRegister args rt)))" "system_inv (rt_store (snd (HandleHeartbeat args rt)))"
    "system_inv (rt_store (snd (HandleSummary off rt)))" "system_inv (rt_store (snd (HandleSubmitBackup args rt)))"
    "system_inv (rt_store (snd (HandleSubmitRestore args rt)))"
    "system_inv (rt_store (snd (HandleSubmitShareReceive args rt)))"
    "system_inv (rt_store (snd (HandleAckTask args rt)))" "system_inv (rt_store (snd (HandleRetryTask args rt)))"
    "system_inv (rt_store (snd (HandleRetryRestore api args rt)))"
    "system_inv (rt_store (snd (HandleRetryShare args rt)))"
    "system_inv (rt_store (snd (HandleReportTask args rt)))" for args
    using assms
    by (simp_all add: HandleRegister_def HandleHeartbeat_def HandleSummary_def HandleSubmitBackup_def
        HandleSubmitRestore_def HandleSubmitShareReceive_def HandleAckTask_def HandleRetryTask_def
        HandleRetryRestore_def HandleRetryShare_def HandleReportTask_def BuildSummary_def RefreshNetworkView_def
        split_beta Let_def split: sum.splits option.splits)
  then show ?thesis
    using assms by (simp add: HandleCommand_def Let_def split_beta)
qed

lemma system_inv_files [simp]: "system_inv (db\<lparr>db_files := files\<rparr>) = system_inv db"
  by (simp add: system_inv_def store_inv_def ListRestoreRequests_def ListSharedLibraryEntries_def)

lemma backup_files_inv:
  "system_inv (rt_store rt) \<Longrightarrow> system_inv (rt_store (snd (backup_files api backend job files rt)))"
  by (induction files arbitrary: rt)
    (auto simp: Let_def on_store_def split_beta split: sum.splits prod.splits)

lemma ExecuteBackup_inv:
  assumes "system_inv (rt_store rt)"
  shows "system_inv (rt_store (snd (ExecuteBackup api job backend rt)))"
proof -
  have build: "system_inv (rt_store (snd (BuildBackupFiles p rt1)))" if "system_inv (rt_store rt1)" for p rt1
    using BuildBackupFiles_store [of p rt1] that by auto
  obtain s1 rt1 where start: "StartBackup job rt = (s1, rt1)" by (cases "StartBackup job rt")
  have inv1: "system_inv (rt_store rt1)" using StartBackup_inv [OF assms, of job] by (simp add: start)
  let ?rt2 = "set_task_state (job_job_id job) JobRunning ''backup execution started'' rt1"
  obtain r rt3 where b: "BuildBackupFiles (job_source_path job) ?rt2 = (r, rt3)"
    by (cases "BuildBackupFiles (job_source_path job) ?rt2")
  have inv3: "system_inv (rt_store rt3)" using build [of ?rt2 "job_source_path job"] inv1 b by simp
  have loop: "system_inv (rt_store rt4)" if "backup_files api backend job files rt3 = (x, rt4)" for files x rt4
    using backup_files_inv [OF inv3, of api backend job files] that by simp
  show ?thesis
    unfolding ExecuteBackup_def start Let_def prod.case b
    using inv1 inv3 loop by (auto split: sum.splits prod.splits)
qed

lemma PublishFile_inv:
  assumes "system_inv (rt_store rt)" and "entry_ok e"
  shows "system_inv (rt_store (snd (PublishFile e root rt)))"
proof -
  have "entry_ok (e\<lparr>entry_file_id := a, entry_source_path := b, entry_expired := c\<rparr>)" for a b c
    using assms(2) by (simp add: entry_ok_def)
  then show ?thesis
    using assms by (auto simp: PublishFile_def PublishEntry_def Let_def split_beta split: sum.splits)
qed

lemma cleanup_entries_inv:
  "system_inv (rt_store rt) \<Longrightarrow> (\<And>e. e \<in> set es \<Longrightarrow> entry_ok e) \<Longrightarrow>
     system_inv (rt_store (snd (cleanup_entries now es n rt)))"
  by (induction es arbitrary: n rt) (simp_all add: Let_def)

lemma CleanupExpired_inv:
  assumes "system_inv (rt_store rt)"
  shows "system_inv (rt_store (snd (CleanupExpired now rt)))"
  using assms cleanup_entries_inv [OF assms, of "ListSharedLibraryEntries (rt_store rt)" now 0]
  by (simp add: CleanupExpired_def split_beta Let_def system_inv_def)

lemma ExecuteLatestRestore_inv:
  assumes "system_inv (rt_store rt)"
  shows "system_inv (rt_store (snd (ExecuteLatestRestore api n p t d rt)))"
  using assms by (auto simp: ExecuteLatestRestore_def Let_def split_beta split: option.splits)

section \<open>Reachable control nodes\<close>

text \<open>
  One step of a control node: a command of any client, an operation of the local command line, or a change
  of the clock, the disk and the tables outside the store.
\<close>

inductive node_step :: "FdfsApi \<Rightarrow> SystemRuntime \<Rightarrow> SystemRuntime \<Rightarrow> bool" for api where
  command: "node_step api rt (snd (HandleCommand api off request rt))"
| backup: "node_step api rt (snd (ExecuteBackup api job backend rt))"
| latest_restore: "node_step api rt (snd (ExecuteLatestRestore api n p t d rt))"
| publish: "entry_recipients e = [] \<Longrightarrow> node_step api rt (snd (PublishFile e root rt))"
| receive: "node_step api rt (snd (ReceiveEntry k n root rt))"
| retry_receive: "node_step api rt (snd (RetryReceive k n root rt))"
| cleanup: "node_step api rt (snd (CleanupExpired now rt))"
| environment: "rt_store rt' = rt_store rt \<Longrightarrow> node_step api rt rt'"

inductive node_reach :: "FdfsApi \<Rightarrow> SystemRuntime \<Rightarrow> bool" for api where
  node_start: "rt_store rt = MetadataStore_init \<Longrightarrow> node_reach api rt"
| node_next: "node_reach api rt \<Longrightarrow> node_step api rt rt' \<Longrightarrow> node_reach api rt'"

lemma node_step_inv: "node_step api rt rt' \<Longrightarrow> system_inv (rt_store rt) \<Longrightarrow> system_inv (rt_store rt')"
  by (induction rule: node_step.induct)
    (simp_all add: HandleCommand_inv ExecuteBackup_inv ExecuteLatestRestore_inv PublishFile_inv CleanupExpired_inv
      entry_ok_def)

lemma node_reach_inv: "node_reach api rt \<Longrightarrow> system_inv (rt_store rt)"
  by (induction rule: node_reach.induct) (simp_all add: node_step_inv)

section \<open>Error behaviour\<close>

text \<open>
  A report of the state \<^verbatim>\<open>queued\<close> puts a restore task and its request out of step. The task is queued
  again, but its request is marked failed, without a message and without a completion time.
\<close>

lemma report_queued_fails_request:
  assumes "node_reach api rt" and "FindTask (rt_store rt) k = Some task" and "task_domain task = DomainRestore"
    and "FindRestoreRequest rt k = Some r"
  shows "fst (HandleReportTask [k, ''queued''] rt) = ''OK REPORTED'' \<and>
    map_option task_state (FindTask (rt_store (snd (HandleReportTask [k, ''queued''] rt))) k) = Some JobQueued \<and>
    FindRestoreRequest (snd (HandleReportTask [k, ''queued''] rt)) k =
      Some (r\<lparr>restore_state := RestoreFailed, restore_completed_at_epoch := 0, restore_error_message := []\<rparr>)"
proof -
  have inv: "store_inv (rt_store rt)" using node_reach_inv [OF assms(1)] by blast
  have task: "GetScheduledTaskRecord (rt_store rt) k = Some task" using assms(2) by (simp add: FindTask_def)
  have id: "task_task_id task = k" using scheduled_tasks_table.get_key [OF inv task] .
  have r: "GetRestoreRequest (rt_store rt) k = Some r" "restore_request_id r = k"
    using assms(4) restore_requests_table.get_key [OF inv] by (simp_all add: FindRestoreRequest_def)
  let ?r = "r\<lparr>restore_state := RestoreFailed, restore_completed_at_epoch := 0, restore_error_message := []\<rparr>"
  obtain db where upd: "UpdateTaskState k JobQueued ''task result reported'' (rt_store rt) = (Status_Ok, db)"
    by (simp add: UpdateTaskState_def task Let_def)
  then have db: "db = snd (UpdateTaskState k JobQueued ''task result reported'' (rt_store rt))" by simp
  have inv': "store_inv db" using inv by (simp add: db)
  have r': "GetRestoreRequest db k = Some r" using r(1) by (simp add: db)
  have run: "HandleReportTask [k, ''queued''] rt = (''OK REPORTED'', write_store (UpsertRestoreRequest ?r) (rt\<lparr>rt_store := db\<rparr>))"
    using r' by (simp add: HandleReportTask_def reported_state_def JoinArgs_def FindTask_def task assms(3) id
        on_store_def upd report_restore_def Let_def)
  have "GetScheduledTaskRecord db k = Some (task\<lparr>task_state := JobQueued, task_detail := ''task result reported''\<rparr>)"
    using UpdateTaskState_find [OF inv, of k JobQueued "''task result reported''" k] task by (simp add: db)
  then show ?thesis
    unfolding run using r(2) restore_requests_table.get_upsert [OF inv', of ?r k]
    by (simp add: FindTask_def FindRestoreRequest_def)
qed

lemma report_queued_fails_request_example:
  "let rt = snd (HandleCommand offline_api 30 (ParseRequest ''SUBMIT_RESTORE r f s t d/g'')
         (SystemRuntime_new MetadataStore_init None sample_fs 7 7))
   in map_option task_state (FindTask (rt_store (snd (HandleReportTask [''r'', ''queued''] rt))) ''r'') = Some JobQueued \<and>
      map_option restore_state (FindRestoreRequest (snd (HandleReportTask [''r'', ''queued''] rt)) ''r'') = Some RestoreFailed"
proof -
  let ?rt0 = "SystemRuntime_new MetadataStore_init None sample_fs 7 7"
  have parsed: "ParseRequest ''SUBMIT_RESTORE r f s t d/g'' =
      \<lparr>req_command = ''SUBMIT_RESTORE'', req_args = [''r'', ''f'', ''s'', ''t'', ''d/g'']\<rparr>"
    by (simp add: ParseRequest_def tokens.simps is_space_def)
  obtain rt where rt: "rt = snd (HandleCommand offline_api 30 (ParseRequest ''SUBMIT_RESTORE r f s t d/g'') ?rt0)" by blast
  have "node_reach offline_api ?rt0" by (rule node_start) (simp add: SystemRuntime_new_def)
  then have reach: "node_reach offline_api rt" unfolding rt by (rule node_next) (rule node_step.command)
  obtain task where task: "FindTask (rt_store rt) ''r'' = Some task" "task_domain task = DomainRestore"
    by (simp add: rt parsed HandleCommand_def HandleSubmitRestore_def SubmitRestore_def ScheduleTask_def on_store_def
        JoinArgs_def Let_def FindTask_def scheduled_tasks_table.get_upsert SystemRuntime_new_def
        ScheduledTaskRecord_init_def RestoreRequest_init_def)
  obtain r where r: "FindRestoreRequest rt ''r'' = Some r"
    by (simp add: rt parsed HandleCommand_def HandleSubmitRestore_def SubmitRestore_def ScheduleTask_def on_store_def
        JoinArgs_def Let_def FindRestoreRequest_def restore_requests_table.get_upsert store_inv_upsert
        SystemRuntime_new_def RestoreRequest_init_def)
  show ?thesis
    using report_queued_fails_request [OF reach task r] by (simp add: Let_def rt)
qed



end
