(* ===== verification/Control_Client.thy ===== *)
theory Control_Client
  imports Control_Server
begin

text \<open>
  The client half of \<^verbatim>\<open>src/control_plane/control_node_server.cpp\<close>: \<open>SendCommand\<close> sends one line over a new
  connection and reads the answer up to the end of the stream; every other operation builds a command,
  checks the answer and decodes it. The network is a parameter: what one exchange gives for a payload and
  what it leaves behind. \<open>control_link\<close> instantiates it with the server of \<open>Control_Server\<close>, so that the
  lemmas speak of client and server together.
\<close>

section \<open>The client\<close>

text \<open>
  The outcome of the system calls of one \<open>SendCommand\<close>: the call that failed, or all the bytes received
  until the end of the stream.
\<close>

datatype exchange =
    SocketFailed
  | HostInvalid
  | ConnectFailed string
  | SendFailed
  | RecvFailed
  | Answered string

type_synonym 'w network = "string \<Rightarrow> 'w \<Rightarrow> exchange \<times> 'w"

definition starts_with :: "string \<Rightarrow> string \<Rightarrow> bool" where
  "starts_with t p \<longleftrightarrow> take (length p) t = p"

definition decode_reply :: "string \<Rightarrow> Status \<times> string list" where
  "decode_reply all =
     (let lines = map TrimCarriageReturn (getlines newline all)
      in if lines \<noteq> [] \<and> starts_with (hd lines) ''ERR '' then
           (Status_Error kInternalError (drop 4 (hd lines)), lines)
         else (Status_Ok, lines))"

definition SendCommand :: "'w network \<Rightarrow> string \<Rightarrow> 'w \<Rightarrow> (Status \<times> string list) \<times> 'w" where
  "SendCommand net command w =
     (case net (command @ [newline]) w of
        (SocketFailed, w) \<Rightarrow> ((Status_Error kInternalError ''failed to create client socket'', []), w)
      | (HostInvalid, w) \<Rightarrow> ((Status_Error kInvalidArgument ''invalid control host'', []), w)
      | (ConnectFailed reason, w) \<Rightarrow> ((Status_Error kInternalError (''connect failed: '' @ reason), []), w)
      | (SendFailed, w) \<Rightarrow> ((Status_Error kInternalError ''socket send failed'', []), w)
      | (RecvFailed, w) \<Rightarrow> ((Status_Error kInternalError ''socket recv failed'', []), w)
      | (Answered all, w) \<Rightarrow> (decode_reply all, w))"

text \<open>The tail shared by the operations that expect one fixed line.\<close>

definition expect_line ::
  "'w network \<Rightarrow> string \<Rightarrow> string \<Rightarrow> (string list \<Rightarrow> string) \<Rightarrow> 'w \<Rightarrow> Status \<times> 'w" where
  "expect_line net command expected failure w =
     (let ((status, lines), w) = SendCommand net command w
      in if \<not> status_ok status then (status, w)
         else if lines \<noteq> [] \<and> hd lines = expected then (Status_Ok, w)
         else (Status_Error kInternalError (failure lines), w))"

definition first_line_or :: "string \<Rightarrow> string list \<Rightarrow> string" where
  "first_line_or fallback lines = (if lines = [] then fallback else hd lines)"

definition Client_Ping :: "'w network \<Rightarrow> 'w \<Rightarrow> Status \<times> 'w" where
  "Client_Ping net w = expect_line net ''PING'' ''OK PONG'' (\<lambda>_. ''unexpected ping response'') w"

definition Client_RegisterNode :: "'w network \<Rightarrow> NodeInfo \<Rightarrow> 'w \<Rightarrow> Status \<times> 'w" where
  "Client_RegisterNode net node w =
     expect_line net
       (''REGISTER '' @ node_node_id node @ '' '' @ node_device_name node @ '' '' @ node_zt_ip node @ '' '' @
        to_string_u64 (node_last_seen_epoch node))
       ''OK REGISTERED'' (first_line_or ''register failed'') w"

definition Client_SendHeartbeat :: "'w network \<Rightarrow> string \<Rightarrow> u64 \<Rightarrow> 'w \<Rightarrow> Status \<times> 'w" where
  "Client_SendHeartbeat net node_id epoch_seconds w =
     expect_line net (''HEARTBEAT '' @ node_id @ '' '' @ to_string_u64 epoch_seconds)
       ''OK HEARTBEAT'' (first_line_or ''heartbeat failed'') w"

definition Client_FetchSummary :: "'w network \<Rightarrow> u64 \<Rightarrow> 'w \<Rightarrow> (Status \<times> string option) \<times> 'w" where
  "Client_FetchSummary net offline_after_seconds w =
     (let ((status, lines), w) = SendCommand net (''SUMMARY '' @ to_string_u64 offline_after_seconds) w
      in if \<not> status_ok status then ((status, None), w)
         else if lines = [] then ((Status_Error kInternalError ''missing summary response'', None), w)
         else ((Status_Ok, Some (hd lines)), w))"

definition Client_SubmitBackupJob :: "'w network \<Rightarrow> BackupJob \<Rightarrow> 'w \<Rightarrow> Status \<times> 'w" where
  "Client_SubmitBackupJob net job w =
     expect_line net (''SUBMIT_BACKUP '' @ job_job_id job @ '' '' @ job_node_id job @ '' '' @ job_source_path job)
       ''OK BACKUP_SUBMITTED'' (first_line_or ''submit backup failed'') w"

definition Client_SubmitRestoreRequest :: "'w network \<Rightarrow> RestoreRequest \<Rightarrow> 'w \<Rightarrow> Status \<times> 'w" where
  "Client_SubmitRestoreRequest net request w =
     expect_line net
       (''SUBMIT_RESTORE '' @ restore_request_id request @ '' '' @ restore_file_id request @ '' '' @
        restore_source_node_id request @ '' '' @ restore_target_node_id request @ '' '' @
        restore_destination_path request)
       ''OK RESTORE_SUBMITTED'' (first_line_or ''submit restore failed'') w"

definition Client_SubmitShareReceive :: "'w network \<Rightarrow> string \<Rightarrow> string \<Rightarrow> 'w \<Rightarrow> Status \<times> 'w" where
  "Client_SubmitShareReceive net entry_id target_node_id w =
     expect_line net (''SUBMIT_SHARE_RECEIVE '' @ entry_id @ '' '' @ target_node_id)
       ''OK SHARE_SUBMITTED'' (first_line_or ''submit share receive failed'') w"

definition Client_AcknowledgeTask :: "'w network \<Rightarrow> string \<Rightarrow> string \<Rightarrow> 'w \<Rightarrow> Status \<times> 'w" where
  "Client_AcknowledgeTask net task_id detail w =
     expect_line net (''ACK_TASK '' @ task_id @ '' '' @ detail) ''OK ACKED'' (first_line_or ''ack failed'') w"

definition Client_ReportTaskResult :: "'w network \<Rightarrow> string \<Rightarrow> JobState \<Rightarrow> string \<Rightarrow> 'w \<Rightarrow> Status \<times> 'w" where
  "Client_ReportTaskResult net task_id state detail w =
     (let state_name = (if state = JobQueued then ''queued''
            else if state = JobRunning then ''running''
            else if state = JobCompleted then ''completed''
            else ''failed'')
      in expect_line net (''REPORT_TASK '' @ task_id @ '' '' @ state_name @ '' '' @ detail)
           ''OK REPORTED'' (first_line_or ''report failed'') w)"

definition Client_RetryTask :: "'w network \<Rightarrow> string \<Rightarrow> string \<Rightarrow> 'w \<Rightarrow> Status \<times> 'w" where
  "Client_RetryTask net task_id detail w =
     expect_line net (''RETRY_TASK '' @ task_id @ '' '' @ detail) ''OK TASK_RETRIED''
       (first_line_or ''retry task failed'') w"

definition Client_RetryRestore :: "'w network \<Rightarrow> string \<Rightarrow> 'w \<Rightarrow> Status \<times> 'w" where
  "Client_RetryRestore net request_id w =
     expect_line net (''RETRY_RESTORE '' @ request_id) ''OK RESTORE_RETRIED''
       (first_line_or ''retry restore failed'') w"

definition Client_RetryShareReceive :: "'w network \<Rightarrow> string \<Rightarrow> string \<Rightarrow> 'w \<Rightarrow> Status \<times> 'w" where
  "Client_RetryShareReceive net entry_id target_node_id w =
     expect_line net (''RETRY_SHARE '' @ entry_id @ '' '' @ target_node_id) ''OK SHARE_RETRIED''
       (first_line_or ''retry share failed'') w"

text \<open>One line of the answer to \<^verbatim>\<open>PULL_TASKS\<close>: skipped, decoded, or an exception of \<open>std::stoull\<close>.\<close>

definition task_of_parts :: "string list \<Rightarrow> ScheduledTaskRecord result" where
  "task_of_parts parts =
     bind_result (stoull (parts ! 7)) (\<lambda>created.
     bind_result (stoull (parts ! 8)) (\<lambda>retries.
     Inr (ScheduledTaskRecord_init\<lparr>
       task_task_id := parts ! 1,
       task_domain := (if parts ! 2 = ''backup'' then DomainBackup
         else if parts ! 2 = ''transfer'' then DomainTransfer else DomainRestore),
       task_state := (if parts ! 3 = ''queued'' then JobQueued
         else if parts ! 3 = ''running'' then JobRunning
         else if parts ! 3 = ''completed'' then JobCompleted else JobFailed),
       task_related_id := parts ! 4, task_source_node := parts ! 5, task_target_node := parts ! 6,
       task_created_at_epoch := created, task_retry_count := ucast retries,
       task_detail := (if length parts \<ge> 10 then parts ! 9 else [])\<rparr>)))"

fun pulled_tasks :: "string list \<Rightarrow> ScheduledTaskRecord list result" where
  "pulled_tasks [] = Inr []"
| "pulled_tasks (line # lines) =
     (if line = ''END'' then Inr []
      else if \<not> starts_with line (''TASK'' @ [tab]) then pulled_tasks lines
      else
        let parts = SplitByTab line
        in if length parts < 9 then pulled_tasks lines
           else bind_result (task_of_parts parts) (\<lambda>task.
                  bind_result (pulled_tasks lines) (\<lambda>tasks. Inr (task # tasks))))"

definition Client_PullTasks ::
  "'w network \<Rightarrow> string \<Rightarrow> 'w \<Rightarrow> (Status \<times> ScheduledTaskRecord list) result \<times> 'w" where
  "Client_PullTasks net node_id w =
     (let ((status, lines), w) = SendCommand net (''PULL_TASKS '' @ node_id) w
      in if \<not> status_ok status then (Inr (status, []), w)
         else if lines = [] \<or> \<not> starts_with (hd lines) ''OK TASKS '' then
           (Inr (Status_Error kInternalError (first_line_or ''pull tasks failed'' lines), []), w)
         else (bind_result (pulled_tasks (tl lines)) (\<lambda>tasks. Inr (Status_Ok, tasks)), w))"

text \<open>
  The output parameters of \<open>FetchRestoreBundle\<close> and \<open>FetchSharedEntry\<close> are passed in and returned: a
  field the code does not assign keeps its value.
\<close>

definition restore_bundle_of_parts ::
  "string list \<Rightarrow> RestoreRequest \<Rightarrow> StoredObjectRecord \<Rightarrow> FileRecord \<Rightarrow>
     (RestoreRequest \<times> StoredObjectRecord \<times> FileRecord) result" where
  "restore_bundle_of_parts parts request stored f =
     bind_result (stoull (parts ! 7)) (\<lambda>completed_at.
     bind_result (stoull (parts ! 13)) (\<lambda>stored_at.
     bind_result (stoull (parts ! 16)) (\<lambda>size.
     bind_result (stoull (parts ! 17)) (\<lambda>modified.
     bind_result (stoull (parts ! 18)) (\<lambda>mode.
     Inr
      (request\<lparr>restore_request_id := parts ! 1, restore_file_id := parts ! 2,
         restore_source_node_id := parts ! 3, restore_target_node_id := parts ! 4,
         restore_destination_path := parts ! 5, restore_state := ParseRestoreState (parts ! 6),
         restore_completed_at_epoch := completed_at, restore_error_message := parts ! 8\<rparr>,
       stored\<lparr>stored_file_id := parts ! 2, stored_backend_name := parts ! 9,
         stored_storage_key := parts ! 10, stored_access_url := parts ! 11,
         stored_source_path := parts ! 12, stored_stored_at_epoch := stored_at\<rparr>,
       f\<lparr>file_file_id := parts ! 2, file_relative_path := parts ! 14, file_absolute_path := parts ! 15,
         file_size := size, file_modified_time_epoch := modified, file_mode := ucast mode,
         file_root_hash := parts ! 19, file_status := FileReady\<rparr>))))))"

definition Client_FetchRestoreBundle ::
  "'w network \<Rightarrow> string \<Rightarrow> RestoreRequest \<Rightarrow> StoredObjectRecord \<Rightarrow> FileRecord \<Rightarrow> 'w \<Rightarrow>
     (Status \<times> RestoreRequest \<times> StoredObjectRecord \<times> FileRecord) result \<times> 'w" where
  "Client_FetchRestoreBundle net request_id request stored f w =
     (let ((status, lines), w) = SendCommand net (''GET_RESTORE '' @ request_id) w;
          parts = SplitByTab (hd lines)
      in if \<not> status_ok status then (Inr (status, request, stored, f), w)
         else if lines = [] \<or> \<not> starts_with (hd lines) (''OK RESTORE'' @ [tab]) then
           (Inr (Status_Error kInternalError (first_line_or ''missing restore bundle'' lines), request, stored, f), w)
         else if length parts < 20 then
           (Inr (Status_Error kInternalError ''restore bundle is incomplete'', request, stored, f), w)
         else (bind_result (restore_bundle_of_parts parts request stored f) (\<lambda>bundle. Inr (Status_Ok, bundle)), w))"

definition shared_entry_of_parts :: "string list \<Rightarrow> SharedLibraryEntry \<Rightarrow> SharedLibraryEntry result" where
  "shared_entry_of_parts parts entry =
     bind_result (stoull (parts ! 7)) (\<lambda>created.
     bind_result (stoull (parts ! 8)) (\<lambda>expires.
     Inr (entry\<lparr>entry_entry_id := parts ! 1, entry_owner_node_id := parts ! 2,
       entry_source_path := parts ! 3, entry_file_id := parts ! 4, entry_display_name := parts ! 5,
       entry_note := parts ! 6, entry_created_at_epoch := created, entry_expires_at_epoch := expires,
       entry_expired := (parts ! 9 = ''1'')\<rparr>)))"

definition Client_FetchSharedEntry ::
  "'w network \<Rightarrow> string \<Rightarrow> SharedLibraryEntry \<Rightarrow> 'w \<Rightarrow> (Status \<times> SharedLibraryEntry) result \<times> 'w" where
  "Client_FetchSharedEntry net entry_id entry w =
     (let ((status, lines), w) = SendCommand net (''GET_SHARED_ENTRY '' @ entry_id) w;
          parts = SplitByTab (hd lines)
      in if \<not> status_ok status then (Inr (status, entry), w)
         else if lines = [] \<or> \<not> starts_with (hd lines) (''OK SHARED'' @ [tab]) then
           (Inr (Status_Error kInternalError (first_line_or ''missing shared entry'' lines), entry), w)
         else if length parts < 10 then
           (Inr (Status_Error kInternalError ''shared entry is incomplete'', entry), w)
         else (bind_result (shared_entry_of_parts parts entry) (\<lambda>entry. Inr (Status_Ok, entry)), w))"

section \<open>Client and server together\<close>

text \<open>
  The network between a client and the accept loop: the world is the runtime of the control node, or
  \<open>None\<close> once the loop has ended. An exception of a handler ends the server process after it has read
  the request, so the client sees the end of the stream without an answer.
\<close>

definition control_link :: "FdfsApi \<Rightarrow> u64 \<Rightarrow> SystemRuntime option network" where
  "control_link api offline_after_seconds payload server =
     (case server of
        None \<Rightarrow> (ConnectFailed ''Connection refused'', None)
      | Some rt \<Rightarrow>
          (case HandleClient api offline_after_seconds
              \<lparr>conn_received = payload, conn_recv_ends = True, conn_send_works = True\<rparr> rt of
             (Inl e, rt) \<Rightarrow> (Answered [], None)
           | (Inr (status, sent), rt) \<Rightarrow> (Answered sent, if status_ok status then Some rt else None)))"

section \<open>What the server hears and what the client reads back\<close>

definition received :: "string \<Rightarrow> string" where
  "received command = TrimCarriageReturn (takeWhile (\<lambda>c. c \<noteq> newline) command)"

definition terminated :: "string \<Rightarrow> string" where
  "terminated response = (if response = [] \<or> last response \<noteq> newline then response @ [newline] else response)"

text \<open>A text that survives a line of the protocol unchanged, and one that survives a field of it.\<close>

definition plain_line :: "string \<Rightarrow> bool" where
  "plain_line t \<longleftrightarrow> newline \<notin> set t \<and> (t = [] \<or> last t \<noteq> CHR 0x0D)"

definition plain_field :: "string \<Rightarrow> bool" where
  "plain_field t \<longleftrightarrow> tab \<notin> set t \<and> newline \<notin> set t"

lemma read_line_takeWhile:
  "read_line (s @ [newline]) e acc = Some (acc @ takeWhile (\<lambda>c. c \<noteq> newline) s)"
  by (induction s arbitrary: acc) auto

lemma ReadLine_command:
  "ReadLine \<lparr>conn_received = command @ [newline], conn_recv_ends = e, conn_send_works = w\<rparr> = (Status_Ok, received command)"
  by (simp add: ReadLine_def read_line_takeWhile received_def)

lemma SendCommand_link:
  assumes "HandleCommand api off (ParseRequest (received command)) rt = (Inr response, rt')"
  shows "SendCommand (control_link api off) command (Some rt) = (decode_reply (terminated response), Some rt')"
  using assms
  by (simp add: SendCommand_def control_link_def HandleClient_def ReadLine_command WriteLine_def terminated_def Let_def)

lemma SendCommand_crash:
  assumes "HandleCommand api off (ParseRequest (received command)) rt = (Inl e, rt')"
  shows "SendCommand (control_link api off) command (Some rt) = ((Status_Ok, []), None)"
  using assms
  by (simp add: SendCommand_def control_link_def HandleClient_def ReadLine_command decode_reply_def)

lemma SendCommand_no_server [simp]:
  "SendCommand (control_link api off) command None =
     ((Status_Error kInternalError ''connect failed: Connection refused'', []), None)"
  by (simp add: SendCommand_def control_link_def)

lemma Trim_plain [simp]: "plain_line t \<Longrightarrow> TrimCarriageReturn t = t"
  by (auto simp: plain_line_def TrimCarriageReturn_def)

lemma getlines_lines:
  "(\<And>p. p \<in> set ps \<Longrightarrow> d \<notin> set p) \<Longrightarrow> getlines d (concat (map (\<lambda>p. p @ [d]) ps)) = ps"
  by (induction ps) (simp_all add: getlines_part)

lemma decode_lines:
  assumes "\<And>p. p \<in> set (l # ls) \<Longrightarrow> plain_line p"
  shows "decode_reply (concat (map (\<lambda>p. p @ [newline]) (l # ls))) =
    (if starts_with l ''ERR '' then Status_Error kInternalError (drop 4 l) else Status_Ok, l # ls)"
proof -
  have "getlines newline (concat (map (\<lambda>p. p @ [newline]) (l # ls))) = l # ls"
    using assms by (intro getlines_lines) (auto simp: plain_line_def)
  moreover have "map TrimCarriageReturn (l # ls) = l # ls" using assms by (auto intro!: map_idI)
  ultimately show ?thesis by (simp only: decode_reply_def Let_def list.sel) simp
qed

lemma terminated_plain: "plain_line t \<Longrightarrow> terminated t = t @ [newline]"
  using last_in_set by (fastforce simp: terminated_def plain_line_def)

lemma decode_plain:
  "plain_line t \<Longrightarrow> decode_reply (terminated t) =
     (if starts_with t ''ERR '' then Status_Error kInternalError (drop 4 t) else Status_Ok, [t])"
  using decode_lines [of t "[]"] by (simp add: terminated_plain)

text \<open>The command as the server tokenises it: the words of the command, then the words of a free text.\<close>

definition heard :: "string \<Rightarrow> string list" where
  "heard detail = tokens (received detail)"

lemma word_not_newline: "is_word t \<Longrightarrow> newline \<notin> set t"
proof -
  have "is_space newline" by (simp add: is_space_def newline_def)
  then show "is_word t \<Longrightarrow> newline \<notin> set t" unfolding is_word_def by blast
qed

lemma received_append:
  assumes "newline \<notin> set p" and "p \<noteq> []" and "last p \<noteq> CHR 0x0D"
  shows "received (p @ d) = p @ received d"
proof -
  have "takeWhile (\<lambda>c. c \<noteq> newline) (p @ d) = p @ takeWhile (\<lambda>c. c \<noteq> newline) d"
    using assms(1) by (intro takeWhile_append2) auto
  then show ?thesis using assms(2,3) by (simp add: received_def TrimCarriageReturn_def butlast_append)
qed

lemma ParseRequest_words:
  assumes "is_word c" and "list_all is_word ts"
  shows "ParseRequest (received (join_with '' '' (c # ts) @ '' '' @ d)) =
    \<lparr>req_command = c, req_args = ts @ heard d\<rparr>"
proof -
  have words: "received (concat (map (\<lambda>t. t @ '' '') us) @ d) = concat (map (\<lambda>t. t @ '' '') us) @ received d"
    if "\<forall>t \<in> set us. is_word t" for us
    using that
  proof (induction us)
    case (Cons u us)
    then have "newline \<notin> set (u @ '' '')" using word_not_newline [of u] by (simp add: newline_def)
    then show ?case using Cons received_append [of "u @ '' ''" "concat (map (\<lambda>t. t @ '' '') us) @ d"] by simp
  qed simp
  have join: "join_with '' '' us @ '' '' = concat (map (\<lambda>t. t @ '' '') us)" if "us \<noteq> []" for us
    using that by (induction "'' ''" us rule: join_with.induct) simp_all
  have toks: "tokens (concat (map (\<lambda>t. t @ '' '') us) @ r) = us @ tokens r" if "\<forall>t \<in> set us. is_word t" for us r
    using that by (induction us) (simp_all add: tokens_word tokens_space)
  have all: "\<forall>t \<in> set (c # ts). is_word t" using assms by (auto simp: list_all_iff)
  have "join_with '' '' (c # ts) @ '' '' @ d = concat (map (\<lambda>t. t @ '' '') (c # ts)) @ d"
    using join [of "c # ts"] by (metis append.assoc list.distinct(1))
  then have "tokens (received (join_with '' '' (c # ts) @ '' '' @ d)) = c # ts @ heard d"
    using words [OF all] toks [OF all] by (simp only: heard_def) simp
  then show ?thesis by (simp add: ParseRequest_def)
qed

lemma received_words:
  "(\<And>t. t \<in> set ts \<Longrightarrow> is_word t) \<Longrightarrow> received (join_with '' '' ts) = join_with '' '' ts"
proof -
  assume words: "\<And>t. t \<in> set ts \<Longrightarrow> is_word t"
  have no: "newline \<notin> set (join_with '' '' us)" if "\<forall>t \<in> set us. is_word t" for us
    using that by (induction "'' ''" us rule: join_with.induct) (simp_all add: word_not_newline, simp add: newline_def)
  have last: "us \<noteq> [] \<Longrightarrow> join_with '' '' us \<noteq> [] \<and> last (join_with '' '' us) = last (last us)"
    if "\<forall>t \<in> set us. is_word t" for us
    using that by (induction "'' ''" us rule: join_with.induct) (auto simp: is_word_def)
  have cr: "last t \<noteq> CHR 0x0D" if "is_word t" for t
  proof -
    have "is_space CHR 0x0D" by (simp add: is_space_def)
    then show ?thesis using that last_in_set unfolding is_word_def by metis
  qed
  have ok: "\<forall>t \<in> set ts. is_word t" using words by blast
  have tw: "takeWhile (\<lambda>c. c \<noteq> newline) (join_with '' '' ts) = join_with '' '' ts"
    unfolding takeWhile_eq_all_conv using no [OF ok] by blast
  have "ts \<noteq> [] \<Longrightarrow> last (join_with '' '' ts) \<noteq> CHR 0x0D"
    using last [OF ok] cr [of "last ts"] words [of "last ts"] by simp
  then show ?thesis unfolding received_def tw by (cases "ts = []") (simp_all add: TrimCarriageReturn_def)
qed

lemma ParseRequest_all_words:
  assumes "is_word c" and "list_all is_word ts"
  shows "ParseRequest (received (join_with '' '' (c # ts))) = \<lparr>req_command = c, req_args = ts\<rparr>"
proof -
  have words: "t \<in> set (c # ts) \<Longrightarrow> is_word t" for t using assms by (auto simp: list_all_iff)
  have "tokens (received (join_with '' '' (c # ts))) = c # ts"
    using received_words [of "c # ts"] tokens_join [of "c # ts"] words by metis
  then show ?thesis by (simp add: ParseRequest_def)
qed

lemma heard_word: "is_word t \<Longrightarrow> heard t = [t]"
  using received_words [of "[t]"] tokens_join [of "[t]"] by (simp add: heard_def)

text \<open>A text made of words with one blank between them arrives as it is.\<close>

definition spaced_words :: "string \<Rightarrow> bool" where
  "spaced_words t \<longleftrightarrow> tokens t \<noteq> [] \<and> join_with '' '' (tokens t) = t"

lemma tokens_are_words: "t \<in> set (tokens s) \<Longrightarrow> is_word t"
proof (induction s rule: tokens.induct)
  case (1 s)
  let ?body = "dropWhile is_space s"
  show ?case
  proof (cases "?body = []")
    case True
    then show ?thesis using 1 by (simp add: tokens.simps [of s])
  next
    case False
    then have "\<not> is_space (hd ?body)" using hd_dropWhile by metis
    then have "takeWhile (\<lambda>c. \<not> is_space c) ?body \<noteq> []" using False by (cases ?body) simp_all
    moreover have "\<forall>c \<in> set (takeWhile (\<lambda>c. \<not> is_space c) ?body). \<not> is_space c"
      by (rule ballI) (drule set_takeWhileD, simp)
    ultimately have "is_word (takeWhile (\<lambda>c. \<not> is_space c) ?body)" unfolding is_word_def by (rule conjI)
    moreover have "t = takeWhile (\<lambda>c. \<not> is_space c) ?body \<or> t \<in> set (tokens (dropWhile (\<lambda>c. \<not> is_space c) ?body))"
      using 1(2) False by (subst (asm) tokens.simps) (simp only: Let_def if_False, simp)
    ultimately show ?thesis using 1(1) [OF refl False] by blast
  qed
qed

lemma heard_spaced: "spaced_words t \<Longrightarrow> heard t = tokens t"
  using received_words [of "tokens t"] tokens_are_words [of _ t] unfolding heard_def spaced_words_def by metis

section \<open>Calls that expect one line\<close>

definition relayed :: "Status \<Rightarrow> Status" where
  "relayed s = (if status_ok s then Status_Ok else Status_Error kInternalError (status_message s))"

lemma relayed_Ok [simp]: "relayed Status_Ok = Status_Ok"
  by (simp add: relayed_def)

lemma status_ok_relayed [simp]: "status_ok (relayed s) = status_ok s"
  by (simp add: relayed_def)

lemma expect_line_link:
  assumes "HandleCommand api off (ParseRequest (received command)) rt = (Inr (answer s expected), rt')"
    and "plain_line expected" and "\<not> starts_with expected ''ERR ''" and "plain_line (status_message s)"
  shows "expect_line (control_link api off) command expected failure (Some rt) = (relayed s, Some rt')"
proof -
  have "plain_line (''ERR '' @ status_message s)"
    using assms(4) by (auto simp: plain_line_def newline_def)
  then have "decode_reply (terminated (answer s expected)) = (relayed s, [answer s expected])"
    using assms(2-4) by (simp add: decode_plain answer_def relayed_def starts_with_def)
  then show ?thesis
    using SendCommand_link [OF assms(1)] by (simp add: expect_line_def relayed_def answer_def)
qed

lemma expect_line_refused:
  assumes "HandleCommand api off (ParseRequest (received command)) rt = (Inr (''ERR '' @ m), rt')" and "plain_line m"
  shows "expect_line (control_link api off) command expected failure (Some rt) =
    (Status_Error kInternalError m, Some rt')"
proof -
  have "plain_line (''ERR '' @ m)" using assms(2) by (auto simp: plain_line_def newline_def)
  then show ?thesis
    using SendCommand_link [OF assms(1)] by (simp add: expect_line_def decode_plain starts_with_def)
qed

lemma plain_Ok [simp]: "plain_line (status_message Status_Ok)"
  by (simp add: Status_Ok_def plain_line_def)

lemma plain_service_messages:
  "plain_line (status_message (fst (UpdateTaskState k st d db)))"
  "plain_line (status_message (fst (RetryTask k d db)))"
  "plain_line (status_message (fst (RecordHeartbeat k e db)))"
  "plain_line (status_message (fst (RegisterDevice node db)))"
  "plain_line (status_message (fst (SubmitRestore q rt)))"
  "plain_line (status_message (fst (CreateReceiveTask k n rt)))"
  by (simp_all add: UpdateTaskState_def RetryTask_def RecordHeartbeat_def RegisterDevice_def SubmitRestore_def ScheduleTask_def
      CreateReceiveTask_def on_store_def Let_def split_beta Status_Ok_def Status_Error_def plain_line_def newline_def
      split: option.splits)

lemma expect_line_call:
  assumes "HandleCommand api off (ParseRequest (received command)) rt = (Inr (answer (fst r) expected), snd r)"
    and "plain_line expected" and "\<not> starts_with expected ''ERR ''" and "plain_line (status_message (fst r))"
  shows "expect_line (control_link api off) command expected failure (Some rt) =
    (case r of (s, rt') \<Rightarrow> (relayed s, Some rt'))"
  using expect_line_link [OF assms] by (simp add: split_beta)

text \<open>Facts that turn a command the client builds into the request the server handles.\<close>

lemma command_words [simp]:
  "is_word ''REGISTER''" "is_word ''HEARTBEAT''" "is_word ''PULL_TASKS''" "is_word ''SUBMIT_BACKUP''"
  "is_word ''SUBMIT_RESTORE''" "is_word ''SUBMIT_SHARE_RECEIVE''" "is_word ''ACK_TASK''" "is_word ''REPORT_TASK''"
  "is_word ''RETRY_TASK''" "is_word ''GET_RESTORE''" "is_word ''GET_SHARED_ENTRY''" "is_word (JobStateName st)"
  by (cases st; simp add: is_word_def is_space_def)+

lemma expected_lines [simp]:
  "plain_line ''OK REGISTERED''" "plain_line ''OK HEARTBEAT''" "plain_line ''OK ACKED''" "plain_line ''OK REPORTED''"
  "plain_line ''OK RESTORE_SUBMITTED''" "plain_line ''OK SHARE_SUBMITTED''" "plain_line ''OK TASK_RETRIED''"
  "\<not> starts_with ''OK REGISTERED'' ''ERR ''" "\<not> starts_with ''OK HEARTBEAT'' ''ERR ''"
  "\<not> starts_with ''OK ACKED'' ''ERR ''" "\<not> starts_with ''OK REPORTED'' ''ERR ''"
  "\<not> starts_with ''OK RESTORE_SUBMITTED'' ''ERR ''" "\<not> starts_with ''OK SHARE_SUBMITTED'' ''ERR ''"
  "\<not> starts_with ''OK TASK_RETRIED'' ''ERR ''"
  by (simp_all add: plain_line_def newline_def starts_with_def)

lemma to_string_word [simp]: "is_word (to_string n)" "is_word (to_string_u64 w)"
  using to_string_digits digit_not_space by (auto simp: is_word_def to_string_u64_def)

definition free_detail :: "string \<Rightarrow> string list \<Rightarrow> string" where
  "free_detail fallback words = (if words = [] then fallback else join_with '' '' words)"

lemma AcknowledgeTask_link:
  assumes "is_word k"
  shows "Client_AcknowledgeTask (control_link api off) k d (Some rt) =
    (case on_store (UpdateTaskState k JobRunning (free_detail ''task acknowledged by agent'' (heard d))) rt of
       (s, rt') \<Rightarrow> (relayed s, Some rt'))"
proof -
  have "ParseRequest (received (''ACK_TASK '' @ k @ '' '' @ d)) = \<lparr>req_command = ''ACK_TASK'', req_args = k # heard d\<rparr>"
    using ParseRequest_words [of "''ACK_TASK''" "[k]" d] assms by simp
  then show ?thesis
    unfolding Client_AcknowledgeTask_def
    by (intro expect_line_call)
      (simp_all add: Suc_le_eq HandleCommand_def HandleAckTask_def JoinArgs_def free_detail_def on_store_def plain_service_messages
        split_beta Let_def)
qed

lemma RetryTask_link:
  assumes "is_word k"
  shows "Client_RetryTask (control_link api off) k d (Some rt) =
    (case on_store (RetryTask k (free_detail ''task requeued via control service'' (heard d))) rt of
       (s, rt') \<Rightarrow> (relayed s, Some rt'))"
proof -
  have "ParseRequest (received (''RETRY_TASK '' @ k @ '' '' @ d)) = \<lparr>req_command = ''RETRY_TASK'', req_args = k # heard d\<rparr>"
    using ParseRequest_words [of "''RETRY_TASK''" "[k]" d] assms by simp
  then show ?thesis
    unfolding Client_RetryTask_def
    by (intro expect_line_call)
      (simp_all add: Suc_le_eq HandleCommand_def HandleRetryTask_def JoinArgs_def free_detail_def on_store_def plain_service_messages
        split_beta Let_def)
qed

lemma SendHeartbeat_link:
  assumes "is_word k"
  shows "Client_SendHeartbeat (control_link api off) k e (Some rt) =
    (case on_store (RecordHeartbeat k e) rt of (s, rt') \<Rightarrow> (relayed s, Some rt'))"
proof -
  have "ParseRequest (received (''HEARTBEAT '' @ k @ '' '' @ to_string_u64 e)) =
      \<lparr>req_command = ''HEARTBEAT'', req_args = [k, to_string_u64 e]\<rparr>"
    using ParseRequest_words [of "''HEARTBEAT''" "[k]" "to_string_u64 e"] assms by (simp add: heard_word)
  then show ?thesis
    unfolding Client_SendHeartbeat_def
    by (intro expect_line_call)
      (simp_all add: HandleCommand_def HandleHeartbeat_def stoull_to_string_u64 on_store_def plain_service_messages
        split_beta Let_def)
qed

lemma RegisterNode_link:
  assumes "is_word (node_node_id node)" and "is_word (node_device_name node)" and "is_word (node_zt_ip node)"
  shows "Client_RegisterNode (control_link api off) node (Some rt) =
    (Status_Ok, Some (snd (on_store (RegisterDevice node) rt)))"
proof (cases node)
  case (fields i n z e)
  have words: "is_word i" "is_word n" "is_word z" using assms by (simp_all add: fields)
  let ?c = "''REGISTER '' @ i @ '' '' @ n @ '' '' @ z @ '' '' @ to_string_u64 e"
  have "ParseRequest (received ?c) = \<lparr>req_command = ''REGISTER'', req_args = [i, n, z, to_string_u64 e]\<rparr>"
    using ParseRequest_words [of "''REGISTER''" "[i, n, z]" "to_string_u64 e"] words by (auto simp: heard_word)
  then have "expect_line (control_link api off) ?c ''OK REGISTERED'' f (Some rt) =
      (case on_store (RegisterDevice node) rt of (s, rt') \<Rightarrow> (relayed s, Some rt'))" for f
    by (intro expect_line_call)
      (simp_all add: fields HandleCommand_def HandleRegister_def stoull_to_string_u64 on_store_def
        plain_service_messages split_beta Let_def)
  then show ?thesis
    unfolding Client_RegisterNode_def by (simp add: fields on_store_def RegisterDevice_def Let_def)
qed

text \<open>The request the server builds from the words of a submitted restore.\<close>

definition submitted_restore :: "u64 \<Rightarrow> RestoreRequest \<Rightarrow> RestoreRequest" where
  "submitted_restore now request = RestoreRequest_init\<lparr>
     restore_request_id := restore_request_id request, restore_file_id := restore_file_id request,
     restore_source_node_id := restore_source_node_id request,
     restore_target_node_id := restore_target_node_id request,
     restore_destination_path := restore_destination_path request, restore_created_at_epoch := now\<rparr>"

lemma spaced_words_tokens:
  "spaced_words t \<Longrightarrow> \<exists>w ws. tokens t = w # ws \<and> join_with '' '' (w # ws) = t"
  unfolding spaced_words_def by (cases "tokens t") auto

lemma SubmitRestoreRequest_link:
  assumes "is_word (restore_request_id q)" and "is_word (restore_file_id q)" and "is_word (restore_source_node_id q)"
    and "is_word (restore_target_node_id q)" and "spaced_words (restore_destination_path q)"
  shows "Client_SubmitRestoreRequest (control_link api off) q (Some rt) =
    (case SubmitRestore (submitted_restore (rt_now rt) q) rt of (s, rt') \<Rightarrow> (relayed s, Some rt'))"
proof -
  let ?ids = "[restore_request_id q, restore_file_id q, restore_source_node_id q, restore_target_node_id q]"
  obtain w ws where d: "tokens (restore_destination_path q) = w # ws"
    "join_with '' '' (w # ws) = restore_destination_path q"
    using spaced_words_tokens [OF assms(5)] by blast
  let ?c = "''SUBMIT_RESTORE '' @ restore_request_id q @ '' '' @ restore_file_id q @ '' '' @
        restore_source_node_id q @ '' '' @ restore_target_node_id q @ '' '' @ restore_destination_path q"
  have "ParseRequest (received ?c) = \<lparr>req_command = ''SUBMIT_RESTORE'', req_args = ?ids @ w # ws\<rparr>"
    using ParseRequest_words [of "''SUBMIT_RESTORE''" ?ids "restore_destination_path q"] assms d(1)
    by (auto simp: heard_spaced)
  moreover have "JoinArgs (?ids @ w # ws) 4 = restore_destination_path q"
    using d(2) by (simp add: JoinArgs_def)
  ultimately show ?thesis
    unfolding Client_SubmitRestoreRequest_def
    by (intro expect_line_call)
      (simp_all add: HandleCommand_def HandleSubmitRestore_def submitted_restore_def plain_service_messages
        split_beta Let_def)
qed

lemma SubmitShareReceive_link:
  assumes "is_word k" and "is_word n"
  shows "Client_SubmitShareReceive (control_link api off) k n (Some rt) =
    (case CreateReceiveTask k n rt of (s, rt') \<Rightarrow> (relayed s, Some rt'))"
proof -
  have "ParseRequest (received (''SUBMIT_SHARE_RECEIVE '' @ k @ '' '' @ n)) =
      \<lparr>req_command = ''SUBMIT_SHARE_RECEIVE'', req_args = [k, n]\<rparr>"
    using ParseRequest_words [of "''SUBMIT_SHARE_RECEIVE''" "[k]" n] assms by (simp add: heard_word)
  then show ?thesis
    unfolding Client_SubmitShareReceive_def
    by (intro expect_line_call)
      (simp_all add: HandleCommand_def HandleSubmitShareReceive_def plain_service_messages split_beta Let_def)
qed

lemma ReportTaskResult_link:
  assumes "is_word k"
  shows "Client_ReportTaskResult (control_link api off) k st d (Some rt) =
    (case GetScheduledTaskRecord (rt_store rt) k of
       None \<Rightarrow> (Status_Error kInternalError ''task not found'', Some rt)
     | Some _ \<Rightarrow> (Status_Ok, Some (snd (HandleReportTask (k # JobStateName st # heard d) rt))))"
proof -
  let ?args = "k # JobStateName st # heard d"
  have "(if st = JobQueued then ''queued'' else if st = JobRunning then ''running''
      else if st = JobCompleted then ''completed'' else ''failed'') = JobStateName st"
    by (cases st) simp_all
  then have call: "Client_ReportTaskResult (control_link api off) k st d w =
      expect_line (control_link api off) (''REPORT_TASK '' @ k @ '' '' @ JobStateName st @ '' '' @ d)
        ''OK REPORTED'' (first_line_or ''report failed'') w" for w
    by (simp only: Client_ReportTaskResult_def Let_def)
  let ?c = "''REPORT_TASK '' @ k @ '' '' @ JobStateName st @ '' '' @ d"
  have parsed: "ParseRequest (received ?c) = \<lparr>req_command = ''REPORT_TASK'', req_args = ?args\<rparr>"
    using ParseRequest_words [of "''REPORT_TASK''" "[k, JobStateName st]" d] assms by auto
  show ?thesis
  proof (cases "GetScheduledTaskRecord (rt_store rt) k")
    case None
    then have "HandleReportTask ?args rt = (''ERR '' @ ''task not found'', rt)"
      by (simp add: HandleReportTask_def UpdateTaskState_def on_store_def Let_def)
    then have "HandleCommand api off (ParseRequest (received ?c)) rt = (Inr (''ERR '' @ ''task not found''), rt)"
      unfolding parsed by (simp add: HandleCommand_def)
    from expect_line_refused [OF this] show ?thesis
      by (simp add: call None plain_line_def newline_def)
  next
    case (Some t)
    then have "fst (HandleReportTask ?args rt) = ''OK REPORTED''"
      by (simp add: HandleReportTask_def UpdateTaskState_def on_store_def Let_def)
    then have "HandleCommand api off (ParseRequest (received ?c)) rt =
        (Inr (answer Status_Ok ''OK REPORTED''), snd (HandleReportTask ?args rt))"
      unfolding parsed by (simp add: HandleCommand_def answer_def split_beta)
    from expect_line_link [OF this] show ?thesis by (simp add: call Some)
  qed
qed

section \<open>Lists of tasks\<close>

definition task_fields :: "ScheduledTaskRecord \<Rightarrow> string list" where
  "task_fields t = [''TASK'', task_task_id t, JobDomainName (task_domain t), JobStateName (task_state t),
     task_related_id t, task_source_node t, task_target_node t, to_string_u64 (task_created_at_epoch t),
     to_string (unat (task_retry_count t))]"

text \<open>The ids and node names of a task are single fields of a line.\<close>

definition task_plain :: "ScheduledTaskRecord \<Rightarrow> bool" where
  "task_plain t \<longleftrightarrow> list_all plain_field [task_task_id t, task_related_id t, task_source_node t, task_target_node t]"

lemma digits_plain [simp]: "plain_field (to_string n)" "plain_field (to_string_u64 w)"
proof -
  have "\<not> is_digit tab" "\<not> is_digit newline" by (simp_all add: tab_def newline_def is_digit_def)
  then show "plain_field (to_string n)" "plain_field (to_string_u64 w)"
    using to_string_digits unfolding plain_field_def to_string_u64_def by blast+
qed

lemma names_plain [simp]: "plain_field (JobDomainName dm)" "plain_field (JobStateName st)" "plain_field (RestoreStateName rs)"
  by (cases dm; cases st; cases rs; simp add: plain_field_def tab_def newline_def)+

lemma set_blank_controls: "c \<in> set (blank_controls d) \<Longrightarrow> c \<noteq> tab \<and> c \<noteq> newline \<and> c \<noteq> CHR 0x0D"
  by (auto simp: blank_controls_def tab_def newline_def)

lemma blank_controls_plain [simp]: "plain_field (blank_controls d)"
  using set_blank_controls by (auto simp: plain_field_def)

lemma getlines_fields:
  assumes "list_all plain_field ps" and "plain_field l"
  shows "SplitByTab (concat (map (\<lambda>p. p @ [tab]) ps) @ l) = ps @ (if l = [] then [] else [l])"
  using assms
  by (induction ps) (simp_all add: SplitByTab_def plain_field_def getlines_part getlines_last)

lemma task_line_fields: "task_line t = concat (map (\<lambda>p. p @ [tab]) (task_fields t)) @ blank_controls (task_detail t)"
  by (simp add: task_line_def task_fields_def)

lemma task_fields_plain: "task_plain t \<Longrightarrow> list_all plain_field (task_fields t)"
  by (simp add: task_fields_def task_plain_def, simp add: plain_field_def tab_def newline_def)

lemma task_line_plain: "task_plain t \<Longrightarrow> plain_line (task_line t)"
proof -
  assume "task_plain t"
  then have "list_all plain_field (task_fields t)" by (rule task_fields_plain)
  then have "newline \<notin> set (concat (map (\<lambda>p. p @ [tab]) (task_fields t)))"
    by (auto simp: list_all_iff plain_field_def tab_def newline_def)
  moreover have "last (concat (map (\<lambda>p. p @ [tab]) (task_fields t))) = tab" by (simp add: task_fields_def)
  moreover have "blank_controls (task_detail t) \<noteq> [] \<Longrightarrow> last (blank_controls (task_detail t)) \<noteq> CHR 0x0D"
    using set_blank_controls last_in_set by blast
  ultimately show ?thesis
    using set_blank_controls [of newline "task_detail t"]
    by (auto simp: plain_line_def task_line_fields last_append tab_def)
qed

definition pulled :: "ScheduledTaskRecord \<Rightarrow> ScheduledTaskRecord" where
  "pulled t = t\<lparr>task_detail := blank_controls (task_detail t)\<rparr>"

lemma stoull_retry: "stoull (to_string (unat w)) = Inr (word_of_nat (unat w))" for w :: u32
proof -
  have "unat w < 2 ^ 32" using unsigned_less [of w] by simp
  then show ?thesis by (simp add: stoull_to_string)
qed

lemma ucast_retry: "(ucast (word_of_nat (unat w) :: u64) :: u32) = w" for w :: u32
  using unsigned_less [of w, where 'a = nat] by (simp add: unsigned_of_nat take_bit_nat_eq_self_iff)

lemma task_of_line:
  assumes "task_plain t"
  shows "length (SplitByTab (task_line t)) \<ge> 9" and "task_of_parts (SplitByTab (task_line t)) = Inr (pulled t)"
proof -
  have parts: "SplitByTab (task_line t) = task_fields t @
      (if blank_controls (task_detail t) = [] then [] else [blank_controls (task_detail t)])"
    unfolding task_line_fields using task_fields_plain [OF assms] by (intro getlines_fields) simp_all
  then show "length (SplitByTab (task_line t)) \<ge> 9" by (simp add: task_fields_def)
  show "task_of_parts (SplitByTab (task_line t)) = Inr (pulled t)"
    unfolding parts
    by (cases "task_domain t"; cases "task_state t"; cases t)
      (simp_all add: task_of_parts_def task_fields_def stoull_to_string_u64 stoull_retry ucast_retry pulled_def
        ScheduledTaskRecord_init_def)
qed

lemma task_line_starts: "starts_with (task_line t) [CHR ''T'', CHR ''A'', CHR ''S'', CHR ''K'', tab]" "task_line t \<noteq> ''END''"
  by (simp_all add: task_line_def starts_with_def)

lemma pulled_task_lines:
  "list_all task_plain ts \<Longrightarrow> pulled_tasks (map task_line ts @ [''END'']) = Inr (map pulled ts)"
  by (induction ts) (simp_all add: task_line_starts task_of_line not_less Let_def)

lemma lines_of_answer:
  "terminated (p @ concat (map (\<lambda>t. newline # f t) ts) @ newline # ''END'') =
     concat (map (\<lambda>p. p @ [newline]) (p # map f ts @ [''END'']))"
proof -
  have "p @ concat (map (\<lambda>t. newline # f t) ts) @ [newline] = concat (map (\<lambda>p. p @ [newline]) (p # map f ts))" for p
    by (induction ts arbitrary: p) simp_all
  from this [of p] have "p @ concat (map (\<lambda>t. newline # f t) ts) @ newline # ''END'' @ [newline] =
      concat (map (\<lambda>p. p @ [newline]) (p # map f ts)) @ ''END'' @ [newline]"
    by simp
  then show ?thesis by (simp add: terminated_def newline_def)
qed

lemma PullTasks_link:
  assumes "is_word n" and "list_all task_plain (ListTasks (rt_store rt))"
  shows "Client_PullTasks (control_link api off) n (Some rt) =
    (Inr (Status_Ok, map (\<lambda>t. t\<lparr>task_detail := blank_controls (task_detail t)\<rparr>)
       (filter (\<lambda>t. task_state t = JobQueued \<and> (task_source_node t = n \<or> task_target_node t = n))
          (ListTasks (rt_store rt)))), Some rt)"
proof -
  define q where "q = filter (\<lambda>t. task_state t = JobQueued) (ListTasksForNode (rt_store rt) n)"
  have q: "q = filter (\<lambda>t. task_state t = JobQueued \<and> (task_source_node t = n \<or> task_target_node t = n))
      (ListTasks (rt_store rt))"
    by (simp add: q_def ListTasksForNode_def ListTasks_def conj_commute)
  then have plain: "list_all task_plain q" using assms(2) by (auto simp: list_all_iff)
  have "ParseRequest (received (''PULL_TASKS '' @ n)) = \<lparr>req_command = ''PULL_TASKS'', req_args = [n]\<rparr>"
    using ParseRequest_all_words [of "''PULL_TASKS''" "[n]"] assms(1) by simp
  then have "HandleCommand api off (ParseRequest (received (''PULL_TASKS '' @ n))) rt =
      (Inr ((''OK TASKS '' @ to_string (length q)) @ concat (map (\<lambda>t. newline # task_line t) q) @ newline # ''END''), rt)"
    by (simp add: HandleCommand_def HandlePullTasks_def q_def Let_def)
  note this [THEN SendCommand_link, unfolded lines_of_answer]
  moreover have "plain_line p" if p: "p \<in> set ((''OK TASKS '' @ to_string (length q)) # map task_line q @ [''END''])" for p
  proof -
    have "plain_line (''OK TASKS '' @ to_string k)" for k
      using digits_plain(1) [of k] to_string_digits [of "last (to_string k)" k]
      by (auto simp: plain_line_def plain_field_def newline_def is_digit_def last_append)
    moreover have "plain_line ''END''" by (simp add: plain_line_def newline_def)
    ultimately show ?thesis using p plain task_line_plain by (auto simp: list_all_iff)
  qed
  ultimately have "SendCommand (control_link api off) (''PULL_TASKS '' @ n) (Some rt) =
      ((Status_Ok, (''OK TASKS '' @ to_string (length q)) # map task_line q @ [''END'']), Some rt)"
    using decode_lines [of "''OK TASKS '' @ to_string (length q)" "map task_line q @ [''END'']"]
    by (simp add: starts_with_def)
  then have "Client_PullTasks (control_link api off) n (Some rt) = (Inr (Status_Ok, map pulled q), Some rt)"
    using plain by (simp add: Client_PullTasks_def starts_with_def pulled_task_lines)
  moreover have "pulled = (\<lambda>t. t\<lparr>task_detail := blank_controls (task_detail t)\<rparr>)"
    by (rule ext) (simp add: pulled_def)
  ultimately show ?thesis unfolding q by (simp only:)
qed

text \<open>
  C16: A device that polls gets exactly the queued tasks it takes part in, in the order of the control node.
  Every field arrives unchanged, except that the tabulators and line ends of the detail are blanks; the
  ids and node names must not contain any themselves.
\<close>

theorem pull_tasks_roundtrip:
  assumes "is_word n" and "list_all task_plain (ListTasks (rt_store rt))"
  shows "Client_PullTasks (control_link api off) n (Some rt) =
    (Inr (Status_Ok, map (\<lambda>t. t\<lparr>task_detail := blank_controls (task_detail t)\<rparr>)
       (filter (\<lambda>t. task_state t = JobQueued \<and> (task_source_node t = n \<or> task_target_node t = n))
          (ListTasks (rt_store rt)))), Some rt)"
  by (rule PullTasks_link [OF assms])

theorem pull_tasks_roundtrip_witness:
  "let t = ScheduledTaskRecord_init\<lparr>task_task_id := ''k'', task_source_node := ''n'', task_detail := ''a'' @ [tab] @ ''b''\<rparr>;
       rt = SystemRuntime_new (UpsertScheduledTask t MetadataStore_init) None sample_fs 7 7
   in Client_PullTasks (control_link offline_api 30) ''n'' (Some rt) =
        (Inr (Status_Ok, [t\<lparr>task_detail := ''a b''\<rparr>]), Some rt)"
proof -
  let ?t = "ScheduledTaskRecord_init\<lparr>task_task_id := ''k'', task_source_node := ''n'', task_detail := ''a'' @ [tab] @ ''b''\<rparr>"
  let ?rt = "SystemRuntime_new (UpsertScheduledTask ?t MetadataStore_init) None sample_fs 7 7"
  have ts: "ListTasks (rt_store ?rt) = [?t]"
    by (simp add: ListTasks_def SystemRuntime_new_def ListScheduledTasks_def UpsertScheduledTask_def MetadataStore_init_def)
  have "is_word ''n''" by (simp add: is_word_def is_space_def)
  moreover have "list_all task_plain (ListTasks (rt_store ?rt))"
    unfolding ts by (simp add: task_plain_def plain_field_def tab_def newline_def ScheduledTaskRecord_init_def)
  ultimately have "Client_PullTasks (control_link offline_api 30) ''n'' (Some ?rt) =
    (Inr (Status_Ok, map (\<lambda>t. t\<lparr>task_detail := blank_controls (task_detail t)\<rparr>)
       (filter (\<lambda>t. task_state t = JobQueued \<and> (task_source_node t = ''n'' \<or> task_target_node t = ''n''))
          (ListTasks (rt_store ?rt)))), Some ?rt)"
    by (rule pull_tasks_roundtrip)
  then show ?thesis
    unfolding ts Let_def by (simp add: ScheduledTaskRecord_init_def blank_controls_def tab_def)
qed

section \<open>Bundles\<close>

lemma SplitByTab_join:
  "list_all plain_field ps \<Longrightarrow> ps \<noteq> [] \<Longrightarrow> last ps \<noteq> [] \<Longrightarrow> SplitByTab (join_with [tab] ps) = ps"
  by (induction "[tab]" ps rule: join_with.induct)
    (simp_all add: SplitByTab_def plain_field_def getlines_part getlines_last)

lemma join_plain_line:
  assumes "list_all plain_field ps" and "ps \<noteq> []" and "last ps \<noteq> []" and "plain_line (last ps)"
  shows "plain_line (join_with [tab] ps)"
proof -
  have "newline \<notin> set (join_with [tab] ps)"
    using assms(1) by (induction "[tab]" ps rule: join_with.induct) (simp_all add: plain_field_def tab_def newline_def)
  moreover have "join_with [tab] ps \<noteq> [] \<and> last (join_with [tab] ps) = last (last ps)"
    using assms(2,3) by (induction "[tab]" ps rule: join_with.induct) simp_all
  ultimately show ?thesis using assms(3,4) by (simp add: plain_line_def)
qed

lemma starts_with_self [simp]: "starts_with (p @ t) p"
  by (simp add: starts_with_def)

lemma fetch_line:
  assumes "HandleCommand api off (ParseRequest (received c)) rt = (Inr (join_with [tab] (h # ps)), rt)"
    and "list_all plain_field (h # ps)" and "ps \<noteq> []" and "last ps \<noteq> []" and "plain_line (last ps)"
    and "\<not> starts_with (join_with [tab] (h # ps)) ''ERR ''"
  shows "SendCommand (control_link api off) c (Some rt) = ((Status_Ok, [join_with [tab] (h # ps)]), Some rt)"
    and "SplitByTab (join_with [tab] (h # ps)) = h # ps"
    and "starts_with (join_with [tab] (h # ps)) (h @ [tab])"
proof -
  have "plain_line (join_with [tab] (h # ps))" using assms by (intro join_plain_line) simp_all
  then show "SendCommand (control_link api off) c (Some rt) = ((Status_Ok, [join_with [tab] (h # ps)]), Some rt)"
    using assms(6) SendCommand_link [OF assms(1)] by (simp add: decode_plain)
  show "SplitByTab (join_with [tab] (h # ps)) = h # ps" using assms by (intro SplitByTab_join) simp_all
  show "starts_with (join_with [tab] (h # ps)) (h @ [tab])"
    using assms(3) starts_with_self [of "h @ [tab]"] by (cases ps) simp_all
qed

lemma ParseRestoreState_name [simp]: "ParseRestoreState (RestoreStateName st) = st"
  by (cases st) (simp_all add: ParseRestoreState_def)

text \<open>What a fetched record keeps of the stored one: the fields the protocol does not carry are reset.\<close>

definition restore_plain :: "RestoreRequest \<Rightarrow> StoredObjectRecord \<Rightarrow> FileRecord \<Rightarrow> bool" where
  "restore_plain q ob f \<longleftrightarrow>
     list_all plain_field
       [restore_request_id q, restore_file_id q, restore_source_node_id q, restore_target_node_id q,
        restore_destination_path q, restore_error_message q, stored_backend_name ob, stored_storage_key ob,
        stored_access_url ob, stored_source_path ob, file_relative_path f, file_absolute_path f, file_root_hash f] \<and>
     file_root_hash f \<noteq> [] \<and> last (file_root_hash f) \<noteq> CHR 0x0D"

lemma FetchRestoreBundle_link:
  assumes "is_word k" and "FindRestoreRequest rt k = Some q"
    and "FindStoredObject (rt_store rt) (restore_file_id q) = Some ob"
    and "Index_FindFile (rt_store rt) (restore_file_id q) = Some f" and "restore_plain q ob f"
  shows "Client_FetchRestoreBundle (control_link api off) k RestoreRequest_init StoredObjectRecord_init FileRecord_init (Some rt) =
    (Inr (Status_Ok, q\<lparr>restore_created_at_epoch := 0\<rparr>, ob\<lparr>stored_file_id := restore_file_id q\<rparr>,
       f\<lparr>file_file_id := restore_file_id q, file_status := FileReady, file_chunks := []\<rparr>), Some rt)"
proof -
  let ?ps = "[restore_request_id q, restore_file_id q, restore_source_node_id q, restore_target_node_id q,
    restore_destination_path q, RestoreStateName (restore_state q), to_string_u64 (restore_completed_at_epoch q),
    restore_error_message q, stored_backend_name ob, stored_storage_key ob, stored_access_url ob, stored_source_path ob,
    to_string_u64 (stored_stored_at_epoch ob), file_relative_path f, file_absolute_path f, to_string_u64 (file_size f),
    to_string_u64 (file_modified_time_epoch f), to_string (unat (file_mode f)), file_root_hash f]"
  let ?line = "join_with [tab] (''OK RESTORE'' # ?ps)"
  have "ParseRequest (received (''GET_RESTORE '' @ k)) = \<lparr>req_command = ''GET_RESTORE'', req_args = [k]\<rparr>"
    using ParseRequest_all_words [of "''GET_RESTORE''" "[k]"] assms(1) by simp
  then have cmd: "HandleCommand api off (ParseRequest (received (''GET_RESTORE '' @ k))) rt = (Inr ?line, rt)"
    using assms(2-4) by (simp only: HandleCommand_def HandleGetRestore_def) simp
  have fields: "list_all plain_field (''OK RESTORE'' # ?ps)"
    using assms(5) by (simp add: restore_plain_def) (simp add: plain_field_def tab_def newline_def)
  have last: "?ps \<noteq> []" "last ?ps \<noteq> []" "plain_line (last ?ps)"
    using assms(5) by (simp_all add: restore_plain_def plain_line_def plain_field_def)
  have "\<not> starts_with ?line ''ERR ''" by (simp add: starts_with_def)
  note line = fetch_line [OF cmd fields last this]
  have "restore_bundle_of_parts (''OK RESTORE'' # ?ps) RestoreRequest_init StoredObjectRecord_init FileRecord_init =
      Inr (q\<lparr>restore_created_at_epoch := 0\<rparr>, ob\<lparr>stored_file_id := restore_file_id q\<rparr>,
        f\<lparr>file_file_id := restore_file_id q, file_status := FileReady, file_chunks := []\<rparr>)"
    by (cases q; cases ob; cases f)
      (simp add: restore_bundle_of_parts_def stoull_to_string_u64 stoull_retry ucast_retry RestoreRequest_init_def
        StoredObjectRecord_init_def FileRecord_init_def)
  then show ?thesis
    unfolding Client_FetchRestoreBundle_def line(1) using line(2,3) by (simp add: Let_def del: join_with.simps)
qed

definition entry_plain :: "SharedLibraryEntry \<Rightarrow> bool" where
  "entry_plain e \<longleftrightarrow> list_all plain_field
     [entry_entry_id e, entry_owner_node_id e, entry_source_path e, entry_file_id e, entry_display_name e, entry_note e]"

lemma FetchSharedEntry_link:
  assumes "is_word k" and "Library_FindEntry rt k = Some e" and "entry_plain e"
  shows "Client_FetchSharedEntry (control_link api off) k SharedLibraryEntry_init (Some rt) =
    (Inr (Status_Ok, e\<lparr>entry_delivered := False, entry_recipient_nodes := [], entry_recipients := []\<rparr>), Some rt)"
proof -
  let ?ps = "[entry_entry_id e, entry_owner_node_id e, entry_source_path e, entry_file_id e, entry_display_name e,
    entry_note e, to_string_u64 (entry_created_at_epoch e), to_string_u64 (entry_expires_at_epoch e),
    if entry_expired e then ''1'' else ''0'']"
  let ?line = "join_with [tab] (''OK SHARED'' # ?ps)"
  have "ParseRequest (received (''GET_SHARED_ENTRY '' @ k)) = \<lparr>req_command = ''GET_SHARED_ENTRY'', req_args = [k]\<rparr>"
    using ParseRequest_all_words [of "''GET_SHARED_ENTRY''" "[k]"] assms(1) by simp
  then have cmd: "HandleCommand api off (ParseRequest (received (''GET_SHARED_ENTRY '' @ k))) rt = (Inr ?line, rt)"
    using assms(2) by (simp only: HandleCommand_def HandleGetSharedEntry_def) simp
  have fields: "list_all plain_field (''OK SHARED'' # ?ps)"
    using assms(3) by (simp add: entry_plain_def) (simp add: plain_field_def tab_def newline_def)
  have last: "?ps \<noteq> []" "last ?ps \<noteq> []" "plain_line (last ?ps)"
    by (simp_all add: plain_line_def newline_def)
  have "\<not> starts_with ?line ''ERR ''" by (simp add: starts_with_def)
  note line = fetch_line [OF cmd fields last this]
  have "shared_entry_of_parts (''OK SHARED'' # ?ps) SharedLibraryEntry_init =
      Inr (e\<lparr>entry_delivered := False, entry_recipient_nodes := [], entry_recipients := []\<rparr>)"
    by (cases e) (simp add: shared_entry_of_parts_def stoull_to_string_u64 SharedLibraryEntry_init_def)
  then show ?thesis
    unfolding Client_FetchSharedEntry_def line(1) using line(2,3) by (simp add: Let_def del: join_with.simps)
qed

text \<open>
  C26: A device fetches the restore request, stored object and file record, or the shared entry, exactly as the control
  node holds them, apart from what the protocol does not carry: the creation time of the request, the
  chunks of the file (its status becomes ready) and the recipients of the entry. The texts must not
  contain tabulators or line ends, and the root hash must not be empty.
\<close>

theorem fetched_records_roundtrip:
  assumes "is_word k"
  shows "(\<forall>q ob f. FindRestoreRequest rt k = Some q \<and> FindStoredObject (rt_store rt) (restore_file_id q) = Some ob \<and>
        Index_FindFile (rt_store rt) (restore_file_id q) = Some f \<and> restore_plain q ob f \<longrightarrow>
      Client_FetchRestoreBundle (control_link api off) k RestoreRequest_init StoredObjectRecord_init FileRecord_init (Some rt) =
        (Inr (Status_Ok, q\<lparr>restore_created_at_epoch := 0\<rparr>, ob\<lparr>stored_file_id := restore_file_id q\<rparr>,
           f\<lparr>file_file_id := restore_file_id q, file_status := FileReady, file_chunks := []\<rparr>), Some rt)) \<and>
    (\<forall>e. Library_FindEntry rt k = Some e \<and> entry_plain e \<longrightarrow>
      Client_FetchSharedEntry (control_link api off) k SharedLibraryEntry_init (Some rt) =
        (Inr (Status_Ok, e\<lparr>entry_delivered := False, entry_recipient_nodes := [], entry_recipients := []\<rparr>), Some rt))"
  using FetchRestoreBundle_link [OF assms] FetchSharedEntry_link [OF assms] by blast

theorem fetched_records_roundtrip_witness:
  "let e = SharedLibraryEntry_init\<lparr>entry_entry_id := ''e'', entry_display_name := ''a b'', entry_recipient_nodes := [''n'']\<rparr>;
       rt = SystemRuntime_new (UpsertSharedLibraryEntry e MetadataStore_init) None sample_fs 7 7
   in Client_FetchSharedEntry (control_link offline_api 30) ''e'' SharedLibraryEntry_init (Some rt) =
        (Inr (Status_Ok, e\<lparr>entry_recipient_nodes := []\<rparr>), Some rt)"
proof -
  let ?e = "SharedLibraryEntry_init\<lparr>entry_entry_id := ''e'', entry_display_name := ''a b'', entry_recipient_nodes := [''n'']\<rparr>"
  let ?rt = "SystemRuntime_new (UpsertSharedLibraryEntry ?e MetadataStore_init) None sample_fs 7 7"
  have k: "is_word ''e''" by (simp add: is_word_def is_space_def)
  have "Library_FindEntry ?rt ''e'' = Some ?e"
    by (simp add: Library_FindEntry_def SystemRuntime_new_def shared_library_entries_table.get_upsert SharedLibraryEntry_init_def)
  moreover have "entry_plain ?e"
    by (simp add: entry_plain_def plain_field_def tab_def newline_def SharedLibraryEntry_init_def)
  ultimately show ?thesis
    using fetched_records_roundtrip [OF k, of ?rt offline_api 30] by (simp add: Let_def SharedLibraryEntry_init_def)
qed

section \<open>Remote calls\<close>



text \<open>
  C37: A device whose name contains a blank cannot register. The server takes the second word of the name for the address
  and the address for the time of the last heartbeat; when the address does not start with a number the
  exception of \<^verbatim>\<open>std::stoull\<close> ends the control node.
\<close>

theorem spaced_device_name:
  assumes "list_all is_word [i, a, b, z]"
    and "dev = \<lparr>node_node_id = i, node_device_name = a @ '' '' @ b, node_zt_ip = z, node_last_seen_epoch = e\<rparr>"
  shows "Client_RegisterNode (control_link api off) dev (Some rt) =
    (case stoull z of
       Inl _ \<Rightarrow> (Status_Error kInternalError ''register failed'', None)
     | Inr epoch \<Rightarrow> (Status_Ok, Some (snd (on_store (RegisterDevice
         \<lparr>node_node_id = i, node_device_name = a, node_zt_ip = b, node_last_seen_epoch = epoch\<rparr>) rt))))"
proof -
  let ?c = "''REGISTER '' @ i @ '' '' @ (a @ '' '' @ b) @ '' '' @ z @ '' '' @ to_string_u64 e"
  have parsed: "ParseRequest (received ?c) = \<lparr>req_command = ''REGISTER'', req_args = [i, a, b, z, to_string_u64 e]\<rparr>"
    using ParseRequest_words [of "''REGISTER''" "[i, a, b, z]" "to_string_u64 e"] assms(1) by (auto simp: heard_word)
  show ?thesis
  proof (cases "stoull z")
    case (Inl x)
    then have "HandleCommand api off (ParseRequest (received ?c)) rt = (Inl x, rt)"
      unfolding parsed by (simp add: HandleCommand_def HandleRegister_def)
    from SendCommand_crash [OF this] show ?thesis
      by (simp add: Client_RegisterNode_def expect_line_def first_line_or_def Inl assms(2))
  next
    case (Inr epoch)
    let ?r = "on_store (RegisterDevice
         \<lparr>node_node_id = i, node_device_name = a, node_zt_ip = b, node_last_seen_epoch = epoch\<rparr>) rt"
    have "HandleCommand api off (ParseRequest (received ?c)) rt = (Inr (answer (fst ?r) ''OK REGISTERED''), snd ?r)"
      unfolding parsed using Inr by (simp add: HandleCommand_def HandleRegister_def split_beta Let_def)
    from expect_line_call [OF this] show ?thesis
      by (simp add: Client_RegisterNode_def Inr assms(2) on_store_def RegisterDevice_def Let_def)
  qed
qed

theorem spaced_device_name_witness:
  "let dev = \<lparr>node_node_id = ''n'', node_device_name = ''My Laptop'', node_zt_ip = ''10.0.0.1'', node_last_seen_epoch = 9\<rparr>;
       rt = SystemRuntime_new MetadataStore_init None sample_fs 7 7
   in map_option (\<lambda>rt. GetNode (rt_store rt) ''n'') (snd (Client_RegisterNode (control_link offline_api 30) dev (Some rt))) =
        Some (Some \<lparr>node_node_id = ''n'', node_device_name = ''My'', node_zt_ip = ''Laptop'', node_last_seen_epoch = 10\<rparr>)"
proof -
  let ?dev = "\<lparr>node_node_id = ''n'', node_device_name = ''My'' @ '' '' @ ''Laptop'', node_zt_ip = ''10.0.0.1'', node_last_seen_epoch = 9\<rparr>"
  let ?rt = "SystemRuntime_new MetadataStore_init None sample_fs 7 7"
  have words: "list_all is_word [''n'', ''My'', ''Laptop'', ''10.0.0.1'']" by (simp add: is_word_def is_space_def)
  have "stoull ''10.0.0.1'' = Inr 10" by (simp add: stoull_def is_space_def is_digit_def digit_value_def)
  then show ?thesis
    using spaced_device_name [OF words refl, of offline_api 30 9 ?rt]
    by (simp add: Let_def on_store_def RegisterDevice_def SystemRuntime_new_def node_table.get_upsert)
qed

end
