(* ===== verification/Program_Host.thy ===== *)
theory Program_Host
  imports Control_Client
begin

text \<open>
  What the command line programs under \<^verbatim>\<open>apps\<close> share: the machine they run on, how a run ends, the opening
  of the metadata database, the connection to a control node and the printing helpers.

  A database file is seen as the store it holds (the abstraction of \<open>Sqlite_Refinement\<close>), or as the
  exception that opening it throws. The clock does not advance during one run of a program that ends by
  itself. A run is a function of the arguments: \<open>argv ! 0\<close> is the name of the program.
\<close>

section \<open>Machine and outcome\<close>

type_synonym u16 = "16 word"

record 'w host =
  host_databases :: "path \<Rightarrow> MetadataStore result"
  host_disk :: FileSystem
  host_now :: u64
  host_now_ns :: u64
  host_net :: 'w

text \<open>The network a control node client of some host and port talks over.\<close>

type_synonym 'w internet = "string \<Rightarrow> u16 \<Rightarrow> 'w network"

text \<open>\<open>Waiting\<close>: the program still waits for input after everything it was given.\<close>

datatype program_end = Exited nat | Terminated exn | Waiting

record outcome =
  out_end :: program_end
  out_stdout :: string
  out_stderr :: string

definition succeeds :: "string \<Rightarrow> outcome" where
  "succeeds text = \<lparr>out_end = Exited 0, out_stdout = text, out_stderr = []\<rparr>"

definition fails :: "nat \<Rightarrow> string \<Rightarrow> outcome" where
  "fails code text = \<lparr>out_end = Exited code, out_stdout = [], out_stderr = text @ [newline]\<rparr>"

definition misused :: "string \<Rightarrow> outcome" where
  "misused usage = \<lparr>out_end = Exited 1, out_stdout = usage, out_stderr = []\<rparr>"

definition terminates :: "exn \<Rightarrow> outcome" where
  "terminates e = \<lparr>out_end = Terminated e, out_stdout = [], out_stderr = []\<rparr>"

lemma outcome_simps [simp]:
  "out_end (succeeds t) = Exited 0" "out_stdout (succeeds t) = t" "out_stderr (succeeds t) = []"
  "out_end (fails c t) = Exited c" "out_stdout (fails c t) = []" "out_stderr (fails c t) = t @ [newline]"
  "out_end (misused t) = Exited 1" "out_stdout (misused t) = t" "out_stderr (misused t) = []"
  "out_end (terminates e) = Terminated e" "out_stdout (terminates e) = []" "out_stderr (terminates e) = []"
  by (simp_all add: succeeds_def fails_def misused_def terminates_def)

text \<open>The end of a subcommand: exit code and message for a bad status, the text for a good one.\<close>

definition conclude :: "nat \<Rightarrow> string \<Rightarrow> string \<Rightarrow> Status \<Rightarrow> outcome" where
  "conclude code failure success status =
     (if \<not> status_ok status then fails code (failure @ '': '' @ status_message status)
      else succeeds success)"

lemma conclude_end:
  "out_end (conclude c f s status) = (if status_ok status then Exited 0 else Exited c)"
  "out_stdout (conclude c f s status) = (if status_ok status then s else [])"
  by (simp_all add: conclude_def)

section \<open>Opening what a run works on\<close>

text \<open>
  \<^verbatim>\<open>SqliteMetadataStore metadata_store(path); SystemRuntime runtime(metadata_store);\<close> and the rest of the
  subcommand. What the runtime leaves in the store and on the disk stays there, also when it throws.
\<close>

definition with_runtime ::
  "path \<Rightarrow> (SystemRuntime \<Rightarrow> outcome \<times> SystemRuntime) \<Rightarrow> 'w host \<Rightarrow> outcome \<times> 'w host"
where
  "with_runtime db_path body h =
     (case host_databases h db_path of
        Inl e \<Rightarrow> (terminates e, h)
      | Inr store \<Rightarrow>
          let (r, rt) = body (SystemRuntime_new store None (host_disk h) (host_now h) (host_now_ns h))
          in (r, h\<lparr>host_databases := (host_databases h)(db_path := Inr (rt_store rt)), host_disk := rt_fs rt\<rparr>))"

text \<open>An expression of the arguments that may throw before anything else happens.\<close>

definition evaluated :: "'a result \<Rightarrow> ('a \<Rightarrow> 'w host \<Rightarrow> outcome \<times> 'w host) \<Rightarrow> 'w host \<Rightarrow> outcome \<times> 'w host" where
  "evaluated x body h = (case x of Inl e \<Rightarrow> (terminates e, h) | Inr v \<Rightarrow> body v h)"

text \<open>\<^verbatim>\<open>static_cast<std::uint16_t>(std::stoul(text))\<close>: the number is cut to 16 bits.\<close>

definition ParsePort :: "string \<Rightarrow> u16 result" where
  "ParsePort text = bind_result (stoull text) (\<lambda>value. Inr (ucast value))"

text \<open>An operation of a control node client.\<close>

definition over_network :: "('w \<Rightarrow> 'a \<times> 'w) \<Rightarrow> ('a \<Rightarrow> outcome) \<Rightarrow> 'w host \<Rightarrow> outcome \<times> 'w host" where
  "over_network call report h = (let (x, w) = call (host_net h) in (report x, h\<lparr>host_net := w\<rparr>))"

section \<open>Printing\<close>

definition println :: "string list \<Rightarrow> string" where
  "println parts = concat parts @ [newline]"

definition printed_bool :: "bool \<Rightarrow> string" where
  "printed_bool b = (if b then ''1'' else ''0'')"

fun SharedRecipientStateName :: "SharedRecipientState \<Rightarrow> string" where
  "SharedRecipientStateName RecipientPending = ''pending''"
| "SharedRecipientStateName RecipientDelivered = ''delivered''"
| "SharedRecipientStateName RecipientFailed = ''failed''"

definition printed_recipients :: "SharedLibraryRecipient list \<Rightarrow> string" where
  "printed_recipients rs =
     join_with '','' (map (\<lambda>r. recip_node_id r @ '':'' @ SharedRecipientStateName (recip_state r)) rs)"

text \<open>\<^verbatim>\<open>static_cast<int>\<close> of the two enumerations that are printed as numbers.\<close>

fun domain_number :: "JobDomain \<Rightarrow> nat" where
  "domain_number DomainBackup = 0"
| "domain_number DomainTransfer = 1"
| "domain_number DomainRestore = 2"

fun state_number :: "JobState \<Rightarrow> nat" where
  "state_number JobQueued = 0"
| "state_number JobRunning = 1"
| "state_number JobCompleted = 2"
| "state_number JobFailed = 3"

definition printed_task :: "ScheduledTaskRecord \<Rightarrow> string" where
  "printed_task task =
     println [''task '', task_task_id task, '' domain='', to_string (domain_number (task_domain task)),
       '' state='', to_string (state_number (task_state task)),
       '' retry='', to_string (unat (task_retry_count task)), '' detail='', task_detail task]"

definition printed_job :: "BackupJob \<Rightarrow> string" where
  "printed_job job = println [''backup_job '', job_job_id job, '' '', job_node_id job, '' '', job_source_path job]"

section \<open>What a run keeps\<close>

text \<open>Every database of a machine is well formed.\<close>

definition host_inv :: "'w host \<Rightarrow> bool" where
  "host_inv h \<longleftrightarrow> (\<forall>p store. host_databases h p = Inr store \<longrightarrow> system_inv store)"

lemma with_runtime_inv:
  assumes "host_inv h"
    and "\<And>rt. system_inv (rt_store rt) \<Longrightarrow> system_inv (rt_store (snd (body rt)))"
  shows "host_inv (snd (with_runtime p body h))"
  using assms by (auto simp: with_runtime_def host_inv_def SystemRuntime_new_def split_beta Let_def split: sum.splits)

lemma evaluated_inv:
  "host_inv h \<Longrightarrow> (\<And>v. host_inv (snd (body v h))) \<Longrightarrow> host_inv (snd (evaluated x body h))"
  by (simp add: evaluated_def split: sum.splits)

lemma over_network_inv: "host_inv h \<Longrightarrow> host_inv (snd (over_network call report h))"
  by (simp add: over_network_def host_inv_def split_beta Let_def)

text \<open>A subcommand that only reads leaves the machine as it was.\<close>

lemma with_runtime_reads:
  assumes "\<And>rt. rt_store (snd (body rt)) = rt_store rt" "\<And>rt. rt_fs (snd (body rt)) = rt_fs rt"
  shows "snd (with_runtime p body h) = h"
proof (cases "host_databases h p")
  case (Inr store)
  have "(host_databases h)(p := Inr store) = host_databases h" using Inr by auto
  then show ?thesis using Inr assms by (simp add: with_runtime_def split_beta Let_def SystemRuntime_new_def)
qed (simp add: with_runtime_def)

end
