(* ===== verification/Sync_Cli.thy ===== *)
theory Sync_Cli
  imports Sync_Run Program_Host
begin

text \<open>
  \<open>main\<close> of \<^verbatim>\<open>apps/sync_v1/main.cpp\<close>: its arguments, the server thread up to its listening socket, the client,
  and how the program ends. The two threads meet in the connection only: the server reads the tree as it is
  when the program starts, and local and remote database are different ones. What the threads print is left
  out. The properties are when the program ends at all, what an exit code of 0 means, and that a missing
  file arrives.
\<close>

section \<open>Server thread\<close>

text \<open>The chunker of both threads.\<close>

definition sync_chunker :: "'h \<Rightarrow> 'h Chunker" where
  "sync_chunker h = \<lparr>chunker_chunk_size = 4 * 1024 * 1024, chunker_hasher = h\<rparr>"

text \<open>
  \<open>RunServer\<close> up to the listening socket: opening the database, the scan, the manifest. \<open>listen\<close> is the outcome
  of creating and binding the socket.
\<close>

definition server_start ::
  "'h IHasher \<Rightarrow> 'h \<Rightarrow> FileSystem \<Rightarrow> path \<Rightarrow> unit result \<Rightarrow> MetadataStore result \<Rightarrow>
     (ManifestFile list \<times> (string \<rightharpoonup> path)) result \<times> MetadataStore result"
where
  "server_start ops h fs remote_root listen remote_db =
     (case remote_db of
        Inl e \<Rightarrow> (Inl e, remote_db)
      | Inr remote_store \<Rightarrow>
          (case ScanDirectory ops fs remote_root [] (sync_chunker h) remote_store of
             (Inl e, _, remote_store) \<Rightarrow> (Inl e, Inr remote_store)
           | (Inr _, _, remote_store) \<Rightarrow>
               let remote_files = ListFiles remote_store
               in (bind_result listen (\<lambda>_. Inr (BuildManifest remote_files, source_paths remote_files)),
                   Inr remote_store)))"

definition server_hello :: HelloMessage where
  "server_hello = \<lparr>hello_node_id = ''remote-node'', hello_device_name = ''yun-cunchu-v1-server'',
     hello_protocol_version = ''1.0''\<rparr>"

text \<open>
  The attempts of the client to connect. The server gets to its socket after \<open>late\<close> of them; what it sends
  on its own is the hello and the manifest.
\<close>

definition sync_connect ::
  "(ManifestFile list \<times> (string \<rightharpoonup> path)) result \<Rightarrow> nat \<Rightarrow> nat \<Rightarrow> (MessageFrame list \<times> unit result option) result"
where
  "sync_connect start late attempt =
     (case start of
        Inr (manifest, _) \<Rightarrow>
          if late \<le> attempt then Inr ([EncodeHello server_hello, EncodeManifestSummary manifest], None)
          else throw (RuntimeError ''failed to connect client socket: Connection refused'')
      | Inl _ \<Rightarrow> throw (RuntimeError ''failed to connect client socket: Connection refused''))"

definition sync_server ::
  "'h IHasher \<Rightarrow> 'h \<Rightarrow> FileSystem \<Rightarrow> (ManifestFile list \<times> (string \<rightharpoonup> path)) result \<Rightarrow> unit result option peer"
where
  "sync_server ops h fs start =
     (case start of
        Inr (manifest, paths) \<Rightarrow> server_peer ops h fs manifest paths
      | Inl _ \<Rightarrow> (\<lambda>_ ended. ([], ended)))"

text \<open>
  How the program ends. A server that listens and was never connected to waits in \<^verbatim>\<open>accept\<close>, and \<open>main\<close> waits
  in \<^verbatim>\<open>server.join()\<close>. A connection that the client closes ends the serving loop.
\<close>

definition sync_end ::
  "unit result \<Rightarrow> (ManifestFile list \<times> (string \<rightharpoonup> path)) result \<Rightarrow> unit result option option \<Rightarrow> program_end"
where
  "sync_end client start connection =
     (case start of
        Inl e \<Rightarrow> Exited (exit_code client (Inl e))
      | Inr _ \<Rightarrow>
          (case connection of
             None \<Rightarrow> Waiting
           | Some ended \<Rightarrow> Exited (exit_code client (case ended of None \<Rightarrow> Inr () | Some r \<Rightarrow> r))))"

text \<open>These are the parts of \<open>RunServer\<close>: what it sends at once, and the loop over the frames that arrive.\<close>

lemma RunServer_parts:
  assumes "server_start ops h fs remote_root (Inr ()) (Inr store) = (Inr (manifest, paths), Inr store')"
  shows "RunServer ops h fs remote_root store inbox =
    (let (sent, r) = ServeLoop ops h fs manifest paths inbox
     in (EncodeHello server_hello # EncodeManifestSummary manifest # sent, r, store'))"
  using assms by (auto simp: server_start_def RunServer_def sync_chunker_def server_hello_def Let_def
      split: sum.splits prod.splits)

section \<open>The program\<close>

definition sync_backend :: "string list \<Rightarrow> StorageBackend result" where
  "sync_backend argv =
     (let backend_name = (if length argv \<ge> 6 then argv ! 5 else ''mirror'');
          backend_arg = (if length argv \<ge> 7 then argv ! 6 else []);
          backend_arg = (if backend_name = ''mirror'' \<and> backend_arg = [] then path_append (argv ! 1) ''.sync_store''
            else backend_arg)
      in CreateStorageBackend backend_name backend_arg)"

definition client_run ::
  "'h IHasher \<Rightarrow> 'h \<Rightarrow> FdfsApi \<Rightarrow> StorageBackend \<Rightarrow> path \<Rightarrow> path \<Rightarrow>
     (ManifestFile list \<times> (string \<rightharpoonup> path)) result \<Rightarrow> nat \<Rightarrow> 'w host \<Rightarrow>
     unit result \<times> FileSystem \<times> MetadataStore result \<times> unit result option option"
where
  "client_run ops hs api backend local_root local_db_path start late h =
     (case host_databases h local_db_path of
        Inl e \<Rightarrow> (Inl e, host_disk h, Inl e, None)
      | Inr local_store \<Rightarrow>
          let (r, fs, local_store, connection) = RunClient ops hs api backend (host_now h) local_root local_store
                (sync_connect start late) (sync_server ops hs (host_disk h) start) (host_disk h)
          in (r, fs, Inr local_store, connection))"

definition sync_v1_main ::
  "'h IHasher \<Rightarrow> 'h \<Rightarrow> FdfsApi \<Rightarrow> unit result \<Rightarrow> nat \<Rightarrow> string list \<Rightarrow> 'w host \<Rightarrow> program_end \<times> 'w host"
where
  "sync_v1_main ops hs api listen late argv h =
     (if length argv < 5 \<or> length argv > 7 then (Exited 1, h)
      else case sync_backend argv of
        Inl e \<Rightarrow> (Terminated e, h)
      | Inr backend \<Rightarrow>
          let (start, remote_db) = server_start ops hs (host_disk h) (argv ! 3) listen (host_databases h (argv ! 4));
              (client, fs, local_db, connection) = client_run ops hs api backend (argv ! 1) (argv ! 2) start late h
          in (sync_end client start connection,
              h\<lparr>host_databases := (host_databases h)(argv ! 4 := remote_db, argv ! 2 := local_db), host_disk := fs\<rparr>))"

section \<open>Connecting\<close>

lemma connect_loop_refused:
  "(\<And>k. k < n + left \<Longrightarrow> n \<le> k \<Longrightarrow> \<exists>m. connect k = Inl (RuntimeError m)) \<Longrightarrow>
     \<exists>e. connect_loop connect n left last_error = Inl e"
proof (induction left arbitrary: n last_error)
  case (Suc left)
  obtain m where "connect n = Inl (RuntimeError m)" using Suc.prems [of n] by auto
  moreover have "\<exists>e. connect_loop connect (n + 1) left (RuntimeError m) = Inl e"
    using Suc.prems by (intro Suc.IH) auto
  ultimately show ?case by simp
qed simp

lemma connect_loop_late:
  "(\<And>k. k < late \<Longrightarrow> \<exists>m. connect k = Inl (RuntimeError m)) \<Longrightarrow> (\<And>k. late \<le> k \<Longrightarrow> connect k = Inr x) \<Longrightarrow>
     n \<le> late \<Longrightarrow> late < n + left \<Longrightarrow> connect_loop connect n left last_error = Inr x"
proof (induction left arbitrary: n last_error)
  case (Suc left)
  show ?case
  proof (cases "late \<le> n")
    case False
    then obtain m where "connect n = Inl (RuntimeError m)" using Suc.prems(1) [of n] by auto
    moreover have "connect_loop connect (n + 1) left (RuntimeError m) = Inr x"
      using Suc.prems False by (intro Suc.IH) auto
    ultimately show ?thesis by simp
  qed (use Suc.prems in simp)
qed simp

lemma sync_connects:
  "late < 20 \<Longrightarrow> ConnectWithRetry (sync_connect (Inr (manifest, paths)) late) 20 =
     Inr ([EncodeHello server_hello, EncodeManifestSummary manifest], None)"
  unfolding ConnectWithRetry_def by (rule connect_loop_late [where late = late]) (simp_all add: sync_connect_def)

lemma sync_connect_fails:
  assumes "(\<exists>e. start = Inl e) \<or> 20 \<le> late"
  shows "\<exists>e. ConnectWithRetry (sync_connect start late) 20 = Inl e"
  unfolding ConnectWithRetry_def using assms
  by (intro connect_loop_refused) (auto simp: sync_connect_def split: sum.splits prod.splits)

text \<open>The client has a connection exactly when its scan went well and an attempt succeeded.\<close>

lemma RunClient_connected:
  assumes "RunClient ops h api backend now root store connect peer fs = (r, fs', store', connection)"
  shows "connection = None \<longleftrightarrow>
    (\<exists>e. fst (ScanDirectory ops fs root [] (sync_chunker h) store) = Inl e) \<or> (\<exists>e. ConnectWithRetry connect 20 = Inl e)"
  using assms
  by (auto simp: RunClient_def sync_chunker_def receive_frame_def Let_def split: sum.splits prod.splits list.splits)

section \<open>When the program ends\<close>

text \<open>
  C40: The program hangs exactly when its server gets to its socket but the client fails before it has a
  connection: because the local database cannot be opened, because the local tree cannot be scanned, or
  because the server was not ready within the twenty attempts of the client, as with a large remote tree.
  In every other case it ends.
\<close>

theorem sync_v1_hangs:
  assumes "5 \<le> length argv" and "length argv \<le> 7" and "sync_backend argv = Inr backend"
    and "server_start ops hs (host_disk h) (argv ! 3) listen (host_databases h (argv ! 4)) = (start, remote_db)"
  shows "fst (sync_v1_main ops hs api listen late argv h) = Waiting \<longleftrightarrow>
    (\<exists>served. start = Inr served) \<and>
    (case host_databases h (argv ! 2) of
       Inl _ \<Rightarrow> True
     | Inr store \<Rightarrow> (\<exists>e. fst (ScanDirectory ops (host_disk h) (argv ! 1) [] (sync_chunker hs) store) = Inl e) \<or> 20 \<le> late)"
proof -
  obtain client fs local_db connection where
    run: "client_run ops hs api backend (argv ! 1) (argv ! 2) start late h = (client, fs, local_db, connection)"
    by (cases "client_run ops hs api backend (argv ! 1) (argv ! 2) start late h") auto
  have main: "fst (sync_v1_main ops hs api listen late argv h) = sync_end client start connection"
    using assms by (simp add: sync_v1_main_def run Let_def del: One_nat_def)
  show ?thesis
  proof (cases start)
    case (Inl e)
    then show ?thesis by (simp add: main sync_end_def)
  next
    case (Inr served)
    obtain manifest paths where served: "served = (manifest, paths)" by fastforce
    have connects: "(\<exists>e. ConnectWithRetry (sync_connect start late) 20 = Inl e) \<longleftrightarrow> 20 \<le> late"
      using sync_connects [of late manifest paths] sync_connect_fails [of start late] unfolding Inr served
      by (cases "late < 20") auto
    have "sync_end client start connection = Waiting \<longleftrightarrow> connection = None"
      by (simp add: sync_end_def Inr split: option.split)
    moreover have "connection = None \<longleftrightarrow>
        (case host_databases h (argv ! 2) of
           Inl _ \<Rightarrow> True
         | Inr store \<Rightarrow>
             (\<exists>e. fst (ScanDirectory ops (host_disk h) (argv ! 1) [] (sync_chunker hs) store) = Inl e) \<or> 20 \<le> late)"
    proof (cases "host_databases h (argv ! 2)")
      case (Inl e)
      then have "connection = None" using run by (simp add: client_run_def)
      then show ?thesis by (simp add: Inl)
    next
      case (Inr store)
      then obtain store' where "RunClient ops hs api backend (host_now h) (argv ! 1) store (sync_connect start late)
          (sync_server ops hs (host_disk h) start) (host_disk h) = (client, fs, store', connection)"
        using run by (auto simp: client_run_def Let_def split: prod.splits)
      from RunClient_connected [OF this] show ?thesis using Inr by (simp add: connects)
    qed
    ultimately show ?thesis by (simp add: main Inr)
  qed
qed

section \<open>What an exit code of 0 means\<close>

lemma exited_end: "sync_end client start connection = Exited 0 \<Longrightarrow>
    client = Inr () \<and> (\<exists>manifest paths ended. start = Inr (manifest, paths) \<and> connection = Some ended)"
  by (auto simp: sync_end_def exit_code_def Let_def split: sum.splits option.splits if_splits)

text \<open>
  C14: When the program exits with 0, both trees were scanned and every file that the comparison of the
  server's manifest with the local database asked for has a committed task in the local database, with no
  recorded chunks left over for a later resume.
\<close>

theorem sync_v1_commits:
  assumes "sync_v1_main ops hs api listen late argv h = (Exited 0, h')"
  shows "\<exists>local remote files chunker scanned files' chunker' served manifest store'.
    host_databases h (argv ! 2) = Inr local \<and> host_databases h (argv ! 4) = Inr remote \<and>
    ScanDirectory ops (host_disk h) (argv ! 1) [] (sync_chunker hs) local = (Inr files, chunker, scanned) \<and>
    ScanDirectory ops (host_disk h) (argv ! 3) [] (sync_chunker hs) remote = (Inr files', chunker', served) \<and>
    DecodeManifestSummary (EncodeManifestSummary (BuildManifest (ListFiles served))) = Inr manifest \<and>
    host_databases h' (argv ! 2) = Inr store' \<and>
    (\<forall>q \<in> set (chunk_requests (Compare scanned manifest)).
       map_option synctask_state (GetTask store' (MakeTaskId q)) = Some SyncCommitted \<and>
       ListTaskChunks store' (MakeTaskId q) = [])"
proof -
  obtain backend where backend: "5 \<le> length argv" "length argv \<le> 7" "sync_backend argv = Inr backend"
    using assms by (auto simp: sync_v1_main_def split: if_splits sum.splits)
  obtain start remote_db where
    start: "server_start ops hs (host_disk h) (argv ! 3) listen (host_databases h (argv ! 4)) = (start, remote_db)"
    by fastforce
  obtain client fs local_db connection where
    run: "client_run ops hs api backend (argv ! 1) (argv ! 2) start late h = (client, fs, local_db, connection)"
    by (cases "client_run ops hs api backend (argv ! 1) (argv ! 2) start late h") auto
  have ended: "sync_end client start connection = Exited 0" and h': "host_databases h' (argv ! 2) = local_db"
    using assms backend by (auto simp: sync_v1_main_def start run Let_def simp del: One_nat_def)
  from exited_end [OF ended] obtain manifest paths ended where client: "client = Inr ()"
    and served: "start = Inr (manifest, paths)" and conn: "connection = Some ended" by blast
  obtain remote files' chunker' served where remote: "host_databases h (argv ! 4) = Inr remote"
    "ScanDirectory ops (host_disk h) (argv ! 3) [] (sync_chunker hs) remote = (Inr files', chunker', served)"
    "manifest = BuildManifest (ListFiles served)"
    using start served by (auto simp: server_start_def Let_def bind_result_Inr_iff split: sum.splits prod.splits)
  obtain local store' where local: "host_databases h (argv ! 2) = Inr local" "local_db = Inr store'"
    "RunClient ops hs api backend (host_now h) (argv ! 1) local (sync_connect start late)
      (sync_server ops hs (host_disk h) start) (host_disk h) = (Inr (), fs, store', connection)"
    using run client by (auto simp: client_run_def Let_def split: sum.splits prod.splits)
  have "late < 20"
    using RunClient_connected [OF local(3)] sync_connect_fails [of start late] conn by (cases "late < 20") auto
  then have connects: "ConnectWithRetry (sync_connect start late) 20 =
      Inr ([EncodeHello server_hello, EncodeManifestSummary manifest], None)"
    unfolding served by (rule sync_connects)
  from run_client_commits [OF local(3)] show ?thesis
    using local(1,2) remote h' by (auto simp: connects sync_chunker_def)
qed

section \<open>A file arrives\<close>

lemma sync_backend_none: "argv ! 5 = ''none'' \<Longrightarrow> 6 \<le> length argv \<Longrightarrow> sync_backend argv = Inr NullStorageBackend"
  by (simp add: sync_backend_def CreateStorageBackend_def Let_def)

text \<open>The server of a tree with one file, over an empty database.\<close>

lemma server_of_one_file:
  assumes "entry_at fs root = Some Directory"
    and "filter (\<lambda>p. \<not> scan_skips fs [] p) (directory_entries fs root) = [p]"
    and "lexically_normal p = p" and "open_read fs p = Some data" and "entry_at fs p = Some (RegularFile data t)"
    and "f = md5.cut_file p root (4 * 1024 * 1024) data t"
  shows "\<exists>chunker'. ScanDirectory Md5Hasher fs root [] (sync_chunker Md5Hasher_new) MetadataStore_init =
      (Inr [f], chunker', UpsertFile f MetadataStore_init)"
    and "ListFiles (UpsertFile f MetadataStore_init) = [f]"
    and "fst (server_start Md5Hasher Md5Hasher_new fs root (Inr ()) (Inr MetadataStore_init)) =
      Inr (BuildManifest [f], [file_file_id f \<mapsto> p])"
    and "\<exists>chunker'. BuildFileRecord Md5Hasher (sync_chunker Md5Hasher_new) fs p root = Inr (f, chunker')"
proof -
  let ?ck = "sync_chunker Md5Hasher_new"
  have h: "md5_repr (chunker_hasher ?ck) []" "chunker_chunk_size ?ck = 4 * 1024 * 1024"
    by (simp_all add: sync_chunker_def md5_repr_new)
  have "fs_readable fs p" using assms(4) by (simp add: open_read_eq)
  have readable: "fs_readable fs q" if q: "q \<in> set (directory_entries fs root)" "\<not> scan_skips fs [] q" for q
  proof -
    have "q \<in> set (filter (\<lambda>p. \<not> scan_skips fs [] p) (directory_entries fs root))" using q by simp
    then have "q = p" by (simp only: assms(2) set_simps singleton_iff)
    then show ?thesis using \<open>fs_readable fs p\<close> by simp
  qed
  have scanned: "map (md5.scanned fs root (4 * 1024 * 1024)) [p] = [f]"
    by (simp add: md5.scanned_def assms(5,6))
  have size: "0 < (4 * 1024 * 1024 :: nat)" "(4 * 1024 * 1024 :: nat) \<le> 2 ^ 32 - 64" by simp_all
  from md5.ScanEntries_scanned [OF size readable h(1) h(2) [symmetric], of "directory_entries fs root" "[]" root
      MetadataStore_init "[]"]
  obtain ck where "ScanEntries Md5Hasher fs root [] (directory_entries fs root) ?ck MetadataStore_init [] =
      (Inr [f], ck, UpsertFile f MetadataStore_init)"
    unfolding assms(2) scanned Let_def by fastforce
  then have scan: "ScanDirectory Md5Hasher fs root [] ?ck MetadataStore_init = (Inr [f], ck, UpsertFile f MetadataStore_init)"
    using assms(1) by (simp add: ScanDirectory_def fs_exists_def)
  then show "\<exists>ck. ScanDirectory Md5Hasher fs root [] ?ck MetadataStore_init = (Inr [f], ck, UpsertFile f MetadataStore_init)"
    by blast
  show files: "ListFiles (UpsertFile f MetadataStore_init) = [f]"
    by (simp add: ListFiles_def UpsertFile_def MetadataStore_init_def)
  have "file_absolute_path f = p" by (simp add: assms(3,6) md5.cut_file_def)
  then show "fst (server_start Md5Hasher Md5Hasher_new fs root (Inr ()) (Inr MetadataStore_init)) =
      Inr (BuildManifest [f], [file_file_id f \<mapsto> p])"
    by (simp add: server_start_def source_paths_def scan files Let_def)
  show "\<exists>chunker'. BuildFileRecord Md5Hasher ?ck fs p root = Inr (f, chunker')"
    using md5.BuildFileRecord_cut [OF h(1) h(2) [symmetric] size assms(4), of root] assms(5,6) by auto
qed

lemma missing_file_synced:
  assumes "length argv = 6 \<or> length argv = 7" and "argv ! 5 = ''none''" and "late < 20"
    and "host_databases h (argv ! 2) = Inr local" and "host_databases h (argv ! 4) = Inr MetadataStore_init"
    and "argv ! 2 \<noteq> argv ! 4" and "entry_at (host_disk h) (argv ! 3) = Some Directory"
    and "filter (\<lambda>p. \<not> scan_skips (host_disk h) [] p) (directory_entries (host_disk h) (argv ! 3)) = [source]"
    and "lexically_normal source = source" and "open_read (host_disk h) source = Some data" and "length data < 2 ^ 32"
    and "rel = lexically_normal (path_relative source (argv ! 3))" and "length rel < 2 ^ 32"
    and "ScanDirectory Md5Hasher (host_disk h) (argv ! 1) [] (sync_chunker Md5Hasher_new) local = (Inr files, chunker, store)"
    and "local_by_relative_path store rel = None" and "ListTaskChunks store (md5_hex data @ ''|'' @ rel) = []"
    and "p = path_append (argv ! 1) rel" and "create_directories (parent_path p) (host_disk h) = Inr made" and "p \<noteq> []"
    and "fs_writable (host_disk h) p" and "fs_writable (host_disk h) (p @ ''.part'')" and "entry_at made p \<noteq> Some Directory"
    and "entry_at made (p @ ''.part'') \<noteq> Some Directory" and "fs_readable (host_disk h) p"
    and "length data \<le> fs_capacity (host_disk h)"
  shows "\<exists>h' store' t. sync_v1_main Md5Hasher Md5Hasher_new api (Inr ()) late argv h = (Exited 0, h') \<and>
    entry_at (host_disk h') p = Some (RegularFile data t) \<and> host_databases h' (argv ! 2) = Inr store' \<and>
    map_option file_root_hash (GetFile store' (md5_hex data)) = Some (md5_hex data)"
proof -
  let ?fs = "host_disk h" and ?ck = "sync_chunker Md5Hasher_new"
  obtain t where t: "entry_at ?fs source = Some (RegularFile data t)" using assms(10) by (auto simp: open_read_eq)
  obtain f where f: "f = md5.cut_file source (argv ! 3) (4 * 1024 * 1024) data t" by blast
  have ids: "file_file_id f = md5_hex data" "file_relative_path f = rel" by (simp_all add: f md5.cut_file_def assms(12))
  obtain remote where remote: "remote = hd (BuildManifest [f])" by blast
  then have manifest: "BuildManifest [f] = [remote]" by (simp add: BuildManifest_map)
  obtain q where q: "q = request_for remote (mfile_chunks remote)" by blast
  have task: "MakeTaskId q = md5_hex data @ ''|'' @ rel"
    by (simp add: q remote MakeTaskId_def request_for_def BuildManifest_map ToManifestEntry_def ids)
  note served = server_of_one_file [OF assms(7-10) t f, unfolded manifest]
  obtain remote_db where start: "server_start Md5Hasher Md5Hasher_new ?fs (argv ! 3) (Inr ())
      (host_databases h (argv ! 4)) = (Inr ([remote], [file_file_id f \<mapsto> source]), remote_db)"
    using served(3) unfolding assms(5) by (metis prod.collapse)
  obtain ck' where built: "BuildFileRecord Md5Hasher ?ck ?fs source (argv ! 3) = Inr (f, ck')" using served(4) by blast
  have size: "0 < chunker_chunk_size ?ck" "chunker_chunk_size ?ck \<le> 2 ^ 32 - 64" "md5_repr (chunker_hasher ?ck) []"
    "length data < 2 ^ 63" "length (slices (chunker_chunk_size ?ck) data) < 2 ^ 32"
    using assms(11) length_slices_le [of "chunker_chunk_size ?ck" data] by (simp_all add: sync_chunker_def md5_repr_new)
  obtain m' where chunker: "md5_repr (chunker_hasher chunker) m'" "chunker_chunk_size chunker = 4 * 1024 * 1024"
    using md5.ScanDirectory_chunker [OF size(1-3) assms(14)] by (auto simp: sync_chunker_def)
  have fit: "length (frame_payload (EncodeHello server_hello)) < 2 ^ 64"
    "length (frame_payload (EncodeManifestSummary [remote])) < 2 ^ 64"
    "length (frame_payload (EncodeMissingChunksRequest q)) < 2 ^ 64"
    "k \<in> set (mfile_chunks remote) \<Longrightarrow> length d \<le> chunker_chunk_size ?ck \<Longrightarrow>
       length (frame_payload (EncodeChunkData (chunk_reply (file_file_id f) k d))) < 2 ^ 64" for k d
    using file_messages_fit [OF f assms(11) _ _ remote] assms(13)
    by (simp_all add: ids q sync_chunker_def server_hello_def EncodeHello_def put_wires wire_string_def to_string.simps Let_def)
  have "\<exists>fs' store' t. RunClient Md5Hasher Md5Hasher_new api NullStorageBackend (host_now h) (argv ! 1) local
      (sync_connect (Inr ([remote], [file_file_id f \<mapsto> source])) late)
      (server_peer Md5Hasher Md5Hasher_new ?fs [remote] [file_file_id f \<mapsto> source]) ?fs =
        (Inr (), fs', store', Some (Some (Inr ()))) \<and>
    entry_at fs' p = Some (RegularFile data t) \<and>
    map_option file_root_hash (GetFile store' (md5_hex data)) = Some (md5_hex data)"
    by (rule run_delivers [OF assms(10) size(4,3,1,2,5) built remote q _ fit assms(14) [unfolded sync_chunker_def]
          chunker _ _ sync_connects [OF assms(3)] _ assms(18-25)])
      (simp_all add: ids assms(15,17) assms(16) [simplified] task)
  then obtain fs' store' t' where run: "RunClient Md5Hasher Md5Hasher_new api NullStorageBackend (host_now h) (argv ! 1) local
      (sync_connect (Inr ([remote], [file_file_id f \<mapsto> source])) late)
      (server_peer Md5Hasher Md5Hasher_new ?fs [remote] [file_file_id f \<mapsto> source]) ?fs =
        (Inr (), fs', store', Some (Some (Inr ())))"
    and e: "entry_at fs' p = Some (RegularFile data t')"
      "map_option file_root_hash (GetFile store' (md5_hex data)) = Some (md5_hex data)" by blast
  have argc: "5 \<le> length argv" "length argv \<le> 7" "sync_backend argv = Inr NullStorageBackend"
    using assms(1,2) by (auto intro: sync_backend_none)
  have client: "client_run Md5Hasher Md5Hasher_new api NullStorageBackend (argv ! 1) (argv ! 2)
      (Inr ([remote], [file_file_id f \<mapsto> source])) late h = (Inr (), fs', Inr store', Some (Some (Inr ())))"
    by (simp add: client_run_def assms(4) sync_server_def run Let_def del: One_nat_def)
  have "sync_v1_main Md5Hasher Md5Hasher_new api (Inr ()) late argv h = (Exited 0,
      h\<lparr>host_databases := (host_databases h)(argv ! 4 := remote_db, argv ! 2 := Inr store'), host_disk := fs'\<rparr>)"
    using argc by (simp add: sync_v1_main_def start client sync_end_def exit_code_def Let_def del: One_nat_def)
  then show ?thesis using e by auto
qed

text \<open>
  C2: The program brings a missing file over. The server's database is empty and its tree has one file of at
  most 4 GiB that is not a part file; the local tree can be scanned, the local database knows no file of that
  relative path and has no earlier progress on it, the file's place is free and writable and the server is
  ready in time. Then the program exits with 0, the file lies under the local root with exactly the
  server's bytes, and the local database knows it under its MD5.
\<close>

theorem sync_v1_delivers:
  assumes "length argv = 6 \<or> length argv = 7" and "argv ! 5 = ''none''" and "late < 20"
    and "host_databases h (argv ! 2) = Inr local" and "host_databases h (argv ! 4) = Inr MetadataStore_init"
    and "argv ! 2 \<noteq> argv ! 4" and "entry_at (host_disk h) (argv ! 3) = Some Directory"
    and "filter (\<lambda>p. \<not> scan_skips (host_disk h) [] p) (directory_entries (host_disk h) (argv ! 3)) = [source]"
    and "lexically_normal source = source" and "open_read (host_disk h) source = Some data" and "length data < 2 ^ 32"
    and "rel = lexically_normal (path_relative source (argv ! 3))" and "length rel < 2 ^ 32"
    and "ScanDirectory Md5Hasher (host_disk h) (argv ! 1) [] (sync_chunker Md5Hasher_new) local = (Inr files, chunker, store)"
    and "local_by_relative_path store rel = None" and "ListTaskChunks store (md5_hex data @ ''|'' @ rel) = []"
    and "p = path_append (argv ! 1) rel" and "create_directories (parent_path p) (host_disk h) = Inr made" and "p \<noteq> []"
    and "fs_writable (host_disk h) p" and "fs_writable (host_disk h) (p @ ''.part'')" and "entry_at made p \<noteq> Some Directory"
    and "entry_at made (p @ ''.part'') \<noteq> Some Directory" and "fs_readable (host_disk h) p"
    and "length data \<le> fs_capacity (host_disk h)"
  shows "\<exists>h' store' t. sync_v1_main Md5Hasher Md5Hasher_new api (Inr ()) late argv h = (Exited 0, h') \<and>
    entry_at (host_disk h') p = Some (RegularFile data t) \<and> host_databases h' (argv ! 2) = Inr store' \<and>
    map_option file_root_hash (GetFile store' (md5_hex data)) = Some (md5_hex data)"
  using assms by (rule missing_file_synced)

text \<open>The sample tree on the server's side, a directory that does not exist yet on the client's.\<close>

definition sync_arguments :: "string list" where
  "sync_arguments = [''sync_v1'', ''e'', ''l'', ''d'', ''r'', ''none'']"

definition sync_host :: "unit host" where
  "sync_host = \<lparr>host_databases = (\<lambda>_. Inr MetadataStore_init), host_disk = sample_fs, host_now = 7, host_now_ns = 7,
     host_net = ()\<rparr>"

definition sync_sample :: "program_end \<times> unit host" where
  "sync_sample = sync_v1_main Md5Hasher Md5Hasher_new offline_api (Inr ()) 3 sync_arguments sync_host"

lemma sync_arguments_nth:
  "length sync_arguments = 6" "sync_arguments ! 1 = ''e''" "sync_arguments ! 2 = ''l''" "sync_arguments ! 3 = ''d''"
  "sync_arguments ! 4 = ''r''" "sync_arguments ! 5 = ''none''"
  by (simp_all add: sync_arguments_def)

lemma sync_host_simps:
  "host_databases sync_host k = Inr MetadataStore_init" "host_disk sync_host = sample_fs"
  by (simp_all add: sync_host_def)

lemma sample_scan:
  "ScanDirectory Md5Hasher sample_fs ''e'' [] ck store = (Inr [], ck, store)"
  by (simp add: ScanDirectory_def fs_exists_def entry_at_def sample_fs_def path_eval)

lemma sample_make_dir: "\<exists>fs1. create_directories (parent_path ''e/f'') sample_fs = Inr fs1 \<and>
    entry_at fs1 ''e/f'' = None \<and> entry_at fs1 (''e/f'' @ ''.part'') = None"
  by (simp add: create_directories_def directory_keys_def make_directories_def path_eval sample_fs_def entry_at_def)

lemma sample_tree:
  "filter (\<lambda>p. \<not> scan_skips sample_fs [] p) (directory_entries sample_fs ''d'') = [''d/f'']"
  "lexically_normal ''d/f'' = ''d/f''" "lexically_normal (path_relative ''d/f'' ''d'') = ''f''"
  "path_append ''e'' ''f'' = ''e/f''" "fs_writable sample_fs q"
proof -
  show "filter (\<lambda>p. \<not> scan_skips sample_fs [] p) (directory_entries sample_fs ''d'') = [''d/f'']"
    by (simp add: sample_entries scan_skips_def is_regular_file_def path_extension_def path_filename_def
        IsExcludedPath_def Let_def)
qed (simp_all add: path_relative_def path_eval sample_fs_def)

lemma sample_made: "\<exists>made. create_directories (parent_path ''e/f'') sample_fs = Inr made \<and>
    entry_at made ''e/f'' \<noteq> Some Directory \<and> entry_at made (''e/f'' @ ''.part'') \<noteq> Some Directory"
  using sample_make_dir by force

lemma sample_synced: "\<exists>h'. sync_sample = (Exited 0, h')"
proof -
  obtain made where dirs: "create_directories (parent_path ''e/f'') sample_fs = Inr made"
    "entry_at made ''e/f'' \<noteq> Some Directory" "entry_at made (''e/f'' @ ''.part'') \<noteq> Some Directory"
    using sample_made by blast
  have "\<exists>h' store' t. sync_sample = (Exited 0, h') \<and>
      entry_at (host_disk h') ''e/f'' = Some (RegularFile [1, 2, 3] t) \<and> host_databases h' (sync_arguments ! 2) = Inr store' \<and>
      map_option file_root_hash (GetFile store' (md5_hex [1, 2, 3])) = Some (md5_hex [1, 2, 3])"
    unfolding sync_sample_def
    by (rule missing_file_synced [where source = "''d/f''" and rel = "''f''" and made = made and files = "[]"
          and store = MetadataStore_init and local = MetadataStore_init and chunker = "sync_chunker Md5Hasher_new"])
      (simp_all only: sync_arguments_nth sync_host_simps sample_tree sample_scan sample_fs_read dirs,
        simp_all add: local_by_relative_path_def ListFiles_def ListTaskChunks_def MetadataStore_init_def sample_fs_def)
  then show ?thesis by blast
qed

theorem sync_v1_delivers_witness:
  "\<exists>h' t. sync_sample = (Exited 0, h') \<and> entry_at (host_disk h') ''e/f'' = Some (RegularFile [1, 2, 3] t)"
proof -
  obtain made where dirs: "create_directories (parent_path ''e/f'') sample_fs = Inr made"
    "entry_at made ''e/f'' \<noteq> Some Directory" "entry_at made (''e/f'' @ ''.part'') \<noteq> Some Directory"
    using sample_made by blast
  have "\<exists>h' store' t. sync_v1_main Md5Hasher Md5Hasher_new offline_api (Inr ()) 3 sync_arguments sync_host = (Exited 0, h') \<and>
      entry_at (host_disk h') ''e/f'' = Some (RegularFile [1, 2, 3] t) \<and> host_databases h' (sync_arguments ! 2) = Inr store' \<and>
      map_option file_root_hash (GetFile store' (md5_hex [1, 2, 3])) = Some (md5_hex [1, 2, 3])"
    by (rule sync_v1_delivers [where source = "''d/f''" and rel = "''f''" and made = made and files = "[]"
          and store = MetadataStore_init and local = MetadataStore_init and chunker = "sync_chunker Md5Hasher_new"])
      (simp_all only: sync_arguments_nth sync_host_simps sample_tree sample_scan sample_fs_read dirs,
        simp_all add: local_by_relative_path_def ListFiles_def ListTaskChunks_def MetadataStore_init_def sample_fs_def)
  then show ?thesis unfolding sync_sample_def by blast
qed

theorem sync_v1_commits_witness:
  "\<exists>h' store'. sync_sample = (Exited 0, h') \<and> host_databases h' ''l'' = Inr store' \<and>
    map_option synctask_state (GetTask store' (md5_hex [1, 2, 3] @ ''|f'')) = Some SyncCommitted"
proof -
  obtain h' where run: "sync_sample = (Exited 0, h')" using sample_synced by blast
  obtain t where t: "entry_at sample_fs ''d/f'' = Some (RegularFile [1, 2, 3] t)" by simp
  obtain f where f: "f = md5.cut_file ''d/f'' ''d'' (4 * 1024 * 1024) [1, 2, 3] t" by blast
  obtain remote where remote: "remote = hd (BuildManifest [f])" by blast
  have manifest: "BuildManifest [f] = [remote]" by (simp add: remote BuildManifest_map)
  have ids: "file_file_id f = md5_hex [1, 2, 3]" "file_relative_path f = ''f''"
    by (simp_all only: f md5.cut_file_def FileRecord.simps sample_tree(3))
  note served = server_of_one_file [OF sample_fs_read(2) sample_tree(1,2) sample_fs_read(1) t f]
  obtain ck where scan: "ScanDirectory Md5Hasher sample_fs ''d'' [] (sync_chunker Md5Hasher_new) MetadataStore_init =
      (Inr [f], ck, UpsertFile f MetadataStore_init)" using served(1) by blast
  have "length (file_chunks f) \<le> 3"
    using length_slices_le [of "4 * 1024 * 1024" "[1, 2, 3 :: u8]"] by (simp add: f md5.cut_file_def)
  then have dec: "DecodeManifestSummary (EncodeManifestSummary [remote]) = Inr [remote]"
    using file_messages_fit(1) [OF f _ _ _ remote] by (intro manifest_decodes) (auto simp: ids remote BuildManifest_map
        ToManifestEntry_def)
  have requests: "chunk_requests (Compare MetadataStore_init [remote]) = [request_for remote (mfile_chunks remote)]"
    by (simp add: Compare_def CompareFile_def local_by_relative_path_def ListFiles_def MetadataStore_init_def)
  have "MakeTaskId (request_for remote (mfile_chunks remote)) = md5_hex [1, 2, 3] @ ''|f''"
    by (simp add: MakeTaskId_def request_for_def remote BuildManifest_map ToManifestEntry_def ids)
  then show ?thesis
    using sync_v1_commits [OF run [unfolded sync_sample_def]] run
    by (auto simp: sync_arguments_nth sync_host_simps scan sample_scan served(2) manifest dec requests simp del: One_nat_def)
qed

theorem sync_v1_hangs_witness:
  "fst (sync_v1_main Md5Hasher Md5Hasher_new offline_api (Inr ()) 20 sync_arguments sync_host) = Waiting"
proof -
  obtain t where t: "entry_at sample_fs ''d/f'' = Some (RegularFile [1, 2, 3] t)" by simp
  note served = server_of_one_file(3) [OF sample_fs_read(2) sample_tree(1,2) sample_fs_read(1) t refl]
  have "sync_backend sync_arguments = Inr NullStorageBackend"
    by (rule sync_backend_none) (simp_all add: sync_arguments_nth)
  then show ?thesis
    using sync_v1_hangs [of sync_arguments NullStorageBackend Md5Hasher Md5Hasher_new sync_host "Inr ()" _ _ offline_api 20,
        OF _ _ _ prod.collapse [symmetric]] served
    by (simp add: sync_arguments_nth sync_host_simps)
qed

end
