(* ===== verification/Sql_Engine.thy ===== *)
theory Sql_Engine
  imports Std_Text "HOL-Library.List_Lexorder" "HOL-Library.Char_ord" "HOL-Library.Multiset"
begin

text \<open>
  The part of SQL that the statements of \<^verbatim>\<open>SqliteMetadataStore\<close> use: typed values with their order,
  tables with a primary key, unique constraints and one foreign key, \<^verbatim>\<open>INSERT\<close> with and without
  \<^verbatim>\<open>ON CONFLICT ... DO UPDATE\<close>, \<^verbatim>\<open>DELETE\<close> with its cascade, \<^verbatim>\<open>SELECT ... WHERE ... ORDER BY\<close>,
  \<^verbatim>\<open>CREATE TABLE IF NOT EXISTS\<close>, \<^verbatim>\<open>ALTER TABLE ... ADD COLUMN\<close> and transactions. A statement that breaks
  a constraint raises and changes nothing. The order of rows that \<^verbatim>\<open>ORDER BY\<close> leaves open is the order
  of insertion here; SQLite does not promise one, so no theorem depends on it. Failures of the disk and
  locks held by other processes are not modelled.

  The second half states when a table stores records faithfully, as the interface \<open>sql_keyed\<close>: its
  instances in \<open>Sqlite_Store\<close> are the nine tables of the program with a one-column key.
\<close>

section \<open>Values\<close>

text \<open>
  A 64 bit integer column is a word read as signed, so the casts between \<^verbatim>\<open>std::uint64_t\<close> and
  \<^verbatim>\<open>sqlite3_int64\<close> keep the bits. Every text passes through \<^verbatim>\<open>c_str()\<close>, which ends at the first NUL.
\<close>

datatype sql_value = SqlNull | SqlInt u64 | SqlText string

definition c_str :: "string \<Rightarrow> string" where
  "c_str s = takeWhile (\<lambda>c. c \<noteq> CHR 0x00) s"

definition bind_text :: "string \<Rightarrow> sql_value" where
  "bind_text s = SqlText (c_str s)"

definition bind_int64 :: "u64 \<Rightarrow> sql_value" where
  "bind_int64 w = SqlInt w"

definition bind_int :: "u32 \<Rightarrow> sql_value" where
  "bind_int w = SqlInt (scast w)"

definition bind_bool :: "bool \<Rightarrow> sql_value" where
  "bind_bool b = bind_int (if b then 1 else 0)"

text \<open>An enumerator is bound as its position in the declaration of its enum class.\<close>

definition bind_enum :: "'e list \<Rightarrow> 'e \<Rightarrow> sql_value" where
  "bind_enum enumerators e = bind_int (word_of_nat (length (takeWhile (\<lambda>x. x \<noteq> e) enumerators)))"

fun column_text :: "sql_value \<Rightarrow> string" where
  "column_text (SqlText s) = c_str s"
| "column_text (SqlInt w) = (if sint w < 0 then ''-'' else []) @ to_string (nat \<bar>sint w\<bar>)"
| "column_text SqlNull = []"

fun column_int64 :: "sql_value \<Rightarrow> u64" where
  "column_int64 (SqlInt w) = w"
| "column_int64 _ = 0"

definition column_int :: "sql_value \<Rightarrow> u32" where
  "column_int v = ucast (column_int64 v)"

definition column_bool :: "sql_value \<Rightarrow> bool" where
  "column_bool v = (column_int v \<noteq> 0)"

definition column_enum :: "'e list \<Rightarrow> sql_value \<Rightarrow> 'e" where
  "column_enum enumerators v = enumerators ! unat (column_int v)"

definition no_nul :: "string \<Rightarrow> bool" where
  "no_nul s \<longleftrightarrow> CHR 0x00 \<notin> set s"

lemma c_str_no_nul [simp]: "no_nul (c_str s)"
  by (auto simp: c_str_def no_nul_def dest: set_takeWhileD)

lemma c_str_id [simp]: "no_nul s \<Longrightarrow> c_str s = s"
  by (auto simp: c_str_def no_nul_def takeWhile_eq_all_conv)

lemma ucast_scast_32 [simp]: "ucast (scast (w :: u32) :: u64) = w"
proof (rule bit_word_eqI)
  fix n
  assume "n < LENGTH(32)"
  then have "31 \<le> n \<Longrightarrow> n = 31" by simp
  with \<open>n < LENGTH(32)\<close> show "bit (ucast (scast w :: u64) :: u32) n = bit w n"
    by (auto simp: bit_ucast_iff bit_signed_iff)
qed

lemma column_bind [simp]:
  "column_text (bind_text s) = c_str s"
  "column_int64 (bind_int64 w) = w"
  "column_int (bind_int x) = x"
  "column_bool (bind_bool b) = b"
  by (simp_all add: bind_text_def bind_int64_def bind_int_def column_int_def column_bool_def bind_bool_def)

lemma column_bind_enum:
  assumes "e \<in> set enumerators" and "length enumerators \<le> 100"
  shows "column_enum enumerators (bind_enum enumerators e) = e"
proof -
  define i where "i = length (takeWhile (\<lambda>x. x \<noteq> e) enumerators)"
  have "takeWhile (\<lambda>x. x \<noteq> e) enumerators \<noteq> enumerators"
    using assms(1) by (simp add: takeWhile_eq_all_conv)
  then have "i < length enumerators"
    unfolding i_def
    by (metis append_self_conv length_append le_add1 le_neq_implies_less length_0_conv takeWhile_dropWhile_id add_left_imp_eq add_0_right)
  moreover from this have "enumerators ! i = e"
    using nth_length_takeWhile [of "\<lambda>x. x \<noteq> e" enumerators] by (simp add: i_def)
  ultimately show ?thesis
    using assms(2) by (simp add: column_enum_def bind_enum_def unat_of_nat flip: i_def)
qed

text \<open>The order of \<^verbatim>\<open>ORDER BY\<close>: NULL, then integers by value, then texts byte by byte.\<close>

instantiation sql_value :: linorder
begin

fun less_eq_sql_value :: "sql_value \<Rightarrow> sql_value \<Rightarrow> bool" where
  "less_eq_sql_value SqlNull _ = True"
| "less_eq_sql_value (SqlInt v) w =
     (case w of SqlNull \<Rightarrow> False | SqlInt w \<Rightarrow> sint v \<le> sint w | SqlText _ \<Rightarrow> True)"
| "less_eq_sql_value (SqlText s) w = (case w of SqlText t \<Rightarrow> s \<le> t | _ \<Rightarrow> False)"

definition less_sql_value :: "sql_value \<Rightarrow> sql_value \<Rightarrow> bool" where
  "less_sql_value v w \<longleftrightarrow> v \<le> w \<and> \<not> w \<le> v"

instance
proof
  fix u v w :: sql_value
  show "v < w \<longleftrightarrow> v \<le> w \<and> \<not> w \<le> v" by (rule less_sql_value_def)
  show "v \<le> v" by (cases v) simp_all
  show "u \<le> v \<Longrightarrow> v \<le> w \<Longrightarrow> u \<le> w" by (cases u; cases v; cases w) simp_all
  show "v \<le> w \<Longrightarrow> w \<le> v \<Longrightarrow> v = w" by (cases v; cases w) (auto simp: word_eq_iff_signed [symmetric])
  show "v \<le> w \<or> w \<le> v" by (cases v; cases w) auto
qed

end

section \<open>Tables and statements\<close>

text \<open>A row gives the value of each column. A reference is \<open>(column, parent table, parent column)\<close>.\<close>

type_synonym sql_row = "string \<Rightarrow> sql_value"

record SqlTable =
  tbl_columns :: "(string \<times> sql_value) list"
  tbl_primary_key :: "string list"
  tbl_unique :: "string list list"
  tbl_reference :: "(string \<times> string \<times> string) option"
  tbl_rows :: "sql_row list"

type_synonym SqliteDb = "string \<Rightarrow> SqlTable option"
type_synonym sql_effect = "unit result \<times> SqliteDb"

definition sql_eq :: "sql_value \<Rightarrow> sql_value \<Rightarrow> bool" where
  "sql_eq v w \<longleftrightarrow> v = w \<and> v \<noteq> SqlNull"

definition same_on :: "string list \<Rightarrow> sql_row \<Rightarrow> sql_row \<Rightarrow> bool" where
  "same_on cols r s \<longleftrightarrow> list_all (\<lambda>c. sql_eq (r c) (s c)) cols"

definition new_row :: "SqlTable \<Rightarrow> (string \<times> sql_value) list \<Rightarrow> sql_row" where
  "new_row t binds = (\<lambda>c. case map_of binds c of Some v \<Rightarrow> v
     | None \<Rightarrow> (case map_of (tbl_columns t) c of Some v \<Rightarrow> v | None \<Rightarrow> SqlNull))"

definition violated :: "SqlTable \<Rightarrow> sql_row list \<Rightarrow> sql_row \<Rightarrow> string list option" where
  "violated t others row =
     find (\<lambda>key. list_ex (\<lambda>r. same_on key r row) others) (tbl_primary_key t # tbl_unique t)"

definition has_parent :: "SqliteDb \<Rightarrow> SqlTable \<Rightarrow> sql_row \<Rightarrow> bool" where
  "has_parent db t row = (case tbl_reference t of None \<Rightarrow> True
     | Some (col, parent, pcol) \<Rightarrow> (case db parent of None \<Rightarrow> False
         | Some p \<Rightarrow> list_ex (\<lambda>r. sql_eq (r pcol) (row col)) (tbl_rows p)))"

definition put_rows :: "string \<Rightarrow> SqlTable \<Rightarrow> sql_row list \<Rightarrow> SqliteDb \<Rightarrow> SqliteDb" where
  "put_rows name t rows db = db(name \<mapsto> t\<lparr>tbl_rows := rows\<rparr>)"

definition unique_failed :: "string \<Rightarrow> string list \<Rightarrow> exn" where
  "unique_failed name key = RuntimeError (''UNIQUE constraint failed: '' @
     join_with '', '' (map (\<lambda>c. name @ ''.'' @ c) key))"

definition merged :: "string list \<Rightarrow> sql_row \<Rightarrow> sql_row \<Rightarrow> sql_row" where
  "merged sets excluded r = (\<lambda>c. if c \<in> set sets then excluded c else r c)"

definition insert_new :: "string \<Rightarrow> SqlTable \<Rightarrow> sql_row \<Rightarrow> SqliteDb \<Rightarrow> sql_effect" where
  "insert_new name t row db = (case violated t (tbl_rows t) row of
       Some key \<Rightarrow> (Inl (unique_failed name key), db)
     | None \<Rightarrow> if has_parent db t row then (Inr (), put_rows name t (tbl_rows t @ [row]) db)
         else (Inl (RuntimeError ''FOREIGN KEY constraint failed''), db))"

text \<open>
  \<^verbatim>\<open>INSERT INTO name(columns) VALUES(values)\<close>, with \<open>conflict = Some (target, sets)\<close> for
  \<^verbatim>\<open>ON CONFLICT(target) DO UPDATE SET c=excluded.c, ...\<close>. The updated row must not collide with another
  row on any other key.
\<close>

definition sql_insert ::
  "string \<Rightarrow> (string \<times> sql_value) list \<Rightarrow> (string list \<times> string list) option \<Rightarrow> SqliteDb \<Rightarrow> sql_effect" where
  "sql_insert name binds conflict db = (case db name of
       None \<Rightarrow> (Inl (RuntimeError (''no such table: '' @ name)), db)
     | Some t \<Rightarrow> let row = new_row t binds in
         (case conflict of
            None \<Rightarrow> insert_new name t row db
          | Some (target, sets) \<Rightarrow>
              (case find (same_on target row) (tbl_rows t) of
                 None \<Rightarrow> insert_new name t row db
               | Some old \<Rightarrow>
                   (case violated t (filter (\<lambda>r. \<not> same_on target row r) (tbl_rows t)) (merged sets row old) of
                      Some key \<Rightarrow> (Inl (unique_failed name key), db)
                    | None \<Rightarrow> (Inr (), put_rows name t
                        (map (\<lambda>r. if same_on target row r then merged sets row r else r) (tbl_rows t)) db)))))"

definition sql_rows :: "SqliteDb \<Rightarrow> string \<Rightarrow> sql_row list" where
  "sql_rows db name = (case db name of None \<Rightarrow> [] | Some t \<Rightarrow> tbl_rows t)"

text \<open>\<^verbatim>\<open>DELETE FROM name WHERE col = value\<close>; rows of tables that reference a deleted row go with it.\<close>

definition sql_delete :: "string \<Rightarrow> string \<Rightarrow> sql_value \<Rightarrow> SqliteDb \<Rightarrow> sql_effect" where
  "sql_delete name col value db = (case db name of
       None \<Rightarrow> (Inl (RuntimeError (''no such table: '' @ name)), db)
     | Some t \<Rightarrow>
         let deleted = filter (\<lambda>r. sql_eq (r col) value) (tbl_rows t) in
         (Inr (), \<lambda>n. if n = name then Some (t\<lparr>tbl_rows := filter (\<lambda>r. \<not> sql_eq (r col) value) (tbl_rows t)\<rparr>)
            else (case db n of None \<Rightarrow> None
              | Some u \<Rightarrow> Some (case tbl_reference u of None \<Rightarrow> u
                  | Some (fcol, parent, pcol) \<Rightarrow> if parent \<noteq> name then u
                      else u\<lparr>tbl_rows := filter (\<lambda>r. \<not> list_ex (\<lambda>d. sql_eq (d pcol) (r fcol)) deleted) (tbl_rows u)\<rparr>))))"

text \<open>\<^verbatim>\<open>SELECT ... FROM name WHERE col = value\<close> and \<^verbatim>\<open>ORDER BY cols\<close>.\<close>

definition sql_where :: "SqliteDb \<Rightarrow> string \<Rightarrow> string \<Rightarrow> sql_value \<Rightarrow> sql_row list" where
  "sql_where db name col value = filter (\<lambda>r. sql_eq (r col) value) (sql_rows db name)"

definition order_by :: "string list \<Rightarrow> sql_row list \<Rightarrow> sql_row list" where
  "order_by cols rows = sort_key (\<lambda>r. map r cols) rows"

definition first_row :: "sql_row list \<Rightarrow> sql_row option" where
  "first_row rows = (case rows of [] \<Rightarrow> None | r # _ \<Rightarrow> Some r)"

text \<open>Schema changes.\<close>

definition create_table :: "string \<times> SqlTable \<Rightarrow> SqliteDb \<Rightarrow> SqliteDb" where
  "create_table = (\<lambda>(name, t) db. if db name = None then db(name \<mapsto> t) else db)"

definition has_column :: "SqliteDb \<Rightarrow> string \<Rightarrow> string \<Rightarrow> bool" where
  "has_column db name col = (case db name of None \<Rightarrow> False | Some t \<Rightarrow> list_ex (\<lambda>(c, _). c = col) (tbl_columns t))"

definition add_column :: "string \<Rightarrow> string \<Rightarrow> sql_value \<Rightarrow> SqliteDb \<Rightarrow> sql_effect" where
  "add_column name col value db = (case db name of
       None \<Rightarrow> (Inl (RuntimeError (''no such table: '' @ name)), db)
     | Some t \<Rightarrow> (Inr (), db(name \<mapsto> t\<lparr>tbl_columns := tbl_columns t @ [(col, value)],
                                       tbl_rows := map (\<lambda>r. r(col := value)) (tbl_rows t)\<rparr>)))"

text \<open>Statements in sequence stop at the first exception; a transaction that raises is rolled back.\<close>

definition and_then :: "(SqliteDb \<Rightarrow> sql_effect) \<Rightarrow> (SqliteDb \<Rightarrow> sql_effect) \<Rightarrow> SqliteDb \<Rightarrow> sql_effect" where
  "and_then f g db = (case f db of (Inl e, db) \<Rightarrow> (Inl e, db) | (Inr _, db) \<Rightarrow> g db)"

fun each :: "('a \<Rightarrow> SqliteDb \<Rightarrow> sql_effect) \<Rightarrow> 'a list \<Rightarrow> SqliteDb \<Rightarrow> sql_effect" where
  "each f [] db = (Inr (), db)"
| "each f (x # xs) db = and_then (f x) (each f xs) db"

definition transaction :: "(SqliteDb \<Rightarrow> sql_effect) \<Rightarrow> SqliteDb \<Rightarrow> sql_effect" where
  "transaction body db = (case body db of (Inl e, _) \<Rightarrow> (Inl e, db) | (Inr u, db) \<Rightarrow> (Inr u, db))"

section \<open>Tables with a one-column key\<close>

text \<open>What a table with a text key keeps: no two rows with one key, and every key a text without NUL.\<close>

definition keyed_ok :: "string \<Rightarrow> string \<Rightarrow> SqliteDb \<Rightarrow> bool" where
  "keyed_ok name k db \<longleftrightarrow> (\<exists>t. db name = Some t \<and> tbl_primary_key t = [k] \<and> tbl_unique t = [] \<and>
     tbl_reference t = None \<and> distinct (map (\<lambda>r. r k) (tbl_rows t)) \<and>
     (\<forall>r \<in> set (tbl_rows t). \<exists>s. no_nul s \<and> r k = SqlText s))"

lemma keyed_ok_frame: "db' name = db name \<Longrightarrow> keyed_ok name k db' = keyed_ok name k db"
  by (simp add: keyed_ok_def)

lemma sql_rows_frame: "db' name = db name \<Longrightarrow> sql_rows db' name = sql_rows db name"
  by (simp add: sql_rows_def)

lemma put_rows_simps [simp]:
  "sql_rows (put_rows name t rows db) name = rows"
  "n \<noteq> name \<Longrightarrow> put_rows name t rows db n = db n"
  by (simp_all add: put_rows_def sql_rows_def)

lemma new_row_bind [simp]: "map_of binds c = Some v \<Longrightarrow> new_row t binds c = v"
  by (simp add: new_row_def)

lemma map_replace_upsert:
  assumes "distinct (map f rows)" and "v \<in> f ` set rows"
    and "\<And>r. r \<in> set rows \<Longrightarrow> f r = v \<Longrightarrow> dec (g r) = x"
    and "\<And>r. r \<in> set rows \<Longrightarrow> match (dec r) = (f r = v)"
  shows "map dec (map (\<lambda>r. if f r = v then g r else r) rows) = upsert_by match x (map dec rows)"
  using assms
proof (induction rows)
  case (Cons r rows)
  show ?case
  proof (cases "f r = v")
    case True
    then have "\<forall>r' \<in> set rows. f r' \<noteq> v" using Cons.prems(1) by (auto simp: image_iff)
    then have "map (\<lambda>r. if f r = v then g r else r) rows = rows" by (simp add: map_idI)
    then show ?thesis using True Cons.prems(3,4) by simp
  next
    case False
    then show ?thesis using Cons by auto
  qed
qed simp

lemma upsert_by_fresh: "\<forall>y \<in> set ys. \<not> match y \<Longrightarrow> upsert_by match x ys = ys @ [x]"
  by (induction ys) auto

locale sql_keyed =
  fixes name k :: string
    and binds :: "'r \<Rightarrow> (string \<times> sql_value) list"
    and sets :: "string list"
    and decode :: "sql_row \<Rightarrow> 'r"
    and key :: "'r \<Rightarrow> string"
    and clean :: "'r \<Rightarrow> bool"
  assumes key_bind: "map_of (binds x) k = Some (bind_text (key x))"
    and key_set: "k \<notin> set sets"
    and bind_cols: "fst ` set (binds x) \<subseteq> insert k (set sets)"
    and decode_binds: "clean x \<Longrightarrow>
      (\<And>c. c \<in> fst ` set (binds x) \<Longrightarrow> r c = the (map_of (binds x) c)) \<Longrightarrow> decode r = x"
    and decode_key: "key (decode r) = column_text (r k)"
    and clean_key: "clean x \<Longrightarrow> no_nul (key x)"
begin

lemma decode_merged:
  assumes "clean x" and "r k = bind_text (key x)"
  shows "decode (merged sets (new_row t (binds x)) r) = x"
proof (rule decode_binds [OF assms(1)])
  fix c
  assume "c \<in> fst ` set (binds x)"
  moreover from this obtain v where c: "map_of (binds x) c = Some v"
    by (metis map_of_eq_None_iff not_Some_eq)
  ultimately have "c = k \<or> c \<in> set sets" using bind_cols [of x] by blast
  then show "merged sets (new_row t (binds x)) r c = the (map_of (binds x) c)"
    using c key_set assms(2) key_bind [of x] by (auto simp: merged_def)
qed

lemma decode_new: "clean x \<Longrightarrow> decode (new_row t (binds x)) = x"
  by (rule decode_binds) (auto simp: new_row_def split: option.splits dest: weak_map_of_SomeI)

lemma upsert:
  assumes ok: "keyed_ok name k db" and clean: "clean x"
  obtains db' where "sql_insert name (binds x) (Some ([k], sets)) db = (Inr (), db')"
    and "keyed_ok name k db'" and "\<And>n. n \<noteq> name \<Longrightarrow> db' n = db n"
    and "map decode (sql_rows db' name) =
      upsert_by (\<lambda>y. key y = key x) x (map decode (sql_rows db name))"
proof -
  obtain t where t: "db name = Some t" "tbl_primary_key t = [k]" "tbl_unique t = []" "tbl_reference t = None"
      "distinct (map (\<lambda>r. r k) (tbl_rows t))"
    and texts: "\<And>r. r \<in> set (tbl_rows t) \<Longrightarrow> \<exists>s. no_nul s \<and> r k = SqlText s"
    using ok by (auto simp: keyed_ok_def)
  define row where "row = new_row t (binds x)"
  define v where "v = SqlText (key x)"
  have row: "row k = v" and bind: "bind_text (key x) = v"
    using key_bind [of x] clean_key [OF clean] by (simp_all add: row_def v_def bind_text_def)
  have on_k: "same_on [k] row r = (r k = v)" "same_on [k] r row = (r k = v)" for r
    using row by (auto simp: same_on_def sql_eq_def v_def)
  have match: "(key (decode r) = key x) = (r k = v)" if "r \<in> set (tbl_rows t)" for r
    using texts [OF that] by (auto simp: decode_key v_def)
  have key_ok: "\<exists>s. no_nul s \<and> v = SqlText s" using clean_key [OF clean] by (simp add: v_def)
  let ?replaced = "map (\<lambda>r. if r k = v then merged sets row r else r) (tbl_rows t)"
  show thesis
  proof (cases "v \<in> (\<lambda>r. r k) ` set (tbl_rows t)")
    case True
    have "find (same_on [k] row) (tbl_rows t) \<noteq> None"
      using True by (auto simp: find_None_iff on_k image_iff)
    then obtain old where old: "find (same_on [k] row) (tbl_rows t) = Some old" by blast
    then have "old k = v" using on_k by (auto simp: find_Some_iff)
    moreover have "merged sets row old k = old k" using key_set by (simp add: merged_def)
    ultimately have "violated t (filter (\<lambda>r. r k \<noteq> v) (tbl_rows t)) (merged sets row old) = None"
      by (simp add: violated_def t(2,3) list_ex_iff same_on_def sql_eq_def)
    then have run: "sql_insert name (binds x) (Some ([k], sets)) db = (Inr (), put_rows name t ?replaced db)"
      by (simp add: sql_insert_def t(1) Let_def old on_k flip: row_def)
    have same_key: "(if r k = v then merged sets row r else r) k = r k" for r
      using key_set by (simp add: merged_def)
    have "map (\<lambda>r. r k) ?replaced = map (\<lambda>r. r k) (tbl_rows t)"
      by (simp add: same_key comp_def)
    then have "distinct (map (\<lambda>r. r k) ?replaced)" by (simp only: t(5))
    moreover have "\<forall>r \<in> set ?replaced. \<exists>s. no_nul s \<and> r k = SqlText s"
      unfolding set_map ball_simps same_key by (blast intro: texts)
    ultimately have "keyed_ok name k (put_rows name t ?replaced db)"
      by (simp add: keyed_ok_def put_rows_def t(2-4) del: map_map)
    moreover have "map decode ?replaced = upsert_by (\<lambda>y. key y = key x) x (map decode (tbl_rows t))"
      using map_replace_upsert [where f = "\<lambda>r. r k" and g = "merged sets row" and dec = decode and
          match = "\<lambda>y. key y = key x", OF t(5) True] match decode_merged [OF clean] bind
      by (simp add: row_def)
    ultimately show thesis using that [OF run] by (simp add: sql_rows_def t(1) put_rows_def)
  next
    case False
    then have "find (same_on [k] row) (tbl_rows t) = None" by (auto simp: find_None_iff on_k)
    moreover have "violated t (tbl_rows t) row = None"
      using t False by (auto simp: violated_def list_ex_iff on_k image_iff)
    ultimately have run: "sql_insert name (binds x) (Some ([k], sets)) db =
        (Inr (), put_rows name t (tbl_rows t @ [row]) db)"
      by (simp add: sql_insert_def t(1) Let_def insert_new_def has_parent_def t(4) flip: row_def)
    have "keyed_ok name k (put_rows name t (tbl_rows t @ [row]) db)"
      using t texts False row key_ok by (auto simp: keyed_ok_def put_rows_def)
    moreover have "map decode (tbl_rows t @ [row]) = upsert_by (\<lambda>y. key y = key x) x (map decode (tbl_rows t))"
      using False match decode_new [OF clean, of t]
      by (subst upsert_by_fresh) (auto simp: image_iff row_def)
    ultimately show thesis using that [OF run] by (simp add: sql_rows_def t(1) put_rows_def)
  qed
qed

lemma lookup:
  assumes "keyed_ok name k db" and "no_nul q"
  shows "map_option decode (first_row (sql_where db name k (bind_text q))) =
    find (\<lambda>y. key y = q) (map decode (sql_rows db name))"
proof -
  have texts: "\<exists>s. no_nul s \<and> r k = SqlText s" if "r \<in> set (sql_rows db name)" for r
    using assms(1) that by (auto simp: keyed_ok_def sql_rows_def)
  have first: "map_option decode (first_row (filter P rows)) = find Q (map decode rows)"
    if "\<And>r. r \<in> set rows \<Longrightarrow> P r = Q (decode r)" for P Q and rows :: "sql_row list"
    using that by (induction rows) (auto simp: first_row_def)
  show ?thesis
    unfolding sql_where_def
    by (rule first, drule texts) (use assms(2) in \<open>auto simp: decode_key bind_text_def sql_eq_def\<close>)
qed

lemma distinct_keys:
  assumes "keyed_ok name k db"
  shows "distinct (map key (map decode (sql_rows db name)))"
proof -
  have "map key (map decode (sql_rows db name)) = map column_text (map (\<lambda>r. r k) (sql_rows db name))"
    by (simp add: decode_key)
  moreover have "inj_on column_text (set (map (\<lambda>r. r k) (sql_rows db name)))"
  proof (rule inj_onI)
    fix v w
    assume *: "v \<in> set (map (\<lambda>r. r k) (sql_rows db name))" "w \<in> set (map (\<lambda>r. r k) (sql_rows db name))"
      "column_text v = column_text w"
    then have "\<exists>s. no_nul s \<and> v = SqlText s" "\<exists>s. no_nul s \<and> w = SqlText s"
      using assms by (auto simp: keyed_ok_def sql_rows_def)
    with *(3) show "v = w" by auto
  qed
  moreover have "distinct (map (\<lambda>r. r k) (sql_rows db name))"
    using assms by (auto simp: keyed_ok_def sql_rows_def)
  ultimately show ?thesis by (simp only: distinct_map)
qed

end

text \<open>A listing is a permutation of the table, sorted by the columns it names.\<close>

lemma mset_order_by [simp]: "mset (order_by cols rows) = mset rows"
  by (simp add: order_by_def)

lemma sorted_order_by: "sorted (map (\<lambda>r. map r cols) (order_by cols rows))"
  by (simp add: order_by_def)

end
