(* ===== verification/Sqlite_Store.thy ===== *)
theory Sqlite_Store
  imports Sql_Engine Metadata_Store File_System
begin

text \<open>
  \<^verbatim>\<open>SqliteMetadataStore\<close> of \<^verbatim>\<open>src/metadata/metadata_store.cpp\<close>: the schema with its upgrade of older
  database files, and every operation as the SQL statement it prepares, the values it binds and the
  columns it decodes. For each table \<open>..._binds\<close> pairs the columns of the \<^verbatim>\<open>INSERT\<close> with the bound
  values and \<open>..._of_row\<close> decodes a selected row. An operation returns the exception it throws, if
  any, and the database it leaves.
\<close>

section \<open>Schema\<close>

text \<open>A column without \<^verbatim>\<open>DEFAULT\<close>, and a table of \<^verbatim>\<open>CREATE TABLE\<close>, which starts empty.\<close>

abbreviation (input) plain :: "string \<Rightarrow> string \<times> sql_value" where
  "plain c \<equiv> (c, SqlNull)"

abbreviation (input) new_table ::
  "string \<Rightarrow> (string \<times> sql_value) list \<Rightarrow> string list \<Rightarrow> string list list \<Rightarrow>
   (string \<times> string \<times> string) option \<Rightarrow> string \<times> SqlTable" where
  "new_table name cols pk uniques ref \<equiv> (name, \<lparr>tbl_columns = cols, tbl_primary_key = pk,
     tbl_unique = uniques, tbl_reference = ref, tbl_rows = []\<rparr>)"

definition kSchema :: "(string \<times> SqlTable) list" where
  "kSchema = [
    new_table ''node_records''
     [plain ''node_id'', plain ''device_name'', plain ''zt_ip'', plain ''last_seen_epoch'']
     [''node_id''] [] None,
    new_table ''backup_policies''
     [plain ''policy_id'', plain ''node_id'', plain ''source_path'', plain ''recursive'', plain ''enabled'',
     plain ''schedule_expression'', plain ''created_at_epoch'']
     [''policy_id''] [] None,
    new_table ''transfer_policies''
     [plain ''policy_id'', plain ''retention_seconds'', plain ''auto_cleanup'', plain ''private_library_only'']
     [''policy_id''] [] None,
    new_table ''scheduled_tasks''
     [plain ''task_id'', plain ''domain'', plain ''related_id'', plain ''source_node'', plain ''target_node'',
     plain ''state'', plain ''created_at_epoch'', (''retry_count'', SqlInt 0), plain ''detail'']
     [''task_id''] [] None,
    new_table ''backup_jobs''
     [plain ''job_id'', plain ''node_id'', plain ''source_path'', plain ''destination_label'',
     plain ''created_at_epoch'']
     [''job_id''] [] None,
    new_table ''restore_requests''
     [plain ''request_id'', plain ''file_id'', plain ''source_node_id'', plain ''target_node_id'',
     plain ''destination_path'', plain ''created_at_epoch'', (''state'', SqlInt 0),
     (''completed_at_epoch'', SqlInt 0), (''error_message'', SqlText [])]
     [''request_id''] [] None,
    new_table ''shared_library_entries''
     [plain ''entry_id'', plain ''owner_node_id'', plain ''source_path'', plain ''file_id'',
     plain ''display_name'', plain ''note'', plain ''created_at_epoch'', plain ''expires_at_epoch'',
     (''expired'', SqlInt 0), plain ''delivered'']
     [''entry_id''] [] None,
    new_table ''shared_library_recipients''
     [plain ''entry_id'', plain ''node_id'', (''state'', SqlInt 0), (''received_path'', SqlText []),
     (''error_message'', SqlText []), (''updated_at_epoch'', SqlInt 0)]
     [''entry_id'', ''node_id''] [] (Some (''entry_id'', ''shared_library_entries'', ''entry_id'')),
    new_table ''file_records''
     [plain ''file_id'', plain ''relative_path'', plain ''absolute_path'', plain ''size'',
     plain ''modified_time_epoch'', plain ''mode'', plain ''root_hash'', plain ''status'']
     [''file_id''] [[''absolute_path'']] None,
    new_table ''chunk_records''
     [plain ''file_id'', plain ''chunk_index'', plain ''chunk_offset'', plain ''chunk_size'',
     plain ''chunk_hash'']
     [''file_id'', ''chunk_index''] [] (Some (''file_id'', ''file_records'', ''file_id'')),
    new_table ''sync_tasks''
     [plain ''task_id'', plain ''source_node'', plain ''target_node'', plain ''file_id'',
     (''relative_path'', SqlText []), (''expected_root_hash'', SqlText []),
     (''temp_path'', SqlText []), (''total_chunks'', SqlInt 0), (''completed_chunks'', SqlInt 0),
     plain ''state'', plain ''retry_count'', plain ''error_message'']
     [''task_id''] [] None,
    new_table ''sync_task_chunks''
     [plain ''task_id'', plain ''file_id'', plain ''chunk_index'', plain ''chunk_offset'',
     plain ''chunk_size'', plain ''chunk_hash'']
     [''task_id'', ''chunk_index''] [] (Some (''task_id'', ''sync_tasks'', ''task_id'')),
    new_table ''stored_objects''
     [plain ''file_id'', plain ''backend_name'', plain ''storage_key'', plain ''access_url'',
     plain ''source_path'', plain ''stored_at_epoch'']
     [''file_id''] [] None,
    new_table ''backup_records''
     [plain ''record_id'', plain ''job_id'', plain ''node_id'', plain ''file_id'', plain ''relative_path'',
     plain ''source_path'', plain ''backend_name'', plain ''storage_key'', plain ''backed_up_at_epoch'']
     [''record_id''] [] None,
    new_table ''device_file_records''
     [plain ''record_id'', plain ''node_id'', plain ''file_id'', plain ''relative_path'',
     plain ''absolute_path'', plain ''source_kind'', plain ''source_ref_id'', plain ''updated_at_epoch'']
     [''record_id''] [[''node_id'', ''absolute_path'']] None,
    new_table ''audit_events''
     [plain ''event_id'', plain ''category'', plain ''detail'', plain ''created_at_epoch'']
     [''event_id''] [] None]"

definition ensured_columns :: "(string \<times> string \<times> sql_value) list" where
  "ensured_columns =
    [(''sync_tasks'', ''relative_path'', SqlText []),
     (''sync_tasks'', ''expected_root_hash'', SqlText []),
     (''sync_tasks'', ''temp_path'', SqlText []),
     (''sync_tasks'', ''total_chunks'', SqlInt 0),
     (''sync_tasks'', ''completed_chunks'', SqlInt 0),
     (''shared_library_entries'', ''expired'', SqlInt 0),
     (''scheduled_tasks'', ''retry_count'', SqlInt 0),
     (''restore_requests'', ''state'', SqlInt 0),
     (''restore_requests'', ''completed_at_epoch'', SqlInt 0),
     (''restore_requests'', ''error_message'', SqlText []),
     (''shared_library_recipients'', ''state'', SqlInt 0),
     (''shared_library_recipients'', ''received_path'', SqlText []),
     (''shared_library_recipients'', ''error_message'', SqlText []),
     (''shared_library_recipients'', ''updated_at_epoch'', SqlInt 0)]"

definition EnsureColumnExists :: "string \<times> string \<times> sql_value \<Rightarrow> SqliteDb \<Rightarrow> sql_effect" where
  "EnsureColumnExists = (\<lambda>(name, column, value) db.
     if has_column db name column then (Inr (), db) else add_column name column value db)"

definition InitializeSchema :: "SqliteDb \<Rightarrow> sql_effect" where
  "InitializeSchema db = each EnsureColumnExists ensured_columns (fold create_table kSchema db)"

text \<open>
  Opening a store: \<open>opened\<close> is what \<^verbatim>\<open>sqlite3_open\<close> finds at the path, an error message or the tables of
  the file (none for a new file).
\<close>

definition SqliteMetadataStore_new :: "(string + SqliteDb) \<Rightarrow> sql_effect" where
  "SqliteMetadataStore_new opened = (case opened of
     Inl message \<Rightarrow> (Inl (RuntimeError message), Map.empty)
   | Inr db \<Rightarrow> InitializeSchema db)"

definition Sqlite_GetLocalMetadataPath :: "path \<Rightarrow> path option" where
  "Sqlite_GetLocalMetadataPath db_path = Some (lexically_normal db_path)"

section \<open>Enumerations as columns\<close>

definition FileStatus_enumerators :: "FileStatus list" where
  "FileStatus_enumerators = [FilePending, FileReady, FileDeleted, FileCorrupted]"

definition SyncTaskState_enumerators :: "SyncTaskState list" where
  "SyncTaskState_enumerators = [SyncQueued, SyncRunning, SyncVerifying, SyncCommitted, SyncFailed]"

definition JobDomain_enumerators :: "JobDomain list" where
  "JobDomain_enumerators = [DomainBackup, DomainTransfer, DomainRestore]"

definition JobState_enumerators :: "JobState list" where
  "JobState_enumerators = [JobQueued, JobRunning, JobCompleted, JobFailed]"

definition RestoreRequestState_enumerators :: "RestoreRequestState list" where
  "RestoreRequestState_enumerators = [RestoreQueued, RestoreRunning, RestoreCompleted, RestoreFailed]"

definition SharedRecipientState_enumerators :: "SharedRecipientState list" where
  "SharedRecipientState_enumerators = [RecipientPending, RecipientDelivered, RecipientFailed]"

section \<open>Tables with a one-column key\<close>

definition node_binds :: "NodeInfo \<Rightarrow> (string \<times> sql_value) list" where
  "node_binds r =
    [(''node_id'', bind_text (node_node_id r)),
     (''device_name'', bind_text (node_device_name r)),
     (''zt_ip'', bind_text (node_zt_ip r)),
     (''last_seen_epoch'', bind_int64 (node_last_seen_epoch r))]"

definition node_of_row :: "sql_row \<Rightarrow> NodeInfo" where
  "node_of_row row = \<lparr>
    node_node_id = column_text (row ''node_id''),
    node_device_name = column_text (row ''device_name''),
    node_zt_ip = column_text (row ''zt_ip''),
    node_last_seen_epoch = column_int64 (row ''last_seen_epoch'')\<rparr>"

definition Sqlite_UpsertNode :: "NodeInfo \<Rightarrow> SqliteDb \<Rightarrow> sql_effect" where
  "Sqlite_UpsertNode r = sql_insert ''node_records'' (node_binds r)
     (Some ([''node_id''],
       [''device_name'', ''zt_ip'', ''last_seen_epoch'']))"

definition Sqlite_GetNode :: "SqliteDb \<Rightarrow> string \<Rightarrow> NodeInfo option" where
  "Sqlite_GetNode db k =
     map_option node_of_row (first_row (sql_where db ''node_records'' ''node_id'' (bind_text k)))"

definition Sqlite_ListNodes :: "SqliteDb \<Rightarrow> NodeInfo list" where
  "Sqlite_ListNodes db =
     map node_of_row (order_by [''node_id''] (sql_rows db ''node_records''))"

definition backup_policy_binds :: "BackupPolicy \<Rightarrow> (string \<times> sql_value) list" where
  "backup_policy_binds r =
    [(''policy_id'', bind_text (bpolicy_policy_id r)),
     (''node_id'', bind_text (bpolicy_node_id r)),
     (''source_path'', bind_text (bpolicy_source_path r)),
     (''recursive'', bind_bool (bpolicy_recursive r)),
     (''enabled'', bind_bool (bpolicy_enabled r)),
     (''schedule_expression'', bind_text (bpolicy_schedule_expression r)),
     (''created_at_epoch'', bind_int64 (bpolicy_created_at_epoch r))]"

definition backup_policy_of_row :: "sql_row \<Rightarrow> BackupPolicy" where
  "backup_policy_of_row row = \<lparr>
    bpolicy_policy_id = column_text (row ''policy_id''),
    bpolicy_node_id = column_text (row ''node_id''),
    bpolicy_source_path = column_text (row ''source_path''),
    bpolicy_recursive = column_bool (row ''recursive''),
    bpolicy_enabled = column_bool (row ''enabled''),
    bpolicy_schedule_expression = column_text (row ''schedule_expression''),
    bpolicy_created_at_epoch = column_int64 (row ''created_at_epoch'')\<rparr>"

definition Sqlite_UpsertBackupPolicy :: "BackupPolicy \<Rightarrow> SqliteDb \<Rightarrow> sql_effect" where
  "Sqlite_UpsertBackupPolicy r = sql_insert ''backup_policies'' (backup_policy_binds r)
     (Some ([''policy_id''],
       [''node_id'', ''source_path'', ''recursive'', ''enabled'', ''schedule_expression'',
        ''created_at_epoch'']))"

definition Sqlite_GetBackupPolicy :: "SqliteDb \<Rightarrow> string \<Rightarrow> BackupPolicy option" where
  "Sqlite_GetBackupPolicy db k =
     map_option backup_policy_of_row (first_row (sql_where db ''backup_policies'' ''policy_id'' (bind_text k)))"

definition Sqlite_ListBackupPolicies :: "SqliteDb \<Rightarrow> BackupPolicy list" where
  "Sqlite_ListBackupPolicies db =
     map backup_policy_of_row (order_by [''created_at_epoch''] (sql_rows db ''backup_policies''))"

definition transfer_policy_binds :: "TransferPolicy \<Rightarrow> (string \<times> sql_value) list" where
  "transfer_policy_binds r =
    [(''policy_id'', bind_text (tpolicy_policy_id r)),
     (''retention_seconds'', bind_int64 (tpolicy_retention_seconds r)),
     (''auto_cleanup'', bind_bool (tpolicy_auto_cleanup r)),
     (''private_library_only'', bind_bool (tpolicy_private_library_only r))]"

definition transfer_policy_of_row :: "sql_row \<Rightarrow> TransferPolicy" where
  "transfer_policy_of_row row = \<lparr>
    tpolicy_policy_id = column_text (row ''policy_id''),
    tpolicy_retention_seconds = column_int64 (row ''retention_seconds''),
    tpolicy_auto_cleanup = column_bool (row ''auto_cleanup''),
    tpolicy_private_library_only = column_bool (row ''private_library_only'')\<rparr>"

definition Sqlite_UpsertTransferPolicy :: "TransferPolicy \<Rightarrow> SqliteDb \<Rightarrow> sql_effect" where
  "Sqlite_UpsertTransferPolicy r = sql_insert ''transfer_policies'' (transfer_policy_binds r)
     (Some ([''policy_id''],
       [''retention_seconds'', ''auto_cleanup'', ''private_library_only'']))"

definition Sqlite_GetTransferPolicy :: "SqliteDb \<Rightarrow> string \<Rightarrow> TransferPolicy option" where
  "Sqlite_GetTransferPolicy db k =
     map_option transfer_policy_of_row (first_row (sql_where db ''transfer_policies'' ''policy_id'' (bind_text k)))"

definition Sqlite_ListTransferPolicies :: "SqliteDb \<Rightarrow> TransferPolicy list" where
  "Sqlite_ListTransferPolicies db =
     map transfer_policy_of_row (order_by [''policy_id''] (sql_rows db ''transfer_policies''))"

definition scheduled_task_binds :: "ScheduledTaskRecord \<Rightarrow> (string \<times> sql_value) list" where
  "scheduled_task_binds r =
    [(''task_id'', bind_text (task_task_id r)),
     (''domain'', bind_enum JobDomain_enumerators (task_domain r)),
     (''related_id'', bind_text (task_related_id r)),
     (''source_node'', bind_text (task_source_node r)),
     (''target_node'', bind_text (task_target_node r)),
     (''state'', bind_enum JobState_enumerators (task_state r)),
     (''created_at_epoch'', bind_int64 (task_created_at_epoch r)),
     (''retry_count'', bind_int (task_retry_count r)),
     (''detail'', bind_text (task_detail r))]"

definition scheduled_task_of_row :: "sql_row \<Rightarrow> ScheduledTaskRecord" where
  "scheduled_task_of_row row = \<lparr>
    task_task_id = column_text (row ''task_id''),
    task_domain = column_enum JobDomain_enumerators (row ''domain''),
    task_related_id = column_text (row ''related_id''),
    task_source_node = column_text (row ''source_node''),
    task_target_node = column_text (row ''target_node''),
    task_state = column_enum JobState_enumerators (row ''state''),
    task_created_at_epoch = column_int64 (row ''created_at_epoch''),
    task_retry_count = column_int (row ''retry_count''),
    task_detail = column_text (row ''detail'')\<rparr>"

definition Sqlite_UpsertScheduledTask :: "ScheduledTaskRecord \<Rightarrow> SqliteDb \<Rightarrow> sql_effect" where
  "Sqlite_UpsertScheduledTask r = sql_insert ''scheduled_tasks'' (scheduled_task_binds r)
     (Some ([''task_id''],
       [''domain'', ''related_id'', ''source_node'', ''target_node'', ''state'', ''created_at_epoch'',
        ''retry_count'', ''detail'']))"

definition Sqlite_GetScheduledTaskRecord :: "SqliteDb \<Rightarrow> string \<Rightarrow> ScheduledTaskRecord option" where
  "Sqlite_GetScheduledTaskRecord db k =
     map_option scheduled_task_of_row (first_row (sql_where db ''scheduled_tasks'' ''task_id'' (bind_text k)))"

definition Sqlite_ListScheduledTasks :: "SqliteDb \<Rightarrow> ScheduledTaskRecord list" where
  "Sqlite_ListScheduledTasks db =
     map scheduled_task_of_row (order_by [''created_at_epoch''] (sql_rows db ''scheduled_tasks''))"

definition backup_job_binds :: "BackupJob \<Rightarrow> (string \<times> sql_value) list" where
  "backup_job_binds r =
    [(''job_id'', bind_text (job_job_id r)),
     (''node_id'', bind_text (job_node_id r)),
     (''source_path'', bind_text (job_source_path r)),
     (''destination_label'', bind_text (job_destination_label r)),
     (''created_at_epoch'', bind_int64 (job_created_at_epoch r))]"

definition backup_job_of_row :: "sql_row \<Rightarrow> BackupJob" where
  "backup_job_of_row row = \<lparr>
    job_job_id = column_text (row ''job_id''),
    job_node_id = column_text (row ''node_id''),
    job_source_path = column_text (row ''source_path''),
    job_destination_label = column_text (row ''destination_label''),
    job_created_at_epoch = column_int64 (row ''created_at_epoch'')\<rparr>"

definition Sqlite_UpsertBackupJob :: "BackupJob \<Rightarrow> SqliteDb \<Rightarrow> sql_effect" where
  "Sqlite_UpsertBackupJob r = sql_insert ''backup_jobs'' (backup_job_binds r)
     (Some ([''job_id''],
       [''node_id'', ''source_path'', ''destination_label'', ''created_at_epoch'']))"

definition Sqlite_GetBackupJob :: "SqliteDb \<Rightarrow> string \<Rightarrow> BackupJob option" where
  "Sqlite_GetBackupJob db k =
     map_option backup_job_of_row (first_row (sql_where db ''backup_jobs'' ''job_id'' (bind_text k)))"

definition Sqlite_ListBackupJobs :: "SqliteDb \<Rightarrow> BackupJob list" where
  "Sqlite_ListBackupJobs db =
     map backup_job_of_row (order_by [''created_at_epoch''] (sql_rows db ''backup_jobs''))"

definition restore_request_binds :: "RestoreRequest \<Rightarrow> (string \<times> sql_value) list" where
  "restore_request_binds r =
    [(''request_id'', bind_text (restore_request_id r)),
     (''file_id'', bind_text (restore_file_id r)),
     (''source_node_id'', bind_text (restore_source_node_id r)),
     (''target_node_id'', bind_text (restore_target_node_id r)),
     (''destination_path'', bind_text (restore_destination_path r)),
     (''created_at_epoch'', bind_int64 (restore_created_at_epoch r)),
     (''state'', bind_enum RestoreRequestState_enumerators (restore_state r)),
     (''completed_at_epoch'', bind_int64 (restore_completed_at_epoch r)),
     (''error_message'', bind_text (restore_error_message r))]"

definition restore_request_of_row :: "sql_row \<Rightarrow> RestoreRequest" where
  "restore_request_of_row row = \<lparr>
    restore_request_id = column_text (row ''request_id''),
    restore_file_id = column_text (row ''file_id''),
    restore_source_node_id = column_text (row ''source_node_id''),
    restore_target_node_id = column_text (row ''target_node_id''),
    restore_destination_path = column_text (row ''destination_path''),
    restore_created_at_epoch = column_int64 (row ''created_at_epoch''),
    restore_state = column_enum RestoreRequestState_enumerators (row ''state''),
    restore_completed_at_epoch = column_int64 (row ''completed_at_epoch''),
    restore_error_message = column_text (row ''error_message'')\<rparr>"

definition Sqlite_UpsertRestoreRequest :: "RestoreRequest \<Rightarrow> SqliteDb \<Rightarrow> sql_effect" where
  "Sqlite_UpsertRestoreRequest r = sql_insert ''restore_requests'' (restore_request_binds r)
     (Some ([''request_id''],
       [''file_id'', ''source_node_id'', ''target_node_id'', ''destination_path'',
        ''created_at_epoch'', ''state'', ''completed_at_epoch'', ''error_message'']))"

definition Sqlite_GetRestoreRequest :: "SqliteDb \<Rightarrow> string \<Rightarrow> RestoreRequest option" where
  "Sqlite_GetRestoreRequest db k =
     map_option restore_request_of_row (first_row (sql_where db ''restore_requests'' ''request_id'' (bind_text k)))"

definition Sqlite_ListRestoreRequests :: "SqliteDb \<Rightarrow> RestoreRequest list" where
  "Sqlite_ListRestoreRequests db =
     map restore_request_of_row (order_by [''created_at_epoch''] (sql_rows db ''restore_requests''))"

definition sync_task_binds :: "SyncTask \<Rightarrow> (string \<times> sql_value) list" where
  "sync_task_binds r =
    [(''task_id'', bind_text (synctask_task_id r)),
     (''source_node'', bind_text (synctask_source_node r)),
     (''target_node'', bind_text (synctask_target_node r)),
     (''file_id'', bind_text (synctask_file_id r)),
     (''relative_path'', bind_text (synctask_relative_path r)),
     (''expected_root_hash'', bind_text (synctask_expected_root_hash r)),
     (''temp_path'', bind_text (synctask_temp_path r)),
     (''total_chunks'', bind_int (synctask_total_chunks r)),
     (''completed_chunks'', bind_int (synctask_completed_chunks r)),
     (''state'', bind_enum SyncTaskState_enumerators (synctask_state r)),
     (''retry_count'', bind_int (synctask_retry_count r)),
     (''error_message'', bind_text (synctask_error_message r))]"

definition sync_task_of_row :: "sql_row \<Rightarrow> SyncTask" where
  "sync_task_of_row row = \<lparr>
    synctask_task_id = column_text (row ''task_id''),
    synctask_source_node = column_text (row ''source_node''),
    synctask_target_node = column_text (row ''target_node''),
    synctask_file_id = column_text (row ''file_id''),
    synctask_relative_path = column_text (row ''relative_path''),
    synctask_expected_root_hash = column_text (row ''expected_root_hash''),
    synctask_temp_path = column_text (row ''temp_path''),
    synctask_total_chunks = column_int (row ''total_chunks''),
    synctask_completed_chunks = column_int (row ''completed_chunks''),
    synctask_state = column_enum SyncTaskState_enumerators (row ''state''),
    synctask_retry_count = column_int (row ''retry_count''),
    synctask_error_message = column_text (row ''error_message'')\<rparr>"

definition Sqlite_UpsertTask :: "SyncTask \<Rightarrow> SqliteDb \<Rightarrow> sql_effect" where
  "Sqlite_UpsertTask r = sql_insert ''sync_tasks'' (sync_task_binds r)
     (Some ([''task_id''],
       [''source_node'', ''target_node'', ''file_id'', ''relative_path'', ''expected_root_hash'',
        ''temp_path'', ''total_chunks'', ''completed_chunks'', ''state'', ''retry_count'',
        ''error_message'']))"

definition Sqlite_GetTask :: "SqliteDb \<Rightarrow> string \<Rightarrow> SyncTask option" where
  "Sqlite_GetTask db k =
     map_option sync_task_of_row (first_row (sql_where db ''sync_tasks'' ''task_id'' (bind_text k)))"

definition stored_object_binds :: "StoredObjectRecord \<Rightarrow> (string \<times> sql_value) list" where
  "stored_object_binds r =
    [(''file_id'', bind_text (stored_file_id r)),
     (''backend_name'', bind_text (stored_backend_name r)),
     (''storage_key'', bind_text (stored_storage_key r)),
     (''access_url'', bind_text (stored_access_url r)),
     (''source_path'', bind_text (stored_source_path r)),
     (''stored_at_epoch'', bind_int64 (stored_stored_at_epoch r))]"

definition stored_object_of_row :: "sql_row \<Rightarrow> StoredObjectRecord" where
  "stored_object_of_row row = \<lparr>
    stored_file_id = column_text (row ''file_id''),
    stored_backend_name = column_text (row ''backend_name''),
    stored_storage_key = column_text (row ''storage_key''),
    stored_access_url = column_text (row ''access_url''),
    stored_source_path = column_text (row ''source_path''),
    stored_stored_at_epoch = column_int64 (row ''stored_at_epoch'')\<rparr>"

definition Sqlite_UpsertStoredObject :: "StoredObjectRecord \<Rightarrow> SqliteDb \<Rightarrow> sql_effect" where
  "Sqlite_UpsertStoredObject r = sql_insert ''stored_objects'' (stored_object_binds r)
     (Some ([''file_id''],
       [''backend_name'', ''storage_key'', ''access_url'', ''source_path'', ''stored_at_epoch'']))"

definition Sqlite_GetStoredObject :: "SqliteDb \<Rightarrow> string \<Rightarrow> StoredObjectRecord option" where
  "Sqlite_GetStoredObject db k =
     map_option stored_object_of_row (first_row (sql_where db ''stored_objects'' ''file_id'' (bind_text k)))"

definition Sqlite_ListStoredObjects :: "SqliteDb \<Rightarrow> StoredObjectRecord list" where
  "Sqlite_ListStoredObjects db =
     map stored_object_of_row (order_by [''stored_at_epoch''] (sql_rows db ''stored_objects''))"

definition backup_record_binds :: "BackupRecord \<Rightarrow> (string \<times> sql_value) list" where
  "backup_record_binds r =
    [(''record_id'', bind_text (backup_record_id r)),
     (''job_id'', bind_text (backup_job_id r)),
     (''node_id'', bind_text (backup_node_id r)),
     (''file_id'', bind_text (backup_file_id r)),
     (''relative_path'', bind_text (backup_relative_path r)),
     (''source_path'', bind_text (backup_source_path r)),
     (''backend_name'', bind_text (backup_backend_name r)),
     (''storage_key'', bind_text (backup_storage_key r)),
     (''backed_up_at_epoch'', bind_int64 (backup_backed_up_at_epoch r))]"

definition backup_record_of_row :: "sql_row \<Rightarrow> BackupRecord" where
  "backup_record_of_row row = \<lparr>
    backup_record_id = column_text (row ''record_id''),
    backup_job_id = column_text (row ''job_id''),
    backup_node_id = column_text (row ''node_id''),
    backup_file_id = column_text (row ''file_id''),
    backup_relative_path = column_text (row ''relative_path''),
    backup_source_path = column_text (row ''source_path''),
    backup_backend_name = column_text (row ''backend_name''),
    backup_storage_key = column_text (row ''storage_key''),
    backup_backed_up_at_epoch = column_int64 (row ''backed_up_at_epoch'')\<rparr>"

definition Sqlite_UpsertBackupRecord :: "BackupRecord \<Rightarrow> SqliteDb \<Rightarrow> sql_effect" where
  "Sqlite_UpsertBackupRecord r = sql_insert ''backup_records'' (backup_record_binds r)
     (Some ([''record_id''],
       [''job_id'', ''node_id'', ''file_id'', ''relative_path'', ''source_path'', ''backend_name'',
        ''storage_key'', ''backed_up_at_epoch'']))"

definition Sqlite_ListBackupRecords :: "SqliteDb \<Rightarrow> BackupRecord list" where
  "Sqlite_ListBackupRecords db =
     map backup_record_of_row (order_by [''backed_up_at_epoch''] (sql_rows db ''backup_records''))"

definition Sqlite_ListScheduledTasksByState :: "SqliteDb \<Rightarrow> JobState \<Rightarrow> ScheduledTaskRecord list" where
  "Sqlite_ListScheduledTasksByState db st =
     map scheduled_task_of_row (order_by [''created_at_epoch'']
       (sql_where db ''scheduled_tasks'' ''state'' (bind_enum JobState_enumerators st)))"

section \<open>The other tables\<close>

definition entry_binds :: "SharedLibraryEntry \<Rightarrow> (string \<times> sql_value) list" where
  "entry_binds r =
    [(''entry_id'', bind_text (entry_entry_id r)),
     (''owner_node_id'', bind_text (entry_owner_node_id r)),
     (''source_path'', bind_text (entry_source_path r)),
     (''file_id'', bind_text (entry_file_id r)),
     (''display_name'', bind_text (entry_display_name r)),
     (''note'', bind_text (entry_note r)),
     (''created_at_epoch'', bind_int64 (entry_created_at_epoch r)),
     (''expires_at_epoch'', bind_int64 (entry_expires_at_epoch r)),
     (''expired'', bind_bool (entry_expired r)),
     (''delivered'', bind_bool (entry_delivered r))]"

definition entry_of_row :: "sql_row \<Rightarrow> SharedLibraryEntry" where
  "entry_of_row row = \<lparr>
    entry_entry_id = column_text (row ''entry_id''),
    entry_owner_node_id = column_text (row ''owner_node_id''),
    entry_source_path = column_text (row ''source_path''),
    entry_file_id = column_text (row ''file_id''),
    entry_display_name = column_text (row ''display_name''),
    entry_note = column_text (row ''note''),
    entry_created_at_epoch = column_int64 (row ''created_at_epoch''),
    entry_expires_at_epoch = column_int64 (row ''expires_at_epoch''),
    entry_expired = column_bool (row ''expired''),
    entry_delivered = column_bool (row ''delivered''),
    entry_recipient_nodes = [], entry_recipients = []\<rparr>"

definition file_binds :: "FileRecord \<Rightarrow> (string \<times> sql_value) list" where
  "file_binds r =
    [(''file_id'', bind_text (file_file_id r)),
     (''relative_path'', bind_text (file_relative_path r)),
     (''absolute_path'', bind_text (file_absolute_path r)),
     (''size'', bind_int64 (file_size r)),
     (''modified_time_epoch'', bind_int64 (file_modified_time_epoch r)),
     (''mode'', bind_int (file_mode r)),
     (''root_hash'', bind_text (file_root_hash r)),
     (''status'', bind_enum FileStatus_enumerators (file_status r))]"

definition file_of_row :: "sql_row \<Rightarrow> FileRecord" where
  "file_of_row row = \<lparr>
    file_file_id = column_text (row ''file_id''),
    file_relative_path = column_text (row ''relative_path''),
    file_absolute_path = column_text (row ''absolute_path''),
    file_size = column_int64 (row ''size''),
    file_modified_time_epoch = column_int64 (row ''modified_time_epoch''),
    file_mode = column_int (row ''mode''),
    file_root_hash = column_text (row ''root_hash''),
    file_status = column_enum FileStatus_enumerators (row ''status''),
    file_chunks = []\<rparr>"

definition device_file_binds :: "DeviceFileRecord \<Rightarrow> (string \<times> sql_value) list" where
  "device_file_binds r =
    [(''record_id'', bind_text (devfile_record_id r)),
     (''node_id'', bind_text (devfile_node_id r)),
     (''file_id'', bind_text (devfile_file_id r)),
     (''relative_path'', bind_text (devfile_relative_path r)),
     (''absolute_path'', bind_text (devfile_absolute_path r)),
     (''source_kind'', bind_text (devfile_source_kind r)),
     (''source_ref_id'', bind_text (devfile_source_ref_id r)),
     (''updated_at_epoch'', bind_int64 (devfile_updated_at_epoch r))]"

definition device_file_of_row :: "sql_row \<Rightarrow> DeviceFileRecord" where
  "device_file_of_row row = \<lparr>
    devfile_record_id = column_text (row ''record_id''),
    devfile_node_id = column_text (row ''node_id''),
    devfile_file_id = column_text (row ''file_id''),
    devfile_relative_path = column_text (row ''relative_path''),
    devfile_absolute_path = column_text (row ''absolute_path''),
    devfile_source_kind = column_text (row ''source_kind''),
    devfile_source_ref_id = column_text (row ''source_ref_id''),
    devfile_updated_at_epoch = column_int64 (row ''updated_at_epoch'')\<rparr>"

definition audit_event_binds :: "AuditEvent \<Rightarrow> (string \<times> sql_value) list" where
  "audit_event_binds r =
    [(''event_id'', bind_text (event_event_id r)),
     (''category'', bind_text (event_category r)),
     (''detail'', bind_text (event_detail r)),
     (''created_at_epoch'', bind_int64 (event_created_at_epoch r))]"

definition audit_event_of_row :: "sql_row \<Rightarrow> AuditEvent" where
  "audit_event_of_row row = \<lparr>
    event_event_id = column_text (row ''event_id''),
    event_category = column_text (row ''category''),
    event_detail = column_text (row ''detail''),
    event_created_at_epoch = column_int64 (row ''created_at_epoch'')\<rparr>"

definition task_chunk_binds :: "SyncTaskChunk \<Rightarrow> (string \<times> sql_value) list" where
  "task_chunk_binds r =
    [(''task_id'', bind_text (taskchunk_task_id r)),
     (''file_id'', bind_text (taskchunk_file_id r)),
     (''chunk_index'', bind_int (taskchunk_index r)),
     (''chunk_offset'', bind_int64 (taskchunk_offset r)),
     (''chunk_size'', bind_int64 (taskchunk_size r)),
     (''chunk_hash'', bind_text (taskchunk_hash r))]"

text \<open>The audit log only inserts: a second event with the same id raises.\<close>

definition Sqlite_AppendAuditEvent :: "AuditEvent \<Rightarrow> SqliteDb \<Rightarrow> sql_effect" where
  "Sqlite_AppendAuditEvent e = sql_insert ''audit_events'' (audit_event_binds e) None"

definition Sqlite_ListAuditEvents :: "SqliteDb \<Rightarrow> AuditEvent list" where
  "Sqlite_ListAuditEvents db =
     map audit_event_of_row (order_by [''created_at_epoch'', ''event_id''] (sql_rows db ''audit_events''))"

definition Sqlite_ListAuditEventsByCategory :: "SqliteDb \<Rightarrow> string \<Rightarrow> AuditEvent list" where
  "Sqlite_ListAuditEventsByCategory db category =
     map audit_event_of_row (order_by [''created_at_epoch'', ''event_id'']
       (sql_where db ''audit_events'' ''category'' (bind_text category)))"

definition Sqlite_UpsertDeviceFile :: "DeviceFileRecord \<Rightarrow> SqliteDb \<Rightarrow> sql_effect" where
  "Sqlite_UpsertDeviceFile r = sql_insert ''device_file_records'' (device_file_binds r)
     (Some ([''node_id'', ''absolute_path''],
       [''record_id'', ''file_id'', ''relative_path'', ''source_kind'', ''source_ref_id'',
        ''updated_at_epoch'']))"

definition Sqlite_ListDeviceFiles :: "SqliteDb \<Rightarrow> DeviceFileRecord list" where
  "Sqlite_ListDeviceFiles db =
     map device_file_of_row (order_by [''node_id'', ''absolute_path''] (sql_rows db ''device_file_records''))"

text \<open>Chunk progress. The task id of a listed row is the argument, not the column.\<close>

definition Sqlite_MarkTaskChunkComplete :: "SyncTaskChunk \<Rightarrow> SqliteDb \<Rightarrow> sql_effect" where
  "Sqlite_MarkTaskChunkComplete r = sql_insert ''sync_task_chunks'' (task_chunk_binds r)
     (Some ([''task_id'', ''chunk_index''],
       [''file_id'', ''chunk_offset'', ''chunk_size'', ''chunk_hash'']))"

definition Sqlite_ClearTaskChunks :: "string \<Rightarrow> SqliteDb \<Rightarrow> sql_effect" where
  "Sqlite_ClearTaskChunks task_id = sql_delete ''sync_task_chunks'' ''task_id'' (bind_text task_id)"

definition task_chunk_of_row :: "string \<Rightarrow> sql_row \<Rightarrow> SyncTaskChunk" where
  "task_chunk_of_row task_id row = \<lparr>
    taskchunk_task_id = task_id,
    taskchunk_file_id = column_text (row ''file_id''),
    taskchunk_index = column_int (row ''chunk_index''),
    taskchunk_offset = column_int64 (row ''chunk_offset''),
    taskchunk_size = column_int64 (row ''chunk_size''),
    taskchunk_hash = column_text (row ''chunk_hash'')\<rparr>"

definition Sqlite_ListTaskChunks :: "SqliteDb \<Rightarrow> string \<Rightarrow> SyncTaskChunk list" where
  "Sqlite_ListTaskChunks db task_id =
     map (task_chunk_of_row task_id) (order_by [''chunk_index'']
       (sql_where db ''sync_task_chunks'' ''task_id'' (bind_text task_id)))"

text \<open>
  A shared entry is a row and one row per recipient, written in one transaction. An entry with
  recipient nodes but no recipient rows is stored with delivered recipients.
\<close>

definition recipient_binds :: "string \<Rightarrow> SharedLibraryRecipient \<Rightarrow> (string \<times> sql_value) list" where
  "recipient_binds entry_id r =
    [(''entry_id'', bind_text entry_id),
     (''node_id'', bind_text (recip_node_id r)),
     (''state'', bind_enum SharedRecipientState_enumerators (recip_state r)),
     (''received_path'', bind_text (recip_received_path r)),
     (''error_message'', bind_text (recip_error_message r)),
     (''updated_at_epoch'', bind_int64 (recip_updated_at_epoch r))]"

definition recipient_of_row :: "string \<Rightarrow> sql_row \<Rightarrow> SharedLibraryRecipient" where
  "recipient_of_row entry_id row = \<lparr>
    recip_entry_id = entry_id,
    recip_node_id = column_text (row ''node_id''),
    recip_state = column_enum SharedRecipientState_enumerators (row ''state''),
    recip_received_path = column_text (row ''received_path''),
    recip_error_message = column_text (row ''error_message''),
    recip_updated_at_epoch = column_int64 (row ''updated_at_epoch'')\<rparr>"

definition node_recipient :: "SharedLibraryEntry \<Rightarrow> string \<Rightarrow> SharedLibraryRecipient" where
  "node_recipient e node_id = \<lparr>
    recip_entry_id = entry_entry_id e, recip_node_id = node_id, recip_state = RecipientDelivered,
    recip_received_path = [], recip_error_message = [],
    recip_updated_at_epoch = entry_created_at_epoch e\<rparr>"

definition insert_recipient :: "SharedLibraryEntry \<Rightarrow> SharedLibraryRecipient \<Rightarrow> SqliteDb \<Rightarrow> sql_effect" where
  "insert_recipient e r = sql_insert ''shared_library_recipients'' (recipient_binds (entry_entry_id e) r) None"

definition Sqlite_UpsertSharedLibraryEntry :: "SharedLibraryEntry \<Rightarrow> SqliteDb \<Rightarrow> sql_effect" where
  "Sqlite_UpsertSharedLibraryEntry e = transaction
     (and_then (sql_insert ''shared_library_entries'' (entry_binds e)
        (Some ([''entry_id''],
          [''owner_node_id'', ''source_path'', ''file_id'', ''display_name'', ''note'',
           ''created_at_epoch'', ''expires_at_epoch'', ''expired'', ''delivered''])))
     (and_then (sql_delete ''shared_library_recipients'' ''entry_id'' (bind_text (entry_entry_id e)))
     (and_then (each (insert_recipient e)
        (if entry_recipients e = [] then map (node_recipient e) (entry_recipient_nodes e) else []))
        (each (insert_recipient e) (entry_recipients e)))))"

definition Sqlite_GetSharedLibraryEntry :: "SqliteDb \<Rightarrow> string \<Rightarrow> SharedLibraryEntry option" where
  "Sqlite_GetSharedLibraryEntry db k =
     map_option (\<lambda>row.
       let recipients = map (recipient_of_row k) (order_by [''node_id'']
             (sql_where db ''shared_library_recipients'' ''entry_id'' (bind_text k)))
       in (entry_of_row row)\<lparr>entry_recipients := recipients,
            entry_recipient_nodes := map recip_node_id recipients\<rparr>)
     (first_row (sql_where db ''shared_library_entries'' ''entry_id'' (bind_text k)))"

definition Sqlite_ListSharedLibraryEntries :: "SqliteDb \<Rightarrow> SharedLibraryEntry list" where
  "Sqlite_ListSharedLibraryEntries db =
     List.map_filter (\<lambda>row. Sqlite_GetSharedLibraryEntry db (column_text (row ''entry_id'')))
       (order_by [''created_at_epoch''] (sql_rows db ''shared_library_entries''))"

text \<open>
  A file is a row and one row per chunk. The path is the identity of a file: a row of another file id
  with the same path is removed first, in the same transaction.
\<close>

definition chunk_binds :: "string \<Rightarrow> ChunkRecord \<Rightarrow> (string \<times> sql_value) list" where
  "chunk_binds file_id c =
    [(''file_id'', bind_text file_id),
     (''chunk_index'', bind_int (chunk_index c)),
     (''chunk_offset'', bind_int64 (chunk_offset c)),
     (''chunk_size'', bind_int64 (chunk_size c)),
     (''chunk_hash'', bind_text (chunk_hash c))]"

definition chunk_of_row :: "string \<Rightarrow> sql_row \<Rightarrow> ChunkRecord" where
  "chunk_of_row file_id row = \<lparr>
    chunk_file_id = file_id,
    chunk_index = column_int (row ''chunk_index''),
    chunk_offset = column_int64 (row ''chunk_offset''),
    chunk_size = column_int64 (row ''chunk_size''),
    chunk_hash = column_text (row ''chunk_hash'')\<rparr>"

definition existing_file_id :: "SqliteDb \<Rightarrow> path \<Rightarrow> string" where
  "existing_file_id db p =
     (case first_row (sql_where db ''file_records'' ''absolute_path'' (bind_text p)) of
        Some row \<Rightarrow> column_text (row ''file_id'') | None \<Rightarrow> [])"

definition delete_old_version :: "FileRecord \<Rightarrow> SqliteDb \<Rightarrow> sql_effect" where
  "delete_old_version f db =
     (let existing = existing_file_id db (file_absolute_path f) in
      if existing \<noteq> [] \<and> existing \<noteq> file_file_id f then
        and_then (sql_delete ''chunk_records'' ''file_id'' (bind_text existing))
          (sql_delete ''file_records'' ''absolute_path'' (bind_text (file_absolute_path f))) db
      else (Inr (), db))"

definition insert_chunk :: "FileRecord \<Rightarrow> ChunkRecord \<Rightarrow> SqliteDb \<Rightarrow> sql_effect" where
  "insert_chunk f c = sql_insert ''chunk_records'' (chunk_binds (file_file_id f) c) None"

definition Sqlite_UpsertFile :: "FileRecord \<Rightarrow> SqliteDb \<Rightarrow> sql_effect" where
  "Sqlite_UpsertFile f = transaction
     (and_then (delete_old_version f)
     (and_then (sql_insert ''file_records'' (file_binds f)
        (Some ([''file_id''],
          [''relative_path'', ''absolute_path'', ''size'', ''modified_time_epoch'', ''mode'', ''root_hash'',
           ''status''])))
     (and_then (sql_delete ''chunk_records'' ''file_id'' (bind_text (file_file_id f)))
        (each (insert_chunk f) (file_chunks f)))))"

definition Sqlite_ListChunks :: "SqliteDb \<Rightarrow> string \<Rightarrow> ChunkRecord list" where
  "Sqlite_ListChunks db file_id =
     map (chunk_of_row file_id) (order_by [''chunk_index'']
       (sql_where db ''chunk_records'' ''file_id'' (bind_text file_id)))"

definition with_chunks :: "SqliteDb \<Rightarrow> FileRecord \<Rightarrow> FileRecord" where
  "with_chunks db f = f\<lparr>file_chunks := Sqlite_ListChunks db (file_file_id f)\<rparr>"

definition Sqlite_GetFile :: "SqliteDb \<Rightarrow> string \<Rightarrow> FileRecord option" where
  "Sqlite_GetFile db k = map_option (\<lambda>row. with_chunks db (file_of_row row))
     (first_row (sql_where db ''file_records'' ''file_id'' (bind_text k)))"

definition Sqlite_GetFileByPath :: "SqliteDb \<Rightarrow> path \<Rightarrow> FileRecord option" where
  "Sqlite_GetFileByPath db p = map_option (\<lambda>row. with_chunks db (file_of_row row))
     (first_row (sql_where db ''file_records'' ''absolute_path'' (bind_text p)))"

definition Sqlite_ListFiles :: "SqliteDb \<Rightarrow> FileRecord list" where
  "Sqlite_ListFiles db =
     map (\<lambda>row. with_chunks db (file_of_row row)) (order_by [''absolute_path''] (sql_rows db ''file_records''))"

end
