(* ===== verification/Sqlite_Refinement.thy ===== *)
theory Sqlite_Refinement
  imports Sqlite_Store
begin

text \<open>
  The database behind \<^verbatim>\<open>SqliteMetadataStore\<close> implements the in-memory store. The abstraction
  \<open>store_of\<close> reads a database as a state of \<open>MetadataStore\<close>; each statement commutes with it, table by
  table, so that every service proved over the in-memory store behaves the same over the database,
  up to what is stated here: texts end at a NUL, listings are sorted, and the constraints of the schema
  turn some writes into exceptions.
\<close>

section \<open>Enumerations\<close>

lemma JobDomain_column [simp]:
  "column_enum JobDomain_enumerators (bind_enum JobDomain_enumerators d) = d"
  by (rule column_bind_enum; cases d) (simp_all add: JobDomain_enumerators_def)

lemma JobState_column [simp]:
  "column_enum JobState_enumerators (bind_enum JobState_enumerators s) = s"
  by (rule column_bind_enum; cases s) (simp_all add: JobState_enumerators_def)

lemma RestoreRequestState_column [simp]:
  "column_enum RestoreRequestState_enumerators (bind_enum RestoreRequestState_enumerators q) = q"
  by (rule column_bind_enum; cases q) (simp_all add: RestoreRequestState_enumerators_def)

lemma SyncTaskState_column [simp]:
  "column_enum SyncTaskState_enumerators (bind_enum SyncTaskState_enumerators t) = t"
  by (rule column_bind_enum; cases t) (simp_all add: SyncTaskState_enumerators_def)

lemma SharedRecipientState_column [simp]:
  "column_enum SharedRecipientState_enumerators (bind_enum SharedRecipientState_enumerators p) = p"
  by (rule column_bind_enum; cases p) (simp_all add: SharedRecipientState_enumerators_def)

lemma FileStatus_column [simp]:
  "column_enum FileStatus_enumerators (bind_enum FileStatus_enumerators f) = f"
  by (rule column_bind_enum; cases f) (simp_all add: FileStatus_enumerators_def)

section \<open>Records without NUL\<close>

text \<open>A record can be stored faithfully when none of its texts contains a NUL.\<close>

definition node_clean :: "NodeInfo \<Rightarrow> bool" where
  "node_clean r = list_all no_nul
    [node_node_id r, node_device_name r, node_zt_ip r]"

definition backup_policy_clean :: "BackupPolicy \<Rightarrow> bool" where
  "backup_policy_clean r = list_all no_nul
    [bpolicy_policy_id r, bpolicy_node_id r, bpolicy_source_path r, bpolicy_schedule_expression r]"

definition transfer_policy_clean :: "TransferPolicy \<Rightarrow> bool" where
  "transfer_policy_clean r = list_all no_nul
    [tpolicy_policy_id r]"

definition scheduled_task_clean :: "ScheduledTaskRecord \<Rightarrow> bool" where
  "scheduled_task_clean r = list_all no_nul
    [task_task_id r, task_related_id r, task_source_node r, task_target_node r, task_detail r]"

definition backup_job_clean :: "BackupJob \<Rightarrow> bool" where
  "backup_job_clean r = list_all no_nul
    [job_job_id r, job_node_id r, job_source_path r, job_destination_label r]"

definition restore_request_clean :: "RestoreRequest \<Rightarrow> bool" where
  "restore_request_clean r = list_all no_nul
    [restore_request_id r, restore_file_id r, restore_source_node_id r, restore_target_node_id r,
    restore_destination_path r, restore_error_message r]"

definition sync_task_clean :: "SyncTask \<Rightarrow> bool" where
  "sync_task_clean r = list_all no_nul
    [synctask_task_id r, synctask_source_node r, synctask_target_node r, synctask_file_id r,
    synctask_relative_path r, synctask_expected_root_hash r, synctask_temp_path r,
    synctask_error_message r]"

definition stored_object_clean :: "StoredObjectRecord \<Rightarrow> bool" where
  "stored_object_clean r = list_all no_nul
    [stored_file_id r, stored_backend_name r, stored_storage_key r, stored_access_url r,
    stored_source_path r]"

definition backup_record_clean :: "BackupRecord \<Rightarrow> bool" where
  "backup_record_clean r = list_all no_nul
    [backup_record_id r, backup_job_id r, backup_node_id r, backup_file_id r,
    backup_relative_path r, backup_source_path r, backup_backend_name r, backup_storage_key r]"

interpretation node_sql: sql_keyed "''node_records''" "''node_id''" node_binds
  "[''device_name'', ''zt_ip'', ''last_seen_epoch'']"
  node_of_row node_node_id node_clean
  by unfold_locales (simp_all add: node_binds_def node_of_row_def node_clean_def)

interpretation backup_policy_sql: sql_keyed "''backup_policies''" "''policy_id''" backup_policy_binds
  "[''node_id'', ''source_path'', ''recursive'', ''enabled'', ''schedule_expression'',
    ''created_at_epoch'']"
  backup_policy_of_row bpolicy_policy_id backup_policy_clean
  by unfold_locales (simp_all add: backup_policy_binds_def backup_policy_of_row_def backup_policy_clean_def)

interpretation transfer_policy_sql: sql_keyed "''transfer_policies''" "''policy_id''" transfer_policy_binds
  "[''retention_seconds'', ''auto_cleanup'', ''private_library_only'']"
  transfer_policy_of_row tpolicy_policy_id transfer_policy_clean
  by unfold_locales (simp_all add: transfer_policy_binds_def transfer_policy_of_row_def transfer_policy_clean_def)

interpretation scheduled_task_sql: sql_keyed "''scheduled_tasks''" "''task_id''" scheduled_task_binds
  "[''domain'', ''related_id'', ''source_node'', ''target_node'', ''state'', ''created_at_epoch'',
    ''retry_count'', ''detail'']"
  scheduled_task_of_row task_task_id scheduled_task_clean
  by unfold_locales (simp_all add: scheduled_task_binds_def scheduled_task_of_row_def scheduled_task_clean_def)

interpretation backup_job_sql: sql_keyed "''backup_jobs''" "''job_id''" backup_job_binds
  "[''node_id'', ''source_path'', ''destination_label'', ''created_at_epoch'']"
  backup_job_of_row job_job_id backup_job_clean
  by unfold_locales (simp_all add: backup_job_binds_def backup_job_of_row_def backup_job_clean_def)

interpretation restore_request_sql: sql_keyed "''restore_requests''" "''request_id''" restore_request_binds
  "[''file_id'', ''source_node_id'', ''target_node_id'', ''destination_path'',
    ''created_at_epoch'', ''state'', ''completed_at_epoch'', ''error_message'']"
  restore_request_of_row restore_request_id restore_request_clean
  by unfold_locales (simp_all add: restore_request_binds_def restore_request_of_row_def restore_request_clean_def)

interpretation sync_task_sql: sql_keyed "''sync_tasks''" "''task_id''" sync_task_binds
  "[''source_node'', ''target_node'', ''file_id'', ''relative_path'', ''expected_root_hash'',
    ''temp_path'', ''total_chunks'', ''completed_chunks'', ''state'', ''retry_count'',
    ''error_message'']"
  sync_task_of_row synctask_task_id sync_task_clean
  by unfold_locales (simp_all add: sync_task_binds_def sync_task_of_row_def sync_task_clean_def)

interpretation stored_object_sql: sql_keyed "''stored_objects''" "''file_id''" stored_object_binds
  "[''backend_name'', ''storage_key'', ''access_url'', ''source_path'', ''stored_at_epoch'']"
  stored_object_of_row stored_file_id stored_object_clean
  by unfold_locales (simp_all add: stored_object_binds_def stored_object_of_row_def stored_object_clean_def)

interpretation backup_record_sql: sql_keyed "''backup_records''" "''record_id''" backup_record_binds
  "[''job_id'', ''node_id'', ''file_id'', ''relative_path'', ''source_path'', ''backend_name'',
    ''storage_key'', ''backed_up_at_epoch'']"
  backup_record_of_row backup_record_id backup_record_clean
  by unfold_locales (simp_all add: backup_record_binds_def backup_record_of_row_def backup_record_clean_def)


section \<open>Abstraction\<close>

text \<open>
  The rows of the two-table records: a shared entry with its recipients in the order of their node
  ids, a file with its chunks in the order of their indexes.
\<close>

definition entry_at_row :: "SqliteDb \<Rightarrow> sql_row \<Rightarrow> SharedLibraryEntry" where
  "entry_at_row db row =
     (let k = column_text (row ''entry_id'');
          recipients = map (recipient_of_row k) (order_by [''node_id'']
            (sql_where db ''shared_library_recipients'' ''entry_id'' (bind_text k)))
      in (entry_of_row row)\<lparr>entry_recipients := recipients,
           entry_recipient_nodes := map recip_node_id recipients\<rparr>)"

definition store_of :: "SqliteDb \<Rightarrow> MetadataStore" where
  "store_of db = \<lparr>
    db_nodes = map node_of_row (sql_rows db ''node_records''),
    db_backup_policies = map backup_policy_of_row (sql_rows db ''backup_policies''),
    db_transfer_policies = map transfer_policy_of_row (sql_rows db ''transfer_policies''),
    db_scheduled_tasks = map scheduled_task_of_row (sql_rows db ''scheduled_tasks''),
    db_backup_jobs = map backup_job_of_row (sql_rows db ''backup_jobs''),
    db_restore_requests = map restore_request_of_row (sql_rows db ''restore_requests''),
    db_shared_library_entries = map (entry_at_row db) (sql_rows db ''shared_library_entries''),
    db_files = map (\<lambda>row. with_chunks db (file_of_row row)) (sql_rows db ''file_records''),
    db_tasks = map sync_task_of_row (sql_rows db ''sync_tasks''),
    db_task_chunks = map (\<lambda>row. task_chunk_of_row (column_text (row ''task_id'')) row)
      (sql_rows db ''sync_task_chunks''),
    db_stored_objects = map stored_object_of_row (sql_rows db ''stored_objects''),
    db_backup_records = map backup_record_of_row (sql_rows db ''backup_records''),
    db_device_files = map device_file_of_row (sql_rows db ''device_file_records''),
    db_audit_events = map audit_event_of_row (sql_rows db ''audit_events'')\<rparr>"

text \<open>What every database opened by the program keeps: the keys of the tables with one key.\<close>

definition keyed_tables :: "(string \<times> string) list" where
  "keyed_tables = [(''node_records'', ''node_id''), (''backup_policies'', ''policy_id''),
    (''transfer_policies'', ''policy_id''), (''scheduled_tasks'', ''task_id''),
    (''backup_jobs'', ''job_id''), (''restore_requests'', ''request_id''),
    (''sync_tasks'', ''task_id''), (''stored_objects'', ''file_id''),
    (''backup_records'', ''record_id''), (''shared_library_entries'', ''entry_id''),
    (''audit_events'', ''event_id'')]"

definition keys_ok :: "SqliteDb \<Rightarrow> bool" where
  "keys_ok db \<longleftrightarrow> (\<forall>(name, k) \<in> set keyed_tables. keyed_ok name k db)"

lemma keys_okD: "keys_ok db \<Longrightarrow> (name, k) \<in> set keyed_tables \<Longrightarrow> keyed_ok name k db"
  by (auto simp: keys_ok_def)

lemma keys_ok_write:
  assumes "keys_ok db" and "\<And>n. n \<noteq> name \<Longrightarrow> db' n = db n"
    and "\<And>k. (name, k) \<in> set keyed_tables \<Longrightarrow> keyed_ok name k db'"
  shows "keys_ok db'"
  unfolding keys_ok_def
proof (clarify)
  fix n k
  assume "(n, k) \<in> set keyed_tables"
  with assms show "keyed_ok n k db'"
    using keyed_ok_frame [of db' n db k] by (cases "n = name") (auto simp: keys_okD)
qed

text \<open>A write of one table leaves the other tables of the abstraction alone.\<close>

lemma sql_where_frame: "db' name = db name \<Longrightarrow> sql_where db' name c v = sql_where db name c v"
  by (simp add: sql_where_def sql_rows_def)

lemma write_frame:
  assumes "\<And>n. n \<noteq> name \<Longrightarrow> db' n = db n"
  shows "n \<noteq> name \<Longrightarrow> sql_rows db' n = sql_rows db n"
    and "name \<noteq> ''shared_library_recipients'' \<Longrightarrow> entry_at_row db' = entry_at_row db"
    and "name \<noteq> ''chunk_records'' \<Longrightarrow> with_chunks db' = with_chunks db"
  using assms
  by (auto simp: fun_eq_iff sql_rows_def entry_at_row_def with_chunks_def Sqlite_ListChunks_def sql_where_def)

lemma node_refines:
  assumes "keys_ok db" and "node_clean r"
  shows "\<exists>db'. Sqlite_UpsertNode r db = (Inr (), db') \<and> keys_ok db' \<and> store_of db' = UpsertNode r (store_of db)"
proof -
  have "keyed_ok ''node_records'' ''node_id'' db"
    by (rule keys_okD [OF assms(1)]) (simp add: keyed_tables_def)
  from node_sql.upsert [OF this assms(2)] obtain db' where
    run: "Sqlite_UpsertNode r db = (Inr (), db')" and ok: "keyed_ok ''node_records'' ''node_id'' db'"
    and frame: "\<And>n. n \<noteq> ''node_records'' \<Longrightarrow> db' n = db n"
    and rows: "map node_of_row (sql_rows db' ''node_records'') =
      upsert_by (\<lambda>y. node_node_id y = node_node_id r) r (map node_of_row (sql_rows db ''node_records''))"
    unfolding Sqlite_UpsertNode_def by blast
  have "keys_ok db'"
    by (rule keys_ok_write [OF assms(1) frame], assumption) (use ok in \<open>simp add: keyed_tables_def\<close>)
  moreover have "store_of db' = UpsertNode r (store_of db)"
    using rows by (simp add: store_of_def UpsertNode_def write_frame [OF frame])
  ultimately show ?thesis using run by blast
qed

lemma backup_policy_refines:
  assumes "keys_ok db" and "backup_policy_clean r"
  shows "\<exists>db'. Sqlite_UpsertBackupPolicy r db = (Inr (), db') \<and> keys_ok db' \<and> store_of db' = UpsertBackupPolicy r (store_of db)"
proof -
  have "keyed_ok ''backup_policies'' ''policy_id'' db"
    by (rule keys_okD [OF assms(1)]) (simp add: keyed_tables_def)
  from backup_policy_sql.upsert [OF this assms(2)] obtain db' where
    run: "Sqlite_UpsertBackupPolicy r db = (Inr (), db')" and ok: "keyed_ok ''backup_policies'' ''policy_id'' db'"
    and frame: "\<And>n. n \<noteq> ''backup_policies'' \<Longrightarrow> db' n = db n"
    and rows: "map backup_policy_of_row (sql_rows db' ''backup_policies'') =
      upsert_by (\<lambda>y. bpolicy_policy_id y = bpolicy_policy_id r) r (map backup_policy_of_row (sql_rows db ''backup_policies''))"
    unfolding Sqlite_UpsertBackupPolicy_def by blast
  have "keys_ok db'"
    by (rule keys_ok_write [OF assms(1) frame], assumption) (use ok in \<open>simp add: keyed_tables_def\<close>)
  moreover have "store_of db' = UpsertBackupPolicy r (store_of db)"
    using rows by (simp add: store_of_def UpsertBackupPolicy_def write_frame [OF frame])
  ultimately show ?thesis using run by blast
qed

lemma transfer_policy_refines:
  assumes "keys_ok db" and "transfer_policy_clean r"
  shows "\<exists>db'. Sqlite_UpsertTransferPolicy r db = (Inr (), db') \<and> keys_ok db' \<and> store_of db' = UpsertTransferPolicy r (store_of db)"
proof -
  have "keyed_ok ''transfer_policies'' ''policy_id'' db"
    by (rule keys_okD [OF assms(1)]) (simp add: keyed_tables_def)
  from transfer_policy_sql.upsert [OF this assms(2)] obtain db' where
    run: "Sqlite_UpsertTransferPolicy r db = (Inr (), db')" and ok: "keyed_ok ''transfer_policies'' ''policy_id'' db'"
    and frame: "\<And>n. n \<noteq> ''transfer_policies'' \<Longrightarrow> db' n = db n"
    and rows: "map transfer_policy_of_row (sql_rows db' ''transfer_policies'') =
      upsert_by (\<lambda>y. tpolicy_policy_id y = tpolicy_policy_id r) r (map transfer_policy_of_row (sql_rows db ''transfer_policies''))"
    unfolding Sqlite_UpsertTransferPolicy_def by blast
  have "keys_ok db'"
    by (rule keys_ok_write [OF assms(1) frame], assumption) (use ok in \<open>simp add: keyed_tables_def\<close>)
  moreover have "store_of db' = UpsertTransferPolicy r (store_of db)"
    using rows by (simp add: store_of_def UpsertTransferPolicy_def write_frame [OF frame])
  ultimately show ?thesis using run by blast
qed

lemma scheduled_task_refines:
  assumes "keys_ok db" and "scheduled_task_clean r"
  shows "\<exists>db'. Sqlite_UpsertScheduledTask r db = (Inr (), db') \<and> keys_ok db' \<and> store_of db' = UpsertScheduledTask r (store_of db)"
proof -
  have "keyed_ok ''scheduled_tasks'' ''task_id'' db"
    by (rule keys_okD [OF assms(1)]) (simp add: keyed_tables_def)
  from scheduled_task_sql.upsert [OF this assms(2)] obtain db' where
    run: "Sqlite_UpsertScheduledTask r db = (Inr (), db')" and ok: "keyed_ok ''scheduled_tasks'' ''task_id'' db'"
    and frame: "\<And>n. n \<noteq> ''scheduled_tasks'' \<Longrightarrow> db' n = db n"
    and rows: "map scheduled_task_of_row (sql_rows db' ''scheduled_tasks'') =
      upsert_by (\<lambda>y. task_task_id y = task_task_id r) r (map scheduled_task_of_row (sql_rows db ''scheduled_tasks''))"
    unfolding Sqlite_UpsertScheduledTask_def by blast
  have "keys_ok db'"
    by (rule keys_ok_write [OF assms(1) frame], assumption) (use ok in \<open>simp add: keyed_tables_def\<close>)
  moreover have "store_of db' = UpsertScheduledTask r (store_of db)"
    using rows by (simp add: store_of_def UpsertScheduledTask_def write_frame [OF frame])
  ultimately show ?thesis using run by blast
qed

lemma backup_job_refines:
  assumes "keys_ok db" and "backup_job_clean r"
  shows "\<exists>db'. Sqlite_UpsertBackupJob r db = (Inr (), db') \<and> keys_ok db' \<and> store_of db' = UpsertBackupJob r (store_of db)"
proof -
  have "keyed_ok ''backup_jobs'' ''job_id'' db"
    by (rule keys_okD [OF assms(1)]) (simp add: keyed_tables_def)
  from backup_job_sql.upsert [OF this assms(2)] obtain db' where
    run: "Sqlite_UpsertBackupJob r db = (Inr (), db')" and ok: "keyed_ok ''backup_jobs'' ''job_id'' db'"
    and frame: "\<And>n. n \<noteq> ''backup_jobs'' \<Longrightarrow> db' n = db n"
    and rows: "map backup_job_of_row (sql_rows db' ''backup_jobs'') =
      upsert_by (\<lambda>y. job_job_id y = job_job_id r) r (map backup_job_of_row (sql_rows db ''backup_jobs''))"
    unfolding Sqlite_UpsertBackupJob_def by blast
  have "keys_ok db'"
    by (rule keys_ok_write [OF assms(1) frame], assumption) (use ok in \<open>simp add: keyed_tables_def\<close>)
  moreover have "store_of db' = UpsertBackupJob r (store_of db)"
    using rows by (simp add: store_of_def UpsertBackupJob_def write_frame [OF frame])
  ultimately show ?thesis using run by blast
qed

lemma restore_request_refines:
  assumes "keys_ok db" and "restore_request_clean r"
  shows "\<exists>db'. Sqlite_UpsertRestoreRequest r db = (Inr (), db') \<and> keys_ok db' \<and> store_of db' = UpsertRestoreRequest r (store_of db)"
proof -
  have "keyed_ok ''restore_requests'' ''request_id'' db"
    by (rule keys_okD [OF assms(1)]) (simp add: keyed_tables_def)
  from restore_request_sql.upsert [OF this assms(2)] obtain db' where
    run: "Sqlite_UpsertRestoreRequest r db = (Inr (), db')" and ok: "keyed_ok ''restore_requests'' ''request_id'' db'"
    and frame: "\<And>n. n \<noteq> ''restore_requests'' \<Longrightarrow> db' n = db n"
    and rows: "map restore_request_of_row (sql_rows db' ''restore_requests'') =
      upsert_by (\<lambda>y. restore_request_id y = restore_request_id r) r (map restore_request_of_row (sql_rows db ''restore_requests''))"
    unfolding Sqlite_UpsertRestoreRequest_def by blast
  have "keys_ok db'"
    by (rule keys_ok_write [OF assms(1) frame], assumption) (use ok in \<open>simp add: keyed_tables_def\<close>)
  moreover have "store_of db' = UpsertRestoreRequest r (store_of db)"
    using rows by (simp add: store_of_def UpsertRestoreRequest_def write_frame [OF frame])
  ultimately show ?thesis using run by blast
qed

lemma sync_task_refines:
  assumes "keys_ok db" and "sync_task_clean r"
  shows "\<exists>db'. Sqlite_UpsertTask r db = (Inr (), db') \<and> keys_ok db' \<and> store_of db' = UpsertTask r (store_of db)"
proof -
  have "keyed_ok ''sync_tasks'' ''task_id'' db"
    by (rule keys_okD [OF assms(1)]) (simp add: keyed_tables_def)
  from sync_task_sql.upsert [OF this assms(2)] obtain db' where
    run: "Sqlite_UpsertTask r db = (Inr (), db')" and ok: "keyed_ok ''sync_tasks'' ''task_id'' db'"
    and frame: "\<And>n. n \<noteq> ''sync_tasks'' \<Longrightarrow> db' n = db n"
    and rows: "map sync_task_of_row (sql_rows db' ''sync_tasks'') =
      upsert_by (\<lambda>y. synctask_task_id y = synctask_task_id r) r (map sync_task_of_row (sql_rows db ''sync_tasks''))"
    unfolding Sqlite_UpsertTask_def by blast
  have "keys_ok db'"
    by (rule keys_ok_write [OF assms(1) frame], assumption) (use ok in \<open>simp add: keyed_tables_def\<close>)
  moreover have "store_of db' = UpsertTask r (store_of db)"
    using rows by (simp add: store_of_def UpsertTask_def write_frame [OF frame])
  ultimately show ?thesis using run by blast
qed

lemma stored_object_refines:
  assumes "keys_ok db" and "stored_object_clean r"
  shows "\<exists>db'. Sqlite_UpsertStoredObject r db = (Inr (), db') \<and> keys_ok db' \<and> store_of db' = UpsertStoredObject r (store_of db)"
proof -
  have "keyed_ok ''stored_objects'' ''file_id'' db"
    by (rule keys_okD [OF assms(1)]) (simp add: keyed_tables_def)
  from stored_object_sql.upsert [OF this assms(2)] obtain db' where
    run: "Sqlite_UpsertStoredObject r db = (Inr (), db')" and ok: "keyed_ok ''stored_objects'' ''file_id'' db'"
    and frame: "\<And>n. n \<noteq> ''stored_objects'' \<Longrightarrow> db' n = db n"
    and rows: "map stored_object_of_row (sql_rows db' ''stored_objects'') =
      upsert_by (\<lambda>y. stored_file_id y = stored_file_id r) r (map stored_object_of_row (sql_rows db ''stored_objects''))"
    unfolding Sqlite_UpsertStoredObject_def by blast
  have "keys_ok db'"
    by (rule keys_ok_write [OF assms(1) frame], assumption) (use ok in \<open>simp add: keyed_tables_def\<close>)
  moreover have "store_of db' = UpsertStoredObject r (store_of db)"
    using rows by (simp add: store_of_def UpsertStoredObject_def write_frame [OF frame])
  ultimately show ?thesis using run by blast
qed

lemma backup_record_refines:
  assumes "keys_ok db" and "backup_record_clean r"
  shows "\<exists>db'. Sqlite_UpsertBackupRecord r db = (Inr (), db') \<and> keys_ok db' \<and> store_of db' = UpsertBackupRecord r (store_of db)"
proof -
  have "keyed_ok ''backup_records'' ''record_id'' db"
    by (rule keys_okD [OF assms(1)]) (simp add: keyed_tables_def)
  from backup_record_sql.upsert [OF this assms(2)] obtain db' where
    run: "Sqlite_UpsertBackupRecord r db = (Inr (), db')" and ok: "keyed_ok ''backup_records'' ''record_id'' db'"
    and frame: "\<And>n. n \<noteq> ''backup_records'' \<Longrightarrow> db' n = db n"
    and rows: "map backup_record_of_row (sql_rows db' ''backup_records'') =
      upsert_by (\<lambda>y. backup_record_id y = backup_record_id r) r (map backup_record_of_row (sql_rows db ''backup_records''))"
    unfolding Sqlite_UpsertBackupRecord_def by blast
  have "keys_ok db'"
    by (rule keys_ok_write [OF assms(1) frame], assumption) (use ok in \<open>simp add: keyed_tables_def\<close>)
  moreover have "store_of db' = UpsertBackupRecord r (store_of db)"
    using rows by (simp add: store_of_def UpsertBackupRecord_def write_frame [OF frame])
  ultimately show ?thesis using run by blast
qed


end
