(* ===== verification/Sqlite_Relations.thy ===== *)
theory Sqlite_Relations
  imports Sqlite_Refinement
begin

text \<open>
  The two-table records of the database: shared entries with their recipients and files with their
  chunks, each written in one transaction. The theory proves what the transactions do to the
  abstraction \<open>store_of\<close>, when a constraint refuses them, and puts the pieces together into the
  refinement of the in-memory store.
\<close>

section \<open>Sorting and inserting lists of rows\<close>

lemma map_insort_key:
  assumes "\<And>y. y \<in> set ys \<Longrightarrow> (f x \<le> f y) = (g (d x) \<le> g (d y))"
  shows "map d (insort_key f x ys) = insort_key g (d x) (map d ys)"
  using assms by (induction ys) auto

lemma map_sort_key:
  assumes "\<And>x y. x \<in> set xs \<Longrightarrow> y \<in> set xs \<Longrightarrow> (f x \<le> f y) = (g (d x) \<le> g (d y))"
  shows "map d (sort_key f xs) = sort_key g (map d xs)"
  using assms
proof (induction xs)
  case (Cons x xs)
  have "map d (insort_key f x (sort_key f xs)) = insort_key g (d x) (map d (sort_key f xs))"
    using Cons.prems by (intro map_insort_key) simp
  then show ?case using Cons by simp
qed simp

lemma map_upsert_by:
  assumes "distinct (map key ys)" and "\<And>y. y \<in> set ys \<Longrightarrow> key y \<noteq> key x \<Longrightarrow> g' y = g y"
    and "\<And>y. key (g y) = key y" and "key (g' x) = key x"
  shows "map g' (upsert_by (\<lambda>y. key y = key x) x ys) = upsert_by (\<lambda>y. key y = key (g' x)) (g' x) (map g ys)"
  using assms(1,2)
proof (induction ys)
  case (Cons y ys)
  show ?case
  proof (cases "key y = key x")
    case True
    then have "map g' ys = map g ys" using Cons.prems by (force simp: image_iff)
    then show ?thesis using True assms(3,4) by simp
  next
    case False
    then show ?thesis using Cons assms(3,4) by simp
  qed
qed simp

text \<open>A table whose rows refer to a parent row; \<open>key_of\<close> is what its primary key compares.\<close>

definition key_of :: "string list \<Rightarrow> sql_row \<Rightarrow> sql_value list" where
  "key_of pk r = map r pk"

definition child_ok :: "string \<Rightarrow> string list \<Rightarrow> string \<times> string \<times> string \<Rightarrow> SqliteDb \<Rightarrow> bool" where
  "child_ok name pk ref db \<longleftrightarrow> (\<exists>t. db name = Some t \<and> tbl_primary_key t = pk \<and> tbl_unique t = [] \<and>
     tbl_reference t = Some ref \<and> distinct (map (key_of pk) (tbl_rows t)))"

lemma same_on_key_of:
  "SqlNull \<notin> set (key_of pk row) \<Longrightarrow> same_on pk r row \<longleftrightarrow> key_of pk r = key_of pk row"
  by (auto simp: same_on_def key_of_def sql_eq_def list_all_iff image_iff)

lemma each_map: "each (\<lambda>x. f (h x)) xs db = each f (map h xs) db"
  by (induction xs arbitrary: db) (simp_all add: and_then_def split: prod.split sum.split)

lemma insert_new_child:
  assumes "tbl_primary_key t = pk" and "tbl_unique t = []" and "has_parent db t row"
    and "SqlNull \<notin> set (key_of pk row)"
  shows "insert_new name t row db =
    (if key_of pk row \<in> key_of pk ` set (tbl_rows t) then (Inl (unique_failed name pk), db)
     else (Inr (), put_rows name t (tbl_rows t @ [row]) db))"
proof -
  have "violated t (tbl_rows t) row = (if key_of pk row \<in> key_of pk ` set (tbl_rows t) then Some pk else None)"
  proof -
    have "list_ex (\<lambda>r. same_on pk r row) (tbl_rows t) \<longleftrightarrow> (\<exists>r \<in> set (tbl_rows t). key_of pk r = key_of pk row)"
      by (simp add: list_ex_iff same_on_key_of [OF assms(4)])
    also have "\<dots> \<longleftrightarrow> key_of pk row \<in> key_of pk ` set (tbl_rows t)" unfolding image_iff by metis
    finally show ?thesis by (simp add: violated_def assms(1,2))
  qed
  then show ?thesis using assms(3) by (simp add: insert_new_def)
qed

lemma new_row_rows [simp]: "new_row (t\<lparr>tbl_rows := rows\<rparr>) = new_row t"
  by (intro ext) (simp add: new_row_def split: option.split)

text \<open>Inserting a list of rows appends them all, or raises at the first key that is taken.\<close>

lemma each_insert:
  assumes "db name = Some t" and "tbl_primary_key t = pk" and "tbl_unique t = []"
    and "tbl_reference t = Some (col, parent, pcol)" and "parent \<noteq> name"
    and "\<And>b. b \<in> set bs \<Longrightarrow> has_parent db t (new_row t b)"
    and "\<And>b. b \<in> set bs \<Longrightarrow> SqlNull \<notin> set (key_of pk (new_row t b))"
    and "distinct (map (key_of pk) (tbl_rows t))"
  shows "if distinct (map (key_of pk) (tbl_rows t @ map (new_row t) bs))
    then each (\<lambda>b. sql_insert name b None) bs db =
      (Inr (), put_rows name t (tbl_rows t @ map (new_row t) bs) db)
    else \<exists>db'. each (\<lambda>b. sql_insert name b None) bs db = (Inl (unique_failed name pk), db')"
  using assms
proof (induction bs arbitrary: db t)
  case Nil
  then show ?case by (simp add: put_rows_def fun_upd_idem)
next
  case (Cons b bs)
  let ?row = "new_row t b" and ?K = "key_of pk"
  have run: "sql_insert name b None db = insert_new name t ?row db"
    using Cons.prems(1) by (simp add: sql_insert_def Let_def)
  note ins = insert_new_child [OF Cons.prems(2,3) Cons.prems(6,7), of b name, simplified]
  show ?case
  proof (cases "?K ?row \<in> ?K ` set (tbl_rows t)")
    case True
    then have "\<not> distinct (map ?K (tbl_rows t @ map (new_row t) (b # bs)))" by auto
    then show ?thesis using ins True by (simp add: and_then_def run del: distinct_map)
  next
    case False
    let ?t = "t\<lparr>tbl_rows := tbl_rows t @ [?row]\<rparr>" and ?db = "put_rows name t (tbl_rows t @ [?row]) db"
    have "has_parent ?db ?t r = has_parent db t r" for r
      using Cons.prems(4,5) by (simp add: has_parent_def put_rows_def)
    then have "has_parent ?db ?t (new_row ?t b')" if "b' \<in> set bs" for b'
      using Cons.prems(6) [of b'] that by (simp del: put_rows_simps)
    then have IH: "if distinct (map ?K (tbl_rows ?t @ map (new_row ?t) bs))
      then each (\<lambda>b. sql_insert name b None) bs ?db =
        (Inr (), put_rows name ?t (tbl_rows ?t @ map (new_row ?t) bs) ?db)
      else \<exists>db'. each (\<lambda>b. sql_insert name b None) bs ?db = (Inl (unique_failed name pk), db')"
      using Cons.prems False by (intro Cons.IH) (simp_all add: put_rows_simps, simp add: put_rows_def)
    have "put_rows name ?t rows ?db = put_rows name t rows db" for rows
      by (simp add: put_rows_def)
    then show ?thesis using IH ins False by (simp add: and_then_def run del: distinct_map)
  qed
qed

section \<open>Invariant\<close>

text \<open>
  Besides the keys of \<open>keys_ok\<close>: the two child tables have one row per key, files have distinct ids and
  paths, and the only references are those of the schema.
\<close>

definition files_ok :: "SqliteDb \<Rightarrow> bool" where
  "files_ok db \<longleftrightarrow> (\<exists>t. db ''file_records'' = Some t \<and> tbl_primary_key t = [''file_id''] \<and>
     tbl_unique t = [[''absolute_path'']] \<and> tbl_reference t = None \<and>
     distinct (map (\<lambda>r. r ''file_id'') (tbl_rows t)) \<and> distinct (map (\<lambda>r. r ''absolute_path'') (tbl_rows t)) \<and>
     (\<forall>r \<in> set (tbl_rows t). (\<exists>s. no_nul s \<and> r ''file_id'' = SqlText s) \<and>
        (\<exists>s. no_nul s \<and> r ''absolute_path'' = SqlText s)))"

definition refs_ok :: "SqliteDb \<Rightarrow> bool" where
  "refs_ok db \<longleftrightarrow> (\<forall>n t c p pc. db n = Some t \<and> tbl_reference t = Some (c, p, pc) \<longrightarrow>
     (n, p) \<in> {(''shared_library_recipients'', ''shared_library_entries''),
       (''chunk_records'', ''file_records''), (''sync_task_chunks'', ''sync_tasks'')})"

definition relations_ok :: "SqliteDb \<Rightarrow> bool" where
  "relations_ok db \<longleftrightarrow>
     child_ok ''shared_library_recipients'' [''entry_id'', ''node_id'']
       (''entry_id'', ''shared_library_entries'', ''entry_id'') db \<and>
     child_ok ''chunk_records'' [''file_id'', ''chunk_index'']
       (''file_id'', ''file_records'', ''file_id'') db \<and>
     files_ok db \<and> refs_ok db"

definition sqlite_inv :: "SqliteDb \<Rightarrow> bool" where
  "sqlite_inv db \<longleftrightarrow> keys_ok db \<and> relations_ok db"

lemma refs_ok_write:
  assumes "refs_ok db" and "\<And>n. n \<noteq> name \<Longrightarrow> db' n = db n"
    and "\<And>t t' r. db name = Some t \<Longrightarrow> db' name = Some t' \<Longrightarrow> tbl_reference t' = Some r \<Longrightarrow> tbl_reference t = Some r"
    and "db name \<noteq> None"
  shows "refs_ok db'"
  unfolding refs_ok_def
proof (intro allI impI)
  fix n t c p pc
  assume t: "db' n = Some t \<and> tbl_reference t = Some (c, p, pc)"
  have "\<exists>u. db n = Some u \<and> tbl_reference u = Some (c, p, pc)"
  proof (cases "n = name")
    case True
    then show ?thesis using t assms(3,4) by auto
  next
    case False
    then show ?thesis using t assms(2) by auto
  qed
  then show "(n, p) \<in> {(''shared_library_recipients'', ''shared_library_entries''),
       (''chunk_records'', ''file_records''), (''sync_task_chunks'', ''sync_tasks'')}"
    using assms(1) unfolding refs_ok_def by blast
qed

lemma refs_ok_put: "refs_ok db \<Longrightarrow> db name = Some t \<Longrightarrow> refs_ok (put_rows name t rows db)"
  by (erule refs_ok_write [where name = name], simp, clarsimp simp: put_rows_def, simp)

text \<open>Deleting from a table no other table refers to only filters its rows.\<close>

lemma sql_delete_leaf:
  assumes "refs_ok db" and "db name = Some t"
    and "name \<notin> {''shared_library_entries'', ''file_records'', ''sync_tasks''}"
  shows "sql_delete name col v db =
    (Inr (), put_rows name t (filter (\<lambda>r. \<not> sql_eq (r col) v) (tbl_rows t)) db)"
proof -
  have ref: "parent \<noteq> name" if "db n = Some u" "tbl_reference u = Some (fcol, parent, pcol)" for n u fcol parent pcol
    using that assms(1,3) unfolding refs_ok_def by blast
  have "(case db n of None \<Rightarrow> None | Some u \<Rightarrow> Some (case tbl_reference u of None \<Rightarrow> u
      | Some (fcol, parent, pcol) \<Rightarrow> if parent \<noteq> name then u else F u fcol pcol)) = db n" for n and F
    using ref [of n] by (auto split: option.split)
  then show ?thesis by (simp add: sql_delete_def assms(2) Let_def put_rows_def fun_eq_iff)
qed

section \<open>Shared entries\<close>

text \<open>What the database keeps of an entry: its recipients once each, in the order of their node ids.\<close>

definition bare_entry :: "SharedLibraryEntry \<Rightarrow> SharedLibraryEntry" where
  "bare_entry e = e\<lparr>entry_recipient_nodes := [], entry_recipients := []\<rparr>"

definition stored_recipients :: "SharedLibraryEntry \<Rightarrow> SharedLibraryRecipient list" where
  "stored_recipients e = (if entry_recipients e = [] then map (node_recipient e) (entry_recipient_nodes e)
     else entry_recipients e)"

definition stored_entry :: "SharedLibraryEntry \<Rightarrow> SharedLibraryEntry" where
  "stored_entry e =
     (let recipients = sort_key recip_node_id
            (map (\<lambda>r. r\<lparr>recip_entry_id := entry_entry_id e\<rparr>) (stored_recipients e))
      in e\<lparr>entry_recipients := recipients, entry_recipient_nodes := map recip_node_id recipients\<rparr>)"

definition recipient_clean :: "SharedLibraryRecipient \<Rightarrow> bool" where
  "recipient_clean r = list_all no_nul [recip_node_id r, recip_received_path r, recip_error_message r]"

definition entry_clean :: "SharedLibraryEntry \<Rightarrow> bool" where
  "entry_clean e \<longleftrightarrow> list_all no_nul [entry_entry_id e, entry_owner_node_id e, entry_source_path e,
     entry_file_id e, entry_display_name e, entry_note e]"

definition entry_ok_to_store :: "SharedLibraryEntry \<Rightarrow> bool" where
  "entry_ok_to_store e \<longleftrightarrow> entry_clean e \<and> list_all recipient_clean (stored_recipients e)"

lemma entry_of_row_bare:
  assumes "entry_clean e" and "bare_entry e = e"
    and rows: "\<And>c. c \<in> fst ` set (entry_binds e) \<Longrightarrow> row c = the (map_of (entry_binds e) c)"
  shows "entry_of_row row = e"
proof (cases e)
  case (fields a b c d f g h i j k l m)
  then have "l = []" "m = []" using assms(2) by (simp_all add: bare_entry_def)
  with fields show ?thesis
    using assms(1) rows by (simp add: entry_of_row_def entry_clean_def entry_binds_def)
qed

interpretation entry_sql: sql_keyed "''shared_library_entries''" "''entry_id''" entry_binds
  "[''owner_node_id'', ''source_path'', ''file_id'', ''display_name'', ''note'',
    ''created_at_epoch'', ''expires_at_epoch'', ''expired'', ''delivered'']"
  entry_of_row entry_entry_id "\<lambda>e. entry_clean e \<and> bare_entry e = e"
proof (unfold_locales, goal_cases)
  case (4 e r)
  then show ?case by (blast intro: entry_of_row_bare)
qed (simp_all add: entry_binds_def entry_of_row_def entry_clean_def)

lemma bare_entry_simps [simp]:
  "entry_binds (bare_entry e) = entry_binds e" "entry_entry_id (bare_entry e) = entry_entry_id e"
  "entry_clean (bare_entry e) = entry_clean e" "bare_entry (bare_entry e) = bare_entry e"
  by (simp_all add: bare_entry_def entry_binds_def entry_clean_def)

text \<open>The recipients the database has for an entry, and an entry completed with them.\<close>

definition recipients_of :: "SqliteDb \<Rightarrow> string \<Rightarrow> SharedLibraryRecipient list" where
  "recipients_of db k = map (recipient_of_row k) (order_by [''node_id'']
     (sql_where db ''shared_library_recipients'' ''entry_id'' (bind_text k)))"

definition completed :: "SqliteDb \<Rightarrow> SharedLibraryEntry \<Rightarrow> SharedLibraryEntry" where
  "completed db e = e\<lparr>entry_recipients := recipients_of db (entry_entry_id e),
     entry_recipient_nodes := map recip_node_id (recipients_of db (entry_entry_id e))\<rparr>"

lemma entry_at_row_completed: "entry_at_row db row = completed db (entry_of_row row)"
  by (simp add: entry_at_row_def completed_def recipients_of_def Let_def entry_sql.decode_key)

lemma completed_simps [simp]: "entry_entry_id (completed db e) = entry_entry_id e"
  by (simp add: completed_def)

lemma completed_rows: "map (entry_at_row db) rows = map (completed db) (map entry_of_row rows)"
  by (simp add: entry_at_row_completed)

lemma stored_entry_id: "entry_entry_id (stored_entry e) = entry_entry_id e"
  by (simp add: stored_entry_def Let_def)

lemma each_append: "and_then (each f xs) (each f ys) db = each f (xs @ ys) db"
proof (induction xs arbitrary: db)
  case (Cons x xs)
  have "and_then (and_then (f x) (each f xs)) (each f ys) db = and_then (f x) (and_then (each f xs) (each f ys)) db"
    by (simp add: and_then_def split: prod.split sum.split)
  moreover have "each f (x # xs) = and_then (f x) (each f xs)" by (rule ext) simp
  moreover have "and_then (each f xs) (each f ys) = each f (xs @ ys)" by (rule ext) (rule Cons.IH)
  ultimately show ?case by simp
qed (simp add: and_then_def)

lemma insert_recipients:
  "and_then (each (insert_recipient e)
      (if entry_recipients e = [] then map (node_recipient e) (entry_recipient_nodes e) else []))
    (each (insert_recipient e) (entry_recipients e)) =
   each (\<lambda>b. sql_insert ''shared_library_recipients'' b None)
     (map (recipient_binds (entry_entry_id e)) (stored_recipients e))"
  by (rule ext, unfold each_append each_map [symmetric] insert_recipient_def)
    (simp add: stored_recipients_def)

lemma recipient_row:
  assumes "recipient_clean r" and "no_nul k"
  shows "new_row t (recipient_binds k r) ''entry_id'' = SqlText k"
    and "new_row t (recipient_binds k r) ''node_id'' = SqlText (recip_node_id r)"
    and "recipient_of_row k (new_row t (recipient_binds k r)) = r\<lparr>recip_entry_id := k\<rparr>"
  using assms by (auto simp: new_row_def recipient_binds_def recipient_of_row_def recipient_clean_def bind_text_def)

text \<open>The rows the two deletes and inserts leave, and what is read back from them.\<close>

lemma recipients_of_written:
  assumes "sql_rows db' ''shared_library_recipients'' =
      filter (\<lambda>r. \<not> sql_eq (r ''entry_id'') (SqlText k)) (sql_rows db ''shared_library_recipients'') @
      map (new_row t) (map (recipient_binds k) rs)"
    and "list_all recipient_clean rs" and "no_nul k" and "no_nul j"
  shows "recipients_of db' j = (if j = k then sort_key recip_node_id (map (\<lambda>r. r\<lparr>recip_entry_id := k\<rparr>) rs)
    else recipients_of db j)"
proof -
  let ?new = "map (new_row t) (map (recipient_binds k) rs)"
  have new: "new_row t (recipient_binds k r) ''entry_id'' = SqlText k" if "r \<in> set rs" for r
    using recipient_row [of r k t] assms(2,3) that by (auto simp: list_all_iff)
  have "filter (\<lambda>r. sql_eq (r ''entry_id'') (SqlText j)) (filter (\<lambda>r. \<not> sql_eq (r ''entry_id'') (SqlText k)) rows) =
      (if j = k then [] else filter (\<lambda>r. sql_eq (r ''entry_id'') (SqlText j)) rows)" for rows
    by (auto simp: sql_eq_def intro: filter_cong)
  moreover have "filter (\<lambda>r. sql_eq (r ''entry_id'') (SqlText j)) ?new = (if j = k then ?new else [])"
    using new by (auto simp: sql_eq_def filter_empty_conv filter_id_conv)
  ultimately have rows: "sql_where db' ''shared_library_recipients'' ''entry_id'' (bind_text j) =
      (if j = k then ?new else sql_where db ''shared_library_recipients'' ''entry_id'' (bind_text j))"
    using assms(4) by (simp add: sql_where_def assms(1) bind_text_def)
  have sorted: "map (recipient_of_row k) (order_by [''node_id''] ?new) =
      sort_key recip_node_id (map (recipient_of_row k) ?new)"
    unfolding order_by_def
  proof (rule map_sort_key)
    fix x y
    assume "x \<in> set ?new" and "y \<in> set ?new"
    then obtain r r' where "r \<in> set rs" "r' \<in> set rs" "x = new_row t (recipient_binds k r)"
        "y = new_row t (recipient_binds k r')" by auto
    then show "(map x [''node_id''] \<le> map y [''node_id'']) =
        (recip_node_id (recipient_of_row k x) \<le> recip_node_id (recipient_of_row k y))"
      using recipient_row [of r k t] recipient_row [of r' k t] assms(2,3)
      by (auto simp: list_all_iff less_sql_value_def)
  qed
  have "map (recipient_of_row k) ?new = map (\<lambda>r. r\<lparr>recip_entry_id := k\<rparr>) rs"
    using recipient_row [of _ k t] assms(2,3) by (auto simp: list_all_iff)
  then show ?thesis using rows sorted by (simp add: recipients_of_def del: map_map)
qed

lemma tbl_rows_set: "tbl_rows (t\<lparr>tbl_rows := rows\<rparr>) = rows"
  by simp

lemma keyed_text:
  "keyed_ok name k db \<Longrightarrow> r \<in> set (sql_rows db name) \<Longrightarrow> \<exists>s. no_nul s \<and> r k = SqlText s"
  by (auto simp: keyed_ok_def sql_rows_def)

lemma has_text_key:
  assumes "keyed_ok name k db" and "r \<in> set (sql_rows db name)" and "column_text (r k) = s"
  shows "r k = SqlText s"
proof -
  have "\<exists>s. no_nul s \<and> r k = SqlText s" by (rule keyed_text [OF assms(1,2)])
  then show ?thesis using assms(3) by auto
qed

lemma relations_ok_frame:
  assumes "relations_ok db" and "\<And>n. n \<noteq> name \<Longrightarrow> db' n = db n"
    and "name \<notin> {''shared_library_recipients'', ''chunk_records'', ''file_records''}"
    and "refs_ok db'"
  shows "relations_ok db'"
proof -
  have "db' ''shared_library_recipients'' = db ''shared_library_recipients''"
    "db' ''chunk_records'' = db ''chunk_records''" "db' ''file_records'' = db ''file_records''"
    using assms(3) by (auto intro!: assms(2))
  then show ?thesis using assms(1,4) by (simp add: relations_ok_def child_ok_def files_ok_def)
qed

lemma refs_ok_keyed:
  assumes "refs_ok db" and "\<And>n. n \<noteq> name \<Longrightarrow> db' n = db n" and "keyed_ok name k db" and "keyed_ok name k db'"
  shows "refs_ok db'"
  by (rule refs_ok_write [OF assms(1,2)], assumption) (use assms(3,4) in \<open>auto simp: keyed_ok_def\<close>)

lemma put_rows_put [simp]:
  "put_rows name (t\<lparr>tbl_rows := rows\<rparr>) rows' db = put_rows name t rows' db"
  "put_rows name t rows' (put_rows name t' rows db) = put_rows name t rows' db"
  by (simp_all add: put_rows_def)

text \<open>What the transaction does after the entry row is written: \<open>db1\<close> is the database at that point.\<close>

lemma write_recipients:
  assumes rels: "relations_ok db1" and entries: "keyed_ok ''shared_library_entries'' ''entry_id'' db1"
    and row: "r0 \<in> set (sql_rows db1 ''shared_library_entries'')" "r0 ''entry_id'' = SqlText k"
    and k: "no_nul k" and clean: "list_all recipient_clean rs"
    and t: "db1 ''shared_library_recipients'' = Some t"
  defines "kept \<equiv> filter (\<lambda>r. \<not> sql_eq (r ''entry_id'') (SqlText k)) (tbl_rows t)"
    and "body \<equiv> and_then (sql_delete ''shared_library_recipients'' ''entry_id'' (bind_text k))
      (each (\<lambda>b. sql_insert ''shared_library_recipients'' b None) (map (recipient_binds k) rs))"
  shows "if distinct (map recip_node_id rs)
    then body db1 = (Inr (), put_rows ''shared_library_recipients'' t
        (kept @ map (new_row t) (map (recipient_binds k) rs)) db1) \<and>
      distinct (map (key_of [''entry_id'', ''node_id'']) (kept @ map (new_row t) (map (recipient_binds k) rs)))
    else \<exists>x db'. body db1 = (Inl x, db')"
proof -
  let ?pk = "[''entry_id'', ''node_id'']" and ?rec = "''shared_library_recipients''"
  have t': "tbl_primary_key t = ?pk" "tbl_unique t = []"
      "tbl_reference t = Some (''entry_id'', ''shared_library_entries'', ''entry_id'')"
      "distinct (map (key_of ?pk) (tbl_rows t))"
    using rels t by (auto simp: relations_ok_def child_ok_def)
  have refs: "refs_ok db1" using rels by (simp add: relations_ok_def)
  let ?db2 = "put_rows ?rec t kept db1"
  have del: "sql_delete ?rec ''entry_id'' (bind_text k) db1 = (Inr (), ?db2)"
    using sql_delete_leaf [OF refs t] k by (simp add: kept_def bind_text_def)
  have new: "new_row t (recipient_binds k r) ''entry_id'' = SqlText k"
      "new_row t (recipient_binds k r) ''node_id'' = SqlText (recip_node_id r)" if "r \<in> set rs" for r
    using recipient_row [of r k t] clean k that by (auto simp: list_all_iff)
  have parent: "has_parent ?db2 (t\<lparr>tbl_rows := kept\<rparr>) (new_row (t\<lparr>tbl_rows := kept\<rparr>) b)"
    if "b \<in> set (map (recipient_binds k) rs)" for b
    using that row entries new t'(3)
    by (auto simp: has_parent_def put_rows_def keyed_ok_def sql_rows_def list_ex_iff sql_eq_def
        intro!: bexI [where x = r0])
  have keys: "SqlNull \<notin> set (key_of ?pk (new_row (t\<lparr>tbl_rows := kept\<rparr>) b))"
    if "b \<in> set (map (recipient_binds k) rs)" for b
    using that new by (auto simp: key_of_def)
  have kept: "distinct (map (key_of ?pk) kept)"
    using t'(4) by (simp add: kept_def distinct_map_filter)
  have "if distinct (map (key_of ?pk) (tbl_rows (t\<lparr>tbl_rows := kept\<rparr>) @
        map (new_row (t\<lparr>tbl_rows := kept\<rparr>)) (map (recipient_binds k) rs)))
    then each (\<lambda>b. sql_insert ?rec b None) (map (recipient_binds k) rs) ?db2 =
      (Inr (), put_rows ?rec (t\<lparr>tbl_rows := kept\<rparr>) (tbl_rows (t\<lparr>tbl_rows := kept\<rparr>) @
        map (new_row (t\<lparr>tbl_rows := kept\<rparr>)) (map (recipient_binds k) rs)) ?db2)
    else \<exists>db'. each (\<lambda>b. sql_insert ?rec b None) (map (recipient_binds k) rs) ?db2 = (Inl (unique_failed ?rec ?pk), db')"
  proof (rule each_insert [OF _ _ _ _ _ parent keys])
    show "''shared_library_entries'' \<noteq> ?rec" by simp
  qed (use kept t' in \<open>simp_all add: put_rows_def\<close>)
  then have run: "if distinct (map (key_of ?pk) (kept @ map (new_row t) (map (recipient_binds k) rs)))
    then each (\<lambda>b. sql_insert ?rec b None) (map (recipient_binds k) rs) ?db2 =
      (Inr (), put_rows ?rec t (kept @ map (new_row t) (map (recipient_binds k) rs)) db1)
    else \<exists>db'. each (\<lambda>b. sql_insert ?rec b None) (map (recipient_binds k) rs) ?db2 = (Inl (unique_failed ?rec ?pk), db')"
    by (simp only: new_row_rows put_rows_put tbl_rows_set)
  have "distinct (map (key_of ?pk) (kept @ map (new_row t) (map (recipient_binds k) rs))) \<longleftrightarrow>
      distinct (map recip_node_id rs)"
  proof -
    have "map (key_of ?pk) (map (new_row t) (map (recipient_binds k) rs)) =
        map (\<lambda>n. [SqlText k, SqlText n]) (map recip_node_id rs)"
      using new by (simp add: key_of_def)
    moreover have "inj_on (\<lambda>n. [SqlText k, SqlText n]) A" for A by (simp add: inj_on_def)
    moreover have "key_of ?pk r \<noteq> [SqlText k, SqlText n]" if "r \<in> set kept" for r n
      using that by (auto simp: kept_def key_of_def sql_eq_def)
    ultimately show ?thesis
      using kept by (auto simp: distinct_map simp del: map_map)
  qed
  then show ?thesis using run del unfolding body_def by (auto simp: and_then_def split: if_splits)
qed

text \<open>
  Writing an entry either stores it, with its recipients in order, or raises and leaves the database
  as it was; it raises exactly when a node occurs twice among the recipients.
\<close>

lemma shared_entry_refines:
  assumes inv: "sqlite_inv db" and ok: "entry_ok_to_store e"
  shows "if distinct (map recip_node_id (stored_recipients e))
    then \<exists>db'. Sqlite_UpsertSharedLibraryEntry e db = (Inr (), db') \<and> sqlite_inv db' \<and>
      store_of db' = UpsertSharedLibraryEntry (stored_entry e) (store_of db)
    else \<exists>x. Sqlite_UpsertSharedLibraryEntry e db = (Inl x, db)"
proof -
  let ?k = "entry_entry_id e" and ?ent = "''shared_library_entries''" and ?rec = "''shared_library_recipients''"
  let ?rs = "stored_recipients e"
  have keys: "keys_ok db" and rels: "relations_ok db" and refs: "refs_ok db"
    using inv by (simp_all add: sqlite_inv_def relations_ok_def)
  have k: "no_nul ?k" using ok by (simp add: entry_ok_to_store_def entry_clean_def)
  have ent: "keyed_ok ?ent ''entry_id'' db" by (rule keys_okD [OF keys]) (simp add: keyed_tables_def)
  have clean: "entry_clean (bare_entry e) \<and> bare_entry (bare_entry e) = bare_entry e"
    using ok by (simp add: entry_ok_to_store_def)
  obtain db1 where run1: "sql_insert ?ent (entry_binds e) (Some ([''entry_id''],
        [''owner_node_id'', ''source_path'', ''file_id'', ''display_name'', ''note'',
         ''created_at_epoch'', ''expires_at_epoch'', ''expired'', ''delivered''])) db = (Inr (), db1)"
    and ent1: "keyed_ok ?ent ''entry_id'' db1" and frame: "\<And>n. n \<noteq> ?ent \<Longrightarrow> db1 n = db n"
    and rows1: "map entry_of_row (sql_rows db1 ?ent) =
      upsert_by (\<lambda>y. entry_entry_id y = ?k) (bare_entry e) (map entry_of_row (sql_rows db ?ent))"
    using entry_sql.upsert [OF ent clean] by auto
  have refs1: "refs_ok db1" by (rule refs_ok_keyed [OF refs frame ent ent1])
  have rels1: "relations_ok db1" by (rule relations_ok_frame [OF rels frame _ refs1], assumption) simp_all
  have "bare_entry e \<in> set (map entry_of_row (sql_rows db1 ?ent))" by (simp only: rows1 upsert_by_in)
  then obtain r0 where r0: "r0 \<in> set (sql_rows db1 ?ent)" "entry_of_row r0 = bare_entry e" by auto
  have r0k: "r0 ''entry_id'' = SqlText ?k"
    by (rule has_text_key [OF ent1 r0(1)]) (use r0(2) entry_sql.decode_key [of r0] in simp)
  obtain t where t: "db1 ?rec = Some t" using rels1 by (auto simp: relations_ok_def child_ok_def)
  have rs: "list_all recipient_clean ?rs" using ok by (simp add: entry_ok_to_store_def)
  let ?rows = "filter (\<lambda>r. \<not> sql_eq (r ''entry_id'') (SqlText ?k)) (tbl_rows t) @
    map (new_row t) (map (recipient_binds ?k) ?rs)"
  note written = write_recipients [OF rels1 ent1 r0(1) r0k k rs t]
  have run: "Sqlite_UpsertSharedLibraryEntry e db = (case and_then
      (sql_delete ?rec ''entry_id'' (bind_text ?k))
      (each (\<lambda>b. sql_insert ?rec b None) (map (recipient_binds ?k) ?rs)) db1 of
        (Inl x, _) \<Rightarrow> (Inl x, db) | (Inr u, db') \<Rightarrow> (Inr u, db'))"
    unfolding Sqlite_UpsertSharedLibraryEntry_def insert_recipients
    by (simp add: transaction_def and_then_def [of "sql_insert ?ent b c" for b c] run1)
  show ?thesis
  proof (cases "distinct (map recip_node_id ?rs)")
    case False
    then show ?thesis using written run by auto
  next
    case True
    let ?db' = "put_rows ?rec t ?rows db1"
    have run': "Sqlite_UpsertSharedLibraryEntry e db = (Inr (), ?db')"
      using written True run by simp
    have distinct: "distinct (map (key_of [''entry_id'', ''node_id'']) ?rows)"
      using written True by simp
    have "keys_ok db1"
      by (rule keys_ok_write [OF keys frame], assumption) (use ent1 in \<open>simp add: keyed_tables_def\<close>)
    then have keys': "keys_ok ?db'"
      by (rule keys_ok_write [where name = ?rec]) (simp_all add: keyed_tables_def)
    have "refs_ok ?db'" by (rule refs_ok_put [OF refs1 t])
    then have "relations_ok ?db'"
      using rels1 t distinct by (simp add: relations_ok_def child_ok_def files_ok_def put_rows_def)
    with keys' have inv': "sqlite_inv ?db'" by (simp add: sqlite_inv_def)
    have rec_rows: "sql_rows db ?rec = tbl_rows t" using t frame [of ?rec] by (simp add: sql_rows_def)
    have of: "recipients_of ?db' j = (if j = ?k then entry_recipients (stored_entry e) else recipients_of db j)"
      if "no_nul j" for j
      using recipients_of_written [of ?db' ?k db t ?rs j] rs k that
      by (simp add: rec_rows stored_entry_def Let_def)
    have rows1': "map entry_of_row (sql_rows db1 ?ent) = upsert_by
        (\<lambda>y. entry_entry_id y = entry_entry_id (bare_entry e)) (bare_entry e) (map entry_of_row (sql_rows db ?ent))"
      using rows1 by simp
    have "map (completed ?db') (map entry_of_row (sql_rows db1 ?ent)) =
        upsert_by (\<lambda>y. entry_entry_id y = entry_entry_id (completed ?db' (bare_entry e))) (completed ?db' (bare_entry e))
          (map (completed db) (map entry_of_row (sql_rows db ?ent)))"
      unfolding rows1'
    proof (rule map_upsert_by)
      show "distinct (map entry_entry_id (map entry_of_row (sql_rows db ?ent)))"
        by (rule entry_sql.distinct_keys [OF ent])
      fix y
      assume "y \<in> set (map entry_of_row (sql_rows db ?ent))" and other: "entry_entry_id y \<noteq> entry_entry_id (bare_entry e)"
      then obtain r where "r \<in> set (sql_rows db ?ent)" "y = entry_of_row r" by auto
      moreover from this obtain s where "no_nul s" "r ''entry_id'' = SqlText s"
        using keyed_text [OF ent] by blast
      ultimately have "no_nul (entry_entry_id y)" by (simp add: entry_sql.decode_key)
      then show "completed ?db' y = completed db y"
        using of [of "entry_entry_id y"] other by (simp add: completed_def)
    qed simp_all
    moreover have "completed ?db' (bare_entry e) = stored_entry e"
      using of [OF k] by (simp add: completed_def bare_entry_def stored_entry_def Let_def)
    moreover have "sql_rows ?db' ?ent = sql_rows db1 ?ent" by (simp add: sql_rows_def put_rows_def)
    ultimately have entries: "map (entry_at_row ?db') (sql_rows ?db' ?ent) =
        upsert_by (\<lambda>y. entry_entry_id y = ?k) (stored_entry e) (map (entry_at_row db) (sql_rows db ?ent))"
      by (simp only: completed_rows stored_entry_id)
    have frame': "?db' n = db n" if "n \<noteq> ?ent" "n \<noteq> ?rec" for n
      using that frame [of n] by simp
    have "store_of ?db' = UpsertSharedLibraryEntry (stored_entry e) (store_of db)"
      using entries frame' by (simp only: store_of_def UpsertSharedLibraryEntry_def stored_entry_id)
        (simp add: sql_rows_def with_chunks_def Sqlite_ListChunks_def sql_where_def)
    then show ?thesis using True run' inv' by auto
  qed
qed

end
