(* ===== verification/Sqlite_Files.thy ===== *)
theory Sqlite_Files
  imports Sqlite_Relations
begin

text \<open>
  Files in the database: \<^verbatim>\<open>SqliteMetadataStore::UpsertFile\<close> as one transaction over the file and chunk
  tables. The path identifies a file, so a row of another id at the same path is removed first.
\<close>

section \<open>What is stored of a file\<close>

definition bare_file :: "FileRecord \<Rightarrow> FileRecord" where
  "bare_file f = f\<lparr>file_chunks := []\<rparr>"

definition stored_file :: "FileRecord \<Rightarrow> FileRecord" where
  "stored_file f = f\<lparr>file_chunks := sort_key (\<lambda>c. sint (chunk_index c))
     (map (\<lambda>c. c\<lparr>chunk_file_id := file_file_id f\<rparr>) (file_chunks f))\<rparr>"

definition file_clean :: "FileRecord \<Rightarrow> bool" where
  "file_clean f \<longleftrightarrow> list_all no_nul [file_file_id f, file_relative_path f, file_absolute_path f, file_root_hash f] \<and>
     list_all (\<lambda>c. no_nul (chunk_hash c)) (file_chunks f)"

lemma stored_file_simps [simp]:
  "file_file_id (stored_file f) = file_file_id f" "file_absolute_path (stored_file f) = file_absolute_path f"
  "file_file_id (bare_file f) = file_file_id f" "file_absolute_path (bare_file f) = file_absolute_path f"
  by (simp_all add: stored_file_def bare_file_def)

lemma file_of_row_keys [simp]:
  "file_file_id (file_of_row r) = column_text (r ''file_id'')"
  "file_absolute_path (file_of_row r) = column_text (r ''absolute_path'')"
  by (simp_all add: file_of_row_def)

lemma file_of_row_binds:
  assumes "file_clean f"
    and rows: "\<And>c. c \<in> fst ` set (file_binds f) \<Longrightarrow> row c = the (map_of (file_binds f) c)"
  shows "file_of_row row = bare_file f"
proof (cases f)
  case (fields a b c d e g h i j)
  with assms(1) rows show ?thesis by (simp add: file_of_row_def file_clean_def file_binds_def bare_file_def)
qed

text \<open>The file rows of a database with their texts.\<close>

lemma files_okD:
  assumes "files_ok db"
  shows "r \<in> set (sql_rows db ''file_records'') \<Longrightarrow> \<exists>s. no_nul s \<and> r ''file_id'' = SqlText s"
    and "r \<in> set (sql_rows db ''file_records'') \<Longrightarrow> \<exists>s. no_nul s \<and> r ''absolute_path'' = SqlText s"
    and "distinct (map (\<lambda>r. r ''file_id'') (sql_rows db ''file_records''))"
    and "distinct (map (\<lambda>r. r ''absolute_path'') (sql_rows db ''file_records''))"
  using assms by (auto simp: files_ok_def sql_rows_def)

section \<open>Writing the file row\<close>

lemma distinct_replace:
  assumes "distinct (map f xs)" and "distinct (map g xs)"
    and "\<And>r. r \<in> set xs \<Longrightarrow> f r \<noteq> v \<Longrightarrow> g r \<noteq> p"
  shows "distinct (map (\<lambda>r. if f r = v then p else g r) xs)"
  using assms by (induction xs) (auto simp: image_iff)

lemma write_file_row:
  assumes ok: "files_ok db" and t: "db ''file_records'' = Some t" and clean: "file_clean f"
    and free: "\<And>r. r \<in> set (tbl_rows t) \<Longrightarrow> r ''absolute_path'' = SqlText (file_absolute_path f) \<Longrightarrow>
      r ''file_id'' = SqlText (file_file_id f)"
  obtains rows where "sql_insert ''file_records'' (file_binds f) (Some ([''file_id''],
      [''relative_path'', ''absolute_path'', ''size'', ''modified_time_epoch'', ''mode'', ''root_hash'',
       ''status''])) db = (Inr (), put_rows ''file_records'' t rows db)"
    and "files_ok (put_rows ''file_records'' t rows db)"
    and "map file_of_row rows =
      upsert_by (\<lambda>y. file_file_id y = file_file_id f) (bare_file f) (map file_of_row (tbl_rows t))"
proof -
  have t': "tbl_primary_key t = [''file_id'']" "tbl_unique t = [[''absolute_path'']]" "tbl_reference t = None"
      "distinct (map (\<lambda>r. r ''file_id'') (tbl_rows t))" "distinct (map (\<lambda>r. r ''absolute_path'') (tbl_rows t))"
    using ok t by (auto simp: files_ok_def)
  have texts: "\<exists>s. no_nul s \<and> r ''file_id'' = SqlText s" "\<exists>s. no_nul s \<and> r ''absolute_path'' = SqlText s"
    if "r \<in> set (tbl_rows t)" for r
    using files_okD(1,2) [OF ok, of r] that by (simp_all add: sql_rows_def t)
  define row where "row = new_row t (file_binds f)"
  define v where "v = SqlText (file_file_id f)"
  define p where "p = SqlText (file_absolute_path f)"
  let ?sets = "[''relative_path'', ''absolute_path'', ''size'', ''modified_time_epoch'', ''mode'', ''root_hash'', ''status'']"
  have row: "row ''file_id'' = v" "row ''absolute_path'' = p"
    using clean by (simp_all add: row_def v_def p_def file_binds_def file_clean_def bind_text_def)
  have merged: "merged ?sets row r ''file_id'' = r ''file_id''" "merged ?sets row r ''absolute_path'' = p" for r
    using row by (simp_all add: merged_def)
  have dec: "file_of_row row = bare_file f"
    by (rule file_of_row_binds [OF clean]) (auto simp: row_def file_binds_def)
  have dec_merged: "file_of_row (merged ?sets row r) = bare_file f" if "r ''file_id'' = v" for r
    by (rule file_of_row_binds [OF clean]) (use that row in \<open>auto simp: merged_def row_def file_binds_def v_def\<close>)
  have on_id: "same_on [''file_id''] row r = (r ''file_id'' = v)" "same_on [''file_id''] r row = (r ''file_id'' = v)" for r
    using row by (auto simp: same_on_def sql_eq_def v_def)
  have match: "(file_file_id (file_of_row r) = file_file_id f) = (r ''file_id'' = v)" if "r \<in> set (tbl_rows t)" for r
    using texts(1) [OF that] by (auto simp: v_def)
  have free': "r ''absolute_path'' \<noteq> p" if "r \<in> set (tbl_rows t)" "r ''file_id'' \<noteq> v" for r
    using free that by (auto simp: p_def v_def)
  have clean': "\<exists>s. no_nul s \<and> v = SqlText s" "\<exists>s. no_nul s \<and> p = SqlText s"
    using clean by (auto simp: v_def p_def file_clean_def)
  let ?replaced = "map (\<lambda>r. if r ''file_id'' = v then merged ?sets row r else r) (tbl_rows t)"
  show thesis
  proof (cases "v \<in> (\<lambda>r. r ''file_id'') ` set (tbl_rows t)")
    case True
    have "find (same_on [''file_id''] row) (tbl_rows t) \<noteq> None"
      using True by (auto simp: find_None_iff on_id image_iff)
    then obtain old where old: "find (same_on [''file_id''] row) (tbl_rows t) = Some old" by blast
    then have "old ''file_id'' = v" using on_id by (auto simp: find_Some_iff)
    then have "violated t (filter (\<lambda>r. r ''file_id'' \<noteq> v) (tbl_rows t)) (merged ?sets row old) = None"
      using free' by (auto simp: violated_def t' list_ex_iff same_on_def sql_eq_def merged)
    then have run: "sql_insert ''file_records'' (file_binds f) (Some ([''file_id''], ?sets)) db =
        (Inr (), put_rows ''file_records'' t ?replaced db)"
      by (simp add: sql_insert_def t Let_def old on_id flip: row_def)
    have "map (\<lambda>r. r ''file_id'') ?replaced = map (\<lambda>r. r ''file_id'') (tbl_rows t)"
      using merged by (simp add: comp_def)
    then have ids: "distinct (map (\<lambda>r. r ''file_id'') ?replaced)" by (simp only: t'(4))
    have "map (\<lambda>r. r ''absolute_path'') ?replaced =
        map (\<lambda>r. if r ''file_id'' = v then p else r ''absolute_path'') (tbl_rows t)"
      using merged by simp
    moreover have "distinct (map (\<lambda>r. if r ''file_id'' = v then p else r ''absolute_path'') (tbl_rows t))"
      by (rule distinct_replace [OF t'(4,5)]) (rule free')
    ultimately have paths: "distinct (map (\<lambda>r. r ''absolute_path'') ?replaced)" by (simp only:)
    have "\<forall>r \<in> set ?replaced. (\<exists>s. no_nul s \<and> r ''file_id'' = SqlText s) \<and>
        (\<exists>s. no_nul s \<and> r ''absolute_path'' = SqlText s)"
      using texts clean' merged by auto
    with ids paths have "files_ok (put_rows ''file_records'' t ?replaced db)"
      by (simp add: files_ok_def put_rows_def t' del: map_map set_map)
    moreover have "map file_of_row ?replaced =
        upsert_by (\<lambda>y. file_file_id y = file_file_id f) (bare_file f) (map file_of_row (tbl_rows t))"
      by (rule map_replace_upsert [OF t'(4) True]) (erule dec_merged, erule match)
    ultimately show thesis using that [OF run] by blast
  next
    case False
    then have "find (same_on [''file_id''] row) (tbl_rows t) = None" by (auto simp: find_None_iff on_id)
    moreover have fresh: "row ''absolute_path'' \<notin> (\<lambda>r. r ''absolute_path'') ` set (tbl_rows t)"
    proof
      assume "row ''absolute_path'' \<in> (\<lambda>r. r ''absolute_path'') ` set (tbl_rows t)"
      then obtain r where "r \<in> set (tbl_rows t)" "r ''absolute_path'' = p" using row by auto
      moreover from this have "r ''file_id'' \<noteq> v" using False by (auto simp: image_iff)
      ultimately show False using free' by blast
    qed
    moreover from this have "violated t (tbl_rows t) row = None"
      using False by (auto simp: violated_def t' list_ex_iff on_id same_on_def sql_eq_def image_iff row)
    ultimately have run: "sql_insert ''file_records'' (file_binds f) (Some ([''file_id''], ?sets)) db =
        (Inr (), put_rows ''file_records'' t (tbl_rows t @ [row]) db)"
      by (simp add: sql_insert_def t Let_def insert_new_def has_parent_def t'(3) flip: row_def)
    have "files_ok (put_rows ''file_records'' t (tbl_rows t @ [row]) db)"
      using t' texts False row fresh clean' by (auto simp: files_ok_def put_rows_def)
    moreover have "map file_of_row (tbl_rows t @ [row]) =
        upsert_by (\<lambda>y. file_file_id y = file_file_id f) (bare_file f) (map file_of_row (tbl_rows t))"
      using False match dec by (subst upsert_by_fresh) (auto simp: image_iff)
    ultimately show thesis using that [OF run] by blast
  qed
qed

section \<open>Chunks\<close>

lemma chunk_row:
  assumes "no_nul (chunk_hash c)" and "no_nul k"
  shows "new_row t (chunk_binds k c) ''file_id'' = SqlText k"
    and "new_row t (chunk_binds k c) ''chunk_index'' = bind_int (chunk_index c)"
    and "chunk_of_row k (new_row t (chunk_binds k c)) = c\<lparr>chunk_file_id := k\<rparr>"
  using assms by (auto simp: new_row_def chunk_binds_def chunk_of_row_def bind_text_def)

lemma sint_scast_32: "sint (scast (w :: u32) :: u64) = sint w"
  by (rule sint_up_scast) (simp add: is_up)

lemma bind_int_order: "bind_int v \<le> bind_int w \<longleftrightarrow> sint v \<le> sint w"
  by (simp add: bind_int_def sint_scast_32)

lemma bind_int_inj: "bind_int v = bind_int w \<longleftrightarrow> v = w"
  by (metis column_bind(3))

text \<open>What is read back from the rows a write of the chunks of file \<open>k\<close> leaves.\<close>

lemma chunks_written:
  assumes "sql_rows db' ''chunk_records'' =
      filter (\<lambda>r. \<not> sql_eq (r ''file_id'') (SqlText k)) (sql_rows db ''chunk_records'') @
      map (new_row t) (map (chunk_binds k) cs)"
    and "list_all (\<lambda>c. no_nul (chunk_hash c)) cs" and "no_nul k" and "no_nul j"
  shows "Sqlite_ListChunks db' j =
    (if j = k then sort_key (\<lambda>c. sint (chunk_index c)) (map (\<lambda>c. c\<lparr>chunk_file_id := k\<rparr>) cs)
     else Sqlite_ListChunks db j)"
proof -
  let ?new = "map (new_row t) (map (chunk_binds k) cs)"
  have new: "new_row t (chunk_binds k c) ''file_id'' = SqlText k" if "c \<in> set cs" for c
    using chunk_row [of c k t] assms(2,3) that by (auto simp: list_all_iff)
  have "filter (\<lambda>r. sql_eq (r ''file_id'') (SqlText j)) (filter (\<lambda>r. \<not> sql_eq (r ''file_id'') (SqlText k)) rows) =
      (if j = k then [] else filter (\<lambda>r. sql_eq (r ''file_id'') (SqlText j)) rows)" for rows
    by (auto simp: sql_eq_def intro: filter_cong)
  moreover have "filter (\<lambda>r. sql_eq (r ''file_id'') (SqlText j)) ?new = (if j = k then ?new else [])"
    using new by (auto simp: sql_eq_def filter_empty_conv filter_id_conv)
  ultimately have rows: "sql_where db' ''chunk_records'' ''file_id'' (bind_text j) =
      (if j = k then ?new else sql_where db ''chunk_records'' ''file_id'' (bind_text j))"
    using assms(4) by (simp add: sql_where_def assms(1) bind_text_def)
  have sorted: "map (chunk_of_row k) (order_by [''chunk_index''] ?new) =
      sort_key (\<lambda>c. sint (chunk_index c)) (map (chunk_of_row k) ?new)"
    unfolding order_by_def
  proof (rule map_sort_key)
    fix x y
    assume "x \<in> set ?new" and "y \<in> set ?new"
    then obtain c d where "c \<in> set cs" "d \<in> set cs" "x = new_row t (chunk_binds k c)"
        "y = new_row t (chunk_binds k d)" by auto
    then show "(map x [''chunk_index''] \<le> map y [''chunk_index'']) =
        (sint (chunk_index (chunk_of_row k x)) \<le> sint (chunk_index (chunk_of_row k y)))"
      using chunk_row [of c k t] chunk_row [of d k t] assms(2,3) bind_int_order [of "chunk_index c" "chunk_index d"]
      by (auto simp: list_all_iff less_sql_value_def bind_int_inj bind_int_order dest: signed_word_eqI)
  qed
  have "map (chunk_of_row k) ?new = map (\<lambda>c. c\<lparr>chunk_file_id := k\<rparr>) cs"
    using chunk_row [of _ k t] assms(2,3) by (auto simp: list_all_iff)
  then show ?thesis using rows sorted by (simp add: Sqlite_ListChunks_def del: map_map)
qed

text \<open>The last two steps of the transaction, as for the recipients of an entry.\<close>

lemma write_chunks:
  assumes rels: "child_ok ''chunk_records'' [''file_id'', ''chunk_index''] (''file_id'', ''file_records'', ''file_id'') db1"
      "refs_ok db1"
    and row: "r0 \<in> set (sql_rows db1 ''file_records'')" "r0 ''file_id'' = SqlText k"
    and k: "no_nul k" and clean: "list_all (\<lambda>c. no_nul (chunk_hash c)) cs"
    and t: "db1 ''chunk_records'' = Some t"
  defines "kept \<equiv> filter (\<lambda>r. \<not> sql_eq (r ''file_id'') (SqlText k)) (tbl_rows t)"
    and "body \<equiv> and_then (sql_delete ''chunk_records'' ''file_id'' (bind_text k))
      (each (\<lambda>b. sql_insert ''chunk_records'' b None) (map (chunk_binds k) cs))"
  shows "if distinct (map chunk_index cs)
    then body db1 = (Inr (), put_rows ''chunk_records'' t
        (kept @ map (new_row t) (map (chunk_binds k) cs)) db1) \<and>
      distinct (map (key_of [''file_id'', ''chunk_index'']) (kept @ map (new_row t) (map (chunk_binds k) cs)))
    else \<exists>x db'. body db1 = (Inl x, db')"
proof -
  let ?pk = "[''file_id'', ''chunk_index'']" and ?tab = "''chunk_records''"
  have t': "tbl_primary_key t = ?pk" "tbl_unique t = []"
      "tbl_reference t = Some (''file_id'', ''file_records'', ''file_id'')"
      "distinct (map (key_of ?pk) (tbl_rows t))"
    using rels(1) t by (auto simp: child_ok_def)
  let ?db2 = "put_rows ?tab t kept db1"
  have del: "sql_delete ?tab ''file_id'' (bind_text k) db1 = (Inr (), ?db2)"
    using sql_delete_leaf [OF rels(2) t] k by (simp add: kept_def bind_text_def)
  have new: "new_row t (chunk_binds k c) ''file_id'' = SqlText k"
      "new_row t (chunk_binds k c) ''chunk_index'' = bind_int (chunk_index c)" if "c \<in> set cs" for c
    using chunk_row [of c k t] clean k that by (auto simp: list_all_iff)
  obtain u where u: "db1 ''file_records'' = Some u" "r0 \<in> set (tbl_rows u)"
    using row(1) by (cases "db1 ''file_records''") (auto simp: sql_rows_def)
  have parent: "has_parent ?db2 (t\<lparr>tbl_rows := kept\<rparr>) (new_row (t\<lparr>tbl_rows := kept\<rparr>) b)"
    if "b \<in> set (map (chunk_binds k) cs)" for b
    using that row(2) new t'(3) u
    by (auto simp: has_parent_def put_rows_def list_ex_iff sql_eq_def intro!: bexI [where x = r0])
  have keys: "SqlNull \<notin> set (key_of ?pk (new_row (t\<lparr>tbl_rows := kept\<rparr>) b))"
    if "b \<in> set (map (chunk_binds k) cs)" for b
    using that new by (auto simp: key_of_def bind_int_def)
  have kept: "distinct (map (key_of ?pk) kept)"
    using t'(4) by (simp add: kept_def distinct_map_filter)
  have "if distinct (map (key_of ?pk) (tbl_rows (t\<lparr>tbl_rows := kept\<rparr>) @
        map (new_row (t\<lparr>tbl_rows := kept\<rparr>)) (map (chunk_binds k) cs)))
    then each (\<lambda>b. sql_insert ?tab b None) (map (chunk_binds k) cs) ?db2 =
      (Inr (), put_rows ?tab (t\<lparr>tbl_rows := kept\<rparr>) (tbl_rows (t\<lparr>tbl_rows := kept\<rparr>) @
        map (new_row (t\<lparr>tbl_rows := kept\<rparr>)) (map (chunk_binds k) cs)) ?db2)
    else \<exists>db'. each (\<lambda>b. sql_insert ?tab b None) (map (chunk_binds k) cs) ?db2 = (Inl (unique_failed ?tab ?pk), db')"
  proof (rule each_insert [OF _ _ _ _ _ parent keys])
    show "''file_records'' \<noteq> ?tab" by simp
  qed (use kept t' in \<open>simp_all add: put_rows_def\<close>)
  then have run: "if distinct (map (key_of ?pk) (kept @ map (new_row t) (map (chunk_binds k) cs)))
    then each (\<lambda>b. sql_insert ?tab b None) (map (chunk_binds k) cs) ?db2 =
      (Inr (), put_rows ?tab t (kept @ map (new_row t) (map (chunk_binds k) cs)) db1)
    else \<exists>db'. each (\<lambda>b. sql_insert ?tab b None) (map (chunk_binds k) cs) ?db2 = (Inl (unique_failed ?tab ?pk), db')"
    by (simp only: new_row_rows put_rows_put tbl_rows_set)
  have "distinct (map (key_of ?pk) (kept @ map (new_row t) (map (chunk_binds k) cs))) \<longleftrightarrow>
      distinct (map chunk_index cs)"
  proof -
    have "map (key_of ?pk) (map (new_row t) (map (chunk_binds k) cs)) =
        map (\<lambda>n. [SqlText k, bind_int n]) (map chunk_index cs)"
      using new by (simp add: key_of_def)
    moreover have "inj_on (\<lambda>n. [SqlText k, bind_int n]) A" for A by (simp add: inj_on_def bind_int_inj)
    moreover have "key_of ?pk r \<noteq> [SqlText k, bind_int n]" if "r \<in> set kept" for r n
      using that by (auto simp: kept_def key_of_def sql_eq_def)
    ultimately show ?thesis
      using kept by (auto simp: distinct_map simp del: map_map)
  qed
  then show ?thesis using run del unfolding body_def by (auto simp: and_then_def split: if_splits)
qed

section \<open>Removing the old version\<close>

text \<open>Deleting file rows: their chunks go with them, and nothing else does.\<close>

lemma sql_delete_files:
  assumes refs: "refs_ok db" and t: "db ''file_records'' = Some t" and u: "db ''chunk_records'' = Some u"
    and ref: "tbl_reference u = Some (''file_id'', ''file_records'', ''file_id'')"
  shows "sql_delete ''file_records'' col v db = (Inr (),
    put_rows ''file_records'' t (filter (\<lambda>r. \<not> sql_eq (r col) v) (tbl_rows t))
      (put_rows ''chunk_records'' u (filter (\<lambda>r. \<not> list_ex (\<lambda>d. sql_eq (d ''file_id'') (r ''file_id''))
        (filter (\<lambda>r. sql_eq (r col) v) (tbl_rows t))) (tbl_rows u)) db))"
proof -
  have other: "parent \<noteq> ''file_records''"
    if "db n = Some w" "tbl_reference w = Some (fcol, parent, pcol)" "n \<noteq> ''chunk_records''" for n w fcol parent pcol
    using that refs unfolding refs_ok_def by blast
  have "(case db n of None \<Rightarrow> None | Some w \<Rightarrow> Some (case tbl_reference w of None \<Rightarrow> w
      | Some (fcol, parent, pcol) \<Rightarrow> if parent \<noteq> ''file_records'' then w else F w fcol pcol)) = db n"
    if "n \<noteq> ''chunk_records''" for n F
    using other [of n] that by (auto split: option.split)
  then show ?thesis
    using u ref by (auto simp: sql_delete_def t Let_def put_rows_def fun_eq_iff)
qed

lemma sql_eq_text: "sql_eq v (SqlText s) \<longleftrightarrow> v = SqlText s"
  by (auto simp: sql_eq_def)

definition is_old :: "FileRecord \<Rightarrow> sql_row \<Rightarrow> bool" where
  "is_old f r \<longleftrightarrow> r ''absolute_path'' = SqlText (file_absolute_path f) \<and> r ''file_id'' \<noteq> SqlText (file_file_id f)"

lemma old_version_deleted:
  assumes files: "files_ok db" and refs: "refs_ok db" and clean: "file_clean f"
    and t: "db ''file_records'' = Some t" and u: "db ''chunk_records'' = Some u"
    and ref: "tbl_reference u = Some (''file_id'', ''file_records'', ''file_id'')"
    and named: "\<And>r. r \<in> set (tbl_rows t) \<Longrightarrow> is_old f r \<Longrightarrow> r ''file_id'' \<noteq> SqlText []"
  shows "delete_old_version f db = (Inr (),
    put_rows ''file_records'' t (filter (\<lambda>r. \<not> is_old f r) (tbl_rows t))
      (put_rows ''chunk_records'' u (filter (\<lambda>r. \<not> (\<exists>d \<in> set (tbl_rows t). is_old f d \<and> d ''file_id'' = r ''file_id''))
        (tbl_rows u)) db))"
proof -
  let ?p = "SqlText (file_absolute_path f)" and ?k = "file_file_id f"
  have bind: "bind_text (file_absolute_path f) = ?p" using clean by (simp add: bind_text_def file_clean_def)
  have texts: "\<exists>s. no_nul s \<and> r ''file_id'' = SqlText s" if "r \<in> set (tbl_rows t)" for r
    using files_okD(1) [OF files, of r] that by (simp add: sql_rows_def t)
  have paths: "distinct (map (\<lambda>r. r ''absolute_path'') (tbl_rows t))"
    using files_okD(4) [OF files] by (simp add: sql_rows_def t)
  have same: "r = d" if "r \<in> set (tbl_rows t)" "d \<in> set (tbl_rows t)" "r ''absolute_path'' = ?p" "d ''absolute_path'' = ?p" for r d
    using paths that by (auto simp: distinct_map inj_on_def)
  have found: "sql_where db ''file_records'' ''absolute_path'' ?p = filter (\<lambda>r. r ''absolute_path'' = ?p) (tbl_rows t)"
    by (simp add: sql_where_def sql_rows_def t sql_eq_text)
  show ?thesis
  proof (cases "\<exists>d \<in> set (tbl_rows t). is_old f d")
    case False
    then have none: "filter (\<lambda>r. \<not> is_old f r) (tbl_rows t) = tbl_rows t"
        "filter (\<lambda>r. \<not> (\<exists>d \<in> set (tbl_rows t). is_old f d \<and> d ''file_id'' = r ''file_id'')) (tbl_rows u) = tbl_rows u"
      by (auto simp: filter_id_conv)
    have "existing_file_id db (file_absolute_path f) \<in> {[], ?k}"
    proof (cases "filter (\<lambda>r. r ''absolute_path'' = ?p) (tbl_rows t)")
      case (Cons d ds)
      then have "d \<in> set (filter (\<lambda>r. r ''absolute_path'' = ?p) (tbl_rows t))" by simp
      then have "d ''file_id'' = SqlText ?k" using False by (auto simp: is_old_def)
      then show ?thesis
        using Cons clean by (simp add: existing_file_id_def found bind first_row_def file_clean_def)
    qed (simp add: existing_file_id_def found bind first_row_def)
    then have "delete_old_version f db = (Inr (), db)"
      by (auto simp: delete_old_version_def Let_def)
    moreover have "put_rows ''file_records'' t (tbl_rows t) (put_rows ''chunk_records'' u (tbl_rows u) db) = db"
      using t u by (simp add: put_rows_def fun_eq_iff)
    ultimately show ?thesis by (simp only: none)
  next
    case True
    then obtain d where d: "d \<in> set (tbl_rows t)" "is_old f d" by blast
    obtain E where E: "no_nul E" "d ''file_id'' = SqlText E" using texts [OF d(1)] by blast
    have bindE: "bind_text E = SqlText E" using E(1) by (simp add: bind_text_def)
    have old: "is_old f r \<longleftrightarrow> r = d" "r ''absolute_path'' = ?p \<longleftrightarrow> r = d" if "r \<in> set (tbl_rows t)" for r
      using same [OF that d(1)] d(2) by (auto simp: is_old_def)
    have "filter (\<lambda>r. r ''absolute_path'' = ?p) (tbl_rows t) = filter (\<lambda>r. r = d) (tbl_rows t)"
      using old by (auto intro: filter_cong)
    moreover obtain ds where "filter (\<lambda>r. r = d) (tbl_rows t) = d # ds"
      using d(1) by (cases "filter (\<lambda>r. r = d) (tbl_rows t)") (auto simp: filter_empty_conv dest: filter_eq_ConsD)
    ultimately have first: "first_row (filter (\<lambda>r. r ''absolute_path'' = ?p) (tbl_rows t)) = Some d"
      by (simp add: first_row_def)
    have ex: "existing_file_id db (file_absolute_path f) = E"
      using first E by (simp add: existing_file_id_def found bind)
    have "E \<noteq> []" "E \<noteq> ?k" using named [OF d] d(2) E(2) by (auto simp: is_old_def)
    then have split: "delete_old_version f db =
        and_then (sql_delete ''chunk_records'' ''file_id'' (SqlText E))
          (sql_delete ''file_records'' ''absolute_path'' ?p) db"
      using bindE by (simp add: delete_old_version_def ex Let_def bind)
    let ?dbc = "put_rows ''chunk_records'' u (filter (\<lambda>r. \<not> sql_eq (r ''file_id'') (SqlText E)) (tbl_rows u)) db"
    have chunks: "sql_delete ''chunk_records'' ''file_id'' (SqlText E) db = (Inr (), ?dbc)"
      by (rule sql_delete_leaf [OF refs u]) simp
    have files: "sql_delete ''file_records'' ''absolute_path'' ?p ?dbc = (Inr (),
        put_rows ''file_records'' t (filter (\<lambda>r. \<not> sql_eq (r ''absolute_path'') ?p) (tbl_rows t))
          (put_rows ''chunk_records'' u (filter (\<lambda>r. \<not> list_ex (\<lambda>d. sql_eq (d ''file_id'') (r ''file_id''))
            (filter (\<lambda>r. sql_eq (r ''absolute_path'') ?p) (tbl_rows t)))
            (filter (\<lambda>r. \<not> sql_eq (r ''file_id'') (SqlText E)) (tbl_rows u))) db))"
      using sql_delete_files [of ?dbc t "u\<lparr>tbl_rows := filter (\<lambda>r. \<not> sql_eq (r ''file_id'') (SqlText E)) (tbl_rows u)\<rparr>"
          "''absolute_path''" ?p] refs_ok_put [OF refs u] t ref
      by (simp add: put_rows_def)
    have "filter (\<lambda>r. \<not> sql_eq (r ''absolute_path'') ?p) (tbl_rows t) = filter (\<lambda>r. \<not> is_old f r) (tbl_rows t)"
      using old by (auto simp: sql_eq_def intro: filter_cong)
    moreover have "filter (\<lambda>r. \<not> list_ex (\<lambda>d. sql_eq (d ''file_id'') (r ''file_id''))
            (filter (\<lambda>r. sql_eq (r ''absolute_path'') ?p) (tbl_rows t)))
            (filter (\<lambda>r. \<not> sql_eq (r ''file_id'') (SqlText E)) (tbl_rows u)) =
        filter (\<lambda>r. \<not> (\<exists>d \<in> set (tbl_rows t). is_old f d \<and> d ''file_id'' = r ''file_id'')) (tbl_rows u)"
      using old d E(2) by (auto simp: sql_eq_def list_ex_iff intro: filter_cong)
    ultimately show ?thesis using split chunks files by (simp add: and_then_def)
  qed
qed

section \<open>The whole transaction\<close>

text \<open>A file row completed with the chunks the database has for it.\<close>

definition bare_of :: "SqliteDb \<Rightarrow> FileRecord list" where
  "bare_of db = map file_of_row (sql_rows db ''file_records'')"

lemma db_files_store_of: "db_files (store_of db) = map (with_chunks db) (bare_of db)"
  by (simp add: store_of_def bare_of_def)

lemma with_chunks_simps [simp]:
  "file_file_id (with_chunks db f) = file_file_id f" "file_absolute_path (with_chunks db f) = file_absolute_path f"
  by (simp_all add: with_chunks_def)

lemma insert_chunks:
  "each (insert_chunk f) (file_chunks f) =
   each (\<lambda>b. sql_insert ''chunk_records'' b None) (map (chunk_binds (file_file_id f)) (file_chunks f))"
  by (rule ext) (simp add: each_map [symmetric] insert_chunk_def [abs_def])

lemma keys_ok_outside:
  assumes "keys_ok db" and "\<And>n. n \<notin> {''file_records'', ''chunk_records''} \<Longrightarrow> db' n = db n"
  shows "keys_ok db'"
proof -
  have "keyed_ok n k db'" if "(n, k) \<in> set keyed_tables" for n k
  proof -
    have "n \<notin> {''file_records'', ''chunk_records''}" using that by (auto simp: keyed_tables_def)
    then show ?thesis using keyed_ok_frame [of db' n db k] assms(2) keys_okD [OF assms(1) that] by simp
  qed
  then show ?thesis by (auto simp: keys_ok_def)
qed

text \<open>The database the first step leaves, seen through the abstraction.\<close>

lemma old_rows:
  assumes "files_ok db" and "file_clean f" and "db ''file_records'' = Some t"
  shows "map file_of_row (filter (\<lambda>r. \<not> is_old f r) (tbl_rows t)) =
    filter (\<lambda>x. file_absolute_path x = file_absolute_path f \<longrightarrow> file_file_id x = file_file_id f) (bare_of db)"
proof -
  have "(\<not> is_old f r) = (column_text (r ''absolute_path'') = file_absolute_path f \<longrightarrow>
      column_text (r ''file_id'') = file_file_id f)" if "r \<in> set (tbl_rows t)" for r
    using files_okD(1,2) [OF assms(1), of r] that assms(3) by (auto simp: is_old_def sql_rows_def)
  then show ?thesis
    by (simp add: bare_of_def sql_rows_def assms(3) filter_map comp_def cong: filter_cong)
qed

lemma store_of_files_only:
  assumes "\<And>n. n \<notin> {''file_records'', ''chunk_records''} \<Longrightarrow> db' n = db n"
  shows "store_of db' = (store_of db)\<lparr>db_files := map (with_chunks db') (bare_of db')\<rparr>"
proof -
  have tables: "sql_rows db' n = sql_rows db n" if "n \<notin> {''file_records'', ''chunk_records''}" for n
    using assms [OF that] by (simp add: sql_rows_def)
  have "entry_at_row db' = entry_at_row db"
    by (rule ext) (simp add: entry_at_row_def sql_where_def tables)
  then show ?thesis by (simp add: store_of_def bare_of_def tables)
qed

lemma distinct_ids:
  assumes "files_ok db"
  shows "distinct (map file_file_id (bare_of db))"
proof -
  let ?vs = "map (\<lambda>r. r ''file_id'') (sql_rows db ''file_records'')"
  have "inj_on column_text (set ?vs)"
  proof (rule inj_onI)
    fix v w
    assume *: "v \<in> set ?vs" "w \<in> set ?vs" "column_text v = column_text w"
    then have "\<exists>s. no_nul s \<and> v = SqlText s" "\<exists>s. no_nul s \<and> w = SqlText s"
      using files_okD(1) [OF assms] by auto
    with *(3) show "v = w" by auto
  qed
  then have "distinct (map column_text ?vs)"
    using files_okD(3) [OF assms] by (simp only: distinct_map)
  then show ?thesis by (simp add: bare_of_def comp_def)
qed

lemma files_ok_filter:
  assumes "files_ok db" and "db ''file_records'' = Some t"
  shows "files_ok (put_rows ''file_records'' t (filter P (tbl_rows t)) db)"
  using assms by (auto simp: files_ok_def put_rows_def distinct_map_filter)

lemma child_ok_filter:
  assumes "child_ok name pk ref db" and "db name = Some u"
  shows "child_ok name pk ref (put_rows name u (filter P (tbl_rows u)) db)"
  using assms by (auto simp: child_ok_def put_rows_def distinct_map_filter)

text \<open>
  Writing a file either stores it as the only version at its path, with its chunks in order, or raises
  and leaves the database as it was; it raises exactly when two chunks have one index.
\<close>

lemma file_refines:
  assumes inv: "sqlite_inv db" and clean: "file_clean f"
    and named: "\<And>x. x \<in> set (ListFiles (store_of db)) \<Longrightarrow> file_absolute_path x = file_absolute_path f \<Longrightarrow>
      file_file_id x \<noteq> []"
  shows "if distinct (map chunk_index (file_chunks f))
    then \<exists>db'. Sqlite_UpsertFile f db = (Inr (), db') \<and> sqlite_inv db' \<and>
      store_of db' = UpsertFile (stored_file f) ((store_of db)\<lparr>db_files :=
        filter (\<lambda>x. file_absolute_path x = file_absolute_path f \<longrightarrow> file_file_id x = file_file_id f)
          (db_files (store_of db))\<rparr>)
    else \<exists>x. Sqlite_UpsertFile f db = (Inl x, db)"
proof -
  let ?k = "file_file_id f" and ?cs = "file_chunks f"
  let ?pk = "[''file_id'', ''chunk_index'']" and ?ref = "(''file_id'', ''file_records'', ''file_id'')"
  have keys: "keys_ok db" and files: "files_ok db" and refs: "refs_ok db"
    and chunks: "child_ok ''chunk_records'' ?pk ?ref db"
    using inv by (simp_all add: sqlite_inv_def relations_ok_def)
  have k: "no_nul ?k" and hashes: "list_all (\<lambda>c. no_nul (chunk_hash c)) ?cs"
    using clean by (simp_all add: file_clean_def)
  obtain t where t: "db ''file_records'' = Some t" using files by (auto simp: files_ok_def)
  obtain u where u: "db ''chunk_records'' = Some u" "tbl_reference u = Some ?ref"
    using chunks by (auto simp: child_ok_def)
  have texts: "\<exists>s. no_nul s \<and> r ''file_id'' = SqlText s" "\<exists>s. no_nul s \<and> r ''absolute_path'' = SqlText s"
    if "r \<in> set (tbl_rows t)" for r
    using files_okD(1,2) [OF files, of r] that by (simp_all add: sql_rows_def t)
  have named': "r ''file_id'' \<noteq> SqlText []" if r: "r \<in> set (tbl_rows t)" "is_old f r" for r
  proof -
    have "with_chunks db (file_of_row r) \<in> set (ListFiles (store_of db))"
      using r(1) by (simp add: ListFiles_def db_files_store_of bare_of_def sql_rows_def t)
    moreover have "column_text (r ''absolute_path'') = file_absolute_path f"
      using r clean by (auto simp: is_old_def file_clean_def)
    ultimately have "column_text (r ''file_id'') \<noteq> []" using named by fastforce
    then show ?thesis by (auto simp: c_str_def)
  qed
  let ?t = "filter (\<lambda>r. \<not> is_old f r) (tbl_rows t)"
  let ?u = "filter (\<lambda>r. \<not> (\<exists>d \<in> set (tbl_rows t). is_old f d \<and> d ''file_id'' = r ''file_id'')) (tbl_rows u)"
  let ?dbu = "put_rows ''chunk_records'' u ?u db"
  let ?dbA = "put_rows ''file_records'' t ?t ?dbu"
  have del: "delete_old_version f db = (Inr (), ?dbA)"
    by (rule old_version_deleted [OF files refs clean t u]) (rule named')
  have tu: "?dbu ''file_records'' = Some t" using t by simp
  have filesA: "files_ok ?dbA"
    by (rule files_ok_filter [where db = ?dbu, OF _ tu]) (use files in \<open>simp add: files_ok_def put_rows_def\<close>)
  have refsA: "refs_ok ?dbA" by (rule refs_ok_put [where db = ?dbu, OF refs_ok_put [OF refs u(1)] tu])
  let ?tA = "t\<lparr>tbl_rows := ?t\<rparr>"
  have tA: "?dbA ''file_records'' = Some ?tA" by (simp add: put_rows_def)
  obtain rows where run1: "sql_insert ''file_records'' (file_binds f) (Some ([''file_id''],
        [''relative_path'', ''absolute_path'', ''size'', ''modified_time_epoch'', ''mode'', ''root_hash'',
         ''status''])) ?dbA = (Inr (), put_rows ''file_records'' ?tA rows ?dbA)"
    and files1: "files_ok (put_rows ''file_records'' ?tA rows ?dbA)"
    and rows1: "map file_of_row rows =
      upsert_by (\<lambda>y. file_file_id y = ?k) (bare_file f) (map file_of_row (tbl_rows ?tA))"
    by (rule write_file_row [OF filesA tA clean]) (auto simp: is_old_def)
  let ?db1 = "put_rows ''file_records'' t rows ?dbu"
  have db1: "put_rows ''file_records'' ?tA rows ?dbA = ?db1" by simp
  have refs1: "refs_ok ?db1" by (rule refs_ok_put [where db = ?dbu, OF refs_ok_put [OF refs u(1)] tu])
  have chunks1: "child_ok ''chunk_records'' ?pk ?ref ?db1"
    using child_ok_filter [OF chunks u(1)] by (simp add: child_ok_def put_rows_def)
  have u1: "?db1 ''chunk_records'' = Some (u\<lparr>tbl_rows := ?u\<rparr>)" by (simp add: put_rows_def)
  have "bare_file f \<in> set (map file_of_row rows)" by (simp only: rows1 upsert_by_in)
  then obtain r0 where r0: "r0 \<in> set rows" "bare_file f = file_of_row r0" by auto
  have r0id: "column_text (r0 ''file_id'') = ?k"
    using arg_cong [OF r0(2), of file_file_id] by simp
  have r0k: "r0 ''file_id'' = SqlText ?k"
  proof -
    have "\<exists>s. no_nul s \<and> r0 ''file_id'' = SqlText s"
      using files_okD(1) [OF files1, of r0] r0(1) by simp
    then show ?thesis using r0id by auto
  qed
  have r0_in: "r0 \<in> set (sql_rows ?db1 ''file_records'')" using r0(1) by simp
  let ?kept = "filter (\<lambda>r. \<not> sql_eq (r ''file_id'') (SqlText ?k)) ?u"
  let ?new = "map (new_row u) (map (chunk_binds ?k) ?cs)"
  let ?db' = "put_rows ''chunk_records'' u (?kept @ ?new) ?db1"
  have written: "if distinct (map chunk_index ?cs)
    then and_then (sql_delete ''chunk_records'' ''file_id'' (bind_text ?k))
        (each (\<lambda>b. sql_insert ''chunk_records'' b None) (map (chunk_binds ?k) ?cs)) ?db1 = (Inr (), ?db') \<and>
      distinct (map (key_of ?pk) (?kept @ ?new))
    else \<exists>x d. and_then (sql_delete ''chunk_records'' ''file_id'' (bind_text ?k))
        (each (\<lambda>b. sql_insert ''chunk_records'' b None) (map (chunk_binds ?k) ?cs)) ?db1 = (Inl x, d)"
    using write_chunks [OF chunks1 refs1 r0_in r0k k hashes u1]
    by (simp only: new_row_rows put_rows_put tbl_rows_set)
  have run: "Sqlite_UpsertFile f db = (case and_then (sql_delete ''chunk_records'' ''file_id'' (bind_text ?k))
        (each (\<lambda>b. sql_insert ''chunk_records'' b None) (map (chunk_binds ?k) ?cs)) ?db1 of
        (Inl x, _) \<Rightarrow> (Inl x, db) | (Inr w, db') \<Rightarrow> (Inr w, db'))"
    unfolding Sqlite_UpsertFile_def insert_chunks
    by (simp only: transaction_def and_then_def [of "delete_old_version f"] del
        and_then_def [of "sql_insert n b c" for n b c] run1 db1 prod.case sum.case)
  show ?thesis
  proof (cases "distinct (map chunk_index ?cs)")
    case False
    then show ?thesis using written run by auto
  next
    case True
    have run': "Sqlite_UpsertFile f db = (Inr (), ?db')" using written True run by simp
    have distinct: "distinct (map (key_of ?pk) (?kept @ ?new))" using written True by simp
    have outside: "?db' n = db n" if "n \<notin> {''file_records'', ''chunk_records''}" for n
      using that by simp
    have "keys_ok ?db'" by (rule keys_ok_outside [OF keys outside])
    moreover have "refs_ok ?db'"
      using refs_ok_put [OF refs1 u1, of "?kept @ ?new"] by (simp only: put_rows_put)
    moreover have "child_ok ''chunk_records'' ?pk ?ref ?db'"
      using chunks u distinct by (auto simp: child_ok_def put_rows_def)
    moreover have "files_ok ?db'"
      using files1 unfolding db1 by (simp add: files_ok_def put_rows_def)
    moreover have "child_ok ''shared_library_recipients'' [''entry_id'', ''node_id'']
        (''entry_id'', ''shared_library_entries'', ''entry_id'') ?db'"
      using inv by (simp add: sqlite_inv_def relations_ok_def child_ok_def)
    ultimately have inv': "sqlite_inv ?db'" by (simp add: sqlite_inv_def relations_ok_def)
    have read: "Sqlite_ListChunks ?db' j = (if j = ?k then sort_key (\<lambda>c. sint (chunk_index c))
        (map (\<lambda>c. c\<lparr>chunk_file_id := ?k\<rparr>) ?cs) else Sqlite_ListChunks ?dbu j)" if "no_nul j" for j
      by (rule chunks_written [where t = u, OF _ hashes k that]) (simp add: sql_rows_def put_rows_def)
    have kept_chunks: "Sqlite_ListChunks ?db' (file_file_id y) = Sqlite_ListChunks db (file_file_id y)"
      if member: "y \<in> set (bare_of db)" and path: "file_absolute_path y = file_absolute_path f \<longrightarrow> file_file_id y = ?k"
        and other: "file_file_id y \<noteq> ?k" for y
    proof -
      obtain r where r: "r \<in> set (tbl_rows t)" "y = file_of_row r"
        using member by (auto simp: bare_of_def sql_rows_def t)
      obtain j where j: "no_nul j" "r ''file_id'' = SqlText j" using texts(1) [OF r(1)] by blast
      have y: "file_file_id y = j" using r(2) j by simp
      have "\<not> is_old f r" using path r(2) j texts(2) [OF r(1)] by (auto simp: is_old_def)
      moreover have "d = r" if "d \<in> set (tbl_rows t)" "d ''file_id'' = SqlText j" for d
        using files_okD(3) [OF files] r(1) j that by (auto simp: sql_rows_def t distinct_map inj_on_def)
      ultimately have "filter (\<lambda>r. sql_eq (r ''file_id'') (SqlText j)) ?u = filter (\<lambda>r. sql_eq (r ''file_id'') (SqlText j)) (tbl_rows u)"
        by (auto simp: sql_eq_text intro!: filter_cong)
      then show ?thesis
        using read [OF j(1)] other j(1) y u by (simp add: Sqlite_ListChunks_def sql_where_def sql_rows_def [of db] bind_text_def)
    qed
    have final: "store_of ?db' = UpsertFile (stored_file f) ((store_of db)\<lparr>db_files :=
        filter (\<lambda>x. file_absolute_path x = file_absolute_path f \<longrightarrow> file_file_id x = file_file_id f)
          (db_files (store_of db))\<rparr>)"
    proof -
      let ?P = "\<lambda>x. file_absolute_path x = file_absolute_path f \<longrightarrow> file_file_id x = ?k"
      have bare: "bare_of ?db' = upsert_by (\<lambda>y. file_file_id y = file_file_id (bare_file f)) (bare_file f)
          (filter ?P (bare_of db))"
      proof -
        have "bare_of ?db' = map file_of_row rows" by (simp add: bare_of_def sql_rows_def put_rows_def)
        then show ?thesis by (simp only: rows1 tbl_rows_set old_rows [OF files clean t] stored_file_simps)
      qed
      have stored: "with_chunks ?db' (bare_file f) = stored_file f"
        using read k by (simp add: with_chunks_def bare_file_def stored_file_def)
      have "map (with_chunks ?db') (bare_of ?db') =
          upsert_by (\<lambda>y. file_file_id y = file_file_id (with_chunks ?db' (bare_file f)))
            (with_chunks ?db' (bare_file f)) (map (with_chunks db) (filter ?P (bare_of db)))"
        unfolding bare
      proof (rule map_upsert_by)
        have "distinct (map file_file_id (bare_of db))" by (rule distinct_ids [OF files])
        then show "distinct (map file_file_id (filter ?P (bare_of db)))" by (rule distinct_map_filter)
        fix y
        assume y: "y \<in> set (filter ?P (bare_of db))" "file_file_id y \<noteq> file_file_id (bare_file f)"
        then show "with_chunks ?db' y = with_chunks db y"
          using kept_chunks [of y] by (simp add: with_chunks_def)
      qed simp_all
      moreover have "map (with_chunks db) (filter ?P (bare_of db)) = filter ?P (map (with_chunks db) (bare_of db))"
        by (simp add: filter_map comp_def)
      moreover have "upsert_by (\<lambda>y. file_file_id y = ?k) (stored_file f) (filter ?P ys) =
          upsert_by (\<lambda>y. file_file_id y = ?k \<or> file_absolute_path y = file_absolute_path f) (stored_file f) (filter ?P ys)" for ys
        by (induction ys) auto
      ultimately have db_files: "map (with_chunks ?db') (bare_of ?db') =
          upsert_by (\<lambda>y. file_file_id y = ?k \<or> file_absolute_path y = file_absolute_path f) (stored_file f)
            (filter ?P (db_files (store_of db)))"
        by (simp only: stored stored_file_simps db_files_store_of)
      have "store_of ?db' = (store_of db)\<lparr>db_files := map (with_chunks ?db') (bare_of ?db')\<rparr>"
        by (rule store_of_files_only) (rule outside)
      then show ?thesis
        by (simp only: db_files UpsertFile_def stored_file_simps) simp
    qed
    then show ?thesis using True run' inv' by auto
  qed
qed

end
