(* ===== verification/Sqlite_Contract.thy ===== *)
theory Sqlite_Contract
  imports Sqlite_Files
begin

text \<open>
  What a client of \<^verbatim>\<open>SqliteMetadataStore\<close> can rely on: opening a database creates or upgrades its schema
  without losing rows, writes act on the abstraction as the writes of the in-memory store, and reads
  return what the abstraction holds.
\<close>

section \<open>Opening a database\<close>

lemma fold_create_table: "fold create_table ts db = map_of ts ++ db"
proof (induction ts arbitrary: db)
  case (Cons x ts)
  obtain n t where x: "x = (n, t)" by fastforce
  have "map_of ts ++ create_table (n, t) db = map_of ((n, t) # ts) ++ db"
    by (auto simp: create_table_def fun_eq_iff map_add_def split: option.splits)
  then show ?case by (simp only: x fold_simps Cons)
qed simp

lemma each_no_effect: "(\<And>x. x \<in> set xs \<Longrightarrow> f x db = (Inr (), db)) \<Longrightarrow> each f xs db = (Inr (), db)"
  by (induction xs) (simp_all add: and_then_def)

text \<open>The tables \<open>EnsureColumnExists\<close> names are among those of the schema.\<close>

definition has_tables :: "SqliteDb \<Rightarrow> bool" where
  "has_tables db \<longleftrightarrow> (\<forall>name \<in> fst ` set ensured_columns. db name \<noteq> None)"

lemma ensured_in_schema: "(name, c, v) \<in> set ensured_columns \<Longrightarrow> name \<in> fst ` set kSchema"
  by (auto simp: ensured_columns_def kSchema_def)

lemma has_tables_created: "has_tables (fold create_table kSchema db)"
proof -
  have "fold create_table kSchema db name \<noteq> None" if "(name, c, v) \<in> set ensured_columns" for name c v
    using ensured_in_schema [OF that] map_of_eq_None_iff [of kSchema name]
    by (auto simp: fold_create_table map_add_None)
  then show ?thesis by (auto simp: has_tables_def)
qed

text \<open>
  One column more: tables, their keys and rows stay, except that a missing column gets its default in
  every row.
\<close>

definition table_kept :: "SqlTable \<Rightarrow> SqlTable \<Rightarrow> bool" where
  "table_kept t t' \<longleftrightarrow> tbl_primary_key t' = tbl_primary_key t \<and> tbl_unique t' = tbl_unique t \<and>
     tbl_reference t' = tbl_reference t \<and> fst ` set (tbl_columns t) \<subseteq> fst ` set (tbl_columns t') \<and>
     list_all2 (\<lambda>r r'. \<forall>c \<in> fst ` set (tbl_columns t). r' c = r c) (tbl_rows t) (tbl_rows t')"

definition upgraded :: "SqliteDb \<Rightarrow> SqliteDb \<Rightarrow> bool" where
  "upgraded db db' \<longleftrightarrow> (\<forall>n t. db n = Some t \<longrightarrow> (\<exists>t'. db' n = Some t' \<and> table_kept t t'))"

lemma table_kept_refl [simp]: "table_kept t t"
  by (simp add: table_kept_def list_all2_refl)

lemma table_kept_trans:
  assumes "table_kept t u" and "table_kept u v"
  shows "table_kept t v"
proof -
  let ?keeps = "\<lambda>w r r'. \<forall>c \<in> fst ` set (tbl_columns w). r' c = r c"
  have cols: "fst ` set (tbl_columns t) \<subseteq> fst ` set (tbl_columns u)"
    and rows: "list_all2 (?keeps t) (tbl_rows t) (tbl_rows u)" "list_all2 (?keeps u) (tbl_rows u) (tbl_rows v)"
    using assms by (simp_all only: table_kept_def)
  have "?keeps t r r''" if "?keeps t r r'" "?keeps u r' r''" for r r' r''
  proof
    fix c
    assume "c \<in> fst ` set (tbl_columns t)"
    moreover from this have "c \<in> fst ` set (tbl_columns u)" using cols by blast
    ultimately show "r'' c = r c" using that by metis
  qed
  then have "list_all2 (?keeps t) (tbl_rows t) (tbl_rows v)"
    by (rule list_all2_trans [OF _ rows])
  moreover have "fst ` set (tbl_columns t) \<subseteq> fst ` set (tbl_columns v)"
    using cols assms(2) unfolding table_kept_def by (meson order_trans)
  ultimately show ?thesis using assms by (simp only: table_kept_def simp_thms)
qed

lemma upgraded_refl [simp]: "upgraded db db"
  by (simp add: upgraded_def)

lemma upgraded_trans: "upgraded db db1 \<Longrightarrow> upgraded db1 db2 \<Longrightarrow> upgraded db db2"
  unfolding upgraded_def by (meson table_kept_trans)

lemma has_column_iff: "db n = Some t \<Longrightarrow> has_column db n c \<longleftrightarrow> c \<in> fst ` set (tbl_columns t)"
  by (force simp: has_column_def list_ex_iff)

lemma ensure_column:
  assumes "db name \<noteq> None"
  obtains db' where "EnsureColumnExists (name, c, v) db = (Inr (), db')" and "upgraded db db'"
    and "has_column db' name c" and "\<And>n. (db' n = None) = (db n = None)"
proof (cases "has_column db name c")
  case True
  then show thesis by (intro that [of db]) (simp_all add: EnsureColumnExists_def)
next
  case False
  obtain t where t: "db name = Some t" using assms by blast
  let ?t = "t\<lparr>tbl_columns := tbl_columns t @ [(c, v)], tbl_rows := map (\<lambda>r. r(c := v)) (tbl_rows t)\<rparr>"
  have run: "EnsureColumnExists (name, c, v) db = (Inr (), db(name \<mapsto> ?t))"
    using False t by (simp add: EnsureColumnExists_def add_column_def)
  have "c \<notin> fst ` set (tbl_columns t)" using False t by (simp add: has_column_iff)
  then have "table_kept t ?t"
    by (auto simp: table_kept_def list_all2_map2 intro!: list_all2_refl)
  then have "upgraded db (db(name \<mapsto> ?t))" using t by (auto simp: upgraded_def)
  moreover have "has_column (db(name \<mapsto> ?t)) name c" by (simp add: has_column_def)
  ultimately show thesis using t by (intro that [OF run]) auto
qed

lemma has_column_upgraded: "upgraded db db' \<Longrightarrow> has_column db n c \<Longrightarrow> has_column db' n c"
proof -
  assume up: "upgraded db db'" and has: "has_column db n c"
  then obtain t where t: "db n = Some t" by (cases "db n") (simp_all add: has_column_def)
  then obtain t' where t': "db' n = Some t'" "fst ` set (tbl_columns t) \<subseteq> fst ` set (tbl_columns t')"
    using up unfolding upgraded_def table_kept_def by meson
  have "c \<in> fst ` set (tbl_columns t)" using has t by (simp add: has_column_iff)
  then show ?thesis using t' by (auto simp: has_column_iff)
qed

lemma each_ensure:
  assumes "\<forall>name \<in> fst ` set cols. db name \<noteq> None"
  shows "\<exists>db'. each EnsureColumnExists cols db = (Inr (), db') \<and> upgraded db db' \<and>
    (\<forall>(name, c, v) \<in> set cols. has_column db' name c) \<and> (\<forall>n. (db' n = None) = (db n = None))"
  using assms
proof (induction cols arbitrary: db)
  case (Cons x cols)
  obtain name c v where x: "x = (name, c, v)" by (cases x)
  obtain db1 where db1: "EnsureColumnExists x db = (Inr (), db1)" "upgraded db db1" "has_column db1 name c"
      "\<And>n. (db1 n = None) = (db n = None)"
    using ensure_column [of db name c v] Cons.prems x by auto
  have "\<forall>name \<in> fst ` set cols. db1 name \<noteq> None"
    using Cons.prems db1(4) by simp
  from Cons.IH [of db1, OF this] obtain db2 where db2: "each EnsureColumnExists cols db1 = (Inr (), db2)" "upgraded db1 db2"
      "\<forall>(name, c, v) \<in> set cols. has_column db2 name c" "\<forall>n. (db2 n = None) = (db1 n = None)"
    by blast
  have "has_column db2 name c" by (rule has_column_upgraded [OF db2(2) db1(3)])
  then show ?case
    using db1 db2 upgraded_trans [OF db1(2) db2(2)] by (auto simp: and_then_def x)
qed simp

text \<open>
  C36: Opening a database never fails on its schema and never loses data. Every table of the schema exists
  afterwards, and every column added by a later version of the program; a table that was there keeps its
  keys and, row by row, the values of its columns; opening again changes nothing.
\<close>

theorem schema_upgrade:
  "\<exists>db'. SqliteMetadataStore_new (Inr db) = (Inr (), db') \<and> upgraded db db' \<and>
    (\<forall>(name, t) \<in> set kSchema. db' name \<noteq> None) \<and>
    (\<forall>(name, c, v) \<in> set ensured_columns. has_column db' name c) \<and>
    SqliteMetadataStore_new (Inr db') = (Inr (), db')"
proof -
  let ?db = "fold create_table kSchema db"
  have "upgraded db ?db" by (auto simp: upgraded_def fold_create_table map_add_def)
  moreover obtain db' where db': "each EnsureColumnExists ensured_columns ?db = (Inr (), db')" "upgraded ?db db'"
      "\<forall>(name, c, v) \<in> set ensured_columns. has_column db' name c" "\<forall>n. (db' n = None) = (?db n = None)"
    using each_ensure [of ensured_columns ?db] has_tables_created [of db] unfolding has_tables_def by blast
  moreover have tables: "db' name \<noteq> None" if "(name, t) \<in> set kSchema" for name t
  proof -
    have "name \<in> fst ` set kSchema" using that by force
    then have "map_of kSchema name \<noteq> None" by (simp add: map_of_eq_None_iff)
    then show ?thesis using db'(4) by (auto simp: fold_create_table map_add_None)
  qed
  moreover have "fold create_table kSchema db' = db'"
  proof -
    have "(map_of kSchema ++ db') n = db' n" for n
      using tables by (cases "map_of kSchema n") (auto simp: map_add_def split: option.split dest: map_of_SomeD)
    then show ?thesis by (simp add: fold_create_table fun_eq_iff)
  qed
  moreover have "each EnsureColumnExists ensured_columns db' = (Inr (), db')"
    using db'(3) by (intro each_no_effect) (auto simp: EnsureColumnExists_def)
  ultimately show ?thesis
    using upgraded_trans [of db ?db db']
    by (intro exI [of _ db']) (auto simp: SqliteMetadataStore_new_def InitializeSchema_def)
qed

theorem schema_upgrade_witness:
  "has_column (snd (SqliteMetadataStore_new (Inr Map.empty))) ''sync_tasks'' ''temp_path''"
proof -
  obtain db' where "SqliteMetadataStore_new (Inr Map.empty) = (Inr (), db')"
      "\<forall>(name, c, v) \<in> set ensured_columns. has_column db' name c"
    using schema_upgrade [of Map.empty] by blast
  then show ?thesis by (simp add: ensured_columns_def)
qed

section \<open>The empty store\<close>

lemma opened_empty: "SqliteMetadataStore_new (Inr Map.empty) = (Inr (), map_of kSchema)"
proof -
  have "has_column (map_of kSchema) name c" if "(name, c, v) \<in> set ensured_columns" for name c v
  proof -
    have "list_all (\<lambda>(name, c, v). has_column (map_of kSchema) name c) ensured_columns" by code_simp
    then show ?thesis using that by (auto simp: list_all_iff)
  qed
  then have "each EnsureColumnExists ensured_columns (map_of kSchema) = (Inr (), map_of kSchema)"
    by (intro each_no_effect) (auto simp: EnsureColumnExists_def)
  then show ?thesis
    by (simp add: SqliteMetadataStore_new_def InitializeSchema_def fold_create_table)
qed

lemma empty_rows: "sql_rows (map_of kSchema) n = []"
proof (cases "map_of kSchema n")
  case (Some t)
  then have "(n, t) \<in> set kSchema" by (rule map_of_SomeD)
  then have "tbl_rows t = []" by (auto simp: kSchema_def)
  then show ?thesis using Some by (simp add: sql_rows_def)
qed (simp add: sql_rows_def)

lemma empty_store: "store_of (map_of kSchema) = MetadataStore_init"
  by (simp add: store_of_def empty_rows MetadataStore_init_def)

lemma empty_inv: "sqlite_inv (map_of kSchema)"
proof -
  let ?db = "map_of kSchema"
  have keyed: "list_all (\<lambda>(n, k). case ?db n of None \<Rightarrow> False
      | Some t \<Rightarrow> tbl_primary_key t = [k] \<and> tbl_unique t = [] \<and> tbl_reference t = None) keyed_tables"
    by code_simp
  have rows: "tbl_rows t = []" if "?db n = Some t" for n t
    using empty_rows [of n] that by (simp add: sql_rows_def)
  have "keyed_ok n k ?db" if "(n, k) \<in> set keyed_tables" for n k
    using bspec [OF keyed [unfolded list_all_iff] that] rows [of n]
    by (cases "?db n") (simp_all add: keyed_ok_def)
  then have "keys_ok ?db" by (auto simp: keys_ok_def)
  moreover have "refs_ok ?db"
  proof -
    have refs: "list_all (\<lambda>(n, t). case tbl_reference t of None \<Rightarrow> True
      | Some (c, p, pc) \<Rightarrow> (n, p) \<in> set [(''shared_library_recipients'', ''shared_library_entries''),
          (''chunk_records'', ''file_records''), (''sync_task_chunks'', ''sync_tasks'')]) kSchema"
      by code_simp
    have "(n, p) \<in> {(''shared_library_recipients'', ''shared_library_entries''),
        (''chunk_records'', ''file_records''), (''sync_task_chunks'', ''sync_tasks'')}"
      if t: "?db n = Some t" "tbl_reference t = Some (c, p, pc)" for n t c p pc
      using bspec [OF refs [unfolded list_all_iff] map_of_SomeD [OF t(1)]] t(2) by simp
    then show ?thesis unfolding refs_ok_def by blast
  qed
  moreover have "files_ok ?db" by (simp add: files_ok_def kSchema_def)
  ultimately show ?thesis
    by (simp add: sqlite_inv_def relations_ok_def child_ok_def kSchema_def)
qed

section \<open>The audit log\<close>

definition event_clean :: "AuditEvent \<Rightarrow> bool" where
  "event_clean e = list_all no_nul [event_event_id e, event_category e, event_detail e]"

lemma audit_event_of_new_row:
  assumes "event_clean e"
  shows "audit_event_of_row (new_row t (audit_event_binds e)) = e"
    and "new_row t (audit_event_binds e) ''event_id'' = SqlText (event_event_id e)"
  using assms by (simp_all add: audit_event_of_row_def audit_event_binds_def new_row_def event_clean_def bind_text_def)

text \<open>An event with a new id is appended; an id that is taken is refused.\<close>

lemma audit_refines:
  assumes inv: "sqlite_inv db" and clean: "event_clean e"
  shows "if event_event_id e \<in> event_event_id ` set (ListAuditEvents (store_of db))
    then \<exists>x. Sqlite_AppendAuditEvent e db = (Inl x, db)
    else \<exists>db'. Sqlite_AppendAuditEvent e db = (Inr (), db') \<and> sqlite_inv db' \<and>
      store_of db' = AppendAuditEvent e (store_of db)"
proof -
  let ?tab = "''audit_events''" and ?k = "''event_id''"
  have keys: "keys_ok db" and rels: "relations_ok db" using inv by (simp_all add: sqlite_inv_def)
  have ok: "keyed_ok ?tab ?k db" by (rule keys_okD [OF keys]) (simp add: keyed_tables_def)
  then obtain t where t: "db ?tab = Some t" "tbl_primary_key t = [?k]" "tbl_unique t = []" "tbl_reference t = None"
      "distinct (map (\<lambda>r. r ?k) (tbl_rows t))" by (auto simp: keyed_ok_def)
  let ?row = "new_row t (audit_event_binds e)" and ?v = "SqlText (event_event_id e)"
  note row = audit_event_of_new_row [OF clean, of t]
  have texts: "\<exists>s. no_nul s \<and> r ?k = SqlText s" if "r \<in> set (tbl_rows t)" for r
    using keyed_text [OF ok, of r] that t(1) by (simp add: sql_rows_def)
  have id: "no_nul (event_event_id e)" using clean by (simp add: event_clean_def)
  have taken: "event_event_id e \<in> event_event_id ` set (ListAuditEvents (store_of db)) \<longleftrightarrow>
      ?v \<in> (\<lambda>r. r ?k) ` set (tbl_rows t)"
  proof -
    have "(event_event_id (audit_event_of_row r) = event_event_id e) = (r ?k = ?v)" if "r \<in> set (tbl_rows t)" for r
      using texts [OF that] id by (auto simp: audit_event_of_row_def)
    then have "(\<exists>r \<in> set (tbl_rows t). event_event_id (audit_event_of_row r) = event_event_id e) \<longleftrightarrow>
        (\<exists>r \<in> set (tbl_rows t). r ?k = ?v)" by blast
    also have "\<dots> \<longleftrightarrow> ?v \<in> (\<lambda>r. r ?k) ` set (tbl_rows t)" unfolding image_iff by metis
    finally show ?thesis
      by (simp add: ListAuditEvents_def store_of_def sql_rows_def t(1) image_image)
        (metis (no_types, lifting) image_iff)
  qed
  have run: "Sqlite_AppendAuditEvent e db = insert_new ?tab t ?row db"
    by (simp add: Sqlite_AppendAuditEvent_def sql_insert_def t(1) Let_def)
  have violated: "violated t (tbl_rows t) ?row = (if ?v \<in> (\<lambda>r. r ?k) ` set (tbl_rows t) then Some [?k] else None)"
  proof -
    have "list_ex (\<lambda>r. same_on [?k] r ?row) (tbl_rows t) \<longleftrightarrow> (\<exists>r \<in> set (tbl_rows t). r ?k = ?v)"
      by (auto simp: list_ex_iff same_on_def sql_eq_def row)
    also have "\<dots> \<longleftrightarrow> ?v \<in> (\<lambda>r. r ?k) ` set (tbl_rows t)" unfolding image_iff by metis
    finally show ?thesis by (simp add: violated_def t)
  qed
  show ?thesis
  proof (cases "?v \<in> (\<lambda>r. r ?k) ` set (tbl_rows t)")
    case True
    then show ?thesis using taken run violated by (simp add: insert_new_def)
  next
    case False
    let ?db' = "put_rows ?tab t (tbl_rows t @ [?row]) db"
    have run': "Sqlite_AppendAuditEvent e db = (Inr (), ?db')"
      using False run violated t(4) by (simp add: insert_new_def has_parent_def)
    have frame: "?db' n = db n" if "n \<noteq> ?tab" for n using that by simp
    have ok': "keyed_ok ?tab ?k ?db'"
      using t texts False row(2) id by (auto simp: keyed_ok_def put_rows_def)
    have "keys_ok ?db'"
      by (rule keys_ok_write [OF keys frame], assumption) (use ok' in \<open>simp add: keyed_tables_def\<close>)
    moreover have "relations_ok ?db'"
      by (rule relations_ok_frame [OF rels frame], assumption)
        (use rels t(1) in \<open>simp_all add: relations_ok_def refs_ok_put\<close>)
    moreover have "store_of ?db' = AppendAuditEvent e (store_of db)"
      by (simp add: store_of_def AppendAuditEvent_def write_frame [OF frame] row(1))
        (simp add: sql_rows_def t(1))
    ultimately show ?thesis using False taken run' by (auto simp: sqlite_inv_def)
  qed
qed

section \<open>Histories\<close>

text \<open>
  The writes of a client on a database and, in step, on the in-memory store. Writing a file takes the
  place of any other file at its path; an entry and a file are kept as \<open>stored_entry\<close> and
  \<open>stored_file\<close>; a refused write leaves both sides alone.
\<close>

definition replace_path :: "FileRecord \<Rightarrow> MetadataStore \<Rightarrow> MetadataStore" where
  "replace_path f m = UpsertFile (stored_file f) (m\<lparr>db_files :=
     filter (\<lambda>x. file_absolute_path x = file_absolute_path f \<longrightarrow> file_file_id x = file_file_id f) (db_files m)\<rparr>)"

inductive sqlite_run :: "SqliteDb \<Rightarrow> MetadataStore \<Rightarrow> bool" where
  opened: "SqliteMetadataStore_new (Inr Map.empty) = (answer, db) \<Longrightarrow> sqlite_run db MetadataStore_init"
| node: "sqlite_run db m \<Longrightarrow> node_clean node_row \<Longrightarrow> Sqlite_UpsertNode node_row db = (answer, db') \<Longrightarrow>
    sqlite_run db' (UpsertNode node_row m)"
| backup_policy: "sqlite_run db m \<Longrightarrow> backup_policy_clean backup_policy_row \<Longrightarrow> Sqlite_UpsertBackupPolicy backup_policy_row db = (answer, db') \<Longrightarrow>
    sqlite_run db' (UpsertBackupPolicy backup_policy_row m)"
| transfer_policy: "sqlite_run db m \<Longrightarrow> transfer_policy_clean transfer_policy_row \<Longrightarrow> Sqlite_UpsertTransferPolicy transfer_policy_row db = (answer, db') \<Longrightarrow>
    sqlite_run db' (UpsertTransferPolicy transfer_policy_row m)"
| scheduled_task: "sqlite_run db m \<Longrightarrow> scheduled_task_clean scheduled_task_row \<Longrightarrow> Sqlite_UpsertScheduledTask scheduled_task_row db = (answer, db') \<Longrightarrow>
    sqlite_run db' (UpsertScheduledTask scheduled_task_row m)"
| backup_job: "sqlite_run db m \<Longrightarrow> backup_job_clean backup_job_row \<Longrightarrow> Sqlite_UpsertBackupJob backup_job_row db = (answer, db') \<Longrightarrow>
    sqlite_run db' (UpsertBackupJob backup_job_row m)"
| restore_request: "sqlite_run db m \<Longrightarrow> restore_request_clean restore_request_row \<Longrightarrow> Sqlite_UpsertRestoreRequest restore_request_row db = (answer, db') \<Longrightarrow>
    sqlite_run db' (UpsertRestoreRequest restore_request_row m)"
| sync_task: "sqlite_run db m \<Longrightarrow> sync_task_clean sync_task_row \<Longrightarrow> Sqlite_UpsertTask sync_task_row db = (answer, db') \<Longrightarrow>
    sqlite_run db' (UpsertTask sync_task_row m)"
| stored_object: "sqlite_run db m \<Longrightarrow> stored_object_clean stored_object_row \<Longrightarrow> Sqlite_UpsertStoredObject stored_object_row db = (answer, db') \<Longrightarrow>
    sqlite_run db' (UpsertStoredObject stored_object_row m)"
| backup_record: "sqlite_run db m \<Longrightarrow> backup_record_clean backup_record_row \<Longrightarrow> Sqlite_UpsertBackupRecord backup_record_row db = (answer, db') \<Longrightarrow>
    sqlite_run db' (UpsertBackupRecord backup_record_row m)"
| entry: "sqlite_run db m \<Longrightarrow> entry_ok_to_store e \<Longrightarrow> Sqlite_UpsertSharedLibraryEntry e db = (Inr (), db') \<Longrightarrow>
    sqlite_run db' (UpsertSharedLibraryEntry (stored_entry e) m)"
| entry_refused: "sqlite_run db m \<Longrightarrow> entry_ok_to_store e \<Longrightarrow> Sqlite_UpsertSharedLibraryEntry e db = (Inl x, db') \<Longrightarrow>
    sqlite_run db' m"
| file_written: "sqlite_run db m \<Longrightarrow> file_clean f \<Longrightarrow> file_file_id f \<noteq> [] \<Longrightarrow> Sqlite_UpsertFile f db = (Inr (), db') \<Longrightarrow>
    sqlite_run db' (replace_path f m)"
| file_refused: "sqlite_run db m \<Longrightarrow> file_clean f \<Longrightarrow> file_file_id f \<noteq> [] \<Longrightarrow> Sqlite_UpsertFile f db = (Inl x, db') \<Longrightarrow>
    sqlite_run db' m"
| audit: "sqlite_run db m \<Longrightarrow> event_clean ev \<Longrightarrow> Sqlite_AppendAuditEvent ev db = (Inr (), db') \<Longrightarrow>
    sqlite_run db' (AppendAuditEvent ev m)"
| audit_refused: "sqlite_run db m \<Longrightarrow> event_clean ev \<Longrightarrow> Sqlite_AppendAuditEvent ev db = (Inl x, db') \<Longrightarrow>
    sqlite_run db' m"

lemma sql_insert_effect:
  assumes "sql_insert name binds conflict db = (answer, db')"
  shows "db' = db \<or> (\<exists>t rows. db name = Some t \<and> db' = put_rows name t rows db)"
  using assms
  by (auto simp: sql_insert_def insert_new_def Let_def split: option.splits if_splits)

lemma insert_relations:
  assumes "sql_insert name binds conflict db = (answer, db')" and "relations_ok db"
    and "name \<notin> {''shared_library_recipients'', ''chunk_records'', ''file_records''}"
  shows "relations_ok db'"
  using sql_insert_effect [OF assms(1)]
proof
  assume "\<exists>t rows. db name = Some t \<and> db' = put_rows name t rows db"
  then obtain t rows where t: "db name = Some t" "db' = put_rows name t rows db" by blast
  then have "refs_ok db'" using assms(2) by (simp add: relations_ok_def refs_ok_put)
  then show ?thesis
    by (intro relations_ok_frame [OF assms(2) _ assms(3)]) (simp_all add: t(2))
qed (use assms(2) in simp)

lemma transaction_refused: "transaction body db = (Inl x, db') \<Longrightarrow> db' = db"
  by (auto simp: transaction_def split: prod.splits sum.splits)

text \<open>A write of a table with one key: it succeeds, keeps the invariant and commutes.\<close>

lemma node_simulates:
  assumes "sqlite_inv db" and "node_clean r" and "Sqlite_UpsertNode r db = (answer, db')"
  shows "answer = Inr () \<and> sqlite_inv db' \<and> store_of db' = UpsertNode r (store_of db)"
proof -
  have "relations_ok db'"
    using assms(1) by (intro insert_relations [OF assms(3) [unfolded Sqlite_UpsertNode_def]]) (simp_all add: sqlite_inv_def)
  then show ?thesis
    using node_refines [of db r] assms by (auto simp: sqlite_inv_def)
qed

lemma backup_policy_simulates:
  assumes "sqlite_inv db" and "backup_policy_clean r" and "Sqlite_UpsertBackupPolicy r db = (answer, db')"
  shows "answer = Inr () \<and> sqlite_inv db' \<and> store_of db' = UpsertBackupPolicy r (store_of db)"
proof -
  have "relations_ok db'"
    using assms(1) by (intro insert_relations [OF assms(3) [unfolded Sqlite_UpsertBackupPolicy_def]]) (simp_all add: sqlite_inv_def)
  then show ?thesis
    using backup_policy_refines [of db r] assms by (auto simp: sqlite_inv_def)
qed

lemma transfer_policy_simulates:
  assumes "sqlite_inv db" and "transfer_policy_clean r" and "Sqlite_UpsertTransferPolicy r db = (answer, db')"
  shows "answer = Inr () \<and> sqlite_inv db' \<and> store_of db' = UpsertTransferPolicy r (store_of db)"
proof -
  have "relations_ok db'"
    using assms(1) by (intro insert_relations [OF assms(3) [unfolded Sqlite_UpsertTransferPolicy_def]]) (simp_all add: sqlite_inv_def)
  then show ?thesis
    using transfer_policy_refines [of db r] assms by (auto simp: sqlite_inv_def)
qed

lemma scheduled_task_simulates:
  assumes "sqlite_inv db" and "scheduled_task_clean r" and "Sqlite_UpsertScheduledTask r db = (answer, db')"
  shows "answer = Inr () \<and> sqlite_inv db' \<and> store_of db' = UpsertScheduledTask r (store_of db)"
proof -
  have "relations_ok db'"
    using assms(1) by (intro insert_relations [OF assms(3) [unfolded Sqlite_UpsertScheduledTask_def]]) (simp_all add: sqlite_inv_def)
  then show ?thesis
    using scheduled_task_refines [of db r] assms by (auto simp: sqlite_inv_def)
qed

lemma backup_job_simulates:
  assumes "sqlite_inv db" and "backup_job_clean r" and "Sqlite_UpsertBackupJob r db = (answer, db')"
  shows "answer = Inr () \<and> sqlite_inv db' \<and> store_of db' = UpsertBackupJob r (store_of db)"
proof -
  have "relations_ok db'"
    using assms(1) by (intro insert_relations [OF assms(3) [unfolded Sqlite_UpsertBackupJob_def]]) (simp_all add: sqlite_inv_def)
  then show ?thesis
    using backup_job_refines [of db r] assms by (auto simp: sqlite_inv_def)
qed

lemma restore_request_simulates:
  assumes "sqlite_inv db" and "restore_request_clean r" and "Sqlite_UpsertRestoreRequest r db = (answer, db')"
  shows "answer = Inr () \<and> sqlite_inv db' \<and> store_of db' = UpsertRestoreRequest r (store_of db)"
proof -
  have "relations_ok db'"
    using assms(1) by (intro insert_relations [OF assms(3) [unfolded Sqlite_UpsertRestoreRequest_def]]) (simp_all add: sqlite_inv_def)
  then show ?thesis
    using restore_request_refines [of db r] assms by (auto simp: sqlite_inv_def)
qed

lemma sync_task_simulates:
  assumes "sqlite_inv db" and "sync_task_clean r" and "Sqlite_UpsertTask r db = (answer, db')"
  shows "answer = Inr () \<and> sqlite_inv db' \<and> store_of db' = UpsertTask r (store_of db)"
proof -
  have "relations_ok db'"
    using assms(1) by (intro insert_relations [OF assms(3) [unfolded Sqlite_UpsertTask_def]]) (simp_all add: sqlite_inv_def)
  then show ?thesis
    using sync_task_refines [of db r] assms by (auto simp: sqlite_inv_def)
qed

lemma stored_object_simulates:
  assumes "sqlite_inv db" and "stored_object_clean r" and "Sqlite_UpsertStoredObject r db = (answer, db')"
  shows "answer = Inr () \<and> sqlite_inv db' \<and> store_of db' = UpsertStoredObject r (store_of db)"
proof -
  have "relations_ok db'"
    using assms(1) by (intro insert_relations [OF assms(3) [unfolded Sqlite_UpsertStoredObject_def]]) (simp_all add: sqlite_inv_def)
  then show ?thesis
    using stored_object_refines [of db r] assms by (auto simp: sqlite_inv_def)
qed

lemma backup_record_simulates:
  assumes "sqlite_inv db" and "backup_record_clean r" and "Sqlite_UpsertBackupRecord r db = (answer, db')"
  shows "answer = Inr () \<and> sqlite_inv db' \<and> store_of db' = UpsertBackupRecord r (store_of db)"
proof -
  have "relations_ok db'"
    using assms(1) by (intro insert_relations [OF assms(3) [unfolded Sqlite_UpsertBackupRecord_def]]) (simp_all add: sqlite_inv_def)
  then show ?thesis
    using backup_record_refines [of db r] assms by (auto simp: sqlite_inv_def)
qed

definition ids_given :: "MetadataStore \<Rightarrow> bool" where
  "ids_given m \<longleftrightarrow> (\<forall>x \<in> set (db_files m). file_file_id x \<noteq> [])"

lemma ids_given_writes:
  "ids_given m \<Longrightarrow> ids_given (UpsertNode r0 m)"
  "ids_given m \<Longrightarrow> ids_given (UpsertBackupPolicy r1 m)"
  "ids_given m \<Longrightarrow> ids_given (UpsertTransferPolicy r2 m)"
  "ids_given m \<Longrightarrow> ids_given (UpsertScheduledTask r3 m)"
  "ids_given m \<Longrightarrow> ids_given (UpsertBackupJob r4 m)"
  "ids_given m \<Longrightarrow> ids_given (UpsertRestoreRequest r5 m)"
  "ids_given m \<Longrightarrow> ids_given (UpsertTask r6 m)"
  "ids_given m \<Longrightarrow> ids_given (UpsertStoredObject r7 m)"
  "ids_given m \<Longrightarrow> ids_given (UpsertBackupRecord r8 m)"
  "ids_given m \<Longrightarrow> ids_given (UpsertSharedLibraryEntry e m)"
  "ids_given m \<Longrightarrow> ids_given (AppendAuditEvent ev m)"
  "ids_given MetadataStore_init"
  by (simp_all add: ids_given_def store_writes MetadataStore_init_def)

lemma ids_given_replace: "ids_given m \<Longrightarrow> file_file_id f \<noteq> [] \<Longrightarrow> ids_given (replace_path f m)"
  using set_upsert_by_subset by (fastforce simp: ids_given_def replace_path_def UpsertFile_def)

lemma file_simulates:
  assumes "sqlite_inv db" and "ids_given (store_of db)" and "file_clean f" and "Sqlite_UpsertFile f db = (answer, db')"
  shows "case answer of Inr _ \<Rightarrow> sqlite_inv db' \<and> store_of db' = replace_path f (store_of db) | Inl _ \<Rightarrow> db' = db"
proof (cases answer)
  case (Inl x)
  then show ?thesis using assms(4) unfolding Sqlite_UpsertFile_def by (auto dest: transaction_refused)
next
  case (Inr u)
  then show ?thesis
    using file_refines [OF assms(1,3)] assms(2,4)
    by (auto simp: replace_path_def ids_given_def ListFiles_def split: if_splits)
qed

lemma entry_simulates:
  assumes "sqlite_inv db" and "entry_ok_to_store e" and "Sqlite_UpsertSharedLibraryEntry e db = (answer, db')"
  shows "case answer of Inr _ \<Rightarrow> sqlite_inv db' \<and> store_of db' = UpsertSharedLibraryEntry (stored_entry e) (store_of db)
    | Inl _ \<Rightarrow> db' = db"
  using shared_entry_refines [OF assms(1,2)] assms(3) by (auto split: if_splits)

lemma audit_simulates:
  assumes "sqlite_inv db" and "event_clean e" and "Sqlite_AppendAuditEvent e db = (answer, db')"
  shows "case answer of Inr _ \<Rightarrow> sqlite_inv db' \<and> store_of db' = AppendAuditEvent e (store_of db) | Inl _ \<Rightarrow> db' = db"
  using audit_refines [OF assms(1,2)] assms(3) by (auto split: if_splits)

lemma sqlite_run_simulates:
  "sqlite_run db m \<Longrightarrow> sqlite_inv db \<and> store_of db = m \<and> ids_given m"
proof (induction rule: sqlite_run.induct)
  case (opened answer db)
  then have "db = map_of kSchema" by (simp add: opened_empty)
  then show ?case by (simp add: empty_inv empty_store ids_given_writes)
next
  case (entry db m e db')
  then show ?case using entry_simulates [of db e "Inr ()" db'] by (simp add: ids_given_writes)
next
  case (entry_refused db m e x db')
  then show ?case using entry_simulates [of db e "Inl x" db'] by simp
next
  case (file_written db m f db')
  then show ?case using file_simulates [of db f "Inr ()" db'] by (simp add: ids_given_replace)
next
  case (file_refused db m f x db')
  then show ?case using file_simulates [of db f "Inl x" db'] by simp
next
  case (audit db m ev db')
  then show ?case using audit_simulates [of db ev "Inr ()" db'] by (simp add: ids_given_writes)
next
  case (audit_refused db m ev x db')
  then show ?case using audit_simulates [of db ev "Inl x" db'] by simp
next
  case (node db m r answer db')
  then show ?case using node_simulates [of db r answer db'] by (simp add: ids_given_writes)
next
  case (backup_policy db m r answer db')
  then show ?case using backup_policy_simulates [of db r answer db'] by (simp add: ids_given_writes)
next
  case (transfer_policy db m r answer db')
  then show ?case using transfer_policy_simulates [of db r answer db'] by (simp add: ids_given_writes)
next
  case (scheduled_task db m r answer db')
  then show ?case using scheduled_task_simulates [of db r answer db'] by (simp add: ids_given_writes)
next
  case (backup_job db m r answer db')
  then show ?case using backup_job_simulates [of db r answer db'] by (simp add: ids_given_writes)
next
  case (restore_request db m r answer db')
  then show ?case using restore_request_simulates [of db r answer db'] by (simp add: ids_given_writes)
next
  case (sync_task db m r answer db')
  then show ?case using sync_task_simulates [of db r answer db'] by (simp add: ids_given_writes)
next
  case (stored_object db m r answer db')
  then show ?case using stored_object_simulates [of db r answer db'] by (simp add: ids_given_writes)
next
  case (backup_record db m r answer db')
  then show ?case using backup_record_simulates [of db r answer db'] by (simp add: ids_given_writes)
qed

section \<open>Reading\<close>

lemma mset_map_order_by: "mset (map f (order_by cols rows)) = mset (map f rows)"
  by simp

lemma keyed_reads:
  assumes "sqlite_inv db" and "no_nul k"
  shows "Sqlite_GetNode db k = GetNode (store_of db) k"
    and "Sqlite_GetBackupPolicy db k = GetBackupPolicy (store_of db) k"
    and "Sqlite_GetTransferPolicy db k = GetTransferPolicy (store_of db) k"
    and "Sqlite_GetScheduledTaskRecord db k = GetScheduledTaskRecord (store_of db) k"
    and "Sqlite_GetBackupJob db k = GetBackupJob (store_of db) k"
    and "Sqlite_GetRestoreRequest db k = GetRestoreRequest (store_of db) k"
    and "Sqlite_GetTask db k = GetTask (store_of db) k"
    and "Sqlite_GetStoredObject db k = GetStoredObject (store_of db) k"
proof -
  have keys: "keys_ok db" using assms(1) by (simp add: sqlite_inv_def)
  have "keyed_ok ''node_records'' ''node_id'' db" by (rule keys_okD [OF keys]) (simp add: keyed_tables_def)
  then show "Sqlite_GetNode db k = GetNode (store_of db) k"
    using node_sql.lookup [OF _ assms(2)] by (simp add: Sqlite_GetNode_def GetNode_def store_of_def)
  have "keyed_ok ''backup_policies'' ''policy_id'' db" by (rule keys_okD [OF keys]) (simp add: keyed_tables_def)
  then show "Sqlite_GetBackupPolicy db k = GetBackupPolicy (store_of db) k"
    using backup_policy_sql.lookup [OF _ assms(2)] by (simp add: Sqlite_GetBackupPolicy_def GetBackupPolicy_def store_of_def)
  have "keyed_ok ''transfer_policies'' ''policy_id'' db" by (rule keys_okD [OF keys]) (simp add: keyed_tables_def)
  then show "Sqlite_GetTransferPolicy db k = GetTransferPolicy (store_of db) k"
    using transfer_policy_sql.lookup [OF _ assms(2)] by (simp add: Sqlite_GetTransferPolicy_def GetTransferPolicy_def store_of_def)
  have "keyed_ok ''scheduled_tasks'' ''task_id'' db" by (rule keys_okD [OF keys]) (simp add: keyed_tables_def)
  then show "Sqlite_GetScheduledTaskRecord db k = GetScheduledTaskRecord (store_of db) k"
    using scheduled_task_sql.lookup [OF _ assms(2)] by (simp add: Sqlite_GetScheduledTaskRecord_def GetScheduledTaskRecord_def store_of_def)
  have "keyed_ok ''backup_jobs'' ''job_id'' db" by (rule keys_okD [OF keys]) (simp add: keyed_tables_def)
  then show "Sqlite_GetBackupJob db k = GetBackupJob (store_of db) k"
    using backup_job_sql.lookup [OF _ assms(2)] by (simp add: Sqlite_GetBackupJob_def GetBackupJob_def store_of_def)
  have "keyed_ok ''restore_requests'' ''request_id'' db" by (rule keys_okD [OF keys]) (simp add: keyed_tables_def)
  then show "Sqlite_GetRestoreRequest db k = GetRestoreRequest (store_of db) k"
    using restore_request_sql.lookup [OF _ assms(2)] by (simp add: Sqlite_GetRestoreRequest_def GetRestoreRequest_def store_of_def)
  have "keyed_ok ''sync_tasks'' ''task_id'' db" by (rule keys_okD [OF keys]) (simp add: keyed_tables_def)
  then show "Sqlite_GetTask db k = GetTask (store_of db) k"
    using sync_task_sql.lookup [OF _ assms(2)] by (simp add: Sqlite_GetTask_def GetTask_def store_of_def)
  have "keyed_ok ''stored_objects'' ''file_id'' db" by (rule keys_okD [OF keys]) (simp add: keyed_tables_def)
  then show "Sqlite_GetStoredObject db k = GetStoredObject (store_of db) k"
    using stored_object_sql.lookup [OF _ assms(2)] by (simp add: Sqlite_GetStoredObject_def GetStoredObject_def store_of_def)
qed

lemma keyed_listings:
  shows "mset (Sqlite_ListNodes db) = mset (ListNodes (store_of db))"
    and "mset (Sqlite_ListBackupPolicies db) = mset (ListBackupPolicies (store_of db))"
    and "mset (Sqlite_ListTransferPolicies db) = mset (ListTransferPolicies (store_of db))"
    and "mset (Sqlite_ListScheduledTasks db) = mset (ListScheduledTasks (store_of db))"
    and "mset (Sqlite_ListBackupJobs db) = mset (ListBackupJobs (store_of db))"
    and "mset (Sqlite_ListRestoreRequests db) = mset (ListRestoreRequests (store_of db))"
    and "mset (Sqlite_ListStoredObjects db) = mset (ListStoredObjects (store_of db))"
    and "mset (Sqlite_ListBackupRecords db) = mset (ListBackupRecords (store_of db))"
    and "mset (Sqlite_ListDeviceFiles db) = mset (ListDeviceFiles (store_of db))"
    and "mset (Sqlite_ListFiles db) = mset (ListFiles (store_of db))"
    and "mset (Sqlite_ListAuditEvents db) = mset (ListAuditEvents (store_of db))"
  by (simp_all add: store_reads store_of_def Sqlite_ListNodes_def Sqlite_ListBackupPolicies_def Sqlite_ListTransferPolicies_def Sqlite_ListScheduledTasks_def Sqlite_ListBackupJobs_def Sqlite_ListRestoreRequests_def Sqlite_ListStoredObjects_def Sqlite_ListBackupRecords_def Sqlite_ListDeviceFiles_def Sqlite_ListFiles_def Sqlite_ListAuditEvents_def)

lemma first_row_find:
  assumes "\<And>r. r \<in> set rows \<Longrightarrow> P r = Q (f r)"
  shows "map_option f (first_row (filter P rows)) = find Q (map f rows)"
  using assms by (induction rows) (auto simp: first_row_def)

lemma entry_read:
  assumes "sqlite_inv db" and "no_nul k"
  shows "Sqlite_GetSharedLibraryEntry db k = GetSharedLibraryEntry (store_of db) k"
proof -
  let ?rows = "sql_rows db ''shared_library_entries''"
  have "keys_ok db" using assms(1) by (simp add: sqlite_inv_def)
  then have ok: "keyed_ok ''shared_library_entries'' ''entry_id'' db"
    by (rule keys_okD) (simp add: keyed_tables_def)
  have key: "(r ''entry_id'' = SqlText k) = (column_text (r ''entry_id'') = k)" if "r \<in> set ?rows" for r
    using keyed_text [OF ok that] by auto
  have "map_option (entry_at_row db) (first_row (filter (\<lambda>r. r ''entry_id'' = SqlText k) ?rows)) =
      find (\<lambda>e. entry_entry_id e = k) (map (entry_at_row db) ?rows)"
    by (rule first_row_find) (simp add: key entry_at_row_completed entry_sql.decode_key)
  moreover have "Sqlite_GetSharedLibraryEntry db k =
      map_option (entry_at_row db) (first_row (filter (\<lambda>r. r ''entry_id'' = SqlText k) ?rows))"
  proof (cases "first_row (filter (\<lambda>r. r ''entry_id'' = SqlText k) ?rows)")
    case (Some r)
    then have "r ''entry_id'' = SqlText k"
      by (auto simp: first_row_def split: list.splits dest: filter_eq_ConsD)
    then show ?thesis
      using Some assms(2)
      by (simp add: Sqlite_GetSharedLibraryEntry_def sql_where_def sql_eq_text bind_text_def entry_at_row_def Let_def)
  qed (use assms(2) in \<open>simp add: Sqlite_GetSharedLibraryEntry_def sql_where_def sql_eq_text bind_text_def\<close>)
  ultimately show ?thesis by (simp add: GetSharedLibraryEntry_def store_of_def)
qed

lemma file_reads:
  assumes "sqlite_inv db" and "no_nul k"
  shows "Sqlite_GetFile db k = GetFile (store_of db) k"
    and "Sqlite_GetFileByPath db k = GetFileByPath (store_of db) k"
proof -
  let ?rows = "sql_rows db ''file_records''"
  have files: "files_ok db" using assms(1) by (simp add: sqlite_inv_def relations_ok_def)
  have key: "(r ''file_id'' = SqlText k) = (column_text (r ''file_id'') = k)"
      "(r ''absolute_path'' = SqlText k) = (column_text (r ''absolute_path'') = k)" if "r \<in> set ?rows" for r
    using files_okD(1,2) [OF files, of r] that assms(2) by auto
  have "map_option (\<lambda>row. with_chunks db (file_of_row row)) (first_row (filter (\<lambda>r. r ''file_id'' = SqlText k) ?rows)) =
      find (\<lambda>f. file_file_id f = k) (map (\<lambda>row. with_chunks db (file_of_row row)) ?rows)"
    by (rule first_row_find) (simp add: key)
  then show "Sqlite_GetFile db k = GetFile (store_of db) k"
    using assms(2) by (simp add: Sqlite_GetFile_def GetFile_def store_of_def sql_where_def sql_eq_text bind_text_def)
  have "map_option (\<lambda>row. with_chunks db (file_of_row row)) (first_row (filter (\<lambda>r. r ''absolute_path'' = SqlText k) ?rows)) =
      find (\<lambda>f. file_absolute_path f = k) (map (\<lambda>row. with_chunks db (file_of_row row)) ?rows)"
    by (rule first_row_find) (simp add: key)
  then show "Sqlite_GetFileByPath db k = GetFileByPath (store_of db) k"
    using assms(2) by (simp add: Sqlite_GetFileByPath_def GetFileByPath_def store_of_def sql_where_def sql_eq_text bind_text_def)
qed

lemma entries_read:
  assumes "sqlite_inv db"
  shows "mset (Sqlite_ListSharedLibraryEntries db) = mset (ListSharedLibraryEntries (store_of db))"
proof -
  let ?rows = "sql_rows db ''shared_library_entries''"
  have "keys_ok db" using assms(1) by (simp add: sqlite_inv_def)
  then have ok: "keyed_ok ''shared_library_entries'' ''entry_id'' db"
    by (rule keys_okD) (simp add: keyed_tables_def)
  have "Sqlite_GetSharedLibraryEntry db (column_text (r ''entry_id'')) = Some (entry_at_row db r)" if r: "r \<in> set ?rows" for r
  proof -
    obtain k where k: "no_nul k" "r ''entry_id'' = SqlText k" using keyed_text [OF ok r] by blast
    have "distinct (map entry_entry_id (map (entry_at_row db) ?rows))"
      using entry_sql.distinct_keys [OF ok] by (simp add: completed_rows comp_def)
    then have "find (\<lambda>e. entry_entry_id e = k) (map (entry_at_row db) ?rows) = Some (entry_at_row db r)"
      using r k by (simp add: find_key_unique entry_at_row_completed entry_sql.decode_key del: map_map)
    then show ?thesis
      using entry_read [OF assms k(1)] k by (simp add: GetSharedLibraryEntry_def store_of_def)
  qed
  then have "List.map_filter (\<lambda>row. Sqlite_GetSharedLibraryEntry db (column_text (row ''entry_id''))) rows =
      map (entry_at_row db) rows" if "set rows \<subseteq> set ?rows" for rows
    using that by (induction rows) (auto simp: map_filter_simps)
  moreover have "set (order_by [''created_at_epoch''] ?rows) \<subseteq> set ?rows"
    using set_mset_mset [of "order_by [''created_at_epoch''] ?rows"] set_mset_mset [of ?rows] by simp
  ultimately have "Sqlite_ListSharedLibraryEntries db = map (entry_at_row db) (order_by [''created_at_epoch''] ?rows)"
    by (simp add: Sqlite_ListSharedLibraryEntries_def)
  then show ?thesis by (simp add: ListSharedLibraryEntries_def store_of_def)
qed



text \<open>
  C22: The database refuses a write exactly when a constraint of its schema forbids it, and a refused write
  leaves no trace: a shared entry is refused when a node occurs twice among its recipients, a file when two
  of its chunks have one index, an audit event when its id is taken. In each case the operation raises and
  the database is the one before, although the entry or file row was already written in the transaction.
\<close>

theorem sqlite_refused_writes:
  assumes "sqlite_run db m" and "entry_ok_to_store e" and "file_clean f" and "event_clean ev"
  shows "(if distinct (map recip_node_id (stored_recipients e))
      then fst (Sqlite_UpsertSharedLibraryEntry e db) = Inr ()
      else (\<exists>x. Sqlite_UpsertSharedLibraryEntry e db = (Inl x, db))) \<and>
    (if distinct (map chunk_index (file_chunks f)) then fst (Sqlite_UpsertFile f db) = Inr ()
      else (\<exists>x. Sqlite_UpsertFile f db = (Inl x, db))) \<and>
    (if event_event_id ev \<in> event_event_id ` set (ListAuditEvents m)
      then (\<exists>x. Sqlite_AppendAuditEvent ev db = (Inl x, db))
      else fst (Sqlite_AppendAuditEvent ev db) = Inr ())"
proof -
  have inv: "sqlite_inv db" and m: "m = store_of db" "ids_given (store_of db)"
    using sqlite_run_simulates [OF assms(1)] by auto
  have "file_file_id x \<noteq> []" if "x \<in> set (ListFiles (store_of db))" for x
    using that m(2) by (simp add: ids_given_def ListFiles_def)
  then show ?thesis
    using shared_entry_refines [OF inv assms(2)] file_refines [OF inv assms(3)] audit_refines [OF inv assms(4)]
    by (auto simp: m(1) split: if_splits)
qed

theorem sqlite_refused_writes_witness:
  "let r = SharedLibraryRecipient_init\<lparr>recip_node_id := ''n''\<rparr>;
       e = SharedLibraryEntry_init\<lparr>entry_entry_id := ''e'', entry_recipients := [r, r]\<rparr>
   in \<exists>x. Sqlite_UpsertSharedLibraryEntry e (map_of kSchema) = (Inl x, map_of kSchema)"
proof -
  let ?r = "SharedLibraryRecipient_init\<lparr>recip_node_id := ''n''\<rparr>"
  let ?e = "SharedLibraryEntry_init\<lparr>entry_entry_id := ''e'', entry_recipients := [?r, ?r]\<rparr>"
  have "sqlite_run (map_of kSchema) MetadataStore_init" by (rule sqlite_run.opened [OF opened_empty])
  moreover have "entry_ok_to_store ?e"
    by (simp add: entry_ok_to_store_def entry_clean_def stored_recipients_def recipient_clean_def no_nul_def
        SharedLibraryEntry_init_def SharedLibraryRecipient_init_def)
  moreover have "file_clean FileRecord_init" by (simp add: file_clean_def FileRecord_init_def no_nul_def)
  moreover have "event_clean AuditEvent_init" by (simp add: event_clean_def AuditEvent_init_def no_nul_def)
  ultimately show ?thesis
    using sqlite_refused_writes [of "map_of kSchema" MetadataStore_init ?e FileRecord_init AuditEvent_init]
    by (simp add: Let_def stored_recipients_def)
qed

text \<open>
  C23: The path identifies a file in the database. After a file is written, a lookup by its path and by its
  id return it with its chunks in order, no other file is listed at that path, and files at other paths
  with other ids are untouched. (The in-memory store keeps a second row at the path.)
\<close>

theorem sqlite_one_file_per_path:
  assumes "sqlite_run db m" and "file_clean f" and "file_file_id f \<noteq> []"
    and "Sqlite_UpsertFile f db = (Inr (), db')"
  shows "Sqlite_GetFileByPath db' (file_absolute_path f) = Some (stored_file f) \<and>
    Sqlite_GetFile db' (file_file_id f) = Some (stored_file f) \<and>
    (\<forall>x \<in> set (Sqlite_ListFiles db'). file_absolute_path x = file_absolute_path f \<longrightarrow> x = stored_file f) \<and>
    (\<forall>x \<in> set (Sqlite_ListFiles db). file_absolute_path x \<noteq> file_absolute_path f \<and> file_file_id x \<noteq> file_file_id f \<longrightarrow>
      x \<in> set (Sqlite_ListFiles db'))"
proof -
  let ?m = "replace_path f m" and ?p = "file_absolute_path f" and ?k = "file_file_id f"
  let ?ys = "filter (\<lambda>x. file_absolute_path x = ?p \<longrightarrow> file_file_id x = ?k) (db_files m)"
  have run': "sqlite_run db' ?m" by (rule sqlite_run.file_written [OF assms])
  have inv: "sqlite_inv db" "sqlite_inv db'" and m: "m = store_of db" "?m = store_of db'"
    using sqlite_run_simulates [OF assms(1)] sqlite_run_simulates [OF run'] by auto
  have clean: "no_nul ?p" "no_nul ?k" using assms(2) by (simp_all add: file_clean_def)
  have ids: "distinct (map file_file_id (db_files m))"
    using distinct_ids [of db] inv(1) by (simp add: m(1) db_files_store_of sqlite_inv_def relations_ok_def comp_def)
  have eq: "upsert_by (\<lambda>y. file_file_id y = ?k \<or> file_absolute_path y = ?p) (stored_file f) ?ys =
      upsert_by (\<lambda>y. file_file_id y = file_file_id (stored_file f)) (stored_file f) ?ys"
    by (rule upsert_by_cong) auto
  have files: "set (db_files ?m) = insert (stored_file f) {x \<in> set ?ys. file_file_id x \<noteq> ?k}"
    using set_upsert_by_key [of file_file_id ?ys "stored_file f"] ids
    by (simp add: replace_path_def UpsertFile_def eq distinct_map_filter)
  have listed: "set (Sqlite_ListFiles db) = set (db_files m)"
    using arg_cong [OF keyed_listings(10) [of db], of set_mset] by (simp add: m(1) ListFiles_def)
  have listed': "set (Sqlite_ListFiles db') = set (db_files ?m)"
    using arg_cong [OF keyed_listings(10) [of db'], of set_mset] by (simp add: ListFiles_def flip: m(2))
  have "find (\<lambda>y. file_file_id y = ?k) (db_files ?m) = Some (stored_file f)"
    using find_upsert_by_key [of file_file_id ?k "stored_file f" ?ys]
    by (simp add: replace_path_def UpsertFile_def eq)
  moreover have "find (\<lambda>y. file_absolute_path y = ?p) (db_files ?m) = Some (stored_file f)"
  proof -
    have "stored_file f \<in> set (db_files ?m)" by (simp add: files)
    then have "find (\<lambda>y. file_absolute_path y = ?p) (db_files ?m) \<noteq> None"
      unfolding find_None_iff by (metis stored_file_simps(2))
    then obtain x where x: "find (\<lambda>y. file_absolute_path y = ?p) (db_files ?m) = Some x" by blast
    then have "x \<in> set (db_files ?m)" "file_absolute_path x = ?p"
      using find_key_eq_Some [of file_absolute_path ?p] by blast+
    then have "x = stored_file f" unfolding files by auto
    then show ?thesis using x by simp
  qed
  ultimately show ?thesis
    using file_reads [OF inv(2) clean(1)] file_reads [OF inv(2) clean(2)] files
    by (auto simp: listed listed' GetFile_def GetFileByPath_def m(2) [symmetric])
qed

theorem sqlite_one_file_per_path_witness:
  "let f = FileRecord_init\<lparr>file_file_id := ''f'', file_absolute_path := ''p''\<rparr>;
       db = snd (Sqlite_UpsertFile f (map_of kSchema))
   in Sqlite_GetFileByPath db ''p'' = Some f"
proof -
  let ?f = "FileRecord_init\<lparr>file_file_id := ''f'', file_absolute_path := ''p''\<rparr>"
  have run: "sqlite_run (map_of kSchema) MetadataStore_init" by (rule sqlite_run.opened [OF opened_empty])
  have clean: "file_clean ?f" by (simp add: file_clean_def FileRecord_init_def no_nul_def)
  have id: "file_file_id ?f \<noteq> []" by simp
  obtain db' where "Sqlite_UpsertFile ?f (map_of kSchema) = (Inr (), db')"
    using file_refines [OF empty_inv clean]
    by (auto simp: empty_store MetadataStore_init_def ListFiles_def FileRecord_init_def)
  with sqlite_one_file_per_path [OF run clean id this] show ?thesis
    by (simp add: Let_def stored_file_def FileRecord_init_def)
qed

end
