(* ===== verification/Control_Cli.thy ===== *)
theory Control_Cli
  imports Program_Host
begin

text \<open>
  \<^verbatim>\<open>apps/control_node/main.cpp\<close>: every subcommand of the control node program as a function of its arguments
  and the machine, and \<open>main\<close>. The argument list a subcommand receives is already cut to \<open>effective_argc\<close>.
  The system calls of \<open>Serve\<close> are a parameter: what opening the listening socket gives.
\<close>

section \<open>Usage\<close>

definition control_usage :: string where
  "control_usage = concat (map (\<lambda>l. l @ [newline])
    [''usage:'',
     ''  control_node serve <db_path> [host] [port] [offline_after_seconds]'',
     ''  control_node submit-backup <host> <port> <job_id> <node_id> <source_path>'',
     ''  control_node submit-restore <host> <port> <request_id> <file_id> <source_node_id> <target_node_id> <destination_path>'',
     ''  control_node submit-share-receive <host> <port> <entry_id> <target_node_id>'',
     ''  control_node retry-task-remote <host> <port> <task_id> [detail]'',
     ''  control_node retry-restore-remote <host> <port> <request_id>'',
     ''  control_node retry-share-remote <host> <port> <entry_id> <target_node_id>'',
     ''  control_node summary <db_path> [offline_after_seconds] [--json]'',
     ''  control_node devices <db_path> <all|online> [offline_after_seconds] [--json]'',
     ''  control_node tasks <db_path> <all|queued|failed> [--json]'',
     ''  control_node task-retry <db_path> <task_id> [detail]'',
     ''  control_node backups <db_path> [node_id] [--json]'',
     ''  control_node shared <db_path> <node_id> <all|active|pending> [--json]'',
     ''  control_node share-retry <db_path> <entry_id> <target_node_id> <receive_root>'',
     ''  control_node restores <db_path> [--json]'',
     ''  control_node restore-retry <db_path> <request_id>'',
     ''  control_node audit <db_path> [category] [--json]''])"

definition WantsJson :: "string list \<Rightarrow> bool" where
  "WantsJson argv \<longleftrightarrow> length argv \<ge> 2 \<and> argv ! (length argv - 1) = ''--json''"

text \<open>The argument at a position that may be missing.\<close>

definition argument_or :: "string \<Rightarrow> string list \<Rightarrow> nat \<Rightarrow> string" where
  "argument_or fallback argv i = (if length argv \<ge> i + 1 then argv ! i else fallback)"

definition number_or :: "u64 \<Rightarrow> string list \<Rightarrow> nat \<Rightarrow> u64 result" where
  "number_or fallback argv i = (if length argv \<ge> i + 1 then stoull (argv ! i) else Inr fallback)"

section \<open>JSON text\<close>

definition quote_char :: char where "quote_char = CHR 0x22"
definition backslash :: char where "backslash = CHR 0x5C"

fun JsonEscape :: "string \<Rightarrow> string" where
  "JsonEscape [] = []"
| "JsonEscape (ch # value) =
     (if ch = backslash then [backslash, backslash]
      else if ch = quote_char then [backslash, quote_char]
      else if ch = CHR 0x0A then [backslash, CHR ''n'']
      else if ch = CHR 0x0D then [backslash, CHR ''r'']
      else if ch = CHR 0x09 then [backslash, CHR ''t'']
      else [ch]) @ JsonEscape value"

definition ToJsonString :: "string \<Rightarrow> string" where
  "ToJsonString value = [quote_char] @ JsonEscape value @ [quote_char]"

definition ToJsonBool :: "bool \<Rightarrow> string" where
  "ToJsonBool value = (if value then ''true'' else ''false'')"

definition json_member :: "string \<times> string \<Rightarrow> string" where
  "json_member m = [quote_char] @ fst m @ [quote_char] @ '':'' @ snd m"

definition json_object :: "(string \<times> string) list \<Rightarrow> string" where
  "json_object members = ''{'' @ join_with '','' (map json_member members) @ ''}''"

definition json_array :: "string list \<Rightarrow> string" where
  "json_array items = ''['' @ join_with '','' items @ '']''"

definition PrintJsonArrayHeader :: "string \<Rightarrow> string" where
  "PrintJsonArrayHeader key = ''{'' @ [quote_char] @ key @ [quote_char] @ '':[''"

definition PrintJsonArrayFooter :: string where
  "PrintJsonArrayFooter = '']}'' @ [newline]"

definition json_listing :: "string \<Rightarrow> string list \<Rightarrow> string" where
  "json_listing key items = PrintJsonArrayHeader key @ join_with '','' items @ PrintJsonArrayFooter"

definition json_word :: "u64 \<Rightarrow> string" where "json_word w = to_string_u64 w"

definition device_json :: "NodeInfo \<Rightarrow> string" where
  "device_json node = json_object
     [(''node_id'', ToJsonString (node_node_id node)), (''device_name'', ToJsonString (node_device_name node)),
      (''zt_ip'', ToJsonString (node_zt_ip node)), (''last_seen_epoch'', json_word (node_last_seen_epoch node))]"

definition task_json :: "ScheduledTaskRecord \<Rightarrow> string" where
  "task_json task = json_object
     [(''task_id'', ToJsonString (task_task_id task)),
      (''domain'', ToJsonString (JobDomainName (task_domain task))),
      (''state'', ToJsonString (JobStateName (task_state task))),
      (''related_id'', ToJsonString (task_related_id task)), (''source_node'', ToJsonString (task_source_node task)),
      (''target_node'', ToJsonString (task_target_node task)),
      (''created_at_epoch'', json_word (task_created_at_epoch task)),
      (''retry_count'', to_string (unat (task_retry_count task))), (''detail'', ToJsonString (task_detail task))]"

definition job_json :: "BackupJob \<Rightarrow> string" where
  "job_json job = json_object
     [(''job_id'', ToJsonString (job_job_id job)), (''node_id'', ToJsonString (job_node_id job)),
      (''source_path'', ToJsonString (job_source_path job)),
      (''destination_label'', ToJsonString (job_destination_label job)),
      (''created_at_epoch'', json_word (job_created_at_epoch job))]"

definition recipient_json :: "SharedLibraryRecipient \<Rightarrow> string" where
  "recipient_json recipient = json_object
     [(''node_id'', ToJsonString (recip_node_id recipient)),
      (''state'', ToJsonString (SharedRecipientStateName (recip_state recipient))),
      (''received_path'', ToJsonString (recip_received_path recipient)),
      (''error_message'', ToJsonString (recip_error_message recipient)),
      (''updated_at_epoch'', json_word (recip_updated_at_epoch recipient))]"

definition entry_json :: "SharedLibraryEntry \<Rightarrow> string" where
  "entry_json entry = json_object
     [(''entry_id'', ToJsonString (entry_entry_id entry)), (''owner_node_id'', ToJsonString (entry_owner_node_id entry)),
      (''file_id'', ToJsonString (entry_file_id entry)), (''display_name'', ToJsonString (entry_display_name entry)),
      (''note'', ToJsonString (entry_note entry)), (''created_at_epoch'', json_word (entry_created_at_epoch entry)),
      (''expires_at_epoch'', json_word (entry_expires_at_epoch entry)),
      (''expired'', ToJsonBool (entry_expired entry)), (''delivered'', ToJsonBool (entry_delivered entry)),
      (''recipients'', json_array (map recipient_json (entry_recipients entry)))]"

definition request_json :: "RestoreRequest \<Rightarrow> string" where
  "request_json request = json_object
     [(''request_id'', ToJsonString (restore_request_id request)), (''file_id'', ToJsonString (restore_file_id request)),
      (''source_node_id'', ToJsonString (restore_source_node_id request)),
      (''target_node_id'', ToJsonString (restore_target_node_id request)),
      (''destination_path'', ToJsonString (restore_destination_path request)),
      (''created_at_epoch'', json_word (restore_created_at_epoch request)),
      (''state'', ToJsonString (RestoreStateName (restore_state request))),
      (''completed_at_epoch'', json_word (restore_completed_at_epoch request)),
      (''error_message'', ToJsonString (restore_error_message request))]"

definition event_json :: "AuditEvent \<Rightarrow> string" where
  "event_json event = json_object
     [(''event_id'', ToJsonString (event_event_id event)), (''category'', ToJsonString (event_category event)),
      (''detail'', ToJsonString (event_detail event)), (''created_at_epoch'', json_word (event_created_at_epoch event))]"

section \<open>Listings\<close>

definition summary_fields :: "ControlPlaneSummary \<Rightarrow> (string \<times> nat) list" where
  "summary_fields summary =
     [(''devices'', sum_devices summary), (''online_devices'', sum_online_devices summary),
      (''peers'', sum_peers summary), (''online_peers'', sum_online_peers summary),
      (''backup_policies'', sum_backup_policies summary), (''transfer_policies'', sum_transfer_policies summary),
      (''scheduled_tasks'', sum_scheduled_tasks summary), (''queued_tasks'', sum_queued_tasks summary),
      (''failed_tasks'', sum_failed_tasks summary), (''backup_jobs'', sum_backup_jobs summary),
      (''restore_requests'', sum_restore_requests summary),
      (''running_restore_requests'', sum_running_restore_requests summary),
      (''failed_restore_requests'', sum_failed_restore_requests summary),
      (''shared_entries'', sum_shared_entries summary),
      (''active_shared_entries'', sum_active_shared_entries summary),
      (''pending_shared_deliveries'', sum_pending_shared_deliveries summary),
      (''indexed_files'', sum_indexed_files summary), (''device_files'', sum_device_files summary),
      (''stored_objects'', sum_stored_objects summary), (''backup_records'', sum_backup_records summary),
      (''audit_events'', sum_audit_events summary)]"

definition RunSummary :: "string list \<Rightarrow> bool \<Rightarrow> 'w host \<Rightarrow> outcome \<times> 'w host" where
  "RunSummary argv json_output h =
     (if length argv < 3 then (misused control_usage, h)
      else evaluated (number_or 300 argv 3) (\<lambda>offline_after. with_runtime (argv ! 2) (\<lambda>rt.
        let (summary, rt) = BuildSummary (rt_now rt) offline_after rt
        in (succeeds
             (if json_output then
                json_object (map (\<lambda>(k, n). (k, to_string n)) (summary_fields summary)) @ [newline]
              else concat (map (\<lambda>(k, n). println [k, ''='', to_string n]) (summary_fields summary))), rt))) h)"

definition RunDevices :: "string list \<Rightarrow> bool \<Rightarrow> 'w host \<Rightarrow> outcome \<times> 'w host" where
  "RunDevices argv json_output h =
     (if length argv < 4 then (misused control_usage, h)
      else evaluated (number_or 300 argv 4) (\<lambda>offline_after. with_runtime (argv ! 2) (\<lambda>rt.
        let devices = Control_ListDevices (argv ! 3 = ''online'') (rt_now rt) offline_after rt
        in (succeeds
             (if json_output then json_listing ''devices'' (map device_json devices)
              else println [''devices='', to_string (length devices)] @
                concat (map (\<lambda>node. println [''device '', node_node_id node, '' '', node_device_name node, '' '',
                  node_zt_ip node, '' '', to_string_u64 (node_last_seen_epoch node)]) devices)), rt))) h)"

definition ParseTaskState :: "string \<Rightarrow> JobState option" where
  "ParseTaskState scope =
     (if scope = ''queued'' then Some JobQueued else if scope = ''failed'' then Some JobFailed else None)"

definition RunTasks :: "string list \<Rightarrow> bool \<Rightarrow> 'w host \<Rightarrow> outcome \<times> 'w host" where
  "RunTasks argv json_output h =
     (if length argv < 4 then (misused control_usage, h)
      else with_runtime (argv ! 2) (\<lambda>rt.
        let scope = argv ! 3;
            tasks = (if scope = ''all'' then Control_ListTasks None rt
                     else Control_ListTasks (ParseTaskState scope) rt)
        in (succeeds
             (if json_output then json_listing ''tasks'' (map task_json tasks)
              else println [''tasks='', to_string (length tasks)] @ concat (map printed_task tasks)), rt)) h)"

definition RunBackups :: "string list \<Rightarrow> bool \<Rightarrow> 'w host \<Rightarrow> outcome \<times> 'w host" where
  "RunBackups argv json_output h =
     (if length argv < 3 then (misused control_usage, h)
      else with_runtime (argv ! 2) (\<lambda>rt.
        let node_id = (if length argv \<ge> 4 then Some (argv ! 3) else None);
            jobs = Control_ListBackupJobs node_id rt
        in (succeeds
             (if json_output then json_listing ''backup_jobs'' (map job_json jobs)
              else println [''backup_jobs='', to_string (length jobs)] @ concat (map printed_job jobs)), rt)) h)"

definition RunShared :: "string list \<Rightarrow> bool \<Rightarrow> 'w host \<Rightarrow> outcome \<times> 'w host" where
  "RunShared argv json_output h =
     (if length argv < 5 then (misused control_usage, h)
      else with_runtime (argv ! 2) (\<lambda>rt.
        let entries = ListSharedEntries (argv ! 3) (argv ! 4) rt
        in (succeeds
             (if json_output then json_listing ''shared_entries'' (map entry_json entries)
              else println [''shared_entries='', to_string (length entries)] @
                concat (map (\<lambda>entry. println [''shared_entry '', entry_entry_id entry, '' owner='',
                  entry_owner_node_id entry, '' expired='', printed_bool (entry_expired entry), '' delivered='',
                  printed_bool (entry_delivered entry), '' recipients='',
                  printed_recipients (entry_recipients entry)]) entries)), rt)) h)"

definition RunRestores :: "string list \<Rightarrow> bool \<Rightarrow> 'w host \<Rightarrow> outcome \<times> 'w host" where
  "RunRestores argv json_output h =
     (if length argv < 3 then (misused control_usage, h)
      else with_runtime (argv ! 2) (\<lambda>rt.
        let requests = Control_ListRestoreRequests rt
        in (succeeds
             (if json_output then json_listing ''restore_requests'' (map request_json requests)
              else println [''restore_requests='', to_string (length requests)] @
                concat (map (\<lambda>request. println [''restore_request '', restore_request_id request, '' '',
                  restore_file_id request, '' '', restore_target_node_id request, '' '',
                  restore_destination_path request, '' state='', RestoreStateName (restore_state request),
                  '' error='', restore_error_message request]) requests)), rt)) h)"

definition RunAudit :: "string list \<Rightarrow> bool \<Rightarrow> 'w host \<Rightarrow> outcome \<times> 'w host" where
  "RunAudit argv json_output h =
     (if length argv < 3 then (misused control_usage, h)
      else with_runtime (argv ! 2) (\<lambda>rt.
        let category = (if length argv \<ge> 4 then Some (argv ! 3) else None);
            events = Control_ListAuditEvents category rt
        in (succeeds
             (if json_output then json_listing ''audit_events'' (map event_json events)
              else println [''audit_events='', to_string (length events)] @
                concat (map (\<lambda>event. println [''audit '', event_category event, '' '', event_detail event]) events)),
            rt)) h)"

section \<open>Local retries\<close>

definition RunTaskRetry :: "string list \<Rightarrow> 'w host \<Rightarrow> outcome \<times> 'w host" where
  "RunTaskRetry argv h =
     (if length argv < 4 then (misused control_usage, h)
      else with_runtime (argv ! 2) (\<lambda>rt.
        let (status, rt) = Control_RetryTask (argv ! 3) (argument_or ''control plane retry requested'' argv 4) rt
        in (conclude 2 ''task retry failed'' (println [''task_retry_ok task='', argv ! 3]) status, rt)) h)"

definition RunShareRetry :: "string list \<Rightarrow> 'w host \<Rightarrow> outcome \<times> 'w host" where
  "RunShareRetry argv h =
     (if length argv < 6 then (misused control_usage, h)
      else with_runtime (argv ! 2) (\<lambda>rt.
        case RetrySharedReceive (argv ! 3) (argv ! 4) (argv ! 5) rt of
          (Inl e, rt) \<Rightarrow> (terminates e, rt)
        | (Inr status, rt) \<Rightarrow>
            (conclude 2 ''share retry failed''
               (println [''share_retry_ok entry='', argv ! 3, '' target='', argv ! 4]) status, rt)) h)"

definition RunRestoreRetry :: "FdfsApi \<Rightarrow> string list \<Rightarrow> 'w host \<Rightarrow> outcome \<times> 'w host" where
  "RunRestoreRetry api argv h =
     (if length argv < 4 then (misused control_usage, h)
      else with_runtime (argv ! 2) (\<lambda>rt.
        let (status, rt) = Control_RetryRestore api (argv ! 3) rt
        in (conclude 2 ''restore retry failed'' (println [''restore_retry_ok request='', argv ! 3]) status, rt)) h)"

section \<open>Commands sent to a control node\<close>

definition RunSubmitBackup :: "'w internet \<Rightarrow> string list \<Rightarrow> 'w host \<Rightarrow> outcome \<times> 'w host" where
  "RunSubmitBackup net argv h =
     (if length argv < 7 then (misused control_usage, h)
      else evaluated (ParsePort (argv ! 3)) (\<lambda>port h.
        let job = \<lparr>job_job_id = argv ! 4, job_node_id = argv ! 5, job_source_path = JoinArgs argv 6,
              job_destination_label = ''service-submitted'', job_created_at_epoch = host_now h\<rparr>
        in over_network (Client_SubmitBackupJob (net (argv ! 2) port) job)
             (conclude 2 ''submit backup failed'' (println [''submit_backup_ok job='', job_job_id job])) h) h)"

definition RunSubmitRestore :: "'w internet \<Rightarrow> string list \<Rightarrow> 'w host \<Rightarrow> outcome \<times> 'w host" where
  "RunSubmitRestore net argv h =
     (if length argv < 9 then (misused control_usage, h)
      else evaluated (ParsePort (argv ! 3)) (\<lambda>port h.
        let request = RestoreRequest_init\<lparr>restore_request_id := argv ! 4, restore_file_id := argv ! 5,
              restore_source_node_id := argv ! 6, restore_target_node_id := argv ! 7,
              restore_destination_path := JoinArgs argv 8, restore_created_at_epoch := host_now h\<rparr>
        in over_network (Client_SubmitRestoreRequest (net (argv ! 2) port) request)
             (conclude 2 ''submit restore failed''
               (println [''submit_restore_ok request='', restore_request_id request])) h) h)"

definition RunSubmitShareReceive :: "'w internet \<Rightarrow> string list \<Rightarrow> 'w host \<Rightarrow> outcome \<times> 'w host" where
  "RunSubmitShareReceive net argv h =
     (if length argv < 6 then (misused control_usage, h)
      else evaluated (ParsePort (argv ! 3)) (\<lambda>port.
        over_network (Client_SubmitShareReceive (net (argv ! 2) port) (argv ! 4) (argv ! 5))
          (conclude 2 ''submit share receive failed''
            (println [''submit_share_receive_ok entry='', argv ! 4, '' target='', argv ! 5]))) h)"

definition RunRetryTaskRemote :: "'w internet \<Rightarrow> string list \<Rightarrow> 'w host \<Rightarrow> outcome \<times> 'w host" where
  "RunRetryTaskRemote net argv h =
     (if length argv < 5 then (misused control_usage, h)
      else evaluated (ParsePort (argv ! 3)) (\<lambda>port.
        let detail = (if length argv \<ge> 6 then JoinArgs argv 5 else ''task retried via remote control'')
        in over_network (Client_RetryTask (net (argv ! 2) port) (argv ! 4) detail)
             (conclude 2 ''remote retry task failed'' (println [''retry_task_remote_ok task='', argv ! 4]))) h)"

definition RunRetryRestoreRemote :: "'w internet \<Rightarrow> string list \<Rightarrow> 'w host \<Rightarrow> outcome \<times> 'w host" where
  "RunRetryRestoreRemote net argv h =
     (if length argv < 5 then (misused control_usage, h)
      else evaluated (ParsePort (argv ! 3)) (\<lambda>port.
        over_network (Client_RetryRestore (net (argv ! 2) port) (argv ! 4))
          (conclude 2 ''remote retry restore failed''
            (println [''retry_restore_remote_ok request='', argv ! 4]))) h)"

definition RunRetryShareRemote :: "'w internet \<Rightarrow> string list \<Rightarrow> 'w host \<Rightarrow> outcome \<times> 'w host" where
  "RunRetryShareRemote net argv h =
     (if length argv < 6 then (misused control_usage, h)
      else evaluated (ParsePort (argv ! 3)) (\<lambda>port.
        over_network (Client_RetryShareReceive (net (argv ! 2) port) (argv ! 4) (argv ! 5))
          (conclude 2 ''remote retry share failed''
            (println [''retry_share_remote_ok entry='', argv ! 4, '' target='', argv ! 5]))) h)"

section \<open>Serving\<close>

text \<open>
  What the system gives when the server opens its socket at a host and port: the call that failed, or the
  results of \<open>accept\<close> from then on with the changes of clock and disk between two clients.
\<close>

datatype listening =
    ListenSocketFailed
  | ListenHostInvalid
  | BindFailed string
  | ListenFailed string
  | Listening "nat \<Rightarrow> SystemRuntime \<Rightarrow> SystemRuntime" "accept_result list"

type_synonym listen_socket = "string \<Rightarrow> u16 \<Rightarrow> listening"

definition ControlNodeServer_Serve ::
  "FdfsApi \<Rightarrow> listen_socket \<Rightarrow> string \<Rightarrow> u16 \<Rightarrow> u64 \<Rightarrow> SystemRuntime \<Rightarrow> Status result option \<times> SystemRuntime"
where
  "ControlNodeServer_Serve api listen_socket host port offline_after_seconds rt =
     (case listen_socket host port of
        ListenSocketFailed \<Rightarrow>
          (Some (Inr (Status_Error kInternalError ''failed to create listen socket'')), rt)
      | ListenHostInvalid \<Rightarrow> (Some (Inr (Status_Error kInvalidArgument ''invalid listen host'')), rt)
      | BindFailed reason \<Rightarrow> (Some (Inr (Status_Error kInternalError (''bind failed: '' @ reason))), rt)
      | ListenFailed reason \<Rightarrow> (Some (Inr (Status_Error kInternalError (''listen failed: '' @ reason))), rt)
      | Listening env clients \<Rightarrow> ServeLoop_control api offline_after_seconds env clients rt)"

definition RunServe :: "FdfsApi \<Rightarrow> listen_socket \<Rightarrow> string list \<Rightarrow> 'w host \<Rightarrow> outcome \<times> 'w host" where
  "RunServe api listen_socket argv h =
     (if length argv < 3 then (misused control_usage, h)
      else
        let host = argument_or ''127.0.0.1'' argv 3
        in evaluated (if length argv \<ge> 5 then ParsePort (argv ! 4) else Inr 18765) (\<lambda>port.
             evaluated (number_or 300 argv 5) (\<lambda>offline_after. with_runtime (argv ! 2) (\<lambda>rt.
               case ControlNodeServer_Serve api listen_socket host port offline_after rt of
                 (None, rt) \<Rightarrow> (\<lparr>out_end = Waiting, out_stdout = [], out_stderr = []\<rparr>, rt)
               | (Some (Inl e), rt) \<Rightarrow> (terminates e, rt)
               | (Some (Inr status), rt) \<Rightarrow> (conclude 2 ''serve failed'' [] status, rt)))) h)"

section \<open>The program\<close>

definition control_node_main ::
  "FdfsApi \<Rightarrow> listen_socket \<Rightarrow> 'w internet \<Rightarrow> string list \<Rightarrow> 'w host \<Rightarrow> outcome \<times> 'w host"
where
  "control_node_main api listen_socket net argv h =
     (if length argv < 2 then (misused control_usage, h)
      else
        let json_output = WantsJson argv;
            args = (if json_output then butlast argv else argv);
            command = argv ! 1
        in if command = ''serve'' then RunServe api listen_socket args h
           else if command = ''submit-backup'' then RunSubmitBackup net args h
           else if command = ''submit-restore'' then RunSubmitRestore net args h
           else if command = ''submit-share-receive'' then RunSubmitShareReceive net args h
           else if command = ''retry-task-remote'' then RunRetryTaskRemote net args h
           else if command = ''retry-restore-remote'' then RunRetryRestoreRemote net args h
           else if command = ''retry-share-remote'' then RunRetryShareRemote net args h
           else if command = ''summary'' then RunSummary args json_output h
           else if command = ''devices'' then RunDevices args json_output h
           else if command = ''tasks'' then RunTasks args json_output h
           else if command = ''task-retry'' then RunTaskRetry args h
           else if command = ''backups'' then RunBackups args json_output h
           else if command = ''shared'' then RunShared args json_output h
           else if command = ''share-retry'' then RunShareRetry args h
           else if command = ''restores'' then RunRestores args json_output h
           else if command = ''restore-retry'' then RunRestoreRetry api args h
           else if command = ''audit'' then RunAudit args json_output h
           else (misused control_usage, h))"

end
