(* ===== verification/Control_Report.thy ===== *)
theory Control_Report
  imports Control_Cli
begin

text \<open>
  What the listings of the control node program say. The reference is a reader of JSON documents (objects,
  arrays, strings with the two-character escapes, non-negative integers and the two booleans, blanks between
  tokens; a string may not hold a raw control character): what \<^verbatim>\<open>--json\<close> prints is read back as the
  document that \<open>listing\<close> names, exactly when no text in it holds a control character that the program
  does not escape.
\<close>

section \<open>A reader of JSON documents\<close>

datatype json =
    JNumber nat
  | JBool bool
  | JString string
  | JArray "json list"
  | JObject "(string \<times> json) list"

definition skip_blanks :: "string \<Rightarrow> string" where
  "skip_blanks = dropWhile (\<lambda>c. c \<in> {CHR '' '', CHR 0x09, CHR 0x0A, CHR 0x0D})"

definition unescape :: "char \<Rightarrow> char option" where
  "unescape e =
     (if e \<in> {quote_char, backslash, CHR ''/''} then Some e
      else if e = CHR ''b'' then Some CHR 0x08
      else if e = CHR ''f'' then Some CHR 0x0C
      else if e = CHR ''n'' then Some CHR 0x0A
      else if e = CHR ''r'' then Some CHR 0x0D
      else if e = CHR ''t'' then Some CHR 0x09
      else None)"

text \<open>The rest of a string behind its opening quote.\<close>

fun read_string :: "string \<Rightarrow> (string \<times> string) option" where
  "read_string [] = None"
| "read_string [c] = (if c = quote_char then Some ([], []) else None)"
| "read_string (c # e # cs) =
     (if c = quote_char then Some ([], e # cs)
      else if c = backslash then
        (case unescape e of None \<Rightarrow> None | Some ch \<Rightarrow> map_option (apfst (Cons ch)) (read_string cs))
      else if (of_char c :: nat) < 32 then None
      else map_option (apfst (Cons c)) (read_string (e # cs)))"

definition read_number :: "string \<Rightarrow> (nat \<times> string) option" where
  "read_number s =
     (let digits = takeWhile is_digit s
      in if digits = [] \<or> (hd digits = CHR ''0'' \<and> tl digits \<noteq> []) then None
         else Some (parse_digits 0 digits, dropWhile is_digit s))"

fun parse_value :: "nat \<Rightarrow> string \<Rightarrow> (json \<times> string) option"
  and parse_items :: "nat \<Rightarrow> string \<Rightarrow> (json list \<times> string) option"
  and parse_members :: "nat \<Rightarrow> string \<Rightarrow> ((string \<times> json) list \<times> string) option"
where
  "parse_value 0 s = None"
| "parse_value (Suc n) s =
     (case skip_blanks s of
        [] \<Rightarrow> None
      | c # cs \<Rightarrow>
          if c = quote_char then map_option (apfst JString) (read_string cs)
          else if c = CHR ''['' then
            (if take 1 (skip_blanks cs) = '']'' then Some (JArray [], drop 1 (skip_blanks cs))
             else map_option (apfst JArray) (parse_items n cs))
          else if c = CHR ''{'' then
            (if take 1 (skip_blanks cs) = ''}'' then Some (JObject [], drop 1 (skip_blanks cs))
             else map_option (apfst JObject) (parse_members n cs))
          else if take 4 (c # cs) = ''true'' then Some (JBool True, drop 4 (c # cs))
          else if take 5 (c # cs) = ''false'' then Some (JBool False, drop 5 (c # cs))
          else map_option (apfst JNumber) (read_number (c # cs)))"
| "parse_items 0 s = None"
| "parse_items (Suc n) s =
     (case parse_value n s of
        None \<Rightarrow> None
      | Some (v, r) \<Rightarrow>
          (case skip_blanks r of
             [] \<Rightarrow> None
           | c # cs \<Rightarrow>
               if c = CHR '','' then map_option (apfst (Cons v)) (parse_items n cs)
               else if c = CHR '']'' then Some ([v], cs) else None))"
| "parse_members 0 s = None"
| "parse_members (Suc n) s =
     (case skip_blanks s of
        [] \<Rightarrow> None
      | q # ks \<Rightarrow>
          if q \<noteq> quote_char then None
          else case read_string ks of
            None \<Rightarrow> None
          | Some (k, r) \<Rightarrow>
              (case skip_blanks r of
                 [] \<Rightarrow> None
               | c # vs \<Rightarrow>
                   if c \<noteq> CHR '':'' then None
                   else case parse_value n vs of
                     None \<Rightarrow> None
                   | Some (v, r) \<Rightarrow>
                       (case skip_blanks r of
                          [] \<Rightarrow> None
                        | c # cs \<Rightarrow>
                            if c = CHR '','' then map_option (apfst (Cons (k, v))) (parse_members n cs)
                            else if c = CHR ''}'' then Some ([(k, v)], cs) else None)))"

definition parse_json :: "string \<Rightarrow> json option" where
  "parse_json s =
     (case parse_value (length s) s of
        None \<Rightarrow> None
      | Some (v, r) \<Rightarrow> if skip_blanks r = [] then Some v else None)"

section \<open>Documents as the program writes them\<close>

primrec json_text :: "json \<Rightarrow> string" where
  "json_text (JNumber n) = to_string n"
| "json_text (JBool b) = ToJsonBool b"
| "json_text (JString s) = ToJsonString s"
| "json_text (JArray vs) = json_array (map json_text vs)"
| "json_text (JObject ms) = json_object (map (map_prod id json_text) ms)"

text \<open>A control character that the program writes as it is.\<close>

definition raw_control :: "char \<Rightarrow> bool" where
  "raw_control c \<longleftrightarrow> (of_char c :: nat) < 32 \<and> c \<notin> {CHR 0x09, CHR 0x0A, CHR 0x0D}"

definition readable :: "string \<Rightarrow> bool" where
  "readable s \<longleftrightarrow> (\<forall>c \<in> set s. \<not> raw_control c)"

primrec readable_json :: "json \<Rightarrow> bool" where
  "readable_json (JNumber n) = True"
| "readable_json (JBool b) = True"
| "readable_json (JString s) = readable s"
| "readable_json (JArray vs) = list_all id (map readable_json vs)"
| "readable_json (JObject ms) = list_all snd (map (map_prod id readable_json) ms)"

definition plain_key :: "string \<Rightarrow> bool" where
  "plain_key k \<longleftrightarrow> list_all (\<lambda>c. 32 \<le> (of_char c :: nat) \<and> c \<noteq> quote_char \<and> c \<noteq> backslash) k"

primrec plain_keys :: "json \<Rightarrow> bool" where
  "plain_keys (JNumber n) = True"
| "plain_keys (JBool b) = True"
| "plain_keys (JString s) = True"
| "plain_keys (JArray vs) = list_all id (map plain_keys vs)"
| "plain_keys (JObject ms) = list_all (\<lambda>m. plain_key (fst m) \<and> snd m) (map (map_prod id plain_keys) ms)"

primrec depth :: "json \<Rightarrow> nat" where
  "depth (JNumber n) = 1"
| "depth (JBool b) = 1"
| "depth (JString s) = 1"
| "depth (JArray vs) = Suc (sum_list (map Suc (map depth vs)))"
| "depth (JObject ms) = Suc (sum_list (map (\<lambda>m. Suc (snd m)) (map (map_prod id depth) ms)))"

section \<open>Reading back what was written\<close>

lemma backslash_neq [simp]: "backslash \<noteq> quote_char" "quote_char \<noteq> backslash"
  by (simp_all add: backslash_def quote_char_def)

lemma read_string_stop [simp]: "read_string (quote_char # r) = Some ([], r)"
  by (cases r) simp_all

lemma read_string_escape:
  "unescape e = Some ch \<Longrightarrow> read_string (backslash # e # cs) = map_option (apfst (Cons ch)) (read_string cs)"
  by (simp add: backslash_def quote_char_def)

lemma read_string_char:
  "c \<noteq> quote_char \<Longrightarrow> c \<noteq> backslash \<Longrightarrow> 32 \<le> (of_char c :: nat) \<Longrightarrow>
     read_string (c # cs) = map_option (apfst (Cons c)) (read_string cs)"
  by (cases cs) simp_all

lemma read_string_control:
  "(of_char c :: nat) < 32 \<Longrightarrow> read_string (c # cs) = None"
  by (cases cs) (auto simp: backslash_def quote_char_def)

lemma read_string_escaped:
  "read_string (JsonEscape s @ [quote_char] @ r) = (if readable s then Some (s, r) else None)"
proof (induction s)
  case Nil
  then show ?case by (simp add: readable_def)
next
  case (Cons c s)
  have split: "readable (c # s) \<longleftrightarrow> \<not> raw_control c \<and> readable s" by (simp add: readable_def)
  consider "c \<in> {backslash, quote_char, CHR 0x0A, CHR 0x0D, CHR 0x09}"
    | "c \<notin> {backslash, quote_char, CHR 0x0A, CHR 0x0D, CHR 0x09}" "(of_char c :: nat) < 32"
    | "c \<notin> {backslash, quote_char, CHR 0x0A, CHR 0x0D, CHR 0x09}" "32 \<le> (of_char c :: nat)"
    by linarith
  then show ?case
  proof cases
    case 1
    then have "\<not> raw_control c" by (auto simp: raw_control_def backslash_def quote_char_def)
    moreover obtain e where "JsonEscape (c # s) = backslash # e # JsonEscape s" "unescape e = Some c"
      using 1 by (auto simp: unescape_def backslash_def quote_char_def)
    ultimately show ?thesis using Cons.IH by (simp add: read_string_escape split)
  next
    case 2
    then show ?thesis by (simp add: read_string_control split raw_control_def)
  next
    case 3
    then have "\<not> raw_control c" by (simp add: raw_control_def)
    then show ?thesis using 3 Cons.IH by (simp add: read_string_char split)
  qed
qed

lemma read_key: "plain_key k \<Longrightarrow> read_string (k @ [quote_char] @ r) = Some (k, r)"
  by (induction k) (simp_all add: plain_key_def read_string_char)

lemma hd_to_string_0: "hd (to_string n) = CHR ''0'' \<Longrightarrow> n = 0"
proof (induction n rule: to_string.induct)
  case (1 n)
  show ?case
  proof (cases "n < 10")
    case True
    then have "digit_char n = CHR ''0''" using 1(2) by (simp add: to_string.simps [of n])
    then have "(of_char (digit_char n) :: nat) = 48" by simp
    then show ?thesis using of_digit_char [OF True] by simp
  next
    case False
    then have "hd (to_string (n div 10)) = CHR ''0''" using 1(2) by (simp add: to_string.simps [of n])
    then show ?thesis using 1(1) [OF False] False by simp
  qed
qed

text \<open>A number ends where no digit follows.\<close>

definition stops :: "string \<Rightarrow> bool" where
  "stops r \<longleftrightarrow> r = [] \<or> \<not> is_digit (hd r)"

lemma read_number_written: "stops r \<Longrightarrow> read_number (to_string n @ r) = Some (n, r)"
proof -
  assume "stops r"
  have all: "\<forall>c \<in> set (to_string n). is_digit c" using to_string_digits by blast
  have r: "takeWhile is_digit r = []" "dropWhile is_digit r = r"
    using \<open>stops r\<close> by (cases r; auto simp: stops_def)+
  have "takeWhile is_digit (to_string n @ r) = to_string n" "dropWhile is_digit (to_string n @ r) = r"
    using all r by (simp_all add: takeWhile_append dropWhile_append)
  moreover have "hd (to_string n) = CHR ''0'' \<Longrightarrow> tl (to_string n) = []"
    using hd_to_string_0 [of n] by (simp add: to_string.simps)
  ultimately show ?thesis by (simp add: read_number_def Let_def parse_digits_to_string)
qed

text \<open>What reading \<open>v\<close> from its text gives: the value and the rest, if it is readable and the bound suffices.\<close>

definition reads_as :: "'a \<Rightarrow> bool \<Rightarrow> nat \<Rightarrow> nat \<Rightarrow> string \<Rightarrow> ('a \<times> string) option \<Rightarrow> bool" where
  "reads_as v ok needs n r x \<longleftrightarrow> (x = Some (v, r) \<and> ok) \<or> (x = None \<and> \<not> (ok \<and> needs \<le> n))"

lemma reads_as_cases:
  assumes "reads_as v ok needs n r x"
  obtains "x = Some (v, r)" "ok" | "x = None" "\<not> (ok \<and> needs \<le> n)"
  using assms by (auto simp: reads_as_def)

definition token_starts :: "char set" where
  "token_starts = {c. is_digit c} \<union> {quote_char, CHR ''['', CHR ''{'', CHR ''t'', CHR ''f''}"

lemma json_text_start: "\<exists>c cs. json_text v = c # cs \<and> c \<in> token_starts"
proof (cases v)
  case (JNumber n)
  then show ?thesis
    using to_string_digits [of _ n] by (cases "to_string n") (auto simp: token_starts_def)
qed (auto simp: token_starts_def ToJsonBool_def ToJsonString_def json_array_def json_object_def)

lemma skip_blanks_start [simp]:
  "c \<in> token_starts \<Longrightarrow> skip_blanks (c # cs) = c # cs"
  "skip_blanks (json_text v @ r) = json_text v @ r"
proof -
  show start: "c \<in> token_starts \<Longrightarrow> skip_blanks (c # cs) = c # cs" for c cs
    by (auto simp: skip_blanks_def token_starts_def is_digit_def quote_char_def)
  obtain c cs where "json_text v = c # cs" "c \<in> token_starts" using json_text_start by blast
  then show "skip_blanks (json_text v @ r) = json_text v @ r" using start by simp
qed

lemma skip_blanks_char [simp]:
  "c \<in> {CHR '','', CHR '']'', CHR ''}'', CHR '':'', quote_char} \<Longrightarrow> skip_blanks (c # cs) = c # cs"
  by (auto simp: skip_blanks_def quote_char_def)

lemma parse_items_written:
  assumes "vs \<noteq> []"
    and "\<And>v n r. v \<in> set vs \<Longrightarrow> stops r \<Longrightarrow>
      reads_as v (readable_json v) (depth v) n r (parse_value n (json_text v @ r))"
  shows "reads_as vs (list_all readable_json vs) (sum_list (map (\<lambda>v. Suc (depth v)) vs)) n r
    (parse_items n (join_with '','' (map json_text vs) @ '']'' @ r))"
  using assms
proof (induction vs arbitrary: n rule: list_nonempty_induct)
  case (single v)
  show ?case
  proof (cases n)
    case (Suc m)
    have "stops ('']'' @ r)" by (simp add: stops_def is_digit_def)
    from single(1) [OF _ this, of v m] show ?thesis
      by (auto simp: Suc reads_as_def)
  qed (simp add: reads_as_def)
next
  case (cons v vs)
  show ?case
  proof (cases n)
    case (Suc m)
    obtain w ws where vs: "vs = w # ws" using cons.hyps by (cases vs) auto
    let ?more = "join_with '','' (map json_text vs) @ '']'' @ r"
    have written: "join_with '','' (map json_text (v # vs)) @ '']'' @ r = json_text v @ '','' @ ?more"
      by (simp add: vs)
    have "stops ('','' @ ?more)" by (simp add: stops_def is_digit_def)
    from cons.prems [OF _ this, of v m]
    have v: "reads_as v (readable_json v) (depth v) m ('','' @ ?more) (parse_value m (json_text v @ '','' @ ?more))"
      by simp
    have vs: "reads_as vs (list_all readable_json vs) (sum_list (map (\<lambda>v. Suc (depth v)) vs)) m r (parse_items m ?more)"
      by (rule cons.IH) (rule cons.prems, simp_all)
    show ?thesis unfolding written Suc using v vs by (auto simp: reads_as_def simp del: append_assoc)
  qed (simp add: reads_as_def)
qed

lemma parse_members_written:
  assumes "ms \<noteq> []"
    and "\<And>k v n r. (k, v) \<in> set ms \<Longrightarrow> stops r \<Longrightarrow>
      reads_as v (readable_json v) (depth v) n r (parse_value n (json_text v @ r))"
    and "\<And>k v. (k, v) \<in> set ms \<Longrightarrow> plain_key k"
  shows "reads_as ms (list_all (\<lambda>m. readable_json (snd m)) ms) (sum_list (map (\<lambda>m. Suc (depth (snd m))) ms)) n r
    (parse_members n (join_with '','' (map (\<lambda>m. json_member (fst m, json_text (snd m))) ms) @ ''}'' @ r))"
  using assms
proof (induction ms arbitrary: n rule: list_nonempty_induct)
  case (single m)
  obtain k v where m: "m = (k, v)" by fastforce
  show ?case
  proof (cases n)
    case (Suc i)
    have "stops (''}'' @ r)" by (simp add: stops_def is_digit_def)
    from single(1) [of k v, OF _ this, of i] show ?thesis
      using read_key [OF single(2) [of k v], of "CHR '':'' # json_text v @ ''}'' @ r"]
      by (auto simp: Suc reads_as_def json_member_def m)
  qed (simp add: reads_as_def)
next
  case (cons m ms)
  obtain k v where m: "m = (k, v)" by fastforce
  let ?text = "\<lambda>ms. join_with '','' (map (\<lambda>m. json_member (fst m, json_text (snd m))) ms) @ ''}'' @ r"
  show ?case
  proof (cases n)
    case (Suc i)
    have written: "?text (m # ms) = [quote_char] @ k @ [quote_char] @ '':'' @ json_text v @ '','' @ ?text ms"
      using cons.hyps by (cases ms) (simp_all add: m json_member_def)
    have "stops ('','' @ ?text ms)" by (simp add: stops_def is_digit_def)
    from cons.prems(1) [of k v, OF _ this, of i]
    have v: "reads_as v (readable_json v) (depth v) i ('','' @ ?text ms) (parse_value i (json_text v @ '','' @ ?text ms))"
      by (simp add: m)
    have ms: "reads_as ms (list_all (\<lambda>m. readable_json (snd m)) ms) (sum_list (map (\<lambda>m. Suc (depth (snd m))) ms)) i r
        (parse_members i (?text ms))"
    proof (rule cons.IH)
      show "reads_as v (readable_json v) (depth v) n r (parse_value n (json_text v @ r))"
        if "(k, v) \<in> set ms" "stops r" for k v n r
        using cons.prems(1) [of k v r n] that by simp
      show "plain_key k" if "(k, v) \<in> set ms" for k v
        using cons.prems(2) [of k v] that by simp
    qed
    have "read_string (k @ [quote_char] @ '':'' @ json_text v @ '','' @ ?text ms) =
        Some (k, '':'' @ json_text v @ '','' @ ?text ms)"
      by (rule read_key, rule cons.prems(2) [of k v]) (simp add: m)
    then show ?thesis unfolding written Suc using v ms by (auto simp: reads_as_def m)
  qed (simp add: reads_as_def)
qed

lemma parse_value_written:
  assumes "plain_keys v" and "stops r"
  shows "reads_as v (readable_json v) (depth v) n r (parse_value n (json_text v @ r))"
  using assms
proof (induction v arbitrary: n r)
  case (JNumber k)
  show ?case
  proof (cases n)
    case (Suc m)
    obtain c cs where c: "to_string k = c # cs" "is_digit c"
      using to_string_digits [of _ k] by (cases "to_string k") auto
    then have "c \<notin> {quote_char, CHR ''['', CHR ''{'', CHR ''t'', CHR ''f''}"
      by (auto simp: is_digit_def quote_char_def)
    moreover have "skip_blanks (to_string k @ r) = to_string k @ r" using skip_blanks_start(2) [of "JNumber k" r] by simp
    ultimately show ?thesis
      using read_number_written [OF JNumber(2), of k] by (simp add: Suc reads_as_def c(1))
  qed (simp add: reads_as_def)
next
  case (JBool b)
  show ?case
    using skip_blanks_start(2) [of "JBool b" r]
    by (cases n) (simp_all add: reads_as_def ToJsonBool_def quote_char_def)
next
  case (JString s)
  show ?case
    using skip_blanks_start(2) [of "JString s" r] read_string_escaped [of s r]
    by (cases n) (simp_all add: reads_as_def ToJsonString_def)
next
  case (JArray vs)
  show ?case
  proof (cases n)
    case (Suc m)
    let ?rest = "join_with '','' (map json_text vs) @ '']'' @ r"
    have written: "skip_blanks (json_text (JArray vs) @ r) = CHR ''['' # ?rest"
      unfolding skip_blanks_start by (simp add: json_array_def)
    show ?thesis
    proof (cases "vs = []")
      case False
      have items: "reads_as vs (list_all readable_json vs) (sum_list (map (\<lambda>v. Suc (depth v)) vs)) m r
          (parse_items m ?rest)"
        by (rule parse_items_written [OF False], rule JArray.IH) (use JArray.prems in \<open>auto simp: list_all_iff\<close>)
      obtain v ws where vs: "vs = v # ws" using False by (cases vs) auto
      obtain c cs where c: "json_text v = c # cs" "c \<in> token_starts" using json_text_start by blast
      obtain ds where rest: "?rest = c # ds" using c by (cases ws) (simp_all add: vs)
      have "take 1 (skip_blanks ?rest) \<noteq> '']''"
        using c(2) unfolding rest by (auto simp: token_starts_def is_digit_def quote_char_def)
      then show ?thesis using items
        by (simp only: Suc parse_value.simps written list.case) (auto simp: reads_as_def quote_char_def comp_def list_all_iff)
    qed (use written in \<open>simp add: Suc reads_as_def quote_char_def\<close>)
  qed (simp add: reads_as_def)
next
  case (JObject ms)
  show ?case
  proof (cases n)
    case (Suc m)
    let ?rest = "join_with '','' (map (\<lambda>m. json_member (fst m, json_text (snd m))) ms) @ ''}'' @ r"
    have pairs: "map_prod id json_text = (\<lambda>m. (fst m, json_text (snd m)))" by auto
    have written: "skip_blanks (json_text (JObject ms) @ r) = CHR ''{'' # ?rest"
      unfolding skip_blanks_start by (simp add: json_object_def comp_def pairs)
    have keys: "plain_key k" "plain_keys v" if "(k, v) \<in> set ms" for k v
      using JObject.prems(1) that by (auto simp: list_all_iff)
    show ?thesis
    proof (cases "ms = []")
      case False
      have members: "reads_as ms (list_all (\<lambda>m. readable_json (snd m)) ms) (sum_list (map (\<lambda>m. Suc (depth (snd m))) ms))
          m r (parse_members m ?rest)"
      proof (rule parse_members_written [OF False])
        show "reads_as v (readable_json v) (depth v) n r (parse_value n (json_text v @ r))"
          if "(k, v) \<in> set ms" "stops r" for k v n r
          using JObject.IH [of "(k, v)" v r n] that keys [OF that(1)] by simp
      qed (rule keys)
      obtain p ws where ms: "ms = p # ws" using False by (cases ms) auto
      obtain ds where rest: "?rest = quote_char # ds" by (cases ws) (simp_all add: ms json_member_def)
      have "take 1 (skip_blanks ?rest) \<noteq> ''}''" unfolding rest by (simp add: quote_char_def)
      then show ?thesis using members
        by (simp only: Suc parse_value.simps written list.case)
          (auto simp: reads_as_def quote_char_def comp_def list_all_iff split_beta)
    qed (use written in \<open>simp add: Suc reads_as_def quote_char_def\<close>)
  qed (simp add: reads_as_def)
qed

lemma length_join_comma: "sum_list (map (\<lambda>t. Suc (length t)) ts) \<le> Suc (length (join_with '','' ts))"
  by (induction ts rule: induct_list012) auto

lemma depth_le_length: "depth v \<le> length (json_text v)"
proof (induction v)
  case (JArray vs)
  have "sum_list (map (\<lambda>v. Suc (depth v)) vs) \<le> sum_list (map (\<lambda>t. Suc (length t)) (map json_text vs))"
    using JArray by (simp add: sum_list_mono comp_def)
  also have "\<dots> \<le> Suc (length (join_with '','' (map json_text vs)))" by (rule length_join_comma)
  finally show ?case by (simp add: json_array_def comp_def)
next
  case (JObject ms)
  let ?ts = "map (\<lambda>m. json_member (fst m, json_text (snd m))) ms"
  have pairs: "map_prod id json_text = (\<lambda>m. (fst m, json_text (snd m)))" by auto
  have "depth (snd m) \<le> length (json_member (fst m, json_text (snd m)))" if "m \<in> set ms" for m
    using JObject [of m "snd m"] that by (cases m) (auto simp: json_member_def)
  then have "sum_list (map (\<lambda>m. Suc (depth (snd m))) ms) \<le> sum_list (map (\<lambda>t. Suc (length t)) ?ts)"
    by (simp add: sum_list_mono comp_def)
  also have "\<dots> \<le> Suc (length (join_with '','' ?ts))" by (rule length_join_comma)
  finally show ?case by (simp add: json_object_def comp_def pairs split_beta)
qed (simp_all add: ToJsonBool_def ToJsonString_def Suc_le_eq)

lemma parse_json_written:
  assumes "plain_keys v"
  shows "parse_json (json_text v @ [newline]) = (if readable_json v then Some v else None)"
proof -
  have "stops [newline]" by (simp add: stops_def newline_def is_digit_def)
  from parse_value_written [OF assms this, of "length (json_text v @ [newline])"] depth_le_length [of v]
  show ?thesis by (auto simp: parse_json_def reads_as_def skip_blanks_def newline_def split: if_splits)
qed

section \<open>The documents\<close>

definition jword :: "u64 \<Rightarrow> json" where "jword w = JNumber (unat w)"

definition device_value :: "NodeInfo \<Rightarrow> json" where
  "device_value n = JObject
     [(''node_id'', JString (node_node_id n)), (''device_name'', JString (node_device_name n)),
      (''zt_ip'', JString (node_zt_ip n)), (''last_seen_epoch'', jword (node_last_seen_epoch n))]"

definition task_value :: "ScheduledTaskRecord \<Rightarrow> json" where
  "task_value t = JObject
     [(''task_id'', JString (task_task_id t)), (''domain'', JString (JobDomainName (task_domain t))),
      (''state'', JString (JobStateName (task_state t))), (''related_id'', JString (task_related_id t)),
      (''source_node'', JString (task_source_node t)), (''target_node'', JString (task_target_node t)),
      (''created_at_epoch'', jword (task_created_at_epoch t)), (''retry_count'', JNumber (unat (task_retry_count t))),
      (''detail'', JString (task_detail t))]"

definition job_value :: "BackupJob \<Rightarrow> json" where
  "job_value j = JObject
     [(''job_id'', JString (job_job_id j)), (''node_id'', JString (job_node_id j)),
      (''source_path'', JString (job_source_path j)), (''destination_label'', JString (job_destination_label j)),
      (''created_at_epoch'', jword (job_created_at_epoch j))]"

definition recipient_value :: "SharedLibraryRecipient \<Rightarrow> json" where
  "recipient_value r = JObject
     [(''node_id'', JString (recip_node_id r)), (''state'', JString (SharedRecipientStateName (recip_state r))),
      (''received_path'', JString (recip_received_path r)), (''error_message'', JString (recip_error_message r)),
      (''updated_at_epoch'', jword (recip_updated_at_epoch r))]"

definition entry_value :: "SharedLibraryEntry \<Rightarrow> json" where
  "entry_value e = JObject
     [(''entry_id'', JString (entry_entry_id e)), (''owner_node_id'', JString (entry_owner_node_id e)),
      (''file_id'', JString (entry_file_id e)), (''display_name'', JString (entry_display_name e)),
      (''note'', JString (entry_note e)), (''created_at_epoch'', jword (entry_created_at_epoch e)),
      (''expires_at_epoch'', jword (entry_expires_at_epoch e)), (''expired'', JBool (entry_expired e)),
      (''delivered'', JBool (entry_delivered e)),
      (''recipients'', JArray (map recipient_value (entry_recipients e)))]"

definition request_value :: "RestoreRequest \<Rightarrow> json" where
  "request_value r = JObject
     [(''request_id'', JString (restore_request_id r)), (''file_id'', JString (restore_file_id r)),
      (''source_node_id'', JString (restore_source_node_id r)), (''target_node_id'', JString (restore_target_node_id r)),
      (''destination_path'', JString (restore_destination_path r)),
      (''created_at_epoch'', jword (restore_created_at_epoch r)),
      (''state'', JString (RestoreStateName (restore_state r))),
      (''completed_at_epoch'', jword (restore_completed_at_epoch r)),
      (''error_message'', JString (restore_error_message r))]"

definition event_value :: "AuditEvent \<Rightarrow> json" where
  "event_value e = JObject
     [(''event_id'', JString (event_event_id e)), (''category'', JString (event_category e)),
      (''detail'', JString (event_detail e)), (''created_at_epoch'', jword (event_created_at_epoch e))]"

definition summary_value :: "ControlPlaneSummary \<Rightarrow> json" where
  "summary_value s = JObject (map (\<lambda>(k, n). (k, JNumber n)) (summary_fields s))"

definition document :: "string \<Rightarrow> ('a \<Rightarrow> json) \<Rightarrow> 'a list \<Rightarrow> json" where
  "document key value xs = JObject [(key, JArray (map value xs))]"

lemma record_texts:
  "device_json n = json_text (device_value n)" "task_json t = json_text (task_value t)"
  "job_json j = json_text (job_value j)" "recipient_json r = json_text (recipient_value r)"
  "request_json q = json_text (request_value q)" "event_json v = json_text (event_value v)"
  by (simp_all add: device_json_def device_value_def task_json_def task_value_def job_json_def job_value_def
      recipient_json_def recipient_value_def request_json_def request_value_def event_json_def event_value_def
      jword_def json_word_def to_string_u64_def)

lemma entry_text: "entry_json e = json_text (entry_value e)"
proof -
  have "recipient_json = (\<lambda>r. json_text (recipient_value r))" by (rule ext) (rule record_texts)
  then show ?thesis by (simp add: entry_json_def entry_value_def jword_def json_word_def to_string_u64_def comp_def)
qed

lemma summary_text:
  "json_object (map (\<lambda>(k, n). (k, to_string n)) (summary_fields s)) = json_text (summary_value s)"
  by (simp add: summary_value_def case_prod_unfold comp_def)

lemma json_listing_text:
  assumes "\<And>x. print x = json_text (value x)"
  shows "json_listing key (map print xs) = json_text (document key value xs) @ [newline]"
proof -
  have "print = (\<lambda>x. json_text (value x))" by (rule ext) (rule assms)
  then show ?thesis
    by (simp add: json_listing_def PrintJsonArrayHeader_def PrintJsonArrayFooter_def document_def json_object_def
        json_member_def json_array_def comp_def)
qed

lemma plain_literal: "list_all (\<lambda>c. 32 \<le> (of_char c :: nat) \<and> c \<noteq> CHR 0x22 \<and> c \<noteq> CHR 0x5C) k \<Longrightarrow> plain_key k"
  by (simp add: plain_key_def quote_char_def backslash_def)

lemma record_keys:
  "plain_keys (device_value n)" "plain_keys (task_value t)" "plain_keys (job_value j)" "plain_keys (recipient_value r)"
  "plain_keys (request_value q)" "plain_keys (event_value v)"
  by (simp_all add: device_value_def task_value_def job_value_def recipient_value_def request_value_def event_value_def
      jword_def plain_literal)

lemma entry_keys: "plain_keys (entry_value e)"
proof -
  have "plain_keys (JArray (map recipient_value rs))" for rs by (simp add: list_all_iff record_keys)
  then show ?thesis by (simp add: entry_value_def jword_def plain_literal comp_def)
qed

lemma summary_keys: "plain_keys (summary_value s)"
  by (simp add: summary_value_def summary_fields_def plain_literal)

lemma document_keys: "plain_key key \<Longrightarrow> (\<And>x. plain_keys (value x)) \<Longrightarrow> plain_keys (document key value xs)"
  by (simp add: document_def list_all_iff)

section \<open>What a listing reports\<close>

text \<open>The document that a command (without \<^verbatim>\<open>--json\<close>) reports of a runtime, if it is a listing.\<close>

definition listing :: "string list \<Rightarrow> SystemRuntime \<Rightarrow> json option" where
  "listing argv rt =
     (let n = length argv; command = argv ! 1
      in if n < 3 then None
         else if command = ''summary'' then
           (case number_or 300 argv 3 of Inl e \<Rightarrow> None
            | Inr off \<Rightarrow> Some (summary_value (fst (BuildSummary (rt_now rt) off rt))))
         else if command = ''backups'' then
           Some (document ''backup_jobs'' job_value
             (if n = 3 then ListJobs rt else ListJobsForNode rt (argv ! 3)))
         else if command = ''restores'' then
           Some (document ''restore_requests'' request_value (ListRestoreRequests (rt_store rt)))
         else if command = ''audit'' then
           Some (document ''audit_events'' event_value
             (if n = 3 then ListAuditEvents (rt_store rt) else ListAuditEventsByCategory (rt_store rt) (argv ! 3)))
         else if n < 4 then None
         else if command = ''devices'' then
           (case number_or 300 argv 4 of Inl e \<Rightarrow> None
            | Inr off \<Rightarrow> Some (document ''devices'' device_value
                (if argv ! 3 = ''online'' then ListOnlineDevices (rt_store rt) (rt_now rt) off
                 else ListDevices (rt_store rt))))
         else if command = ''tasks'' then
           Some (document ''tasks'' task_value
             (if argv ! 3 = ''queued'' then ListTasksByState (rt_store rt) JobQueued
              else if argv ! 3 = ''failed'' then ListTasksByState (rt_store rt) JobFailed
              else ListTasks (rt_store rt)))
         else if n < 5 then None
         else if command = ''shared'' then
           Some (document ''shared_entries'' entry_value (ListSharedEntries (argv ! 3) (argv ! 4) rt))
         else None)"

lemma listing_keys: "listing argv rt = Some doc \<Longrightarrow> plain_keys doc"
  by (auto simp: listing_def Let_def summary_keys record_keys entry_keys plain_literal
      split: if_splits sum.splits intro!: document_keys)

lemmas json_listings [simp] =
  json_listing_text [OF record_texts(1)] json_listing_text [OF record_texts(2)] json_listing_text [OF record_texts(3)]
  json_listing_text [OF entry_text] json_listing_text [OF record_texts(5)] json_listing_text [OF record_texts(6)]

definition runtime_at :: "'w host \<Rightarrow> path \<Rightarrow> SystemRuntime" where
  "runtime_at h db_path = SystemRuntime_new
     (case host_databases h db_path of Inl e \<Rightarrow> MetadataStore_init | Inr store \<Rightarrow> store)
     None (host_disk h) (host_now h) (host_now_ns h)"

lemma with_runtime_result:
  assumes "host_databases h p = Inr store"
  shows "fst (with_runtime p body h) = fst (body (runtime_at h p))"
  by (simp add: with_runtime_def runtime_at_def assms split_beta Let_def)

text \<open>No listing changes anything.\<close>

lemma summary_reads [simp]: "rt_store (snd (BuildSummary now off rt)) = rt_store rt"
  "rt_fs (snd (BuildSummary now off rt)) = rt_fs rt"
  by (simp_all add: BuildSummary_def RefreshNetworkView_def Let_def split_beta)

lemma listings_read:
  "snd (RunSummary argv j h) = h" "snd (RunDevices argv j h) = h" "snd (RunTasks argv j h) = h"
  "snd (RunBackups argv j h) = h" "snd (RunShared argv j h) = h" "snd (RunRestores argv j h) = h"
  "snd (RunAudit argv j h) = h"
  by (auto simp: RunSummary_def RunDevices_def RunTasks_def RunBackups_def RunShared_def RunRestores_def RunAudit_def
      evaluated_def Let_def split_beta split: sum.splits intro!: with_runtime_reads)

lemma read_only_run: "fst x = succeeds out \<Longrightarrow> snd x = h \<Longrightarrow> x = (succeeds out, h)"
  by (simp add: prod_eq_iff)

lemma main_with_json:
  assumes "3 \<le> length argv"
  shows "argv ! 1 = ''summary'' \<Longrightarrow> control_node_main api sockets net (argv @ [''--json'']) h = RunSummary argv True h"
    "argv ! 1 = ''backups'' \<Longrightarrow> control_node_main api sockets net (argv @ [''--json'']) h = RunBackups argv True h"
    "argv ! 1 = ''restores'' \<Longrightarrow> control_node_main api sockets net (argv @ [''--json'']) h = RunRestores argv True h"
    "argv ! 1 = ''audit'' \<Longrightarrow> control_node_main api sockets net (argv @ [''--json'']) h = RunAudit argv True h"
    "argv ! 1 = ''devices'' \<Longrightarrow> control_node_main api sockets net (argv @ [''--json'']) h = RunDevices argv True h"
    "argv ! 1 = ''tasks'' \<Longrightarrow> control_node_main api sockets net (argv @ [''--json'']) h = RunTasks argv True h"
    "argv ! 1 = ''shared'' \<Longrightarrow> control_node_main api sockets net (argv @ [''--json'']) h = RunShared argv True h"
  using assms by (auto simp: control_node_main_def Let_def WantsJson_def nth_append)

text \<open>Each listing prints the document that \<open>listing\<close> names.\<close>

lemma listing_runs:
  assumes db: "host_databases h (argv ! 2) = Inr store" and doc: "listing argv (runtime_at h (argv ! 2)) = Some doc"
  shows "control_node_main api sockets net (argv @ [''--json'']) h = (succeeds (json_text doc @ [newline]), h)"
proof -
  have n: "3 \<le> length argv" using doc by (simp add: listing_def Let_def not_less [symmetric] split: if_splits)
  note opened = with_runtime_result [OF db] and main = main_with_json [OF n]
  consider "argv ! 1 = ''summary''" | "argv ! 1 = ''backups''" | "argv ! 1 = ''restores''" | "argv ! 1 = ''audit''"
    | "argv ! 1 = ''devices''" | "argv ! 1 = ''tasks''" | "argv ! 1 = ''shared''"
    | "argv ! 1 \<notin> {''summary'', ''backups'', ''restores'', ''audit'', ''devices'', ''tasks'', ''shared''}" by blast
  then show ?thesis
  proof cases
    case 1
    then obtain off where off: "number_or 300 argv 3 = Inr off"
        and doc: "doc = summary_value (fst (BuildSummary (rt_now (runtime_at h (argv ! 2))) off (runtime_at h (argv ! 2))))"
      using doc n by (auto simp: listing_def Let_def split: sum.splits)
    have "fst (RunSummary argv True h) = succeeds (json_text doc @ [newline])"
      using n by (simp add: RunSummary_def evaluated_def off opened doc summary_text split_beta Let_def)
    then show ?thesis unfolding main(1) [OF 1] by (rule read_only_run) (rule listings_read)
  next
    case 2
    then have "fst (RunBackups argv True h) = succeeds (json_text doc @ [newline])"
      using doc n by (auto simp: listing_def RunBackups_def opened Let_def Control_ListBackupJobs_def)
    then show ?thesis unfolding main(2) [OF 2] by (rule read_only_run) (rule listings_read)
  next
    case 3
    then have "fst (RunRestores argv True h) = succeeds (json_text doc @ [newline])"
      using doc n by (auto simp: listing_def RunRestores_def opened Let_def Control_ListRestoreRequests_def
          Recovery_ListRestoreRequests_def)
    then show ?thesis unfolding main(3) [OF 3] by (rule read_only_run) (rule listings_read)
  next
    case 4
    then have "fst (RunAudit argv True h) = succeeds (json_text doc @ [newline])"
      using doc n by (auto simp: listing_def RunAudit_def opened Let_def Control_ListAuditEvents_def
          Audit_ListEvents_def Audit_ListEventsByCategory_def)
    then show ?thesis unfolding main(4) [OF 4] by (rule read_only_run) (rule listings_read)
  next
    case 5
    then obtain off where off: "number_or 300 argv 4 = Inr off" "4 \<le> length argv"
        and doc: "doc = document ''devices'' device_value
          (Control_ListDevices (argv ! 3 = ''online'') (rt_now (runtime_at h (argv ! 2))) off (runtime_at h (argv ! 2)))"
      using doc n by (auto simp: listing_def Let_def Control_ListDevices_def split: sum.splits if_splits)
    have "fst (RunDevices argv True h) = succeeds (json_text doc @ [newline])"
      using off(2) by (simp add: RunDevices_def evaluated_def off(1) opened doc Let_def)
    then show ?thesis unfolding main(5) [OF 5] by (rule read_only_run) (rule listings_read)
  next
    case 6
    then have "fst (RunTasks argv True h) = succeeds (json_text doc @ [newline])"
      using doc n by (auto simp: listing_def RunTasks_def opened Let_def Control_ListTasks_def ParseTaskState_def
          split: if_splits)
    then show ?thesis unfolding main(6) [OF 6] by (rule read_only_run) (rule listings_read)
  next
    case 7
    then have "fst (RunShared argv True h) = succeeds (json_text doc @ [newline])"
      using doc n by (auto simp: listing_def RunShared_def opened Let_def split: if_splits)
    then show ?thesis unfolding main(7) [OF 7] by (rule read_only_run) (rule listings_read)
  next
    case 8
    then show ?thesis using doc n by (simp add: listing_def Let_def split: if_splits)
  qed
qed

text \<open>
  C11: What a listing of the control node program prints with \<^verbatim>\<open>--json\<close> is read back by a JSON reader as
  the document of the records it lists, for every text with quotes, backslashes, line ends and tabs, and is
  no JSON at all exactly when a text holds another control character. The listing changes nothing.
\<close>

theorem json_listing_read_back:
  assumes "host_databases h (argv ! 2) = Inr store" and "listing argv (runtime_at h (argv ! 2)) = Some doc"
  shows "\<exists>out. control_node_main api sockets net (argv @ [''--json'']) h = (succeeds out, h) \<and>
    parse_json out = (if readable_json doc then Some doc else None)"
  using listing_runs [OF assms] parse_json_written [OF listing_keys [OF assms(2)]] by blast

definition named_host :: "string \<Rightarrow> unit host" where
  "named_host name = \<lparr>host_databases = (\<lambda>p. Inr (UpsertNode
       \<lparr>node_node_id = ''a'', node_device_name = name, node_zt_ip = ''ip'', node_last_seen_epoch = 5\<rparr>
       MetadataStore_init)),
     host_disk = sample_fs, host_now = 7, host_now_ns = 0, host_net = ()\<rparr>"

lemma named_listing:
  "host_databases (named_host name) ([''c'', ''devices'', ''db'', ''all''] ! 2) =
     Inr (UpsertNode \<lparr>node_node_id = ''a'', node_device_name = name, node_zt_ip = ''ip'', node_last_seen_epoch = 5\<rparr>
       MetadataStore_init)"
  "listing [''c'', ''devices'', ''db'', ''all''] (runtime_at (named_host name) ([''c'', ''devices'', ''db'', ''all''] ! 2)) =
     Some (JObject [(''devices'', JArray [JObject [(''node_id'', JString ''a''), (''device_name'', JString name),
       (''zt_ip'', JString ''ip''), (''last_seen_epoch'', JNumber 5)]])])"
  by (simp_all add: named_host_def listing_def runtime_at_def number_or_def document_def device_value_def jword_def
      SystemRuntime_new_def ListDevices_def ListNodes_def UpsertNode_def MetadataStore_init_def Let_def)

text \<open>A name with a quote and a line end is read back; with a bell character nothing is.\<close>

theorem json_listing_read_back_witness:
  "(\<exists>out. control_node_main offline_api (\<lambda>_ _. ListenSocketFailed) (\<lambda>_ _ _ w. (SocketFailed, w))
      [''c'', ''devices'', ''db'', ''all'', ''--json''] (named_host [quote_char, CHR 0x0A]) =
        (succeeds out, named_host [quote_char, CHR 0x0A]) \<and>
      parse_json out = Some (JObject [(''devices'', JArray [JObject [(''node_id'', JString ''a''),
        (''device_name'', JString [quote_char, CHR 0x0A]), (''zt_ip'', JString ''ip''),
        (''last_seen_epoch'', JNumber 5)]])])) \<and>
   (\<exists>out. control_node_main offline_api (\<lambda>_ _. ListenSocketFailed) (\<lambda>_ _ _ w. (SocketFailed, w))
      [''c'', ''devices'', ''db'', ''all'', ''--json''] (named_host [CHR 0x07]) = (succeeds out, named_host [CHR 0x07]) \<and>
      parse_json out = None)"
  using json_listing_read_back [OF named_listing(1) [of "[quote_char, CHR 0x0A]"]
      named_listing(2) [of "[quote_char, CHR 0x0A]"], of offline_api "\<lambda>_ _. ListenSocketFailed"
      "\<lambda>_ _ _ w. (SocketFailed, w)"]
    json_listing_read_back [OF named_listing(1) [of "[CHR 0x07]"] named_listing(2) [of "[CHR 0x07]"], of offline_api "\<lambda>_ _. ListenSocketFailed"
      "\<lambda>_ _ _ w. (SocketFailed, w)"]
  by (simp add: readable_def raw_control_def quote_char_def)

end
