(* ===== verification/Netdisk_Cli.thy ===== *)
theory Netdisk_Cli
  imports Program_Host
begin

text \<open>
  \<^verbatim>\<open>apps/netdisk_cli/main.cpp\<close>: every subcommand of the local command line program as a function of its
  arguments and the machine, and \<open>main\<close>. The properties say what a machine on which the programs run keeps,
  what sharing a file brings about, and what registering a node before an operation does to its record.
\<close>

section \<open>Usage\<close>

definition netdisk_usage :: string where
  "netdisk_usage = concat (map (\<lambda>l. l @ [newline])
    [''usage:'',
     ''  netdisk_cli backup-run <db_path> <node_id> <source_path> <backend_name> [backend_arg]'',
     ''  netdisk_cli share-publish <db_path> <owner_node_id> <entry_id> <source_file> <display_name> <library_root>'',
     ''  netdisk_cli share-receive <db_path> <entry_id> <target_node_id> <receive_root>'',
     ''  netdisk_cli share-run <db_path> <owner_node_id> <entry_id> <source_file> <display_name> <library_root> <target_node_id> <receive_root>'',
     ''  netdisk_cli share-list <db_path> <node_id> <scope>'',
     ''  netdisk_cli share-cleanup <db_path> <now_epoch>'',
     ''  netdisk_cli coord-status <db_path> <now_epoch> <offline_after_seconds>'',
     ''  netdisk_cli task-retry <db_path> <task_id> [detail]'',
     ''  netdisk_cli restore-submit <db_path> <request_id> <file_id> <source_node_id> <target_node_id> <destination_path>'',
     ''  netdisk_cli restore-run <db_path> <request_id>'',
     ''  netdisk_cli restore-retry <db_path> <request_id>'',
     ''  netdisk_cli restore-latest <db_path> <source_node_id> <relative_path> <target_node_id> <destination_path>'',
     ''  netdisk_cli share-retry <db_path> <entry_id> <target_node_id> <receive_root>'',
     ''  netdisk_cli backup-history <db_path> <node_id> <relative_path>'',
     ''  netdisk_cli inspect <db_path>''])"

section \<open>Registering a node\<close>

definition EnsureNode :: "string \<Rightarrow> SystemRuntime \<Rightarrow> SystemRuntime" where
  "EnsureNode node_id rt =
     snd (on_store (RegisterDevice \<lparr>node_node_id = node_id, node_device_name = node_id, node_zt_ip = ''127.0.0.1'',
       node_last_seen_epoch = rt_now rt\<rparr>) rt)"

section \<open>Backup\<close>

definition manual_policy :: "string \<Rightarrow> path \<Rightarrow> u64 \<Rightarrow> BackupPolicy" where
  "manual_policy node_id source_path now =
     BackupPolicy_init\<lparr>bpolicy_policy_id := ''policy-'' @ node_id, bpolicy_node_id := node_id,
       bpolicy_source_path := source_path, bpolicy_schedule_expression := ''manual'',
       bpolicy_created_at_epoch := now\<rparr>"

definition manual_job :: "string \<Rightarrow> path \<Rightarrow> string \<Rightarrow> u64 \<Rightarrow> BackupJob" where
  "manual_job node_id source_path backend_name now =
     \<lparr>job_job_id = ''backup-'' @ to_string_u64 now, job_node_id = node_id, job_source_path = source_path,
      job_destination_label = backend_name, job_created_at_epoch = now\<rparr>"

definition backup_run ::
  "FdfsApi \<Rightarrow> string \<Rightarrow> path \<Rightarrow> string \<Rightarrow> string \<Rightarrow> SystemRuntime \<Rightarrow> outcome \<times> SystemRuntime"
where
  "backup_run api node_id source_path backend_name backend_arg rt =
     (let rt = EnsureNode node_id rt;
          (status, rt) = Backup_ConfigurePolicy (manual_policy node_id source_path (rt_now rt)) rt
      in if \<not> status_ok status then (fails 2 (''configure policy failed: '' @ status_message status), rt)
         else
           let job = manual_job node_id source_path backend_name (rt_now rt)
           in case CreateStorageBackend backend_name backend_arg of
                Inl e \<Rightarrow> (terminates e, rt)
              | Inr backend \<Rightarrow>
                  (case ExecuteBackup api job backend rt of
                     (Inl e, rt) \<Rightarrow> (terminates e, rt)
                   | (Inr status, rt) \<Rightarrow>
                       if \<not> status_ok status then (fails 3 (''backup failed: '' @ status_message status), rt)
                       else (succeeds (println
                         [''backup_ok files='', to_string (length (Index_ListIndexedFiles (rt_store rt))),
                          '' stored='', to_string (length (ListStoredObjects (rt_store rt))),
                          '' backup_records='',
                          to_string (length (ListBackupRecordsForNode (rt_store rt) node_id))]), rt)))"

definition Cli_RunBackup :: "FdfsApi \<Rightarrow> string list \<Rightarrow> 'w host \<Rightarrow> outcome \<times> 'w host" where
  "Cli_RunBackup api argv h =
     (if length argv < 6 then (misused netdisk_usage, h)
      else with_runtime (argv ! 2)
        (backup_run api (argv ! 3) (argv ! 4) (argv ! 5) (if length argv \<ge> 7 then argv ! 6 else [])) h)"

section \<open>Sharing\<close>

definition share_policy :: TransferPolicy where
  "share_policy = \<lparr>tpolicy_policy_id = ''transfer-default'', tpolicy_retention_seconds = 3 * 24 * 3600,
     tpolicy_auto_cleanup = True, tpolicy_private_library_only = True\<rparr>"

definition share_entry ::
  "string \<Rightarrow> string \<Rightarrow> path \<Rightarrow> string \<Rightarrow> string \<Rightarrow> u64 \<Rightarrow> SharedLibraryEntry"
where
  "share_entry owner_node_id entry_id source_file display_name note_text now =
     SharedLibraryEntry_init\<lparr>entry_entry_id := entry_id, entry_owner_node_id := owner_node_id,
       entry_source_path := source_file, entry_display_name := display_name, entry_note := note_text,
       entry_created_at_epoch := now, entry_expires_at_epoch := now + tpolicy_retention_seconds share_policy\<rparr>"

text \<open>The part that \<open>RunShare\<close> and \<open>RunSharePublish\<close> have in common, up to a published entry.\<close>

definition share_publish ::
  "string \<Rightarrow> string \<Rightarrow> path \<Rightarrow> string \<Rightarrow> string \<Rightarrow> path \<Rightarrow>
     (SystemRuntime \<Rightarrow> outcome \<times> SystemRuntime) \<Rightarrow> SystemRuntime \<Rightarrow> outcome \<times> SystemRuntime"
where
  "share_publish owner_node_id entry_id source_file display_name note_text library_root continue rt =
     (let (status, rt) = Library_ConfigurePolicy share_policy rt
      in if \<not> status_ok status then
           (fails 2 (''configure transfer policy failed: '' @ status_message status), rt)
         else
           case PublishFile (share_entry owner_node_id entry_id source_file display_name note_text (rt_now rt))
                  library_root rt of
             (Inl e, rt) \<Rightarrow> (terminates e, rt)
           | (Inr status, rt) \<Rightarrow>
               if \<not> status_ok status then (fails 3 (''publish failed: '' @ status_message status), rt)
               else continue rt)"

definition share_received :: "string \<Rightarrow> string \<Rightarrow> string \<Rightarrow> path \<Rightarrow> SystemRuntime \<Rightarrow> outcome \<times> SystemRuntime" where
  "share_received entry_id display_name target_node_id receive_root rt =
     (case ReceiveEntry entry_id target_node_id receive_root rt of
        (Inl e, rt) \<Rightarrow> (terminates e, rt)
      | (Inr status, rt) \<Rightarrow>
          (conclude 4 ''receive failed'' (println [''share_ok entries='', to_string (length (ListEntries rt)),
             '' received='', printed_bool (fs_exists (rt_fs rt) (path_append receive_root display_name))]) status, rt))"

definition RunShare :: "string list \<Rightarrow> 'w host \<Rightarrow> outcome \<times> 'w host" where
  "RunShare argv h =
     (if length argv < 10 then (misused netdisk_usage, h)
      else
        let owner_node_id = argv ! 3; entry_id = argv ! 4; source_file = argv ! 5; display_name = argv ! 6;
            library_root = argv ! 7; target_node_id = argv ! 8; receive_root = argv ! 9
        in with_runtime (argv ! 2) (\<lambda>rt.
          let rt = EnsureNode owner_node_id rt;
              rt = EnsureNode target_node_id rt
          in share_publish owner_node_id entry_id source_file display_name ''cli-share'' library_root
               (share_received entry_id display_name target_node_id receive_root) rt) h)"

definition RunSharePublish :: "string list \<Rightarrow> 'w host \<Rightarrow> outcome \<times> 'w host" where
  "RunSharePublish argv h =
     (if length argv < 8 then (misused netdisk_usage, h)
      else
        let owner_node_id = argv ! 3; entry_id = argv ! 4; source_file = argv ! 5; display_name = argv ! 6;
            library_root = argv ! 7
        in with_runtime (argv ! 2) (\<lambda>rt.
          let rt = EnsureNode owner_node_id rt
          in share_publish owner_node_id entry_id source_file display_name ''cli-share-publish'' library_root
               (\<lambda>rt. (succeeds (println [''share_publish_ok entries='', to_string (length (ListEntries rt))]), rt))
               rt) h)"

definition share_receive :: "string \<Rightarrow> string \<Rightarrow> path \<Rightarrow> SystemRuntime \<Rightarrow> outcome \<times> SystemRuntime" where
  "share_receive entry_id target_node_id receive_root rt =
     (let rt = EnsureNode target_node_id rt
      in case Library_FindEntry rt entry_id of
           None \<Rightarrow> (fails 2 ''receive failed: shared entry not found'', rt)
         | Some entry \<Rightarrow>
             (case ReceiveEntry entry_id target_node_id receive_root rt of
                (Inl e, rt) \<Rightarrow> (terminates e, rt)
              | (Inr status, rt) \<Rightarrow>
                  (conclude 3 ''receive failed'' (println [''share_receive_ok entry='', entry_id, '' received='',
                     printed_bool (fs_exists (rt_fs rt) (path_append receive_root (entry_display_name entry)))])
                     status, rt)))"

definition RunShareReceive :: "string list \<Rightarrow> 'w host \<Rightarrow> outcome \<times> 'w host" where
  "RunShareReceive argv h =
     (if length argv < 6 then (misused netdisk_usage, h)
      else with_runtime (argv ! 2) (share_receive (argv ! 3) (argv ! 4) (argv ! 5)) h)"

definition Cli_RunShareRetry :: "string list \<Rightarrow> 'w host \<Rightarrow> outcome \<times> 'w host" where
  "Cli_RunShareRetry argv h =
     (if length argv < 6 then (misused netdisk_usage, h)
      else with_runtime (argv ! 2) (\<lambda>rt.
        case RetryReceive (argv ! 3) (argv ! 4) (argv ! 5) rt of
          (Inl e, rt) \<Rightarrow> (terminates e, rt)
        | (Inr status, rt) \<Rightarrow>
            (conclude 2 ''share retry failed''
               (println [''share_retry_ok entry='', argv ! 3, '' target='', argv ! 4]) status, rt)) h)"

definition RunShareList :: "string list \<Rightarrow> 'w host \<Rightarrow> outcome \<times> 'w host" where
  "RunShareList argv h =
     (if length argv < 5 then (misused netdisk_usage, h)
      else with_runtime (argv ! 2) (\<lambda>rt.
        let node_id = argv ! 3; scope = argv ! 4;
            listed = (\<lambda>entries. (succeeds
              (println [''share_list='', to_string (length entries)] @
               concat (map (\<lambda>entry. println [''entry '', entry_entry_id entry, '' owner='', entry_owner_node_id entry,
                 '' expired='', printed_bool (entry_expired entry), '' delivered='',
                 printed_bool (entry_delivered entry), '' recipients='',
                 printed_recipients (entry_recipients entry)]) entries)), rt))
        in if scope = ''all'' then listed (ListEntriesForNode rt node_id)
           else if scope = ''active'' then
             listed (filter (\<lambda>entry. \<not> entry_expired entry) (ListEntriesForNode rt node_id))
           else if scope = ''pending'' then listed (ListPendingEntriesForNode rt node_id)
           else (fails 2 ''share list scope must be one of: all | active | pending'', rt)) h)"

definition RunShareCleanup :: "string list \<Rightarrow> 'w host \<Rightarrow> outcome \<times> 'w host" where
  "RunShareCleanup argv h =
     (if length argv < 4 then (misused netdisk_usage, h)
      else with_runtime (argv ! 2) (\<lambda>rt.
        case stoull (argv ! 3) of
          Inl e \<Rightarrow> (terminates e, rt)
        | Inr now_epoch \<Rightarrow>
            let (removed, rt) = CleanupExpired now_epoch rt
            in (succeeds (println [''share_cleanup removed='', to_string removed]), rt)) h)"

section \<open>Inspection\<close>

definition RunInspect :: "string list \<Rightarrow> 'w host \<Rightarrow> outcome \<times> 'w host" where
  "RunInspect argv h =
     (if length argv < 3 then (misused netdisk_usage, h)
      else with_runtime (argv ! 2) (\<lambda>rt.
        let rt = rt\<lparr>rt_peers := RefreshPeersFromDevices (ListDevices (rt_store rt)) (rt_now rt) 300 (rt_peers rt)\<rparr>;
            db = rt_store rt;
            counted = (\<lambda>name n. println [name, ''='', to_string n])
        in (succeeds
             (counted ''nodes'' (length (ListDevices db)) @
              concat (map (\<lambda>node. println [''node '', node_node_id node, '' '', node_device_name node, '' '',
                node_zt_ip node]) (ListDevices db)) @
              counted ''online_nodes'' (length (ListOnlineDevices db (rt_now rt) 300)) @
              counted ''peers'' (length (ListPeers (rt_peers rt))) @
              counted ''online_peers'' (length (ListOnlinePeers (rt_peers rt))) @
              counted ''backup_policies'' (length (ListBackupPolicies db)) @
              concat (map (\<lambda>policy. println [''backup_policy '', bpolicy_policy_id policy, '' '', bpolicy_node_id policy,
                '' '', bpolicy_source_path policy]) (ListBackupPolicies db)) @
              counted ''transfer_policies'' (length (ListTransferPolicies db)) @
              concat (map (\<lambda>policy. println [''transfer_policy '', tpolicy_policy_id policy, '' retention='',
                to_string_u64 (tpolicy_retention_seconds policy)]) (ListTransferPolicies db)) @
              counted ''scheduled_tasks'' (length (ListTasks db)) @
              concat (map printed_task (ListTasks db)) @
              counted ''backup_jobs'' (length (ListJobs rt)) @
              concat (map printed_job (ListJobs rt)) @
              counted ''restore_requests'' (length (Recovery_ListRestoreRequests rt)) @
              concat (map (\<lambda>request. println [''restore_request '', restore_request_id request, '' '',
                restore_file_id request, '' '', restore_target_node_id request, '' '',
                restore_destination_path request, '' state='', RestoreStateName (restore_state request),
                '' completed_at='', to_string_u64 (restore_completed_at_epoch request),
                '' error='', restore_error_message request]) (Recovery_ListRestoreRequests rt)) @
              counted ''shared_entries'' (length (ListEntries rt)) @
              concat (map (\<lambda>entry. println [''shared_entry '', entry_entry_id entry, '' owner='',
                entry_owner_node_id entry, '' file_id='', entry_file_id entry, '' expired='',
                printed_bool (entry_expired entry), '' delivered='', printed_bool (entry_delivered entry),
                '' recipients='', printed_recipients (entry_recipients entry)]) (ListEntries rt)) @
              counted ''files'' (length (ListFiles db)) @
              concat (map (\<lambda>f. println [''file '', file_relative_path f, '' '', file_root_hash f]) (ListFiles db)) @
              counted ''stored_objects'' (length (ListStoredObjects db)) @
              concat (map (\<lambda>r. println [''stored '', stored_file_id r, '' '', stored_backend_name r, '' '',
                stored_storage_key r]) (ListStoredObjects db)) @
              counted ''backup_records'' (length (ListBackupRecords db)) @
              concat (map (\<lambda>r. println [''backup '', backup_node_id r, '' '', backup_relative_path r, '' '',
                backup_file_id r]) (ListBackupRecords db)) @
              counted ''device_files'' (length (ListDeviceFiles db)) @
              concat (map (\<lambda>r. println [''device_file '', devfile_node_id r, '' '', devfile_relative_path r, '' '',
                devfile_absolute_path r, '' '', devfile_file_id r, '' source='', devfile_source_kind r,
                '' ref='', devfile_source_ref_id r]) (ListDeviceFiles db))), rt)) h)"

definition RunCoordStatus :: "string list \<Rightarrow> 'w host \<Rightarrow> outcome \<times> 'w host" where
  "RunCoordStatus argv h =
     (if length argv < 5 then (misused netdisk_usage, h)
      else with_runtime (argv ! 2) (\<lambda>rt.
        case stoull (argv ! 3) of
          Inl e \<Rightarrow> (terminates e, rt)
        | Inr now_epoch \<Rightarrow>
            (case stoull (argv ! 4) of
               Inl e \<Rightarrow> (terminates e, rt)
             | Inr offline_after_seconds \<Rightarrow>
                 let db = rt_store rt;
                     rt = rt\<lparr>rt_peers := RefreshPeersFromDevices (ListDevices db) now_epoch offline_after_seconds
                       (rt_peers rt)\<rparr>
                 in (succeeds (println
                      [''coord devices='', to_string (length (ListDevices db)),
                       '' online_devices='', to_string (length (ListOnlineDevices db now_epoch offline_after_seconds)),
                       '' online_peers='', to_string (length (ListOnlinePeers (rt_peers rt))),
                       '' queued_tasks='', to_string (length (ListTasksByState db JobQueued)),
                       '' retryable_tasks='', to_string (length (ListRetryableTasks db))]), rt))) h)"

definition RunBackupHistory :: "string list \<Rightarrow> 'w host \<Rightarrow> outcome \<times> 'w host" where
  "RunBackupHistory argv h =
     (if length argv < 5 then (misused netdisk_usage, h)
      else with_runtime (argv ! 2) (\<lambda>rt.
        let history = Index_ListBackupHistory (rt_store rt) (argv ! 3) (argv ! 4)
        in (succeeds
             (println [''backup_history='', to_string (length history)] @
              concat (map (\<lambda>r. println [''history '', backup_node_id r, '' '', backup_relative_path r, '' '',
                backup_file_id r, '' '', backup_backend_name r, '' '', backup_storage_key r, '' '',
                to_string_u64 (backup_backed_up_at_epoch r)]) history)), rt)) h)"

section \<open>Tasks and restores\<close>

definition Cli_RunTaskRetry :: "string list \<Rightarrow> 'w host \<Rightarrow> outcome \<times> 'w host" where
  "Cli_RunTaskRetry argv h =
     (if length argv < 4 then (misused netdisk_usage, h)
      else with_runtime (argv ! 2) (\<lambda>rt.
        let detail = (if length argv \<ge> 5 then argv ! 4 else ''manual retry requested'');
            (status, rt) = on_store (RetryTask (argv ! 3) detail) rt
        in (conclude 2 ''task retry failed'' (println [''task_retry_ok task='', argv ! 3]) status, rt)) h)"

definition RunRestoreSubmit :: "string list \<Rightarrow> 'w host \<Rightarrow> outcome \<times> 'w host" where
  "RunRestoreSubmit argv h =
     (if length argv < 8 then (misused netdisk_usage, h)
      else with_runtime (argv ! 2) (\<lambda>rt.
        let rt = EnsureNode (argv ! 5) rt;
            rt = EnsureNode (argv ! 6) rt;
            request = RestoreRequest_init\<lparr>restore_request_id := argv ! 3, restore_file_id := argv ! 4,
              restore_source_node_id := argv ! 5, restore_target_node_id := argv ! 6,
              restore_destination_path := argv ! 7, restore_created_at_epoch := rt_now rt\<rparr>;
            (status, rt) = SubmitRestore request rt
        in (conclude 2 ''restore submit failed''
              (println [''restore_ok requests='', to_string (length (Recovery_ListRestoreRequests rt))]) status, rt)) h)"

definition RunRestoreRun :: "FdfsApi \<Rightarrow> string list \<Rightarrow> 'w host \<Rightarrow> outcome \<times> 'w host" where
  "RunRestoreRun api argv h =
     (if length argv < 4 then (misused netdisk_usage, h)
      else with_runtime (argv ! 2) (\<lambda>rt.
        let (status, rt) = ExecuteRestore api (argv ! 3) rt
        in (conclude 2 ''restore run failed'' (println [''restore_run_ok request='', argv ! 3]) status, rt)) h)"

definition Cli_RunRestoreRetry :: "FdfsApi \<Rightarrow> string list \<Rightarrow> 'w host \<Rightarrow> outcome \<times> 'w host" where
  "Cli_RunRestoreRetry api argv h =
     (if length argv < 4 then (misused netdisk_usage, h)
      else with_runtime (argv ! 2) (\<lambda>rt.
        let (status, rt) = RetryRestore api (argv ! 3) rt
        in (conclude 2 ''restore retry failed'' (println [''restore_retry_ok request='', argv ! 3]) status, rt)) h)"

definition RunRestoreLatest :: "FdfsApi \<Rightarrow> string list \<Rightarrow> 'w host \<Rightarrow> outcome \<times> 'w host" where
  "RunRestoreLatest api argv h =
     (if length argv < 7 then (misused netdisk_usage, h)
      else with_runtime (argv ! 2) (\<lambda>rt.
        let rt = EnsureNode (argv ! 3) rt;
            rt = EnsureNode (argv ! 5) rt;
            (status, rt) = ExecuteLatestRestore api (argv ! 3) (argv ! 4) (argv ! 5) (argv ! 6) rt
        in (conclude 2 ''restore latest failed''
              (println [''restore_latest_ok source_node='', argv ! 3, '' relative_path='', argv ! 4]) status, rt)) h)"

section \<open>The program\<close>

definition netdisk_cli_main :: "FdfsApi \<Rightarrow> string list \<Rightarrow> 'w host \<Rightarrow> outcome \<times> 'w host" where
  "netdisk_cli_main api argv h =
     (if length argv < 2 then (misused netdisk_usage, h)
      else
        let command = argv ! 1
        in if command = ''backup-run'' then Cli_RunBackup api argv h
           else if command = ''share-publish'' then RunSharePublish argv h
           else if command = ''share-receive'' then RunShareReceive argv h
           else if command = ''share-run'' then RunShare argv h
           else if command = ''share-list'' then RunShareList argv h
           else if command = ''share-cleanup'' then RunShareCleanup argv h
           else if command = ''coord-status'' then RunCoordStatus argv h
           else if command = ''task-retry'' then Cli_RunTaskRetry argv h
           else if command = ''inspect'' then RunInspect argv h
           else if command = ''backup-history'' then RunBackupHistory argv h
           else if command = ''restore-submit'' then RunRestoreSubmit argv h
           else if command = ''restore-run'' then RunRestoreRun api argv h
           else if command = ''restore-retry'' then Cli_RunRestoreRetry api argv h
           else if command = ''restore-latest'' then RunRestoreLatest api argv h
           else if command = ''share-retry'' then Cli_RunShareRetry argv h
           else (misused netdisk_usage, h))"

section \<open>What every run keeps\<close>

lemma EnsureNode_simps [simp]:
  "rt_fs (EnsureNode n rt) = rt_fs rt" "rt_now (EnsureNode n rt) = rt_now rt"
  "system_inv (rt_store rt) \<Longrightarrow> system_inv (rt_store (EnsureNode n rt))"
  by (simp_all add: EnsureNode_def on_store_def RegisterDevice_def Let_def)

lemma Library_ConfigurePolicy_simps [simp]:
  "rt_fs (snd (Library_ConfigurePolicy p rt)) = rt_fs rt"
  "rt_now (snd (Library_ConfigurePolicy p rt)) = rt_now rt"
  "system_inv (rt_store rt) \<Longrightarrow> system_inv (rt_store (snd (Library_ConfigurePolicy p rt)))"
  by (simp_all add: Library_ConfigurePolicy_def Let_def)

lemma share_entry_ok [simp]: "entry_ok (share_entry n k s d m now)"
  by (simp add: share_entry_def entry_ok_def SharedLibraryEntry_init_def)

lemmas services_inv = ExecuteBackup_inv PublishFile_inv CleanupExpired_inv ExecuteLatestRestore_inv

text \<open>The subcommands that only read.\<close>

lemma inspections_read:
  "snd (RunInspect argv h) = h" "snd (RunBackupHistory argv h) = h" "snd (RunShareList argv h) = h"
  "snd (RunCoordStatus argv h) = h"
proof -
  have reads: "snd (with_runtime p (\<lambda>rt. (out rt, f rt)) h) = h"
    if "\<And>rt. rt_store (f rt) = rt_store rt" "\<And>rt. rt_fs (f rt) = rt_fs rt" for out f p
    using that by (intro with_runtime_reads) simp_all
  show "snd (RunInspect argv h) = h"
    unfolding RunInspect_def Let_def
    by (cases "length argv < 3"; simp only: if_True if_False snd_conv) (rule reads; simp)
  show "snd (RunBackupHistory argv h) = h"
    unfolding RunBackupHistory_def Let_def
    by (cases "length argv < 5"; simp only: if_True if_False snd_conv) (rule reads; simp)
  show "snd (RunShareList argv h) = h"
    unfolding RunShareList_def Let_def
    by (cases "length argv < 5"; simp only: if_True if_False snd_conv) (rule with_runtime_reads; simp)
  show "snd (RunCoordStatus argv h) = h"
    unfolding RunCoordStatus_def Let_def
    by (cases "length argv < 5"; simp only: if_True if_False snd_conv) (rule with_runtime_reads; simp split: sum.split)
qed

lemma backup_run_inv:
  assumes "system_inv (rt_store rt)"
  shows "system_inv (rt_store (snd (backup_run api n p b a rt)))"
proof -
  let ?policy = "manual_policy n p (rt_now (EnsureNode n rt))"
  obtain s rt1 where policy: "Backup_ConfigurePolicy ?policy (EnsureNode n rt) = (s, rt1)" by fastforce
  have inv1: "system_inv (rt_store rt1)"
    using Backup_ConfigurePolicy_inv [OF EnsureNode_simps(3) [OF assms, of n], of ?policy] unfolding policy by simp
  have exec: "system_inv (rt_store rt2)" if "ExecuteBackup api job backend rt1 = (x, rt2)" for job backend x rt2
    using ExecuteBackup_inv [OF inv1, of api job backend] that by simp
  show ?thesis
    using inv1 exec unfolding backup_run_def Let_def policy by (simp split: sum.split prod.split)
qed

lemma share_publish_inv:
  assumes "system_inv (rt_store rt)"
    and "\<And>rt. system_inv (rt_store rt) \<Longrightarrow> system_inv (rt_store (snd (continue rt)))"
  shows "system_inv (rt_store (snd (share_publish n k s d m root continue rt)))"
proof -
  obtain st rt1 where policy: "Library_ConfigurePolicy share_policy rt = (st, rt1)" by fastforce
  have inv1: "system_inv (rt_store rt1)" using Library_ConfigurePolicy_simps(3) [OF assms(1), of share_policy]
    unfolding policy by simp
  have publish: "system_inv (rt_store rt2)" if "PublishFile (share_entry n k s d m now) root rt1 = (x, rt2)" for now x rt2
    using PublishFile_inv [OF inv1 share_entry_ok, of n k s d m now root] that by simp
  show ?thesis
    using inv1 publish assms(2) by (simp add: share_publish_def policy split: sum.split prod.split)
qed

lemma receptions_inv:
  assumes "system_inv (rt_store rt)"
  shows "system_inv (rt_store (snd (share_received k d n root rt)))"
    and "system_inv (rt_store (snd (share_receive k n root rt)))"
proof -
  have receive: "system_inv (rt_store rt2)" if "ReceiveEntry k n root rt1 = (x, rt2)" "system_inv (rt_store rt1)" for x rt1 rt2
    using ReceiveEntry_inv [OF that(2), of k n root] that(1) by simp
  then show "system_inv (rt_store (snd (share_received k d n root rt)))"
    using assms by (auto simp: share_received_def split: sum.split prod.split)
  show "system_inv (rt_store (snd (share_receive k n root rt)))"
    using receive [of "EnsureNode n rt"] assms
    by (simp add: share_receive_def Let_def split: sum.split prod.split option.split)
qed

lemma netdisk_writes_inv:
  assumes "host_inv h"
  shows "host_inv (snd (Cli_RunBackup api argv h))" "host_inv (snd (RunShare argv h))"
    "host_inv (snd (RunSharePublish argv h))" "host_inv (snd (RunShareReceive argv h))"
  using assms
  by (simp_all add: Cli_RunBackup_def RunShare_def RunSharePublish_def RunShareReceive_def Let_def with_runtime_inv
      backup_run_inv share_publish_inv receptions_inv)

lemma netdisk_updates_inv:
  assumes "host_inv h"
  shows "host_inv (snd (Cli_RunShareRetry argv h))" "host_inv (snd (RunShareCleanup argv h))"
    "host_inv (snd (Cli_RunTaskRetry argv h))" "host_inv (snd (RunRestoreSubmit argv h))"
    "host_inv (snd (RunRestoreRun api argv h))" "host_inv (snd (Cli_RunRestoreRetry api argv h))"
    "host_inv (snd (RunRestoreLatest api argv h))"
proof -
  have retry: "system_inv (rt_store rt2)" if "RetryReceive k n root rt1 = (x, rt2)" "system_inv (rt_store rt1)"
    for k n root x rt1 rt2
    using RetryReceive_inv [OF that(2), of k n root] that(1) by simp
  show "host_inv (snd (Cli_RunShareRetry argv h))" "host_inv (snd (RunShareCleanup argv h))"
    using assms
    by (auto simp: Cli_RunShareRetry_def RunShareCleanup_def split_beta CleanupExpired_inv dest: retry
        split: sum.split prod.split intro!: with_runtime_inv)
  show "host_inv (snd (Cli_RunTaskRetry argv h))" "host_inv (snd (RunRestoreSubmit argv h))"
    "host_inv (snd (RunRestoreRun api argv h))" "host_inv (snd (Cli_RunRestoreRetry api argv h))"
    "host_inv (snd (RunRestoreLatest api argv h))"
    using assms
    by (simp_all add: Cli_RunTaskRetry_def RunRestoreSubmit_def RunRestoreRun_def Cli_RunRestoreRetry_def
        RunRestoreLatest_def Let_def split_beta with_runtime_inv ExecuteLatestRestore_inv)
qed

lemma netdisk_cli_inv: "host_inv h \<Longrightarrow> host_inv (snd (netdisk_cli_main api argv h))"
  by (simp add: netdisk_cli_main_def Let_def netdisk_writes_inv netdisk_updates_inv inspections_read)

section \<open>Sharing delivers\<close>

lemma share_publish_succeeds:
  assumes "share_publish n k s d m root continue rt = (r, rt')" and "out_end r = Exited 0"
    and "system_inv (rt_store rt)"
  shows "\<exists>data e t rt2. continue rt2 = (r, rt') \<and> system_inv (rt_store rt2) \<and> open_read (rt_fs rt) s = Some data \<and>
    GetSharedLibraryEntry (rt_store rt2) k = Some e \<and> \<not> entry_expired e \<and> entry_display_name e = d \<and>
    entry_at (rt_fs rt2) (entry_source_path e) = Some (RegularFile data t)"
proof -
  obtain p rt1 where policy: "Library_ConfigurePolicy share_policy rt = (p, rt1)" by fastforce
  have rt1: "system_inv (rt_store rt1)" "rt_fs rt1 = rt_fs rt"
    using Library_ConfigurePolicy_simps(3) [OF assms(3), of share_policy] Library_ConfigurePolicy_simps(1) [of share_policy rt]
    unfolding policy by simp_all
  let ?e = "share_entry n k s d m (rt_now rt1)"
  obtain x rt2 where publish: "PublishFile ?e root rt1 = (x, rt2)" by fastforce
  obtain status where x: "x = Inr status" "status_ok status" and run: "continue rt2 = (r, rt')"
    using assms(1,2) by (auto simp: share_publish_def policy publish split: sum.splits if_splits)
  have "system_inv (rt_store rt2)" using PublishFile_inv [OF rt1(1), of ?e root] publish by simp
  moreover have "entry_source_path ?e = s" "entry_entry_id ?e = k" "entry_display_name ?e = d"
    by (simp_all add: share_entry_def)
  ultimately show ?thesis
    using PublishFile_Ok [OF rt1(1) publish [unfolded x(1)] x(2)] run rt1(2) by metis
qed

lemma runtime_of_store [simp]:
  "rt_store (SystemRuntime_new store m fs now ns) = store" "rt_fs (SystemRuntime_new store m fs now ns) = fs"
  by (simp_all add: SystemRuntime_new_def)

text \<open>Publishing and receiving succeed when the copies do.\<close>

lemma PublishFile_accepts:
  assumes "entry_entry_id e \<noteq> []" "entry_owner_node_id e \<noteq> []" "entry_display_name e \<noteq> []" "root \<noteq> []"
    and data: "open_read (rt_fs rt) (entry_source_path e) = Some data"
    and dirs: "create_directories root (rt_fs rt) = Inr fs1"
    and copy: "copy_file (entry_source_path e)
      (path_append root (entry_entry_id e) @ path_extension (entry_source_path e)) fs1 = Inr fs2"
    and inv: "system_inv (rt_store rt)"
  shows "\<exists>rt' e'. PublishFile e root rt = (Inr Status_Ok, rt') \<and> rt_fs rt' = fs2 \<and>
    GetSharedLibraryEntry (rt_store rt') (entry_entry_id e) = Some e' \<and> \<not> entry_expired e' \<and>
    entry_source_path e' =
      lexically_normal (path_append root (entry_entry_id e) @ path_extension (entry_source_path e)) \<and>
    entry_display_name e' = entry_display_name e"
proof -
  let ?s = "entry_source_path e"
  obtain t ck where b: "BuildFileRecord Md5Hasher default_chunker (rt_fs rt) ?s (parent_path ?s) =
      Inr (md5.cut_file ?s (parent_path ?s) default_chunk_size data t, ck)"
    using BuildFileRecord_default_chunker [OF data] by blast
  have regular: "fs_exists (rt_fs rt) ?s" "is_regular_file (rt_fs rt) ?s" "?s \<noteq> []"
    using data by (auto simp: open_read_eq fs_exists_def is_regular_file_def dest: entry_at_file_key)
  show ?thesis
    using assms(1-4) regular inv
    by (auto simp: PublishFile_def Library_BuildFileRecord_def b VerifyFile_cut [OF data] dirs copy PublishEntry_def
        Let_def system_inv_store shared_library_entries_table.get_upsert)
qed

lemma ReceiveEntry_accepts:
  assumes inv: "system_inv (rt_store rt)" and e: "GetSharedLibraryEntry (rt_store rt) k = Some e" "\<not> entry_expired e"
    and "root \<noteq> []" and dirs: "create_directories root (rt_fs rt) = Inr fs1"
    and copy: "copy_file (entry_source_path e) (path_append root (entry_display_name e)) fs1 = Inr fs2"
    and read: "open_read fs2 (path_append root (entry_display_name e)) = Some data"
  shows "fst (ReceiveEntry k n root rt) = Inr Status_Ok"
proof -
  obtain ts rt1 where create: "CreateReceiveTask k n rt = (ts, rt1)" by fastforce
  have ts: "status_ok ts \<or> status_code ts = kAlreadyExists"
    using create e by (auto simp: CreateReceiveTask_def ScheduleTask_def on_store_def Let_def split: if_splits)
  obtain e1 where e1: "GetSharedLibraryEntry (rt_store rt1) k = Some e1" "entry_source_path e1 = entry_source_path e"
      "entry_display_name e1 = entry_display_name e" and fs1: "rt_fs rt1 = rt_fs rt"
    using CreateReceiveTask_keeps [OF system_inv_store [OF inv] e(1) create] by blast
  have inv1: "system_inv (rt_store rt1)" using CreateReceiveTask_inv [OF inv, of k n] create by simp
  obtain bytes where bytes: "open_read fs1 (entry_source_path e) = Some bytes" using copy_file_source [OF copy] by blast
  then have "open_read (rt_fs rt) (entry_source_path e) = Some bytes" using open_read_create_directories [OF dirs] by simp
  then have regular: "fs_exists (rt_fs rt) (entry_source_path e)" "is_regular_file (rt_fs rt) (entry_source_path e)"
    by (auto simp: open_read_eq fs_exists_def is_regular_file_def)
  have "fst (receive_copied e1 k n (path_append root (entry_display_name e)) ts (rt1\<lparr>rt_fs := fs2\<rparr>)) = Inr Status_Ok"
    by (rule receive_copied_accepts [of _ _ data]) (simp_all add: read inv1 e1)
  then show ?thesis
    using assms(4) e e1 fs1 ts regular dirs copy
    by (auto simp: ReceiveEntry_def Library_FindEntry_def create Let_def)
qed

text \<open>The places a share run with these arguments copies to.\<close>

definition library_copy :: "string list \<Rightarrow> path" where
  "library_copy argv = path_append (argv ! 7) (argv ! 4) @ path_extension (argv ! 5)"

definition received_copy :: "string list \<Rightarrow> path" where
  "received_copy argv = path_append (argv ! 9) (argv ! 6)"

lemma share_run_succeeds:
  assumes "host_inv h" and "argv ! 1 = ''share-run''" and n: "length argv \<ge> 10"
    and db: "host_databases h (argv ! 2) = Inr store" and ids: "[] \<notin> {argv ! 3, argv ! 4, argv ! 6, argv ! 7, argv ! 9}"
    and read: "open_read (host_disk h) (argv ! 5) = Some data"
    and publish: "create_directories (argv ! 7) (host_disk h) = Inr fs1" "copy_file (argv ! 5) (library_copy argv) fs1 = Inr fs2"
    and receive: "create_directories (argv ! 9) fs2 = Inr fs3"
      "copy_file (lexically_normal (library_copy argv)) (received_copy argv) fs3 = Inr fs4"
      "fs_readable fs4 (received_copy argv)"
  shows "out_end (fst (netdisk_cli_main api argv h)) = Exited 0"
proof -
  let ?rt = "EnsureNode (argv ! 8) (EnsureNode (argv ! 3)
    (SystemRuntime_new store None (host_disk h) (host_now h) (host_now_ns h)))"
  have inv: "system_inv (rt_store ?rt)" using assms(1) db by (auto simp: host_inv_def)
  obtain p rt1 where policy: "Library_ConfigurePolicy share_policy ?rt = (p, rt1)" by fastforce
  have rt1: "system_inv (rt_store rt1)" "rt_fs rt1 = host_disk h"
    using Library_ConfigurePolicy_simps(3) [OF inv, of share_policy] Library_ConfigurePolicy_simps(1) [of share_policy ?rt]
    unfolding policy by simp_all
  have p: "status_ok p" using policy by (auto simp: Library_ConfigurePolicy_def share_policy_def Let_def)
  let ?e = "share_entry (argv ! 3) (argv ! 4) (argv ! 5) (argv ! 6) ''cli-share'' (rt_now rt1)"
  have fields: "entry_source_path ?e = argv ! 5" "entry_entry_id ?e = argv ! 4" "entry_display_name ?e = argv ! 6"
    "entry_owner_node_id ?e = argv ! 3" by (simp_all add: share_entry_def)
  obtain rt2 e where rt2: "PublishFile ?e (argv ! 7) rt1 = (Inr Status_Ok, rt2)" "rt_fs rt2 = fs2"
      "GetSharedLibraryEntry (rt_store rt2) (argv ! 4) = Some e" "\<not> entry_expired e"
      "entry_source_path e = lexically_normal (library_copy argv)" "entry_display_name e = argv ! 6"
    using PublishFile_accepts [of ?e "argv ! 7" rt1 data fs1 fs2] ids rt1 read publish
    by (auto simp: fields library_copy_def)
  have inv2: "system_inv (rt_store rt2)" using PublishFile_inv [OF rt1(1), of ?e "argv ! 7"] rt2(1) by simp
  obtain bytes where "open_read fs3 (lexically_normal (library_copy argv)) = Some bytes"
    using copy_file_source [OF receive(2)] by blast
  then have "open_read fs4 (received_copy argv) = Some bytes"
    using copy_file_Inr(3) [OF receive(2)] receive(3) by (auto simp: open_read_eq)
  then have "fst (ReceiveEntry (argv ! 4) (argv ! 8) (argv ! 9) rt2) = Inr Status_Ok"
    using ReceiveEntry_accepts [OF inv2 rt2(3,4), of "argv ! 9" fs3 fs4 bytes] ids receive rt2(2,5,6)
    by (auto simp: received_copy_def)
  then have "out_end (fst (share_received (argv ! 4) (argv ! 6) (argv ! 8) (argv ! 9) rt2)) = Exited 0"
    by (cases "ReceiveEntry (argv ! 4) (argv ! 8) (argv ! 9) rt2") (simp add: share_received_def conclude_end)
  then show ?thesis
    using assms(2) n p
    by (simp add: netdisk_cli_main_def RunShare_def with_runtime_def db share_publish_def policy rt2(1) split_beta Let_def)
qed

text \<open>
  C9: A share run that exits with 0 has delivered the file: on a machine with well-formed databases the
  destination directory then holds, under the display name, a file with the bytes the source file had before
  the run, the database holds the entry with the target node as delivered recipient at that path, and the
  program reports the file as received.
\<close>

theorem share_run_delivers:
  assumes "host_inv h" and "argv ! 1 = ''share-run''"
    and "netdisk_cli_main api argv h = (r, h')" and "out_end r = Exited 0"
  shows "\<exists>data t store e n. open_read (host_disk h) (argv ! 5) = Some data \<and>
    entry_at (host_disk h') (path_append (argv ! 9) (argv ! 6)) = Some (RegularFile data t) \<and>
    host_databases h' (argv ! 2) = Inr store \<and> GetSharedLibraryEntry store (argv ! 4) = Some e \<and>
    delivered_to e (argv ! 8) (lexically_normal (path_append (argv ! 9) (argv ! 6))) \<and>
    out_stdout r = println [''share_ok entries='', to_string n, '' received='', ''1'']"
proof -
  have run: "RunShare argv h = (r, h')" and args: "\<not> length argv < 10"
    using assms(2,3,4) by (auto simp: netdisk_cli_main_def RunShare_def Let_def split: if_splits)
  obtain store where db: "host_databases h (argv ! 2) = Inr store"
    using run args assms(4) by (auto simp: RunShare_def with_runtime_def Let_def split: sum.splits)
  let ?rt = "EnsureNode (argv ! 8) (EnsureNode (argv ! 3)
    (SystemRuntime_new store None (host_disk h) (host_now h) (host_now_ns h)))"
  let ?continue = "share_received (argv ! 4) (argv ! 6) (argv ! 8) (argv ! 9)"
  have inv: "system_inv (rt_store ?rt)" using assms(1) db by (auto simp: host_inv_def)
  obtain rt' where body: "share_publish (argv ! 3) (argv ! 4) (argv ! 5) (argv ! 6) ''cli-share'' (argv ! 7) ?continue ?rt = (r, rt')"
    and h': "host_databases h' (argv ! 2) = Inr (rt_store rt')" "host_disk h' = rt_fs rt'"
    using run args by (auto simp: RunShare_def with_runtime_def db Let_def split: prod.splits)
  obtain data e t rt2 where rt2: "?continue rt2 = (r, rt')" "system_inv (rt_store rt2)"
      "GetSharedLibraryEntry (rt_store rt2) (argv ! 4) = Some e"
    and source: "open_read (host_disk h) (argv ! 5) = Some data" and name: "entry_display_name e = argv ! 6"
    and library: "entry_at (rt_fs rt2) (entry_source_path e) = Some (RegularFile data t)"
    using share_publish_succeeds [OF body assms(4) inv] by auto
  obtain status where receive: "ReceiveEntry (argv ! 4) (argv ! 8) (argv ! 9) rt2 = (Inr status, rt')" "status_ok status"
    and out: "r = succeeds (println [''share_ok entries='', to_string (length (ListEntries rt')), '' received='',
      printed_bool (fs_exists (rt_fs rt') (path_append (argv ! 9) (argv ! 6)))])"
    using rt2(1) assms(4) by (auto simp: share_received_def conclude_def split: sum.splits prod.splits if_splits)
  obtain u e' where copy: "entry_at (rt_fs rt') (path_append (argv ! 9) (argv ! 6)) = Some (RegularFile data u)"
    and e': "GetSharedLibraryEntry (rt_store rt') (argv ! 4) = Some e'"
      "delivered_to e' (argv ! 8) (lexically_normal (path_append (argv ! 9) (argv ! 6)))"
    using ReceiveEntry_Ok [OF rt2(2) receive] rt2(3) name library by (auto simp: open_read_eq)
  have "out_stdout r = println [''share_ok entries='', to_string (length (ListEntries rt')), '' received='', ''1'']"
    by (simp add: out fs_exists_def copy printed_bool_def)
  then show ?thesis using source copy e' h' by auto
qed

definition share_arguments :: "string list" where
  "share_arguments =
     [''netdisk_cli'', ''share-run'', ''db'', ''o'', ''e'', ''d/f'', ''g'', ''d'', ''n'', ''d'']"

definition fresh_host :: "unit host" where
  "fresh_host = \<lparr>host_databases = (\<lambda>_. Inr MetadataStore_init), host_disk = sample_fs, host_now = 7,
     host_now_ns = 0, host_net = ()\<rparr>"

lemma fresh_host_inv [simp]: "host_inv fresh_host"
  by (simp add: host_inv_def fresh_host_def)

lemma share_arguments_run: "out_end (fst (netdisk_cli_main offline_api share_arguments fresh_host)) = Exited 0"
proof -
  let ?argv = share_arguments
  have dirs: "create_directories ''d'' sample_fs = Inr sample_fs" using sample_dirs_g by (simp add: path_eval)
  have paths: "library_copy ?argv = ''d/e''" "received_copy ?argv = ''d/g''" "lexically_normal ''d/e'' = ''d/e''"
    by (simp_all add: share_arguments_def library_copy_def received_copy_def path_eval)
  obtain fs2 where library: "copy_file ''d/f'' ''d/e'' sample_fs = Inr fs2"
    and fs2: "fs2 = set_entry ''d/e'' (RegularFile [1, 2, 3] 11) sample_fs"
    by (simp add: copy_file_def open_read_def entry_at_def set_entry_def parent_exists_def path_eval sample_fs_def)
  have dirs2: "create_directories ''d'' fs2 = Inr fs2"
    by (simp add: fs2 create_directories_def directory_keys_def make_directories_def set_entry_def path_eval sample_fs_def)
  obtain fs4 where received: "copy_file ''d/e'' ''d/g'' fs2 = Inr fs4" "fs_readable fs4 ''d/g''"
    by (simp add: fs2 copy_file_def open_read_def entry_at_def set_entry_def parent_exists_def path_eval sample_fs_def)
  have host: "host_databases fresh_host (?argv ! 2) = Inr MetadataStore_init" "host_disk fresh_host = sample_fs"
    by (simp_all add: fresh_host_def)
  show ?thesis
  proof (rule share_run_succeeds [OF fresh_host_inv _ _ host(1)])
    show "?argv ! 1 = ''share-run''" "10 \<le> length ?argv" "[] \<notin> {?argv ! 3, ?argv ! 4, ?argv ! 6, ?argv ! 7, ?argv ! 9}"
      by (simp_all add: share_arguments_def)
    show "open_read (host_disk fresh_host) (?argv ! 5) = Some [1, 2, 3]"
      by (simp add: host share_arguments_def)
    show "create_directories (?argv ! 7) (host_disk fresh_host) = Inr sample_fs"
      "copy_file (?argv ! 5) (library_copy ?argv) sample_fs = Inr fs2"
      unfolding paths host by (simp_all add: share_arguments_def dirs library)
    show "create_directories (?argv ! 9) fs2 = Inr fs2"
      "copy_file (lexically_normal (library_copy ?argv)) (received_copy ?argv) fs2 = Inr fs4"
      "fs_readable fs4 (received_copy ?argv)"
      unfolding paths by (simp_all add: share_arguments_def dirs2 received)
  qed
qed

theorem share_run_delivers_witness:
  "\<exists>t store e. entry_at (host_disk (snd (netdisk_cli_main offline_api share_arguments fresh_host))) ''d/g'' =
      Some (RegularFile [1, 2, 3] t) \<and>
    host_databases (snd (netdisk_cli_main offline_api share_arguments fresh_host)) ''db'' = Inr store \<and>
    GetSharedLibraryEntry store ''e'' = Some e \<and> delivered_to e ''n'' ''d/g''"
proof -
  have args: "share_arguments ! 1 = ''share-run''" "share_arguments ! 2 = ''db''" "share_arguments ! 4 = ''e''"
      "share_arguments ! 5 = ''d/f''" "share_arguments ! 8 = ''n''"
      "path_append (share_arguments ! 9) (share_arguments ! 6) = ''d/g''" "lexically_normal ''d/g'' = ''d/g''"
    by (simp_all add: share_arguments_def path_eval)
  have disk: "host_disk fresh_host = sample_fs" by (simp add: fresh_host_def)
  show ?thesis
    using share_run_delivers [OF fresh_host_inv args(1) prod.collapse [symmetric] share_arguments_run]
    unfolding args disk by auto
qed

section \<open>What registering a node before a restore does\<close>

lemma other_rows_keep_nodes [simp]:
  "GetNode (UpsertScheduledTask t db) n = GetNode db n" "GetNode (UpsertRestoreRequest r db) n = GetNode db n"
  "GetNode (rt_store (Audit_Append e rt)) n = GetNode (rt_store rt) n"
  using Audit_Append_store [of e rt] by (auto simp: GetNode_def store_writes)

lemma SubmitRestore_nodes: "GetNode (rt_store (snd (SubmitRestore r rt))) n = GetNode (rt_store rt) n"
  by (simp add: SubmitRestore_def on_store_def ScheduleTask_def Let_def)

lemma EnsureNode_found:
  assumes "store_inv (rt_store rt)"
  shows "GetNode (rt_store (EnsureNode n rt)) m =
      (if m = n then Some \<lparr>node_node_id = n, node_device_name = n, node_zt_ip = ''127.0.0.1'',
         node_last_seen_epoch = rt_now rt\<rparr> else GetNode (rt_store rt) m)"
    and "store_inv (rt_store (EnsureNode n rt))"
  using assms node_table.get_upsert [OF assms] by (auto simp: EnsureNode_def on_store_def RegisterDevice_def store_inv_upsert)

text \<open>
  C19: Submitting a restore from the command line replaces the records of the source and of the target device:
  whatever name and address they had registered, they are stored under their id at \<^verbatim>\<open>127.0.0.1\<close> and count
  as online from now on, also when the restore itself is refused.
\<close>

theorem restore_submit_resets_devices:
  assumes "host_inv h" and "host_databases h (argv ! 2) = Inr store"
    and "argv ! 1 = ''restore-submit''" and "8 \<le> length argv" and "n \<in> {argv ! 5, argv ! 6}"
    and "host_now h \<noteq> 0"
  shows "\<exists>store'. host_databases (snd (netdisk_cli_main api argv h)) (argv ! 2) = Inr store' \<and>
    GetNode store' n = Some \<lparr>node_node_id = n, node_device_name = n, node_zt_ip = ''127.0.0.1'',
      node_last_seen_epoch = host_now h\<rparr> \<and> IsDeviceOnline store' n (host_now h) offline_after"
proof -
  let ?rt = "SystemRuntime_new store None (host_disk h) (host_now h) (host_now_ns h)"
  have inv: "store_inv (rt_store ?rt)" using assms(1,2) by (auto simp: host_inv_def)
  have now: "rt_now ?rt = host_now h" by (simp add: SystemRuntime_new_def)
  have "\<exists>r. host_databases (snd (netdisk_cli_main api argv h)) (argv ! 2) =
      Inr (rt_store (snd (SubmitRestore r (EnsureNode (argv ! 6) (EnsureNode (argv ! 5) ?rt)))))"
    using assms(2-4) by (auto simp: netdisk_cli_main_def RunRestoreSubmit_def with_runtime_def split_beta Let_def)
  moreover have "GetNode (rt_store (EnsureNode (argv ! 6) (EnsureNode (argv ! 5) ?rt))) n =
      Some \<lparr>node_node_id = n, node_device_name = n, node_zt_ip = ''127.0.0.1'', node_last_seen_epoch = host_now h\<rparr>"
    using assms(5) EnsureNode_found(1) [OF EnsureNode_found(2) [OF inv]] EnsureNode_found(1) [OF inv] now by auto
  ultimately show ?thesis
    using assms(6) by (auto simp: SubmitRestore_nodes IsDeviceOnline_def FindDevice_def)
qed

theorem restore_submit_resets_devices_witness:
  "let laptop = \<lparr>node_node_id = ''a'', node_device_name = ''laptop'', node_zt_ip = ''10.0.0.5'', node_last_seen_epoch = 1\<rparr>;
       h = fresh_host\<lparr>host_databases := (\<lambda>_. Inr (UpsertNode laptop MetadataStore_init))\<rparr>;
       argv = [''netdisk_cli'', ''restore-submit'', ''db'', ''r'', ''f'', ''a'', ''b'', ''p'']
   in GetNode (UpsertNode laptop MetadataStore_init) ''a'' = Some laptop \<and>
      (\<exists>store'. host_databases (snd (netdisk_cli_main offline_api argv h)) ''db'' = Inr store' \<and>
        map_option node_zt_ip (GetNode store' ''a'') = Some ''127.0.0.1'' \<and> IsDeviceOnline store' ''a'' 7 30)"
proof -
  let ?laptop = "\<lparr>node_node_id = ''a'', node_device_name = ''laptop'', node_zt_ip = ''10.0.0.5'', node_last_seen_epoch = 1\<rparr>"
  let ?h = "fresh_host\<lparr>host_databases := (\<lambda>_. Inr (UpsertNode ?laptop MetadataStore_init))\<rparr>"
  have "host_inv ?h" by (simp add: host_inv_def)
  moreover have "GetNode (UpsertNode ?laptop MetadataStore_init) ''a'' = Some ?laptop"
    by (simp add: node_table.get_upsert)
  moreover have "host_now ?h = 7" by (simp add: fresh_host_def)
  ultimately show ?thesis
    using restore_submit_resets_devices [of ?h
      "[''netdisk_cli'', ''restore-submit'', ''db'', ''r'', ''f'', ''a'', ''b'', ''p'']"
      "UpsertNode ?laptop MetadataStore_init" "''a''" offline_api 30]
    by (auto simp: Let_def)
qed

end
