(* ===== verification/Machine.thy ===== *)
theory Machine
  imports Control_Report Netdisk_Cli
begin

text \<open>
  The programs on one machine: the control node program and the local command line in any order, over the
  databases and the disk of the machine, with everything else that may change between two runs. The
  property is what all of them keep true of every database.
\<close>

section \<open>The control node program\<close>

text \<open>Between two clients of a server only the clock, the disk and the tables outside the store change.\<close>

definition sockets_ok :: "listen_socket \<Rightarrow> bool" where
  "sockets_ok sockets \<longleftrightarrow>
     (\<forall>host port env clients i rt. sockets host port = Listening env clients \<longrightarrow> rt_store (env i rt) = rt_store rt)"

lemma HandleClient_inv:
  "system_inv (rt_store rt) \<Longrightarrow> system_inv (rt_store (snd (HandleClient api off conn rt)))"
  using HandleCommand_inv [of rt api off "ParseRequest (snd (ReadLine conn))"]
  by (simp add: HandleClient_def split_beta Let_def split: sum.split prod.split)

lemma ServeLoop_control_inv:
  assumes "\<And>i rt. rt_store (env i rt) = rt_store rt" and "system_inv (rt_store rt)"
  shows "system_inv (rt_store (snd (ServeLoop_control api off env clients rt)))"
  using assms(2)
proof (induction clients arbitrary: rt)
  case (Cons c clients)
  show ?case
  proof (cases c)
    case (Accepted conn)
    have "system_inv (rt_store rt')" if "HandleClient api off conn (env (length clients) rt) = (x, rt')" for x rt'
      using HandleClient_inv [of "env (length clients) rt" api off conn] Cons.prems assms(1) that by simp
    then show ?thesis using Cons.IH Accepted by (auto split: sum.split prod.split)
  qed (use Cons in simp_all)
qed simp

lemma RunServe_inv:
  assumes "host_inv h" and "sockets_ok sockets"
  shows "host_inv (snd (RunServe api sockets argv h))"
proof -
  have serve: "system_inv (rt_store rt')"
    if "ControlNodeServer_Serve api sockets host port off rt = (x, rt')" "system_inv (rt_store rt)" for host port off rt x rt'
  proof (cases "sockets host port")
    case (Listening env clients)
    then have "rt_store (env i rt) = rt_store rt" for i rt using assms(2) unfolding sockets_ok_def by blast
    then show ?thesis
      using ServeLoop_control_inv [of env rt api off clients] that Listening by (simp add: ControlNodeServer_Serve_def)
  qed (use that in \<open>auto simp: ControlNodeServer_Serve_def\<close>)
  show ?thesis
    using assms(1)
    by (auto simp: RunServe_def Let_def split: sum.split prod.split option.split intro!: evaluated_inv with_runtime_inv
        dest: serve)
qed

lemma control_retries_inv:
  assumes "host_inv h"
  shows "host_inv (snd (RunTaskRetry argv h))" "host_inv (snd (RunShareRetry argv h))"
    "host_inv (snd (RunRestoreRetry api argv h))"
proof -
  have retry: "system_inv (rt_store rt2)" if "RetryReceive k n root rt1 = (x, rt2)" "system_inv (rt_store rt1)"
    for k n root x rt1 rt2
    using RetryReceive_inv [OF that(2), of k n root] that(1) by simp
  show "host_inv (snd (RunTaskRetry argv h))" "host_inv (snd (RunRestoreRetry api argv h))"
    using assms
    by (simp_all add: RunTaskRetry_def RunRestoreRetry_def Control_RetryTask_def Control_RetryRestore_def
        split_beta Let_def with_runtime_inv)
  show "host_inv (snd (RunShareRetry argv h))"
    using assms
    by (auto simp: RunShareRetry_def RetrySharedReceive_def dest: retry split: sum.split prod.split
        intro!: with_runtime_inv)
qed

lemma control_remote_inv:
  assumes "host_inv h"
  shows "host_inv (snd (RunSubmitBackup net argv h))" "host_inv (snd (RunSubmitRestore net argv h))"
    "host_inv (snd (RunSubmitShareReceive net argv h))" "host_inv (snd (RunRetryTaskRemote net argv h))"
    "host_inv (snd (RunRetryRestoreRemote net argv h))" "host_inv (snd (RunRetryShareRemote net argv h))"
  using assms
  by (simp_all add: RunSubmitBackup_def RunSubmitRestore_def RunSubmitShareReceive_def RunRetryTaskRemote_def
      RunRetryRestoreRemote_def RunRetryShareRemote_def Let_def evaluated_inv over_network_inv)

lemma control_node_main_inv:
  assumes "host_inv h" and "sockets_ok sockets"
  shows "host_inv (snd (control_node_main api sockets net argv h))"
  using assms
  by (simp add: control_node_main_def Let_def RunServe_inv control_retries_inv control_remote_inv listings_read)

section \<open>Runs of the programs on a machine\<close>

inductive machine_step :: "FdfsApi \<Rightarrow> 'w host \<Rightarrow> 'w host \<Rightarrow> bool" for api where
  control: "sockets_ok sockets \<Longrightarrow> machine_step api h (snd (control_node_main api sockets net argv h))"
| local: "machine_step api h (snd (netdisk_cli_main api argv h))"
| elapse: "host_databases h' = host_databases h \<Longrightarrow> machine_step api h h'"

text \<open>At the start every database file is missing or empty, or cannot be opened.\<close>

inductive machine_reach :: "FdfsApi \<Rightarrow> 'w host \<Rightarrow> bool" for api where
  start: "(\<And>p. host_databases h p = Inr MetadataStore_init \<or> (\<exists>e. host_databases h p = Inl e)) \<Longrightarrow> machine_reach api h"
| run: "machine_reach api h \<Longrightarrow> machine_step api h h' \<Longrightarrow> machine_reach api h'"

lemma machine_step_inv: "machine_step api h h' \<Longrightarrow> host_inv h \<Longrightarrow> host_inv h'"
proof (induction rule: machine_step.induct)
  case (elapse h' h)
  then show ?case by (simp add: host_inv_def)
qed (simp_all add: control_node_main_inv netdisk_cli_inv)

lemma machine_reach_inv: "machine_reach api h \<Longrightarrow> host_inv h"
proof (induction rule: machine_reach.induct)
  case (start h)
  then show ?case by (metis Inl_Inr_False Inr_inject host_inv_def system_inv_init)
qed (rule machine_step_inv)



end
