(* ===== verification/Control_Remote.thy ===== *)
theory Control_Remote
  imports Control_Cli
begin

text \<open>
  The control node program as the client of a control node that serves: what a submitted backup leaves at
  the server.
\<close>

section \<open>A submitted backup at the server\<close>

text \<open>The server splits the line at blanks and joins the words of the path again, with one blank each.\<close>

definition heard_path :: "string \<Rightarrow> path" where
  "heard_path p = join_with '' '' (heard p)"

definition remote_job :: "u64 \<Rightarrow> BackupJob \<Rightarrow> BackupJob" where
  "remote_job now job = \<lparr>job_job_id = job_job_id job, job_node_id = job_node_id job,
     job_source_path = heard_path (job_source_path job), job_destination_label = ''remote-submitted'',
     job_created_at_epoch = now\<rparr>"

lemma other_rows_keep:
  "GetNode (UpsertScheduledTask t db) n = GetNode db n" "GetNode (UpsertBackupJob j db) n = GetNode db n"
  "GetNode (UpsertBackupPolicy p db) n = GetNode db n"
  "GetNode (rt_store (Audit_Append e rt)) n = GetNode (rt_store rt) n"
  "ListBackupPolicies (UpsertScheduledTask t db) = ListBackupPolicies db"
  "ListBackupPolicies (rt_store (Audit_Append e rt)) = ListBackupPolicies (rt_store rt)"
  "GetScheduledTaskRecord (UpsertBackupJob j db) k = GetScheduledTaskRecord db k"
  "GetScheduledTaskRecord (rt_store (Audit_Append e rt)) k = GetScheduledTaskRecord (rt_store rt) k"
  "GetBackupJob (rt_store (Audit_Append e rt)) k = GetBackupJob (rt_store rt) k"
  using Audit_Append_store [of e rt] by (auto simp: store_reads store_writes)

lemma StartBackup_accepts:
  assumes "[] \<notin> {job_job_id job, job_node_id job, job_source_path job}"
    and "ListBackupPoliciesForNode (rt_store rt) (job_node_id job) \<noteq> []" and inv: "store_inv (rt_store rt)"
  shows "\<exists>rt' t. StartBackup job rt = (Status_Ok, rt') \<and> GetScheduledTaskRecord (rt_store rt') (job_job_id job) = Some t \<and>
    task_domain t = DomainBackup \<and> task_state t = JobQueued \<and> task_source_node t = job_node_id job \<and>
    task_target_node t = job_node_id job \<and> task_detail t = job_source_path job \<and>
    GetBackupJob (rt_store rt') (job_job_id job) = Some job \<and>
    (\<forall>n. GetNode (rt_store rt') n = GetNode (rt_store rt) n)"
  using assms
  by (auto simp: StartBackup_def ScheduleTask_def on_store_def other_rows_keep Let_def ScheduledTaskRecord_init_def
      scheduled_tasks_table.get_upsert [OF inv] backup_jobs_table.get_upsert store_inv_upsert)

lemma ConfigurePolicy_accepts:
  assumes "[] \<notin> {bpolicy_policy_id p, bpolicy_node_id p, bpolicy_source_path p}" and "store_inv (rt_store rt)"
  shows "\<exists>rt'. Backup_ConfigurePolicy p rt = (Status_Ok, rt') \<and> store_inv (rt_store rt') \<and> rt_now rt' = rt_now rt \<and>
    ListBackupPoliciesForNode (rt_store rt') (bpolicy_node_id p) \<noteq> [] \<and>
    (\<forall>n. GetNode (rt_store rt') n = GetNode (rt_store rt) n)"
proof -
  have "p \<in> set (ListBackupPolicies (UpsertBackupPolicy p (rt_store rt)))"
    by (simp add: ListBackupPolicies_def UpsertBackupPolicy_def)
  then show ?thesis
    using assms
    by (auto simp: Backup_ConfigurePolicy_def Policies_UpsertBackupPolicy_def on_store_def other_rows_keep Let_def
        ListBackupPoliciesForNode_def filter_empty_conv store_inv_upsert)
qed

lemma SubmitBackup_link:
  assumes words: "is_word (job_job_id job)" "is_word (job_node_id job)" and path: "heard (job_source_path job) \<noteq> []"
    and inv: "store_inv (rt_store rt)"
  shows "\<exists>rt' t. Client_SubmitBackupJob (control_link api off) job (Some rt) = (Status_Ok, Some rt') \<and>
    GetScheduledTaskRecord (rt_store rt') (job_job_id job) = Some t \<and> task_domain t = DomainBackup \<and>
    task_state t = JobQueued \<and> task_source_node t = job_node_id job \<and> task_target_node t = job_node_id job \<and>
    task_detail t = heard_path (job_source_path job) \<and>
    GetBackupJob (rt_store rt') (job_job_id job) = Some (remote_job (rt_now rt) job) \<and>
    GetNode (rt_store rt') (job_node_id job) = Some \<lparr>node_node_id = job_node_id job,
      node_device_name = job_node_id job, node_zt_ip = ''pending'', node_last_seen_epoch = rt_now rt\<rparr>"
proof -
  let ?k = "job_job_id job" and ?n = "job_node_id job" and ?p = "heard_path (job_source_path job)"
  let ?args = "?k # ?n # heard (job_source_path job)"
  let ?node = "\<lparr>node_node_id = ?n, node_device_name = ?n, node_zt_ip = ''pending'', node_last_seen_epoch = rt_now rt\<rparr>"
  let ?policy = "BackupPolicy_init\<lparr>bpolicy_policy_id := ''remote-policy-'' @ ?n, bpolicy_node_id := ?n,
    bpolicy_source_path := ?p, bpolicy_schedule_expression := ''remote-submit'', bpolicy_created_at_epoch := rt_now rt\<rparr>"
  obtain w ws where heard: "heard (job_source_path job) = w # ws" using path by (cases "heard (job_source_path job)") auto
  have w: "w \<noteq> []" using tokens_are_words [of w "received (job_source_path job)"] heard
    by (simp add: heard_def is_word_def)
  have ne: "?k \<noteq> []" "?n \<noteq> []" "?p \<noteq> []"
    using words w by (cases ws; simp add: heard_path_def heard is_word_def)+
  let ?rt1 = "rt\<lparr>rt_store := UpsertNode ?node (rt_store rt)\<rparr>"
  have "store_inv (rt_store ?rt1)" using inv by (simp add: store_inv_upsert)
  then obtain rt2 where policy: "Backup_ConfigurePolicy ?policy ?rt1 = (Status_Ok, rt2)" "store_inv (rt_store rt2)"
      "rt_now rt2 = rt_now rt" "ListBackupPoliciesForNode (rt_store rt2) ?n \<noteq> []"
      "GetNode (rt_store rt2) ?n = Some ?node"
    using ConfigurePolicy_accepts [of ?policy ?rt1] ne node_table.get_upsert [OF inv] by auto
  obtain rt3 t where start: "StartBackup (remote_job (rt_now rt) job) rt2 = (Status_Ok, rt3)"
      "GetScheduledTaskRecord (rt_store rt3) ?k = Some t" "task_domain t = DomainBackup" "task_state t = JobQueued"
      "task_source_node t = ?n" "task_target_node t = ?n" "task_detail t = ?p"
      "GetBackupJob (rt_store rt3) ?k = Some (remote_job (rt_now rt) job)" "GetNode (rt_store rt3) ?n = Some ?node"
    using StartBackup_accepts [of "remote_job (rt_now rt) job" rt2] ne policy by (auto simp: remote_job_def)
  have join: "JoinArgs ?args 2 = ?p" by (simp add: JoinArgs_def heard_path_def numeral_2_eq_2)
  have "HandleSubmitBackup ?args rt = (answer Status_Ok ''OK BACKUP_SUBMITTED'', rt3)"
    using policy(1,3) start(1) join
    by (simp add: HandleSubmitBackup_def heard on_store_def RegisterDevice_def remote_job_def Let_def numeral_2_eq_2)
  moreover have "ParseRequest (received (''SUBMIT_BACKUP '' @ ?k @ '' '' @ ?n @ '' '' @ job_source_path job)) =
      \<lparr>req_command = ''SUBMIT_BACKUP'', req_args = ?args\<rparr>"
    using ParseRequest_words [of "''SUBMIT_BACKUP''" "[?k, ?n]" "job_source_path job"] words by auto
  ultimately have "HandleCommand api off (ParseRequest (received (''SUBMIT_BACKUP '' @ ?k @ '' '' @ ?n @ '' '' @
      job_source_path job))) rt = (Inr (answer Status_Ok ''OK BACKUP_SUBMITTED''), rt3)"
    by (simp add: HandleCommand_def)
  then have "Client_SubmitBackupJob (control_link api off) job (Some rt) = (relayed Status_Ok, Some rt3)"
    unfolding Client_SubmitBackupJob_def
    by (rule expect_line_link) (simp_all add: plain_line_def newline_def starts_with_def Status_Ok_def)
  then show ?thesis using start by auto
qed

text \<open>
  C18: Against a serving control node, \<^verbatim>\<open>submit-backup\<close> with a job id and a node id that are single words
  exits with 0, and the server then has the queued backup task and the job of that id for that node. The
  path they carry is the given one with every run of blanks made one blank (and nothing behind a line end),
  and the record of the device, whatever it was, is replaced by one named by its id at the address
  \<^verbatim>\<open>pending\<close>.
\<close>

theorem submit_backup_reaches_server:
  assumes "argv ! 1 = ''submit-backup''" and "7 \<le> length argv" and "\<not> WantsJson argv"
    and "ParsePort (argv ! 3) = Inr port" and "is_word (argv ! 4)" and "is_word (argv ! 5)"
    and "heard (JoinArgs argv 6) \<noteq> []" and "host_net h = Some rt" and "store_inv (rt_store rt)"
  shows "\<exists>rt' t job. control_node_main api sockets (\<lambda>_ _. control_link api off) argv h =
      (succeeds (println [''submit_backup_ok job='', argv ! 4]), h\<lparr>host_net := Some rt'\<rparr>) \<and>
    GetScheduledTaskRecord (rt_store rt') (argv ! 4) = Some t \<and> task_domain t = DomainBackup \<and>
    task_state t = JobQueued \<and> task_source_node t = argv ! 5 \<and> task_target_node t = argv ! 5 \<and>
    task_detail t = heard_path (JoinArgs argv 6) \<and>
    GetBackupJob (rt_store rt') (argv ! 4) = Some job \<and> job_source_path job = heard_path (JoinArgs argv 6) \<and>
    GetNode (rt_store rt') (argv ! 5) = Some \<lparr>node_node_id = argv ! 5, node_device_name = argv ! 5,
      node_zt_ip = ''pending'', node_last_seen_epoch = rt_now rt\<rparr>"
proof -
  let ?job = "\<lparr>job_job_id = argv ! 4, job_node_id = argv ! 5, job_source_path = JoinArgs argv 6,
    job_destination_label = ''service-submitted'', job_created_at_epoch = host_now h\<rparr>"
  obtain rt' t where call: "Client_SubmitBackupJob (control_link api off) ?job (Some rt) = (Status_Ok, Some rt')"
    and stored: "GetScheduledTaskRecord (rt_store rt') (argv ! 4) = Some t" "task_domain t = DomainBackup"
      "task_state t = JobQueued" "task_source_node t = argv ! 5" "task_target_node t = argv ! 5"
      "task_detail t = heard_path (JoinArgs argv 6)"
      "GetBackupJob (rt_store rt') (argv ! 4) = Some (remote_job (rt_now rt) ?job)"
      "GetNode (rt_store rt') (argv ! 5) = Some \<lparr>node_node_id = argv ! 5, node_device_name = argv ! 5,
        node_zt_ip = ''pending'', node_last_seen_epoch = rt_now rt\<rparr>"
    using SubmitBackup_link [of ?job rt api off] assms(5-7,9) by auto
  have "control_node_main api sockets (\<lambda>_ _. control_link api off) argv h =
      (succeeds (println [''submit_backup_ok job='', argv ! 4]), h\<lparr>host_net := Some rt'\<rparr>)"
    using assms(1-4,8) call
    by (simp add: control_node_main_def RunSubmitBackup_def evaluated_def over_network_def conclude_def Let_def)
  then show ?thesis using stored by (intro exI [of _ rt'] exI [of _ t] exI [of _ "remote_job (rt_now rt) ?job"])
      (simp add: remote_job_def)
qed

definition serving_host :: "SystemRuntime option host" where
  "serving_host = \<lparr>host_databases = (\<lambda>_. Inr MetadataStore_init), host_disk = sample_fs, host_now = 7, host_now_ns = 0,
     host_net = Some (SystemRuntime_new (UpsertNode \<lparr>node_node_id = ''n'', node_device_name = ''laptop'',
       node_zt_ip = ''10.0.0.5'', node_last_seen_epoch = 1\<rparr> MetadataStore_init) None sample_fs 9 9)\<rparr>"

text \<open>A path with two blanks loses one of them.\<close>

theorem submit_backup_reaches_server_witness:
  "let argv = [''control_node'', ''submit-backup'', ''h'', ''1'', ''j'', ''n'', ''a  b'']
   in \<exists>rt' t. snd (control_node_main offline_api (\<lambda>_ _. ListenSocketFailed) (\<lambda>_ _. control_link offline_api 30) argv
        serving_host) = serving_host\<lparr>host_net := Some rt'\<rparr> \<and>
      GetScheduledTaskRecord (rt_store rt') ''j'' = Some t \<and> task_detail t = ''a b'' \<and>
      map_option node_zt_ip (GetNode (rt_store rt') ''n'') = Some ''pending''"
proof -
  let ?argv = "[''control_node'', ''submit-backup'', ''h'', ''1'', ''j'', ''n'', ''a  b'']"
  have path: "JoinArgs ?argv 6 = ''a  b''" by (simp add: JoinArgs_def)
  have "received ''a  b'' = ''a  b''" by (simp add: received_def TrimCarriageReturn_def newline_def)
  moreover have "tokens ''a  b'' = [''a'', ''b'']" by (simp add: tokens.simps is_space_def Let_def)
  ultimately have heard: "heard ''a  b'' = [''a'', ''b'']" by (simp add: heard_def)
  have port: "ParsePort ''1'' = Inr 1"
    by (simp add: ParsePort_def stoull_def is_space_def is_digit_def digit_value_def Let_def)
  show ?thesis
    using submit_backup_reaches_server [of ?argv 1 serving_host "the (host_net serving_host)" offline_api
        "\<lambda>_ _. ListenSocketFailed" 30]
    by (auto simp: path heard port heard_path_def WantsJson_def is_word_def is_space_def serving_host_def
        SystemRuntime_new_def store_inv_upsert Let_def)
qed

end
