(* ===== verification/Device_Agent.thy ===== *)
theory Device_Agent
  imports Program_Host
begin

text \<open>
  \<^verbatim>\<open>src/control_plane/device_agent_service.cpp\<close> and the agent of \<^verbatim>\<open>src/apps/device_agent/main.cpp\<close>: polling the control
  node, executing the tasks it hands out with the local services and reporting their results, and the
  \<^verbatim>\<open>serve\<close> loop with its cycle limit, stop flag and back-off. The local runtime is the one of
  \<open>Control_Plane\<close>; the control node is behind the network of \<open>Control_Client\<close>. What the agent relies on
  there is the interface \<open>task_service\<close>, interpreted on the control node's server at the end.
\<close>

section \<open>Device agent service\<close>

definition Agent_Register :: "'w network \<Rightarrow> NodeInfo \<Rightarrow> 'w \<Rightarrow> Status \<times> 'w" where
  "Agent_Register net node w = Client_RegisterNode net node w"

definition Agent_Heartbeat :: "'w network \<Rightarrow> string \<Rightarrow> u64 \<Rightarrow> 'w \<Rightarrow> Status \<times> 'w" where
  "Agent_Heartbeat net node_id epoch_seconds w = Client_SendHeartbeat net node_id epoch_seconds w"

definition Agent_PollTasks ::
  "'w network \<Rightarrow> string \<Rightarrow> 'w \<Rightarrow> (Status \<times> ScheduledTaskRecord list) result \<times> 'w" where
  "Agent_PollTasks net node_id w = Client_PullTasks net node_id w"

definition Agent_AcknowledgeTask :: "'w network \<Rightarrow> string \<Rightarrow> string \<Rightarrow> 'w \<Rightarrow> Status \<times> 'w" where
  "Agent_AcknowledgeTask net task_id detail w = Client_AcknowledgeTask net task_id detail w"

definition Agent_ReportTaskResult :: "'w network \<Rightarrow> string \<Rightarrow> JobState \<Rightarrow> string \<Rightarrow> 'w \<Rightarrow> Status \<times> 'w" where
  "Agent_ReportTaskResult net task_id state detail w = Client_ReportTaskResult net task_id state detail w"

definition RunBootstrap ::
  "'w network \<Rightarrow> NodeInfo \<Rightarrow> u64 \<Rightarrow> 'w \<Rightarrow> (Status \<times> ScheduledTaskRecord list) result \<times> 'w" where
  "RunBootstrap net node epoch_seconds w =
     (let (status, w) = Agent_Register net node w
      in if \<not> status_ok status then (Inr (status, []), w)
         else let (status, w) = Agent_Heartbeat net (node_node_id node) epoch_seconds w
              in if \<not> status_ok status then (Inr (status, []), w)
                 else Agent_PollTasks net (node_node_id node) w)"

section \<open>Executing tasks\<close>

definition MakeBackupJob :: "ScheduledTaskRecord \<Rightarrow> string \<Rightarrow> BackupJob" where
  "MakeBackupJob task node_id = BackupJob_init\<lparr>
     job_job_id := task_task_id task, job_node_id := node_id, job_source_path := task_detail task,
     job_destination_label := ''agent-exec'', job_created_at_epoch := task_created_at_epoch task\<rparr>"

text \<open>\<open>temp\<close> stands for \<^verbatim>\<open>std::filesystem::temp_directory_path()\<close>.\<close>

definition DefaultMaterializeRoot :: "path \<Rightarrow> string \<Rightarrow> path" where
  "DefaultMaterializeRoot temp node_id = path_append temp (''nodedisk_agent_materialized_'' @ node_id)"

record AgentRunResult =
  run_completed :: u64
  run_failed :: u64

text \<open>
  The report that ends a task, whose status the code ignores, and the counter it increments: \<open>True\<close> for
  \<open>completed\<close>, \<open>False\<close> for \<open>failed\<close>.
\<close>

definition settle ::
  "'w network \<Rightarrow> string \<Rightarrow> Status \<Rightarrow> string \<Rightarrow> SystemRuntime \<times> 'w \<Rightarrow> bool result \<times> SystemRuntime \<times> 'w" where
  "settle net task_id exec_status completed_detail world =
     (let (rt, w) = world
      in if status_ok exec_status then
           (Inr True, rt, snd (Agent_ReportTaskResult net task_id JobCompleted completed_detail w))
         else
           (Inr False, rt, snd (Agent_ReportTaskResult net task_id JobFailed (status_message exec_status) w)))"

definition execute_backup_task ::
  "FdfsApi \<Rightarrow> 'w network \<Rightarrow> NodeInfo \<Rightarrow> string \<Rightarrow> string \<Rightarrow> ScheduledTaskRecord \<Rightarrow> SystemRuntime \<times> 'w \<Rightarrow>
     bool result \<times> SystemRuntime \<times> 'w" where
  "execute_backup_task api net node backend_name backend_arg task world =
     (let (rt, w) = world;
          policy = BackupPolicy_init\<lparr>bpolicy_policy_id := ''agent-policy-'' @ node_node_id node,
            bpolicy_node_id := node_node_id node, bpolicy_source_path := task_detail task,
            bpolicy_created_at_epoch := rt_now rt\<rparr>;
          (_, rt) = Backup_ConfigurePolicy policy rt
      in case CreateStorageBackend backend_name backend_arg of
           Inl e \<Rightarrow> (Inl e, rt, w)
         | Inr backend \<Rightarrow>
             (case ExecuteBackup api (MakeBackupJob task (node_node_id node)) backend rt of
                (Inl e, rt) \<Rightarrow> (Inl e, rt, w)
              | (Inr exec_status, rt) \<Rightarrow>
                  settle net (task_task_id task) exec_status (task_detail task) (rt, w)))"

definition execute_restore_task ::
  "FdfsApi \<Rightarrow> 'w network \<Rightarrow> ScheduledTaskRecord \<Rightarrow> SystemRuntime \<times> 'w \<Rightarrow>
     bool result \<times> SystemRuntime \<times> 'w" where
  "execute_restore_task api net task world =
     (let (rt, w) = world
      in case Client_FetchRestoreBundle net (task_task_id task) RestoreRequest_init StoredObjectRecord_init FileRecord_init w of
           (Inl e, w) \<Rightarrow> (Inl e, rt, w)
         | (Inr (status, request, stored, f), w) \<Rightarrow>
             if \<not> status_ok status then settle net (task_task_id task) status [] (rt, w)
             else
               let rt = write_store (UpsertFile f) rt;
                   rt = write_store (UpsertStoredObject stored) rt;
                   rt = write_store (UpsertRestoreRequest request) rt;
                   (exec_status, rt) = ExecuteRestore api (restore_request_id request) rt
               in settle net (task_task_id task) exec_status (restore_destination_path request) (rt, w))"

definition execute_transfer_task ::
  "path \<Rightarrow> 'w network \<Rightarrow> NodeInfo \<Rightarrow> ScheduledTaskRecord \<Rightarrow> SystemRuntime \<times> 'w \<Rightarrow>
     bool result \<times> SystemRuntime \<times> 'w" where
  "execute_transfer_task temp net node task world =
     (let (rt, w) = world
      in case Client_FetchSharedEntry net (task_related_id task) SharedLibraryEntry_init w of
           (Inl e, w) \<Rightarrow> (Inl e, rt, w)
         | (Inr (status, entry), w) \<Rightarrow>
             if \<not> status_ok status then settle net (task_task_id task) status [] (rt, w)
             else
               let rt = write_store (UpsertSharedLibraryEntry entry) rt;
                   root = DefaultMaterializeRoot temp (node_node_id node)
               in case ReceiveEntry (entry_entry_id entry) (node_node_id node) root rt of
                    (Inl e, rt) \<Rightarrow> (Inl e, rt, w)
                  | (Inr exec_status, rt) \<Rightarrow>
                      settle net (task_task_id task) exec_status
                        (lexically_normal (path_append root (entry_display_name entry))) (rt, w))"

text \<open>
  One round of the loop over the tasks. The last branch of the code, for a domain that is none of the
  three enumerators, cannot be taken.
\<close>

definition execute_task ::
  "FdfsApi \<Rightarrow> path \<Rightarrow> 'w network \<Rightarrow> NodeInfo \<Rightarrow> string \<Rightarrow> string \<Rightarrow> ScheduledTaskRecord \<Rightarrow>
     SystemRuntime \<times> 'w \<Rightarrow> bool result \<times> SystemRuntime \<times> 'w" where
  "execute_task api temp net node backend_name backend_arg task world =
     (let (rt, w) = world;
          (status, w) = Agent_AcknowledgeTask net (task_task_id task) ''accepted by device_agent'' w
      in if \<not> status_ok status then (Inr False, rt, w)
         else case task_domain task of
           DomainBackup \<Rightarrow> execute_backup_task api net node backend_name backend_arg task (rt, w)
         | DomainRestore \<Rightarrow> execute_restore_task api net task (rt, w)
         | DomainTransfer \<Rightarrow> execute_transfer_task temp net node task (rt, w))"

definition count_result :: "bool \<Rightarrow> AgentRunResult \<Rightarrow> AgentRunResult" where
  "count_result completed res =
     (if completed then res\<lparr>run_completed := run_completed res + 1\<rparr>
      else res\<lparr>run_failed := run_failed res + 1\<rparr>)"

fun execute_tasks_from ::
  "(ScheduledTaskRecord \<Rightarrow> SystemRuntime \<times> 'w \<Rightarrow> bool result \<times> SystemRuntime \<times> 'w) \<Rightarrow>
     ScheduledTaskRecord list \<Rightarrow> AgentRunResult \<Rightarrow> SystemRuntime \<times> 'w \<Rightarrow>
     AgentRunResult result \<times> SystemRuntime \<times> 'w"
where
  "execute_tasks_from run [] res world = (Inr res, world)"
| "execute_tasks_from run (task # tasks) res world =
     (case run task world of
        (Inl e, world) \<Rightarrow> (Inl e, world)
      | (Inr completed, world) \<Rightarrow> execute_tasks_from run tasks (count_result completed res) world)"

definition ExecuteTasks ::
  "FdfsApi \<Rightarrow> path \<Rightarrow> 'w network \<Rightarrow> NodeInfo \<Rightarrow> string \<Rightarrow> string \<Rightarrow> ScheduledTaskRecord list \<Rightarrow>
     SystemRuntime \<times> 'w \<Rightarrow> AgentRunResult result \<times> SystemRuntime \<times> 'w" where
  "ExecuteTasks api temp net node backend_name backend_arg tasks world =
     execute_tasks_from (execute_task api temp net node backend_name backend_arg) tasks
       \<lparr>run_completed = 0, run_failed = 0\<rparr> world"

section \<open>The serve loop\<close>

text \<open>
  What surrounds the loop: in which cycle, while it runs or while the agent sleeps after it, a signal sets
  the stop flag, and what changes on the device and at the control node during that sleep.
\<close>

record 'w surroundings =
  sur_stop_in_cycle :: "u64 \<Rightarrow> bool"
  sur_stop_in_sleep :: "u64 \<Rightarrow> bool"
  sur_device :: "u64 \<Rightarrow> SystemRuntime \<Rightarrow> SystemRuntime"
  sur_control :: "u64 \<Rightarrow> 'w \<Rightarrow> 'w"

record 'w agent_setup =
  setup_api :: FdfsApi
  setup_temp :: path
  setup_net :: "'w network"
  setup_node :: NodeInfo
  setup_backend_name :: string
  setup_backend_arg :: string
  setup_poll_interval_seconds :: u64
  setup_max_cycles :: u64
  setup_surroundings :: "'w surroundings"

text \<open>The variables of \<open>main\<close>, the durations passed to \<open>sleep_for\<close> and what was printed so far.\<close>

record 'w agent_state =
  agent_rt :: SystemRuntime
  agent_net :: 'w
  agent_stop_requested :: bool
  agent_cycles :: u64
  agent_total_completed :: u64
  agent_total_failed :: u64
  agent_consecutive_bootstrap_failures :: u64
  agent_sleeps :: "u64 list"
  agent_stdout :: string
  agent_stderr :: string

definition agent_start :: "SystemRuntime \<Rightarrow> 'w \<Rightarrow> 'w agent_state" where
  "agent_start rt w = \<lparr>agent_rt = rt, agent_net = w, agent_stop_requested = False, agent_cycles = 0,
     agent_total_completed = 0, agent_total_failed = 0, agent_consecutive_bootstrap_failures = 0, agent_sleeps = [],
     agent_stdout = [], agent_stderr = []\<rparr>"

text \<open>One iteration up to \<^verbatim>\<open>++cycles\<close>; an exception leaves what was done before it.\<close>

definition agent_cycle :: "'w agent_setup \<Rightarrow> 'w agent_state \<Rightarrow> unit result \<times> 'w agent_state" where
  "agent_cycle cfg st =
     (let node = (setup_node cfg)\<lparr>node_last_seen_epoch := rt_now (agent_rt st)\<rparr>;
          finish = (\<lambda>st. st\<lparr>agent_cycles := agent_cycles st + 1,
            agent_stop_requested := agent_stop_requested st \<or>
              sur_stop_in_cycle (setup_surroundings cfg) (agent_cycles st)\<rparr>)
      in case RunBootstrap (setup_net cfg) node (node_last_seen_epoch node) (agent_net st) of
           (Inl e, w) \<Rightarrow> (Inl e, st\<lparr>agent_net := w\<rparr>)
         | (Inr (status, tasks), w) \<Rightarrow>
             if \<not> status_ok status then
               (Inr (), finish (st\<lparr>agent_net := w,
                 agent_stderr := agent_stderr st @ println [''serve bootstrap failed: '', status_message status],
                 agent_consecutive_bootstrap_failures := agent_consecutive_bootstrap_failures st + 1\<rparr>))
             else
               (case ExecuteTasks (setup_api cfg) (setup_temp cfg) (setup_net cfg) node
                       (setup_backend_name cfg) (setup_backend_arg cfg) tasks (agent_rt st, w) of
                  (Inl e, rt, w) \<Rightarrow>
                    (Inl e, st\<lparr>agent_rt := rt, agent_net := w, agent_consecutive_bootstrap_failures := 0\<rparr>)
                | (Inr res, rt, w) \<Rightarrow>
                    (Inr (), finish (st\<lparr>agent_rt := rt, agent_net := w, agent_consecutive_bootstrap_failures := 0,
                      agent_total_completed := agent_total_completed st + run_completed res,
                      agent_total_failed := agent_total_failed st + run_failed res,
                      agent_stdout := agent_stdout st @
                        println [''cycle='', to_string_u64 (agent_cycles st + 1), '' tasks='', to_string (length tasks),
                          '' completed='', to_string_u64 (run_completed res), '' failed='',
                          to_string_u64 (run_failed res)]\<rparr>))))"

definition backoff_seconds :: "u64 \<Rightarrow> u64 \<Rightarrow> u64" where
  "backoff_seconds poll_interval_seconds failures =
     (if failures = 0 then poll_interval_seconds
      else min (poll_interval_seconds * push_bit (unat (min failures 4)) 1) 60)"

definition agent_sleep :: "'w agent_setup \<Rightarrow> 'w agent_state \<Rightarrow> 'w agent_state" where
  "agent_sleep cfg st =
     (let s = setup_surroundings cfg; c = agent_cycles st
      in st\<lparr>agent_sleeps := agent_sleeps st @
              [backoff_seconds (setup_poll_interval_seconds cfg) (agent_consecutive_bootstrap_failures st)],
            agent_rt := sur_device s c (agent_rt st), agent_net := sur_control s c (agent_net st),
            agent_stop_requested := agent_stop_requested st \<or> sur_stop_in_sleep s c\<rparr>)"

text \<open>The result is \<open>None\<close> when the loop runs forever.\<close>

partial_function (option) serve_loop ::
  "'w agent_setup \<Rightarrow> 'w agent_state \<Rightarrow> (unit result \<times> 'w agent_state) option"
where
  "serve_loop cfg st =
     (if \<not> (\<not> agent_stop_requested st \<and> (setup_max_cycles cfg = 0 \<or> agent_cycles st < setup_max_cycles cfg)) then
        Some (Inr (), st)
      else case agent_cycle cfg st of
        (Inl e, st) \<Rightarrow> Some (Inl e, st)
      | (Inr _, st) \<Rightarrow>
          if agent_stop_requested st \<or> (setup_max_cycles cfg \<noteq> 0 \<and> agent_cycles st \<ge> setup_max_cycles cfg) then
            Some (Inr (), st)
          else serve_loop cfg (agent_sleep cfg st))"

section \<open>Termination of the loop\<close>

lemma agent_cycle_Inr:
  assumes "agent_cycle cfg st = (Inr (), st')"
  shows "agent_cycles st' = agent_cycles st + 1"
    and "agent_stop_requested st' \<longleftrightarrow>
      agent_stop_requested st \<or> sur_stop_in_cycle (setup_surroundings cfg) (agent_cycles st)"
    and "agent_sleeps st' = agent_sleeps st"
  using assms by (auto simp: agent_cycle_def Let_def split: sum.splits prod.splits if_splits)

lemma agent_sleep_simps [simp]:
  "agent_cycles (agent_sleep cfg st) = agent_cycles st"
  "agent_stop_requested (agent_sleep cfg st) \<longleftrightarrow>
     agent_stop_requested st \<or> sur_stop_in_sleep (setup_surroundings cfg) (agent_cycles st)"
  by (simp_all add: agent_sleep_def Let_def)

lemma serve_loop_reaches:
  assumes "sur_stop_in_cycle (setup_surroundings cfg) c \<or> c + 1 = setup_max_cycles cfg"
    and "setup_max_cycles cfg = 0 \<longrightarrow> sur_stop_in_cycle (setup_surroundings cfg) c"
  shows "\<exists>r. serve_loop cfg st = Some r"
proof (induction "unat (c - agent_cycles st)" arbitrary: st rule: less_induct)
  case less
  show ?case
  proof (cases "\<exists>e st1. agent_cycle cfg st = (Inl e, st1)")
    case True
    then show ?thesis by (subst serve_loop.simps) auto
  next
    case False
    then obtain st1 where Inr: "agent_cycle cfg st = (Inr (), st1)"
      by (cases "agent_cycle cfg st") (metis (full_types) old.sum.exhaust old.unit.exhaust)
    note cyc = agent_cycle_Inr [OF Inr]
    show ?thesis
    proof (cases "agent_cycles st = c")
      case True
      then have "agent_stop_requested st1 \<or> setup_max_cycles cfg \<noteq> 0 \<and> setup_max_cycles cfg \<le> agent_cycles st1"
        using assms cyc by auto
      then show ?thesis by (subst serve_loop.simps) (auto simp: Inr)
    next
      case False
      then have "unat (c - (agent_cycles st + 1)) < unat (c - agent_cycles st)"
        using unat_minus_one [of "c - agent_cycles st"] by (simp add: diff_diff_eq unat_gt_0)
      then have "\<exists>r. serve_loop cfg (agent_sleep cfg st1) = Some r"
        by (intro less.hyps) (simp add: cyc)
      then show ?thesis by (subst serve_loop.simps) (simp add: Inr)
    qed
  qed
qed

text \<open>The rule for what holds of the state in which the loop ends: \<open>I\<close> before a cycle, \<open>J\<close> after it.\<close>

lemma serve_loop_rule:
  fixes cfg :: "'w agent_setup"
  assumes ret: "serve_loop cfg st = Some (Inr (), st')" and "I st"
    and cycle: "\<And>s s1. I s \<Longrightarrow> setup_max_cycles cfg = 0 \<or> agent_cycles s < setup_max_cycles cfg \<Longrightarrow>
      agent_cycle cfg s = (Inr (), s1) \<Longrightarrow> J s1"
    and sleep: "\<And>s1. J s1 \<Longrightarrow> I (agent_sleep cfg s1)"
    and weaken: "\<And>s. I s \<Longrightarrow> J s"
  shows "J st' \<and> (agent_stop_requested st' \<or> setup_max_cycles cfg \<noteq> 0 \<and> setup_max_cycles cfg \<le> agent_cycles st')"
proof -
  let ?m = "setup_max_cycles cfg"
  let ?Q = "\<lambda>s r. I s \<longrightarrow> (fst r = Inr () \<longrightarrow> J (snd r) \<and> (agent_stop_requested (snd r) \<or> ?m \<noteq> 0 \<and> ?m \<le> agent_cycles (snd r)))"
  have "cfg' = cfg \<longrightarrow> ?Q s r" if "serve_loop cfg' s = Some r" for cfg' s r
  proof (rule serve_loop.raw_induct [where P = "\<lambda>c s r. c = cfg \<longrightarrow> ?Q s r", OF _ that], intro impI allI)
    fix f c s r
    assume IH: "\<And>c s r. f c s = Some r \<Longrightarrow> c = cfg \<longrightarrow> ?Q s r"
      and eq: "(if \<not> (\<not> agent_stop_requested s \<and> (setup_max_cycles c = 0 \<or> agent_cycles s < setup_max_cycles c)) then
        Some (Inr (), s)
      else case agent_cycle c s of
        (Inl e, st) \<Rightarrow> Some (Inl e, st)
      | (Inr _, st) \<Rightarrow>
          if agent_stop_requested st \<or> (setup_max_cycles c \<noteq> 0 \<and> agent_cycles st \<ge> setup_max_cycles c) then
            Some (Inr (), st)
          else f c (agent_sleep c st)) = Some r"
      and c: "c = cfg" and I: "I s" and r: "fst r = Inr ()"
    show "J (snd r) \<and> (agent_stop_requested (snd r) \<or> ?m \<noteq> 0 \<and> ?m \<le> agent_cycles (snd r))"
    proof (cases "\<not> agent_stop_requested s \<and> (?m = 0 \<or> agent_cycles s < ?m)")
      case False
      then show ?thesis using eq c r weaken [OF I] by auto
    next
      case go: True
      obtain x s1 where x: "agent_cycle cfg s = (x, s1)" by fastforce
      have "x = Inr ()"
      proof (cases x)
        case (Inl e)
        then have "r = (Inl e, s1)" using eq c go x by auto
        then show ?thesis using r by simp
      qed simp
      with x have s1: "agent_cycle cfg s = (Inr (), s1)" by simp
      then have J: "J s1" using cycle [OF I] go by blast
      from eq have "(if agent_stop_requested s1 \<or> ?m \<noteq> 0 \<and> ?m \<le> agent_cycles s1 then Some (Inr (), s1)
          else f cfg (agent_sleep cfg s1)) = Some r"
        using go unfolding c s1 by simp
      then show ?thesis using r J IH [of cfg "agent_sleep cfg s1" r] sleep [OF J]
        by (cases r) (auto split: if_splits)
    qed
  qed
  from this [OF ret] show ?thesis using \<open>I st\<close> by simp
qed

lemma agent_cycle_le:
  "n = 0 \<or> c < n \<Longrightarrow> n \<noteq> 0 \<longrightarrow> c + 1 \<le> n" for c n :: u64
  by (auto dest: inc_le)

lemma serve_loop_result:
  assumes "serve_loop cfg (agent_start rt w) = Some (Inr (), st')"
    and "\<And>n. P (backoff_seconds (setup_poll_interval_seconds cfg) n)"
  shows "(agent_stop_requested st' \<or> setup_max_cycles cfg \<noteq> 0 \<and> agent_cycles st' = setup_max_cycles cfg) \<and>
    (\<forall>s \<in> set (agent_sleeps st'). P s)"
proof -
  let ?I = "\<lambda>s. (setup_max_cycles cfg \<noteq> 0 \<longrightarrow> agent_cycles s \<le> setup_max_cycles cfg) \<and> (\<forall>x \<in> set (agent_sleeps s). P x)"
  have "?I st' \<and> (agent_stop_requested st' \<or> setup_max_cycles cfg \<noteq> 0 \<and> setup_max_cycles cfg \<le> agent_cycles st')"
  proof (rule serve_loop_rule [OF assms(1), where I = ?I])
    show "?I (agent_start rt w)" by (simp add: agent_start_def)
    show "?I s1" if "?I s" "setup_max_cycles cfg = 0 \<or> agent_cycles s < setup_max_cycles cfg"
      "agent_cycle cfg s = (Inr (), s1)" for s s1
      using that agent_cycle_le [OF that(2)] agent_cycle_Inr [OF that(3)] by simp
    show "?I (agent_sleep cfg s1)" if "?I s1" for s1
      using that assms(2) by (auto simp: agent_sleep_def Let_def)
  qed simp
  then show ?thesis by auto
qed

text \<open>
  C12: The serve loop returns as soon as it has a cycle limit or a stop signal arrives in some cycle, whatever the control
  node answers. When it returns without an exception, it was stopped, or it has run exactly the cycles of the limit.
\<close>

theorem serve_loop_returns:
  assumes "setup_max_cycles cfg \<noteq> 0 \<or> (\<exists>c. sur_stop_in_cycle (setup_surroundings cfg) c)"
  shows "\<exists>r st'. serve_loop cfg (agent_start rt w) = Some (r, st') \<and>
    (r = Inr () \<longrightarrow> agent_stop_requested st' \<or>
       setup_max_cycles cfg \<noteq> 0 \<and> agent_cycles st' = setup_max_cycles cfg)"
proof -
  have "\<exists>r. serve_loop cfg (agent_start rt w) = Some r"
  proof (cases "setup_max_cycles cfg = 0")
    case True
    then obtain c where "sur_stop_in_cycle (setup_surroundings cfg) c" using assms by blast
    then show ?thesis using True by (intro serve_loop_reaches [of cfg c]) simp_all
  next
    case False
    then show ?thesis by (intro serve_loop_reaches [of cfg "setup_max_cycles cfg - 1"]) simp_all
  qed
  then obtain r st' where "serve_loop cfg (agent_start rt w) = Some (r, st')" by fastforce
  then show ?thesis using serve_loop_result [of cfg rt w st' "\<lambda>_. True"] by auto
qed

text \<open>A device whose control node is unreachable.\<close>

definition lonely_setup :: "u64 \<Rightarrow> u64 \<Rightarrow> unit agent_setup" where
  "lonely_setup poll max_cycles = \<lparr>setup_api = offline_api, setup_temp = ''/tmp'',
     setup_net = (\<lambda>payload w. (ConnectFailed ''Connection refused'', w)), setup_node = NodeInfo_init,
     setup_backend_name = ''none'', setup_backend_arg = [], setup_poll_interval_seconds = poll,
     setup_max_cycles = max_cycles,
     setup_surroundings = \<lparr>sur_stop_in_cycle = (\<lambda>_. False), sur_stop_in_sleep = (\<lambda>_. False),
       sur_device = (\<lambda>_ rt. rt), sur_control = (\<lambda>_ w. w)\<rparr>\<rparr>"

definition lonely_message :: string where
  "lonely_message = println [''serve bootstrap failed: '', ''connect failed: Connection refused'']"

lemma lonely_cycle:
  "agent_cycle (lonely_setup poll m) st = (Inr (), st\<lparr>agent_cycles := agent_cycles st + 1,
     agent_consecutive_bootstrap_failures := agent_consecutive_bootstrap_failures st + 1,
     agent_stderr := agent_stderr st @ lonely_message\<rparr>)"
  by (simp add: agent_cycle_def lonely_setup_def RunBootstrap_def Agent_Register_def Client_RegisterNode_def
      expect_line_def SendCommand_def lonely_message_def Let_def)

lemma lonely_setup_simps [simp]:
  "setup_max_cycles (lonely_setup poll m) = m" "setup_poll_interval_seconds (lonely_setup poll m) = poll"
  "setup_surroundings (lonely_setup poll m) = \<lparr>sur_stop_in_cycle = (\<lambda>_. False), sur_stop_in_sleep = (\<lambda>_. False),
     sur_device = (\<lambda>_ rt. rt), sur_control = (\<lambda>_ w. w)\<rparr>"
  by (simp_all add: lonely_setup_def)

lemma lonely_loop:
  "\<not> agent_stop_requested st \<Longrightarrow> agent_cycles st < m \<Longrightarrow> serve_loop (lonely_setup poll m) st =
     (let st = st\<lparr>agent_cycles := agent_cycles st + 1,
            agent_consecutive_bootstrap_failures := agent_consecutive_bootstrap_failures st + 1,
            agent_stderr := agent_stderr st @ lonely_message\<rparr>
      in if m \<le> agent_cycles st then Some (Inr (), st)
         else serve_loop (lonely_setup poll m) (st\<lparr>agent_sleeps := agent_sleeps st @
           [backoff_seconds poll (agent_consecutive_bootstrap_failures st)]\<rparr>))"
  by (cases st, subst serve_loop.simps) (auto simp: lonely_cycle agent_sleep_def Let_def)

lemma lonely_run:
  "serve_loop (lonely_setup 5 3) (agent_start rt ()) =
     Some (Inr (), agent_start rt () \<lparr>agent_cycles := 3, agent_consecutive_bootstrap_failures := 3, agent_sleeps := [10, 20],
       agent_stderr := lonely_message @ lonely_message @ lonely_message\<rparr>)"
  by (simp add: lonely_loop agent_start_def Let_def backoff_seconds_def push_bit_eq_mult min_def word_le_nat_alt
      word_less_nat_alt)

theorem serve_loop_returns_witness:
  "\<exists>st. serve_loop (lonely_setup 5 3) (agent_start (SystemRuntime_new MetadataStore_init None sample_fs 7 7) ()) =
     Some (Inr (), st) \<and> agent_cycles st = 3"
proof -
  let ?rt = "SystemRuntime_new MetadataStore_init None sample_fs 7 7"
  obtain r st where "serve_loop (lonely_setup 5 3) (agent_start ?rt ()) = Some (r, st)"
    "r = Inr () \<longrightarrow> agent_stop_requested st \<or> agent_cycles st = 3"
    using serve_loop_returns [of "lonely_setup 5 3" ?rt "()"] by auto
  then show ?thesis unfolding lonely_run by (auto simp: agent_start_def)
qed

text \<open>
  C38: The agent never sleeps longer than its poll interval or a minute, whichever is larger. After failed
  bootstraps the interval doubles up to sixteen times and is then cut at a minute, as long as
  sixteen intervals fit the 64 bits of the product.
\<close>

theorem backoff_bounds:
  assumes "serve_loop cfg (agent_start rt w) = Some (Inr (), st)"
  shows "(\<forall>s \<in> set (agent_sleeps st). s \<le> max (setup_poll_interval_seconds cfg) 60) \<and>
    (\<forall>poll n. unat poll * 16 < 2 ^ 64 \<longrightarrow> unat (backoff_seconds poll n) =
       (if n = 0 then unat poll else min (unat poll * 2 ^ min (unat n) 4) 60))"
proof -
  have "unat (backoff_seconds poll n) = (if n = 0 then unat poll else min (unat poll * 2 ^ min (unat n) 4) 60)"
    if "unat poll * 16 < 2 ^ 64" for poll n :: u64
  proof -
    have k: "unat (min n 4) = min (unat n) 4" by (simp add: min_def word_le_nat_alt)
    have "2 ^ min (unat n) 4 \<le> (2::nat) ^ 4" by (intro power_increasing) simp_all
    then have "unat poll * 2 ^ min (unat n) 4 \<le> unat poll * 16" by simp
    then have "unat poll * 2 ^ min (unat n) 4 < 2 ^ 64" using that by linarith
    then have "unat (word_of_nat (unat poll * 2 ^ min (unat n) 4) :: u64) = unat poll * 2 ^ min (unat n) 4"
      by (simp only: unsigned_of_nat) (simp add: take_bit_nat_eq_self)
    moreover have "poll * push_bit (unat (min n 4)) 1 = word_of_nat (unat poll * 2 ^ min (unat n) 4)"
      by (simp add: k push_bit_eq_mult)
    ultimately have "unat (poll * push_bit (unat (min n 4)) 1) = unat poll * 2 ^ min (unat n) 4" by (simp only:)
    then show ?thesis by (simp add: backoff_seconds_def min_def word_le_nat_alt)
  qed
  moreover have "backoff_seconds p n \<le> max p 60" for p n
    by (simp add: backoff_seconds_def le_max_iff_disj min_le_iff_disj)
  ultimately show ?thesis
    using serve_loop_result [OF assms, where P = "\<lambda>s. s \<le> max (setup_poll_interval_seconds cfg) 60"] by blast
qed

theorem backoff_bounds_witness:
  "\<exists>st. serve_loop (lonely_setup 5 3) (agent_start (SystemRuntime_new MetadataStore_init None sample_fs 7 7) ()) =
     Some (Inr (), st) \<and> agent_sleeps st = [10, 20] \<and> (\<forall>s \<in> set (agent_sleeps st). s \<le> 60)"
  using backoff_bounds [OF lonely_run] by (simp add: lonely_run)

section \<open>What the agent relies on\<close>

text \<open>
  The promises of the control node to an agent: as long as it serves, it knows the task of an id, an
  acknowledged task is running, a reported task has the reported state, and fetching changes no task.
\<close>

locale task_service =
  fixes net :: "'w network"
    and serving :: "'w \<Rightarrow> bool"
    and task_at :: "'w \<Rightarrow> string \<Rightarrow> ScheduledTaskRecord option"
  assumes acknowledge: "serving w \<Longrightarrow> is_word k \<Longrightarrow> task_at w k = Some t \<Longrightarrow>
      \<exists>w' d'. Client_AcknowledgeTask net k d w = (Status_Ok, w') \<and> serving w' \<and>
        task_at w' = (task_at w)(k \<mapsto> t\<lparr>task_state := JobRunning, task_detail := d'\<rparr>)"
    and report: "serving w \<Longrightarrow> is_word k \<Longrightarrow> task_at w k = Some t \<Longrightarrow>
      \<exists>w' d'. Client_ReportTaskResult net k st d w = (Status_Ok, w') \<and> serving w' \<and>
        task_at w' = (task_at w)(k \<mapsto> t\<lparr>task_state := st, task_detail := d'\<rparr>)"
    and fetch_restore: "serving w \<Longrightarrow>
      \<exists>r w'. Client_FetchRestoreBundle net k q ob f w = (r, w') \<and> serving w' \<and> task_at w' = task_at w"
    and fetch_entry: "serving w \<Longrightarrow>
      \<exists>r w'. Client_FetchSharedEntry net k e w = (r, w') \<and> serving w' \<and> task_at w' = task_at w"
begin

lemma settle_state:
  assumes "serving w" and "is_word k" and "task_at w k = Some t" and "settle net k s d (rt, w) = (Inr b, rt', w')"
  shows "serving w' \<and> (\<exists>d'. task_at w' =
    (task_at w)(k \<mapsto> t\<lparr>task_state := if b then JobCompleted else JobFailed, task_detail := d'\<rparr>))"
proof -
  obtain d1 where "(rt', w') = (rt, snd (Client_ReportTaskResult net k (if b then JobCompleted else JobFailed) d1 w))"
    using assms(4) by (auto simp: settle_def Agent_ReportTaskResult_def split: if_splits)
  then show ?thesis using report [OF assms(1-3), of "if b then JobCompleted else JobFailed" d1] by auto
qed

lemma execute_task_state:
  assumes "serving w" and "is_word (task_task_id task)" and "task_at w (task_task_id task) = Some t"
    and "execute_task api temp net node bn ba task (rt, w) = (Inr b, rt', w')"
  shows "serving w' \<and> (\<exists>d'. task_at w' = (task_at w)(task_task_id task \<mapsto>
    t\<lparr>task_state := if b then JobCompleted else JobFailed, task_detail := d'\<rparr>))"
proof -
  let ?k = "task_task_id task"
  obtain w1 d1 where ack: "Client_AcknowledgeTask net ?k ''accepted by device_agent'' w = (Status_Ok, w1)"
    and w1: "serving w1" "task_at w1 = (task_at w)(?k \<mapsto> t\<lparr>task_state := JobRunning, task_detail := d1\<rparr>)"
    using acknowledge [OF assms(1-3)] by metis
  have settled: "serving w' \<and> (\<exists>d'. task_at w' = (task_at w)(?k \<mapsto>
      t\<lparr>task_state := if b then JobCompleted else JobFailed, task_detail := d'\<rparr>))"
    if "settle net ?k s d (rt2, w2) = (Inr b, rt', w')" "serving w2" "task_at w2 = task_at w1" for s d rt2 w2
    using settle_state [OF that(2) assms(2) _ that(1)] that(3) w1(2) by fastforce
  show ?thesis
  proof (cases "task_domain task")
    case DomainBackup
    then show ?thesis
      using assms(4) settled [OF _ w1(1) refl]
      by (auto simp: execute_task_def Agent_AcknowledgeTask_def ack execute_backup_task_def split_beta Let_def
          split: sum.splits prod.splits)
  next
    case DomainRestore
    obtain r w2 where fetch: "Client_FetchRestoreBundle net ?k RestoreRequest_init StoredObjectRecord_init FileRecord_init w1 = (r, w2)"
      "serving w2" "task_at w2 = task_at w1"
      using fetch_restore [OF w1(1)] by metis
    show ?thesis
      using assms(4) DomainRestore settled [OF _ fetch(2,3)]
      by (auto simp: execute_task_def Agent_AcknowledgeTask_def ack execute_restore_task_def fetch(1) Let_def
          split: sum.splits prod.splits if_splits)
  next
    case DomainTransfer
    obtain r w2 where fetch: "Client_FetchSharedEntry net (task_related_id task) SharedLibraryEntry_init w1 = (r, w2)"
      "serving w2" "task_at w2 = task_at w1"
      using fetch_entry [OF w1(1)] by metis
    show ?thesis
      using assms(4) DomainTransfer settled [OF _ fetch(2,3)]
      by (auto simp: execute_task_def Agent_AcknowledgeTask_def ack execute_transfer_task_def fetch(1) Let_def
          split: sum.splits prod.splits if_splits)
  qed
qed

definition ended :: "'w \<Rightarrow> JobState \<Rightarrow> ScheduledTaskRecord \<Rightarrow> bool" where
  "ended w st task \<longleftrightarrow> map_option task_state (task_at w (task_task_id task)) = Some st"

lemma execute_tasks_state:
  assumes "serving w" and "list_all (\<lambda>t. is_word (task_task_id t) \<and> task_at w (task_task_id t) \<noteq> None) tasks"
    and "distinct (map task_task_id tasks)"
    and "execute_tasks_from (execute_task api temp net node bn ba) tasks res (rt, w) = (Inr res', rt', w')"
  shows "serving w' \<and> (\<forall>k. k \<notin> task_task_id ` set tasks \<longrightarrow> task_at w' k = task_at w k) \<and>
    list_all (\<lambda>t. ended w' JobCompleted t \<or> ended w' JobFailed t) tasks \<and>
    run_completed res' = run_completed res + word_of_nat (length (filter (ended w' JobCompleted) tasks)) \<and>
    run_failed res' = run_failed res + word_of_nat (length (filter (ended w' JobFailed) tasks))"
  using assms
proof (induction tasks arbitrary: rt w res)
  case (Cons task tasks)
  let ?k = "task_task_id task"
  obtain t where t: "is_word ?k" "task_at w ?k = Some t" using Cons.prems(2) by auto
  obtain b rt1 w1 where run: "execute_task api temp net node bn ba task (rt, w) = (Inr b, rt1, w1)"
    and rest: "execute_tasks_from (execute_task api temp net node bn ba) tasks (count_result b res) (rt1, w1) = (Inr res', rt', w')"
    using Cons.prems(4) by (auto split: sum.splits prod.splits)
  obtain d where w1: "serving w1"
    "task_at w1 = (task_at w)(?k \<mapsto> t\<lparr>task_state := if b then JobCompleted else JobFailed, task_detail := d\<rparr>)"
    using execute_task_state [OF Cons.prems(1) t run] by blast
  have new: "?k \<notin> task_task_id ` set tasks" using Cons.prems(3) by simp
  have "list_all (\<lambda>t. is_word (task_task_id t) \<and> task_at w1 (task_task_id t) \<noteq> None) tasks"
    using Cons.prems(2) by (auto simp: list_all_iff w1(2))
  note IH = Cons.IH [OF w1(1) this _ rest]
  have "task_at w' ?k = task_at w1 ?k" using IH Cons.prems(3) new by simp
  then have "map_option task_state (task_at w' ?k) = Some (if b then JobCompleted else JobFailed)" by (simp add: w1(2))
  then have "ended w' st task \<longleftrightarrow> st = (if b then JobCompleted else JobFailed)" for st by (auto simp: ended_def)
  then show ?case using IH Cons.prems(3) new by (cases b) (auto simp: w1(2) count_result_def)
qed simp

end

section \<open>The control node keeps these promises\<close>

definition link_serving :: "SystemRuntime option \<Rightarrow> bool" where
  "link_serving w = (case w of None \<Rightarrow> False | Some rt \<Rightarrow> system_inv (rt_store rt))"

definition link_task :: "SystemRuntime option \<Rightarrow> string \<Rightarrow> ScheduledTaskRecord option" where
  "link_task w k = (case w of None \<Rightarrow> None | Some rt \<Rightarrow> FindTask (rt_store rt) k)"

lemma entry_keeps_tasks: "GetScheduledTaskRecord (UpsertSharedLibraryEntry e db) k = GetScheduledTaskRecord db k"
  by (simp add: GetScheduledTaskRecord_def UpsertSharedLibraryEntry_def)

lemma report_keeps_tasks [simp]:
  "GetScheduledTaskRecord (rt_store (report_restore st d q rt)) k = GetScheduledTaskRecord (rt_store rt) k"
  "GetScheduledTaskRecord (rt_store (report_transfer st d e n rt)) k = GetScheduledTaskRecord (rt_store rt) k"
  by (simp_all add: report_restore_def report_transfer_def Let_def entry_keeps_tasks split: option.splits)

lemma reported_state_name [simp]: "reported_state (JobStateName st) = st"
  by (cases st) (simp_all add: reported_state_def)

lemma HandleReportTask_tasks:
  assumes "store_inv (rt_store rt)" and "GetScheduledTaskRecord (rt_store rt) k = Some t"
  shows "\<exists>d'. \<forall>j. GetScheduledTaskRecord (rt_store (snd (HandleReportTask (k # JobStateName st # ws) rt))) j =
    (if j = k then Some (t\<lparr>task_state := st, task_detail := d'\<rparr>) else GetScheduledTaskRecord (rt_store rt) j)"
proof -
  let ?d = "if length (k # JobStateName st # ws) \<ge> 3 then JoinArgs (k # JobStateName st # ws) 2 else ''task result reported''"
  let ?db = "snd (UpdateTaskState k st ?d (rt_store rt))"
  have "status_ok (fst (UpdateTaskState k st ?d (rt_store rt)))" by (simp add: UpdateTaskState_def assms(2) Let_def)
  then have "GetScheduledTaskRecord (rt_store (snd (HandleReportTask (k # JobStateName st # ws) rt))) j =
      GetScheduledTaskRecord ?db j" for j
    by (simp add: HandleReportTask_def FindTask_def assms(2) on_store_def split_beta Let_def)
  then show ?thesis using UpdateTaskState_find [OF assms(1), of k st ?d] assms(2) by auto
qed

lemma fetch_keeps_control_node:
  assumes "HandleCommand api off (ParseRequest (received c)) rt = (Inr response, rt)"
  shows "SendCommand (control_link api off) c (Some rt) = (decode_reply (terminated response), Some rt)"
  using SendCommand_link [OF assms] .

lemma fetch_commands:
  "\<exists>response. HandleCommand api off (ParseRequest (received (''GET_RESTORE '' @ k))) rt = (Inr response, rt)"
  "\<exists>response. HandleCommand api off (ParseRequest (received (''GET_SHARED_ENTRY '' @ k))) rt = (Inr response, rt)"
  using ParseRequest_words [of "''GET_RESTORE''" "[]" k] ParseRequest_words [of "''GET_SHARED_ENTRY''" "[]" k]
  by (simp_all add: HandleCommand_def)

interpretation control_tasks: task_service "control_link api off" link_serving link_task for api off
proof
  fix w :: "SystemRuntime option" and k d :: string and t :: ScheduledTaskRecord and st :: JobState
  assume "link_serving w" and k: "is_word k" and t: "link_task w k = Some t"
  then obtain rt where w: "w = Some rt" "system_inv (rt_store rt)" by (auto simp: link_serving_def split: option.splits)
  have inv: "store_inv (rt_store rt)" using w(2) by blast
  have get: "GetScheduledTaskRecord (rt_store rt) k = Some t" using t by (simp add: link_task_def w(1) FindTask_def)
  let ?d = "free_detail ''task acknowledged by agent'' (heard d)"
  let ?rt' = "rt\<lparr>rt_store := snd (UpdateTaskState k JobRunning ?d (rt_store rt))\<rparr>"
  have "fst (UpdateTaskState k JobRunning ?d (rt_store rt)) = Status_Ok" by (simp add: UpdateTaskState_def get Let_def)
  then have "Client_AcknowledgeTask (control_link api off) k d w = (Status_Ok, Some ?rt')"
    by (simp add: w(1) AcknowledgeTask_link [OF k] on_store_def split_beta Let_def)
  moreover have "link_serving (Some ?rt')"
    using on_store_services(1) [OF w(2), of k JobRunning ?d] by (simp add: link_serving_def on_store_def split_beta Let_def)
  moreover have "link_task (Some ?rt') = (link_task w)(k \<mapsto> t\<lparr>task_state := JobRunning, task_detail := ?d\<rparr>)"
    using UpdateTaskState_find [OF inv, of k JobRunning ?d] get
    by (auto simp: link_task_def FindTask_def w(1) fun_eq_iff)
  ultimately show "\<exists>w' d'. Client_AcknowledgeTask (control_link api off) k d w = (Status_Ok, w') \<and> link_serving w' \<and>
      link_task w' = (link_task w)(k \<mapsto> t\<lparr>task_state := JobRunning, task_detail := d'\<rparr>)"
    by blast
  have "system_inv (rt_store (snd (HandleReportTask (k # JobStateName st # heard d) rt)))"
    using HandleCommand_inv [OF w(2), of api off "\<lparr>req_command = ''REPORT_TASK'', req_args = k # JobStateName st # heard d\<rparr>"]
    by (simp add: HandleCommand_def split_beta Let_def)
  then show "\<exists>w' d'. Client_ReportTaskResult (control_link api off) k st d w = (Status_Ok, w') \<and> link_serving w' \<and>
      link_task w' = (link_task w)(k \<mapsto> t\<lparr>task_state := st, task_detail := d'\<rparr>)"
    using HandleReportTask_tasks [OF inv get, of st "heard d"]
    by (auto simp: w(1) ReportTaskResult_link [OF k] get link_serving_def link_task_def FindTask_def fun_eq_iff)
next
  fix w :: "SystemRuntime option" and k q ob f e
  assume "link_serving w"
  then obtain rt where w: "w = Some rt" by (auto simp: link_serving_def split: option.splits)
  have "snd (SendCommand (control_link api off) (''GET_RESTORE '' @ k) w) = w"
    "snd (SendCommand (control_link api off) (''GET_SHARED_ENTRY '' @ k) w) = w"
    using fetch_commands [of api off k rt] by (auto dest: fetch_keeps_control_node simp: w)
  then have "snd (Client_FetchRestoreBundle (control_link api off) k q ob f w) = w"
    "snd (Client_FetchSharedEntry (control_link api off) k e w) = w"
    by (auto simp: Client_FetchRestoreBundle_def Client_FetchSharedEntry_def Let_def split_beta)
  then show "\<exists>r w'. Client_FetchRestoreBundle (control_link api off) k q ob f w = (r, w') \<and> link_serving w' \<and> link_task w' = link_task w"
    "\<exists>r w'. Client_FetchSharedEntry (control_link api off) k e w = (r, w') \<and> link_serving w' \<and> link_task w' = link_task w"
    using \<open>link_serving w\<close> by (metis prod.collapse)+
qed

section \<open>Agent and control node together\<close>


text \<open>A control node with one restore task whose stored object it does not know.\<close>

definition sample_node :: SystemRuntime where
  "sample_node = snd (HandleCommand offline_api 30
     \<lparr>req_command = ''SUBMIT_RESTORE'', req_args = [''r'', ''f'', ''s'', ''t'', ''d/g'']\<rparr>
     (SystemRuntime_new MetadataStore_init None sample_fs 7 7))"

definition sample_task :: ScheduledTaskRecord where
  "sample_task = ScheduledTaskRecord_init\<lparr>task_task_id := ''r'', task_domain := DomainRestore, task_related_id := ''f'',
     task_source_node := ''s'', task_target_node := ''t'', task_created_at_epoch := 7, task_detail := ''d/g''\<rparr>"

lemma sample_node_reach: "node_reach offline_api sample_node"
proof -
  have "node_reach offline_api (SystemRuntime_new MetadataStore_init None sample_fs 7 7)"
    by (rule node_start) (simp add: SystemRuntime_new_def)
  then show ?thesis unfolding sample_node_def by (rule node_next) (rule node_step.command)
qed

lemma sample_node_task:
  "FindTask (rt_store sample_node) ''r'' = Some sample_task"
  by (simp add: sample_node_def sample_task_def HandleCommand_def HandleSubmitRestore_def SubmitRestore_def ScheduleTask_def
      on_store_def JoinArgs_def Let_def FindTask_def scheduled_tasks_table.get_upsert SystemRuntime_new_def
      ScheduledTaskRecord_init_def RestoreRequest_init_def)

lemma sample_node_objects: "FindStoredObject (rt_store sample_node) k = None"
  by (simp add: sample_node_def HandleCommand_def HandleSubmitRestore_def SubmitRestore_def ScheduleTask_def on_store_def
      Let_def FindStoredObject_def SystemRuntime_new_def RestoreRequest_init_def)
    (simp add: GetStoredObject_def UpsertScheduledTask_def MetadataStore_init_def)

lemma FetchRestoreBundle_fails:
  assumes "FindStoredObject (rt_store rt) = (\<lambda>_. None)" and "is_word k"
  shows "\<exists>s. Client_FetchRestoreBundle (control_link api off) k q ob f (Some rt) = (Inr (s, q, ob, f), Some rt) \<and> \<not> status_ok s"
proof -
  have "ParseRequest (received (''GET_RESTORE '' @ k)) = \<lparr>req_command = ''GET_RESTORE'', req_args = [k]\<rparr>"
    using ParseRequest_all_words [of "''GET_RESTORE''" "[k]"] assms(2) by simp
  then have cmd: "HandleCommand api off (ParseRequest (received (''GET_RESTORE '' @ k))) rt = (Inr (HandleGetRestore [k] rt), rt)"
    by (simp add: HandleCommand_def)
  obtain m where m: "HandleGetRestore [k] rt = ''ERR '' @ m" "plain_line (''ERR '' @ m)"
  proof (cases "FindRestoreRequest rt k")
    case None
    then show ?thesis using that [of "''restore request not found''"]
      by (simp add: HandleGetRestore_def plain_line_def newline_def)
  next
    case (Some q)
    then show ?thesis using that [of "''stored object not found''"] assms(1)
      by (simp add: HandleGetRestore_def plain_line_def newline_def)
  qed
  have "SendCommand (control_link api off) (''GET_RESTORE '' @ k) (Some rt) =
      (decode_reply (terminated (''ERR '' @ m)), Some rt)"
    using SendCommand_link [OF cmd] by (simp only: m(1))
  then show ?thesis
    using decode_plain [OF m(2)] by (simp add: starts_with_def Client_FetchRestoreBundle_def Let_def)
qed

text \<open>A restore whose object the control node does not know fails, and the round goes on.\<close>

lemma restore_without_object:
  assumes known: "FindTask (rt_store crt) (task_task_id t) \<noteq> None" and word: "is_word (task_task_id t)"
    and objects: "FindStoredObject (rt_store crt) = (\<lambda>_. None)" and domain: "task_domain t = DomainRestore"
  shows "\<exists>w. ExecuteTasks api temp (control_link capi off) node b a [t] (rt, Some crt) =
    (Inr \<lparr>run_completed = 0, run_failed = 1\<rparr>, rt, w)"
proof -
  let ?crt = "crt\<lparr>rt_store := snd (UpdateTaskState (task_task_id t) JobRunning
    (free_detail ''task acknowledged by agent'' (heard ''accepted by device_agent'')) (rt_store crt))\<rparr>"
  have "fst (UpdateTaskState (task_task_id t) JobRunning d (rt_store crt)) = Status_Ok" for d
    using known by (auto simp: UpdateTaskState_def FindTask_def Let_def)
  then have ack: "Client_AcknowledgeTask (control_link capi off) (task_task_id t) ''accepted by device_agent'' (Some crt) =
      (Status_Ok, Some ?crt)"
    by (simp add: AcknowledgeTask_link [OF word] on_store_def split_beta Let_def)
  have "FindStoredObject (rt_store ?crt) = (\<lambda>_. None)"
    using objects by (simp add: FindStoredObject_def fun_eq_iff)
  from FetchRestoreBundle_fails [OF this word] obtain status where
    "Client_FetchRestoreBundle (control_link capi off) (task_task_id t) RestoreRequest_init StoredObjectRecord_init FileRecord_init
       (Some ?crt) = (Inr (status, RestoreRequest_init, StoredObjectRecord_init, FileRecord_init), Some ?crt)" "\<not> status_ok status"
    by blast
  then show ?thesis
    using ack domain by (simp add: ExecuteTasks_def execute_task_def Agent_AcknowledgeTask_def execute_restore_task_def
        settle_def count_result_def Let_def split_beta)
qed


text \<open>
  C39: Retrying a backup task loses what it was to back up. The detail of the task, which the agent takes for
  the source path, is overwritten by the text of the retry, and by a fixed text when the retry has none.
\<close>

theorem retried_backup_loses_source:
  assumes "node_reach capi crt" and "is_word k" and "FindTask (rt_store crt) k = Some task"
  shows "\<exists>crt' task'. Client_RetryTask (control_link capi off) k detail (Some crt) = (Status_Ok, Some crt') \<and>
    FindTask (rt_store crt') k = Some task' \<and> task_state task' = JobQueued \<and> task_domain task' = task_domain task \<and>
    job_source_path (MakeBackupJob task' n) =
      (if heard detail = [] then ''task requeued via control service'' else join_with '' '' (heard detail))"
proof -
  let ?d = "free_detail ''task requeued via control service'' (heard detail)"
  have inv: "store_inv (rt_store crt)" using node_reach_inv [OF assms(1)] by blast
  have get: "GetScheduledTaskRecord (rt_store crt) k = Some task" using assms(3) by (simp add: FindTask_def)
  let ?crt' = "crt\<lparr>rt_store := snd (RetryTask k ?d (rt_store crt))\<rparr>"
  have "fst (RetryTask k ?d (rt_store crt)) = Status_Ok" by (simp add: RetryTask_def get Let_def)
  then have "Client_RetryTask (control_link capi off) k detail (Some crt) = (Status_Ok, Some ?crt')"
    by (simp add: RetryTask_link [OF assms(2)] on_store_def split_beta Let_def)
  then show ?thesis
    using RetryTask_find [OF inv, of k ?d] get
    by (auto simp: FindTask_def MakeBackupJob_def free_detail_def)
qed

theorem retried_backup_loses_source_witness:
  "\<exists>crt' task'. Client_RetryTask (control_link offline_api 30) ''r'' [] (Some sample_node) = (Status_Ok, Some crt') \<and>
    FindTask (rt_store crt') ''r'' = Some task' \<and>
    job_source_path (MakeBackupJob task' ''n'') = ''task requeued via control service''"
proof -
  have r: "is_word ''r''" by (simp add: is_word_def is_space_def)
  have "heard [] = []" by (simp add: heard_def received_def TrimCarriageReturn_def)
  then show ?thesis
    using retried_backup_loses_source [OF sample_node_reach r sample_node_task, of 30 "[]" "''n''"] by auto
qed

end
