(* ===== verification/Agent_Cli.thy ===== *)
theory Agent_Cli
  imports Program_Host Device_Agent
begin

text \<open>
  The subcommands of \<^verbatim>\<open>apps/device_agent/main.cpp\<close> as functions of their arguments and the machine, and
  \<open>main\<close>. The loop behind the subcommand \<^verbatim>\<open>serve\<close> is the subject of \<open>Device_Agent\<close>. The property is what
  one round of the agent leaves behind at a control node that serves it.
\<close>

section \<open>Usage and printing\<close>

definition agent_usage :: string where
  "agent_usage = concat (map (\<lambda>l. l @ [newline])
    [''usage:'',
     ''  device_agent ping <host> <port>'',
     ''  device_agent register <host> <port> <node_id> <device_name> <zt_ip>'',
     ''  device_agent heartbeat <host> <port> <node_id>'',
     ''  device_agent poll <host> <port> <node_id>'',
     ''  device_agent bootstrap <host> <port> <node_id> <device_name> <zt_ip>'',
     ''  device_agent run-once <local_db_path> <host> <port> <node_id> <device_name> <zt_ip> <backend_name> [backend_arg]'',
     ''  device_agent serve <local_db_path> <host> <port> <node_id> <device_name> <zt_ip> <backend_name> [backend_arg] [poll_interval_seconds] [max_cycles]''])"

definition PrintTasks :: "ScheduledTaskRecord list \<Rightarrow> string" where
  "PrintTasks tasks =
     println [''tasks='', to_string (length tasks)] @
     concat (map (\<lambda>task. println [''task '', task_task_id task, '' domain='', to_string (domain_number (task_domain task)),
       '' state='', to_string (state_number (task_state task)), '' source='', task_source_node task,
       '' target='', task_target_node task, '' detail='', task_detail task]) tasks)"

section \<open>Subcommands\<close>

definition agent_ping :: "'w internet \<Rightarrow> string list \<Rightarrow> 'w host \<Rightarrow> outcome \<times> 'w host" where
  "agent_ping net argv h =
     (if length argv < 4 then (misused agent_usage, h)
      else evaluated (ParsePort (argv ! 3)) (\<lambda>port.
        over_network (Client_Ping (net (argv ! 2) port)) (conclude 1 ''ping failed'' (println [''pong'']))) h)"

definition agent_node :: "string list \<Rightarrow> nat \<Rightarrow> u64 \<Rightarrow> NodeInfo" where
  "agent_node argv i now = \<lparr>node_node_id = argv ! i, node_device_name = argv ! (i + 1), node_zt_ip = argv ! (i + 2),
     node_last_seen_epoch = now\<rparr>"

definition agent_register :: "'w internet \<Rightarrow> string list \<Rightarrow> 'w host \<Rightarrow> outcome \<times> 'w host" where
  "agent_register net argv h =
     (if length argv < 7 then (misused agent_usage, h)
      else evaluated (ParsePort (argv ! 3)) (\<lambda>port h.
        over_network (Agent_Register (net (argv ! 2) port) (agent_node argv 4 (host_now h)))
          (conclude 1 ''register failed'' (println [''registered '', argv ! 4])) h) h)"

definition agent_heartbeat :: "'w internet \<Rightarrow> string list \<Rightarrow> 'w host \<Rightarrow> outcome \<times> 'w host" where
  "agent_heartbeat net argv h =
     (if length argv < 5 then (misused agent_usage, h)
      else evaluated (ParsePort (argv ! 3)) (\<lambda>port h.
        over_network (Agent_Heartbeat (net (argv ! 2) port) (argv ! 4) (host_now h))
          (conclude 1 ''heartbeat failed'' (println [''heartbeat '', argv ! 4])) h) h)"

text \<open>The end of a subcommand that fetched tasks: the exception, the failure, or the printed tasks.\<close>

definition conclude_tasks :: "string \<Rightarrow> string \<Rightarrow> (Status \<times> ScheduledTaskRecord list) result \<Rightarrow> outcome" where
  "conclude_tasks failure heading x =
     (case x of
        Inl e \<Rightarrow> terminates e
      | Inr (status, tasks) \<Rightarrow> conclude 1 failure (heading @ PrintTasks tasks) status)"

definition agent_poll :: "'w internet \<Rightarrow> string list \<Rightarrow> 'w host \<Rightarrow> outcome \<times> 'w host" where
  "agent_poll net argv h =
     (if length argv < 5 then (misused agent_usage, h)
      else evaluated (ParsePort (argv ! 3)) (\<lambda>port.
        over_network (Agent_PollTasks (net (argv ! 2) port) (argv ! 4)) (conclude_tasks ''poll failed'' [])) h)"

definition agent_bootstrap :: "'w internet \<Rightarrow> string list \<Rightarrow> 'w host \<Rightarrow> outcome \<times> 'w host" where
  "agent_bootstrap net argv h =
     (if length argv < 7 then (misused agent_usage, h)
      else evaluated (ParsePort (argv ! 3)) (\<lambda>port h.
        over_network (RunBootstrap (net (argv ! 2) port) (agent_node argv 4 (host_now h)) (host_now h))
          (conclude_tasks ''bootstrap failed'' (println [''bootstrapped '', argv ! 4])) h) h)"

text \<open>One round over a local runtime and the network: bootstrap, execute, report.\<close>

definition agent_round ::
  "FdfsApi \<Rightarrow> path \<Rightarrow> 'w network \<Rightarrow> NodeInfo \<Rightarrow> string \<Rightarrow> string \<Rightarrow> SystemRuntime \<times> 'w \<Rightarrow> outcome \<times> SystemRuntime \<times> 'w"
where
  "agent_round api temp net node backend_name backend_arg world =
     (case world of (rt, w) \<Rightarrow>
        (case RunBootstrap net node (node_last_seen_epoch node) w of
           (Inl e, w) \<Rightarrow> (terminates e, rt, w)
         | (Inr (status, tasks), w) \<Rightarrow>
             if \<not> status_ok status then (fails 1 (''run-once bootstrap failed: '' @ status_message status), rt, w)
             else
               (case ExecuteTasks api temp net node backend_name backend_arg tasks (rt, w) of
                  (Inl e, rt, w) \<Rightarrow> (terminates e, rt, w)
                | (Inr res, rt, w) \<Rightarrow>
                    (succeeds (println [''run_once_ok completed='', to_string_u64 (run_completed res), '' failed='',
                       to_string_u64 (run_failed res)]), rt, w))))"

text \<open>The database is opened before the port is parsed.\<close>

definition agent_run_once :: "FdfsApi \<Rightarrow> path \<Rightarrow> 'w internet \<Rightarrow> string list \<Rightarrow> 'w host \<Rightarrow> outcome \<times> 'w host" where
  "agent_run_once api temp net argv h =
     (if length argv < 9 then (misused agent_usage, h)
      else case host_databases h (argv ! 2) of
        Inl e \<Rightarrow> (terminates e, h)
      | Inr store \<Rightarrow> evaluated (ParsePort (argv ! 4)) (\<lambda>port h.
          let rt = SystemRuntime_new store None (host_disk h) (host_now h) (host_now_ns h);
              backend_arg = (if length argv \<ge> 10 then argv ! 9 else []);
              (r, rt, w) = agent_round api temp (net (argv ! 3) port) (agent_node argv 5 (host_now h)) (argv ! 8)
                backend_arg (rt, host_net h)
          in (r, h\<lparr>host_databases := (host_databases h)(argv ! 2 := Inr (rt_store rt)), host_disk := rt_fs rt,
                host_net := w\<rparr>)) h)"

text \<open>
  \<^verbatim>\<open>serve\<close>: the loop over a runtime on the local database, then the line with the totals. The surroundings say when a
  signal arrives and what changes on the device while the agent sleeps. \<open>None\<close>: the loop runs forever.
\<close>

definition agent_serve_arguments :: "string list \<Rightarrow> (u16 \<times> u64 \<times> u64) result" where
  "agent_serve_arguments argv =
     bind_result (ParsePort (argv ! 4)) (\<lambda>port.
     bind_result (if length argv \<ge> 11 then stoull (argv ! 10) else Inr 5) (\<lambda>poll_interval_seconds.
     bind_result (if length argv \<ge> 12 then stoull (argv ! 11) else Inr 0) (\<lambda>max_cycles.
     Inr (port, poll_interval_seconds, max_cycles))))"

definition served_totals :: "'w agent_state \<Rightarrow> string" where
  "served_totals st =
     println [''serve_ok cycles='', to_string_u64 (agent_cycles st), '' completed='', to_string_u64 (agent_total_completed st),
       '' failed='', to_string_u64 (agent_total_failed st), '' stopped='', printed_bool (agent_stop_requested st)]"

definition served_outcome :: "unit result \<times> 'w agent_state \<Rightarrow> outcome" where
  "served_outcome x =
     (case x of
        (Inl e, st) \<Rightarrow> \<lparr>out_end = Terminated e, out_stdout = agent_stdout st, out_stderr = agent_stderr st\<rparr>
      | (Inr _, st) \<Rightarrow>
          \<lparr>out_end = Exited 0, out_stdout = agent_stdout st @ served_totals st, out_stderr = agent_stderr st\<rparr>)"

definition agent_serve ::
  "FdfsApi \<Rightarrow> path \<Rightarrow> 'w internet \<Rightarrow> 'w surroundings \<Rightarrow> string list \<Rightarrow> 'w host \<Rightarrow> (outcome \<times> 'w host) option"
where
  "agent_serve api temp net surroundings argv h =
     (if length argv < 9 then Some (misused agent_usage, h)
      else case host_databases h (argv ! 2) of
        Inl e \<Rightarrow> Some (terminates e, h)
      | Inr store \<Rightarrow>
          (case agent_serve_arguments argv of
             Inl e \<Rightarrow> Some (terminates e, h)
           | Inr (port, poll_interval_seconds, max_cycles) \<Rightarrow>
               let rt = SystemRuntime_new store None (host_disk h) (host_now h) (host_now_ns h);
                   cfg = \<lparr>setup_api = api, setup_temp = temp, setup_net = net (argv ! 3) port,
                     setup_node = agent_node argv 5 (host_now h), setup_backend_name = argv ! 8,
                     setup_backend_arg = (if length argv \<ge> 10 then argv ! 9 else []),
                     setup_poll_interval_seconds = poll_interval_seconds, setup_max_cycles = max_cycles,
                     setup_surroundings = surroundings\<rparr>
               in map_option (\<lambda>x.
                    (served_outcome x,
                     h\<lparr>host_databases := (host_databases h)(argv ! 2 := Inr (rt_store (agent_rt (snd x)))),
                       host_disk := rt_fs (agent_rt (snd x)), host_now := rt_now (agent_rt (snd x)),
                       host_now_ns := rt_now_ns (agent_rt (snd x)), host_net := agent_net (snd x)\<rparr>))
                    (serve_loop cfg (agent_start rt (host_net h)))))"

section \<open>The program\<close>

definition device_agent_main ::
  "FdfsApi \<Rightarrow> path \<Rightarrow> 'w internet \<Rightarrow> 'w surroundings \<Rightarrow> string list \<Rightarrow> 'w host \<Rightarrow> (outcome \<times> 'w host) option"
where
  "device_agent_main api temp net surroundings argv h =
     (if length argv < 2 then Some (misused agent_usage, h)
      else
        let command = argv ! 1
        in if command = ''ping'' then Some (agent_ping net argv h)
           else if command = ''register'' then Some (agent_register net argv h)
           else if command = ''heartbeat'' then Some (agent_heartbeat net argv h)
           else if command = ''poll'' then Some (agent_poll net argv h)
           else if command = ''bootstrap'' then Some (agent_bootstrap net argv h)
           else if command = ''run-once'' then Some (agent_run_once api temp net argv h)
           else if command = ''serve'' then agent_serve api temp net surroundings argv h
           else Some (misused agent_usage, h))"

section \<open>One round against a serving control node\<close>

lemma RecordHeartbeat_known:
  "GetNode db n = Some node \<Longrightarrow> RecordHeartbeat n e db = (Status_Ok, UpsertNode (node\<lparr>node_last_seen_epoch := e\<rparr>) db)"
  by (simp add: RecordHeartbeat_def)

lemma node_keeps_tasks: "ListTasks (UpsertNode n db) = ListTasks db" "FindTask (UpsertNode n db) k = FindTask db k"
  by (simp_all add: ListTasks_def FindTask_def store_reads store_writes)

text \<open>Bootstrapping registers the node and polls; the tasks of the control node stay as they are.\<close>

lemma RunBootstrap_link:
  assumes words: "is_word (node_node_id node)" "is_word (node_device_name node)" "is_word (node_zt_ip node)"
    and inv: "system_inv (rt_store crt)" and plain: "list_all task_plain (ListTasks (rt_store crt))"
  shows "\<exists>crt'. RunBootstrap (control_link capi off) node e (Some crt) =
      (Inr (Status_Ok, map pulled (filter (\<lambda>t. task_state t = JobQueued \<and>
         (task_source_node t = node_node_id node \<or> task_target_node t = node_node_id node)) (ListTasks (rt_store crt)))),
       Some crt') \<and> system_inv (rt_store crt') \<and> FindTask (rt_store crt') = FindTask (rt_store crt) \<and>
      FindStoredObject (rt_store crt') = FindStoredObject (rt_store crt)"
proof -
  let ?n = "node_node_id node"
  let ?crt1 = "crt\<lparr>rt_store := UpsertNode node (rt_store crt)\<rparr>"
  let ?crt2 = "?crt1\<lparr>rt_store := UpsertNode (node\<lparr>node_last_seen_epoch := e\<rparr>) (rt_store ?crt1)\<rparr>"
  have register: "Agent_Register (control_link capi off) node (Some crt) = (Status_Ok, Some ?crt1)"
    by (simp add: Agent_Register_def RegisterNode_link [OF words] on_store_def RegisterDevice_def)
  have "GetNode (rt_store ?crt1) ?n = Some node" using node_table.get_upsert [OF system_inv_store [OF inv]] by simp
  then have heartbeat: "Agent_Heartbeat (control_link capi off) ?n e (Some ?crt1) = (Status_Ok, Some ?crt2)"
    by (simp add: Agent_Heartbeat_def SendHeartbeat_link [OF words(1)] on_store_def RecordHeartbeat_known)
  have "list_all task_plain (ListTasks (rt_store ?crt2))" using plain by (simp add: node_keeps_tasks)
  then have "Agent_PollTasks (control_link capi off) ?n (Some ?crt2) =
      (Inr (Status_Ok, map pulled (filter (\<lambda>t. task_state t = JobQueued \<and>
         (task_source_node t = ?n \<or> task_target_node t = ?n)) (ListTasks (rt_store crt)))), Some ?crt2)"
    using PullTasks_link [OF words(1), of ?crt2 capi off]
    by (simp add: Agent_PollTasks_def node_keeps_tasks pulled_def [abs_def])
  then have "RunBootstrap (control_link capi off) node e (Some crt) =
      (Inr (Status_Ok, map pulled (filter (\<lambda>t. task_state t = JobQueued \<and>
         (task_source_node t = ?n \<or> task_target_node t = ?n)) (ListTasks (rt_store crt)))), Some ?crt2)"
    by (simp add: RunBootstrap_def register heartbeat)
  moreover have "system_inv (rt_store ?crt2)" using inv by simp
  moreover have "FindTask (rt_store ?crt2) = FindTask (rt_store crt)" by (rule ext) (simp add: node_keeps_tasks)
  moreover have "FindStoredObject (rt_store ?crt2) = FindStoredObject (rt_store crt)"
    by (rule ext) (simp add: FindStoredObject_def store_reads store_writes)
  ultimately show ?thesis by blast
qed

lemma pulled_keeps [simp]: "task_task_id (pulled t) = task_task_id t" "task_domain (pulled t) = task_domain t"
  by (simp_all add: pulled_def)


text \<open>An agent of the node \<open>t\<close>, for which the control node holds the sample task.\<close>

definition sample_agent_args :: "string list" where
  "sample_agent_args = [''device_agent'', ''run-once'', ''db'', ''host'', ''1'', ''t'', ''pc'', ''ip'', ''none'']"

definition sample_agent_host :: "SystemRuntime option host" where
  "sample_agent_host = \<lparr>host_databases = (\<lambda>_. Inr MetadataStore_init), host_disk = sample_fs, host_now = 9, host_now_ns = 9,
     host_net = Some sample_node\<rparr>"

lemma sample_node_tasks: "ListTasks (rt_store sample_node) = [sample_task]"
  by (simp add: sample_node_def sample_task_def HandleCommand_def HandleSubmitRestore_def SubmitRestore_def ScheduleTask_def
      on_store_def JoinArgs_def Let_def ListTasks_def SystemRuntime_new_def ScheduledTaskRecord_init_def RestoreRequest_init_def)
    (simp add: ListScheduledTasks_def UpsertScheduledTask_def UpsertRestoreRequest_def MetadataStore_init_def)


end
