(* ===== verification/Log_Files.thy ===== *)
theory Log_Files
  imports File_System Protocol_Codec
begin

text \<open>
  \<^verbatim>\<open>src/common/make_log.c\<close>: one log file per module, process and day under \<^verbatim>\<open>./logs\<close>, whose directories are made
  on the way. The formatted message and the broken-down local time are arguments; the lock around the output
  has no counterpart, since one line is written at a time. A write behind the end of a buffer is the outcome
  \<open>Crashes\<close>, of which the C standard promises nothing. The last lemma is that a line reaches its file.
\<close>

section \<open>Calls of C functions\<close>

datatype 'a c_call = Returns 'a | Fails | Crashes

definition c_then :: "'a c_call \<Rightarrow> ('a \<Rightarrow> 'b c_call) \<Rightarrow> 'b c_call" where
  "c_then x f = (case x of Returns v \<Rightarrow> f v | Fails \<Rightarrow> Fails | Crashes \<Rightarrow> Crashes)"

definition c_string :: "string \<Rightarrow> string" where
  "c_string s = takeWhile (\<lambda>c. c \<noteq> CHR 0x00) s"

text \<open>\<^verbatim>\<open>snprintf\<close> into a buffer.\<close>

definition snprintf_cut :: "nat \<Rightarrow> string \<Rightarrow> string" where
  "snprintf_cut room s = take (room - 1) s"

section \<open>Paths of the log\<close>

record tm =
  tm_year :: nat
  tm_mon :: nat
  tm_mday :: nat
  tm_hour :: nat
  tm_min :: nat
  tm_sec :: nat

definition padded :: "nat \<Rightarrow> nat \<Rightarrow> string" where
  "padded w n = (let digits = to_string n in replicate (w - length digits) CHR ''0'' @ digits)"

definition log_path :: "string \<Rightarrow> string \<Rightarrow> tm \<Rightarrow> path" where
  "log_path module_name proc_name now = snprintf_cut 1024 (''./logs/'' @ module_name @ ''/'' @
     padded 4 (tm_year now + 1900) @ ''/'' @ padded 2 (tm_mon now + 1) @ ''/'' @
     proc_name @ ''-'' @ padded 2 (tm_mday now) @ ''.log'')"

definition third_dir :: "string \<Rightarrow> path" where
  "third_dir module_name = ''./logs/'' @ module_name"

definition y_dir :: "string \<Rightarrow> tm \<Rightarrow> path" where
  "y_dir module_name now = third_dir module_name @ ''/'' @ padded 4 (tm_year now + 1900) @ ''/''"

definition m_dir :: "string \<Rightarrow> tm \<Rightarrow> path" where
  "m_dir module_name now = y_dir module_name now @ ''/'' @ padded 2 (tm_mon now + 1) @ ''/''"

definition d_dir :: "string \<Rightarrow> tm \<Rightarrow> path" where
  "d_dir module_name now = m_dir module_name now @ ''/'' @ padded 2 (tm_mday now) @ ''/''"

section \<open>Directories\<close>

text \<open>\<^verbatim>\<open>access\<close> for existence: a path with a trailing slash must name a directory.\<close>

definition accessible :: "FileSystem \<Rightarrow> path \<Rightarrow> bool" where
  "accessible fs p =
     (if p \<noteq> [] \<and> last p = CHR ''/'' then entry_at fs p = Some Directory else fs_exists fs p)"

text \<open>\<^verbatim>\<open>mkdir\<close> makes one directory below one that exists.\<close>

definition make_directory :: "path \<Rightarrow> FileSystem \<Rightarrow> FileSystem option" where
  "make_directory p fs =
     (let (absolute, names) = entry_key p
      in if names = [] \<or> entry_at fs p \<noteq> None \<or>
            (butlast names \<noteq> [] \<and> map_of (fs_nodes fs) (absolute, butlast names) \<noteq> Some Directory) \<or>
            \<not> fs_writable fs p
         then None else Some (set_entry p Directory fs))"

text \<open>
  The cascade of \<open>make_path\<close>: the first directory that is missing is made, then all below it, and the
  first failure ends it with a line on the error stream.
\<close>

fun make_below :: "path \<Rightarrow> path list \<Rightarrow> FileSystem \<Rightarrow> string \<times> FileSystem" where
  "make_below missing [] fs = ([], fs)"
| "make_below missing (d # ds) fs =
     (case make_directory d fs of
        None \<Rightarrow> (missing @ '':create '' @ d @ '' failed!'' @ [newline], fs)
      | Some fs \<Rightarrow> make_below missing ds fs)"

fun make_missing :: "path list \<Rightarrow> FileSystem \<Rightarrow> string \<times> FileSystem" where
  "make_missing [] fs = ([], fs)"
| "make_missing (d # ds) fs =
     (if accessible fs d then make_missing ds fs
      else case make_directory d fs of
             None \<Rightarrow> (''create '' @ d @ '' failed!'' @ [newline], fs)
           | Some fs \<Rightarrow> make_below d ds fs)"

definition make_path :: "tm \<Rightarrow> string \<Rightarrow> string \<Rightarrow> FileSystem \<Rightarrow> (path \<times> string \<times> FileSystem) c_call" where
  "make_path now module_name proc_name fs =
     (if 1024 \<le> length (d_dir module_name now) then Crashes
      else Returns (log_path module_name proc_name now,
        make_missing [''.'', ''./logs'', third_dir module_name, y_dir module_name now, m_dir module_name now] fs))"

section \<open>Lines\<close>

definition open_log :: "path \<Rightarrow> FileSystem \<Rightarrow> FileSystem option" where
  "open_log p fs = (if fs_exists fs p \<and> \<not> fs_readable fs p then None else open_append p fs)"

definition out_put_file :: "path \<Rightarrow> string \<Rightarrow> FileSystem \<Rightarrow> string \<times> FileSystem" where
  "out_put_file p buf fs =
     (case open_log p fs of
        None \<Rightarrow> (''write error!'' @ [newline], fs)
      | Some fs \<Rightarrow>
          (case write_end p (map byte_of_char buf) fs of
             (True, fs) \<Rightarrow> ([], fs)
           | (False, fs) \<Rightarrow> (''write error!'' @ [newline], fs)))"

definition log_line :: "tm \<Rightarrow> string \<Rightarrow> nat \<Rightarrow> string \<Rightarrow> string" where
  "log_line now filename line_number mesg = snprintf_cut 4096
     (''['' @ padded 4 (tm_year now + 1900) @ ''-'' @ padded 2 (tm_mon now + 1) @ ''-'' @ padded 2 (tm_mday now) @ '' '' @
      padded 2 (tm_hour now) @ '':'' @ padded 2 (tm_min now) @ '':'' @ padded 2 (tm_sec now) @ '']--['' @
      filename @ '':'' @ to_string line_number @ '']--'' @ mesg)"

text \<open>The clock is read twice, for the line and for the path; the result is what is printed on the error stream.\<close>

definition dumpmsg_to_file ::
  "tm \<Rightarrow> tm \<Rightarrow> string \<Rightarrow> string \<Rightarrow> string \<Rightarrow> nat \<Rightarrow> string \<Rightarrow> FileSystem \<Rightarrow> (string \<times> FileSystem) c_call" where
  "dumpmsg_to_file now path_now module_name proc_name filename line_number mesg fs =
     (if 4096 \<le> length mesg then Crashes
      else c_then (make_path path_now module_name proc_name fs) (\<lambda>(filepath, printed, fs).
        case out_put_file filepath (log_line now filename line_number mesg) fs of
          (further, fs) \<Rightarrow> Returns (printed @ further, fs)))"

section \<open>Keys of the directories\<close>

lemma padded_plain: "0 < w \<Longrightarrow> plain_name (padded w n) \<and> (\<forall>c \<in> set (padded w n). is_digit c)"
proof -
  have digits: "\<forall>c \<in> set (padded w n). is_digit c"
    using to_string_digits by (auto simp: padded_def Let_def is_digit_def)
  moreover have "padded w n \<noteq> []" by (simp add: padded_def Let_def)
  moreover have "\<not> is_digit CHR ''.''" "\<not> is_digit CHR ''/''" by (simp_all add: is_digit_def)
  ultimately show ?thesis by (auto simp: plain_name_def)
qed

lemma entry_key_below:
  assumes "root \<noteq> []"
  shows "plain_name n \<Longrightarrow> entry_key (root @ ''/'' @ n) = (is_absolute root, normal_names root @ [n])"
    and "entry_key (root @ ''/'') = entry_key root"
    and "normal_names (root @ ''/'') = normal_names root" "is_absolute (root @ ''/'') = is_absolute root"
  using assms normal_names_append [OF assms, of "[n]"] normal_names_append [OF assms, of "[]"]
  by (simp_all add: entry_key_def is_absolute_append)

lemma log_keys:
  assumes "plain_name module_name"
  shows "entry_key ''./logs'' = (False, [''logs''])"
    "entry_key (third_dir module_name) = (False, [''logs'', module_name])"
    "entry_key (y_dir module_name now) = (False, [''logs'', module_name, padded 4 (tm_year now + 1900)])"
    "entry_key (m_dir module_name now) =
       (False, [''logs'', module_name, padded 4 (tm_year now + 1900), padded 2 (tm_mon now + 1)])"
proof -
  show logs: "entry_key ''./logs'' = (False, [''logs''])" by (simp add: path_eval)
  have step: "entry_key (p @ ''/'' @ n) = (fst (entry_key p), snd (entry_key p) @ [n])" if "plain_name n" "p \<noteq> []" for p n
    using entry_key_below(1) [OF that(2,1)] by (simp add: entry_key_def)
  have y: "plain_name (padded 4 (tm_year now + 1900))" and m: "plain_name (padded 2 (tm_mon now + 1))"
    by (simp_all add: padded_plain)
  have third: "third_dir module_name = ''./logs'' @ ''/'' @ module_name" by (simp add: third_dir_def)
  then show key3: "entry_key (third_dir module_name) = (False, [''logs'', module_name])"
    using step [OF assms, of "''./logs''"] logs by simp
  have below: "entry_key d = (fst (entry_key p), snd (entry_key p) @ [n])"
    if "d = (p @ ''/'' @ n) @ ''/''" "plain_name n" "p \<noteq> []" for d p n
    unfolding that(1) using entry_key_below(2) [of "p @ ''/'' @ n"] step [OF that(2,3)] by simp
  show keyy: "entry_key (y_dir module_name now) = (False, [''logs'', module_name, padded 4 (tm_year now + 1900)])"
    using below [OF _ y, of "y_dir module_name now" "third_dir module_name"] unfolding key3
    by (simp add: y_dir_def third_dir_def)
  show "entry_key (m_dir module_name now) =
      (False, [''logs'', module_name, padded 4 (tm_year now + 1900), padded 2 (tm_mon now + 1)])"
    using below [OF _ m, of "m_dir module_name now" "y_dir module_name now"] unfolding keyy
    by (simp add: m_dir_def y_dir_def)
qed

lemma parent_path_below:
  assumes "dir \<noteq> []" and "last dir \<noteq> CHR ''/''" and "CHR ''/'' \<notin> set name"
  shows "parent_path (dir @ ''/'' @ name) = dir"
proof -
  have "path_filename (dir @ ''/'' @ name) = name"
    using split_on_append [of "CHR ''/''" dir name] assms(3) by (simp add: path_filename_def split_on_single)
  moreover have "strip_slashes (dir @ ''/'') = dir"
    using assms(1,2) by (cases dir rule: rev_cases) (simp_all add: strip_slashes_def)
  ultimately show ?thesis using assms(1) by (simp add: parent_path_def Let_def)
qed

section \<open>Making the directories\<close>

text \<open>Directories each of which is one name below the one before it.\<close>

fun dir_chain :: "string list \<Rightarrow> path list \<Rightarrow> bool" where
  "dir_chain base [] \<longleftrightarrow> True"
| "dir_chain base (d # ds) \<longleftrightarrow>
     d \<noteq> [] \<and> fst (entry_key d) = False \<and> snd (entry_key d) \<noteq> [] \<and> butlast (snd (entry_key d)) = base \<and>
     dir_chain (snd (entry_key d)) ds"

lemma dir_chain_deeper: "dir_chain base ds \<Longrightarrow> d \<in> set ds \<Longrightarrow> length base < length (snd (entry_key d))"
proof (induction ds arbitrary: base)
  case (Cons e ds)
  then have "length base < length (snd (entry_key e))" by (auto simp flip: length_greater_0_conv)
  then show ?case using Cons by fastforce
qed simp

text \<open>What making directories keeps: every entry, and no new file.\<close>

definition only_directories :: "path list \<Rightarrow> FileSystem \<Rightarrow> FileSystem \<Rightarrow> bool" where
  "only_directories ds fs fs' \<longleftrightarrow> fs_readable fs' = fs_readable fs \<and> fs_writable fs' = fs_writable fs \<and>
     fs_capacity fs' = fs_capacity fs \<and>
     (\<forall>q. entry_at fs' q = entry_at fs q \<or> (entry_at fs q = None \<and> entry_at fs' q = Some Directory \<and> entry_key q \<in> entry_key ` set ds))"

lemma only_directories_trans: "only_directories ds fs fs' \<Longrightarrow> only_directories es fs' fs2 \<Longrightarrow> only_directories (ds @ es) fs fs2"
  unfolding only_directories_def set_append image_Un by (metis UnI1 UnI2)

lemma make_directory_makes:
  assumes "dir_chain base (d # ds)" and "base = [] \<or> map_of (fs_nodes fs) (False, base) = Some Directory"
    and "entry_at fs d = None" and "fs_writable fs d"
  shows "make_directory d fs = Some (set_entry d Directory fs)" and "only_directories [d] fs (set_entry d Directory fs)"
    and "map_of (fs_nodes (set_entry d Directory fs)) (False, snd (entry_key d)) = Some Directory"
    and "entry_at (set_entry d Directory fs) d = Some Directory"
proof -
  obtain names where key: "entry_key d = (False, names)" "names \<noteq> []" "butlast names = base" "d \<noteq> []"
    using assms(1) by (cases "entry_key d") auto
  show "make_directory d fs = Some (set_entry d Directory fs)"
    using assms(2-4) key by (auto simp: make_directory_def)
  show "only_directories [d] fs (set_entry d Directory fs)"
    using assms(3) key by (auto simp: only_directories_def entry_at_def set_entry_def update_conv' split: if_splits)
  show "map_of (fs_nodes (set_entry d Directory fs)) (False, snd (entry_key d)) = Some Directory"
    using key by (simp add: set_entry_def update_conv')
  show "entry_at (set_entry d Directory fs) d = Some Directory" using key by simp
qed

lemma make_below_makes:
  assumes "dir_chain base ds" and "base = [] \<or> map_of (fs_nodes fs) (False, base) = Some Directory"
    and "\<And>d. d \<in> set ds \<Longrightarrow> entry_at fs d = None \<and> fs_writable fs d"
  shows "\<exists>fs'. make_below missing ds fs = ([], fs') \<and> only_directories ds fs fs' \<and>
    (\<forall>d \<in> set ds. entry_at fs' d = Some Directory)"
  using assms
proof (induction ds arbitrary: base fs)
  case Nil
  then show ?case by (simp add: only_directories_def)
next
  case (Cons d ds)
  let ?fs = "set_entry d Directory fs"
  have here: "entry_at fs d = None" "fs_writable fs d" using Cons.prems(3) by simp_all
  note made = make_directory_makes [OF Cons.prems(1,2) here]
  have "entry_at ?fs e = None \<and> fs_writable ?fs e" if "e \<in> set ds" for e
  proof -
    have "length (snd (entry_key d)) < length (snd (entry_key e))"
      using Cons.prems(1) dir_chain_deeper [OF _ that] by simp
    then have "entry_key e \<noteq> entry_key d" by auto
    then show ?thesis using Cons.prems(3) that by (simp add: entry_at_set_other)
  qed
  moreover have "dir_chain (snd (entry_key d)) ds" using Cons.prems(1) by simp
  ultimately obtain fs' where rest: "make_below missing ds ?fs = ([], fs')" "only_directories ds ?fs fs'"
    "\<forall>e \<in> set ds. entry_at fs' e = Some Directory"
    using Cons.IH [of "snd (entry_key d)" ?fs, OF _ disjI2 [OF made(3)]] by blast
  then have "entry_at fs' d = Some Directory" using made(4) unfolding only_directories_def by force
  then show ?case using made(1) rest only_directories_trans [OF made(2) rest(2)] by simp
qed

text \<open>Where a first part of the directories exists, the cascade makes the rest.\<close>

lemma make_missing_makes:
  assumes "dir_chain base (ps @ ms)" and "base = [] \<or> map_of (fs_nodes fs) (False, base) = Some Directory"
    and "\<And>d. d \<in> set ps \<Longrightarrow> entry_at fs d = Some Directory"
    and "\<And>d. d \<in> set ms \<Longrightarrow> entry_at fs d = None \<and> fs_writable fs d"
  shows "\<exists>fs'. make_missing (ps @ ms) fs = ([], fs') \<and> only_directories ms fs fs' \<and>
    (\<forall>d \<in> set (ps @ ms). entry_at fs' d = Some Directory)"
  using assms
proof (induction ps arbitrary: base)
  case Nil
  show ?case
  proof (cases ms)
    case (Cons d ds)
    have here: "entry_at fs d = None" "fs_writable fs d" using Nil.prems(4) Cons by simp_all
    then have "\<not> accessible fs d" by (simp add: accessible_def fs_exists_def)
    moreover have "make_directory d fs = Some (set_entry d Directory fs)"
      using make_directory_makes(1) [OF _ Nil.prems(2) here, of ds] Nil.prems(1) Cons by simp
    ultimately have "make_missing ms fs = make_below d ms fs" using Cons by simp
    then show ?thesis using make_below_makes [OF _ Nil.prems(2), of ms d] Nil.prems(1,4) by simp
  qed (simp add: only_directories_def)
next
  case (Cons d ps)
  have here: "entry_at fs d = Some Directory" using Cons.prems(3) by simp
  then have "accessible fs d" by (simp add: accessible_def fs_exists_def)
  moreover have key: "entry_key d = (False, snd (entry_key d))" "snd (entry_key d) \<noteq> []" "d \<noteq> []"
    using Cons.prems(1) by (simp_all add: prod_eq_iff)
  then have "map_of (fs_nodes fs) (False, snd (entry_key d)) = Some Directory"
    using here unfolding entry_at_def by (metis (full_types))
  moreover have "dir_chain (snd (entry_key d)) (ps @ ms)" using Cons.prems(1) by simp
  ultimately obtain fs' where "make_missing (ps @ ms) fs = ([], fs')" "only_directories ms fs fs'"
    "\<forall>e \<in> set (ps @ ms). entry_at fs' e = Some Directory"
    using Cons.IH [of "snd (entry_key d)"] Cons.prems(3,4) by auto
  moreover have "entry_at fs' d = Some Directory"
    using here \<open>only_directories ms fs fs'\<close> unfolding only_directories_def by force
  ultimately show ?case using \<open>accessible fs d\<close> by simp
qed


section \<open>A line reaches its file\<close>

lemma padded_length: "n < 10 ^ w \<Longrightarrow> 0 < w \<Longrightarrow> length (padded w n) = w"
proof -
  have "length (to_string n) \<le> w" if "n < 10 ^ w" "0 < w"
    using that
  proof (induction n arbitrary: w rule: to_string.induct)
    case (1 n)
    show ?case
    proof (cases "n < 10")
      case False
      obtain v where w: "w = Suc v" using 1(3) by (cases w) auto
      then have "n div 10 < 10 ^ v" using 1(2) by (simp add: less_mult_imp_div_less mult.commute)
      moreover have "0 < v" using False 1(2) w by (cases v) auto
      ultimately show ?thesis using 1(1) [OF False] w False by (simp add: to_string.simps [of n])
    qed (use 1(3) in \<open>simp add: to_string.simps [of n]\<close>)
  qed
  then show "n < 10 ^ w \<Longrightarrow> 0 < w \<Longrightarrow> length (padded w n) = w" by (simp add: padded_def Let_def)
qed

definition calendar_day :: "tm \<Rightarrow> bool" where
  "calendar_day now \<longleftrightarrow> tm_year now + 1900 < 10000 \<and> tm_mon now < 12 \<and> tm_mday now \<le> 31"

definition log_name :: "string \<Rightarrow> tm \<Rightarrow> string" where
  "log_name proc_name now = proc_name @ ''-'' @ padded 2 (tm_mday now) @ ''.log''"

definition log_dir :: "string \<Rightarrow> tm \<Rightarrow> path" where
  "log_dir module_name now =
     third_dir module_name @ ''/'' @ padded 4 (tm_year now + 1900) @ ''/'' @ padded 2 (tm_mon now + 1)"

lemma log_path_fits:
  assumes "calendar_day now" and "length module_name + length proc_name \<le> 1000"
  shows "length (d_dir module_name now) < 1024"
    and "log_path module_name proc_name now = log_dir module_name now @ ''/'' @ log_name proc_name now"
proof -
  have len: "length (padded 4 (tm_year now + 1900)) = 4" "length (padded 2 (tm_mon now + 1)) = 2"
    "length (padded 2 (tm_mday now)) = 2"
    using assms(1) by (simp_all add: padded_length calendar_day_def)
  show "length (d_dir module_name now) < 1024"
    using assms(2) len by (simp add: d_dir_def m_dir_def y_dir_def third_dir_def)
  show "log_path module_name proc_name now = log_dir module_name now @ ''/'' @ log_name proc_name now"
    using assms(2) len by (simp add: log_path_def snprintf_cut_def log_dir_def log_name_def third_dir_def)
qed

lemma log_path_key:
  assumes "plain_name module_name" and "CHR ''/'' \<notin> set proc_name"
  shows "parent_path (log_dir module_name now @ ''/'' @ log_name proc_name now) = log_dir module_name now"
    and "entry_key (log_dir module_name now) = entry_key (m_dir module_name now)"
    and "entry_key (log_dir module_name now @ ''/'' @ log_name proc_name now) =
      (False, snd (entry_key (m_dir module_name now)) @ [log_name proc_name now])"
proof -
  have month: "plain_name (padded 2 (tm_mon now + 1))" and day: "plain_name (padded 2 (tm_mday now))"
    and year: "plain_name (padded 4 (tm_year now + 1900))"
    by (simp_all add: padded_plain)
  have slash: "CHR ''/'' \<notin> set (log_name proc_name now)"
    using assms(2) day by (simp add: log_name_def plain_name_def)
  moreover have "2 < length (log_name proc_name now)" by (simp add: log_name_def)
  ultimately have name: "plain_name (log_name proc_name now)" by (auto simp: plain_name_def)
  have "last (log_dir module_name now) \<noteq> CHR ''/''" using month by (simp add: log_dir_def plain_name_def) (metis last_in_set)
  moreover have dir: "log_dir module_name now \<noteq> []" by (simp add: log_dir_def)
  ultimately show "parent_path (log_dir module_name now @ ''/'' @ log_name proc_name now) = log_dir module_name now"
    using parent_path_below slash by blast
  have "entry_key (p @ ''/'' @ n) = (fst (entry_key p), snd (entry_key p) @ [n])" if "plain_name n" "p \<noteq> []" for p n
    using entry_key_below(1) [OF that(2,1)] by (simp add: entry_key_def)
  note below = this
  have "log_dir module_name now = (third_dir module_name @ ''/'' @ padded 4 (tm_year now + 1900)) @ ''/'' @ padded 2 (tm_mon now + 1)"
    by (simp add: log_dir_def)
  then show key: "entry_key (log_dir module_name now) = entry_key (m_dir module_name now)"
    using below [OF month, of "third_dir module_name @ ''/'' @ padded 4 (tm_year now + 1900)"]
      below [OF year, of "third_dir module_name"] log_keys [OF assms(1)]
    by (simp add: third_dir_def)
  show "entry_key (log_dir module_name now @ ''/'' @ log_name proc_name now) =
      (False, snd (entry_key (m_dir module_name now)) @ [log_name proc_name now])"
    using below [OF name dir] key log_keys(4) [OF assms(1)] by simp
qed

lemma out_put_file_appends:
  assumes "case entry_at fs p of None \<Rightarrow> old = [] | Some (RegularFile b _) \<Rightarrow> old = b | Some Directory \<Rightarrow> False"
    and "p \<noteq> []" and "snd (entry_key p) \<noteq> []" and "parent_exists fs p" and "fs_writable fs p" and "fs_readable fs p"
    and "length old + length buf \<le> fs_capacity fs"
  shows "\<exists>fs'. out_put_file p buf fs = ([], fs') \<and> open_read fs' p = Some (old @ map byte_of_char buf) \<and>
    (\<forall>q. entry_key q \<noteq> entry_key p \<longrightarrow> open_read fs' q = open_read fs q)"
proof -
  obtain fs1 t where opened: "open_append p fs = Some fs1" "entry_at fs1 p = Some (RegularFile old t)"
    "\<And>q. entry_key q \<noteq> entry_key p \<Longrightarrow> entry_at fs1 q = entry_at fs q"
    "fs_readable fs1 = fs_readable fs" "fs_capacity fs1 = fs_capacity fs"
    using assms by (auto simp: open_append_def entry_at_set_other split: option.splits fnode.splits)
  then show ?thesis
    using assms(2,3,6,7)
    by (auto simp: out_put_file_def open_log_def write_end_def open_read_def entry_at_set_other split: option.split fnode.split)
qed

text \<open>
  On a day of the calendar, with names of at most 1000 characters together, a message whose line fits is
  appended to the log file of its module, process and day, whatever first part of its directories exists: nothing
  is printed on the error stream, the file has its old content followed by the line, and no other file changes.
\<close>

lemma log_line_appended:
  assumes "plain_name module_name" and "CHR ''/'' \<notin> set proc_name"
    and "calendar_day today" and "length module_name + length proc_name \<le> 1000" and "length mesg < 4096"
    and "[''./logs'', third_dir module_name, y_dir module_name today, m_dir module_name today] = ps @ ms"
    and "\<And>d. d \<in> set ps \<Longrightarrow> entry_at fs d = Some Directory"
    and "\<And>d. d \<in> set ms \<Longrightarrow> entry_at fs d = None \<and> fs_writable fs d"
    and "p = log_path module_name proc_name today" and "fs_writable fs p" and "fs_readable fs p"
    and "case entry_at fs p of None \<Rightarrow> old = [] | Some (RegularFile b _) \<Rightarrow> old = b | Some Directory \<Rightarrow> False"
    and "length old + length (log_line now filename n mesg) \<le> fs_capacity fs"
  shows "\<exists>fs'. dumpmsg_to_file now today module_name proc_name filename n mesg fs = Returns ([], fs') \<and>
    open_read fs' p = Some (old @ map byte_of_char (log_line now filename n mesg)) \<and>
    (\<forall>q. entry_key q \<noteq> entry_key p \<longrightarrow> open_read fs' q = open_read fs q)"
proof -
  note keys = log_keys [OF assms(1)]
  have chain: "dir_chain [] (ps @ ms)"
    unfolding assms(6) [symmetric] by (simp add: keys) (simp add: third_dir_def y_dir_def m_dir_def)
  obtain fs1 where made: "make_missing (ps @ ms) fs = ([], fs1)" "only_directories ms fs fs1"
    "entry_at fs1 (m_dir module_name today) = Some Directory"
    using make_missing_makes [OF chain _ assms(7,8)] unfolding assms(6) [symmetric] by fastforce
  have "accessible fs ''.''" by (simp add: accessible_def fs_exists_def entry_at_def path_eval)
  then have path: "make_path today module_name proc_name fs = Returns (p, [], fs1)"
    using made(1) log_path_fits(1) [OF assms(3,4)] by (simp add: make_path_def assms(6,9))
  have p: "p = log_dir module_name today @ ''/'' @ log_name proc_name today"
    using log_path_fits(2) [OF assms(3,4)] assms(9) by simp
  have "entry_at fs1 (log_dir module_name today) = Some Directory"
    using made(3) log_path_key(2) [OF assms(1,2), of today] by (simp add: entry_at_def log_dir_def split: if_splits)
  then have "parent_exists fs1 p" unfolding parent_exists_def p log_path_key(1) [OF assms(1,2)] ..
  moreover have key: "entry_key p = (False, snd (entry_key (m_dir module_name today)) @ [log_name proc_name today])"
    unfolding p by (rule log_path_key(3) [OF assms(1,2)])
  then have "p \<noteq> []" "snd (entry_key p) \<noteq> []" by (simp_all add: p)
  moreover have "length (snd (entry_key d)) < length (snd (entry_key p))" if "d \<in> set (ps @ ms)" for d
    using that unfolding key assms(6) [symmetric] by (auto simp: keys)
  then have "entry_key p \<notin> entry_key ` set ms" by force
  then have "entry_at fs1 p = entry_at fs p" using made(2) unfolding only_directories_def by metis
  moreover have frame: "fs_writable fs1 = fs_writable fs" "fs_readable fs1 = fs_readable fs" "fs_capacity fs1 = fs_capacity fs"
    using made(2) by (simp_all add: only_directories_def)
  moreover have "open_read fs1 q = open_read fs q" for q
  proof -
    have "entry_at fs1 q = entry_at fs q \<or> (entry_at fs q = None \<and> entry_at fs1 q = Some Directory)"
      using made(2) unfolding only_directories_def by blast
    then show ?thesis unfolding open_read_def frame by auto
  qed
  ultimately show ?thesis
    using out_put_file_appends [of old fs1 p "log_line now filename n mesg"] path assms(5,10-13)
    by (force simp: dumpmsg_to_file_def c_then_def)
qed

definition sample_day :: tm where
  "sample_day = \<lparr>tm_year = 124, tm_mon = 4, tm_mday = 17, tm_hour = 9, tm_min = 5, tm_sec = 0\<rparr>"

definition sample_logs :: FileSystem where
  "sample_logs = \<lparr>fs_nodes = [((False, [''logs'']), Directory)], fs_readable = (\<lambda>_. True), fs_writable = (\<lambda>_. True),
     fs_capacity = 10000, fs_now = 0\<rparr>"

lemma log_line_appended_example:
  "\<exists>fs'. dumpmsg_to_file sample_day sample_day ''cgi'' ''cfg'' ''f.c'' 7 ''root err'' sample_logs = Returns ([], fs') \<and>
    open_read fs' (log_path ''cgi'' ''cfg'' sample_day) =
      Some (map byte_of_char (log_line sample_day ''f.c'' 7 ''root err''))"
proof -
  have cgi: "plain_name ''cgi''" by (simp add: plain_name_def)
  have absent: "entry_at sample_logs d = None \<and> fs_writable sample_logs d"
    if "d \<in> {third_dir ''cgi'', y_dir ''cgi'' sample_day, m_dir ''cgi'' sample_day}" for d
    using that log_keys [OF cgi] by (auto simp: entry_at_def sample_logs_def)
  have there: "entry_at sample_logs ''./logs'' = Some Directory"
    using log_keys(1) [OF cgi] by (simp add: entry_at_def sample_logs_def)
  have day: "calendar_day sample_day" by (simp add: calendar_day_def sample_day_def)
  have "entry_key (log_path ''cgi'' ''cfg'' sample_day) =
      (False, snd (entry_key (m_dir ''cgi'' sample_day)) @ [log_name ''cfg'' sample_day])"
    using log_path_key(3) [OF cgi, of "''cfg''" sample_day] log_path_fits(2) [OF day, of "''cgi''" "''cfg''"] by simp
  then have new: "entry_at sample_logs (log_path ''cgi'' ''cfg'' sample_day) = None"
    using log_keys(4) [OF cgi, of sample_day] log_path_fits(2) [OF day, of "''cgi''" "''cfg''"]
    by (simp add: entry_at_def sample_logs_def)
  have "length (log_line sample_day ''f.c'' 7 ''root err'') \<le> 10000" by (simp add: log_line_def snprintf_cut_def)
  then show ?thesis
    using log_line_appended [of "''cgi''" "''cfg''" sample_day "''root err''" "[''./logs'']"
        "[third_dir ''cgi'', y_dir ''cgi'' sample_day, m_dir ''cgi'' sample_day]" sample_logs
        "log_path ''cgi'' ''cfg'' sample_day" "[]" sample_day "''f.c''" 7]
      cgi day absent there new
    by (auto simp: sample_logs_def)
qed

end
