(* ===== verification/Fdfs_Bridge.thy ===== *)
theory Fdfs_Bridge
  imports Storage Log_Files
begin

text \<open>
  \<^verbatim>\<open>src/common/config_loader.c\<close> and \<^verbatim>\<open>src/storage/fdfs_api.c\<close>: the settings of the FastDFS client and the functions
  of \<^verbatim>\<open>fdfs_api.h\<close>, which run its command line tools. \<open>fdfs_bridge\<close> is the value of the parameter \<open>FdfsApi\<close>
  that the program is linked with. The JSON library, the tools and the shell are parameters. Each call
  also gives the messages it hands to the log of module \<^verbatim>\<open>cgi\<close>, with the number of the calling line.
\<close>

section \<open>Configuration\<close>

type_synonym 'a logged = "'a c_call \<times> (nat \<times> string) list"

definition l_then :: "'a logged \<Rightarrow> ('a \<Rightarrow> 'b logged) \<Rightarrow> 'b logged" where
  "l_then x f =
     (case x of
        (Returns v, l) \<Rightarrow> (case f v of (y, l') \<Rightarrow> (y, l @ l'))
      | (Fails, l) \<Rightarrow> (Fails, l)
      | (Crashes, l) \<Rightarrow> (Crashes, l))"

text \<open>A message that a caller logs when the call failed.\<close>

definition on_failure :: "'a logged \<Rightarrow> nat \<Rightarrow> string \<Rightarrow> 'a logged" where
  "on_failure x line_number message =
     (case x of (Fails, l) \<Rightarrow> (Fails, l @ [(line_number, message @ [newline])]) | _ \<Rightarrow> x)"

definition fails_with :: "nat \<Rightarrow> string \<Rightarrow> 'a logged" where
  "fails_with line_number message = (Fails, [(line_number, message @ [newline])])"

text \<open>What is used of cJSON; an item that is not a string has no \<open>valuestring\<close>.\<close>

record 'j cjson =
  cJSON_Parse :: "string \<Rightarrow> 'j option"
  cJSON_GetObjectItem :: "'j \<Rightarrow> string \<Rightarrow> 'j option"
  cJSON_valuestring :: "'j \<Rightarrow> string option"

text \<open>
  \<open>profile\<close> is what opening the file \<^verbatim>\<open>./configs/cfg.json\<close> gives, and \<open>room\<close> the size of the buffer of the
  caller.
\<close>

definition get_cfg_value :: "'j cjson \<Rightarrow> bytes option \<Rightarrow> string \<Rightarrow> string \<Rightarrow> nat \<Rightarrow> string logged" where
  "get_cfg_value json profile title key room =
     (case profile of
        None \<Rightarrow> fails_with 46 ''fopen err''
      | Some content \<Rightarrow>
          (case cJSON_Parse json (c_string (map char_of_byte content)) of
             None \<Rightarrow> fails_with 72 ''root err''
           | Some root \<Rightarrow>
               (case cJSON_GetObjectItem json root title of
                  None \<Rightarrow> fails_with 81 ''father err''
                | Some father \<Rightarrow>
                    (case cJSON_GetObjectItem json father key of
                       None \<Rightarrow> fails_with 89 ''son err''
                     | Some son \<Rightarrow>
                         (case cJSON_valuestring json son of
                            None \<Rightarrow> (Crashes, [])
                          | Some value \<Rightarrow> (if length value < room then Returns value else Crashes, []))))))"

definition get_mysql_info :: "'j cjson \<Rightarrow> bytes option \<Rightarrow> nat \<Rightarrow> (string \<times> string \<times> string) logged" where
  "get_mysql_info json profile room =
     l_then (on_failure (get_cfg_value json profile ''mysql'' ''user'' room) 119 ''mysql_user err'') (\<lambda>mysql_user.
     l_then (on_failure (get_cfg_value json profile ''mysql'' ''password'' room) 125 ''mysql_pwd err'') (\<lambda>mysql_pwd.
     l_then (on_failure (get_cfg_value json profile ''mysql'' ''database'' room) 131 ''mysql_db err'') (\<lambda>mysql_db.
     (Returns (mysql_user, mysql_pwd, mysql_db), []))))"

section \<open>Trimming\<close>

definition is_trimmed :: "char \<Rightarrow> bool" where
  "is_trimmed c \<longleftrightarrow> c = CHR '' '' \<or> c = newline \<or> c = CHR 0x0D \<or> c = CHR 0x09"

text \<open>The two index loops: from the front, and from the end down to the start.\<close>

fun trim_start :: "string \<Rightarrow> nat" where
  "trim_start [] = 0"
| "trim_start (c # value) = (if is_trimmed c then Suc (trim_start value) else 0)"

fun trim_end :: "string \<Rightarrow> nat \<Rightarrow> nat \<Rightarrow> nat" where
  "trim_end value start 0 = 0"
| "trim_end value start (Suc e) =
     (if start \<le> e \<and> is_trimmed (value ! e) then trim_end value start e else Suc e)"

definition trim_output :: "string \<Rightarrow> string" where
  "trim_output value =
     (let start = trim_start value;
          end_of_text = trim_end value start (length value)
      in drop start (take end_of_text value))"

section \<open>The tools\<close>

record shell =
  env_upload_cmd :: "string option"
  env_download_cmd :: "string option"
  popen_output :: "string \<Rightarrow> FileSystem \<Rightarrow> string option"
  system_run :: "string \<Rightarrow> FileSystem \<Rightarrow> FileSystem option"

text \<open>A variable of the environment that is unset or empty stands for the installed tool.\<close>

definition tool :: "string option \<Rightarrow> string \<Rightarrow> string" where
  "tool variable installed = (case variable of Some c \<Rightarrow> if c = [] then installed else c | None \<Rightarrow> installed)"

text \<open>\<^verbatim>\<open>fgets\<close> of the first line.\<close>

definition fgets_line :: "nat \<Rightarrow> string \<Rightarrow> string option" where
  "fgets_line room output =
     (if output = [] then None
      else Some (take (room - 1)
        (takeWhile (\<lambda>c. c \<noteq> newline) output @ (if newline \<in> set output then [newline] else []))))"

definition upload_command :: "shell \<Rightarrow> string \<Rightarrow> string \<Rightarrow> string" where
  "upload_command sh conf_path filename =
     snprintf_cut 1024 (tool (env_upload_cmd sh) ''fdfs_upload_file'' @ '' '' @ conf_path @ '' '' @ filename @
       '' 2>/dev/null'')"

definition run_upload_command :: "'j cjson \<Rightarrow> bytes option \<Rightarrow> shell \<Rightarrow> FileSystem \<Rightarrow> path \<Rightarrow> string logged" where
  "run_upload_command json profile sh fs filename =
     l_then (get_cfg_value json profile ''dfs_path'' ''client'' 256) (\<lambda>conf_path.
       case popen_output sh (upload_command sh conf_path filename) fs of
         None \<Rightarrow> (Fails, [])
       | Some output \<Rightarrow>
           (case fgets_line 512 output of
              None \<Rightarrow> (Fails, [])
            | Some fileid \<Rightarrow>
                let fileid = trim_output (c_string fileid)
                in if fileid \<noteq> [] then (Returns fileid, []) else (Fails, [])))"

definition download_command :: "shell \<Rightarrow> string \<Rightarrow> string \<Rightarrow> path \<Rightarrow> string" where
  "download_command sh conf_path fileid local_filename =
     snprintf_cut 1024 (tool (env_download_cmd sh) ''fdfs_download_file'' @ '' '' @ conf_path @ '' '' @ fileid @
       '' '' @ local_filename @ '' >/dev/null 2>&1'')"

definition run_download_command ::
  "'j cjson \<Rightarrow> bytes option \<Rightarrow> shell \<Rightarrow> string \<Rightarrow> path \<Rightarrow> FileSystem \<Rightarrow> FileSystem logged" where
  "run_download_command json profile sh fileid local_filename fs =
     l_then (get_cfg_value json profile ''dfs_path'' ''client'' 256) (\<lambda>conf_path.
       case system_run sh (download_command sh conf_path fileid local_filename) fs of
         None \<Rightarrow> (Fails, [])
       | Some fs \<Rightarrow> (Returns fs, []))"

text \<open>The buffer for the address has 512 bytes in \<^verbatim>\<open>storage_backend.cpp\<close>.\<close>

definition make_file_url :: "'j cjson \<Rightarrow> bytes option \<Rightarrow> string \<Rightarrow> string logged" where
  "make_file_url json profile fileid =
     l_then (get_cfg_value json profile ''storage_web_server'' ''ip'' 256) (\<lambda>storage_ip.
     l_then (get_cfg_value json profile ''storage_web_server'' ''port'' 32) (\<lambda>storage_port.
       let file_url = ''http://'' @ storage_ip @ '':'' @ storage_port @ ''/'' @ fileid
       in (if length file_url < 512 then Returns file_url else Crashes, [])))"

text \<open>The three functions as the storage backend calls them, where none of them crashes.\<close>

definition returned :: "'a logged \<Rightarrow> 'a option" where
  "returned x = (case fst x of Returns v \<Rightarrow> Some v | _ \<Rightarrow> None)"

definition fdfs_bridge :: "'j cjson \<Rightarrow> bytes option \<Rightarrow> shell \<Rightarrow> FdfsApi" where
  "fdfs_bridge json profile sh =
     \<lparr>fdfs_upload_file = (\<lambda>fs filename. returned (run_upload_command json profile sh fs filename)),
      fdfs_make_file_url = (\<lambda>fileid. returned (make_file_url json profile fileid)),
      fdfs_download_file = (\<lambda>fileid p fs. returned (run_download_command json profile sh fileid p fs))\<rparr>"

section \<open>What trimming does\<close>

lemma trim_start_takeWhile: "trim_start line_of = length (takeWhile is_trimmed line_of)"
  by (induction line_of) auto

lemma trim_end_split:
  assumes "start \<le> n" and "n \<le> length line_of"
  shows "drop start (take (trim_end line_of start n) line_of) =
    rev (dropWhile is_trimmed (rev (drop start (take n line_of))))"
  using assms
proof (induction n)
  case (Suc n)
  show ?case
  proof (cases "start \<le> n")
    case True
    have "take (Suc n) line_of = take n line_of @ [line_of ! n]" using Suc.prems(2) by (simp add: take_Suc_conv_app_nth)
    moreover have "length (take n line_of) = n" using Suc.prems(2) by simp
    ultimately show ?thesis using Suc.IH True Suc.prems(2) by simp
  qed (use Suc.prems in simp)
qed simp

text \<open>Trimming takes the blanks off both ends, also when there is nothing else.\<close>

lemma trim_output_strip: "trim_output line_of = rev (dropWhile is_trimmed (rev (dropWhile is_trimmed line_of)))"
proof -
  have "trim_start line_of \<le> length line_of" by (simp add: trim_start_takeWhile length_takeWhile_le)
  then show ?thesis
    by (simp add: trim_output_def Let_def trim_end_split) (simp add: trim_start_takeWhile dropWhile_eq_drop)
qed

section \<open>Commands that do not fit\<close>

text \<open>A command of at most 1023 characters is complete.\<close>

lemma upload_command_complete:
  assumes "length (tool (env_upload_cmd sh) ''fdfs_upload_file'') + length conf_path + length filename + 14 \<le> 1023"
  shows "upload_command sh conf_path filename =
    tool (env_upload_cmd sh) ''fdfs_upload_file'' @ '' '' @ conf_path @ '' '' @ filename @ '' 2>/dev/null''"
  using assms unfolding upload_command_def snprintf_cut_def by (intro take_all) simp

lemma upload_command_cut:
  assumes "room = 1021 - length (tool (env_upload_cmd sh) ''fdfs_upload_file'') - length conf_path"
    and "room \<le> length filename"
  shows "upload_command sh conf_path filename = snprintf_cut 1024
    (tool (env_upload_cmd sh) ''fdfs_upload_file'' @ '' '' @ conf_path @ '' '' @ take room filename)"
proof -
  let ?front = "tool (env_upload_cmd sh) ''fdfs_upload_file'' @ '' '' @ conf_path @ '' ''"
  have room: "room = 1023 - length ?front" by (simp add: assms(1))
  have "upload_command sh conf_path filename = take 1023 (?front @ filename @ '' 2>/dev/null'')"
    by (simp add: upload_command_def snprintf_cut_def)
  also have "\<dots> = take 1023 ?front @ take room (filename @ '' 2>/dev/null'')"
    unfolding room by (rule take_append)
  also have "\<dots> = take 1023 ?front @ take room (take room filename)" using assms(2) by (simp add: take_append)
  also have "\<dots> = take 1023 (?front @ take room filename)" unfolding room by (rule take_append [symmetric])
  finally show ?thesis by (simp add: snprintf_cut_def)
qed

text \<open>
  C31: The command that uploads a file is cut at 1023 characters. Two files whose paths agree on the
  characters that fit are therefore the same to the upload: storing the one gives the storage key and the address that
  storing the other gives, and the backup of both is what the tool made of the common prefix.
\<close>

theorem long_paths_upload_alike:
  assumes "fst (get_cfg_value json profile ''dfs_path'' ''client'' 256) = Returns conf_path"
    and "room = 1021 - length (tool (env_upload_cmd sh) ''fdfs_upload_file'') - length conf_path"
    and "room \<le> length a" and "room \<le> length b" and "take room a = take room b"
    and "StoreFile (fdfs_bridge json profile sh) LegacyFastDfsStorageBackend now f a fs = (Inr r, fs')"
  shows "\<exists>r'. StoreFile (fdfs_bridge json profile sh) LegacyFastDfsStorageBackend now g b fs = (Inr r', fs) \<and> fs' = fs \<and>
    stored_file_id r' = file_file_id g \<and> stored_source_path r' = lexically_normal b \<and>
    stored_storage_key r' = stored_storage_key r \<and> stored_access_url r' = stored_access_url r"
proof -
  have "upload_command sh conf_path a = upload_command sh conf_path b"
    using upload_command_cut [OF assms(2,3)] upload_command_cut [OF assms(2,4)] assms(5) by simp
  then have "run_upload_command json profile sh fs a = run_upload_command json profile sh fs b"
    using assms(1) by (auto simp: run_upload_command_def l_then_def split: prod.split)
  then show ?thesis
    using assms(6) by (auto simp: FastDfs_StoreFile_def fdfs_bridge_def split: option.splits)
qed

text \<open>A configuration whose texts are all \<open>c\<close>, and a tool that prints one line.\<close>

definition sample_json :: "unit cjson" where
  "sample_json = \<lparr>cJSON_Parse = (\<lambda>_. Some ()), cJSON_GetObjectItem = (\<lambda>_ _. Some ()), cJSON_valuestring = (\<lambda>_. Some ''c'')\<rparr>"

definition sample_shell :: shell where
  "sample_shell = \<lparr>env_upload_cmd = Some [], env_download_cmd = None, popen_output = (\<lambda>_ _. Some ('' id'' @ [newline])),
     system_run = (\<lambda>_ _. None)\<rparr>"

definition long_path :: "char \<Rightarrow> path" where
  "long_path c = replicate 1100 (CHR ''x'') @ [c]"

theorem long_paths_upload_alike_witness:
  "\<exists>r r'. StoreFile (fdfs_bridge sample_json (Some []) sample_shell) LegacyFastDfsStorageBackend 7 FileRecord_init
      (long_path CHR ''1'') sample_fs = (Inr r, sample_fs) \<and>
    StoreFile (fdfs_bridge sample_json (Some []) sample_shell) LegacyFastDfsStorageBackend 7 FileRecord_init
      (long_path CHR ''2'') sample_fs = (Inr r', sample_fs) \<and>
    stored_storage_key r = ''id'' \<and> stored_storage_key r' = stored_storage_key r"
proof -
  have conf: "get_cfg_value sample_json (Some []) k i n = (if 1 < n then Returns ''c'' else Crashes, [])" for k i n
    by (simp add: get_cfg_value_def sample_json_def)
  have tool: "tool (env_upload_cmd sample_shell) ''fdfs_upload_file'' = ''fdfs_upload_file''"
    by (simp add: tool_def sample_shell_def)
  have "trim_output (c_string (the (fgets_line 512 ('' id'' @ [newline])))) = ''id''"
    by (simp add: fgets_line_def c_string_def trim_output_strip is_trimmed_def newline_def)
  then have upload: "run_upload_command sample_json (Some []) sample_shell fs p = (Returns ''id'', [])" for fs p
    by (simp add: run_upload_command_def conf l_then_def sample_shell_def fgets_line_def Let_def)
  have url: "make_file_url sample_json (Some []) ''id'' = (Returns ''http://c:c/id'', [])"
    by (simp add: make_file_url_def conf l_then_def Let_def)
  obtain r where r: "StoreFile (fdfs_bridge sample_json (Some []) sample_shell) LegacyFastDfsStorageBackend 7 FileRecord_init
      (long_path CHR ''1'') sample_fs = (Inr r, sample_fs)" "stored_storage_key r = ''id''"
    by (simp add: FastDfs_StoreFile_def fdfs_bridge_def upload url returned_def)
  have "take 1004 (long_path CHR ''1'') = take 1004 (long_path CHR ''2'')" "1004 \<le> length (long_path c)" for c
    by (simp_all add: long_path_def)
  then show ?thesis
    using long_paths_upload_alike [of sample_json "Some []" "''c''" 1004 sample_shell "long_path CHR ''1''" "long_path CHR ''2''"
        7 FileRecord_init sample_fs r sample_fs FileRecord_init] r
    by (auto simp: conf tool)
qed

end
