(* ===== verification/System_Demo.thy ===== *)
theory System_Demo
  imports Netdisk_Cli
begin

text \<open>
  \<^verbatim>\<open>apps/system_demo/main.cpp\<close>: a fixed script over an in-memory store. It ignores the statuses of the services,
  so it ends with 0 unless a service or a directory throws. The lemma is that the script, like every other
  program, keeps its store well formed.
\<close>

section \<open>The tree of the demo\<close>

definition demo_root :: path where "demo_root = ''/tmp/netdisk_v1_demo_source''"
definition demo_store_root :: path where "demo_store_root = ''/tmp/netdisk_v1_demo_store''"
definition demo_library_root :: path where "demo_library_root = ''/tmp/netdisk_v1_demo_library''"
definition demo_receive_root :: path where "demo_receive_root = ''/tmp/netdisk_v1_demo_receive''"

text \<open>An output stream that cannot be opened swallows what is written to it.\<close>

definition write_text :: "path \<Rightarrow> string \<Rightarrow> FileSystem \<Rightarrow> FileSystem" where
  "write_text p content fs =
     (case open_trunc p fs of
        None \<Rightarrow> fs
      | Some fs \<Rightarrow> snd (write_end p (map byte_of_char content) fs))"

fun create_all :: "path list \<Rightarrow> FileSystem \<Rightarrow> unit result \<times> FileSystem" where
  "create_all [] fs = (Inr (), fs)"
| "create_all (p # ps) fs =
     (case create_directories p fs of
        Inl e \<Rightarrow> (Inl e, fs)
      | Inr fs \<Rightarrow> create_all ps fs)"

definition demo_files :: "FileSystem \<Rightarrow> unit result \<times> FileSystem" where
  "demo_files fs =
     (case create_all [path_append demo_root ''docs'', demo_store_root, demo_library_root, demo_receive_root] fs of
        (Inl e, fs) \<Rightarrow> (Inl e, fs)
      | (Inr _, fs) \<Rightarrow>
          let docs = path_append demo_root ''docs'';
              fs = write_text (path_append docs ''report.txt'') (''important backup payload'' @ [newline]) fs
          in (Inr (), write_text (path_append docs ''handoff.txt'') (''shared library payload'' @ [newline]) fs))"

section \<open>Devices, identities and peers\<close>

definition demo_laptop :: "u64 \<Rightarrow> NodeInfo" where
  "demo_laptop now = \<lparr>node_node_id = ''node-laptop'', node_device_name = ''laptop'', node_zt_ip = ''10.147.17.2'',
     node_last_seen_epoch = now\<rparr>"

definition demo_desktop :: "u64 \<Rightarrow> NodeInfo" where
  "demo_desktop now = \<lparr>node_node_id = ''node-desktop'', node_device_name = ''desktop'', node_zt_ip = ''10.147.17.3'',
     node_last_seen_epoch = now\<rparr>"

definition demo_device :: "NodeInfo \<Rightarrow> SystemRuntime \<Rightarrow> SystemRuntime" where
  "demo_device node rt = write_store (UpsertNode node) (snd (on_store (RegisterDevice node) rt))"

definition demo_identity :: AuthIdentity where
  "demo_identity = \<lparr>ident_user_id = ''user-1'', ident_username = ''hjh'', ident_device_id = ''node-laptop''\<rparr>"

definition demo_session :: "u64 \<Rightarrow> AuthSession" where
  "demo_session now = \<lparr>session_session_id = ''session-1'', session_user_id = ''user-1'',
     session_device_id = ''node-laptop'', session_access_token = ''token-demo'', session_expires_at_epoch = now + 3600\<rparr>"

definition demo_peer :: "NodeInfo \<Rightarrow> OverlayPeer" where
  "demo_peer node = \<lparr>peer_node_id = node_node_id node, peer_virtual_ip = node_zt_ip node, peer_online = True,
     peer_last_seen_epoch = node_last_seen_epoch node\<rparr>"

definition demo_network :: "SystemRuntime \<Rightarrow> SystemRuntime" where
  "demo_network rt =
     (let now = rt_now rt;
          rt = demo_device (demo_laptop now) rt;
          rt = demo_device (demo_desktop now) rt;
          rt = rt\<lparr>rt_auth := snd (RegisterIdentity demo_identity (rt_auth rt))\<rparr>;
          rt = rt\<lparr>rt_auth := snd (UpsertSession (demo_session now) (rt_auth rt))\<rparr>;
          rt = rt\<lparr>rt_peers := snd (UpsertPeer (demo_peer (demo_laptop now)) (rt_peers rt))\<rparr>
      in rt\<lparr>rt_peers := snd (UpsertPeer (demo_peer (demo_desktop now)) (rt_peers rt))\<rparr>)"

section \<open>Backup, sharing, restore\<close>

definition demo_backup :: "FdfsApi \<Rightarrow> SystemRuntime \<Rightarrow> unit result \<times> SystemRuntime" where
  "demo_backup api rt =
     (let now = rt_now rt;
          (_, rt) = Backup_ConfigurePolicy (BackupPolicy_init\<lparr>bpolicy_policy_id := ''policy-docs'',
            bpolicy_node_id := ''node-laptop'', bpolicy_source_path := demo_root,
            bpolicy_schedule_expression := ''manual'', bpolicy_created_at_epoch := now\<rparr>) rt;
          job = \<lparr>job_job_id = ''backup-job-1'', job_node_id = ''node-laptop'', job_source_path = demo_root,
            job_destination_label = ''primary-store'', job_created_at_epoch = now\<rparr>
      in case CreateStorageBackend ''mirror'' demo_store_root of
           Inl e \<Rightarrow> (Inl e, rt)
         | Inr backend \<Rightarrow>
             (case ExecuteBackup api job backend rt of
                (Inl e, rt) \<Rightarrow> (Inl e, rt)
              | (Inr _, rt) \<Rightarrow> (Inr (), rt)))"

definition demo_share :: "SystemRuntime \<Rightarrow> unit result \<times> SystemRuntime" where
  "demo_share rt =
     (let now = rt_now rt;
          (_, rt) = Library_ConfigurePolicy share_policy rt;
          entry = SharedLibraryEntry_init\<lparr>entry_entry_id := ''entry-report'', entry_owner_node_id := ''node-laptop'',
            entry_source_path := path_append (path_append demo_root ''docs'') ''handoff.txt'',
            entry_display_name := ''handoff.txt'', entry_note := ''send to desktop'', entry_created_at_epoch := now,
            entry_expires_at_epoch := now + tpolicy_retention_seconds share_policy\<rparr>
      in case PublishFile entry demo_library_root rt of
           (Inl e, rt) \<Rightarrow> (Inl e, rt)
         | (Inr _, rt) \<Rightarrow>
             (case ReceiveEntry ''entry-report'' ''node-desktop'' demo_receive_root rt of
                (Inl e, rt) \<Rightarrow> (Inl e, rt)
              | (Inr _, rt) \<Rightarrow> (Inr (), rt)))"

definition demo_restore :: "SystemRuntime \<Rightarrow> SystemRuntime" where
  "demo_restore rt =
     snd (SubmitRestore (RestoreRequest_init\<lparr>restore_request_id := ''restore-job-1'', restore_file_id := ''file-report'',
       restore_source_node_id := ''node-laptop'', restore_target_node_id := ''node-desktop'',
       restore_destination_path := ''/restore/report.zip'', restore_created_at_epoch := rt_now rt\<rparr>) rt)"

definition demo_report :: "SystemRuntime \<Rightarrow> string" where
  "demo_report rt =
     (let db = rt_store rt;
          counted = (\<lambda>name n. println [name, ''='', to_string n])
      in counted ''devices'' (length (ListDevices db)) @
         counted ''online_peers'' (length (ListOnlinePeers (rt_peers rt))) @
         counted ''backup_policies'' (length (ListBackupPolicies db)) @
         counted ''backup_jobs'' (length (ListJobs rt)) @
         counted ''indexed_files'' (length (Index_ListIndexedFiles db)) @
         counted ''backup_records'' (length (ListBackupRecordsForNode db ''node-laptop'')) @
         counted ''transfer_entries'' (length (ListEntries rt)) @
         counted ''transfer_tasks'' (length (ListTasksByDomain db DomainTransfer)) @
         println [''received_exists='', printed_bool (fs_exists (rt_fs rt) (path_append demo_receive_root ''handoff.txt''))] @
         counted ''restore_requests'' (length (Recovery_ListRestoreRequests rt)) @
         counted ''audit_events'' (length (Audit_ListEvents rt)))"

section \<open>The program\<close>

definition demo_services :: "FdfsApi \<Rightarrow> SystemRuntime \<Rightarrow> unit result \<times> SystemRuntime" where
  "demo_services api rt =
     (case demo_backup api (demo_network rt) of
        (Inl e, rt) \<Rightarrow> (Inl e, rt)
      | (Inr _, rt) \<Rightarrow>
          (case demo_share rt of
             (Inl e, rt) \<Rightarrow> (Inl e, rt)
           | (Inr _, rt) \<Rightarrow> (Inr (), demo_restore rt)))"

definition system_demo_main :: "FdfsApi \<Rightarrow> 'w host \<Rightarrow> outcome \<times> 'w host" where
  "system_demo_main api h =
     (case demo_files (host_disk h) of
        (Inl e, fs) \<Rightarrow> (terminates e, h\<lparr>host_disk := fs\<rparr>)
      | (Inr _, fs) \<Rightarrow>
          (case demo_services api (SystemRuntime_new MetadataStore_init None fs (host_now h) (host_now_ns h)) of
             (Inl e, rt) \<Rightarrow> (terminates e, h\<lparr>host_disk := rt_fs rt\<rparr>)
           | (Inr _, rt) \<Rightarrow> (succeeds (demo_report rt), h\<lparr>host_disk := rt_fs rt\<rparr>)))"

section \<open>What the script keeps\<close>

lemma demo_network_inv: "system_inv (rt_store rt) \<Longrightarrow> system_inv (rt_store (demo_network rt))"
  by (simp add: demo_network_def demo_device_def on_store_def RegisterDevice_def write_store_def Let_def)

lemma demo_backup_inv:
  assumes "system_inv (rt_store rt)"
  shows "system_inv (rt_store (snd (demo_backup api rt)))"
proof -
  have exec: "system_inv (rt_store rt2)" if "ExecuteBackup api job backend rt1 = (x, rt2)" "system_inv (rt_store rt1)"
    for job backend x rt1 rt2
    using ExecuteBackup_inv [OF that(2), of api job backend] that(1) by simp
  have policy: "system_inv (rt_store rt1)" if "Backup_ConfigurePolicy p rt = (x, rt1)" for p x rt1
    using Backup_ConfigurePolicy_inv [OF assms, of p] that by simp
  show ?thesis
    unfolding demo_backup_def Let_def
    by (auto split: sum.split prod.split dest: exec policy)
qed

lemma demo_share_inv:
  assumes "system_inv (rt_store rt)"
  shows "system_inv (rt_store (snd (demo_share rt)))"
proof -
  have ok: "entry_ok e" if "entry_recipients e = []" for e using that by (simp add: entry_ok_def)
  have publish: "system_inv (rt_store rt2)"
    if "PublishFile e root rt1 = (x, rt2)" "system_inv (rt_store rt1)" "entry_recipients e = []" for e root x rt1 rt2
    using PublishFile_inv [OF that(2) ok [OF that(3)], of root] that(1) by simp
  have receive: "system_inv (rt_store rt2)" if "ReceiveEntry k n root rt1 = (x, rt2)" "system_inv (rt_store rt1)"
    for k n root x rt1 rt2
    using ReceiveEntry_inv [OF that(2), of k n root] that(1) by simp
  have policy: "system_inv (rt_store rt1)" if "Library_ConfigurePolicy p rt = (x, rt1)" for p x rt1
    using Library_ConfigurePolicy_simps(3) [OF assms, of p] that by simp
  show ?thesis
    unfolding demo_share_def Let_def
    by (auto split: sum.split prod.split dest!: policy publish receive simp: SharedLibraryEntry_init_def)
qed

lemma demo_services_inv:
  assumes "system_inv (rt_store rt)"
  shows "system_inv (rt_store (snd (demo_services api rt)))"
proof -
  have backup: "system_inv (rt_store rt1)" if "demo_backup api (demo_network rt) = (x, rt1)" for x rt1
    using demo_backup_inv [OF demo_network_inv [OF assms], of api] that by simp
  have share: "system_inv (rt_store rt2)" if "demo_share rt1 = (x, rt2)" "system_inv (rt_store rt1)" for x rt1 rt2
    using demo_share_inv [OF that(2)] that(1) by simp
  have restore: "system_inv (rt_store (demo_restore rt1))" if "system_inv (rt_store rt1)" for rt1
    unfolding demo_restore_def
    by (rule SubmitRestore_inv [OF that])
  show ?thesis
    unfolding demo_services_def
    by (auto split: sum.split prod.split intro: restore dest: backup share)
qed

end
