(* ===== verification/Spec2Isabelle.thy ===== *)
theory Spec2Isabelle
  imports Transport Sync_Cli Sqlite_Contract Machine Control_Remote Agent_Cli Fdfs_Bridge System_Demo
begin

text \<open>
  NodeDisk: a verification development for the C++ sources under \<^verbatim>\<open>src/\<close>.

  NodeDisk moves files between the machines of one owner. It has three layers, and the development has
  them too. The \<^emph>\<open>sync core\<close> cuts files into chunks, compares a remote manifest with local
  metadata, transfers the missing chunks as frames and commits a file only after its hash agreed. The
  \<^emph>\<open>services\<close> (tasks, devices, policies, overlay, sessions, audit, backup, recovery, shared
  library) work over one metadata store and one disk. The \<^emph>\<open>programs\<close> put them together: the
  sync program, the control node with its line protocol, and the device agent that polls it. Names are
  those of the code; a struct is a record whose fields carry a short prefix.

  \<^bold>\<open>Foundations.\<close>
  \<^item> \<open>Netdisk_Prelude\<close>: widths, the exceptions the code can raise, the replace-or-append loop of every
    keyed vector and the interface \<open>keyed_table\<close> its clients use, decimal text.
  \<^item> \<open>Std_Text\<close>: \<open>std::to_string\<close>, \<open>std::stoull\<close>, \<open>find\<close>, \<open>getline\<close>, \<open>operator>>\<close>.
  \<^item> \<open>Core_Types\<close>: \<^verbatim>\<open>core/types.h\<close>, \<^verbatim>\<open>network/protocol.h\<close>, \<^verbatim>\<open>common/status.h\<close> and the
    conversions of enums to text.
  \<^item> \<open>File_System\<close>: path algebra and a tree of regular files and directories with the operations of
    \<^verbatim>\<open>std::filesystem\<close> and of file streams the code calls. Which entries can be read or written and how
    large a file may grow are fields of the state, so every call has its failing branch.

  \<^bold>\<open>Sync core.\<close>
  \<^item> \<open>Md5_Hash\<close>: \<^verbatim>\<open>common/md5.c\<close>, \<^verbatim>\<open>sync/hash.cpp\<close> on 32 bit words. The buffered update computes the
    reference digest of everything fed to it (\<open>md5_incremental_is_reference\<close>), which is the law of the
    interface \<open>hasher\<close> that chunker, reader and writer are proved from.
  \<^item> \<open>Protocol_Codec\<close>: \<^verbatim>\<open>network/protocol_codec.cpp\<close>. \<open>wire_codec\<close> is the interface of a field format:
    what was appended is read back with the cursor behind it.
  \<^item> \<open>Transport\<close>: \<^verbatim>\<open>network/transport.cpp\<close>. The in-memory endpoints share two queues, kept as cells of
    a store; the socket endpoint runs over a system that transfers any positive number of bytes per call.
  \<^item> \<open>Sync_Chunks\<close>, \<open>Sync_Diff\<close>, \<open>Sync_Writer\<close>, \<open>Sync_Scanner\<close>: \<^verbatim>\<open>sync/chunker.cpp\<close>,
    \<^verbatim>\<open>chunk_reader.cpp\<close>, \<^verbatim>\<open>diff_engine.cpp\<close>, \<^verbatim>\<open>sync_writer.cpp\<close>, \<^verbatim>\<open>scanner.cpp\<close>.
  \<^item> \<open>Sync_Session\<close>, \<open>Sync_Delivery\<close>, \<open>Sync_Run\<close>, \<open>Sync_Cli\<close>: \<^verbatim>\<open>apps/sync_v1/main.cpp\<close>: the serving loop,
    the plan and the work of one file, what the two sides do together, the run of the client, and the program from
    its arguments to its exit code, with the case in which it never ends. The peer of the client is a parameter;
    \<open>server_peer\<close> instantiates it with the serving loop. Client and server of the program can share a disk; the
    end-to-end theorem fixes the tree the server reads.

  \<^bold>\<open>Metadata.\<close>
  \<^item> \<open>Metadata_Store\<close>: \<open>InMemoryMetadataStore\<close>, fourteen vectors and every operation. The services are
    built over this state.
  \<^item> \<open>Sql_Engine\<close>, \<open>Sqlite_Store\<close>: the statements of \<open>SqliteMetadataStore\<close> over a small semantics of the
    SQL they use: what each statement binds, what each column decodes to, the schema and its upgrade.
  \<^item> \<open>Sqlite_Refinement\<close>, \<open>Sqlite_Relations\<close>, \<open>Sqlite_Files\<close>, \<open>Sqlite_Contract\<close>: \<open>store_of\<close> abstracts a
    database to a store; every statement commutes with it, so the services behave the same over a
    database, up to what the theorems say: texts end at a NUL, listings are sorted, a constraint of the
    schema refuses some writes, and a file row is identified by its path.

  \<^bold>\<open>Services and programs.\<close>
  \<^item> \<open>Storage\<close>, \<open>Control_Plane\<close>: \<^verbatim>\<open>src/storage\<close>, the managers of \<^verbatim>\<open>src/control_plane\<close> and
    \<^verbatim>\<open>src/security\<close>, and \<open>SystemRuntime\<close>, which owns them.
  \<^item> \<open>Log_Files\<close>, \<open>Fdfs_Bridge\<close>: \<^verbatim>\<open>common/make_log.c\<close>, \<^verbatim>\<open>common/config_loader.c\<close>, \<^verbatim>\<open>storage/fdfs_api.c\<close>, the
    part in C: log files, configuration, and the commands for the FastDFS tools. \<open>fdfs_bridge\<close> is the value of
    the parameter \<open>FdfsApi\<close> that the program is linked with.
  \<^item> \<open>Backup\<close>, \<open>Recovery\<close>, \<open>Shared_Library\<close>, \<open>Control_Service\<close>: the services that execute tasks. Their
    lemmas follow one execution through its loop; the properties say what each status they can answer
    guarantees of the disk and of the store.
  \<^item> \<open>Control_Server\<close>, \<open>Control_Client\<close>: both halves of \<^verbatim>\<open>control_plane/control_node_server.cpp\<close>. A command is
    a line of text; the handlers may throw, and nothing catches it. The network between the halves is a
    parameter, and \<open>control_link\<close> instantiates it with the server, so that round trips and agreement of remote
    and local calls are theorems about client and server together.
  \<^item> \<open>Device_Agent\<close>: \<^verbatim>\<open>control_plane/device_agent_service.cpp\<close> and the agent of
    \<^verbatim>\<open>apps/device_agent/main.cpp\<close>. The control node is behind the interface \<open>task_service\<close>, interpreted
    on \<open>control_link\<close>.
  \<^item> \<open>Program_Host\<close>: the machine a program runs on (its databases, disk, clock and network) and how a run of a
    program ends: an exit code with what was printed, an exception nobody caught, or a server that waits.
  \<^item> \<open>Control_Cli\<close>, \<open>Netdisk_Cli\<close>, \<open>Agent_Cli\<close>: \<^verbatim>\<open>apps/control_node/main.cpp\<close>,
    \<^verbatim>\<open>apps/netdisk_cli/main.cpp\<close>, \<^verbatim>\<open>apps/device_agent/main.cpp\<close>: every subcommand from its arguments
    to its output. Their properties say what an exit code of 0 means and what a subcommand changes on the way.
  \<^item> \<open>System_Demo\<close>: \<^verbatim>\<open>apps/system_demo/main.cpp\<close>, a fixed script over the services.
  \<^item> \<open>Control_Report\<close>: a reference reader of JSON, and the proof that it reads the listings of the control node
    back. \<open>Control_Remote\<close>: a remote subcommand together with the server that answers it. \<open>Machine\<close>: any
    sequence of programs and requests on one machine, and the invariant of its databases.

  \<^bold>\<open>Conventions.\<close> A C++ exception is the left value of a sum, or a component of the returned tuple
  where the caller goes on using the state that the call leaves behind. Sizes that the code keeps in 32 or
  64 bits are words where they can wrap. Loops over containers are structural recursion. The three loops
  that wait for someone else are treated as follows: \<open>serve_loop\<close> of the agent is a
  \<^theory_text>\<open>partial_function\<close> over options, and \<open>serve_loop_returns\<close> proves when it has a value; the serving loop
  of a sync connection and the accept loop of the control node recurse over the frames and connections that
  arrive, which is the list they are given; reading and writing a socket recurse over the bytes that are
  left. No definition of the code takes fuel; the reference reader of JSON takes a bound on nesting, for which the
  length of the text is proved to be enough (\<open>depth_le_length\<close>).

  \<^bold>\<open>Parameters.\<close> The FastDFS client (\<open>FdfsApi\<close>, with \<open>fdfs_bridge\<close> as an instance), the shell and the tools
  it runs, the vendored cJSON, what the operating system transfers per socket call, the network of the control
  node client, the clock and the random identifiers of a run (\<open>surroundings\<close>), and the peer of the sync client.
  SQLite itself is not in the repository; \<open>Sql_Engine\<close> states the documented behaviour of the statements that
  are used, and leaves out what no theorem may depend on (the order of rows with equal keys).

  \<^bold>\<open>Not modelled.\<close> Threads (each loop is modelled on its own; the in-memory server thread of the sync
  program is a peer) and what the threads of the sync program print, opening and closing sockets, symbolic
  links, and the vendored cJSON. They are input and output around the calls that are modelled. The log of the
  configuration loader is given as the messages of each call and is not threaded through the storage backend.
  A run of a program sees one value of the clock, and a database of a machine is the store it stands for.
\<close>

end
